(* ===== verification/Prelude.thy ===== *)
theory Prelude
  imports Main "HOL-Library.Char_ord" "HOL-Library.List_Lexorder"
begin

text \<open>
  Shared ground of the development: the effect type of the C++ member functions, a weakest
  precondition calculus for it, C integers and strings, and \<open>std::map\<close> as a sorted
  association list. Nothing here is specific to one component.
\<close>

section \<open>Collections of hints\<close>

named_theorems wp_rules \<open>introduction rules for the outside operations, for \<open>intro!\<close>\<close>
named_theorems wp_defs \<open>definitions that a weakest precondition proof unfolds\<close>
named_theorems errno_defs \<open>error numbers\<close>

section \<open>Functions with effects\<close>

text \<open>
  A member function runs in an outside world \<open>'w\<close> (the document server, the file system, the
  network) and ends with a value or in a state the C++ standard or the process gives no value
  for: dereferencing a null pointer, flowing off the end of a function that must return, a
  failed \<open>assert\<close>, an uncaught exception, a read outside an array, a future nobody fulfils, the memory of
  an object that was deleted.
\<close>

datatype crash =
    Null_Deref
  | Missing_Return
  | Assert_Failed
  | Out_Of_Range
  | Uncaught_Exception
  | Blocked_Forever
  | Use_After_Free

datatype 'a outcome = Val 'a | Crash crash

type_synonym ('w, 'a) prog = "'w \<Rightarrow> 'a outcome \<times> 'w"

definition ret :: "'a \<Rightarrow> ('w, 'a) prog" where
  "ret a = (\<lambda>w. (Val a, w))"

definition crash :: "crash \<Rightarrow> ('w, 'a) prog" where
  "crash c = (\<lambda>w. (Crash c, w))"

definition bnd :: "('w, 'a) prog \<Rightarrow> ('a \<Rightarrow> ('w, 'b) prog) \<Rightarrow> ('w, 'b) prog" where
  "bnd m f = (\<lambda>w. case m w of (r, w') \<Rightarrow> (case r of Val a \<Rightarrow> f a w' | Crash c \<Rightarrow> (Crash c, w')))"

definition ext :: "('w \<Rightarrow> 'a \<times> 'w) \<Rightarrow> ('w, 'a) prog" where
  "ext f = (\<lambda>w. case f w of (a, w') \<Rightarrow> (Val a, w'))"

definition deref :: "'a option \<Rightarrow> ('w, 'a) prog" where
  "deref p = (case p of Some a \<Rightarrow> ret a | None \<Rightarrow> crash Null_Deref)"

text \<open>\<open>wp m Q w\<close>: running \<open>m\<close> from \<open>w\<close> ends in an outcome and a world that satisfy \<open>Q\<close>.\<close>

definition wp :: "('w, 'a) prog \<Rightarrow> ('a outcome \<Rightarrow> 'w \<Rightarrow> bool) \<Rightarrow> 'w \<Rightarrow> bool" where
  "wp m Q w = (case m w of (r, w') \<Rightarrow> Q r w')"

lemma wp_ret [simp]: "wp (ret a) Q w = Q (Val a) w"
  by (simp add: wp_def ret_def)

lemma wp_crash [simp]: "wp (crash c) Q w = Q (Crash c) w"
  by (simp add: wp_def crash_def)

lemma wp_bnd [simp]:
  "wp (bnd m f) Q w
    = wp m (\<lambda>r w'. case r of Val a \<Rightarrow> wp (f a) Q w' | Crash c \<Rightarrow> Q (Crash c) w') w"
  by (simp add: wp_def bnd_def split: prod.splits outcome.splits)

lemma wp_ext: "wp (ext f) Q w = (case f w of (a, w') \<Rightarrow> Q (Val a) w')"
  by (simp add: wp_def ext_def split: prod.splits)

lemma wp_deref [simp]:
  "wp (deref p) Q w = (case p of Some a \<Rightarrow> Q (Val a) w | None \<Rightarrow> Q (Crash Null_Deref) w)"
  by (simp add: deref_def split: option.splits)

lemma wp_if [simp]: "wp (if b then m else n) Q w = (if b then wp m Q w else wp n Q w)"
  by simp

lemma wp_mono:
  assumes "wp m P w" and "\<And>r w'. P r w' \<Longrightarrow> Q r w'"
  shows "wp m Q w"
  using assms by (auto simp: wp_def split: prod.splits)

lemma wp_conj: "wp m (\<lambda>r w'. P r w' \<and> Q r w') w = (wp m P w \<and> wp m Q w)"
  by (auto simp: wp_def split: prod.splits)

lemma wp_D: "wp m Q w \<Longrightarrow> m w = (r, w') \<Longrightarrow> Q r w'"
  by (simp add: wp_def)

lemma wp_I: "(\<And>r w'. m w = (r, w') \<Longrightarrow> Q r w') \<Longrightarrow> wp m Q w"
  by (simp add: wp_def split: prod.splits)

text \<open>A step whose result is known, followed by the rest.\<close>

lemma wp_step:
  assumes "wp m (\<lambda>r w'. r = Val a \<and> P w') w" and "\<And>w'. P w' \<Longrightarrow> wp (f a) Q w'"
  shows "wp (bnd m f) Q w"
  using assms by (auto elim!: wp_mono)

section \<open>Error numbers\<close>

abbreviation (input) EPERM :: int where "EPERM \<equiv> 1"
abbreviation (input) ENOENT :: int where "ENOENT \<equiv> 2"
abbreviation (input) ENXIO :: int where "ENXIO \<equiv> 6"
abbreviation (input) E2BIG :: int where "E2BIG \<equiv> 7"
abbreviation (input) EBADF :: int where "EBADF \<equiv> 9"
abbreviation (input) EAGAIN :: int where "EAGAIN \<equiv> 11"
abbreviation (input) ENOMEM :: int where "ENOMEM \<equiv> 12"
abbreviation (input) EACCES :: int where "EACCES \<equiv> 13"
abbreviation (input) EINVAL :: int where "EINVAL \<equiv> 22"
abbreviation (input) ENOSPC :: int where "ENOSPC \<equiv> 28"
abbreviation (input) ENETUNREACH :: int where "ENETUNREACH \<equiv> 101"

section \<open>Machine integers\<close>

text \<open>
  Signed integers are \<open>int\<close> with the two's complement wrap-around of the width written out,
  as the unoptimised build computes it.
\<close>

definition i32 :: "int \<Rightarrow> int" where
  "i32 x = signed_take_bit 31 x"

definition i64 :: "int \<Rightarrow> int" where
  "i64 x = signed_take_bit 63 x"

definition in_i32 :: "int \<Rightarrow> bool" where
  "in_i32 x \<longleftrightarrow> - (2 ^ 31) \<le> x \<and> x < 2 ^ 31"

definition in_i64 :: "int \<Rightarrow> bool" where
  "in_i64 x \<longleftrightarrow> - (2 ^ 63) \<le> x \<and> x < 2 ^ 63"

definition in_u32 :: "int \<Rightarrow> bool" where
  "in_u32 x \<longleftrightarrow> 0 \<le> x \<and> x < 2 ^ 32"

lemma i32_id: "in_i32 x \<Longrightarrow> i32 x = x"
  unfolding i32_def in_i32_def by (rule signed_take_bit_int_eq_self) auto

lemma i64_id: "in_i64 x \<Longrightarrow> i64 x = x"
  unfolding i64_def in_i64_def by (rule signed_take_bit_int_eq_self) auto

lemma in_i64_i64 [simp]: "in_i64 (i64 x)"
  using signed_take_bit_int_greater_eq_minus_exp [of 63 x]
    signed_take_bit_int_less_exp [of 63 x]
  by (simp add: in_i64_def i64_def)

section \<open>C strings\<close>

text \<open>What is left of a string that passes through \<open>c_str()\<close>: the bytes before the first NUL.\<close>

definition cstr :: "string \<Rightarrow> string" where
  "cstr s = takeWhile (\<lambda>c. c \<noteq> CHR 0x00) s"

definition nul_free :: "string \<Rightarrow> bool" where
  "nul_free s \<longleftrightarrow> CHR 0x00 \<notin> set s"

lemma cstr_id: "nul_free s \<Longrightarrow> cstr s = s"
  by (auto simp: cstr_def nul_free_def takeWhile_eq_all_conv)

lemma nul_free_cstr [simp]: "nul_free (cstr s)"
  by (auto simp: cstr_def nul_free_def dest: set_takeWhileD)

lemma cstr_cstr [simp]: "cstr (cstr s) = cstr s"
  by (simp add: cstr_id)

lemma cstr_Nil [simp]: "cstr [] = []"
  by (simp add: cstr_def)

text \<open>\<open>snprintf(buf, n, ...)\<close> keeps at most \<open>n - 1\<close> bytes of the formatted text.\<close>

definition snprintf_n :: "nat \<Rightarrow> string \<Rightarrow> string" where
  "snprintf_n n s = take (n - 1) s"

lemma length_snprintf_n: "length (snprintf_n n s) \<le> n - 1"
  by (simp add: snprintf_n_def)

lemma snprintf_n_short: "length s < n \<Longrightarrow> snprintf_n n s = s"
  by (simp add: snprintf_n_def)

text \<open>Decimal text of a number, as \<open>%d\<close> prints it.\<close>

fun nat_dec :: "nat \<Rightarrow> string" where
  "nat_dec n = (if n < 10 then [char_of (48 + n)]
                else nat_dec (n div 10) @ [char_of (48 + n mod 10)])"

declare nat_dec.simps [simp del]

definition int_dec :: "int \<Rightarrow> string" where
  "int_dec i = (if i < 0 then ''-'' @ nat_dec (nat (- i)) else nat_dec (nat i))"

section \<open>Lists used as vectors\<close>

definition erase_all :: "'a \<Rightarrow> 'a list \<Rightarrow> 'a list" where
  "erase_all x xs = filter (\<lambda>y. y \<noteq> x) xs"

lemma set_erase_all [simp]: "set (erase_all x xs) = set xs - {x}"
  by (auto simp: erase_all_def)

lemma set_foldl_erase_all: "set (foldl (\<lambda>m x. erase_all x m) ys xs) = set ys - set xs"
  by (induction xs arbitrary: ys) auto

section \<open>\<open>std::map\<close>\<close>

text \<open>
  A map is the list of its entries in key order. \<open>smap_set\<close> is \<open>m[k] = v\<close>, \<open>smap_erase\<close> is
  \<open>m.erase(k)\<close>, \<open>smap_at\<close> is the value that \<open>m[k]\<close> reads, where an absent key reads as the
  default.
\<close>

fun smap_set :: "'k::linorder \<Rightarrow> 'v \<Rightarrow> ('k \<times> 'v) list \<Rightarrow> ('k \<times> 'v) list" where
  "smap_set k v [] = [(k, v)]"
| "smap_set k v ((k', v') # m) =
     (if k < k' then (k, v) # (k', v') # m
      else if k = k' then (k, v) # m
      else (k', v') # smap_set k v m)"

definition smap_erase :: "'k \<Rightarrow> ('k \<times> 'v) list \<Rightarrow> ('k \<times> 'v) list" where
  "smap_erase k m = filter (\<lambda>p. fst p \<noteq> k) m"

definition smap_at :: "'v \<Rightarrow> ('k \<times> 'v) list \<Rightarrow> 'k \<Rightarrow> 'v" where
  "smap_at d m k = (case map_of m k of Some v \<Rightarrow> v | None \<Rightarrow> d)"

definition smap_ok :: "('k::linorder \<times> 'v) list \<Rightarrow> bool" where
  "smap_ok m \<longleftrightarrow> sorted_wrt (<) (map fst m)"

lemma map_of_smap_set [simp]: "map_of (smap_set k v m) = (map_of m)(k \<mapsto> v)"
  by (induction k v m rule: smap_set.induct) (auto simp: fun_eq_iff)

lemma map_of_smap_erase [simp]: "map_of (smap_erase k m) = (map_of m)(k := None)"
  by (induction m) (auto simp: smap_erase_def fun_eq_iff)

lemma set_keys_smap_set [simp]: "fst ` set (smap_set k v m) = insert k (fst ` set m)"
  by (induction k v m rule: smap_set.induct) auto

lemma set_keys_smap_erase [simp]: "fst ` set (smap_erase k m) = fst ` set m - {k}"
  by (auto simp: smap_erase_def)

lemma smap_ok_Nil [simp]: "smap_ok []"
  by (simp add: smap_ok_def)

lemma smap_ok_Cons:
  "smap_ok ((k, v) # m) \<longleftrightarrow> (\<forall>k' \<in> fst ` set m. k < k') \<and> smap_ok m"
  by (auto simp: smap_ok_def)

lemma smap_ok_set [simp]: "smap_ok m \<Longrightarrow> smap_ok (smap_set k v m)"
  by (induction k v m rule: smap_set.induct) (auto simp: smap_ok_Cons)

lemma smap_ok_erase [simp]: "smap_ok m \<Longrightarrow> smap_ok (smap_erase k m)"
  by (induction m) (auto simp: smap_ok_Cons smap_erase_def split: prod.splits)

lemma smap_set_append:
  "(\<forall>k' \<in> fst ` set m. k' < k) \<Longrightarrow> smap_set k v m = m @ [(k, v)]"
  by (induction k v m rule: smap_set.induct) auto

text \<open>Re-inserting the entries of a well-formed map, in order, gives the map back.\<close>

lemma smap_rebuild_acc:
  assumes "smap_ok (acc @ m)"
  shows "foldl (\<lambda>t (k, v). smap_set k v t) acc m = acc @ m"
  using assms
proof (induction m arbitrary: acc)
  case Nil
  then show ?case by simp
next
  case (Cons p m)
  obtain k v where p: "p = (k, v)" by (cases p)
  have "\<forall>k' \<in> fst ` set acc. k' < k"
    using Cons.prems p by (auto simp: smap_ok_def sorted_wrt_append)
  then have "smap_set k v acc = acc @ [(k, v)]" by (rule smap_set_append)
  moreover have "smap_ok ((acc @ [(k, v)]) @ m)" using Cons.prems p by simp
  ultimately show ?case using Cons.IH [of "acc @ [(k, v)]"] p by simp
qed

lemma smap_rebuild: "smap_ok m \<Longrightarrow> foldl (\<lambda>t (k, v). smap_set k v t) [] m = m"
  using smap_rebuild_acc [of "[]" m] by simp

end
