(* ===== verification/Json.thy ===== *)
theory Json
  imports Prelude "HOL-Library.Word"
begin

text \<open>
  \<open>common/JsonSerializer.h\<close>, \<open>common/JsonSerializer.cc\<close> and \<open>common/json.h\<close>: the encoders and
  decoders of the base class that every stored or transmitted struct inherits, and its
  \<open>serialize\<close> and \<open>deserialize\<close>. The rapidjson library is a parameter: its writer from a value
  to text and its parser from text to a value. \<open>json_law\<close> is what the code relies on: parsing
  what the writer wrote gives the value back. It is claimed for values without floating point
  numbers whose integers fit the library's 64 bit numbers.
\<close>

section \<open>Values\<close>

datatype json =
    JNull
  | JBool bool
  | JInt int
  | JDouble "64 word"
  | JStr string
  | JArr "json list"
  | JObj "(string \<times> json) list"

type_synonym members = "(string \<times> json) list"

record rapidjson =
  rj_write :: "json \<Rightarrow> string"
  rj_parse :: "string \<Rightarrow> json option"

fun plain :: "json \<Rightarrow> bool" where
  "plain JNull = True"
| "plain (JBool b) = True"
| "plain (JInt i) \<longleftrightarrow> - (2 ^ 63) \<le> i \<and> i < 2 ^ 64"
| "plain (JDouble d) = False"
| "plain (JStr s) = True"
| "plain (JArr xs) = list_all plain xs"
| "plain (JObj ms) = list_all (\<lambda>p. plain (snd p)) ms"

definition json_law :: "'z rapidjson_scheme \<Rightarrow> bool" where
  "json_law rj \<longleftrightarrow>
     (\<forall>j. plain j \<longrightarrow> rj_parse rj (cstr (rj_write rj j)) = Some j)"

lemma json_lawD: "json_law rj \<Longrightarrow> plain j \<Longrightarrow> rj_parse rj (cstr (rj_write rj j)) = Some j"
  by (simp add: json_law_def)

section \<open>Encoders\<close>

text \<open>
  \<open>put(key, value)\<close> appends one member; the writer receives the key as a C string, and all
  keys of the program are literals.
\<close>

definition enc_int :: "int \<Rightarrow> json" where "enc_int i = JInt i"
definition enc_bool :: "bool \<Rightarrow> json" where "enc_bool b = JBool b"
definition enc_double :: "64 word \<Rightarrow> json" where "enc_double d = JDouble d"
definition enc_str :: "string \<Rightarrow> json" where "enc_str s = JStr s"

definition enc_vec :: "('a \<Rightarrow> json) \<Rightarrow> 'a list \<Rightarrow> json" where
  "enc_vec e xs = JArr (map e xs)"

definition enc_map :: "('a \<Rightarrow> json) \<Rightarrow> (string \<times> 'a) list \<Rightarrow> json" where
  "enc_map e m = JObj (map (\<lambda>(k, v). (cstr k, e v)) m)"

text \<open>A shared pointer is the object it points to, or the number 0 when it is null.\<close>

definition enc_ptr :: "('a \<Rightarrow> json) \<Rightarrow> 'a option \<Rightarrow> json" where
  "enc_ptr e p = (case p of Some a \<Rightarrow> e a | None \<Rightarrow> enc_int 0)"

section \<open>Decoders\<close>

text \<open>
  A decoder takes the value and what the destination holds before; on a value of another type
  it returns the error code that every caller discards, and the destination keeps what it held.
\<close>

definition dec_uint :: "json \<Rightarrow> int \<Rightarrow> int" where
  "dec_uint v old = (case v of JInt i \<Rightarrow> (if in_u32 i then i else old) | _ \<Rightarrow> old)"

definition dec_int :: "json \<Rightarrow> int \<Rightarrow> int" where
  "dec_int v old = (case v of JInt i \<Rightarrow> (if in_i32 i then i else old) | _ \<Rightarrow> old)"

definition dec_i64 :: "json \<Rightarrow> int \<Rightarrow> int" where
  "dec_i64 v old = (case v of JInt i \<Rightarrow> (if in_i64 i then i else old) | _ \<Rightarrow> old)"

definition dec_u64 :: "json \<Rightarrow> int \<Rightarrow> int" where
  "dec_u64 v old = (case v of JInt i \<Rightarrow> (if 0 \<le> i \<and> i < 2 ^ 64 then i else old) | _ \<Rightarrow> old)"

definition dec_bool :: "json \<Rightarrow> bool \<Rightarrow> bool" where
  "dec_bool v old = (case v of JBool b \<Rightarrow> b | _ \<Rightarrow> old)"

definition dec_double :: "json \<Rightarrow> 64 word \<Rightarrow> 64 word" where
  "dec_double v old = (case v of JDouble d \<Rightarrow> d | _ \<Rightarrow> old)"

definition dec_str :: "json \<Rightarrow> string \<Rightarrow> string" where
  "dec_str v old = (case v of JStr s \<Rightarrow> cstr s | _ \<Rightarrow> old)"

text \<open>
  A vector is rebuilt from value-initialised elements (\<open>d\<close>), each decoded in place; a map from an
  empty map, where \<open>tmp[name]\<close> default-constructs an absent entry and a repeated name decodes over
  the first.
\<close>

definition dec_vec :: "(json \<Rightarrow> 'a \<Rightarrow> 'a) \<Rightarrow> 'a \<Rightarrow> json \<Rightarrow> 'a list \<Rightarrow> 'a list" where
  "dec_vec f d v old = (case v of JArr xs \<Rightarrow> map (\<lambda>x. f x d) xs | _ \<Rightarrow> old)"

definition dec_map ::
  "(json \<Rightarrow> 'a \<Rightarrow> 'a) \<Rightarrow> 'a \<Rightarrow> json \<Rightarrow> (string \<times> 'a) list \<Rightarrow> (string \<times> 'a) list" where
  "dec_map f d v old = (case v of
       JObj ms \<Rightarrow> foldl (\<lambda>m (k, x). smap_set (cstr k) (f x (smap_at d m (cstr k))) m) [] ms
     | _ \<Rightarrow> old)"

text \<open>\<open>get(key, dest)\<close>: the first member of that name, if any, is decoded into the destination.\<close>

definition get_member :: "members \<Rightarrow> string \<Rightarrow> (json \<Rightarrow> 'a \<Rightarrow> 'a) \<Rightarrow> 'a \<Rightarrow> 'a" where
  "get_member ms k f old = (case map_of ms k of Some v \<Rightarrow> f v old | None \<Rightarrow> old)"

section \<open>\<open>serialize\<close> and \<open>deserialize\<close>\<close>

text \<open>
  A struct is its \<open>serialize_impl\<close>, which lists the members, and its \<open>deserialize_impl\<close>, which
  reads members into the object's fields. Decoding a nested struct from a value that is not an
  object fails an assertion, so \<open>deserialize_impl\<close> has an outcome.
\<close>

definition serialize :: "'z rapidjson_scheme \<Rightarrow> ('a \<Rightarrow> members) \<Rightarrow> 'a \<Rightarrow> string" where
  "serialize rj ser x = cstr (rj_write rj (JObj (ser x)))"

definition deserialize ::
  "'z rapidjson_scheme \<Rightarrow> (members \<Rightarrow> 'a \<Rightarrow> 'a outcome) \<Rightarrow> string \<Rightarrow> 'a \<Rightarrow> 'a outcome" where
  "deserialize rj des s x = (case rj_parse rj (cstr s) of Some (JObj ms) \<Rightarrow> des ms x | _ \<Rightarrow> Val x)"

definition deserialize_value ::
  "(members \<Rightarrow> 'a \<Rightarrow> 'a outcome) \<Rightarrow> json \<Rightarrow> 'a \<Rightarrow> 'a outcome" where
  "deserialize_value des v x = (case v of JObj ms \<Rightarrow> des ms x | _ \<Rightarrow> Crash Assert_Failed)"

text \<open>The same for the structs none of whose members is a struct: they always return.\<close>

definition load :: "'z rapidjson_scheme \<Rightarrow> (members \<Rightarrow> 'a \<Rightarrow> 'a) \<Rightarrow> string \<Rightarrow> 'a \<Rightarrow> 'a" where
  "load rj des s x = (case rj_parse rj (cstr s) of Some (JObj ms) \<Rightarrow> des ms x | _ \<Rightarrow> x)"

lemma deserialize_total: "deserialize rj (\<lambda>ms a. Val (des ms a)) s x = Val (load rj des s x)"
  by (simp add: deserialize_def load_def split: option.splits json.splits)

text \<open>\<open>json_encode\<close> and \<open>json_decode\<close> of \<open>common/json.h\<close>, for values that are not objects.\<close>

definition json_encode :: "'z rapidjson_scheme \<Rightarrow> ('a \<Rightarrow> json) \<Rightarrow> 'a \<Rightarrow> string" where
  "json_encode rj e x = cstr (rj_write rj (e x))"

definition json_decode :: "'z rapidjson_scheme \<Rightarrow> (json \<Rightarrow> 'a \<Rightarrow> 'a) \<Rightarrow> string \<Rightarrow> 'a \<Rightarrow> 'a" where
  "json_decode rj f s old =
     f (case rj_parse rj (cstr s) of Some v \<Rightarrow> v | None \<Rightarrow> JNull) old"

section \<open>Leaf round trips\<close>

lemma dec_enc_int [simp]: "in_i32 i \<Longrightarrow> dec_int (enc_int i) old = i"
  by (simp add: dec_int_def enc_int_def)

lemma dec_enc_i64 [simp]: "in_i64 i \<Longrightarrow> dec_i64 (enc_int i) old = i"
  by (simp add: dec_i64_def enc_int_def)

lemma dec_enc_uint [simp]: "in_u32 i \<Longrightarrow> dec_uint (enc_int i) old = i"
  by (simp add: dec_uint_def enc_int_def)

lemma dec_enc_bool [simp]: "dec_bool (enc_bool b) old = b"
  by (simp add: dec_bool_def enc_bool_def)

lemma dec_enc_str [simp]: "nul_free s \<Longrightarrow> dec_str (enc_str s) old = s"
  by (simp add: dec_str_def enc_str_def cstr_id)

lemma nul_free_dec_str: "nul_free old \<Longrightarrow> nul_free (dec_str v old)"
  by (simp add: dec_str_def split: json.splits)

lemma dec_enc_vec:
  assumes "\<And>x. x \<in> set xs \<Longrightarrow> f (e x) d = x"
  shows "dec_vec f d (enc_vec e xs) old = xs"
  using assms by (simp add: dec_vec_def enc_vec_def map_idI)

lemma dec_enc_strs [simp]: "list_all nul_free xs \<Longrightarrow> dec_vec dec_str [] (enc_vec enc_str xs) old = xs"
  by (rule dec_enc_vec) (simp add: list_all_iff)

lemma dec_enc_map:
  assumes "smap_ok m" and "\<And>k v. (k, v) \<in> set m \<Longrightarrow> nul_free k"
    and "\<And>k v old. (k, v) \<in> set m \<Longrightarrow> f (e v) old = v"
  shows "dec_map f d (enc_map e m) old = m"
proof -
  let ?step = "\<lambda>m (k, x). smap_set (cstr k) (f x (smap_at d m (cstr k))) m"
  have "foldl ?step acc (map (\<lambda>(k, v). (cstr k, e v)) m')
      = foldl (\<lambda>t (k, v). smap_set k v t) acc m'"
    if "set m' \<subseteq> set m" for m' acc
    using that
  proof (induction m' arbitrary: acc)
    case Nil
    then show ?case by simp
  next
    case (Cons p m')
    obtain k v where p: "p = (k, v)" by (cases p)
    with Cons.prems have kv: "(k, v) \<in> set m" by simp
    have "cstr k = k" using assms(2) [OF kv] by (rule cstr_id)
    with Cons p assms(3) [OF kv] show ?case by simp
  qed
  from this [of m] show ?thesis
    using smap_rebuild [OF assms(1)] by (simp add: dec_map_def enc_map_def)
qed

definition str_map_ok :: "(string \<times> string) list \<Rightarrow> bool" where
  "str_map_ok m \<longleftrightarrow> smap_ok m \<and> list_all (\<lambda>(k, v). nul_free k \<and> nul_free v) m"

definition int_map_ok :: "(string \<times> int) list \<Rightarrow> bool" where
  "int_map_ok m \<longleftrightarrow> smap_ok m \<and> list_all (\<lambda>(k, v). nul_free k \<and> in_i32 v) m"

lemma dec_enc_str_map [simp]: "str_map_ok m \<Longrightarrow> dec_map dec_str [] (enc_map enc_str m) old = m"
  by (rule dec_enc_map) (auto simp: str_map_ok_def list_all_iff)

lemma dec_enc_int_map [simp]: "int_map_ok m \<Longrightarrow> dec_map dec_int 0 (enc_map enc_int m) old = m"
  by (rule dec_enc_map) (auto simp: int_map_ok_def list_all_iff)

lemma plain_leaves [simp]:
  "plain (enc_str s)" "plain (enc_bool b)"
  "in_i32 i \<Longrightarrow> plain (enc_int i)" "in_i64 i \<Longrightarrow> plain (enc_int i)"
  "plain (enc_vec enc_str xs)" "plain (enc_map enc_str m)"
  by (auto simp: enc_str_def enc_bool_def enc_int_def enc_vec_def enc_map_def in_i32_def
      in_i64_def list_all_iff)

lemma plain_int_map [simp]: "int_map_ok m \<Longrightarrow> plain (enc_map enc_int m)"
  by (auto simp: enc_map_def int_map_ok_def list_all_iff enc_int_def in_i32_def)

section \<open>The contract of a struct\<close>

text \<open>
  What \<open>serialize_impl\<close> and \<open>deserialize_impl\<close> promise together: reading what was written into
  any object of the class. \<open>ok x y\<close> says when, and \<open>out x y\<close> what the object \<open>y\<close> holds then.
\<close>

locale json_struct =
  fixes ser :: "'a \<Rightarrow> members"
    and des :: "members \<Rightarrow> 'a \<Rightarrow> 'a outcome"
    and ok :: "'a \<Rightarrow> 'a \<Rightarrow> bool"
    and out :: "'a \<Rightarrow> 'a \<Rightarrow> 'a"
  assumes des_ser: "ok x y \<Longrightarrow> des (ser x) y = Val (out x y)"
    and plain_ser: "ok x y \<Longrightarrow> list_all (\<lambda>p. plain (snd p)) (ser x)"
begin

lemma text_roundtrip:
  assumes "json_law rj" and "ok x y"
  shows "deserialize rj des (serialize rj ser x) y = Val (out x y)"
  using json_lawD [OF assms(1), of "JObj (ser x)"] plain_ser [OF assms(2)] des_ser [OF assms(2)]
  by (simp add: deserialize_def serialize_def)

lemma value_roundtrip: "ok x y \<Longrightarrow> deserialize_value des (JObj (ser x)) y = Val (out x y)"
  by (simp add: deserialize_value_def des_ser)

end

text \<open>A struct whose members are all written and read: the object's old fields do not matter.\<close>

locale json_total =
  fixes ser :: "'a \<Rightarrow> members"
    and des :: "members \<Rightarrow> 'a \<Rightarrow> 'a"
    and wf :: "'a \<Rightarrow> bool"
  assumes read_back: "wf x \<Longrightarrow> des (ser x) y = x"
    and plain_members: "wf x \<Longrightarrow> list_all (\<lambda>p. plain (snd p)) (ser x)"

sublocale json_total \<subseteq> json_struct ser "\<lambda>ms a. Val (des ms a)" "\<lambda>x y. wf x" "\<lambda>x y. x"
  by unfold_locales (simp_all add: read_back plain_members)

context json_total
begin

lemma load_roundtrip: "json_law rj \<Longrightarrow> wf x \<Longrightarrow> load rj des (serialize rj ser x) y = x"
  using text_roundtrip [of rj x y] by (simp add: deserialize_total)

end

end
