(* ===== verification/Structs.thy ===== *)
theory Structs
  imports Json
begin

text \<open>
  The structs of \<open>include/gvds_struct.h\<close>, \<open>include/aggregation_struct.h\<close>,
  \<open>manager/usermodel/Account.h\<close> and \<open>common/centerinfo.h\<close>: for each its fields, its
  \<open>serialize_impl\<close> (\<open>ser_\<close>), its \<open>deserialize_impl\<close> (\<open>des_\<close>), the values it can carry
  (\<open>wf_\<close>: no NUL inside a string, integers of their width, maps in key order) and the
  interpretation of the contract that reading gives back what was written.
\<close>

text \<open>
  Objects declared without initialisers hold indeterminate numbers; the model takes them from
  here, so that nothing can be proved about them beyond their type.
\<close>

record indet = rapidjson +
  ud_int :: int
  ud_i64 :: int
  ud_bool :: bool

section \<open>Spaces and zones\<close>

text \<open>A space: a directory of a storage resource with a capacity.\<close>

record space =
  sp_spaceID :: string
  sp_spaceName :: string
  sp_spaceSize :: int
  sp_hostCenterID :: string
  sp_storageSrcID :: string
  sp_spacePath :: string
  sp_hostCenterName :: string
  sp_storageSrcName :: string
  sp_status :: bool
  sp_replica_spaces :: "string list"

definition ser_Space :: "space \<Rightarrow> members" where
  "ser_Space x =
     [(''UUID'', enc_str (sp_spaceID x)),
      (''name'', enc_str (sp_spaceName x)),
      (''capcity'', enc_int (sp_spaceSize x)),
      (''SC_UUID'', enc_str (sp_hostCenterID x)),
      (''Storage_UUID'', enc_str (sp_storageSrcID x)),
      (''root_location'', enc_str (sp_spacePath x)),
      (''hostCenterName'', enc_str (sp_hostCenterName x)),
      (''storageSrcName'', enc_str (sp_storageSrcName x)),
      (''Status'', enc_bool (sp_status x)),
      (''replica_spaces'', enc_vec enc_str (sp_replica_spaces x))]"

definition des_Space :: "members \<Rightarrow> space \<Rightarrow> space" where
  "des_Space ms x = x\<lparr>
     sp_spaceID := get_member ms ''UUID'' dec_str (sp_spaceID x),
     sp_spaceName := get_member ms ''name'' dec_str (sp_spaceName x),
     sp_spaceSize := get_member ms ''capcity'' dec_i64 (sp_spaceSize x),
     sp_hostCenterID := get_member ms ''SC_UUID'' dec_str (sp_hostCenterID x),
     sp_storageSrcID := get_member ms ''Storage_UUID'' dec_str (sp_storageSrcID x),
     sp_spacePath := get_member ms ''root_location'' dec_str (sp_spacePath x),
     sp_hostCenterName := get_member ms ''hostCenterName'' dec_str (sp_hostCenterName x),
     sp_storageSrcName := get_member ms ''storageSrcName'' dec_str (sp_storageSrcName x),
     sp_status := get_member ms ''Status'' dec_bool (sp_status x),
     sp_replica_spaces := get_member ms ''replica_spaces'' (dec_vec dec_str []) (sp_replica_spaces x)\<rparr>"

definition wf_Space :: "space \<Rightarrow> bool" where
  "wf_Space x \<longleftrightarrow>
     nul_free (sp_spaceID x) \<and>
     nul_free (sp_spaceName x) \<and>
     in_i64 (sp_spaceSize x) \<and>
     nul_free (sp_hostCenterID x) \<and>
     nul_free (sp_storageSrcID x) \<and>
     nul_free (sp_spacePath x) \<and>
     nul_free (sp_hostCenterName x) \<and>
     nul_free (sp_storageSrcName x) \<and>
     list_all nul_free (sp_replica_spaces x)"

interpretation Space_json: json_total ser_Space des_Space wf_Space
  by unfold_locales
    (auto simp: ser_Space_def des_Space_def wf_Space_def get_member_def intro!: space.equality)

text \<open>\<open>Space s;\<close> leaves the numbers indeterminate, \<open>std::make_shared<Space>()\<close> zeroes them.\<close>

definition new_Space :: "'z indet_scheme \<Rightarrow> space" where
  "new_Space d = \<lparr>sp_spaceID = [], sp_spaceName = [], sp_spaceSize = ud_i64 d, sp_hostCenterID = [],
     sp_storageSrcID = [], sp_spacePath = [], sp_hostCenterName = [], sp_storageSrcName = [],
     sp_status = ud_bool d, sp_replica_spaces = []\<rparr>"

definition zero_Space :: space where
  "zero_Space = \<lparr>sp_spaceID = [], sp_spaceName = [], sp_spaceSize = 0, sp_hostCenterID = [],
     sp_storageSrcID = [], sp_spacePath = [], sp_hostCenterName = [], sp_storageSrcName = [],
     sp_status = False, sp_replica_spaces = []\<rparr>"

text \<open>A zone: an owner, members and the spaces mapped into it.\<close>

record zone =
  z_zoneID :: string
  z_zoneName :: string
  z_ownerID :: string
  z_memberID :: "string list"
  z_spaceID :: "string list"
  z_spaceBicInfo :: "space option list"
  z_ownerAuth :: int
  z_groupAuth :: int
  z_otherAuth :: int
  z_contains_spaceinfo :: bool

definition new_Zone :: "'z indet_scheme \<Rightarrow> zone" where
  "new_Zone d = \<lparr>z_zoneID = [], z_zoneName = [], z_ownerID = [], z_memberID = [], z_spaceID = [],
     z_spaceBicInfo = [], z_ownerAuth = ud_int d, z_groupAuth = ud_int d, z_otherAuth = ud_int d,
     z_contains_spaceinfo = True\<rparr>"

definition ser_Zone :: "zone \<Rightarrow> members" where
  "ser_Zone x =
     [(''UUID'', enc_str (z_zoneID x)),
      (''name'', enc_str (z_zoneName x)),
      (''owner'', enc_str (z_ownerID x)),
      (''members'', enc_vec enc_str (z_memberID x)),
      (''spaces'', enc_vec enc_str (z_spaceID x))]
     @ (if z_contains_spaceinfo x
        then [(''spaceinfo'', enc_vec (enc_ptr (\<lambda>s. JObj (ser_Space s))) (z_spaceBicInfo x)),
              (''ownerAuth'', enc_int (z_ownerAuth x)),
              (''groupAuth'', enc_int (z_groupAuth x)),
              (''otherAuth'', enc_int (z_otherAuth x))]
        else [])"

text \<open>The elements of \<open>spaceinfo\<close> are decoded one after the other; a failed assertion ends the loop.\<close>

fun dec_spaces :: "json list \<Rightarrow> space option list outcome" where
  "dec_spaces [] = Val []"
| "dec_spaces (v # vs) =
     (case deserialize_value (\<lambda>ms s. Val (des_Space ms s)) v zero_Space of
        Crash c \<Rightarrow> Crash c
      | Val s \<Rightarrow> (case dec_spaces vs of Crash c \<Rightarrow> Crash c | Val r \<Rightarrow> Val (Some s # r)))"

definition dec_spaceinfo :: "members \<Rightarrow> space option list \<Rightarrow> space option list outcome" where
  "dec_spaceinfo ms old =
     (case map_of ms ''spaceinfo'' of Some (JArr vs) \<Rightarrow> dec_spaces vs | _ \<Rightarrow> Val old)"

definition des_Zone :: "members \<Rightarrow> zone \<Rightarrow> zone outcome" where
  "des_Zone ms x =
    (let x = x\<lparr>
       z_zoneID := get_member ms ''UUID'' dec_str (z_zoneID x),
       z_zoneName := get_member ms ''name'' dec_str (z_zoneName x),
       z_ownerID := get_member ms ''owner'' dec_str (z_ownerID x),
       z_memberID := get_member ms ''members'' (dec_vec dec_str []) (z_memberID x),
       z_spaceID := get_member ms ''spaces'' (dec_vec dec_str []) (z_spaceID x)\<rparr>
     in if z_contains_spaceinfo x
        then (case dec_spaceinfo ms (z_spaceBicInfo x) of
            Crash c \<Rightarrow> Crash c
          | Val si \<Rightarrow> Val (x\<lparr>
              z_spaceBicInfo := si,
              z_ownerAuth := get_member ms ''ownerAuth'' dec_int (z_ownerAuth x),
              z_groupAuth := get_member ms ''groupAuth'' dec_int (z_groupAuth x),
              z_otherAuth := get_member ms ''otherAuth'' dec_int (z_otherAuth x)\<rparr>))
        else Val x)"

definition wf_Zone :: "zone \<Rightarrow> bool" where
  "wf_Zone x \<longleftrightarrow>
     nul_free (z_zoneID x) \<and> nul_free (z_zoneName x) \<and> nul_free (z_ownerID x) \<and>
     list_all nul_free (z_memberID x) \<and> list_all nul_free (z_spaceID x) \<and>
     (z_contains_spaceinfo x \<longrightarrow>
        list_all (\<lambda>p. case p of Some s \<Rightarrow> wf_Space s | None \<Rightarrow> False) (z_spaceBicInfo x) \<and>
        in_i32 (z_ownerAuth x) \<and> in_i32 (z_groupAuth x) \<and> in_i32 (z_otherAuth x))"

text \<open>
  What an object holds after it read a written zone: the space information is carried only when
  both the writer and the reader have \<open>contains_spaceinfo\<close>.
\<close>

definition carry_Zone :: "zone \<Rightarrow> zone \<Rightarrow> zone" where
  "carry_Zone x y =
     (if z_contains_spaceinfo y \<and> z_contains_spaceinfo x then x
      else y\<lparr>z_zoneID := z_zoneID x, z_zoneName := z_zoneName x, z_ownerID := z_ownerID x,
             z_memberID := z_memberID x, z_spaceID := z_spaceID x\<rparr>)"

lemma dec_spaces_written:
  assumes "list_all (\<lambda>p. case p of Some s \<Rightarrow> wf_Space s | None \<Rightarrow> False) ps"
  shows "dec_spaces (map (enc_ptr (\<lambda>s. JObj (ser_Space s))) ps) = Val ps"
  using assms
proof (induction ps)
  case Nil
  then show ?case by simp
next
  case (Cons p ps)
  then obtain s where "p = Some s" "wf_Space s" by (cases p) auto
  with Cons show ?case by (simp add: enc_ptr_def Space_json.value_roundtrip)
qed

lemma plain_Space: "wf_Space s \<Longrightarrow> plain (JObj (ser_Space s))"
  by (simp add: Space_json.plain_members)

lemma plain_spaces:
  assumes "list_all (\<lambda>p. case p of Some s \<Rightarrow> wf_Space s | None \<Rightarrow> False) ps"
  shows "plain (enc_vec (enc_ptr (\<lambda>s. JObj (ser_Space s))) ps)"
  using assms
proof (induction ps)
  case Nil
  then show ?case by (simp add: enc_vec_def)
next
  case (Cons p ps)
  then obtain s where "p = Some s" "wf_Space s" by (cases p) auto
  with Cons plain_Space show ?case by (simp add: enc_vec_def enc_ptr_def)
qed

interpretation Zone_json: json_struct ser_Zone des_Zone "\<lambda>x y. wf_Zone x" carry_Zone
proof unfold_locales
  fix x y
  assume wf: "wf_Zone x"
  show "des_Zone (ser_Zone x) y = Val (carry_Zone x y)"
    using wf dec_spaces_written [of "z_spaceBicInfo x"]
    by (cases x; cases y)
      (auto simp: des_Zone_def ser_Zone_def carry_Zone_def wf_Zone_def get_member_def
        dec_spaceinfo_def enc_vec_def [of "enc_ptr _"] Let_def)
  show "list_all (\<lambda>p. plain (snd p)) (ser_Zone x)"
    using wf plain_spaces [of "z_spaceBicInfo x"] by (simp add: ser_Zone_def wf_Zone_def)
qed

section \<open>Requests\<close>

record space_request =
  sr_spaceID :: string
  sr_spaceIDs :: "string list"
  sr_newSpaceSize :: int
  sr_newSpaceName :: string

definition ser_SpaceRequest :: "space_request \<Rightarrow> members" where
  "ser_SpaceRequest x =
     [(''UUID'', enc_str (sr_spaceID x)),
      (''UUIDs'', enc_vec enc_str (sr_spaceIDs x)),
      (''newSpaceSize'', enc_int (sr_newSpaceSize x)),
      (''newSpaceName'', enc_str (sr_newSpaceName x))]"

definition des_SpaceRequest :: "members \<Rightarrow> space_request \<Rightarrow> space_request" where
  "des_SpaceRequest ms x = x\<lparr>
     sr_spaceID := get_member ms ''UUID'' dec_str (sr_spaceID x),
     sr_spaceIDs := get_member ms ''UUIDs'' (dec_vec dec_str []) (sr_spaceIDs x),
     sr_newSpaceSize := get_member ms ''newSpaceSize'' dec_i64 (sr_newSpaceSize x),
     sr_newSpaceName := get_member ms ''newSpaceName'' dec_str (sr_newSpaceName x)\<rparr>"

definition wf_SpaceRequest :: "space_request \<Rightarrow> bool" where
  "wf_SpaceRequest x \<longleftrightarrow>
     nul_free (sr_spaceID x) \<and>
     list_all nul_free (sr_spaceIDs x) \<and>
     in_i64 (sr_newSpaceSize x) \<and>
     nul_free (sr_newSpaceName x)"

interpretation SpaceRequest_json: json_total ser_SpaceRequest des_SpaceRequest wf_SpaceRequest
  by unfold_locales
    (auto simp: ser_SpaceRequest_def des_SpaceRequest_def wf_SpaceRequest_def get_member_def intro!: space_request.equality)

record zone_request =
  zr_zoneID :: string
  zr_clientID :: string
  zr_memberID :: "string list"
  zr_spaceID :: "string list"
  zr_ownerID :: string
  zr_zoneName :: string
  zr_newZoneName :: string
  zr_spaceSize :: int
  zr_spaceName :: string
  zr_spacePathInfo :: string

definition ser_ZoneRequest :: "zone_request \<Rightarrow> members" where
  "ser_ZoneRequest x =
     [(''UUID'', enc_str (zr_zoneID x)),
      (''clientID'', enc_str (zr_clientID x)),
      (''memberID'', enc_vec enc_str (zr_memberID x)),
      (''spaceID'', enc_vec enc_str (zr_spaceID x)),
      (''ownerID'', enc_str (zr_ownerID x)),
      (''ZoneName'', enc_str (zr_zoneName x)),
      (''newZoneName'', enc_str (zr_newZoneName x)),
      (''spaceSize'', enc_int (zr_spaceSize x)),
      (''spaceName'', enc_str (zr_spaceName x)),
      (''spacePathInfo'', enc_str (zr_spacePathInfo x))]"

definition des_ZoneRequest :: "members \<Rightarrow> zone_request \<Rightarrow> zone_request" where
  "des_ZoneRequest ms x = x\<lparr>
     zr_zoneID := get_member ms ''UUID'' dec_str (zr_zoneID x),
     zr_clientID := get_member ms ''clientID'' dec_str (zr_clientID x),
     zr_memberID := get_member ms ''memberID'' (dec_vec dec_str []) (zr_memberID x),
     zr_spaceID := get_member ms ''spaceID'' (dec_vec dec_str []) (zr_spaceID x),
     zr_ownerID := get_member ms ''ownerID'' dec_str (zr_ownerID x),
     zr_zoneName := get_member ms ''ZoneName'' dec_str (zr_zoneName x),
     zr_newZoneName := get_member ms ''newZoneName'' dec_str (zr_newZoneName x),
     zr_spaceSize := get_member ms ''spaceSize'' dec_i64 (zr_spaceSize x),
     zr_spaceName := get_member ms ''spaceName'' dec_str (zr_spaceName x),
     zr_spacePathInfo := get_member ms ''spacePathInfo'' dec_str (zr_spacePathInfo x)\<rparr>"

definition wf_ZoneRequest :: "zone_request \<Rightarrow> bool" where
  "wf_ZoneRequest x \<longleftrightarrow>
     nul_free (zr_zoneID x) \<and>
     nul_free (zr_clientID x) \<and>
     list_all nul_free (zr_memberID x) \<and>
     list_all nul_free (zr_spaceID x) \<and>
     nul_free (zr_ownerID x) \<and>
     nul_free (zr_zoneName x) \<and>
     nul_free (zr_newZoneName x) \<and>
     in_i64 (zr_spaceSize x) \<and>
     nul_free (zr_spaceName x) \<and>
     nul_free (zr_spacePathInfo x)"

interpretation ZoneRequest_json: json_total ser_ZoneRequest des_ZoneRequest wf_ZoneRequest
  by unfold_locales
    (auto simp: ser_ZoneRequest_def des_ZoneRequest_def wf_ZoneRequest_def get_member_def intro!: zone_request.equality)

text \<open>A request filed for an administrator: an id and the text of the request.\<close>

record apply_info =
  ai_id :: string
  ai_data :: string

definition ser_apply_info :: "apply_info \<Rightarrow> members" where
  "ser_apply_info x =
     [(''id'', enc_str (ai_id x)),
      (''data'', enc_str (ai_data x))]"

definition des_apply_info :: "members \<Rightarrow> apply_info \<Rightarrow> apply_info" where
  "des_apply_info ms x = x\<lparr>
     ai_id := get_member ms ''id'' dec_str (ai_id x),
     ai_data := get_member ms ''data'' dec_str (ai_data x)\<rparr>"

definition wf_apply_info :: "apply_info \<Rightarrow> bool" where
  "wf_apply_info x \<longleftrightarrow>
     nul_free (ai_id x) \<and>
     nul_free (ai_data x)"

interpretation apply_info_json: json_total ser_apply_info des_apply_info wf_apply_info
  by unfold_locales
    (auto simp: ser_apply_info_def des_apply_info_def wf_apply_info_def get_member_def intro!: apply_info.equality)

record apply_content =
  ac_applycontent :: "string list"

definition ser_apply_content :: "apply_content \<Rightarrow> members" where
  "ser_apply_content x =
     [(''applycontent'', enc_vec enc_str (ac_applycontent x))]"

definition des_apply_content :: "members \<Rightarrow> apply_content \<Rightarrow> apply_content" where
  "des_apply_content ms x = x\<lparr>
     ac_applycontent := get_member ms ''applycontent'' (dec_vec dec_str []) (ac_applycontent x)\<rparr>"

definition wf_apply_content :: "apply_content \<Rightarrow> bool" where
  "wf_apply_content x \<longleftrightarrow>
     list_all nul_free (ac_applycontent x)"

interpretation apply_content_json: json_total ser_apply_content des_apply_content wf_apply_content
  by unfold_locales
    (auto simp: ser_apply_content_def des_apply_content_def wf_apply_content_def get_member_def intro!: apply_content.equality)

section \<open>Accounts and centres\<close>

text \<open>The stored account document.\<close>

record account =
  acc_accountName :: string
  acc_Password :: string
  acc_accountID :: string
  acc_accountEmail :: string
  acc_accountPhone :: string
  acc_accountAddress :: string
  acc_Department :: string

definition ser_Account :: "account \<Rightarrow> members" where
  "ser_Account x =
     [(''GVDSAccountName'', enc_str (acc_accountName x)),
      (''GVDSPassword'', enc_str (acc_Password x)),
      (''GVDSAccountID'', enc_str (acc_accountID x)),
      (''AccountEMAIL'', enc_str (acc_accountEmail x)),
      (''AccountPHONE'', enc_str (acc_accountPhone x)),
      (''AccountAddress'', enc_str (acc_accountAddress x)),
      (''Department'', enc_str (acc_Department x))]"

definition des_Account :: "members \<Rightarrow> account \<Rightarrow> account" where
  "des_Account ms x = x\<lparr>
     acc_accountName := get_member ms ''GVDSAccountName'' dec_str (acc_accountName x),
     acc_Password := get_member ms ''GVDSPassword'' dec_str (acc_Password x),
     acc_accountID := get_member ms ''GVDSAccountID'' dec_str (acc_accountID x),
     acc_accountEmail := get_member ms ''AccountEMAIL'' dec_str (acc_accountEmail x),
     acc_accountPhone := get_member ms ''AccountPHONE'' dec_str (acc_accountPhone x),
     acc_accountAddress := get_member ms ''AccountAddress'' dec_str (acc_accountAddress x),
     acc_Department := get_member ms ''Department'' dec_str (acc_Department x)\<rparr>"

definition wf_Account :: "account \<Rightarrow> bool" where
  "wf_Account x \<longleftrightarrow>
     nul_free (acc_accountName x) \<and>
     nul_free (acc_Password x) \<and>
     nul_free (acc_accountID x) \<and>
     nul_free (acc_accountEmail x) \<and>
     nul_free (acc_accountPhone x) \<and>
     nul_free (acc_accountAddress x) \<and>
     nul_free (acc_Department x)"

interpretation Account_json: json_total ser_Account des_Account wf_Account
  by unfold_locales
    (auto simp: ser_Account_def des_Account_def wf_Account_def get_member_def intro!: account.equality)

text \<open>The local accounts of a user at each centre.\<close>

record sc_account =
  sc_accountID :: string
  sc_centerName :: "string list"
  sc_localaccount :: "(string \<times> string) list"
  sc_localpassword :: "(string \<times> string) list"

definition ser_SCAccount :: "sc_account \<Rightarrow> members" where
  "ser_SCAccount x =
     [(''accountID'', enc_str (sc_accountID x)),
      (''centerName'', enc_vec enc_str (sc_centerName x)),
      (''localaccount'', enc_map enc_str (sc_localaccount x)),
      (''localpassword'', enc_map enc_str (sc_localpassword x))]"

definition des_SCAccount :: "members \<Rightarrow> sc_account \<Rightarrow> sc_account" where
  "des_SCAccount ms x = x\<lparr>
     sc_accountID := get_member ms ''accountID'' dec_str (sc_accountID x),
     sc_centerName := get_member ms ''centerName'' (dec_vec dec_str []) (sc_centerName x),
     sc_localaccount := get_member ms ''localaccount'' (dec_map dec_str []) (sc_localaccount x),
     sc_localpassword := get_member ms ''localpassword'' (dec_map dec_str []) (sc_localpassword x)\<rparr>"

definition wf_SCAccount :: "sc_account \<Rightarrow> bool" where
  "wf_SCAccount x \<longleftrightarrow>
     nul_free (sc_accountID x) \<and>
     list_all nul_free (sc_centerName x) \<and>
     str_map_ok (sc_localaccount x) \<and>
     str_map_ok (sc_localpassword x)"

interpretation SCAccount_json: json_total ser_SCAccount des_SCAccount wf_SCAccount
  by unfold_locales
    (auto simp: ser_SCAccount_def des_SCAccount_def wf_SCAccount_def get_member_def intro!: sc_account.equality)

record account_pair =
  apr_accountName :: string
  apr_accountID :: string

definition ser_AccountPair :: "account_pair \<Rightarrow> members" where
  "ser_AccountPair x =
     [(''GVDSAccountName'', enc_str (apr_accountName x)),
      (''GVDSAccountID'', enc_str (apr_accountID x))]"

definition des_AccountPair :: "members \<Rightarrow> account_pair \<Rightarrow> account_pair" where
  "des_AccountPair ms x = x\<lparr>
     apr_accountName := get_member ms ''GVDSAccountName'' dec_str (apr_accountName x),
     apr_accountID := get_member ms ''GVDSAccountID'' dec_str (apr_accountID x)\<rparr>"

definition wf_AccountPair :: "account_pair \<Rightarrow> bool" where
  "wf_AccountPair x \<longleftrightarrow>
     nul_free (apr_accountName x) \<and>
     nul_free (apr_accountID x)"

interpretation AccountPair_json: json_total ser_AccountPair des_AccountPair wf_AccountPair
  by unfold_locales
    (auto simp: ser_AccountPair_def des_AccountPair_def wf_AccountPair_def get_member_def intro!: account_pair.equality)

record account_pass =
  aps_accountName :: string
  aps_Password :: string

definition ser_AccountPass :: "account_pass \<Rightarrow> members" where
  "ser_AccountPass x =
     [(''GVDSAccountName'', enc_str (aps_accountName x)),
      (''GVDSPassword'', enc_str (aps_Password x))]"

definition des_AccountPass :: "members \<Rightarrow> account_pass \<Rightarrow> account_pass" where
  "des_AccountPass ms x = x\<lparr>
     aps_accountName := get_member ms ''GVDSAccountName'' dec_str (aps_accountName x),
     aps_Password := get_member ms ''GVDSPassword'' dec_str (aps_Password x)\<rparr>"

definition wf_AccountPass :: "account_pass \<Rightarrow> bool" where
  "wf_AccountPass x \<longleftrightarrow>
     nul_free (aps_accountName x) \<and>
     nul_free (aps_Password x)"

interpretation AccountPass_json: json_total ser_AccountPass des_AccountPass wf_AccountPass
  by unfold_locales
    (auto simp: ser_AccountPass_def des_AccountPass_def wf_AccountPass_def get_member_def intro!: account_pass.equality)

text \<open>The pool of local accounts of a centre, used and unused, with their passwords.\<close>

record account_sc_pool =
  pool_unuse_account :: "(string \<times> string) list"
  pool_use_account :: "(string \<times> string) list"

definition ser_AccountSCPool :: "account_sc_pool \<Rightarrow> members" where
  "ser_AccountSCPool x =
     [(''unuse_account'', enc_map enc_str (pool_unuse_account x)),
      (''use_account'', enc_map enc_str (pool_use_account x))]"

definition des_AccountSCPool :: "members \<Rightarrow> account_sc_pool \<Rightarrow> account_sc_pool" where
  "des_AccountSCPool ms x = x\<lparr>
     pool_unuse_account := get_member ms ''unuse_account'' (dec_map dec_str []) (pool_unuse_account x),
     pool_use_account := get_member ms ''use_account'' (dec_map dec_str []) (pool_use_account x)\<rparr>"

definition wf_AccountSCPool :: "account_sc_pool \<Rightarrow> bool" where
  "wf_AccountSCPool x \<longleftrightarrow>
     str_map_ok (pool_unuse_account x) \<and>
     str_map_ok (pool_use_account x)"

interpretation AccountSCPool_json: json_total ser_AccountSCPool des_AccountSCPool wf_AccountSCPool
  by unfold_locales
    (auto simp: ser_AccountSCPool_def des_AccountSCPool_def wf_AccountSCPool_def get_member_def intro!: account_sc_pool.equality)

record local_account_pair =
  lap_localaccount :: string
  lap_localpassword :: string

definition ser_LocalAccountPair :: "local_account_pair \<Rightarrow> members" where
  "ser_LocalAccountPair x =
     [(''localaccount'', enc_str (lap_localaccount x)),
      (''localpassword'', enc_str (lap_localpassword x))]"

definition des_LocalAccountPair :: "members \<Rightarrow> local_account_pair \<Rightarrow> local_account_pair" where
  "des_LocalAccountPair ms x = x\<lparr>
     lap_localaccount := get_member ms ''localaccount'' dec_str (lap_localaccount x),
     lap_localpassword := get_member ms ''localpassword'' dec_str (lap_localpassword x)\<rparr>"

definition wf_LocalAccountPair :: "local_account_pair \<Rightarrow> bool" where
  "wf_LocalAccountPair x \<longleftrightarrow>
     nul_free (lap_localaccount x) \<and>
     nul_free (lap_localpassword x)"

interpretation LocalAccountPair_json: json_total ser_LocalAccountPair des_LocalAccountPair wf_LocalAccountPair
  by unfold_locales
    (auto simp: ser_LocalAccountPair_def des_LocalAccountPair_def wf_LocalAccountPair_def get_member_def intro!: local_account_pair.equality)

record admin_list =
  adl_namelist :: "string list"

definition ser_AdminList :: "admin_list \<Rightarrow> members" where
  "ser_AdminList x =
     [(''namelist'', enc_vec enc_str (adl_namelist x))]"

definition des_AdminList :: "members \<Rightarrow> admin_list \<Rightarrow> admin_list" where
  "des_AdminList ms x = x\<lparr>
     adl_namelist := get_member ms ''namelist'' (dec_vec dec_str []) (adl_namelist x)\<rparr>"

definition wf_AdminList :: "admin_list \<Rightarrow> bool" where
  "wf_AdminList x \<longleftrightarrow>
     list_all nul_free (adl_namelist x)"

interpretation AdminList_json: json_total ser_AdminList des_AdminList wf_AdminList
  by unfold_locales
    (auto simp: ser_AdminList_def des_AdminList_def wf_AdminList_def get_member_def intro!: admin_list.equality)

record admin_account_map =
  aam_adgvdsID :: string
  aam_gvdsID :: string
  aam_hostCenterName :: string

definition ser_AdminAccountMap :: "admin_account_map \<Rightarrow> members" where
  "ser_AdminAccountMap x =
     [(''adgvdsID'', enc_str (aam_adgvdsID x)),
      (''gvdsID'', enc_str (aam_gvdsID x)),
      (''hostCenterName'', enc_str (aam_hostCenterName x))]"

definition des_AdminAccountMap :: "members \<Rightarrow> admin_account_map \<Rightarrow> admin_account_map" where
  "des_AdminAccountMap ms x = x\<lparr>
     aam_adgvdsID := get_member ms ''adgvdsID'' dec_str (aam_adgvdsID x),
     aam_gvdsID := get_member ms ''gvdsID'' dec_str (aam_gvdsID x),
     aam_hostCenterName := get_member ms ''hostCenterName'' dec_str (aam_hostCenterName x)\<rparr>"

definition wf_AdminAccountMap :: "admin_account_map \<Rightarrow> bool" where
  "wf_AdminAccountMap x \<longleftrightarrow>
     nul_free (aam_adgvdsID x) \<and>
     nul_free (aam_gvdsID x) \<and>
     nul_free (aam_hostCenterName x)"

interpretation AdminAccountMap_json: json_total ser_AdminAccountMap des_AdminAccountMap wf_AdminAccountMap
  by unfold_locales
    (auto simp: ser_AdminAccountMap_def des_AdminAccountMap_def wf_AdminAccountMap_def get_member_def intro!: admin_account_map.equality)

record info_account_pool =
  iap_hostCenterName :: "string list"
  iap_usecount :: "(string \<times> int) list"
  iap_unusecount :: "(string \<times> int) list"

definition ser_infoAccountPool :: "info_account_pool \<Rightarrow> members" where
  "ser_infoAccountPool x =
     [(''hostCenterName'', enc_vec enc_str (iap_hostCenterName x)),
      (''usecount'', enc_map enc_int (iap_usecount x)),
      (''unusecount'', enc_map enc_int (iap_unusecount x))]"

definition des_infoAccountPool :: "members \<Rightarrow> info_account_pool \<Rightarrow> info_account_pool" where
  "des_infoAccountPool ms x = x\<lparr>
     iap_hostCenterName := get_member ms ''hostCenterName'' (dec_vec dec_str []) (iap_hostCenterName x),
     iap_usecount := get_member ms ''usecount'' (dec_map dec_int 0) (iap_usecount x),
     iap_unusecount := get_member ms ''unusecount'' (dec_map dec_int 0) (iap_unusecount x)\<rparr>"

definition wf_infoAccountPool :: "info_account_pool \<Rightarrow> bool" where
  "wf_infoAccountPool x \<longleftrightarrow>
     list_all nul_free (iap_hostCenterName x) \<and>
     int_map_ok (iap_usecount x) \<and>
     int_map_ok (iap_unusecount x)"

interpretation infoAccountPool_json: json_total ser_infoAccountPool des_infoAccountPool wf_infoAccountPool
  by unfold_locales
    (auto simp: ser_infoAccountPool_def des_infoAccountPool_def wf_infoAccountPool_def get_member_def intro!: info_account_pool.equality)

text \<open>\<open>common/centerinfo.h\<close>: the table of centres.\<close>

record center_info =
  ci_centerID :: "string list"
  ci_centerIP :: "(string \<times> string) list"
  ci_centerPort :: "(string \<times> string) list"
  ci_centerName :: "(string \<times> string) list"

definition ser_CenterInfo :: "center_info \<Rightarrow> members" where
  "ser_CenterInfo x =
     [(''centerID'', enc_vec enc_str (ci_centerID x)),
      (''centerIP'', enc_map enc_str (ci_centerIP x)),
      (''centerPort'', enc_map enc_str (ci_centerPort x)),
      (''centerName'', enc_map enc_str (ci_centerName x))]"

definition des_CenterInfo :: "members \<Rightarrow> center_info \<Rightarrow> center_info" where
  "des_CenterInfo ms x = x\<lparr>
     ci_centerID := get_member ms ''centerID'' (dec_vec dec_str []) (ci_centerID x),
     ci_centerIP := get_member ms ''centerIP'' (dec_map dec_str []) (ci_centerIP x),
     ci_centerPort := get_member ms ''centerPort'' (dec_map dec_str []) (ci_centerPort x),
     ci_centerName := get_member ms ''centerName'' (dec_map dec_str []) (ci_centerName x)\<rparr>"

definition wf_CenterInfo :: "center_info \<Rightarrow> bool" where
  "wf_CenterInfo x \<longleftrightarrow>
     list_all nul_free (ci_centerID x) \<and>
     str_map_ok (ci_centerIP x) \<and>
     str_map_ok (ci_centerPort x) \<and>
     str_map_ok (ci_centerName x)"

interpretation CenterInfo_json: json_total ser_CenterInfo des_CenterInfo wf_CenterInfo
  by unfold_locales
    (auto simp: ser_CenterInfo_def des_CenterInfo_def wf_CenterInfo_def get_member_def intro!: center_info.equality)

record fe_center_info =
  fe_centerID :: string
  fe_centerIP :: string
  fe_centerPort :: string
  fe_centerName :: string

definition ser_FECenterInfo :: "fe_center_info \<Rightarrow> members" where
  "ser_FECenterInfo x =
     [(''centerID'', enc_str (fe_centerID x)),
      (''centerIP'', enc_str (fe_centerIP x)),
      (''centerPort'', enc_str (fe_centerPort x)),
      (''centerName'', enc_str (fe_centerName x))]"

definition des_FECenterInfo :: "members \<Rightarrow> fe_center_info \<Rightarrow> fe_center_info" where
  "des_FECenterInfo ms x = x\<lparr>
     fe_centerID := get_member ms ''centerID'' dec_str (fe_centerID x),
     fe_centerIP := get_member ms ''centerIP'' dec_str (fe_centerIP x),
     fe_centerPort := get_member ms ''centerPort'' dec_str (fe_centerPort x),
     fe_centerName := get_member ms ''centerName'' dec_str (fe_centerName x)\<rparr>"

definition wf_FECenterInfo :: "fe_center_info \<Rightarrow> bool" where
  "wf_FECenterInfo x \<longleftrightarrow>
     nul_free (fe_centerID x) \<and>
     nul_free (fe_centerIP x) \<and>
     nul_free (fe_centerPort x) \<and>
     nul_free (fe_centerName x)"

interpretation FECenterInfo_json: json_total ser_FECenterInfo des_FECenterInfo wf_FECenterInfo
  by unfold_locales
    (auto simp: ser_FECenterInfo_def des_FECenterInfo_def wf_FECenterInfo_def get_member_def intro!: fe_center_info.equality)

section \<open>Storage resources and I/O proxies\<close>

text \<open>
  A storage resource and its ledger of capacity. The state is kept as the number that
  \<open>static_cast\<close> moves in and out of the enumeration; the local variable it is read through is
  not initialised.
\<close>

abbreviation (input) "Initializing \<equiv> 0 :: int"
abbreviation (input) "Normal \<equiv> 1 :: int"
abbreviation (input) "OverLoad \<equiv> 2 :: int"
abbreviation (input) "Logouting \<equiv> 3 :: int"
abbreviation (input) "Quited \<equiv> 4 :: int"

record storage_resource =
  st_storage_src_id :: string
  st_storage_src_name :: string
  st_host_center_id :: string
  st_host_center_name :: string
  st_total_capacity :: int
  st_assign_capacity :: int
  st_mgs_address :: string
  st_state :: int

definition ser_StorageResource :: "storage_resource \<Rightarrow> members" where
  "ser_StorageResource x =
     [(''storage_src_id'', enc_str (st_storage_src_id x)),
      (''storage_src_name'', enc_str (st_storage_src_name x)),
      (''host_center_id'', enc_str (st_host_center_id x)),
      (''host_center_name'', enc_str (st_host_center_name x)),
      (''total_capacity'', enc_int (st_total_capacity x)),
      (''assign_capacity'', enc_int (st_assign_capacity x)),
      (''mgs_address'', enc_str (st_mgs_address x)),
      (''state'', enc_int (st_state x))]"

definition des_StorageResource ::
  "'z indet_scheme \<Rightarrow> members \<Rightarrow> storage_resource \<Rightarrow> storage_resource" where
  "des_StorageResource d ms x = x\<lparr>
     st_storage_src_id := get_member ms ''storage_src_id'' dec_str (st_storage_src_id x),
     st_storage_src_name := get_member ms ''storage_src_name'' dec_str (st_storage_src_name x),
     st_host_center_id := get_member ms ''host_center_id'' dec_str (st_host_center_id x),
     st_host_center_name := get_member ms ''host_center_name'' dec_str (st_host_center_name x),
     st_total_capacity := get_member ms ''total_capacity'' dec_i64 (st_total_capacity x),
     st_assign_capacity := get_member ms ''assign_capacity'' dec_i64 (st_assign_capacity x),
     st_mgs_address := get_member ms ''mgs_address'' dec_str (st_mgs_address x),
     st_state := get_member ms ''state'' dec_int (ud_int d)\<rparr>"

definition wf_StorageResource :: "storage_resource \<Rightarrow> bool" where
  "wf_StorageResource x \<longleftrightarrow>
     nul_free (st_storage_src_id x) \<and> nul_free (st_storage_src_name x) \<and>
     nul_free (st_host_center_id x) \<and> nul_free (st_host_center_name x) \<and>
     in_i64 (st_total_capacity x) \<and> in_i64 (st_assign_capacity x) \<and>
     nul_free (st_mgs_address x) \<and> in_i32 (st_state x)"

interpretation StorageResource_json:
  json_total ser_StorageResource "des_StorageResource d" wf_StorageResource for d
  by unfold_locales
    (auto simp: ser_StorageResource_def des_StorageResource_def wf_StorageResource_def
      get_member_def intro!: storage_resource.equality)

definition new_StorageResource :: "'z indet_scheme \<Rightarrow> storage_resource" where
  "new_StorageResource d = \<lparr>st_storage_src_id = [], st_storage_src_name = [],
     st_host_center_id = [], st_host_center_name = [], st_total_capacity = ud_i64 d,
     st_assign_capacity = ud_i64 d, st_mgs_address = [], st_state = ud_int d\<rparr>"

definition storage_prefix :: string where "storage_prefix = ''STOR-''"

definition storage_key :: "storage_resource \<Rightarrow> string" where
  "storage_key x = storage_prefix @ st_storage_src_id x"

text \<open>A node of the I/O proxy layer.\<close>

abbreviation (input) "IOP_Running \<equiv> 0 :: int"
abbreviation (input) "IOP_Stopped \<equiv> 1 :: int"
abbreviation (input) "IOP_Starting \<equiv> 2 :: int"

record ioproxy_node =
  iop_rpc_port :: int
  iop_data_port :: int
  iop_ip :: string
  iop_name :: string
  iop_status :: int
  iop_uuid :: string
  iop_cid :: string

definition ser_IOProxyNode :: "ioproxy_node \<Rightarrow> members" where
  "ser_IOProxyNode x =
     [(''uuid'', enc_str (iop_uuid x)),
      (''ip'', enc_str (iop_ip x)),
      (''name'', enc_str (iop_name x)),
      (''rpc_port'', enc_int (iop_rpc_port x)),
      (''data_port'', enc_int (iop_data_port x)),
      (''status'', enc_int (iop_status x)),
      (''cid'', enc_str (iop_cid x))]"

definition des_IOProxyNode :: "'z indet_scheme \<Rightarrow> members \<Rightarrow> ioproxy_node \<Rightarrow> ioproxy_node" where
  "des_IOProxyNode d ms x = x\<lparr>
     iop_uuid := get_member ms ''uuid'' dec_str (iop_uuid x),
     iop_ip := get_member ms ''ip'' dec_str (iop_ip x),
     iop_name := get_member ms ''name'' dec_str (iop_name x),
     iop_rpc_port := get_member ms ''rpc_port'' dec_int (iop_rpc_port x),
     iop_data_port := get_member ms ''data_port'' dec_int (iop_data_port x),
     iop_status := get_member ms ''status'' dec_int (ud_int d),
     iop_cid := get_member ms ''cid'' dec_str (iop_cid x)\<rparr>"

definition wf_IOProxyNode :: "ioproxy_node \<Rightarrow> bool" where
  "wf_IOProxyNode x \<longleftrightarrow>
     nul_free (iop_uuid x) \<and> nul_free (iop_ip x) \<and> nul_free (iop_name x) \<and>
     in_i32 (iop_rpc_port x) \<and> in_i32 (iop_data_port x) \<and> in_i32 (iop_status x) \<and>
     nul_free (iop_cid x)"

interpretation IOProxyNode_json:
  json_total ser_IOProxyNode "des_IOProxyNode d" wf_IOProxyNode for d
  by unfold_locales
    (auto simp: ser_IOProxyNode_def des_IOProxyNode_def wf_IOProxyNode_def
      get_member_def intro!: ioproxy_node.equality)

definition ioproxy_prefix :: string where "ioproxy_prefix = ''IOPN-''"

text \<open>The assignment operator copies every field except \<open>cid\<close>.\<close>

definition assign_IOProxyNode :: "ioproxy_node \<Rightarrow> ioproxy_node \<Rightarrow> ioproxy_node" where
  "assign_IOProxyNode this oths = this\<lparr>
     iop_rpc_port := iop_rpc_port oths, iop_data_port := iop_data_port oths,
     iop_ip := iop_ip oths, iop_name := iop_name oths, iop_status := iop_status oths,
     iop_uuid := iop_uuid oths\<rparr>"

end
