(* ===== verification/Datastore.thy ===== *)
theory Datastore
  imports Structs
begin

text \<open>
  \<open>datastore/datastore.h\<close>, \<open>datastore/datastore.cc\<close>, \<open>datastore/couchbase_helper.h\<close> and
  \<open>datastore/couchbase_helper.cc\<close>: the document store client every server of the manager opens
  at the start of a request. The Couchbase client, the operating system and the HTTP client are
  parameters (the fields of \<open>sys\<close>). \<open>couchbase_law\<close> states what their documentation promises,
  failures included; \<open>couchbase_up\<close> adds that no call fails.
\<close>

section \<open>The outside\<close>

text \<open>
  A query either fails in the client, or is answered by an error document, or by rows.
  \<open>cb_docs\<close> reads the documents off a world; no definition of the program uses it.
\<close>

datatype query_out = QFail int | QMeta string | QRows "string list"

type_synonym dockey = "string \<times> string"
type_synonym docs = "dockey \<Rightarrow> string option"

record 'w sys = indet +
  cfg :: "string \<Rightarrow> string option"
  cb_connect :: "string \<Rightarrow> string \<Rightarrow> string \<Rightarrow> 'w \<Rightarrow> int \<times> 'w"
  cb_get :: "string \<Rightarrow> string \<Rightarrow> 'w \<Rightarrow> (int \<times> string) \<times> 'w"
  cb_get_sub :: "string \<Rightarrow> string \<Rightarrow> string \<Rightarrow> 'w \<Rightarrow> (int \<times> string) \<times> 'w"
  cb_exists_sub :: "string \<Rightarrow> string \<Rightarrow> string \<Rightarrow> 'w \<Rightarrow> int \<times> 'w"
  cb_insert :: "string \<Rightarrow> string \<Rightarrow> string \<Rightarrow> 'w \<Rightarrow> int \<times> 'w"
  cb_upsert :: "string \<Rightarrow> string \<Rightarrow> string \<Rightarrow> 'w \<Rightarrow> int \<times> 'w"
  cb_upsert_sub :: "string \<Rightarrow> string \<Rightarrow> string \<Rightarrow> string \<Rightarrow> 'w \<Rightarrow> int \<times> 'w"
  cb_arr_insert_uniq :: "string \<Rightarrow> string \<Rightarrow> string \<Rightarrow> string \<Rightarrow> 'w \<Rightarrow> int \<times> 'w"
  cb_remove :: "string \<Rightarrow> string \<Rightarrow> 'w \<Rightarrow> int \<times> 'w"
  cb_query :: "string \<Rightarrow> string \<Rightarrow> 'w \<Rightarrow> query_out \<times> 'w"
  uuid_gen :: "'w \<Rightarrow> string \<times> 'w"
  os_mkdir :: "string \<Rightarrow> 'w \<Rightarrow> int \<times> 'w"
  os_popen :: "string \<Rightarrow> 'w \<Rightarrow> string option \<times> 'w"
  http_post :: "string \<Rightarrow> string \<Rightarrow> 'w \<Rightarrow> string option \<times> 'w"
  cb_docs :: "'w \<Rightarrow> docs"

text \<open>The configuration a server's constructor copies into its fields.\<close>

definition manager_bucket :: "'w sys \<Rightarrow> string" where
  "manager_bucket sys = (case cfg sys ''manager.bucket'' of Some b \<Rightarrow> b | None \<Rightarrow> ''test'')"

section \<open>\<open>CouchbaseDatastore\<close>\<close>

text \<open>
  A datastore object: the bucket it was made for and whether \<open>_connect\<close> got as far as making a
  client. \<open>_connect\<close> needs three configuration entries.
\<close>

datatype datastore = Datastore (ds_name: string) (ds_client: bool)

type_synonym datastore_ptr = "datastore option"

definition connstr :: "string \<Rightarrow> string \<Rightarrow> string" where
  "connstr addr bucket =
     snprintf_n (17 + length addr + length bucket) (''couchbase://'' @ cstr addr @ ''/'' @ cstr bucket)"

definition ds_connect :: "'w sys \<Rightarrow> string \<Rightarrow> ('w, int \<times> datastore) prog" where
  "ds_connect sys bucket =
     (case cfg sys ''manager.couchbase_addr'' of
        None \<Rightarrow> ret (- EINVAL, Datastore bucket False)
      | Some addr \<Rightarrow> (case cfg sys ''manager.couchbase_user'' of
          None \<Rightarrow> ret (- EINVAL, Datastore bucket False)
        | Some username \<Rightarrow> (case cfg sys ''manager.couchbase_passwd'' of
            None \<Rightarrow> ret (- EINVAL, Datastore bucket False)
          | Some passwd \<Rightarrow>
              bnd (ext (cb_connect sys (connstr addr bucket) passwd username)) (\<lambda>rc.
              if rc \<noteq> 0 then ret (- ENETUNREACH, Datastore bucket True)
              else ret (rc, Datastore bucket True)))))"

text \<open>\<open>CouchbaseDatastore(bucket)\<close> followed by \<open>init()\<close> whose result the caller ignores.\<close>

definition ds_init_direct :: "'w sys \<Rightarrow> string \<Rightarrow> ('w, datastore_ptr) prog" where
  "ds_init_direct sys bucket = bnd (ds_connect sys bucket) (\<lambda>(rc, ds). ret (Some ds))"

datatype datastore_type = null_store | couchbase_store | memcached_store

text \<open>
  \<open>create_datastore\<close>: reuse is switched off, only Couchbase is implemented, and a datastore that
  does not initialise is a null pointer.
\<close>

definition create_datastore :: "'w sys \<Rightarrow> string \<Rightarrow> datastore_type \<Rightarrow> ('w, datastore_ptr) prog" where
  "create_datastore sys name type =
     (case type of
        couchbase_store \<Rightarrow> bnd (ds_connect sys name) (\<lambda>(rc, ds). ret (if rc = 0 then Some ds else None))
      | memcached_store \<Rightarrow> ret None
      | null_store \<Rightarrow> ret None)"

abbreviation "open_ds sys b \<equiv> create_datastore sys b couchbase_store"

text \<open>Every operation goes through the object pointer and the client pointer inside it.\<close>

definition ds_call :: "datastore_ptr \<Rightarrow> (string \<Rightarrow> 'w \<Rightarrow> 'a \<times> 'w) \<Rightarrow> ('w, 'a) prog" where
  "ds_call p f = bnd (deref p) (\<lambda>ds. if ds_client ds then ext (f (ds_name ds)) else crash Null_Deref)"

definition ds_insert :: "'w sys \<Rightarrow> datastore_ptr \<Rightarrow> string \<Rightarrow> string \<Rightarrow> ('w, int) prog" where
  "ds_insert sys p key doc = ds_call p (\<lambda>b. cb_insert sys b key doc)"

definition ds_set :: "'w sys \<Rightarrow> datastore_ptr \<Rightarrow> string \<Rightarrow> string \<Rightarrow> ('w, int) prog" where
  "ds_set sys p key doc = ds_call p (\<lambda>b. cb_upsert sys b key doc)"

definition ds_set_sub :: "'w sys \<Rightarrow> datastore_ptr \<Rightarrow> string \<Rightarrow> string \<Rightarrow> string \<Rightarrow> ('w, int) prog" where
  "ds_set_sub sys p key path doc = ds_call p (\<lambda>b. cb_upsert_sub sys b key path doc)"

definition ds_exist :: "'w sys \<Rightarrow> datastore_ptr \<Rightarrow> string \<Rightarrow> string \<Rightarrow> ('w, bool) prog" where
  "ds_exist sys p key path =
     bnd (ds_call p (\<lambda>b. cb_exists_sub sys b key path)) (\<lambda>rc. ret (rc \<noteq> 0))"

definition get_result :: "int \<times> string \<Rightarrow> string option \<times> int" where
  "get_result r = (case r of (rc, v) \<Rightarrow> (if rc = 0 then Some v else None, rc))"

definition ds_get :: "'w sys \<Rightarrow> datastore_ptr \<Rightarrow> string \<Rightarrow> ('w, string option \<times> int) prog" where
  "ds_get sys p key = bnd (ds_call p (\<lambda>b. cb_get sys b key)) (\<lambda>r. ret (get_result r))"

definition ds_get_sub ::
  "'w sys \<Rightarrow> datastore_ptr \<Rightarrow> string \<Rightarrow> string \<Rightarrow> ('w, string option \<times> int) prog" where
  "ds_get_sub sys p key path =
     bnd (ds_call p (\<lambda>b. cb_get_sub sys b key path)) (\<lambda>r. ret (get_result r))"

definition ds_remove :: "'w sys \<Rightarrow> datastore_ptr \<Rightarrow> string \<Rightarrow> ('w, int) prog" where
  "ds_remove sys p key = ds_call p (\<lambda>b. cb_remove sys b key)"

definition ds_arr_insert_uniq ::
  "'w sys \<Rightarrow> datastore_ptr \<Rightarrow> string \<Rightarrow> string \<Rightarrow> string \<Rightarrow> ('w, int) prog" where
  "ds_arr_insert_uniq sys p key path v = ds_call p (\<lambda>b. cb_arr_insert_uniq sys b key path v)"

text \<open>
  \<open>_n1ql\<close>: the rows, or the code of a client failure, or the status of the server's error document.
  That document sets the status only for the two words the code knows; an error that is not an
  object fails an assertion. The vector of rows is never null.
\<close>

definition errors_ok :: "members \<Rightarrow> bool" where
  "errors_ok ms = (case map_of ms ''errors'' of
       Some (JArr vs) \<Rightarrow> list_all (\<lambda>v. case v of JObj _ \<Rightarrow> True | _ \<Rightarrow> False) vs
     | _ \<Rightarrow> True)"

definition des_N1qlResponse :: "'z indet_scheme \<Rightarrow> members \<Rightarrow> int \<Rightarrow> int outcome" where
  "des_N1qlResponse d ms status =
    (if \<not> errors_ok ms then Crash Assert_Failed
     else (let status_s = get_member ms ''status'' dec_str []
       in if status_s = ''fatal'' then Val (- EINVAL)
          else if status_s = ''success'' then Val 0
          else Val status))"

definition ds_n1ql :: "'w sys \<Rightarrow> datastore_ptr \<Rightarrow> string \<Rightarrow> ('w, string list \<times> int) prog" where
  "ds_n1ql sys p query =
     bnd (ds_call p (\<lambda>b. cb_query sys b query)) (\<lambda>out.
     case out of
       QRows rows \<Rightarrow> ret (rows, 0)
     | QFail rc \<Rightarrow> ret ([], rc)
     | QMeta body \<Rightarrow>
         (case deserialize sys (des_N1qlResponse sys) body (ud_int sys) of
            Crash c \<Rightarrow> crash c
          | Val status \<Rightarrow> ret ([], status)))"

section \<open>What the outside promises\<close>

text \<open>
  A successful read returns the document; a successful write is done; a failed write may have
  happened or not. Nothing but the writes changes documents.
\<close>

definition wrote :: "int \<Rightarrow> docs \<Rightarrow> docs \<Rightarrow> docs \<Rightarrow> bool" where
  "wrote rc old new got \<longleftrightarrow> got = new \<or> rc \<noteq> 0 \<and> got = old"

definition get_law :: "'w sys \<Rightarrow> bool" where
  "get_law sys \<longleftrightarrow> (\<forall>b k w. case cb_get sys b k w of ((rc, v), w') \<Rightarrow>
     cb_docs sys w' = cb_docs sys w \<and> (rc = 0 \<longrightarrow> cb_docs sys w (b, k) = Some v))"

definition upsert_law :: "'w sys \<Rightarrow> bool" where
  "upsert_law sys \<longleftrightarrow> (\<forall>b k v w. case cb_upsert sys b k v w of (rc, w') \<Rightarrow>
     wrote rc (cb_docs sys w) ((cb_docs sys w)((b, k) \<mapsto> v)) (cb_docs sys w'))"

definition insert_law :: "'w sys \<Rightarrow> bool" where
  "insert_law sys \<longleftrightarrow> (\<forall>b k v w. case cb_insert sys b k v w of (rc, w') \<Rightarrow>
     if cb_docs sys w (b, k) = None
     then wrote rc (cb_docs sys w) ((cb_docs sys w)((b, k) \<mapsto> v)) (cb_docs sys w')
     else rc \<noteq> 0 \<and> cb_docs sys w' = cb_docs sys w)"

definition remove_law :: "'w sys \<Rightarrow> bool" where
  "remove_law sys \<longleftrightarrow> (\<forall>b k w. case cb_remove sys b k w of (rc, w') \<Rightarrow>
     wrote rc (cb_docs sys w) ((cb_docs sys w)((b, k) := None)) (cb_docs sys w') \<and>
     (cb_docs sys w (b, k) = None \<longrightarrow> rc \<noteq> 0))"

text \<open>
  Sub-document calls on a member name without path characters. The server keeps the document as a
  JSON object and may reformat it, so the promise is about what the text parses to.
\<close>

definition simple_path :: "string \<Rightarrow> bool" where
  "simple_path s \<longleftrightarrow> s \<noteq> [] \<and> list_all (\<lambda>c. c \<notin> {CHR ''.'', CHR ''['', CHR '']'', CHR 0x60, CHR 0x00}) s"

definition doc_members :: "'z rapidjson_scheme \<Rightarrow> string option \<Rightarrow> members option" where
  "doc_members rj d = (case d of
       Some t \<Rightarrow> (case rj_parse rj (cstr t) of Some (JObj ms) \<Rightarrow> Some ms | _ \<Rightarrow> None)
     | None \<Rightarrow> None)"

definition doc_at :: "'z rapidjson_scheme \<Rightarrow> string option \<Rightarrow> string \<Rightarrow> json option" where
  "doc_at rj d path = (case doc_members rj d of Some ms \<Rightarrow> map_of ms path | None \<Rightarrow> None)"

definition get_sub_law :: "'w sys \<Rightarrow> bool" where
  "get_sub_law sys \<longleftrightarrow> (\<forall>b k p w. case cb_get_sub sys b k p w of ((rc, v), w') \<Rightarrow>
     cb_docs sys w' = cb_docs sys w \<and>
     (simple_path p \<and> rc = 0 \<longrightarrow>
        doc_at sys (cb_docs sys w (b, k)) p \<noteq> None \<and>
        rj_parse sys (cstr v) = doc_at sys (cb_docs sys w (b, k)) p))"

definition upsert_sub_law :: "'w sys \<Rightarrow> bool" where
  "upsert_sub_law sys \<longleftrightarrow> (\<forall>b k p v w. case cb_upsert_sub sys b k p v w of (rc, w') \<Rightarrow>
     (\<forall>q. q \<noteq> (b, k) \<longrightarrow> cb_docs sys w' q = cb_docs sys w q) \<and>
     (simple_path p \<longrightarrow>
        rc \<noteq> 0 \<and> cb_docs sys w' = cb_docs sys w \<or>
        doc_members sys (cb_docs sys w (b, k)) \<noteq> None \<and> rj_parse sys (cstr v) \<noteq> None \<and>
        doc_members sys (cb_docs sys w' (b, k)) \<noteq> None \<and>
        (\<forall>q. doc_at sys (cb_docs sys w' (b, k)) q =
           (if q = p then rj_parse sys (cstr v) else doc_at sys (cb_docs sys w (b, k)) q))))"

definition arr_insert_law :: "'w sys \<Rightarrow> bool" where
  "arr_insert_law sys \<longleftrightarrow> (\<forall>b k p v w. case cb_arr_insert_uniq sys b k p v w of (rc, w') \<Rightarrow>
     (\<forall>q. q \<noteq> (b, k) \<longrightarrow> cb_docs sys w' q = cb_docs sys w q))"

definition select_query :: "string \<Rightarrow> bool" where
  "select_query q \<longleftrightarrow> take 6 q = ''select''"

definition quiet_law :: "'w sys \<Rightarrow> bool" where
  "quiet_law sys \<longleftrightarrow>
     (\<forall>c p u w. cb_docs sys (snd (cb_connect sys c p u w)) = cb_docs sys w) \<and>
     (\<forall>b k p w. cb_docs sys (snd (cb_exists_sub sys b k p w)) = cb_docs sys w) \<and>
     (\<forall>b q w. select_query q \<longrightarrow> cb_docs sys (snd (cb_query sys b q w)) = cb_docs sys w) \<and>
     (\<forall>w. cb_docs sys (snd (uuid_gen sys w)) = cb_docs sys w) \<and>
     (\<forall>d w. cb_docs sys (snd (os_mkdir sys d w)) = cb_docs sys w) \<and>
     (\<forall>c w. cb_docs sys (snd (os_popen sys c w)) = cb_docs sys w)"

definition couchbase_law :: "'w sys \<Rightarrow> bool" where
  "couchbase_law sys \<longleftrightarrow> get_law sys \<and> upsert_law sys \<and> insert_law sys \<and> remove_law sys \<and>
     get_sub_law sys \<and> upsert_sub_law sys \<and> arr_insert_law sys \<and> quiet_law sys"

text \<open>No call fails, except for want of the document.\<close>

definition couchbase_up :: "'w sys \<Rightarrow> bool" where
  "couchbase_up sys \<longleftrightarrow>
     cfg sys ''manager.couchbase_addr'' \<noteq> None \<and> cfg sys ''manager.couchbase_user'' \<noteq> None \<and>
     cfg sys ''manager.couchbase_passwd'' \<noteq> None \<and>
     (\<forall>c p u w. fst (cb_connect sys c p u w) = 0) \<and>
     (\<forall>b k w. cb_docs sys w (b, k) \<noteq> None \<longrightarrow> fst (fst (cb_get sys b k w)) = 0) \<and>
     (\<forall>b k v w. fst (cb_upsert sys b k v w) = 0) \<and>
     (\<forall>b k v w. cb_docs sys w (b, k) = None \<longrightarrow> fst (cb_insert sys b k v w) = 0) \<and>
     (\<forall>b k w. cb_docs sys w (b, k) \<noteq> None \<longrightarrow> fst (cb_remove sys b k w) = 0) \<and>
     (\<forall>b k p w. simple_path p \<and> doc_at sys (cb_docs sys w (b, k)) p \<noteq> None \<longrightarrow>
        fst (fst (cb_get_sub sys b k p w)) = 0) \<and>
     (\<forall>b k p v w. simple_path p \<and> doc_members sys (cb_docs sys w (b, k)) \<noteq> None \<and>
        rj_parse sys (cstr v) \<noteq> None \<longrightarrow> fst (cb_upsert_sub sys b k p v w) = 0)"

end
