(* ===== verification/Datastore_Rules.thy ===== *)
theory Datastore_Rules
  imports Datastore
begin

text \<open>
  Weakest precondition rules for the calls of \<open>Datastore\<close> under \<open>couchbase_law\<close>, the interface a
  read-modify-write handler needs from a document store as a locale, and its interpretation on the
  Couchbase client.
\<close>

section \<open>Null pointers\<close>

lemma ds_call_None [simp]: "ds_call None f = crash Null_Deref"
  by (simp add: ds_call_def deref_def bnd_def crash_def fun_eq_iff)

lemma ds_call_no_client [simp]: "ds_call (Some (Datastore b False)) f = crash Null_Deref"
  by (simp add: ds_call_def deref_def bnd_def crash_def ret_def fun_eq_iff)

lemma ds_call_Some [simp]: "ds_call (Some (Datastore b True)) f = ext (f b)"
  by (simp add: ds_call_def deref_def bnd_def ret_def fun_eq_iff)

lemma bnd_crash [simp]: "bnd (crash c) f = crash c"
  by (simp add: bnd_def crash_def fun_eq_iff)

lemma bnd_ret [simp]: "bnd (ret a) f = f a"
  by (simp add: bnd_def ret_def fun_eq_iff)

lemma bnd_assoc: "bnd (bnd m f) g = bnd m (\<lambda>a. bnd (f a) g)"
  by (auto simp: bnd_def fun_eq_iff split: prod.splits outcome.splits)

lemma ds_null [simp]:
  "ds_get sys None k = crash Null_Deref"
  "ds_set sys None k v = crash Null_Deref"
  "ds_get_sub sys None k p = crash Null_Deref"
  "ds_set_sub sys None k p v = crash Null_Deref"
  "ds_insert sys None k v = crash Null_Deref"
  "ds_remove sys None k = crash Null_Deref"
  "ds_n1ql sys None q = crash Null_Deref"
  "ds_arr_insert_uniq sys None k p v = crash Null_Deref"
  by (simp_all add: ds_get_def ds_set_def ds_get_sub_def ds_set_sub_def ds_insert_def
      ds_remove_def ds_n1ql_def ds_arr_insert_uniq_def)

lemma ds_no_client [simp]:
  "ds_get sys (Some (Datastore b False)) k = crash Null_Deref"
  "ds_set sys (Some (Datastore b False)) k v = crash Null_Deref"
  "ds_remove sys (Some (Datastore b False)) k = crash Null_Deref"
  "ds_get_sub sys (Some (Datastore b False)) k p = crash Null_Deref"
  "ds_set_sub sys (Some (Datastore b False)) k p v = crash Null_Deref"
  "ds_insert sys (Some (Datastore b False)) k v = crash Null_Deref"
  "ds_n1ql sys (Some (Datastore b False)) q = crash Null_Deref"
  by (simp_all add: ds_get_def ds_set_def ds_remove_def ds_get_sub_def ds_set_sub_def ds_insert_def
      ds_n1ql_def)

section \<open>The laws, call by call\<close>

lemma law_parts:
  assumes "couchbase_law sys"
  shows "get_law sys" "upsert_law sys" "insert_law sys" "remove_law sys" "get_sub_law sys"
    "upsert_sub_law sys" "quiet_law sys"
  using assms by (simp_all add: couchbase_law_def)

lemma get_lawD:
  assumes "couchbase_law sys" and r: "cb_get sys b k w = ((rc, v), w')"
  shows "cb_docs sys w' = cb_docs sys w \<and> (rc = 0 \<longrightarrow> cb_docs sys w (b, k) = Some v)"
  using law_parts(1) [OF assms(1), unfolded get_law_def, rule_format,
    where b = b and k = k and w = w] by (simp add: r)

lemma upsert_lawD:
  assumes "couchbase_law sys" and r: "cb_upsert sys b k v w = (rc, w')"
  shows "wrote rc (cb_docs sys w) ((cb_docs sys w)((b, k) \<mapsto> v)) (cb_docs sys w')"
  using law_parts(2) [OF assms(1), unfolded upsert_law_def, rule_format,
    where b = b and k = k and v = v and w = w] by (simp add: r)

lemma insert_lawD:
  assumes "couchbase_law sys" and r: "cb_insert sys b k v w = (rc, w')"
  shows "if cb_docs sys w (b, k) = None
     then wrote rc (cb_docs sys w) ((cb_docs sys w)((b, k) \<mapsto> v)) (cb_docs sys w')
     else rc \<noteq> 0 \<and> cb_docs sys w' = cb_docs sys w"
  using law_parts(3) [OF assms(1), unfolded insert_law_def, rule_format,
    where b = b and k = k and v = v and w = w] by (simp add: r)

lemma remove_lawD:
  assumes "couchbase_law sys" and r: "cb_remove sys b k w = (rc, w')"
  shows "wrote rc (cb_docs sys w) ((cb_docs sys w)((b, k) := None)) (cb_docs sys w') \<and>
     (cb_docs sys w (b, k) = None \<longrightarrow> rc \<noteq> 0)"
  using law_parts(4) [OF assms(1), unfolded remove_law_def, rule_format,
    where b = b and k = k and w = w] by (simp add: r)

lemma get_sub_lawD:
  assumes "couchbase_law sys" and r: "cb_get_sub sys b k p w = ((rc, v), w')"
  shows "cb_docs sys w' = cb_docs sys w \<and>
     (simple_path p \<and> rc = 0 \<longrightarrow>
        doc_at sys (cb_docs sys w (b, k)) p \<noteq> None \<and>
        rj_parse sys (cstr v) = doc_at sys (cb_docs sys w (b, k)) p)"
  using law_parts(5) [OF assms(1), unfolded get_sub_law_def, rule_format,
    where b = b and k = k and p = p and w = w] by (simp add: r)

lemma upsert_sub_lawD:
  assumes "couchbase_law sys" and r: "cb_upsert_sub sys b k p v w = (rc, w')"
  shows "(\<forall>q. q \<noteq> (b, k) \<longrightarrow> cb_docs sys w' q = cb_docs sys w q) \<and>
     (simple_path p \<longrightarrow>
        rc \<noteq> 0 \<and> cb_docs sys w' = cb_docs sys w \<or>
        doc_members sys (cb_docs sys w (b, k)) \<noteq> None \<and> rj_parse sys (cstr v) \<noteq> None \<and>
        doc_members sys (cb_docs sys w' (b, k)) \<noteq> None \<and>
        (\<forall>q. doc_at sys (cb_docs sys w' (b, k)) q =
           (if q = p then rj_parse sys (cstr v) else doc_at sys (cb_docs sys w (b, k)) q)))"
  using law_parts(6) [OF assms(1), unfolded upsert_sub_law_def, rule_format,
    where b = b and k = k and p = p and v = v and w = w] by (simp add: r)

lemma quiet:
  assumes "couchbase_law sys"
  shows "cb_docs sys (snd (cb_connect sys c p u w)) = cb_docs sys w"
    "select_query q \<Longrightarrow> cb_docs sys (snd (cb_query sys b q w)) = cb_docs sys w"
    "cb_docs sys (snd (uuid_gen sys w)) = cb_docs sys w"
    "cb_docs sys (snd (os_mkdir sys d w)) = cb_docs sys w"
    "cb_docs sys (snd (os_popen sys c w)) = cb_docs sys w"
  using law_parts(7) [OF assms] by (simp_all add: quiet_law_def)

lemma up_rc:
  assumes "couchbase_up sys"
  shows "cb_connect sys c p u w = (rc, w') \<Longrightarrow> rc = 0"
    "cb_get sys b k w = ((rc, v), w') \<Longrightarrow> cb_docs sys w (b, k) \<noteq> None \<Longrightarrow> rc = 0"
    "cb_upsert sys b k d w = (rc, w') \<Longrightarrow> rc = 0"
    "cb_insert sys b k d w = (rc, w') \<Longrightarrow> cb_docs sys w (b, k) = None \<Longrightarrow> rc = 0"
    "cb_remove sys b k w = (rc, w') \<Longrightarrow> cb_docs sys w (b, k) \<noteq> None \<Longrightarrow> rc = 0"
    "cb_get_sub sys b k q w = ((rc, v), w') \<Longrightarrow> simple_path q \<Longrightarrow>
       doc_at sys (cb_docs sys w (b, k)) q \<noteq> None \<Longrightarrow> rc = 0"
    "cb_upsert_sub sys b k q d w = (rc, w') \<Longrightarrow> simple_path q \<Longrightarrow>
       doc_members sys (cb_docs sys w (b, k)) \<noteq> None \<Longrightarrow> rj_parse sys (cstr d) \<noteq> None \<Longrightarrow> rc = 0"
  using assms unfolding couchbase_up_def by (metis fst_conv)+

section \<open>Opening\<close>

lemma wp_ds_connect:
  assumes law: "couchbase_law sys"
    and fail: "\<And>w' rc c. cb_docs sys w' = cb_docs sys w \<Longrightarrow> \<not> couchbase_up sys \<Longrightarrow> rc \<noteq> 0 \<Longrightarrow>
      Q (Val (rc, Datastore b c)) w'"
    and good: "\<And>w'. cb_docs sys w' = cb_docs sys w \<Longrightarrow> Q (Val (0, Datastore b True)) w'"
  shows "wp (ds_connect sys b) Q w"
proof -
  have conf: "\<not> couchbase_up sys"
    if "cfg sys ''manager.couchbase_addr'' = None \<or> cfg sys ''manager.couchbase_user'' = None \<or>
        cfg sys ''manager.couchbase_passwd'' = None"
    using that by (auto simp: couchbase_up_def)
  have conn: "wp (ext (cb_connect sys c p u)) R w"
    if "\<And>rc w'. cb_docs sys w' = cb_docs sys w \<Longrightarrow> rc \<noteq> 0 \<Longrightarrow> \<not> couchbase_up sys \<Longrightarrow> R (Val rc) w'"
      "\<And>w'. cb_docs sys w' = cb_docs sys w \<Longrightarrow> R (Val 0) w'" for c p u R
  proof -
    obtain rc w' where r: "cb_connect sys c p u w = (rc, w')" by fastforce
    have "cb_docs sys w' = cb_docs sys w"
      using quiet(1) [OF law, of c p u w] r by simp
    moreover have "rc \<noteq> 0 \<Longrightarrow> \<not> couchbase_up sys"
      using r by (metis up_rc(1))
    ultimately show ?thesis using that r by (cases "rc = 0") (simp_all add: wp_ext)
  qed
  show ?thesis
    unfolding ds_connect_def
    by (auto split: option.splits intro!: fail good conn conf)
qed

lemma wp_open_ds [wp_rules]:
  assumes "couchbase_law sys"
    and "\<And>w'. cb_docs sys w' = cb_docs sys w \<Longrightarrow> \<not> couchbase_up sys \<Longrightarrow> Q (Val None) w'"
    and "\<And>w'. cb_docs sys w' = cb_docs sys w \<Longrightarrow> Q (Val (Some (Datastore b True))) w'"
  shows "wp (open_ds sys b) Q w"
  unfolding create_datastore_def using assms by (auto intro!: wp_ds_connect)

lemma wp_ds_init_direct [wp_rules]:
  assumes "couchbase_law sys"
    and "\<And>w' c. cb_docs sys w' = cb_docs sys w \<Longrightarrow> \<not> couchbase_up sys \<Longrightarrow>
      Q (Val (Some (Datastore b c))) w'"
    and "\<And>w'. cb_docs sys w' = cb_docs sys w \<Longrightarrow> Q (Val (Some (Datastore b True))) w'"
  shows "wp (ds_init_direct sys b) Q w"
  unfolding ds_init_direct_def using assms by (auto intro!: wp_ds_connect)

section \<open>Documents\<close>

lemma wp_ds_get [wp_rules]:
  assumes law: "couchbase_law sys"
    and fail: "\<And>w' rc. cb_docs sys w' = cb_docs sys w \<Longrightarrow> rc \<noteq> 0 \<Longrightarrow>
      couchbase_up sys \<longrightarrow> cb_docs sys w (b, k) = None \<Longrightarrow> Q (Val (None, rc)) w'"
    and good: "\<And>w' v. cb_docs sys w' = cb_docs sys w \<Longrightarrow> cb_docs sys w (b, k) = Some v \<Longrightarrow>
      Q (Val (Some v, 0)) w'"
  shows "wp (ds_get sys (Some (Datastore b True)) k) Q w"
proof -
  obtain rc v w' where r: "cb_get sys b k w = ((rc, v), w')" by (metis surj_pair)
  have d: "cb_docs sys w' = cb_docs sys w" "rc = 0 \<Longrightarrow> cb_docs sys w (b, k) = Some v"
    using get_lawD [OF law r] by auto
  have "couchbase_up sys \<longrightarrow> cb_docs sys w (b, k) = None" if "rc \<noteq> 0"
    using that up_rc(2) [OF _ r] by blast
  with d r fail good show ?thesis
    by (cases "rc = 0") (simp_all add: ds_get_def wp_ext get_result_def)
qed

lemma wp_ds_set [wp_rules]:
  assumes law: "couchbase_law sys"
    and fail: "\<And>w' rc. rc \<noteq> 0 \<Longrightarrow> \<not> couchbase_up sys \<Longrightarrow>
      cb_docs sys w' = cb_docs sys w \<or> cb_docs sys w' = (cb_docs sys w)((b, k) \<mapsto> v) \<Longrightarrow>
      Q (Val rc) w'"
    and good: "\<And>w'. cb_docs sys w' = (cb_docs sys w)((b, k) \<mapsto> v) \<Longrightarrow> Q (Val 0) w'"
  shows "wp (ds_set sys (Some (Datastore b True)) k v) Q w"
proof -
  obtain rc w' where r: "cb_upsert sys b k v w = (rc, w')" by fastforce
  have d: "wrote rc (cb_docs sys w) ((cb_docs sys w)((b, k) \<mapsto> v)) (cb_docs sys w')"
    using upsert_lawD [OF law r] .
  have "\<not> couchbase_up sys" if "rc \<noteq> 0"
    using that up_rc(3) [OF _ r] by blast
  with d r fail good show ?thesis
    by (cases "rc = 0") (auto simp: ds_set_def wp_ext wrote_def)
qed

lemma wp_ds_insert [wp_rules]:
  assumes law: "couchbase_law sys"
    and fail: "\<And>w' rc. rc \<noteq> 0 \<Longrightarrow> couchbase_up sys \<longrightarrow> cb_docs sys w (b, k) \<noteq> None \<Longrightarrow>
      cb_docs sys w' = cb_docs sys w \<or>
      cb_docs sys w (b, k) = None \<and> cb_docs sys w' = (cb_docs sys w)((b, k) \<mapsto> v) \<Longrightarrow> Q (Val rc) w'"
    and good: "\<And>w'. cb_docs sys w (b, k) = None \<Longrightarrow>
      cb_docs sys w' = (cb_docs sys w)((b, k) \<mapsto> v) \<Longrightarrow> Q (Val 0) w'"
  shows "wp (ds_insert sys (Some (Datastore b True)) k v) Q w"
proof -
  obtain rc w' where r: "cb_insert sys b k v w = (rc, w')" by fastforce
  have d: "if cb_docs sys w (b, k) = None
      then wrote rc (cb_docs sys w) ((cb_docs sys w)((b, k) \<mapsto> v)) (cb_docs sys w')
      else rc \<noteq> 0 \<and> cb_docs sys w' = cb_docs sys w"
    using insert_lawD [OF law r] .
  have up: "couchbase_up sys \<longrightarrow> cb_docs sys w (b, k) \<noteq> None" if "rc \<noteq> 0"
    using that up_rc(4) [OF _ r] by blast
  show ?thesis
  proof (cases "rc = 0")
    case True
    with d r good show ?thesis by (auto simp: ds_insert_def wp_ext wrote_def split: if_splits)
  next
    case False
    with d up have "cb_docs sys w' = cb_docs sys w \<or>
      cb_docs sys w (b, k) = None \<and> cb_docs sys w' = (cb_docs sys w)((b, k) \<mapsto> v)"
      by (auto simp: wrote_def split: if_splits)
    with False up r fail show ?thesis by (simp add: ds_insert_def wp_ext)
  qed
qed

lemma wp_ds_remove [wp_rules]:
  assumes law: "couchbase_law sys"
    and fail: "\<And>w' rc. rc \<noteq> 0 \<Longrightarrow> couchbase_up sys \<longrightarrow> cb_docs sys w (b, k) = None \<Longrightarrow>
      cb_docs sys w' = cb_docs sys w \<or> cb_docs sys w' = (cb_docs sys w)((b, k) := None) \<Longrightarrow>
      Q (Val rc) w'"
    and good: "\<And>w'. cb_docs sys w (b, k) \<noteq> None \<Longrightarrow>
      cb_docs sys w' = (cb_docs sys w)((b, k) := None) \<Longrightarrow> Q (Val 0) w'"
  shows "wp (ds_remove sys (Some (Datastore b True)) k) Q w"
proof -
  obtain rc w' where r: "cb_remove sys b k w = (rc, w')" by fastforce
  have d: "wrote rc (cb_docs sys w) ((cb_docs sys w)((b, k) := None)) (cb_docs sys w') \<and>
     (cb_docs sys w (b, k) = None \<longrightarrow> rc \<noteq> 0)"
    using remove_lawD [OF law r] .
  have up: "couchbase_up sys \<longrightarrow> cb_docs sys w (b, k) = None" if "rc \<noteq> 0"
    using that up_rc(5) [OF _ r] by blast
  show ?thesis
  proof (cases "rc = 0")
    case True
    with d r good show ?thesis by (auto simp: ds_remove_def wp_ext wrote_def)
  next
    case False
    with d have "cb_docs sys w' = cb_docs sys w \<or> cb_docs sys w' = (cb_docs sys w)((b, k) := None)"
      by (auto simp: wrote_def)
    with False up r fail show ?thesis by (simp add: ds_remove_def wp_ext)
  qed
qed

section \<open>Sub-documents\<close>

lemma wp_ds_get_sub [wp_rules]:
  assumes law: "couchbase_law sys"
    and fail: "\<And>w' rc. cb_docs sys w' = cb_docs sys w \<Longrightarrow> rc \<noteq> 0 \<Longrightarrow>
      couchbase_up sys \<and> simple_path p \<longrightarrow> doc_at sys (cb_docs sys w (b, k)) p = None \<Longrightarrow>
      Q (Val (None, rc)) w'"
    and good: "\<And>w' v. cb_docs sys w' = cb_docs sys w \<Longrightarrow>
      simple_path p \<longrightarrow> doc_at sys (cb_docs sys w (b, k)) p \<noteq> None \<and>
        rj_parse sys (cstr v) = doc_at sys (cb_docs sys w (b, k)) p \<Longrightarrow>
      Q (Val (Some v, 0)) w'"
  shows "wp (ds_get_sub sys (Some (Datastore b True)) k p) Q w"
proof -
  obtain rc v w' where r: "cb_get_sub sys b k p w = ((rc, v), w')" by (metis surj_pair)
  note d = get_sub_lawD [OF law r]
  have "couchbase_up sys \<and> simple_path p \<longrightarrow> doc_at sys (cb_docs sys w (b, k)) p = None" if "rc \<noteq> 0"
    using that up_rc(6) [OF _ r] by blast
  with d r fail good show ?thesis
    by (cases "rc = 0") (simp_all add: ds_get_sub_def wp_ext get_result_def)
qed

definition sub_written :: "'w sys \<Rightarrow> docs \<Rightarrow> docs \<Rightarrow> dockey \<Rightarrow> string \<Rightarrow> string \<Rightarrow> bool" where
  "sub_written sys old new k p v \<longleftrightarrow>
     doc_members sys (old k) \<noteq> None \<and> rj_parse sys (cstr v) \<noteq> None \<and>
     doc_members sys (new k) \<noteq> None \<and> (\<forall>q. q \<noteq> k \<longrightarrow> new q = old q) \<and>
     (\<forall>q. doc_at sys (new k) q = (if q = p then rj_parse sys (cstr v) else doc_at sys (old k) q))"

lemma wp_ds_set_sub [wp_rules]:
  assumes law: "couchbase_law sys"
    and path: "simple_path p"
    and fail: "\<And>w' rc. rc \<noteq> 0 \<Longrightarrow>
      \<not> (couchbase_up sys \<and> doc_members sys (cb_docs sys w (b, k)) \<noteq> None \<and>
         rj_parse sys (cstr v) \<noteq> None) \<Longrightarrow>
      cb_docs sys w' = cb_docs sys w \<or> sub_written sys (cb_docs sys w) (cb_docs sys w') (b, k) p v \<Longrightarrow>
      Q (Val rc) w'"
    and good: "\<And>w'. sub_written sys (cb_docs sys w) (cb_docs sys w') (b, k) p v \<Longrightarrow> Q (Val 0) w'"
  shows "wp (ds_set_sub sys (Some (Datastore b True)) k p v) Q w"
proof -
  obtain rc w' where r: "cb_upsert_sub sys b k p v w = (rc, w')" by fastforce
  have d: "rc \<noteq> 0 \<and> cb_docs sys w' = cb_docs sys w \<or>
      sub_written sys (cb_docs sys w) (cb_docs sys w') (b, k) p v"
    using upsert_sub_lawD [OF law r] path unfolding sub_written_def by auto
  have "\<not> (couchbase_up sys \<and> doc_members sys (cb_docs sys w (b, k)) \<noteq> None \<and>
         rj_parse sys (cstr v) \<noteq> None)" if "rc \<noteq> 0"
    using that up_rc(7) [OF _ r path] by blast
  with d r fail good show ?thesis
    by (cases "rc = 0") (auto simp: ds_set_sub_def wp_ext)
qed

section \<open>Calls that leave the documents alone\<close>

lemma wp_ds_n1ql [wp_rules]:
  assumes law: "couchbase_law sys" and q: "select_query q"
    and any: "\<And>w' rows rc. cb_docs sys w' = cb_docs sys w \<Longrightarrow> Q (Val (rows, rc)) w'"
    and bad: "\<And>w'. cb_docs sys w' = cb_docs sys w \<Longrightarrow> Q (Crash Assert_Failed) w'"
  shows "wp (ds_n1ql sys (Some (Datastore b True)) q) Q w"
proof -
  obtain out w' where r: "cb_query sys b q w = (out, w')" by fastforce
  have "cb_docs sys (snd (cb_query sys b q w)) = cb_docs sys w"
    using quiet(2) [OF law q] .
  with r have d: "cb_docs sys w' = cb_docs sys w" by simp
  have "deserialize sys (des_N1qlResponse sys) body s \<in> {Crash Assert_Failed} \<union> range Val" for body s
    by (auto simp: deserialize_def des_N1qlResponse_def Let_def split: option.splits json.splits)
  then have "\<And>body s. deserialize sys (des_N1qlResponse sys) body s = Crash Assert_Failed \<or>
      (\<exists>n. deserialize sys (des_N1qlResponse sys) body s = Val n)" by blast
  then show ?thesis
    using any [OF d] bad [OF d] r
    by (cases out) (auto simp: ds_n1ql_def wp_ext split: outcome.splits, metis outcome.distinct(1) outcome.inject(2))
qed

lemma wp_uuid_gen [wp_rules]:
  assumes "couchbase_law sys"
    and "\<And>w' u. cb_docs sys w' = cb_docs sys w \<Longrightarrow> Q (Val u) w'"
  shows "wp (ext (uuid_gen sys)) Q w"
proof -
  show ?thesis
    using assms(2) quiet(3) [OF assms(1)] by (cases "uuid_gen sys w") (simp add: wp_ext, metis snd_conv)
qed

lemma wp_os_mkdir [wp_rules]:
  assumes "couchbase_law sys"
    and "\<And>w' rc. cb_docs sys w' = cb_docs sys w \<Longrightarrow> Q (Val rc) w'"
  shows "wp (ext (os_mkdir sys d)) Q w"
proof -
  show ?thesis
    using assms(2) quiet(4) [OF assms(1)] by (cases "os_mkdir sys d w") (simp add: wp_ext, metis snd_conv)
qed

lemma wp_os_popen [wp_rules]:
  assumes "couchbase_law sys"
    and "\<And>w' out. cb_docs sys w' = cb_docs sys w \<Longrightarrow> Q (Val out) w'"
  shows "wp (ext (os_popen sys c)) Q w"
proof -
  show ?thesis
    using assms(2) quiet(5) [OF assms(1)] by (cases "os_popen sys c w") (simp add: wp_ext, metis snd_conv)
qed

section \<open>Steps of a program when the store does not fail\<close>

lemma up_open:
  assumes "couchbase_law sys" "couchbase_up sys"
    and "\<And>w'. cb_docs sys w' = cb_docs sys w \<Longrightarrow> wp (f (Some (Datastore b True))) Q w'"
  shows "wp (bnd (open_ds sys b) f) Q w"
  using assms by (auto intro!: wp_open_ds)

lemma up_init:
  assumes "couchbase_law sys" "couchbase_up sys"
    and "\<And>w'. cb_docs sys w' = cb_docs sys w \<Longrightarrow> wp (f (Some (Datastore b True))) Q w'"
  shows "wp (bnd (ds_init_direct sys b) f) Q w"
  using assms by (auto intro!: wp_ds_init_direct)

lemma up_get:
  assumes "couchbase_law sys" "couchbase_up sys" and "cb_docs sys w (b, k) = Some v"
    and "\<And>w'. cb_docs sys w' = cb_docs sys w \<Longrightarrow> wp (f (Some v, 0)) Q w'"
  shows "wp (bnd (ds_get sys (Some (Datastore b True)) k) f) Q w"
  using assms by (auto intro!: wp_ds_get)

lemma up_set:
  assumes "couchbase_law sys" "couchbase_up sys"
    and "\<And>w'. cb_docs sys w' = (cb_docs sys w)((b, k) \<mapsto> v) \<Longrightarrow> wp (f 0) Q w'"
  shows "wp (bnd (ds_set sys (Some (Datastore b True)) k v) f) Q w"
  using assms by (auto intro!: wp_ds_set)

lemma up_remove:
  assumes "couchbase_law sys" "couchbase_up sys" and "cb_docs sys w (b, k) \<noteq> None"
    and "\<And>w'. cb_docs sys w' = (cb_docs sys w)((b, k) := None) \<Longrightarrow> wp (f 0) Q w'"
  shows "wp (bnd (ds_remove sys (Some (Datastore b True)) k) f) Q w"
  using assms by (auto intro!: wp_ds_remove)

lemma up_uuid:
  assumes "couchbase_law sys"
    and "\<And>w' u. cb_docs sys w' = cb_docs sys w \<Longrightarrow> u = fst (uuid_gen sys w) \<Longrightarrow> wp (f u) Q w'"
  shows "wp (bnd (ext (uuid_gen sys)) f) Q w"
proof -
  obtain u w' where r: "uuid_gen sys w = (u, w')" by fastforce
  with quiet(3) [OF assms(1), of w] have "cb_docs sys w' = cb_docs sys w" by simp
  with assms(2) r show ?thesis by (simp add: wp_ext)
qed

text \<open>The identifiers the generator gives.\<close>

definition new_id :: "'w sys \<Rightarrow> string \<Rightarrow> bool" where
  "new_id sys u \<longleftrightarrow> (\<exists>w. u = fst (uuid_gen sys w))"

lemma wp_new_id:
  assumes "couchbase_law sys"
    and "\<And>w' u. cb_docs sys w' = cb_docs sys w \<Longrightarrow> new_id sys u \<Longrightarrow> wp (f u) Q w'"
  shows "wp (bnd (ext (uuid_gen sys)) f) Q w"
  using assms by (auto intro!: up_uuid simp: new_id_def simp del: wp_bnd)

lemma deref_Some: "deref (Some a) = ret a"
  by (simp add: deref_def)

text \<open>One step of such a program: tuples, tests on return codes, pointers just obtained.\<close>

lemmas run_simps = prod.case simp_thms if_False if_True deref_Some bnd_ret Let_def

text \<open>Queries with a known answer.\<close>

definition answers :: "'w sys \<Rightarrow> string \<Rightarrow> string list \<Rightarrow> bool" where
  "answers sys q rows \<longleftrightarrow> select_query q \<and> (\<forall>w. fst (cb_query sys (manager_bucket sys) q w) = QRows rows)"

lemma up_n1ql:
  assumes "couchbase_law sys" and "answers sys q rows"
    and "\<And>w'. cb_docs sys w' = cb_docs sys w \<Longrightarrow> wp (f (rows, 0)) Q w'"
  shows "wp (bnd (ds_n1ql sys (Some (Datastore (manager_bucket sys) True)) q) f) Q w"
proof -
  obtain w' where r: "cb_query sys (manager_bucket sys) q w = (QRows rows, w')"
    using assms(2) by (metis answers_def prod.collapse)
  with quiet(2) [OF assms(1), of q "manager_bucket sys" w] assms(2,3)
  show ?thesis by (simp add: ds_n1ql_def wp_ext answers_def)
qed

text \<open>Sub-documents.\<close>

lemma up_get_sub:
  assumes "couchbase_law sys" "couchbase_up sys" "simple_path p"
    and "doc_at sys (cb_docs sys w (b, k)) p = Some j"
    and "\<And>w' v. cb_docs sys w' = cb_docs sys w \<Longrightarrow> rj_parse sys (cstr v) = Some j \<Longrightarrow>
      wp (f (Some v, 0)) Q w'"
  shows "wp (bnd (ds_get_sub sys (Some (Datastore b True)) k p) f) Q w"
  using assms by (auto intro!: wp_ds_get_sub)

lemma up_get_sub_none:
  assumes "couchbase_law sys" "simple_path p"
    and "doc_at sys (cb_docs sys w (b, k)) p = None"
    and "\<And>w' rc. cb_docs sys w' = cb_docs sys w \<Longrightarrow> rc \<noteq> 0 \<Longrightarrow> wp (f (None, rc)) Q w'"
  shows "wp (bnd (ds_get_sub sys (Some (Datastore b True)) k p) f) Q w"
  using assms by (auto intro!: wp_ds_get_sub)

lemma up_set_sub:
  assumes "couchbase_law sys" "couchbase_up sys" "simple_path p"
    and "doc_members sys (cb_docs sys w (b, k)) \<noteq> None" "rj_parse sys (cstr v) \<noteq> None"
    and "\<And>w'. sub_written sys (cb_docs sys w) (cb_docs sys w') (b, k) p v \<Longrightarrow> wp (f 0) Q w'"
  shows "wp (bnd (ds_set_sub sys (Some (Datastore b True)) k p v) f) Q w"
  unfolding wp_bnd by (rule wp_ds_set_sub [OF assms(1,3)]) (use assms in auto)

section \<open>Read, modify, write\<close>

text \<open>
  The shape of most handlers: read a document, let it decide between an error code and a new
  text, write the text back. \<open>document_store\<close> is what such a client needs of the store: \<open>env\<close> is
  what the store itself relies on, \<open>up\<close> says that no call fails.
\<close>

definition update_doc ::
  "('k \<Rightarrow> ('w, string option \<times> int) prog) \<Rightarrow> ('k \<Rightarrow> string \<Rightarrow> ('w, int) prog) \<Rightarrow>
   'k \<Rightarrow> (string \<Rightarrow> int + string) \<Rightarrow> ('w, int) prog" where
  "update_doc get put k step =
    bnd (get k) (\<lambda>(vp, err).
    if err \<noteq> 0 then ret EAGAIN
    else bnd (deref vp) (\<lambda>v.
      case step v of
        Inl e \<Rightarrow> ret e
      | Inr v' \<Rightarrow> bnd (put k v') (\<lambda>flag. if flag \<noteq> 0 then ret EAGAIN else ret 0)))"

locale document_store =
  fixes env up :: bool
    and docs :: "'w \<Rightarrow> 'k \<Rightarrow> string option"
    and get :: "'k \<Rightarrow> ('w, string option \<times> int) prog"
    and put :: "'k \<Rightarrow> string \<Rightarrow> ('w, int) prog"
  assumes get_rule: "env \<Longrightarrow>
      (\<And>w' rc. docs w' = docs w \<Longrightarrow> rc \<noteq> 0 \<Longrightarrow> up \<longrightarrow> docs w k = None \<Longrightarrow> Q (Val (None, rc)) w') \<Longrightarrow>
      (\<And>w' v. docs w' = docs w \<Longrightarrow> docs w k = Some v \<Longrightarrow> Q (Val (Some v, 0)) w') \<Longrightarrow>
      wp (get k) Q w"
    and put_rule: "env \<Longrightarrow>
      (\<And>w' rc. rc \<noteq> 0 \<Longrightarrow> \<not> up \<Longrightarrow> docs w' = docs w \<or> docs w' = (docs w)(k \<mapsto> v) \<Longrightarrow> R (Val rc) w') \<Longrightarrow>
      (\<And>w'. docs w' = (docs w)(k \<mapsto> v) \<Longrightarrow> R (Val 0) w') \<Longrightarrow>
      wp (put k v) R w"
begin

text \<open>
  The result tells what happened: the step's own code, with the documents as they were; 0 with
  exactly that document replaced; or \<open>EAGAIN\<close>, after which the document is the old or the new one.
\<close>

lemma update_doc_rule:
  assumes "env"
    and fail: "\<And>w'. up \<longrightarrow> docs w k = None \<Longrightarrow>
      docs w' = docs w \<or>
      (\<exists>v v'. \<not> up \<and> docs w k = Some v \<and> step v = Inr v' \<and> docs w' = (docs w)(k \<mapsto> v')) \<Longrightarrow>
      Q (Val EAGAIN) w'"
    and refused: "\<And>w' v e. docs w k = Some v \<Longrightarrow> step v = Inl e \<Longrightarrow> docs w' = docs w \<Longrightarrow> Q (Val e) w'"
    and written: "\<And>w' v v'. docs w k = Some v \<Longrightarrow> step v = Inr v' \<Longrightarrow>
      docs w' = (docs w)(k \<mapsto> v') \<Longrightarrow> Q (Val 0) w'"
  shows "wp (update_doc get put k step) Q w"
  unfolding update_doc_def wp_bnd
proof (rule get_rule [OF assms(1)], goal_cases)
  case (1 w' rc)
  then show ?case by (auto intro: fail)
next
  case (2 w' v)
  note r = 2
  show ?case
  proof (cases "step v")
    case (Inl e)
    with r show ?thesis by (auto intro: refused)
  next
    case (Inr v')
    have "wp (bnd (put k v') (\<lambda>flag. if flag \<noteq> 0 then ret EAGAIN else ret 0)) Q w'"
      unfolding wp_bnd
    proof (rule put_rule [OF assms(1)], goal_cases)
      case (1 w'' rc)
      with r Inr show ?case by (auto intro: fail)
    next
      case (2 w'')
      with r Inr show ?case by (auto intro: written)
    qed
    with r Inr show ?thesis by simp
  qed
qed

lemma update_doc_frame:
  assumes "env"
  shows "wp (update_doc get put k step) (\<lambda>r w'. \<forall>q. q \<noteq> k \<longrightarrow> docs w' q = docs w q) w"
  using assms by (intro update_doc_rule) auto

lemma update_doc_no_crash:
  assumes "env"
  shows "wp (update_doc get put k step) (\<lambda>r w'. \<exists>rc. r = Val rc) w"
  using assms by (intro update_doc_rule) auto

text \<open>An invariant of single documents survives, whatever fails, when the step keeps it.\<close>

lemma update_doc_inv:
  assumes "env" and "\<And>q v. docs w q = Some v \<Longrightarrow> I q v"
    and "\<And>v v'. docs w k = Some v \<Longrightarrow> I k v \<Longrightarrow> step v = Inr v' \<Longrightarrow> I k v'"
  shows "wp (update_doc get put k step) (\<lambda>r w'. \<forall>q v. docs w' q = Some v \<longrightarrow> I q v) w"
  using assms by (intro update_doc_rule) (auto split: if_splits)

end

interpretation cb: document_store "couchbase_law sys" "couchbase_up sys" "cb_docs sys"
  "\<lambda>(b, k). ds_get sys (Some (Datastore b True)) k"
  "\<lambda>(b, k) v. ds_set sys (Some (Datastore b True)) k v" for sys :: "'w sys"
  by unfold_locales (auto intro!: wp_rules split: prod.splits)

end
