(* ===== verification/SpaceServer.thy ===== *)
theory SpaceServer
  imports Datastore_Rules "HOL-Library.Signed_Division"
begin

text \<open>
  \<open>manager/space/SpaceServer.cc\<close>: the server of spaces. A space is a document \<open>SPACE-<id>\<close>; the
  capacity it takes is counted in the document of its storage resource. The server keeps no state
  of its own beside the configuration, so its operations are programs over the outside world. A
  handler \<open>...Rest\<close> takes the body of the request and gives the status and the body of the response.
\<close>

section \<open>Configuration and text\<close>

definition space_prefix :: string where "space_prefix = ''SPACE-''"

definition data_path :: "'w sys \<Rightarrow> string" where
  "data_path sys = (case cfg sys ''manager.data_path'' of Some p \<Rightarrow> p | None \<Rightarrow> [])"

definition ManagerID :: "'w sys \<Rightarrow> string" where
  "ManagerID sys = (case cfg sys ''manager.id'' of Some i \<Rightarrow> i | None \<Rightarrow> [])"

text \<open>
  The constructor reads three entries without a default through \<open>*optional\<close>; the server exists only
  when they are set.
\<close>

definition SpaceServer_ctor :: "'w sys \<Rightarrow> unit outcome" where
  "SpaceServer_ctor sys =
     (if cfg sys ''manager.id'' = None \<or> cfg sys ''manager.bucket'' = None \<or>
         cfg sys ''manager.data_path'' = None
      then Crash Null_Deref else Val ())"

text \<open>A double quote and a back quote, for the texts of queries.\<close>

definition dq :: string where "dq = [CHR 0x22]"
definition bq :: string where "bq = [CHR 0x60]"

type_synonym response = "nat \<times> string"

abbreviation (input) http_ok :: "string \<Rightarrow> response" where "http_ok s \<equiv> (200, s)"

section \<open>Where a space is\<close>

text \<open>
  One \<open>Space\<close> object serves all iterations of the loop, so a document that lacks a member shows the
  value of the document before it.
\<close>

primrec positions_loop ::
  "'w sys \<Rightarrow> datastore_ptr \<Rightarrow> space \<Rightarrow> space list \<Rightarrow> string list \<Rightarrow> ('w, space list) prog" where
  "positions_loop sys p tmps result [] = ret result"
| "positions_loop sys p tmps result (m # ms) =
    bnd (ds_get sys p (space_prefix @ m)) (\<lambda>(vs, err).
    if err \<noteq> 0 then ret result
    else bnd (deref vs) (\<lambda>v.
      let tmps = load sys des_Space v tmps in
      bnd (open_ds sys (manager_bucket sys)) (\<lambda>q.
      bnd (ds_get sys q (sp_storageSrcID tmps)) (\<lambda>(vp, serr).
      if serr \<noteq> 0 then ret result
      else bnd (deref vp) (\<lambda>_. positions_loop sys p tmps (result @ [tmps]) ms)))))"

definition GetSpacePosition :: "'w sys \<Rightarrow> space list \<Rightarrow> string list \<Rightarrow> ('w, space list) prog" where
  "GetSpacePosition sys result spaceID =
     bnd (open_ds sys (manager_bucket sys)) (\<lambda>p.
     positions_loop sys p (new_Space sys) result spaceID)"

primrec info_loop ::
  "'w sys \<Rightarrow> datastore_ptr \<Rightarrow> space \<Rightarrow> space list \<Rightarrow> string list \<Rightarrow> ('w, space list) prog" where
  "info_loop sys p tmps acc [] = ret acc"
| "info_loop sys p tmps acc (m # ms) =
    bnd (ds_get sys p (space_prefix @ m)) (\<lambda>(vs, err).
    if err = 0
    then bnd (deref vs) (\<lambda>v.
      let tmps = load sys des_Space v tmps in info_loop sys p tmps (acc @ [tmps]) ms)
    else info_loop sys p tmps acc ms)"

definition GetSpaceInfo :: "'w sys \<Rightarrow> string list \<Rightarrow> ('w, space list) prog" where
  "GetSpaceInfo sys spaceID =
     bnd (open_ds sys (manager_bucket sys)) (\<lambda>p. info_loop sys p (new_Space sys) [] spaceID)"

section \<open>The ledger of a storage resource\<close>

definition SpaceSizeAdd :: "'w sys \<Rightarrow> string \<Rightarrow> int \<Rightarrow> ('w, int) prog" where
  "SpaceSizeAdd sys StorageID add_size =
    bnd (open_ds sys (manager_bucket sys)) (\<lambda>storptr.
    bnd (ds_get sys storptr StorageID) (\<lambda>(vp, err).
    if err \<noteq> 0 then ret EAGAIN
    else bnd (deref vp) (\<lambda>stor_value.
      let storage = load sys (des_StorageResource sys) stor_value (new_StorageResource sys) in
      if i64 (st_assign_capacity storage + add_size) > st_total_capacity storage then ret ENOSPC
      else
        let storage = storage\<lparr>st_assign_capacity := i64 (st_assign_capacity storage + add_size)\<rparr> in
        bnd (ds_set sys storptr StorageID (serialize sys ser_StorageResource storage)) (\<lambda>flag.
        if flag \<noteq> 0 then ret EAGAIN else ret 0))))"

definition SpaceSizeDeduct :: "'w sys \<Rightarrow> string \<Rightarrow> int \<Rightarrow> ('w, int) prog" where
  "SpaceSizeDeduct sys StorageID deduct_size =
    bnd (open_ds sys (manager_bucket sys)) (\<lambda>storptr.
    bnd (ds_get sys storptr StorageID) (\<lambda>(vp, err).
    if err \<noteq> 0 then ret EAGAIN
    else bnd (deref vp) (\<lambda>stor_value.
      let storage = load sys (des_StorageResource sys) stor_value (new_StorageResource sys) in
      if i64 (st_assign_capacity storage - deduct_size) < 0 then ret EINVAL
      else
        let storage = storage\<lparr>st_assign_capacity := i64 (st_assign_capacity storage - deduct_size)\<rparr> in
        bnd (ds_set sys storptr StorageID (serialize sys ser_StorageResource storage)) (\<lambda>flag.
        if flag \<noteq> 0 then ret EAGAIN else ret 0))))"

section \<open>Choosing a storage resource\<close>

definition storage_query :: "'w sys \<Rightarrow> string \<Rightarrow> string \<Rightarrow> string" where
  "storage_query sys hostCenterName storageSrcName = snprintf_n 256
     (''select assign_capacity,host_center_id,host_center_name,mgs_address,''
      @ ''state,storage_src_id, storage_src_name, total_capacity from '' @ bq
      @ cstr (manager_bucket sys) @ bq @ '' where host_center_name = '' @ dq @ cstr hostCenterName @ dq
      @ (if storageSrcName = [] then []
         else '' and storage_src_name = '' @ dq @ cstr storageSrcName @ dq))"

text \<open>
  The free space of every row is the key of a \<open>std::map<int, string, greaters>\<close>: the difference of
  two 64 bit numbers is converted to \<open>int\<close>, equal keys overwrite, and the largest key comes first
  (here: the smallest negated key).
\<close>

definition free_key :: "storage_resource \<Rightarrow> int" where
  "free_key storage = i32 (i64 (st_total_capacity storage - st_assign_capacity storage))"

definition rank_storage :: "'w sys \<Rightarrow> string list \<Rightarrow> (int \<times> string) list" where
  "rank_storage sys rows = foldl (\<lambda>ma tmp_value.
     smap_set (- free_key (load sys (des_StorageResource sys) tmp_value (new_StorageResource sys)))
       tmp_value ma) [] rows"

definition GetSpaceCreatePath ::
  "'w sys \<Rightarrow> int \<Rightarrow> string \<Rightarrow> string \<Rightarrow> ('w, (string \<times> string) \<times> string \<times> string) prog" where
  "GetSpaceCreatePath sys spaceSize hostCenterName storageSrcName =
    bnd (open_ds sys (manager_bucket sys)) (\<lambda>storagePtr.
    bnd (ds_n1ql sys storagePtr (storage_query sys hostCenterName storageSrcName)) (\<lambda>(vp, err).
    if err \<noteq> 0 then ret (([], []), hostCenterName, storageSrcName)
    else if vp = [] then ret (([], []), hostCenterName, storageSrcName)
    else
      let storage = load sys (des_StorageResource sys) (snd (hd (rank_storage sys vp)))
                      (new_StorageResource sys) in
      ret ((storage_prefix @ st_storage_src_id storage, st_host_center_id storage),
           st_host_center_name storage, st_storage_src_name storage)))"

section \<open>Creating, checking and deleting\<close>

definition SpaceCreate ::
  "'w sys \<Rightarrow> string \<Rightarrow> string \<Rightarrow> string list \<Rightarrow> int \<Rightarrow> string \<Rightarrow> string \<Rightarrow> ('w, string) prog" where
  "SpaceCreate sys spaceName ownerID memberID spaceSize spacePathInfo groupname =
    bnd (open_ds sys (manager_bucket sys)) (\<lambda>spacePtr.
    let tmpm = load sys des_Space spacePathInfo (new_Space sys) in
    bnd (GetSpaceCreatePath sys spaceSize (sp_hostCenterName tmpm) (sp_storageSrcName tmpm))
      (\<lambda>((storid, hostid), hcn, ssn).
    if storid = [] \<and> hostid = [] then ret ''-3''
    else
      let tmpm = tmpm\<lparr>sp_hostCenterName := hcn, sp_storageSrcName := ssn,
                      sp_storageSrcID := storid, sp_hostCenterID := hostid\<rparr> in
      bnd (SpaceSizeAdd sys (sp_storageSrcID tmpm) spaceSize) (\<lambda>addret.
      if addret \<noteq> 0 then ret ''-1''
      else
        bnd (ext (uuid_gen sys)) (\<lambda>tmp_uuid.
        bnd (ext (os_mkdir sys (cstr (data_path sys @ ''/'' @ tmp_uuid)))) (\<lambda>mkret.
        if mkret \<noteq> 0 then ret ''-2''
        else
          let new_space = (new_Space sys)\<lparr>
                sp_spaceID := tmp_uuid, sp_spacePath := tmp_uuid, sp_spaceName := spaceName,
                sp_spaceSize := spaceSize, sp_hostCenterID := sp_hostCenterID tmpm,
                sp_hostCenterName := sp_hostCenterName tmpm,
                sp_storageSrcID := sp_storageSrcID tmpm,
                sp_storageSrcName := sp_storageSrcName tmpm, sp_status := True\<rparr> in
          if sp_spaceName new_space = [] \<or> sp_spaceSize new_space = 0 then ret ''-5''
          else
            bnd (ds_set sys spacePtr (space_prefix @ sp_spaceID new_space)
                   (serialize sys ser_Space new_space)) (\<lambda>flag.
            if flag \<noteq> 0 then ret ''-2'' else ret (sp_spaceID new_space)))))))"

definition space_check_query :: "'w sys \<Rightarrow> space \<Rightarrow> string" where
  "space_check_query sys tmpm = snprintf_n 256
     (''select UUID, name, capcity, SC_UUID, Storage_UUID, root_location, ''
      @ ''hostCenterName, storageSrcName, Status from '' @ bq @ cstr (manager_bucket sys) @ bq
      @ '' where SC_UUID = '' @ dq @ cstr (sp_hostCenterID tmpm) @ dq
      @ '' and Storage_UUID = '' @ dq @ cstr (sp_storageSrcID tmpm) @ dq
      @ '' and root_location = '' @ dq @ cstr (sp_spacePath tmpm) @ dq
      @ '' and META().id like '' @ [CHR 0x27] @ space_prefix @ ''%'' @ [CHR 0x27])"

definition SpaceCheck :: "'w sys \<Rightarrow> string \<Rightarrow> string list \<Rightarrow> string \<Rightarrow> ('w, string) prog" where
  "SpaceCheck sys ownerID memberID spacePathInfo =
    bnd (open_ds sys (manager_bucket sys)) (\<lambda>spacePtr.
    let tmpm = load sys des_Space spacePathInfo (new_Space sys) in
    bnd (GetSpaceCreatePath sys 0 (sp_hostCenterName tmpm) (sp_storageSrcName tmpm))
      (\<lambda>((storid, hostid), hcn, ssn).
    if storid = [] \<and> hostid = [] then ret ''false''
    else
      let tmpm = tmpm\<lparr>sp_hostCenterName := hcn, sp_storageSrcName := ssn,
                      sp_hostCenterID := hostid, sp_storageSrcID := storid\<rparr> in
      bnd (ds_n1ql sys spacePtr (space_check_query sys tmpm)) (\<lambda>(vp, err).
      if err \<noteq> 0 then ret ''false''
      else if length vp \<noteq> 1 then ret ''false''
      else
        let tmps = load sys des_Space (hd vp) (new_Space sys) in
        if sp_status tmps then ret ''false''
        else
          let tmps = tmps\<lparr>sp_status := True\<rparr> in
          bnd (SpaceSizeAdd sys (sp_storageSrcID tmps) (sp_spaceSize tmps)) (\<lambda>addret.
          if addret \<noteq> 0 then ret ''false''
          else
            bnd (ds_set sys spacePtr (space_prefix @ sp_spaceID tmps) (serialize sys ser_Space tmps))
              (\<lambda>flag. if flag \<noteq> 0 then ret ''false'' else ret (sp_spaceID tmps))))))"

primrec SpaceDelete :: "'w sys \<Rightarrow> string list \<Rightarrow> ('w, int) prog" where
  "SpaceDelete sys [] = ret 0"
| "SpaceDelete sys (m # ms) =
    bnd (open_ds sys (manager_bucket sys)) (\<lambda>spacePtr.
    bnd (ds_get sys spacePtr (space_prefix @ m)) (\<lambda>(vs, err).
    if err \<noteq> 0 then ret 0
    else bnd (deref vs) (\<lambda>tmps_value.
      let tmps = (load sys des_Space tmps_value (new_Space sys))\<lparr>sp_status := False\<rparr> in
      bnd (SpaceSizeDeduct sys (sp_storageSrcID tmps) (sp_spaceSize tmps)) (\<lambda>rc.
      if rc \<noteq> 0 then SpaceDelete sys ms
      else
        bnd (ds_set sys spacePtr (space_prefix @ m) (serialize sys ser_Space tmps)) (\<lambda>flag.
        if flag \<noteq> 0 then ret (- 1) else SpaceDelete sys ms)))))"

section \<open>Renaming\<close>

text \<open>\<open>s.substr(50)\<close> is what follows the first 50 characters.\<close>

definition SpaceRename :: "'w sys \<Rightarrow> string \<Rightarrow> string \<Rightarrow> ('w, int) prog" where
  "SpaceRename sys spaceID newSpaceName =
    bnd (open_ds sys (manager_bucket sys)) (\<lambda>spaceptr.
    bnd (ds_get sys spaceptr (space_prefix @ spaceID)) (\<lambda>(vp, err).
    if err \<noteq> 0 then ret (- 1)
    else bnd (deref vp) (\<lambda>space_value.
      let space = load sys des_Space space_value (new_Space sys) in
      if \<not> sp_status space then ret (- 1)
      else
        let newSpaceName = (if length newSpaceName > 50 then drop 50 newSpaceName else newSpaceName);
            oldpath = data_path sys @ sp_spaceName space;
            newpath = data_path sys @ newSpaceName in
        if oldpath = newpath then ret 0
        else
          let space = space\<lparr>sp_spaceName := newSpaceName\<rparr> in
          bnd (ds_set sys spaceptr (space_prefix @ spaceID) (serialize sys ser_Space space)) (\<lambda>flag.
          if flag \<noteq> 0 then ret (- 1) else ret 0))))"

definition new_SpaceRequest :: "'z indet_scheme \<Rightarrow> space_request" where
  "new_SpaceRequest sys =
     \<lparr>sr_spaceID = [], sr_spaceIDs = [], sr_newSpaceSize = ud_i64 sys, sr_newSpaceName = []\<rparr>"

definition SpaceRenameRest :: "'w sys \<Rightarrow> string \<Rightarrow> ('w, response) prog" where
  "SpaceRenameRest sys info =
    (let req = load sys des_SpaceRequest info (new_SpaceRequest sys) in
     bnd (SpaceRename sys (sr_spaceID req) (sr_newSpaceName req)) (\<lambda>result_i.
     ret (http_ok (if result_i = 0 then ''success'' else ''fail''))))"

section \<open>How much a space uses\<close>

text \<open>
  \<open>find_first_of(c, pos)\<close>; \<open>fgets(buf, n, fp)\<close> on the text a command prints; \<open>sscanf\<close> with
  \<open>%d\<close>, which as in the C library reads a \<open>long\<close> with saturation and stores its low 32 bits, and
  leaves the variable alone when there is no number.
\<close>

definition find_from :: "char \<Rightarrow> nat \<Rightarrow> string \<Rightarrow> nat option" where
  "find_from c pos s =
     (if c \<in> set (drop pos s) then Some (pos + length (takeWhile (\<lambda>x. x \<noteq> c) (drop pos s))) else None)"

definition fgets_line :: "nat \<Rightarrow> string \<Rightarrow> string" where
  "fgets_line n out =
     take (n - 1) (takeWhile (\<lambda>x. x \<noteq> CHR 0x0A) out @ (if CHR 0x0A \<in> set out then [CHR 0x0A] else []))"

definition is_space_char :: "char \<Rightarrow> bool" where
  "is_space_char c \<longleftrightarrow> c = CHR '' '' \<or> (9 \<le> (of_char c :: nat) \<and> (of_char c :: nat) \<le> 13)"

definition digit_val :: "char \<Rightarrow> nat" where
  "digit_val c = (of_char c :: nat) - 48"

definition is_digit :: "char \<Rightarrow> bool" where
  "is_digit c \<longleftrightarrow> 48 \<le> (of_char c :: nat) \<and> (of_char c :: nat) \<le> 57"

definition dec_value :: "string \<Rightarrow> nat" where
  "dec_value ds = foldl (\<lambda>n c. 10 * n + digit_val c) 0 ds"

definition saturate_long :: "int \<Rightarrow> int" where
  "saturate_long n = (if n < - (2 ^ 63) then - (2 ^ 63) else if 2 ^ 63 - 1 < n then 2 ^ 63 - 1 else n)"

definition sscanf_d :: "string \<Rightarrow> int \<Rightarrow> int" where
  "sscanf_d s old =
    (let t = dropWhile is_space_char s;
         neg = (t \<noteq> [] \<and> hd t = CHR ''-'');
         u = (if t \<noteq> [] \<and> (hd t = CHR ''-'' \<or> hd t = CHR ''+'') then tl t else t);
         ds = takeWhile is_digit u in
     if ds = [] then old
     else i32 (saturate_long (if neg then - int (dec_value ds) else int (dec_value ds))))"

text \<open>The figure in the line that \<open>du -h -d 0\<close> prints, in KB.\<close>

definition parse_du :: "string \<Rightarrow> int outcome" where
  "parse_du cmdresult =
    (let a = (case find_from CHR '' '' 0 cmdresult of Some i \<Rightarrow> i + 1 | None \<Rightarrow> 0);
         size_str = (case find_from CHR 0x09 a cmdresult of
             Some e \<Rightarrow> take (e - a) (drop a cmdresult) | None \<Rightarrow> drop a cmdresult) in
     if size_str = [] then Crash Out_Of_Range
     else
       let formal_size = sscanf_d (cstr (butlast size_str)) 0;
           unit = last size_str in
       Val (if unit = CHR ''G'' then i32 (i32 (formal_size * 1000) * 1000)
            else if unit = CHR ''M'' then i32 (formal_size * 1000)
            else if unit = CHR ''K'' then formal_size
            else 0))"

text \<open>
  The command is formatted into 150 bytes without a bound: a longer one writes past the array.
\<close>

definition SpaceUsage :: "'w sys \<Rightarrow> string \<Rightarrow> ('w, int) prog" where
  "SpaceUsage sys spacepath =
    bnd (deref (cfg sys ''manager.data_path'')) (\<lambda>localstoragepath.
    let cmd = ''du -h -d 0 '' @ cstr (localstoragepath @ spacepath) in
    if length cmd + 1 > 150 then crash Out_Of_Range
    else
      bnd (ext (os_popen sys cmd)) (\<lambda>fp.
      case fp of
        None \<Rightarrow> ret (- 1)
      | Some out \<Rightarrow> (case parse_du (cstr (fgets_line 199 out)) of
            Crash c \<Rightarrow> crash c
          | Val n \<Rightarrow> ret n)))"

definition SpaceUsageRest :: "'w sys \<Rightarrow> string \<Rightarrow> ('w, response) prog" where
  "SpaceUsageRest sys body =
     bnd (SpaceUsage sys body) (\<lambda>result_i. ret (http_ok (json_encode sys enc_int result_i)))"

text \<open>
  At another centre the figure comes from that centre's manager; the request's promise is fulfilled
  only by an answer, so without one the handler waits for ever.
\<close>

definition new_CenterInfo :: center_info where
  "new_CenterInfo = \<lparr>ci_centerID = [], ci_centerIP = [], ci_centerPort = [], ci_centerName = []\<rparr>"

definition center_url :: "center_info \<Rightarrow> string \<Rightarrow> string \<Rightarrow> string" where
  "center_url mycenter cid path = snprintf_n 256
     (''http://'' @ cstr (smap_at [] (ci_centerIP mycenter) cid) @ '':''
      @ cstr (smap_at [] (ci_centerPort mycenter) cid) @ path)"

definition remote_call :: "'w sys \<Rightarrow> string \<Rightarrow> string \<Rightarrow> ('w, string) prog" where
  "remote_call sys url body =
     bnd (ext (http_post sys url body)) (\<lambda>resp.
     case resp of None \<Rightarrow> crash Blocked_Forever | Some b \<Rightarrow> ret b)"

definition usage_at :: "'w sys \<Rightarrow> center_info \<Rightarrow> space \<Rightarrow> ('w, int) prog" where
  "usage_at sys mycenter sp =
    (if ManagerID sys = sp_hostCenterID sp then SpaceUsage sys (sp_spacePath sp)
     else
       bnd (remote_call sys (center_url mycenter (sp_hostCenterID sp) ''/space/spaceusage'')
              (sp_spacePath sp)) (\<lambda>body.
       ret (json_decode sys dec_i64 body (ud_i64 sys))))"

primrec usage_loop :: "'w sys \<Rightarrow> center_info \<Rightarrow> int list \<Rightarrow> space list \<Rightarrow> ('w, int list) prog" where
  "usage_loop sys mycenter res [] = ret res"
| "usage_loop sys mycenter res (sp # sps) =
     bnd (usage_at sys mycenter sp) (\<lambda>n. usage_loop sys mycenter (res @ [n]) sps)"

definition SpaceUsageCheck :: "'w sys \<Rightarrow> string list \<Rightarrow> ('w, int list) prog" where
  "SpaceUsageCheck sys spaceID =
    bnd (GetSpacePosition sys [] spaceID) (\<lambda>result.
    bnd (ds_init_direct sys (manager_bucket sys)) (\<lambda>f0_dbPtr.
    bnd (ds_get sys f0_dbPtr ''center_information'') (\<lambda>(pcenter_value, c_error).
    if c_error \<noteq> 0 then ret []
    else bnd (deref pcenter_value) (\<lambda>v.
      usage_loop sys (load sys des_CenterInfo v new_CenterInfo) [] result))))"

definition SpaceUsageCheckRest :: "'w sys \<Rightarrow> string \<Rightarrow> ('w, response) prog" where
  "SpaceUsageCheckRest sys info =
     bnd (SpaceUsageCheck sys (sr_spaceIDs (load sys des_SpaceRequest info (new_SpaceRequest sys))))
       (\<lambda>result_i. ret (http_ok (if result_i \<noteq> [] then json_encode sys (enc_vec enc_int) result_i
                               else ''fail'')))"

section \<open>Changing the size\<close>

text \<open>The division of the KB figure truncates towards zero.\<close>

definition SpaceSizeChange :: "'w sys \<Rightarrow> string \<Rightarrow> int \<Rightarrow> ('w, int) prog" where
  "SpaceSizeChange sys spaceID newSpaceSize =
   (if newSpaceSize < 0 then ret EINVAL
    else
      bnd (open_ds sys (manager_bucket sys)) (\<lambda>spaceptr.
      bnd (ds_get sys spaceptr (space_prefix @ spaceID)) (\<lambda>(vp, err).
      if err \<noteq> 0 then ret EAGAIN
      else bnd (deref vp) (\<lambda>space_value.
        let spacejson = load sys des_Space space_value (new_Space sys) in
        bnd (ds_init_direct sys (manager_bucket sys)) (\<lambda>f0_dbPtr.
        bnd (ds_get sys f0_dbPtr ''center_information'') (\<lambda>(pcenter_value, c_error).
        if c_error \<noteq> 0 then ret EAGAIN
        else bnd (deref pcenter_value) (\<lambda>cv.
          let mycenter = load sys des_CenterInfo cv new_CenterInfo in
          bnd (usage_at sys mycenter spacejson) (\<lambda>realsize.
          let realsizetoGB = i64 (realsize sdiv (1000 * 1000) + 1) in
          if newSpaceSize \<le> realsizetoGB then ret EINVAL
          else if newSpaceSize > sp_spaceSize spacejson then
            bnd (SpaceSizeAdd sys (sp_storageSrcID spacejson)
                   (i64 (newSpaceSize - sp_spaceSize spacejson))) (\<lambda>r.
            if r = 0 then
              bnd (ds_set sys spaceptr (space_prefix @ spaceID)
                     (serialize sys ser_Space (spacejson\<lparr>sp_spaceSize := newSpaceSize\<rparr>))) (\<lambda>flag.
              if flag \<noteq> 0 then ret EAGAIN else ret r)
            else ret r)
          else if newSpaceSize < sp_spaceSize spacejson then
            bnd (SpaceSizeDeduct sys (sp_storageSrcID spacejson)
                   (i64 (sp_spaceSize spacejson - newSpaceSize))) (\<lambda>r.
            if r = 0 then
              bnd (ds_set sys spaceptr (space_prefix @ spaceID)
                     (serialize sys ser_Space (spacejson\<lparr>sp_spaceSize := newSpaceSize\<rparr>))) (\<lambda>flag2.
              if flag2 \<noteq> 0 then ret EAGAIN else ret r)
            else ret r)
          else ret 0))))))))"

definition SpaceSizeChangeRest :: "'w sys \<Rightarrow> string \<Rightarrow> ('w, response) prog" where
  "SpaceSizeChangeRest sys info =
    (let req = load sys des_SpaceRequest info (new_SpaceRequest sys) in
     bnd (SpaceSizeChange sys (sr_spaceID req) (sr_newSpaceSize req)) (\<lambda>result.
     ret (http_ok (json_encode sys enc_int result))))"

definition file_apply :: "'w sys \<Rightarrow> string \<Rightarrow> string \<Rightarrow> ('w, int) prog" where
  "file_apply sys prefix data =
    bnd (open_ds sys (manager_bucket sys)) (\<lambda>applyPtr.
    bnd (ext (uuid_gen sys)) (\<lambda>uuid.
    let key = prefix @ uuid in
    bnd (ds_set sys applyPtr key (serialize sys ser_apply_info \<lparr>ai_id = key, ai_data = data\<rparr>))
      (\<lambda>flag. if flag \<noteq> 0 then ret EAGAIN else ret 0)))"

definition SpaceSizeChangeApply :: "'w sys \<Rightarrow> string \<Rightarrow> ('w, int) prog" where
  "SpaceSizeChangeApply sys apply = file_apply sys ''spsiz-'' apply"

definition SpaceSizeChangeApplyRest :: "'w sys \<Rightarrow> string \<Rightarrow> ('w, response) prog" where
  "SpaceSizeChangeApplyRest sys info =
     bnd (SpaceSizeChangeApply sys info) (\<lambda>result. ret (http_ok (json_encode sys enc_int result)))"

section \<open>Counting and replicas\<close>

definition space_number_query :: "'w sys \<Rightarrow> string \<Rightarrow> string" where
  "space_number_query sys hostCenterName = snprintf_n 256
     (''select UUID, name, capcity, SC_UUID, Storage_UUID, root_location, ''
      @ ''hostCenterName, storageSrcName, Status from '' @ bq @ cstr (manager_bucket sys) @ bq
      @ '' where hostCenterName = '' @ dq @ cstr hostCenterName @ dq
      @ '' and META().id like '' @ [CHR 0x27] @ space_prefix @ ''%'' @ [CHR 0x27])"

definition SpaceNumber :: "'w sys \<Rightarrow> string \<Rightarrow> ('w, int) prog" where
  "SpaceNumber sys hostCenterName =
    bnd (open_ds sys (manager_bucket sys)) (\<lambda>spacePtr.
    bnd (ds_n1ql sys spacePtr (space_number_query sys hostCenterName)) (\<lambda>(vp, err).
    if err \<noteq> 0 then ret EAGAIN else ret (i32 (int (length vp)))))"

definition SpaceNumberRest :: "'w sys \<Rightarrow> string \<Rightarrow> ('w, response) prog" where
  "SpaceNumberRest sys info =
     bnd (SpaceNumber sys info) (\<lambda>result. ret (http_ok (json_encode sys enc_int result)))"

text \<open>
  \<open>SpaceReplica\<close> links the new space \<open>single\<close> with \<open>replicated\<close> and with every replica it has, in
  both directions; the results of the array insertions are not looked at.
\<close>

definition link_spaces :: "'w sys \<Rightarrow> datastore_ptr \<Rightarrow> string \<Rightarrow> string \<Rightarrow> ('w, unit) prog" where
  "link_spaces sys dbr x y =
     bnd (ds_arr_insert_uniq sys dbr (space_prefix @ x) ''replica_spaces'' (json_encode sys enc_str y))
       (\<lambda>_.
     bnd (ds_arr_insert_uniq sys dbr (space_prefix @ y) ''replica_spaces'' (json_encode sys enc_str x))
       (\<lambda>_. ret ()))"

primrec link_all :: "'w sys \<Rightarrow> datastore_ptr \<Rightarrow> string \<Rightarrow> string list \<Rightarrow> ('w, unit) prog" where
  "link_all sys dbr single [] = ret ()"
| "link_all sys dbr single (it # its) =
     bnd (link_spaces sys dbr it single) (\<lambda>_. link_all sys dbr single its)"

definition SpaceReplica :: "'w sys \<Rightarrow> (string \<times> string) list \<Rightarrow> ('w, int) prog" where
  "SpaceReplica sys replicaParams =
    (let replicated = smap_at [] replicaParams ''replicated'';
         single = smap_at [] replicaParams ''single'' in
     bnd (open_ds sys (manager_bucket sys)) (\<lambda>dbc.
     bnd (deref dbc) (\<lambda>_.
     bnd (ds_get_sub sys dbc (space_prefix @ replicated) ''replica_spaces'') (\<lambda>(res, err).
     if err \<noteq> 0 then ret err
     else bnd (deref res) (\<lambda>v.
       let replicated_spaces = json_decode sys (dec_vec dec_str []) v [] in
       if length replicated_spaces \<ge> 5 then ret (- E2BIG)
       else
         bnd (link_all sys dbc single replicated_spaces) (\<lambda>_.
         bnd (link_spaces sys dbc replicated single) (\<lambda>_. ret 0)))))))"

definition SpaceReplicaRest :: "'w sys \<Rightarrow> string \<Rightarrow> ('w, response) prog" where
  "SpaceReplicaRest sys body =
    (let replicaParams = json_decode sys (dec_map dec_str []) body [] in
     if map_of replicaParams ''replicated'' = None \<or> map_of replicaParams ''single'' = None
     then ret (400, [])
     else bnd (SpaceReplica sys replicaParams) (\<lambda>result. ret (http_ok (json_encode sys enc_int result))))"

section \<open>Routes\<close>

definition SpaceServer_router :: "(string \<times> ('w sys \<Rightarrow> string \<Rightarrow> ('w, response) prog)) list" where
  "SpaceServer_router =
     [(''/space/rename'', SpaceRenameRest),
      (''/space/changesizeapply'', SpaceSizeChangeApplyRest),
      (''/space/changesize'', SpaceSizeChangeRest),
      (''/space/spaceusage'', SpaceUsageRest),
      (''/space/spaceusagecheck'', SpaceUsageCheckRest),
      (''/space/spacenumber'', SpaceNumberRest),
      (''/space/replica'', SpaceReplicaRest)]"

end
