(* ===== verification/Sample_World.thy ===== *)
theory Sample_World
  imports Datastore_Rules "HOL-Library.AList"
begin

text \<open>
  A concrete outside, in memory, that keeps every promise of \<open>json_law\<close>, \<open>couchbase_law\<close> and
  \<open>couchbase_up\<close>: the witnesses run the program on it. Its text form of JSON is not the real one:
  it is a NUL-free prefix code whose decoder is proved to invert the encoder on every value.
\<close>

section \<open>A text form of JSON values\<close>

fun enc_bits :: "nat \<Rightarrow> string" where
  "enc_bits n = (if n = 0 then ''.''
     else (if odd n then CHR ''1'' else CHR ''0'') # enc_bits (n div 2))"

declare enc_bits.simps [simp del]

fun dec_bits :: "string \<Rightarrow> (nat \<times> string) option" where
  "dec_bits [] = None"
| "dec_bits (c # s) =
    (if c = CHR ''.'' then Some (0, s)
     else (case dec_bits s of Some (n, r) \<Rightarrow> Some (2 * n + (if c = CHR ''1'' then 1 else 0), r)
                            | None \<Rightarrow> None))"

fun enc_chars :: "string \<Rightarrow> string" where
  "enc_chars [] = ''e''"
| "enc_chars (c # s) = (if c = CHR 0x00 then CHR ''z'' # enc_chars s else CHR ''c'' # c # enc_chars s)"

fun dec_chars :: "string \<Rightarrow> (string \<times> string) option" where
  "dec_chars [] = None"
| "dec_chars (t # s) =
    (if t = CHR ''e'' then Some ([], s)
     else if t = CHR ''z'' then (case dec_chars s of Some (u, r) \<Rightarrow> Some (CHR 0x00 # u, r) | None \<Rightarrow> None)
     else (case s of [] \<Rightarrow> None
       | c # s' \<Rightarrow> (case dec_chars s' of Some (u, r) \<Rightarrow> Some (c # u, r) | None \<Rightarrow> None)))"

fun mem_write :: "json \<Rightarrow> string" where
  "mem_write JNull = ''n''"
| "mem_write (JBool b) = (if b then ''t'' else ''f'')"
| "mem_write (JInt i) = (if i < 0 then CHR ''m'' # enc_bits (nat (- i)) else CHR ''p'' # enc_bits (nat i))"
| "mem_write (JDouble d) = CHR ''d'' # enc_bits (unat d)"
| "mem_write (JStr s) = CHR ''s'' # enc_chars s"
| "mem_write (JArr xs) = CHR ''a'' # concat (map mem_write xs) @ ''e''"
| "mem_write (JObj ms) = CHR ''o'' # concat (map (\<lambda>p. CHR ''k'' # enc_chars (fst p) @ mem_write (snd p)) ms) @ ''e''"

fun read_value :: "nat \<Rightarrow> string \<Rightarrow> (json \<times> string) option"
  and read_array :: "nat \<Rightarrow> string \<Rightarrow> (json list \<times> string) option"
  and read_members :: "nat \<Rightarrow> string \<Rightarrow> (members \<times> string) option" where
  "read_value 0 s = None"
| "read_value (Suc f) [] = None"
| "read_value (Suc f) (t # s) =
    (if t = CHR ''n'' then Some (JNull, s)
     else if t = CHR ''t'' then Some (JBool True, s)
     else if t = CHR ''f'' then Some (JBool False, s)
     else if t = CHR ''m'' then (case dec_bits s of Some (n, r) \<Rightarrow> Some (JInt (- int n), r) | None \<Rightarrow> None)
     else if t = CHR ''p'' then (case dec_bits s of Some (n, r) \<Rightarrow> Some (JInt (int n), r) | None \<Rightarrow> None)
     else if t = CHR ''d'' then (case dec_bits s of Some (n, r) \<Rightarrow> Some (JDouble (of_nat n), r) | None \<Rightarrow> None)
     else if t = CHR ''s'' then (case dec_chars s of Some (u, r) \<Rightarrow> Some (JStr u, r) | None \<Rightarrow> None)
     else if t = CHR ''a'' then (case read_array f s of Some (xs, r) \<Rightarrow> Some (JArr xs, r) | None \<Rightarrow> None)
     else if t = CHR ''o'' then (case read_members f s of Some (ms, r) \<Rightarrow> Some (JObj ms, r) | None \<Rightarrow> None)
     else None)"
| "read_array 0 s = None"
| "read_array (Suc f) [] = None"
| "read_array (Suc f) (t # s) =
    (if t = CHR ''e'' then Some ([], s)
     else (case read_value f (t # s) of None \<Rightarrow> None
       | Some (v, r) \<Rightarrow> (case read_array f r of None \<Rightarrow> None | Some (xs, r') \<Rightarrow> Some (v # xs, r'))))"
| "read_members 0 s = None"
| "read_members (Suc f) [] = None"
| "read_members (Suc f) (t # s) =
    (if t = CHR ''e'' then Some ([], s)
     else (case dec_chars s of None \<Rightarrow> None
       | Some (k, r1) \<Rightarrow> (case read_value f r1 of None \<Rightarrow> None
           | Some (v, r2) \<Rightarrow> (case read_members f r2 of None \<Rightarrow> None
               | Some (ms, r3) \<Rightarrow> Some ((k, v) # ms, r3)))))"

definition mem_parse :: "string \<Rightarrow> json option" where
  "mem_parse s = (case read_value (length s) s of Some (v, []) \<Rightarrow> Some v | _ \<Rightarrow> None)"

lemma dec_enc_bits: "dec_bits (enc_bits n @ r) = Some (n, r)"
proof (induction n rule: enc_bits.induct)
  case (1 n)
  then show ?case by (subst enc_bits.simps) auto
qed

lemma dec_enc_chars: "dec_chars (enc_chars s @ r) = Some (s, r)"
  by (induction s) auto

lemma mem_write_pos: "0 < length (mem_write j)"
  by (cases j) auto

lemma mem_write_not_e: "\<exists>t s. mem_write j = t # s \<and> t \<noteq> CHR ''e''"
  by (cases j) auto

lemma read_array_all:
  assumes "\<And>j f r. j \<in> set xs \<Longrightarrow> length (mem_write j) \<le> f \<Longrightarrow>
      read_value f (mem_write j @ r) = Some (j, r)"
    and "length (concat (map mem_write xs)) < f"
  shows "read_array f (concat (map mem_write xs) @ CHR ''e'' # r) = Some (xs, r)"
  using assms
proof (induction xs arbitrary: f)
  case Nil
  then show ?case by (cases f) auto
next
  case (Cons j xs)
  obtain t s where ts: "mem_write j = t # s" "t \<noteq> CHR ''e''" using mem_write_not_e by blast
  obtain g where g: "f = Suc g" using Cons.prems(2) by (cases f) auto
  have "length (mem_write j) \<le> g" using Cons.prems(2) g by simp
  then have "read_value g (mem_write j @ concat (map mem_write xs) @ CHR ''e'' # r)
      = Some (j, concat (map mem_write xs) @ CHR ''e'' # r)"
    using Cons.prems(1) by simp
  moreover have "length (concat (map mem_write xs)) < g"
    using Cons.prems(2) g ts(1) by simp
  then have "read_array g (concat (map mem_write xs) @ CHR ''e'' # r) = Some (xs, r)"
    using Cons.IH [of g] Cons.prems(1) by simp
  ultimately show ?case using ts g by simp
qed

abbreviation write_member :: "string \<times> json \<Rightarrow> string" where
  "write_member p \<equiv> CHR ''k'' # enc_chars (fst p) @ mem_write (snd p)"

lemma read_members_all:
  assumes "\<And>k j f r. (k, j) \<in> set ms \<Longrightarrow> length (mem_write j) \<le> f \<Longrightarrow>
      read_value f (mem_write j @ r) = Some (j, r)"
    and "length (concat (map write_member ms)) < f"
  shows "read_members f (concat (map write_member ms) @ CHR ''e'' # r) = Some (ms, r)"
  using assms
proof (induction ms arbitrary: f)
  case Nil
  then show ?case by (cases f) auto
next
  case (Cons p ms)
  obtain k j where p: "p = (k, j)" by (cases p)
  obtain g where g: "f = Suc g" using Cons.prems(2) by (cases f) auto
  have "length (mem_write j) \<le> g" using Cons.prems(2) g p by simp
  then have "read_value g (mem_write j @ concat (map write_member ms) @ CHR ''e'' # r)
      = Some (j, concat (map write_member ms) @ CHR ''e'' # r)"
    using Cons.prems(1) [of k j] p by simp
  moreover have "length (concat (map write_member ms)) < g"
    using Cons.prems(2) g p by simp
  then have "read_members g (concat (map write_member ms) @ CHR ''e'' # r) = Some (ms, r)"
    using Cons.IH [of g] Cons.prems(1) by (meson list.set_intros(2))
  ultimately show ?case using g p by (simp add: dec_enc_chars)
qed

lemma read_leaf:
  "read_value (Suc f) (mem_write JNull @ r) = Some (JNull, r)"
  "read_value (Suc f) (mem_write (JBool b) @ r) = Some (JBool b, r)"
  "read_value (Suc f) (mem_write (JInt i) @ r) = Some (JInt i, r)"
  "read_value (Suc f) (mem_write (JDouble d) @ r) = Some (JDouble d, r)"
  "read_value (Suc f) (mem_write (JStr s) @ r) = Some (JStr s, r)"
  by (simp_all add: dec_enc_bits dec_enc_chars)

lemma read_written: "length (mem_write j) \<le> f \<Longrightarrow> read_value f (mem_write j @ r) = Some (j, r)"
proof (induction j arbitrary: f r)
  case (JArr xs)
  then obtain g where "f = Suc g" by (cases f) auto
  with JArr show ?case using read_array_all [of xs g r] by simp
next
  case (JObj ms)
  then obtain g where "f = Suc g" by (cases f) auto
  moreover have "\<And>k j f r. (k, j) \<in> set ms \<Longrightarrow> length (mem_write j) \<le> f \<Longrightarrow>
      read_value f (mem_write j @ r) = Some (j, r)"
    using JObj.IH by (metis snds.intros snd_conv)
  ultimately show ?case using JObj.prems read_members_all [of ms g r] by simp
next
  case JNull
  then show ?case using read_leaf(1) by (cases f) auto
next
  case (JBool b)
  then show ?case using read_leaf(2) mem_write_pos [of "JBool b"] by (cases f) simp_all
next
  case (JInt i)
  then show ?case using read_leaf(3) mem_write_pos [of "JInt i"] by (cases f) simp_all
next
  case (JDouble d)
  then show ?case using read_leaf(4) mem_write_pos [of "JDouble d"] by (cases f) simp_all
next
  case (JStr s)
  then show ?case using read_leaf(5) mem_write_pos [of "JStr s"] by (cases f) simp_all
qed

lemma enc_bits_chars: "set (enc_bits n) \<subseteq> {CHR ''.'', CHR ''0'', CHR ''1''}"
proof (induction n rule: enc_bits.induct)
  case (1 n)
  then show ?case by (subst enc_bits.simps) auto
qed

lemma enc_chars_nul_free: "CHR 0x00 \<notin> set (enc_chars s)"
  by (induction s) auto

lemma enc_bits_nul_free: "CHR 0x00 \<notin> set (enc_bits n)"
  using enc_bits_chars [of n] by auto

lemma mem_write_nul_free: "CHR 0x00 \<notin> set (mem_write j)"
proof (induction j)
  case (JObj ms)
  have "CHR 0x00 \<notin> set (mem_write j)" if "(k, j) \<in> set ms" for k j
    using JObj.IH [OF that] by (simp add: snds.simps)
  then show ?case using enc_chars_nul_free by auto
next
  case (JArr xs)
  then show ?case by auto
qed (simp_all add: enc_bits_nul_free enc_chars_nul_free)

lemma mem_parse_write: "mem_parse (cstr (mem_write j)) = Some j"
  using read_written [of j "length (mem_write j)" "[]"] mem_write_nul_free [of j]
  by (simp add: mem_parse_def cstr_id nul_free_def)

section \<open>The world\<close>

text \<open>
  The documents, a counter for identifiers, and what an HTTP request answers; a query for storage
  resources answers the rows that the world is made with, any other query answers no rows.
\<close>

record mem =
  m_docs :: "(dockey \<times> string) list"
  m_next :: nat
  m_http :: "string option"

definition mem_cfg :: "string \<Rightarrow> string option" where
  "mem_cfg = map_of
     [(''manager.couchbase_addr'', ''127.0.0.1''), (''manager.couchbase_user'', ''dev''),
      (''manager.couchbase_passwd'', ''pw''), (''manager.bucket'', ''gvds''),
      (''manager.data_path'', ''/data''), (''manager.id'', ''1'')]"

definition put_doc :: "dockey \<Rightarrow> string \<Rightarrow> mem \<Rightarrow> mem" where
  "put_doc k v w = w\<lparr>m_docs := AList.update k v (m_docs w)\<rparr>"

definition mem_get :: "string \<Rightarrow> string \<Rightarrow> mem \<Rightarrow> (int \<times> string) \<times> mem" where
  "mem_get b k w = ((case map_of (m_docs w) (b, k) of Some v \<Rightarrow> (0, v) | None \<Rightarrow> (13, [])), w)"

definition mem_insert :: "string \<Rightarrow> string \<Rightarrow> string \<Rightarrow> mem \<Rightarrow> int \<times> mem" where
  "mem_insert b k v w =
     (case map_of (m_docs w) (b, k) of Some _ \<Rightarrow> (12, w) | None \<Rightarrow> (0, put_doc (b, k) v w))"

definition mem_remove :: "string \<Rightarrow> string \<Rightarrow> mem \<Rightarrow> int \<times> mem" where
  "mem_remove b k w = (case map_of (m_docs w) (b, k) of
      Some _ \<Rightarrow> (0, w\<lparr>m_docs := AList.delete (b, k) (m_docs w)\<rparr>) | None \<Rightarrow> (13, w))"

definition mem_json :: rapidjson where
  "mem_json = \<lparr>rj_write = mem_write, rj_parse = mem_parse\<rparr>"

definition mem_get_sub :: "string \<Rightarrow> string \<Rightarrow> string \<Rightarrow> mem \<Rightarrow> (int \<times> string) \<times> mem" where
  "mem_get_sub b k p w = ((case doc_at mem_json (map_of (m_docs w) (b, k)) p of
      Some j \<Rightarrow> (0, mem_write j) | None \<Rightarrow> (63, [])), w)"

definition mem_upsert_sub :: "string \<Rightarrow> string \<Rightarrow> string \<Rightarrow> string \<Rightarrow> mem \<Rightarrow> int \<times> mem" where
  "mem_upsert_sub b k p v w =
     (case doc_members mem_json (map_of (m_docs w) (b, k)) of None \<Rightarrow> (13, w)
      | Some ms \<Rightarrow> (case mem_parse (cstr v) of None \<Rightarrow> (67, w)
          | Some j \<Rightarrow> (0, put_doc (b, k) (mem_write (JObj (AList.update p j ms))) w)))"

definition mem_arr_insert :: "string \<Rightarrow> string \<Rightarrow> string \<Rightarrow> string \<Rightarrow> mem \<Rightarrow> int \<times> mem" where
  "mem_arr_insert b k p v w =
     (case doc_members mem_json (map_of (m_docs w) (b, k)) of None \<Rightarrow> (13, w)
      | Some ms \<Rightarrow> (case (map_of ms p, mem_parse (cstr v)) of
          (Some (JArr xs), Some j) \<Rightarrow>
             if j \<in> set xs then (69, w)
             else (0, put_doc (b, k) (mem_write (JObj (AList.update p (JArr (xs @ [j])) ms))) w)
        | _ \<Rightarrow> (64, w)))"

definition mem_du :: string where
  "mem_du = ''2G'' @ [CHR 0x09] @ ''/data/p1'' @ [CHR 0x0A]"

definition asks_storage :: "string \<Rightarrow> bool" where
  "asks_storage q \<longleftrightarrow> take 14 q = ''select assign_''"

definition mem_sysq :: "string list \<Rightarrow> mem sys" where
  "mem_sysq rows = \<lparr>rj_write = mem_write, rj_parse = mem_parse, ud_int = 7, ud_i64 = 7, ud_bool = True,
     cfg = mem_cfg,
     cb_connect = \<lambda>c p u w. (0, w),
     cb_get = mem_get,
     cb_get_sub = mem_get_sub,
     cb_exists_sub = \<lambda>b k p w.
       (case doc_at mem_json (map_of (m_docs w) (b, k)) p of Some _ \<Rightarrow> 0 | None \<Rightarrow> 63, w),
     cb_insert = mem_insert,
     cb_upsert = \<lambda>b k v w. (0, put_doc (b, k) v w),
     cb_upsert_sub = mem_upsert_sub,
     cb_arr_insert_uniq = mem_arr_insert,
     cb_remove = mem_remove,
     cb_query = \<lambda>b q w. (QRows (if asks_storage q then rows else []), w),
     uuid_gen = \<lambda>w. (''uuid-'' @ nat_dec (m_next w), w\<lparr>m_next := m_next w + 1\<rparr>),
     os_mkdir = \<lambda>d w. (0, w),
     os_popen = \<lambda>c w. (Some mem_du, w),
     http_post = \<lambda>u b w. (m_http w, w),
     cb_docs = \<lambda>w. map_of (m_docs w)\<rparr>"

text \<open>The world whose queries answer nothing.\<close>

abbreviation mem_sys :: "mem sys" where "mem_sys \<equiv> mem_sysq []"

text \<open>The fields of the world, so that no proof unfolds the record.\<close>

lemma mem_sys_sel [simp]:
  "rj_write (mem_sysq rows) = mem_write" "rj_parse (mem_sysq rows) = mem_parse"
  "ud_int (mem_sysq rows) = 7" "ud_i64 (mem_sysq rows) = 7" "ud_bool (mem_sysq rows) = True"
  "cfg (mem_sysq rows) = mem_cfg"
  "cb_connect (mem_sysq rows) c p u w = (0, w)"
  "cb_get (mem_sysq rows) = mem_get" "cb_get_sub (mem_sysq rows) = mem_get_sub"
  "cb_insert (mem_sysq rows) = mem_insert" "cb_upsert (mem_sysq rows) b k v w = (0, put_doc (b, k) v w)"
  "cb_upsert_sub (mem_sysq rows) = mem_upsert_sub" "cb_arr_insert_uniq (mem_sysq rows) = mem_arr_insert"
  "cb_remove (mem_sysq rows) = mem_remove" 
  "cb_query (mem_sysq rows) b q w = (QRows (if asks_storage q then rows else []), w)"
  "uuid_gen (mem_sysq rows) w = (''uuid-'' @ nat_dec (m_next w), w\<lparr>m_next := m_next w + 1\<rparr>)"
  "os_mkdir (mem_sysq rows) d w = (0, w)" "os_popen (mem_sysq rows) d w = (Some mem_du, w)"
  "http_post (mem_sysq rows) d p w = (m_http w, w)"
  "cb_docs (mem_sysq rows) w = map_of (m_docs w)"
  "snd (cb_exists_sub (mem_sysq rows) b k p w) = w"
  by (simp_all add: mem_sysq_def)

lemma mem_json_sel [simp]: "rj_write mem_json = mem_write" "rj_parse mem_json = mem_parse"
  by (simp_all add: mem_json_def)

declare mem_write.simps [simp del]

lemma mem_doc_members [simp]: "doc_members (mem_sysq rows) d = doc_members mem_json d"
  by (cases d) (simp_all add: doc_members_def)

lemma mem_doc_at [simp]: "doc_at (mem_sysq rows) d p = doc_at mem_json d p"
  by (simp add: doc_at_def)

lemma mem_doc_members_written [simp]: "doc_members mem_json (Some (mem_write (JObj ms))) = Some ms"
  by (simp add: doc_members_def mem_parse_write)

lemma mem_doc_at_written [simp]: "doc_at mem_json (Some (mem_write (JObj ms))) p = map_of ms p"
  by (simp add: doc_at_def)

lemma mem_docs_put [simp]: "map_of (m_docs (put_doc k v w)) = (map_of (m_docs w))(k \<mapsto> v)"
  by (simp add: put_doc_def update_conv')

lemma mem_json_law: "json_law (mem_sysq rows)"
  by (simp add: json_law_def mem_parse_write)

lemma mem_get_law: "get_law (mem_sysq rows)"
  by (simp add: get_law_def mem_get_def split: option.splits)

lemma mem_get_sub_law: "get_sub_law (mem_sysq rows)"
  by (simp add: get_sub_law_def mem_get_sub_def mem_parse_write split: option.splits)

lemma mem_upsert_sub_law: "upsert_sub_law (mem_sysq rows)"
  by (auto simp: upsert_sub_law_def mem_upsert_sub_def update_conv' doc_at_def
      split: option.splits)

lemma mem_arr_insert_law: "arr_insert_law (mem_sysq rows)"
  by (auto simp: arr_insert_law_def mem_arr_insert_def split: option.splits json.splits)

lemma mem_couchbase_law: "couchbase_law (mem_sysq rows)"
proof -
  have "upsert_law (mem_sysq rows)" by (simp add: upsert_law_def wrote_def)
  moreover have "insert_law (mem_sysq rows)"
    by (simp add: insert_law_def wrote_def mem_insert_def split: option.splits)
  moreover have "remove_law (mem_sysq rows)"
    by (simp add: remove_law_def wrote_def mem_remove_def delete_conv' split: option.splits)
  moreover have "quiet_law (mem_sysq rows)" by (simp add: quiet_law_def)
  ultimately show ?thesis
    using mem_get_law mem_get_sub_law mem_upsert_sub_law mem_arr_insert_law
    by (simp add: couchbase_law_def)
qed

lemma mem_couchbase_up: "couchbase_up (mem_sysq rows)"
proof -
  have "fst (fst (mem_get_sub b k p w)) = 0"
    if "doc_at (mem_sysq rows) (map_of (m_docs w) (b, k)) p \<noteq> None" for b k p w
    using that by (auto simp: mem_get_sub_def split: option.splits)
  moreover have "fst (mem_upsert_sub b k p v w) = 0"
    if "doc_members (mem_sysq rows) (map_of (m_docs w) (b, k)) \<noteq> None" "mem_parse (cstr v) \<noteq> None" for b k p v w
    using that by (auto simp: mem_upsert_sub_def split: option.splits)
  ultimately show ?thesis
    unfolding couchbase_up_def
    by (auto simp: mem_cfg_def mem_get_def mem_insert_def mem_remove_def split: option.splits)
qed

text \<open>The laws, of the world whose queries answer nothing.\<close>

lemmas mem_laws = mem_json_law [of "[]"] mem_couchbase_law [of "[]"] mem_couchbase_up [of "[]"]

definition empty_mem :: mem where
  "empty_mem = \<lparr>m_docs = [], m_next = 0, m_http = None\<rparr>"

lemma mem_serialize [simp]: "serialize (mem_sysq (row # rows)) ser x = serialize mem_sys ser x"
  by (simp add: serialize_def)

lemma mem_bucket [simp]: "manager_bucket (mem_sysq rows) = ''gvds''"
  by (simp add: manager_bucket_def mem_cfg_def)

section \<open>Sample documents\<close>

definition sample_storage :: storage_resource where
  "sample_storage = \<lparr>st_storage_src_id = ''s1'', st_storage_src_name = ''lustre'',
     st_host_center_id = ''1'', st_host_center_name = ''Beijing'', st_total_capacity = 100,
     st_assign_capacity = 40, st_mgs_address = ''10.0.0.1'', st_state = 1\<rparr>"

definition sample_space :: space where
  "sample_space = \<lparr>sp_spaceID = ''p1'', sp_spaceName = ''home'', sp_spaceSize = 10,
     sp_hostCenterID = ''1'', sp_storageSrcID = ''STOR-s1'', sp_spacePath = ''p1'',
     sp_hostCenterName = ''Beijing'', sp_storageSrcName = ''lustre'', sp_status = True,
     sp_replica_spaces = []\<rparr>"

definition sample_zone :: zone where
  "sample_zone = \<lparr>z_zoneID = ''z1'', z_zoneName = ''lab'', z_ownerID = ''u1'',
     z_memberID = [''u2''], z_spaceID = [''p1''], z_spaceBicInfo = [], z_ownerAuth = 7,
     z_groupAuth = 7, z_otherAuth = 7, z_contains_spaceinfo = False\<rparr>"

definition sample_centers :: center_info where
  "sample_centers = \<lparr>ci_centerID = [''1'', ''2''],
     ci_centerIP = [(''1'', ''10.0.0.1''), (''2'', ''10.0.0.2'')],
     ci_centerPort = [(''1'', ''9090''), (''2'', ''9090'')],
     ci_centerName = [(''1'', ''Beijing''), (''2'', ''Jinan'')]\<rparr>"

definition sample_admins :: admin_list where
  "sample_admins = \<lparr>adl_namelist = [''root'']\<rparr>"

definition sample_mem :: mem where
  "sample_mem = \<lparr>m_docs =
      [((''gvds'', ''STOR-s1''), serialize mem_sys ser_StorageResource sample_storage),
       ((''gvds'', ''SPACE-p1''), serialize mem_sys ser_Space sample_space),
       ((''gvds'', ''ZONE-z1''), serialize mem_sys ser_Zone sample_zone),
       ((''gvds'', ''center_information''), serialize mem_sys ser_CenterInfo sample_centers),
       ((''gvds'', ''adminwhitelist''), serialize mem_sys ser_AdminList sample_admins)],
     m_next = 0, m_http = None\<rparr>"

lemma wf_samples [simp]:
  "wf_StorageResource sample_storage" "wf_Space sample_space" "wf_Zone sample_zone"
  "wf_CenterInfo sample_centers" "wf_AdminList sample_admins"
  by (simp_all add: wf_StorageResource_def sample_storage_def wf_Space_def sample_space_def
      wf_Zone_def sample_zone_def wf_CenterInfo_def sample_centers_def wf_AdminList_def
      sample_admins_def nul_free_def in_i32_def in_i64_def str_map_ok_def smap_ok_def
      less_char_def of_char_def)

lemma sample_docs [simp]:
  "map_of (m_docs sample_mem) (''gvds'', ''STOR-s1'') = Some (serialize mem_sys ser_StorageResource sample_storage)"
  "map_of (m_docs sample_mem) (''gvds'', ''SPACE-p1'') = Some (serialize mem_sys ser_Space sample_space)"
  "map_of (m_docs sample_mem) (''gvds'', ''ZONE-z1'') = Some (serialize mem_sys ser_Zone sample_zone)"
  "map_of (m_docs sample_mem) (''gvds'', ''center_information'') = Some (serialize mem_sys ser_CenterInfo sample_centers)"
  "map_of (m_docs sample_mem) (''gvds'', ''adminwhitelist'') = Some (serialize mem_sys ser_AdminList sample_admins)"
  by (simp_all add: sample_mem_def)

lemma sample_storage_sel [simp]:
  "st_storage_src_id sample_storage = ''s1''" "st_total_capacity sample_storage = 100"
  "st_assign_capacity sample_storage = 40" "st_host_center_id sample_storage = ''1''"
  "st_host_center_name sample_storage = ''Beijing''" "st_storage_src_name sample_storage = ''lustre''"
  by (simp_all add: sample_storage_def)

lemma sample_space_sel [simp]:
  "sp_spaceID sample_space = ''p1''" "sp_spaceName sample_space = ''home''"
  "sp_spaceSize sample_space = 10" "sp_hostCenterID sample_space = ''1''"
  "sp_storageSrcID sample_space = ''STOR-s1''" "sp_spacePath sample_space = ''p1''"
  "sp_status sample_space = True"
  by (simp_all add: sample_space_def)

lemma sample_zone_sel [simp]:
  "z_zoneID sample_zone = ''z1''" "z_zoneName sample_zone = ''lab''" "z_ownerID sample_zone = ''u1''"
  "z_memberID sample_zone = [''u2'']" "z_spaceID sample_zone = [''p1'']"
  by (simp_all add: sample_zone_def)

end
