(* ===== verification/Space_Props.thy ===== *)
theory Space_Props
  imports SpaceServer Sample_World
begin

text \<open>
  The server of spaces: the ledger of a storage resource through every operation that touches it,
  renaming, creating and deleting spaces, the choice of a resource and the reading of \<open>du\<close>.
\<close>

section \<open>Loading documents\<close>

text \<open>An indeterminate number is at least a number of its type.\<close>

definition indet_ok :: "'z indet_scheme \<Rightarrow> bool" where
  "indet_ok d \<longleftrightarrow> in_i32 (ud_int d) \<and> in_i64 (ud_i64 d)"

lemma mem_indet_ok: "indet_ok (mem_sysq rows)"
  by (simp add: indet_ok_def in_i32_def in_i64_def)

lemma in_i64_dec_i64: "in_i64 old \<Longrightarrow> in_i64 (dec_i64 v old)"
  by (simp add: dec_i64_def split: json.splits)

lemma in_i32_dec_int: "in_i32 old \<Longrightarrow> in_i32 (dec_int v old)"
  by (simp add: dec_int_def split: json.splits)

lemma get_member_pred: "P old \<Longrightarrow> (\<And>v. P old \<Longrightarrow> P (f v old)) \<Longrightarrow> P (get_member ms k f old)"
  by (simp add: get_member_def split: option.splits)

lemma wf_load_StorageResource:
  "indet_ok sys \<Longrightarrow>
    wf_StorageResource (load sys (des_StorageResource sys) v (new_StorageResource sys))"
  by (auto simp: load_def wf_StorageResource_def new_StorageResource_def des_StorageResource_def
      indet_ok_def nul_free_def[of "[]"] split: option.splits json.splits
      intro!: get_member_pred [where P = nul_free] get_member_pred [where P = in_i64]
        get_member_pred [where P = in_i32] nul_free_dec_str in_i64_dec_i64 in_i32_dec_int)

lemma list_all_dec_strs: "list_all nul_free old \<Longrightarrow> list_all nul_free (dec_vec dec_str [] v old)"
  by (auto simp: dec_vec_def list_all_iff nul_free_def[of "[]"] intro!: nul_free_dec_str split: json.splits)

lemma wf_des_Space: "wf_Space s \<Longrightarrow> wf_Space (des_Space ms s)"
  by (auto simp: wf_Space_def des_Space_def
      intro!: get_member_pred [where P = nul_free] get_member_pred [where P = in_i64]
        get_member_pred [where P = "list_all nul_free"] nul_free_dec_str in_i64_dec_i64
        list_all_dec_strs)

lemma wf_load_Space: "wf_Space s \<Longrightarrow> wf_Space (load sys des_Space v s)"
  by (simp add: load_def wf_des_Space split: option.splits json.splits)

lemma wf_new_Space: "indet_ok sys \<Longrightarrow> wf_Space (new_Space sys)"
  by (simp add: wf_Space_def new_Space_def indet_ok_def nul_free_def)

lemmas load_back = StorageResource_json.load_roundtrip Space_json.load_roundtrip
  CenterInfo_json.load_roundtrip

section \<open>The ledger\<close>

text \<open>\<open>ledger_ok\<close> is the invariant of the capacity book-keeping.\<close>

definition ledger_ok :: "storage_resource \<Rightarrow> bool" where
  "ledger_ok st \<longleftrightarrow> 0 \<le> st_assign_capacity st \<and> st_assign_capacity st \<le> st_total_capacity st"

definition storage_of :: "'w sys \<Rightarrow> string \<Rightarrow> storage_resource" where
  "storage_of sys v = load sys (des_StorageResource sys) v (new_StorageResource sys)"

definition add_step :: "'w sys \<Rightarrow> int \<Rightarrow> string \<Rightarrow> int + string" where
  "add_step sys n v = (let st = storage_of sys v in
     if i64 (st_assign_capacity st + n) > st_total_capacity st then Inl ENOSPC
     else Inr (serialize sys ser_StorageResource
            (st\<lparr>st_assign_capacity := i64 (st_assign_capacity st + n)\<rparr>)))"

definition deduct_step :: "'w sys \<Rightarrow> int \<Rightarrow> string \<Rightarrow> int + string" where
  "deduct_step sys n v = (let st = storage_of sys v in
     if i64 (st_assign_capacity st - n) < 0 then Inl EINVAL
     else Inr (serialize sys ser_StorageResource
            (st\<lparr>st_assign_capacity := i64 (st_assign_capacity st - n)\<rparr>)))"

lemma SpaceSizeAdd_update:
  "SpaceSizeAdd sys k n = bnd (open_ds sys (manager_bucket sys)) (\<lambda>p.
     update_doc (ds_get sys p) (ds_set sys p) k (add_step sys n))"
  by (simp add: SpaceSizeAdd_def update_doc_def add_step_def storage_of_def Let_def if_distrib
      [of "case_sum _ _"] case_prod_unfold cong: if_cong)

lemma SpaceSizeDeduct_update:
  "SpaceSizeDeduct sys k n = bnd (open_ds sys (manager_bucket sys)) (\<lambda>p.
     update_doc (ds_get sys p) (ds_set sys p) k (deduct_step sys n))"
  by (simp add: SpaceSizeDeduct_def update_doc_def deduct_step_def storage_of_def Let_def if_distrib
      [of "case_sum _ _"] case_prod_unfold cong: if_cong)

lemma update_doc_cb:
  "update_doc (ds_get sys (Some (Datastore b True))) (ds_set sys (Some (Datastore b True))) k step
    = update_doc (\<lambda>(b, k). ds_get sys (Some (Datastore b True)) k)
        (\<lambda>(b, k) v. ds_set sys (Some (Datastore b True)) k v) (b, k) step"
  unfolding update_doc_def prod.case ..

lemma update_doc_null [simp]: "update_doc (ds_get sys None) (ds_set sys None) k step = crash Null_Deref"
  by (simp add: update_doc_def)

text \<open>What opening a datastore and updating one document of it can end in.\<close>

lemma wp_open_update:
  assumes "couchbase_law sys"
    and "\<And>w'. cb_docs sys w' = cb_docs sys w \<Longrightarrow> \<not> couchbase_up sys \<Longrightarrow> Q (Crash Null_Deref) w'"
    and "\<And>w'. couchbase_up sys \<longrightarrow> cb_docs sys w (b, k) = None \<Longrightarrow>
      cb_docs sys w' = cb_docs sys w \<or>
      (\<exists>v v'. \<not> couchbase_up sys \<and> cb_docs sys w (b, k) = Some v \<and> step v = Inr v' \<and>
        cb_docs sys w' = (cb_docs sys w)((b, k) \<mapsto> v')) \<Longrightarrow> Q (Val EAGAIN) w'"
    and "\<And>w' v e. cb_docs sys w (b, k) = Some v \<Longrightarrow> step v = Inl e \<Longrightarrow>
      cb_docs sys w' = cb_docs sys w \<Longrightarrow> Q (Val e) w'"
    and "\<And>w' v v'. cb_docs sys w (b, k) = Some v \<Longrightarrow> step v = Inr v' \<Longrightarrow>
      cb_docs sys w' = (cb_docs sys w)((b, k) \<mapsto> v') \<Longrightarrow> Q (Val 0) w'"
  shows "wp (bnd (open_ds sys b) (\<lambda>p. update_doc (ds_get sys p) (ds_set sys p) k step)) Q w"
proof -
  have "wp (update_doc (ds_get sys (Some (Datastore b True))) (ds_set sys (Some (Datastore b True)))
      k step) Q w'" if d: "cb_docs sys w' = cb_docs sys w" for w'
    unfolding update_doc_cb
    by (rule cb.update_doc_rule [OF assms(1)]) (use assms(3-5) d in auto)
  with assms(1,2) show ?thesis by (auto intro!: wp_rules)
qed

lemma wp_SpaceSizeAdd:
  assumes "couchbase_law sys"
    and "\<And>w'. cb_docs sys w' = cb_docs sys w \<Longrightarrow> \<not> couchbase_up sys \<Longrightarrow> Q (Crash Null_Deref) w'"
    and "\<And>w'. couchbase_up sys \<longrightarrow> cb_docs sys w (manager_bucket sys, k) = None \<Longrightarrow>
      cb_docs sys w' = cb_docs sys w \<or>
      (\<exists>v v'. \<not> couchbase_up sys \<and> cb_docs sys w (manager_bucket sys, k) = Some v \<and>
        add_step sys n v = Inr v' \<and> cb_docs sys w' = (cb_docs sys w)((manager_bucket sys, k) \<mapsto> v')) \<Longrightarrow>
      Q (Val EAGAIN) w'"
    and "\<And>w' v e. cb_docs sys w (manager_bucket sys, k) = Some v \<Longrightarrow> add_step sys n v = Inl e \<Longrightarrow>
      cb_docs sys w' = cb_docs sys w \<Longrightarrow> Q (Val e) w'"
    and "\<And>w' v v'. cb_docs sys w (manager_bucket sys, k) = Some v \<Longrightarrow> add_step sys n v = Inr v' \<Longrightarrow>
      cb_docs sys w' = (cb_docs sys w)((manager_bucket sys, k) \<mapsto> v') \<Longrightarrow> Q (Val 0) w'"
  shows "wp (SpaceSizeAdd sys k n) Q w"
  unfolding SpaceSizeAdd_update by (rule wp_open_update [OF assms])

lemma wp_SpaceSizeDeduct:
  assumes "couchbase_law sys"
    and "\<And>w'. cb_docs sys w' = cb_docs sys w \<Longrightarrow> \<not> couchbase_up sys \<Longrightarrow> Q (Crash Null_Deref) w'"
    and "\<And>w'. couchbase_up sys \<longrightarrow> cb_docs sys w (manager_bucket sys, k) = None \<Longrightarrow>
      cb_docs sys w' = cb_docs sys w \<or>
      (\<exists>v v'. \<not> couchbase_up sys \<and> cb_docs sys w (manager_bucket sys, k) = Some v \<and>
        deduct_step sys n v = Inr v' \<and> cb_docs sys w' = (cb_docs sys w)((manager_bucket sys, k) \<mapsto> v')) \<Longrightarrow>
      Q (Val EAGAIN) w'"
    and "\<And>w' v e. cb_docs sys w (manager_bucket sys, k) = Some v \<Longrightarrow> deduct_step sys n v = Inl e \<Longrightarrow>
      cb_docs sys w' = cb_docs sys w \<Longrightarrow> Q (Val e) w'"
    and "\<And>w' v v'. cb_docs sys w (manager_bucket sys, k) = Some v \<Longrightarrow> deduct_step sys n v = Inr v' \<Longrightarrow>
      cb_docs sys w' = (cb_docs sys w)((manager_bucket sys, k) \<mapsto> v') \<Longrightarrow> Q (Val 0) w'"
  shows "wp (SpaceSizeDeduct sys k n) Q w"
  unfolding SpaceSizeDeduct_update by (rule wp_open_update [OF assms])

lemma storage_of_serialize:
  "json_law sys \<Longrightarrow> wf_StorageResource st \<Longrightarrow> storage_of sys (serialize sys ser_StorageResource st) = st"
  by (simp add: storage_of_def load_back)

lemma storage_of_written:
  assumes "json_law sys" "indet_ok sys" "in_i64 n"
  shows "storage_of sys (serialize sys ser_StorageResource ((storage_of sys v)\<lparr>st_assign_capacity := n\<rparr>))
    = (storage_of sys v)\<lparr>st_assign_capacity := n\<rparr>"
proof -
  have "wf_StorageResource (storage_of sys v)"
    unfolding storage_of_def by (rule wf_load_StorageResource [OF assms(2)])
  then have "wf_StorageResource ((storage_of sys v)\<lparr>st_assign_capacity := n\<rparr>)"
    using assms(3) by (simp add: wf_StorageResource_def)
  with assms(1) show ?thesis by (simp add: storage_of_serialize)
qed

lemma add_step_ser:
  "json_law sys \<Longrightarrow> wf_StorageResource st \<Longrightarrow> add_step sys n (serialize sys ser_StorageResource st) =
    (if i64 (st_assign_capacity st + n) > st_total_capacity st then Inl ENOSPC
     else Inr (serialize sys ser_StorageResource
            (st\<lparr>st_assign_capacity := i64 (st_assign_capacity st + n)\<rparr>)))"
  by (simp add: add_step_def storage_of_serialize Let_def)

lemma deduct_step_ser:
  "json_law sys \<Longrightarrow> wf_StorageResource st \<Longrightarrow> deduct_step sys n (serialize sys ser_StorageResource st) =
    (if i64 (st_assign_capacity st - n) < 0 then Inl EINVAL
     else Inr (serialize sys ser_StorageResource
            (st\<lparr>st_assign_capacity := i64 (st_assign_capacity st - n)\<rparr>)))"
  by (simp add: deduct_step_def storage_of_serialize Let_def)

section \<open>Adding and deducting\<close>

text \<open>Adding to the ledger of an existing storage resource, with a store that does not fail: when
  the sum, computed in 64 bits, exceeds the total capacity the answer is \<open>ENOSPC\<close> and nothing is
  written; otherwise the answer is 0 and exactly the document of that resource is replaced, by the same
  resource with the assigned capacity increased.\<close>

theorem SpaceSizeAdd_result:
  assumes "json_law sys" and "couchbase_law sys" and "couchbase_up sys" and "wf_StorageResource st"
    and "cb_docs sys w (manager_bucket sys, k) = Some (serialize sys ser_StorageResource st)"
  shows "wp (SpaceSizeAdd sys k n) (\<lambda>r w'.
    if i64 (st_assign_capacity st + n) > st_total_capacity st
    then r = Val ENOSPC \<and> cb_docs sys w' = cb_docs sys w
    else r = Val 0 \<and> cb_docs sys w' = (cb_docs sys w)((manager_bucket sys, k) \<mapsto>
        serialize sys ser_StorageResource (st\<lparr>st_assign_capacity := i64 (st_assign_capacity st + n)\<rparr>))) w"
  using assms
  by (intro wp_SpaceSizeAdd) (auto simp: add_step_def storage_of_serialize Let_def split: if_splits)

lemma SpaceSizeAdd_result_witness:
  "wp (SpaceSizeAdd mem_sys ''STOR-s1'' 30) (\<lambda>r w'. r = Val 0 \<and> cb_docs mem_sys w' =
     (cb_docs mem_sys sample_mem)((''gvds'', ''STOR-s1'') \<mapsto>
        serialize mem_sys ser_StorageResource (sample_storage\<lparr>st_assign_capacity := 70\<rparr>))) sample_mem"
  using SpaceSizeAdd_result [OF mem_laws wf_samples(1),
      of sample_mem "''STOR-s1''" 30]
  by (simp add: i64_id in_i64_def)

text \<open>Deducting: when the 64 bit difference is negative the answer is \<open>EINVAL\<close> and nothing is
  written; otherwise the answer is 0 and exactly that document is replaced, with the assigned capacity
  decreased.\<close>

theorem SpaceSizeDeduct_result:
  assumes "json_law sys" and "couchbase_law sys" and "couchbase_up sys" and "wf_StorageResource st"
    and "cb_docs sys w (manager_bucket sys, k) = Some (serialize sys ser_StorageResource st)"
  shows "wp (SpaceSizeDeduct sys k n) (\<lambda>r w'.
    if i64 (st_assign_capacity st - n) < 0
    then r = Val EINVAL \<and> cb_docs sys w' = cb_docs sys w
    else r = Val 0 \<and> cb_docs sys w' = (cb_docs sys w)((manager_bucket sys, k) \<mapsto>
        serialize sys ser_StorageResource (st\<lparr>st_assign_capacity := i64 (st_assign_capacity st - n)\<rparr>))) w"
  using assms
  by (intro wp_SpaceSizeDeduct) (auto simp: deduct_step_def storage_of_serialize Let_def split: if_splits)

lemma SpaceSizeDeduct_result_witness:
  "wp (SpaceSizeDeduct mem_sys ''STOR-s1'' 41) (\<lambda>r w'. r = Val EINVAL \<and>
     cb_docs mem_sys w' = cb_docs mem_sys sample_mem) sample_mem"
  using SpaceSizeDeduct_result [OF mem_laws wf_samples(1),
      of sample_mem "''STOR-s1''" 41]
  by (simp add: i64_id in_i64_def)

text \<open>
  The documents in which every storage resource has a sound ledger and a total capacity of at most \<open>c\<close>.
\<close>

definition ledgers_ok :: "'w sys \<Rightarrow> int \<Rightarrow> docs \<Rightarrow> bool" where
  "ledgers_ok sys c docs \<longleftrightarrow> (\<forall>b k v. docs (b, storage_prefix @ k) = Some v \<longrightarrow>
     ledger_ok (storage_of sys v) \<and> st_total_capacity (storage_of sys v) \<le> c)"

lemma ledgers_okI:
  "ledgers_ok sys c d \<Longrightarrow> ledger_ok (storage_of sys v) \<Longrightarrow> st_total_capacity (storage_of sys v) \<le> c \<Longrightarrow>
     ledgers_ok sys c (d(q \<mapsto> v))"
  by (auto simp: ledgers_ok_def split: if_splits)

lemma add_step_ledger:
  assumes "json_law sys" "indet_ok sys" "0 \<le> n" "ledger_ok (storage_of sys v)"
    and "in_i64 (st_assign_capacity (storage_of sys v) + n)" "add_step sys n v = Inr v'"
  shows "ledger_ok (storage_of sys v') \<and> st_total_capacity (storage_of sys v') = st_total_capacity (storage_of sys v)"
  using assms by (auto simp: add_step_def Let_def storage_of_written ledger_ok_def i64_id split: if_splits)

lemma deduct_step_ledger:
  assumes "json_law sys" "indet_ok sys" "0 \<le> n" "in_i64 n" "ledger_ok (storage_of sys v)"
    and "deduct_step sys n v = Inr v'"
  shows "ledger_ok (storage_of sys v') \<and> st_total_capacity (storage_of sys v') = st_total_capacity (storage_of sys v)"
proof -
  have "in_i64 (st_assign_capacity (storage_of sys v))"
    using wf_load_StorageResource [OF assms(2), of v] by (simp add: storage_of_def wf_StorageResource_def)
  with assms(3-5) have "in_i64 (st_assign_capacity (storage_of sys v) - n)"
    by (auto simp: in_i64_def ledger_ok_def)
  with assms show ?thesis
    by (auto simp: deduct_step_def Let_def storage_of_written ledger_ok_def i64_id split: if_splits)
qed

text \<open>
  A call that changes a ledger: an addition, or a deduction, of any amount, on a storage resource. Each of the
  calls of a run may fail in any way the store can fail. An amount is sound for resources of at most \<open>c\<close> when
  it is not negative and the sum of both is a 64 bit number; the program does not check it.
\<close>

datatype ledger_op = Add string int | Deduct string int

fun ledger_call :: "'w sys \<Rightarrow> ledger_op \<Rightarrow> ('w, int) prog" where
  "ledger_call sys (Add k n) = SpaceSizeAdd sys (storage_prefix @ k) n"
| "ledger_call sys (Deduct k n) = SpaceSizeDeduct sys (storage_prefix @ k) n"

primrec ledger_run :: "'w sys \<Rightarrow> ledger_op list \<Rightarrow> 'w \<Rightarrow> 'w" where
  "ledger_run sys [] w = w"
| "ledger_run sys (c # cs) w = ledger_run sys cs (snd (ledger_call sys c w))"

fun call_amount :: "ledger_op \<Rightarrow> int" where
  "call_amount (Add k n) = n"
| "call_amount (Deduct k n) = n"

definition sound_amount :: "int \<Rightarrow> int \<Rightarrow> bool" where
  "sound_amount c n \<longleftrightarrow> 0 \<le> n \<and> in_i64 n \<and> in_i64 (c + n)"

lemma ledger_call_keeps:
  assumes "json_law sys" "couchbase_law sys" "indet_ok sys" "ledgers_ok sys c (cb_docs sys w)"
    and "sound_amount c (call_amount x)"
  shows "ledgers_ok sys c (cb_docs sys (snd (ledger_call sys x w)))"
proof -
  have ok: "ledger_ok (storage_of sys v)" "st_total_capacity (storage_of sys v) \<le> c"
    if "cb_docs sys w (manager_bucket sys, storage_prefix @ k) = Some v" for k v
    using assms(4) that by (simp_all add: ledgers_ok_def)
  have "wp (ledger_call sys x) (\<lambda>r w'. ledgers_ok sys c (cb_docs sys w')) w"
  proof (cases x)
    case (Add k n)
    have n: "0 \<le> n" and fits: "in_i64 (st_assign_capacity (storage_of sys v) + n)"
      if "cb_docs sys w (manager_bucket sys, storage_prefix @ k) = Some v" for v
      using assms(5) ok [OF that] Add by (auto simp: sound_amount_def ledger_ok_def in_i64_def)
    have new: "ledger_ok (storage_of sys v')" "st_total_capacity (storage_of sys v') \<le> c"
      if "cb_docs sys w (manager_bucket sys, storage_prefix @ k) = Some v" "add_step sys n v = Inr v'" for v v'
      using add_step_ledger [OF assms(1,3) n [OF that(1)] ok(1) [OF that(1)] fits [OF that(1)] that(2)] ok(2) [OF that(1)]
      by simp_all
    show ?thesis
      unfolding Add ledger_call.simps
      by (rule wp_SpaceSizeAdd [OF assms(2)]) (auto simp: assms(4) intro!: ledgers_okI new)
  next
    case (Deduct k n)
    have n: "0 \<le> n" "in_i64 n" using assms(5) Deduct by (simp_all add: sound_amount_def)
    have new: "ledger_ok (storage_of sys v')" "st_total_capacity (storage_of sys v') \<le> c"
      if "cb_docs sys w (manager_bucket sys, storage_prefix @ k) = Some v" "deduct_step sys n v = Inr v'" for v v'
      using deduct_step_ledger [OF assms(1,3) n ok(1) [OF that(1)] that(2)] ok(2) [OF that(1)] by simp_all
    show ?thesis
      unfolding Deduct ledger_call.simps
      by (rule wp_SpaceSizeDeduct [OF assms(2)]) (auto simp: assms(4) intro!: ledgers_okI new)
  qed
  then show ?thesis by (simp add: wp_def split: prod.splits)
qed

text \<open>C6: Additions and deductions of any number and order, each failing or not, whose amounts are
  not negative and, added to the greatest total capacity, leave a 64 bit number: every storage resource keeps
  its assigned capacity between 0 and its total capacity. The program accepts amounts that are not of this
  kind, and they break the ledger (\<open>SpaceSizeAdd_negative\<close>, \<open>SpaceSizeAdd_overflow\<close>).\<close>

theorem ledger_invariant:
  assumes "json_law sys" and "couchbase_law sys" and "indet_ok sys"
    and "ledgers_ok sys c (cb_docs sys w)" and "\<forall>x \<in> set calls. sound_amount c (call_amount x)"
  shows "ledgers_ok sys c (cb_docs sys (ledger_run sys calls w))"
  using assms(4,5) by (induction calls arbitrary: w) (auto intro: ledger_call_keeps [OF assms(1-3)])

lemma sample_ledgers: "ledgers_ok mem_sys 100 (cb_docs mem_sys sample_mem)"
  by (auto simp: ledgers_ok_def sample_mem_def storage_prefix_def ledger_ok_def
      storage_of_serialize [OF mem_laws(1) wf_samples(1)] split: if_splits)

lemma ledger_invariant_witness:
  "ledgers_ok mem_sys 100 (cb_docs mem_sys (ledger_run mem_sys [Add ''s1'' 30, Deduct ''s1'' 50, Add ''s1'' 90] sample_mem))"
  by (rule ledger_invariant [OF mem_laws(1,2) mem_indet_ok sample_ledgers]) (simp add: sound_amount_def in_i64_def)

text \<open>A negative amount passes the guard of the addition, whatever was assigned before: the ledger then counts a
  negative number.\<close>

theorem SpaceSizeAdd_negative:
  assumes "json_law sys" and "couchbase_law sys" and "couchbase_up sys" and "wf_StorageResource st"
    and "cb_docs sys w (manager_bucket sys, k) = Some (serialize sys ser_StorageResource st)"
    and "ledger_ok st" and "in_i64 (st_assign_capacity st + n)" and "st_assign_capacity st + n < 0"
  shows "wp (SpaceSizeAdd sys k n) (\<lambda>r w'. r = Val 0 \<and> (\<exists>v. cb_docs sys w' (manager_bucket sys, k) = Some v \<and>
    st_assign_capacity (storage_of sys v) = st_assign_capacity st + n \<and> \<not> ledger_ok (storage_of sys v))) w"
proof -
  have "wf_StorageResource (st\<lparr>st_assign_capacity := st_assign_capacity st + n\<rparr>)"
    using assms(4,7) by (simp add: wf_StorageResource_def)
  note restored = storage_of_serialize [OF assms(1) this]
  show ?thesis
    by (rule wp_SpaceSizeAdd [OF assms(2)])
      (use assms(3,5-8) restored in \<open>auto simp: add_step_ser [OF assms(1,4)] i64_id ledger_ok_def split: if_splits\<close>)
qed

lemma SpaceSizeAdd_negative_witness:
  "wp (SpaceSizeAdd mem_sys ''STOR-s1'' (- 50)) (\<lambda>r w'. r = Val 0 \<and> (\<exists>v. cb_docs mem_sys w' (''gvds'', ''STOR-s1'') = Some v \<and>
     st_assign_capacity (storage_of mem_sys v) = - 10)) sample_mem"
  using SpaceSizeAdd_negative [OF mem_laws wf_samples(1), of sample_mem "''STOR-s1''" "- 50"]
  by (auto simp: in_i64_def ledger_ok_def elim!: wp_mono)

text \<open>What was added can be taken back: after a successful addition, deducting the same amount
  succeeds and restores the document of the resource, so all documents are as before.\<close>

theorem SpaceSizeAdd_Deduct_restores:
  assumes "json_law sys" and "couchbase_law sys" and "couchbase_up sys" and "wf_StorageResource st"
    and "cb_docs sys w (manager_bucket sys, k) = Some (serialize sys ser_StorageResource st)"
    and "0 \<le> st_assign_capacity st" and "in_i64 (st_assign_capacity st + n)"
    and "st_assign_capacity st + n \<le> st_total_capacity st"
  shows "wp (bnd (SpaceSizeAdd sys k n) (\<lambda>r1. bnd (SpaceSizeDeduct sys k n) (\<lambda>r2. ret (r1, r2))))
    (\<lambda>r w'. r = Val (0, 0) \<and> cb_docs sys w' = cb_docs sys w) w"
proof -
  let ?st = "st\<lparr>st_assign_capacity := st_assign_capacity st + n\<rparr>"
  have wf: "wf_StorageResource ?st" using assms(4,7) by (simp add: wf_StorageResource_def)
  have in64: "in_i64 (st_assign_capacity st)" using assms(4) by (simp add: wf_StorageResource_def)
  have restore: "wp (SpaceSizeDeduct sys k n) (\<lambda>r w''. r = Val 0 \<and> cb_docs sys w'' = cb_docs sys w) w'"
    if d: "cb_docs sys w' = (cb_docs sys w)((manager_bucket sys, k) \<mapsto> serialize sys ser_StorageResource ?st)"
    for w'
  proof (rule wp_SpaceSizeDeduct [OF assms(2)], goal_cases)
    case (3 w'' v e)
    then have "v = serialize sys ser_StorageResource ?st" using d by simp
    with 3 show ?case using assms(6) in64 by (simp add: deduct_step_ser [OF assms(1) wf] i64_id)
  next
    case (4 w'' v v')
    then have "v = serialize sys ser_StorageResource ?st" using d by simp
    with 4 have "v' = serialize sys ser_StorageResource st"
      using assms(6) in64 by (simp add: deduct_step_ser [OF assms(1) wf] i64_id)
    with 4 d show ?case using assms(5) by (simp add: fun_eq_iff)
  qed (use d assms(3) in auto)
  show ?thesis
    unfolding wp_bnd
  proof (rule wp_SpaceSizeAdd [OF assms(2)], goal_cases)
    case (3 w' v e)
    then have "v = serialize sys ser_StorageResource st" using assms(5) by simp
    with 3 show ?case using assms(7,8) by (simp add: add_step_ser [OF assms(1,4)] i64_id)
  next
    case (4 w' v v')
    then have "v = serialize sys ser_StorageResource st" using assms(5) by simp
    with 4 have "cb_docs sys w' = (cb_docs sys w)((manager_bucket sys, k) \<mapsto> serialize sys ser_StorageResource ?st)"
      using assms(7,8) by (simp add: add_step_ser [OF assms(1,4)] i64_id)
    from restore [OF this] show ?case by (auto intro: wp_mono)
  qed (use assms in auto)
qed

lemma SpaceSizeAdd_Deduct_restores_witness:
  "wp (bnd (SpaceSizeAdd mem_sys ''STOR-s1'' 60) (\<lambda>r1. bnd (SpaceSizeDeduct mem_sys ''STOR-s1'' 60)
     (\<lambda>r2. ret (r1, r2))))
    (\<lambda>r w'. r = Val (0, 0) \<and> cb_docs mem_sys w' = cb_docs mem_sys sample_mem) sample_mem"
  by (rule SpaceSizeAdd_Deduct_restores [OF mem_laws
      wf_samples(1)]) (simp_all add: in_i64_def)

text \<open>C39: The guard of the addition is computed after the 64 bit sum wrapped: an addition whose exact
  sum leaves 64 bits is accepted, and the ledger then counts a negative number.\<close>

theorem SpaceSizeAdd_overflow:
  assumes "json_law sys" and "couchbase_law sys" and "couchbase_up sys" and "wf_StorageResource st"
    and "cb_docs sys w (manager_bucket sys, k) = Some (serialize sys ser_StorageResource st)"
    and "ledger_ok st" and "in_i64 n" and "2 ^ 63 \<le> st_assign_capacity st + n"
  shows "wp (SpaceSizeAdd sys k n) (\<lambda>r w'. r = Val 0 \<and> (\<exists>v. cb_docs sys w' (manager_bucket sys, k) = Some v \<and>
    st_assign_capacity (storage_of sys v) = st_assign_capacity st + n - 2 ^ 64 \<and>
    \<not> ledger_ok (storage_of sys v))) w"
proof -
  let ?m = "st_assign_capacity st + n - 2 ^ 64"
  have in64: "in_i64 (st_assign_capacity st)" "in_i64 (st_total_capacity st)"
    using assms(4) by (simp_all add: wf_StorageResource_def)
  have m: "in_i64 ?m" "?m < 0"
    using assms(7,8) in64(1) by (auto simp: in_i64_def)
  have "i64 (?m + 2 ^ 64) = i64 ?m"
    unfolding i64_def by (simp add: signed_take_bit_eq_iff_take_bit_eq take_bit_eq_mod)
  then have wrap: "i64 (st_assign_capacity st + n) = ?m" using m i64_id by simp
  have "wf_StorageResource (st\<lparr>st_assign_capacity := ?m\<rparr>)"
    using assms(4) m by (simp add: wf_StorageResource_def)
  then have restore: "storage_of sys (serialize sys ser_StorageResource (st\<lparr>st_assign_capacity := ?m\<rparr>))
      = st\<lparr>st_assign_capacity := ?m\<rparr>"
    by (rule storage_of_serialize [OF assms(1)])
  show ?thesis
  proof (rule wp_SpaceSizeAdd [OF assms(2)], goal_cases)
    case (3 w' v e)
    then have "v = serialize sys ser_StorageResource st" using assms(5) by simp
    with 3 show ?case using assms(6) m by (simp add: add_step_ser [OF assms(1,4)] wrap ledger_ok_def)
  next
    case (4 w' v v')
    then have "v = serialize sys ser_StorageResource st" using assms(5) by simp
    with 4 have "cb_docs sys w' (manager_bucket sys, k) =
        Some (serialize sys ser_StorageResource (st\<lparr>st_assign_capacity := ?m\<rparr>))"
      using assms(6) m by (auto simp: add_step_ser [OF assms(1,4)] wrap ledger_ok_def split: if_splits)
    with restore m show ?case by (simp add: ledger_ok_def)
  qed (use assms in auto)
qed

lemma SpaceSizeAdd_overflow_witness:
  "wp (SpaceSizeAdd mem_sys ''STOR-s1'' (2 ^ 63 - 1)) (\<lambda>r w'. r = Val 0 \<and>
    (\<exists>v. cb_docs mem_sys w' (manager_bucket mem_sys, ''STOR-s1'') = Some v \<and>
    st_assign_capacity (storage_of mem_sys v) = st_assign_capacity sample_storage + (2 ^ 63 - 1) - 2 ^ 64 \<and>
    \<not> ledger_ok (storage_of mem_sys v))) sample_mem"
  by (rule SpaceSizeAdd_overflow [OF mem_laws wf_samples(1)])
    (simp_all add: in_i64_def ledger_ok_def)

end
