(* ===== verification/Space_Ops.thy ===== *)
theory Space_Ops
  imports Space_Props
begin

text \<open>
  The requests on spaces: changing the size, renaming, deleting, creating, choosing the storage
  resource and reading the output of \<open>du\<close>.
\<close>

section \<open>Changing the size of a space\<close>

lemma wp_SpaceUsage:
  assumes "couchbase_law sys" and "\<And>r w'. cb_docs sys w' = cb_docs sys w \<Longrightarrow> Q r w'"
  shows "wp (SpaceUsage sys p) Q w"
  using assms unfolding SpaceUsage_def
  by (auto simp: Let_def intro!: wp_rules split: option.splits outcome.splits)

lemma wp_SpaceUsage_known:
  assumes "couchbase_law sys" and "\<And>w. fst (SpaceUsage sys p w) = Val u"
    and "\<And>w'. cb_docs sys w' = cb_docs sys w \<Longrightarrow> Q (Val u) w'"
  shows "wp (SpaceUsage sys p) Q w"
proof -
  have "wp (SpaceUsage sys p) (\<lambda>r w'. cb_docs sys w' = cb_docs sys w) w"
    using assms(1) by (auto intro: wp_SpaceUsage)
  then show ?thesis using assms(2) [of w] assms(3) by (auto simp: wp_def split: prod.splits)
qed

lemma space_back: "json_law sys \<Longrightarrow> wf_Space s \<Longrightarrow> load sys des_Space (serialize sys ser_Space s) y = s"
  by (rule Space_json.load_roundtrip)

lemma usage_gb: "0 \<le> u \<Longrightarrow> in_i64 u \<Longrightarrow> i64 (u sdiv 1000000 + 1) = u div 1000000 + 1"
proof -
  assume u: "0 \<le> u" "in_i64 u"
  have "u sdiv 1000000 = u div 1000000" using u(1) by (cases "u = 0") (simp_all add: signed_divide_int_def)
  moreover have "in_i64 (u div 1000000 + 1)" using u by (auto simp: in_i64_def)
  ultimately show ?thesis by (simp add: i64_id)
qed

text \<open>The ledger of a storage resource and the record of a space after a move of \<open>d\<close>.\<close>

abbreviation moved_ledger :: "'w sys \<Rightarrow> string \<Rightarrow> storage_resource \<Rightarrow> int \<Rightarrow> docs \<Rightarrow> docs" where
  "moved_ledger sys sid st d docs \<equiv> docs((manager_bucket sys, sid) \<mapsto> serialize sys ser_StorageResource
     (st\<lparr>st_assign_capacity := st_assign_capacity st + d\<rparr>))"

abbreviation resized_space :: "'w sys \<Rightarrow> string \<Rightarrow> space \<Rightarrow> int \<Rightarrow> docs \<Rightarrow> docs" where
  "resized_space sys key sp n docs \<equiv> docs((manager_bucket sys, key) \<mapsto> serialize sys ser_Space (sp\<lparr>sp_spaceSize := n\<rparr>))"

lemma wp_grow_ledger:
  assumes laws: "json_law sys" "couchbase_law sys" "couchbase_up sys"
    and wf: "wf_StorageResource st" and room: "in_i64 (st_assign_capacity st + d)"
    and st: "cb_docs sys w (manager_bucket sys, sid) = Some (serialize sys ser_StorageResource st)"
  shows "wp (SpaceSizeAdd sys sid d) (\<lambda>r w'.
    if st_assign_capacity st + d > st_total_capacity st then r = Val ENOSPC \<and> cb_docs sys w' = cb_docs sys w
    else r = Val 0 \<and> cb_docs sys w' = moved_ledger sys sid st d (cb_docs sys w)) w"
  by (rule wp_SpaceSizeAdd [OF laws(2)])
    (use st room laws add_step_ser [OF laws(1) wf] in \<open>auto simp: i64_id split: if_splits\<close>)

lemma wp_shrink_ledger:
  assumes laws: "json_law sys" "couchbase_law sys" "couchbase_up sys"
    and wf: "wf_StorageResource st" and room: "0 \<le> st_assign_capacity st - d" "in_i64 (st_assign_capacity st - d)"
    and st: "cb_docs sys w (manager_bucket sys, sid) = Some (serialize sys ser_StorageResource st)"
  shows "wp (SpaceSizeDeduct sys sid d) (\<lambda>r w'.
    r = Val 0 \<and> cb_docs sys w' = moved_ledger sys sid st (- d) (cb_docs sys w)) w"
  using st room deduct_step_ser [OF laws(1) wf] laws(3)
  by (intro wp_SpaceSizeDeduct [OF laws(2)]) (auto simp: i64_id)

text \<open>The second half of a change: the ledger is moved, then the space is written back.\<close>

lemma wp_then_write_back:
  assumes law: "couchbase_law sys" "couchbase_up sys"
    and full: "\<And>w'. full \<Longrightarrow> cb_docs sys w' = docs \<Longrightarrow> Q (Val ENOSPC) w'"
    and moved: "\<And>w'. \<not> full \<Longrightarrow> cb_docs sys w' = docs'((b, key) \<mapsto> v) \<Longrightarrow> Q (Val 0) w'"
    and led: "wp led (\<lambda>r w'. if full then r = Val ENOSPC \<and> cb_docs sys w' = docs
        else r = Val 0 \<and> cb_docs sys w' = docs') w"
  shows "wp (bnd led (\<lambda>r. if r = 0 then
      bnd (ds_set sys (Some (Datastore b True)) key v) (\<lambda>flag. if flag \<noteq> 0 then ret EAGAIN else ret r)
    else ret r)) Q w"
  unfolding wp_bnd
  by (rule wp_mono [OF led])
    (auto split: if_splits intro!: wp_ds_set [OF law(1)] full moved simp: law(2) simp del: fun_upd_apply)

lemma resize_nothing:
  assumes "docs (manager_bucket sys, key) = Some (serialize sys ser_Space sp)"
    and "docs (manager_bucket sys, sid) = Some (serialize sys ser_StorageResource st)"
  shows "resized_space sys key sp (sp_spaceSize sp) (moved_ledger sys sid st 0 docs) = docs"
  using assms by (auto simp: fun_eq_iff)

text \<open>The choice between refusing, growing and shrinking, for a space that uses \<open>u\<close> GB.\<close>

lemma wp_resize:
  assumes laws: "json_law sys" "couchbase_law sys" "couchbase_up sys" and wf: "wf_StorageResource st"
    and sp: "cb_docs sys w (manager_bucket sys, key) = Some (serialize sys ser_Space sp)"
    and st: "cb_docs sys w (manager_bucket sys, sid) = Some (serialize sys ser_StorageResource st)"
    and sizes: "0 \<le> n" "sp_spaceSize sp \<le> st_assign_capacity st"
    and room: "in_i64 (st_assign_capacity st + (n - sp_spaceSize sp))"
    and write_def: "wb = (\<lambda>r. if r = 0 then bnd (ds_set sys (Some (Datastore (manager_bucket sys) True)) key
        (serialize sys ser_Space (sp\<lparr>sp_spaceSize := n\<rparr>))) (\<lambda>flag. if flag \<noteq> 0 then ret EAGAIN else ret r) else ret r)"
  shows "wp (if n \<le> u then ret EINVAL
      else if n > sp_spaceSize sp then bnd (SpaceSizeAdd sys sid (n - sp_spaceSize sp)) wb
      else if n < sp_spaceSize sp then bnd (SpaceSizeDeduct sys sid (sp_spaceSize sp - n)) wb
      else ret 0)
    (\<lambda>r w'. if n \<le> u then r = Val EINVAL \<and> cb_docs sys w' = cb_docs sys w
      else if n > sp_spaceSize sp \<and> st_assign_capacity st + (n - sp_spaceSize sp) > st_total_capacity st
      then r = Val ENOSPC \<and> cb_docs sys w' = cb_docs sys w
      else r = Val 0 \<and> cb_docs sys w' =
        resized_space sys key sp n (moved_ledger sys sid st (n - sp_spaceSize sp) (cb_docs sys w))) w"
proof -
  have left: "0 \<le> st_assign_capacity st - (sp_spaceSize sp - n)" "in_i64 (st_assign_capacity st - (sp_spaceSize sp - n))"
    using room sizes by (simp_all add: algebra_simps)
  note grow = wp_grow_ledger [OF laws wf room st] and shrink = wp_shrink_ledger [OF laws wf left st]
  consider "n \<le> u" | "(n \<le> u) = False" "(n > sp_spaceSize sp) = True"
    | "(n \<le> u) = False" "(n > sp_spaceSize sp) = False" "(n < sp_spaceSize sp) = True"
    | "(n \<le> u) = False" "n = sp_spaceSize sp"
    unfolding eq_True eq_False by linarith
  then show ?thesis
  proof cases
    case 2
    then show ?thesis unfolding write_def
      by (simp only: if_True if_False)
        (rule wp_then_write_back [OF laws(2,3) _ _ grow], auto simp del: fun_upd_apply)
  next
    case 3
    then show ?thesis unfolding write_def
      by (simp only: if_True if_False simp_thms)
        (rule wp_then_write_back [OF laws(2,3) _ _ wp_mono [OF shrink], where full = False],
         auto simp del: fun_upd_apply)
  qed (use resize_nothing [OF sp st] in auto)
qed

text \<open>C1: Changing the size of a space kept at this centre, with a store that does not fail. A size not
  above what the space uses (in whole GB, rounded up) is refused with \<open>EINVAL\<close>; growth the storage
  resource cannot hold is refused with \<open>ENOSPC\<close>; in both cases nothing is written. Otherwise the
  answer is 0, the space has the new size and the ledger of its resource moved by exactly the
  difference, so capacity is neither created nor lost.\<close>

theorem SpaceSizeChange_result:
  assumes laws: "json_law sys" "couchbase_law sys" "couchbase_up sys"
    and wf: "wf_Space sp" "wf_StorageResource st"
    and sp: "cb_docs sys w (manager_bucket sys, space_prefix @ k) = Some (serialize sys ser_Space sp)"
    and st: "cb_docs sys w (manager_bucket sys, sp_storageSrcID sp) = Some (serialize sys ser_StorageResource st)"
    and centers: "cb_docs sys w (manager_bucket sys, ''center_information'') \<noteq> None"
    and keys: "sp_storageSrcID sp \<noteq> space_prefix @ k"
    and local: "ManagerID sys = sp_hostCenterID sp"
    and usage: "\<And>w. fst (SpaceUsage sys (sp_spacePath sp) w) = Val u" "0 \<le> u" "in_i64 u"
    and sizes: "0 \<le> n" "in_i64 n" "0 \<le> sp_spaceSize sp" "sp_spaceSize sp \<le> st_assign_capacity st"
    and room: "in_i64 (st_assign_capacity st + (n - sp_spaceSize sp))"
  shows "wp (SpaceSizeChange sys k n) (\<lambda>r w'.
    if n \<le> u div 1000000 + 1 then r = Val EINVAL \<and> cb_docs sys w' = cb_docs sys w
    else if n > sp_spaceSize sp \<and> st_assign_capacity st + (n - sp_spaceSize sp) > st_total_capacity st
    then r = Val ENOSPC \<and> cb_docs sys w' = cb_docs sys w
    else r = Val 0 \<and> cb_docs sys w' = (cb_docs sys w)
      ((manager_bucket sys, sp_storageSrcID sp) \<mapsto> serialize sys ser_StorageResource
         (st\<lparr>st_assign_capacity := st_assign_capacity st + (n - sp_spaceSize sp)\<rparr>),
       (manager_bucket sys, space_prefix @ k) \<mapsto> serialize sys ser_Space (sp\<lparr>sp_spaceSize := n\<rparr>))) w"
proof -
  have d: "in_i64 (n - sp_spaceSize sp)" "in_i64 (sp_spaceSize sp - n)"
    using sizes wf(1) by (auto simp: in_i64_def wf_Space_def)
  obtain cv where cv: "cb_docs sys w (manager_bucket sys, ''center_information'') = Some cv"
    using centers by blast
  have numbers: "(n < 0) = False" "(1000 * 1000 :: int) = 1000000" using sizes(1) by simp_all
  show ?thesis
    unfolding SpaceSizeChange_def
    apply (simp only: numbers(1) if_False)
    apply (rule up_open [OF laws(2,3)])
    apply (rule up_get [OF laws(2,3)], simp only: sp)
    apply (simp only: run_simps space_back [OF laws(1) wf(1)])
    apply (rule up_init [OF laws(2,3)])
    apply (rule up_get [OF laws(2,3)], simp only: cv)
    apply (simp only: run_simps usage_at_def local wp_bnd)
    apply (rule wp_SpaceUsage_known [OF laws(2) usage(1)])
    apply (simp only: outcome.case run_simps numbers usage_gb [OF usage(2,3)] i64_id [OF d(1)] i64_id [OF d(2)])
    subgoal premises docs for w2 w3 w4 w5 w6
      using wp_resize [OF laws wf(2) _ _ sizes(1,4) room refl, of w6] sp st by (simp only: docs)
    done
qed

lemma mem_manager_id [simp]: "ManagerID (mem_sysq rows) = ''1''"
  by (simp add: ManagerID_def mem_cfg_def)

lemma mem_SpaceUsage: "fst (SpaceUsage (mem_sysq rows) ''p1'' w) = Val 2000000"
proof -
  have "parse_du (cstr (fgets_line 199 mem_du)) = Val 2000000" by code_simp
  moreover have "cstr ''/datap1'' = ''/datap1''" by (simp add: cstr_id nul_free_def)
  ultimately show ?thesis
    by (simp add: SpaceUsage_def mem_cfg_def deref_Some ext_def bnd_def ret_def)
qed

lemma SpaceSizeChange_result_witness:
  "wp (SpaceSizeChange mem_sys ''p1'' 20) (\<lambda>r w'. r = Val 0 \<and> cb_docs mem_sys w' = (cb_docs mem_sys sample_mem)
      ((''gvds'', ''STOR-s1'') \<mapsto> serialize mem_sys ser_StorageResource (sample_storage\<lparr>st_assign_capacity := 50\<rparr>),
       (''gvds'', ''SPACE-p1'') \<mapsto> serialize mem_sys ser_Space (sample_space\<lparr>sp_spaceSize := 20\<rparr>))) sample_mem"
  using SpaceSizeChange_result [OF mem_laws wf_samples(2,1),
      of sample_mem "''p1''" 2000000 20]
  by (simp add: space_prefix_def mem_SpaceUsage in_i64_def)

section \<open>Reading \<open>du\<close>\<close>

lemma digit_char:
  assumes "d < 10"
  shows "is_digit (char_of (48 + d))" "digit_val (char_of (48 + d)) = d"
  using assms by (simp_all add: is_digit_def digit_val_def of_char_of)

lemma nat_dec_digits: "list_all is_digit (nat_dec n)"
proof (induction n rule: nat_dec.induct)
  case (1 n)
  then show ?case by (subst nat_dec.simps) (auto simp: digit_char)
qed

lemma nat_dec_nonempty: "nat_dec n \<noteq> []"
  by (subst nat_dec.simps) auto

lemma dec_value_snoc: "dec_value (ds @ [c]) = 10 * dec_value ds + digit_val c"
  by (simp add: dec_value_def)

lemma dec_value_nat_dec: "dec_value (nat_dec n) = n"
proof (induction n rule: nat_dec.induct)
  case (1 n)
  show ?case
  proof (cases "n < 10")
    case True
    then show ?thesis by (subst nat_dec.simps) (simp add: dec_value_def digit_char)
  next
    case False
    then show ?thesis
      by (subst nat_dec.simps) (simp add: dec_value_snoc digit_char "1.IH")
  qed
qed

lemma digit_not_special:
  assumes "is_digit c"
  shows "\<not> is_space_char c" "c \<noteq> CHR ''-''" "c \<noteq> CHR ''+''" "c \<noteq> CHR '' ''" "c \<noteq> CHR 0x09" "c \<noteq> CHR 0x00"
  using assms by (auto simp: is_digit_def is_space_char_def)

lemma digits_free:
  assumes "list_all is_digit ds"
  shows "CHR '' '' \<notin> set ds" "CHR 0x09 \<notin> set ds" "nul_free ds"
  using assms digit_not_special(4-6) unfolding list_all_iff nul_free_def by blast+

lemma sscanf_d_nat_dec: "in_i32 (int n) \<Longrightarrow> sscanf_d (nat_dec n) old = int n"
proof -
  assume r: "in_i32 (int n)"
  obtain c cs where c: "nat_dec n = c # cs" using nat_dec_nonempty by (cases "nat_dec n") auto
  have d: "is_digit c" using nat_dec_digits [of n] c by simp
  have "dropWhile is_space_char (nat_dec n) = nat_dec n" using c digit_not_special(1) [OF d] by simp
  moreover have "takeWhile is_digit (nat_dec n) = nat_dec n"
    using nat_dec_digits by (simp add: list_all_iff takeWhile_eq_all_conv)
  moreover have "saturate_long (int n) = int n" using r by (simp add: saturate_long_def in_i32_def)
  ultimately show ?thesis
    using c digit_not_special(2,3) [OF d] r
    by (simp add: sscanf_d_def Let_def i32_id dec_value_nat_dec [of n, unfolded c])
qed

lemma find_from_here: "c \<notin> set xs \<Longrightarrow> find_from c 0 (xs @ c # ys) = Some (length xs)"
  by (induction xs) (auto simp: find_from_def)

lemma find_from_none: "c \<notin> set xs \<Longrightarrow> find_from c 0 xs = None"
  by (simp add: find_from_def)

text \<open>A line of \<open>du\<close> with a whole figure and one of the units K, M, G, whose path has no blank, is
  read as that many KB times 1, 1000 or 1000000, as long as the product fits an \<open>int\<close>.\<close>

theorem parse_du_reads:
  assumes "(u, f) \<in> {(CHR ''K'', 1), (CHR ''M'', 1000), (CHR ''G'', 1000000)}"
    and "CHR '' '' \<notin> set path" and "in_i32 (int n * f)"
  shows "parse_du (nat_dec n @ [u] @ CHR 0x09 # path) = Val (int n * f)"
proof -
  let ?s = "nat_dec n @ [u]"
  note ds = digits_free [OF nat_dec_digits [of n]]
  have u: "u \<noteq> CHR '' ''" "u \<noteq> CHR 0x09" using assms(1) by auto
  have n: "in_i32 (int n)" "in_i32 (int n * 1000) \<or> f = 1"
    using assms(1,3) by (auto simp: in_i32_def)
  have "find_from CHR '' '' 0 (?s @ CHR 0x09 # path) = None"
    using ds u assms(2) by (intro find_from_none) auto
  moreover have "find_from CHR 0x09 0 (?s @ CHR 0x09 # path) = Some (length ?s)"
    using ds u by (intro find_from_here) auto
  ultimately have "parse_du (?s @ CHR 0x09 # path) =
      Val (let m = int n in if u = CHR ''G'' then i32 (i32 (m * 1000) * 1000)
           else if u = CHR ''M'' then i32 (m * 1000) else if u = CHR ''K'' then m else 0)"
    using ds(3) n(1) by (simp add: parse_du_def Let_def cstr_id sscanf_d_nat_dec)
  also have "\<dots> = Val (int n * f)"
    using assms(1,3) n by (auto simp: i32_id mult.assoc)
  finally show ?thesis by simp
qed

lemma parse_du_reads_witness:
  "parse_du (nat_dec 12 @ ''M'' @ CHR 0x09 # ''/data/p1'' @ [CHR 0x0A]) = Val 12000"
  using parse_du_reads [of "CHR ''M''" 1000 "''/data/p1'' @ [CHR 0x0A]" 12] by (simp add: in_i32_def)

text \<open>The figures that \<open>du -h\<close> prints for large directories are not read as what they mean: a
  fraction is cut to its whole part's unit (1.5G counts as 1), terabytes count as nothing, and 3000G
  wraps to a negative number of KB.\<close>

theorem parse_du_misreads:
  "parse_du (''1.5G'' @ CHR 0x09 # ''/data'') = Val 1000000 \<and>
   parse_du (''2T'' @ CHR 0x09 # ''/data'') = Val 0 \<and>
   parse_du (''3000G'' @ CHR 0x09 # ''/data'') = Val (- 1294967296)"
  by code_simp

end
