(* ===== verification/Space_Lifecycle.thy ===== *)
theory Space_Lifecycle
  imports Space_Ops
begin

text \<open>
  Renaming and deleting spaces, choosing the storage resource of a new one, and creating it.
\<close>

section \<open>Renaming\<close>

text \<open>What the program makes of a name that is too long.\<close>

definition limit_name :: "string \<Rightarrow> string" where
  "limit_name s = (if length s > 50 then drop 50 s else s)"

text \<open>Renaming a space, with a store that does not fail: a deleted space is refused and nothing is
  written; otherwise the answer is 0 and the document of the space holds the new name and nothing else
  changed. A name longer than 50 characters is not cut to 50: what is stored is the part after them.\<close>

theorem SpaceRename_result:
  assumes laws: "json_law sys" "couchbase_law sys" "couchbase_up sys" and wf: "wf_Space sp"
    and sp: "cb_docs sys w (manager_bucket sys, space_prefix @ k) = Some (serialize sys ser_Space sp)"
  shows "wp (SpaceRename sys k new) (\<lambda>r w'.
    if sp_status sp
    then r = Val 0 \<and> cb_docs sys w' = (cb_docs sys w)((manager_bucket sys, space_prefix @ k) \<mapsto>
        serialize sys ser_Space (sp\<lparr>sp_spaceName := if length new > 50 then drop 50 new else new\<rparr>))
    else r = Val (- 1) \<and> cb_docs sys w' = cb_docs sys w) w"
proof -
  have same: "cb_docs sys w = (cb_docs sys w)((manager_bucket sys, space_prefix @ k) \<mapsto>
        serialize sys ser_Space (sp\<lparr>sp_spaceName := limit_name new\<rparr>))"
    if "sp_spaceName sp = limit_name new"
  proof -
    have "sp\<lparr>sp_spaceName := limit_name new\<rparr> = sp" using that by (cases sp) simp
    with sp show ?thesis by (auto simp: fun_eq_iff)
  qed
  show ?thesis
    unfolding SpaceRename_def limit_name_def [symmetric]
    apply (rule up_open [OF laws(2,3)])
    apply (rule up_get [OF laws(2,3)], simp only: sp)
    apply (simp only: run_simps space_back [OF laws(1) wf])
    apply (auto intro!: up_set [OF laws(2,3)] simp del: wp_bnd dest: same)
    done
qed

lemma SpaceRename_result_witness:
  "wp (SpaceRename mem_sys ''p1'' ''scratch'') (\<lambda>r w'. r = Val 0 \<and>
     cb_docs mem_sys w' = (cb_docs mem_sys sample_mem)((''gvds'', ''SPACE-p1'') \<mapsto>
        serialize mem_sys ser_Space (sample_space\<lparr>sp_spaceName := ''scratch''\<rparr>))) sample_mem"
  using SpaceRename_result [OF mem_laws wf_samples(2), of sample_mem "''p1''" "''scratch''"]
  by (simp add: space_prefix_def)

section \<open>Deleting\<close>

lemma SpaceDelete_dom:
  assumes "couchbase_law sys"
  shows "wp (SpaceDelete sys ks) (\<lambda>r w'. dom (cb_docs sys w) \<subseteq> dom (cb_docs sys w')) w"
proof (induction ks arbitrary: w)
  case Nil
  then show ?case by simp
next
  case (Cons k ks)
  have rec: "wp (SpaceDelete sys ks) (\<lambda>r w'. dom (cb_docs sys w) \<subseteq> dom (cb_docs sys w')) w'"
    if "dom (cb_docs sys w) \<subseteq> dom (cb_docs sys w')" for w'
    using Cons.IH [of w'] that by (auto elim!: wp_mono)
  show ?case
    by (auto simp: Let_def intro!: wp_open_ds [OF assms] wp_ds_get [OF assms] wp_ds_set [OF assms]
        wp_SpaceSizeDeduct [OF assms] rec)
qed

text \<open>Deleting spaces never removes a document, whatever fails on the way: a deleted space stays,
  marked as not available.\<close>

theorem SpaceDelete_keeps_documents:
  assumes "couchbase_law sys"
  shows "wp (SpaceDelete sys ks) (\<lambda>r w'. dom (cb_docs sys w) \<subseteq> dom (cb_docs sys w')) w"
  by (rule SpaceDelete_dom [OF assms])

lemma SpaceDelete_keeps_documents_witness:
  "wp (SpaceDelete mem_sys [''p1'', ''p2'']) (\<lambda>r w'. dom (cb_docs mem_sys sample_mem) \<subseteq> dom (cb_docs mem_sys w')) sample_mem"
  by (rule SpaceDelete_keeps_documents [OF mem_laws(2)])

lemma SpaceDelete_stops:
  assumes "couchbase_law sys" and "couchbase_up sys"
    and "cb_docs sys w (manager_bucket sys, space_prefix @ k) = None"
  shows "wp (SpaceDelete sys (k # ks)) (\<lambda>r w'. r = Val 0 \<and> cb_docs sys w' = cb_docs sys w) w"
  unfolding SpaceDelete.simps
  by (rule up_open [OF assms(1,2)], unfold wp_bnd, rule wp_ds_get [OF assms(1)]) (use assms in auto)

text \<open>The list ends at the first space that cannot be read: with it missing, the answer is 0,
  which means success, although no space of the list was deleted.\<close>

theorem SpaceDelete_missing:
  assumes "couchbase_law sys" and "couchbase_up sys"
    and "cb_docs sys w (manager_bucket sys, space_prefix @ k) = None"
  shows "wp (SpaceDelete sys (k # ks)) (\<lambda>r w'. r = Val 0 \<and> cb_docs sys w' = cb_docs sys w) w"
  by (rule SpaceDelete_stops [OF assms])

lemma SpaceDelete_missing_witness:
  "wp (SpaceDelete mem_sys [''gone'', ''p1''])
     (\<lambda>r w'. r = Val 0 \<and> cb_docs mem_sys w' = cb_docs mem_sys sample_mem) sample_mem"
  by (rule SpaceDelete_missing [OF mem_laws(2,3)]) (simp add: space_prefix_def sample_mem_def)

text \<open>
  The documents after deleting spaces of one storage resource: every space is marked, the ledger is
  reduced by what they took together.
\<close>

definition mark_deleted :: "'w sys \<Rightarrow> docs \<Rightarrow> string \<times> space \<Rightarrow> docs" where
  "mark_deleted sys d p = d((manager_bucket sys, space_prefix @ fst p) \<mapsto>
     serialize sys ser_Space ((snd p)\<lparr>sp_status := False\<rparr>))"

definition deleted_docs :: "'w sys \<Rightarrow> string \<Rightarrow> storage_resource \<Rightarrow> (string \<times> space) list \<Rightarrow> docs \<Rightarrow> docs" where
  "deleted_docs sys sid st sps d = (foldl (mark_deleted sys) d sps)
     ((manager_bucket sys, sid) \<mapsto> serialize sys ser_StorageResource
        (st\<lparr>st_assign_capacity := st_assign_capacity st - sum_list (map (sp_spaceSize \<circ> snd) sps)\<rparr>))"

lemma mark_deleted_commute:
  "sid \<noteq> space_prefix @ fst p \<Longrightarrow> mark_deleted sys (d((manager_bucket sys, sid) \<mapsto> t)) p
    = (mark_deleted sys d p)((manager_bucket sys, sid) \<mapsto> t)"
  by (auto simp: mark_deleted_def)

lemma deleted_docs_commute:
  "\<forall>k. sid \<noteq> space_prefix @ k \<Longrightarrow> foldl (mark_deleted sys) (d((manager_bucket sys, sid) \<mapsto> t)) sps
    = (foldl (mark_deleted sys) d sps)((manager_bucket sys, sid) \<mapsto> t)"
  by (induction sps arbitrary: d) (simp_all add: mark_deleted_commute del: fun_upd_apply)

lemma deleted_docs_Cons:
  assumes "\<forall>k. sid \<noteq> space_prefix @ k"
  shows "deleted_docs sys sid (st\<lparr>st_assign_capacity := st_assign_capacity st - sp_spaceSize sp\<rparr>) sps
      (mark_deleted sys (moved_ledger sys sid st (- sp_spaceSize sp) d) (k, sp))
    = deleted_docs sys sid st ((k, sp) # sps) d"
  using assms mark_deleted_commute [of sid "(k, sp)" sys d]
  by (simp add: deleted_docs_def deleted_docs_commute algebra_simps del: fun_upd_apply)

text \<open>One round of the loop: the ledger first, then the mark.\<close>

lemma wp_delete_one:
  assumes laws: "json_law sys" "couchbase_law sys" "couchbase_up sys"
    and wf: "wf_StorageResource st" "wf_Space sp" and src: "sp_storageSrcID sp = sid"
    and st: "cb_docs sys w (manager_bucket sys, sid) = Some (serialize sys ser_StorageResource st)"
    and sp: "cb_docs sys w (manager_bucket sys, space_prefix @ k) = Some (serialize sys ser_Space sp)"
    and room: "0 \<le> st_assign_capacity st - sp_spaceSize sp" "in_i64 (st_assign_capacity st - sp_spaceSize sp)"
    and rest: "\<And>w'. cb_docs sys w' = mark_deleted sys (moved_ledger sys sid st (- sp_spaceSize sp) (cb_docs sys w)) (k, sp) \<Longrightarrow>
      wp (SpaceDelete sys ks) Q w'"
  shows "wp (SpaceDelete sys (k # ks)) Q w"
proof -
  have sel: "sp_storageSrcID (sp\<lparr>sp_status := False\<rparr>) = sid"
    "sp_spaceSize (sp\<lparr>sp_status := False\<rparr>) = sp_spaceSize sp"
    using src by simp_all
  have ded: "wp (SpaceSizeDeduct sys sid (sp_spaceSize sp)) (\<lambda>r w''. r = Val 0 \<and>
      cb_docs sys w'' = moved_ledger sys sid st (- sp_spaceSize sp) (cb_docs sys w)) w'"
    if "cb_docs sys w' = cb_docs sys w" for w'
    using wp_shrink_ledger [OF laws wf(1) room, of w' sid] st by (simp only: that)
  show ?thesis
    unfolding SpaceDelete.simps
    apply (rule up_open [OF laws(2,3)])
    apply (rule up_get [OF laws(2,3)], simp only: sp)
    apply (simp only: run_simps space_back [OF laws(1) wf(2)] sel)
    apply (rule wp_step [OF ded], simp only:)
    apply (simp only: run_simps)
    apply (rule up_set [OF laws(2,3)])
    using rest apply (simp only: run_simps mark_deleted_def fst_conv snd_conv)
    done
qed

text \<open>C15: Deleting distinct spaces of one storage resource whose ledger counts them: the answer is 0,
  every one of them is marked as not available, and the ledger goes down by the sum of their sizes;
  nothing else changes.\<close>

theorem SpaceDelete_result:
  assumes laws: "json_law sys" "couchbase_law sys" "couchbase_up sys"
    and "wf_StorageResource st" and "\<forall>k. sid \<noteq> space_prefix @ k"
    and "cb_docs sys w (manager_bucket sys, sid) = Some (serialize sys ser_StorageResource st)"
    and "distinct (map fst sps)"
    and "\<And>k sp. (k, sp) \<in> set sps \<Longrightarrow> wf_Space sp \<and> sp_storageSrcID sp = sid \<and> 0 \<le> sp_spaceSize sp \<and>
      cb_docs sys w (manager_bucket sys, space_prefix @ k) = Some (serialize sys ser_Space sp)"
    and "sum_list (map (sp_spaceSize \<circ> snd) sps) \<le> st_assign_capacity st"
  shows "wp (SpaceDelete sys (map fst sps)) (\<lambda>r w'. r = Val 0 \<and>
    cb_docs sys w' = deleted_docs sys sid st sps (cb_docs sys w)) w"
  using assms(4-)
proof (induction sps arbitrary: w st)
  case Nil
  then show ?case by (auto simp: deleted_docs_def fun_eq_iff)
next
  case (Cons p sps)
  obtain k sp where p: "p = (k, sp)" by (cases p)
  let ?st = "st\<lparr>st_assign_capacity := st_assign_capacity st - sp_spaceSize sp\<rparr>"
  have sp: "wf_Space sp" "sp_storageSrcID sp = sid" "0 \<le> sp_spaceSize sp"
    "cb_docs sys w (manager_bucket sys, space_prefix @ k) = Some (serialize sys ser_Space sp)"
    using Cons.prems(5) [of k sp] p by auto
  have "0 \<le> sum_list (map (sp_spaceSize \<circ> snd) sps)"
    using Cons.prems(5) by (intro sum_list_nonneg) fastforce
  then have room: "0 \<le> st_assign_capacity st - sp_spaceSize sp" "in_i64 (st_assign_capacity st - sp_spaceSize sp)"
    using Cons.prems(1,6) sp(3) p by (auto simp: comp_def in_i64_def wf_StorageResource_def)
  have wf': "wf_StorageResource ?st" using Cons.prems(1) room by (simp add: wf_StorageResource_def)
  have ne: "sid \<noteq> space_prefix @ k" "\<And>k' sp'. (k', sp') \<in> set sps \<Longrightarrow> k' \<noteq> k"
    using Cons.prems(2,4) p by (auto simp: rev_image_eqI)
  have others: "wf_Space sp' \<and> sp_storageSrcID sp' = sid \<and> 0 \<le> sp_spaceSize sp' \<and>
      cb_docs sys w (manager_bucket sys, space_prefix @ k') = Some (serialize sys ser_Space sp')"
    if "(k', sp') \<in> set sps" for k' sp' by (rule Cons.prems(5)) (simp add: that)
  show ?case unfolding p list.map fst_conv
  proof (rule wp_delete_one [OF laws Cons.prems(1) sp(1,2) Cons.prems(3) sp(4) room])
    fix w'
    assume d: "cb_docs sys w' = mark_deleted sys (moved_ledger sys sid st (- sp_spaceSize sp) (cb_docs sys w)) (k, sp)"
    have "wp (SpaceDelete sys (map fst sps)) (\<lambda>r w''. r = Val 0 \<and>
      cb_docs sys w'' = deleted_docs sys sid ?st sps (cb_docs sys w')) w'"
      by (rule Cons.IH [OF wf' Cons.prems(2)])
        (use d ne Cons.prems(2,4,6) p others in \<open>auto simp: mark_deleted_def algebra_simps\<close>)
    then show "wp (SpaceDelete sys (map fst sps)) (\<lambda>r w''. r = Val 0 \<and>
      cb_docs sys w'' = deleted_docs sys sid st ((k, sp) # sps) (cb_docs sys w)) w'"
      unfolding d by (simp only: deleted_docs_Cons [OF Cons.prems(2)])
  qed
qed

lemma SpaceDelete_result_witness:
  "wp (SpaceDelete mem_sys [''p1'']) (\<lambda>r w'. r = Val 0 \<and> cb_docs mem_sys w' =
     (cb_docs mem_sys sample_mem)
       ((''gvds'', ''SPACE-p1'') \<mapsto> serialize mem_sys ser_Space (sample_space\<lparr>sp_status := False\<rparr>),
        (''gvds'', ''STOR-s1'') \<mapsto> serialize mem_sys ser_StorageResource
          (sample_storage\<lparr>st_assign_capacity := 30\<rparr>))) sample_mem"
  using SpaceDelete_result [OF mem_laws wf_samples(1), of "''STOR-s1''" sample_mem "[(''p1'', sample_space)]"]
  by (simp add: space_prefix_def deleted_docs_def mark_deleted_def)

section \<open>Choosing a storage resource\<close>

definition row_key :: "'w sys \<Rightarrow> string \<Rightarrow> int" where
  "row_key sys row = free_key (storage_of sys row)"

lemma rank_storage_fold:
  "rank_storage sys rows = foldl (\<lambda>ma row. smap_set (- row_key sys row) row ma) [] rows"
  by (simp add: rank_storage_def row_key_def storage_of_def)

lemma rank_storage_inv:
  assumes "smap_ok ma" and "\<forall>(k, row) \<in> set ma. k = - row_key sys row \<and> row \<in> R" and "set rows \<subseteq> R"
  shows "smap_ok (foldl (\<lambda>ma row. smap_set (- row_key sys row) row ma) ma rows) \<and>
    (\<forall>(k, row) \<in> set (foldl (\<lambda>ma row. smap_set (- row_key sys row) row ma) ma rows).
       k = - row_key sys row \<and> row \<in> R) \<and>
    fst ` set (foldl (\<lambda>ma row. smap_set (- row_key sys row) row ma) ma rows)
      = fst ` set ma \<union> (\<lambda>row. - row_key sys row) ` set rows"
  using assms
proof (induction rows arbitrary: ma)
  case Nil
  then show ?case by simp
next
  case (Cons row rows)
  have "set (smap_set k v m) \<subseteq> insert (k, v) (set m)" for k :: int and v :: string and m
    by (induction k v m rule: smap_set.induct) auto
  then have "\<forall>(k, r) \<in> set (smap_set (- row_key sys row) row ma). k = - row_key sys r \<and> r \<in> R"
    using Cons.prems(2,3) by fastforce
  with Cons.IH [of "smap_set (- row_key sys row) row ma"] Cons.prems show ?case by auto
qed

lemma rank_storage_best:
  assumes "rows \<noteq> []"
  shows "snd (hd (rank_storage sys rows)) \<in> set rows"
    "\<And>row. row \<in> set rows \<Longrightarrow> row_key sys row \<le> row_key sys (snd (hd (rank_storage sys rows)))"
proof -
  let ?ma = "rank_storage sys rows"
  have inv: "smap_ok ?ma" "\<forall>(k, row) \<in> set ?ma. k = - row_key sys row \<and> row \<in> set rows"
    "fst ` set ?ma = (\<lambda>row. - row_key sys row) ` set rows"
    using rank_storage_inv [of "[]" sys "set rows" rows] by (simp_all add: rank_storage_fold)
  from inv(3) assms obtain p ma where ma: "?ma = p # ma" by (cases ?ma) auto
  have hd: "fst p = - row_key sys (snd p)" "snd p \<in> set rows" using inv(2) ma by (auto split: prod.splits)
  then show "snd (hd ?ma) \<in> set rows" using ma by simp
  fix row
  assume "row \<in> set rows"
  then have "- row_key sys row \<in> fst ` set ?ma" using inv(3) by blast
  then have "fst p \<le> - row_key sys row"
    using inv(1) ma by (cases p) (auto simp: smap_ok_Cons)
  then show "row_key sys row \<le> row_key sys (snd (hd ?ma))" using hd ma by simp
qed

lemma select_storage_query: "select_query (storage_query sys hcn ssn)"
  by (simp add: select_query_def storage_query_def snprintf_n_def)

lemma GetSpaceCreatePath_rows:
  assumes "couchbase_law sys" and "couchbase_up sys" and "rows \<noteq> []"
    and q: "\<And>w. fst (cb_query sys (manager_bucket sys) (storage_query sys hcn ssn) w) = QRows rows"
    and st: "storage_of sys (snd (hd (rank_storage sys rows))) = st"
  shows "wp (GetSpaceCreatePath sys n hcn ssn) (\<lambda>r w'.
    r = Val ((storage_prefix @ st_storage_src_id st, st_host_center_id st),
             st_host_center_name st, st_storage_src_name st) \<and>
    cb_docs sys w' = cb_docs sys w) w"
proof -
  have sel: "select_query (storage_query sys hcn ssn)" by (rule select_storage_query)
  have run: "wp (ds_n1ql sys (Some (Datastore (manager_bucket sys) True)) (storage_query sys hcn ssn)) Q w'"
    if "\<And>w''. cb_docs sys w'' = cb_docs sys w' \<Longrightarrow> Q (Val (rows, 0)) w''" for Q w'
  proof -
    obtain w'' where r: "cb_query sys (manager_bucket sys) (storage_query sys hcn ssn) w' = (QRows rows, w'')"
      using q [of w'] by (metis prod.collapse)
    with quiet(2) [OF assms(1) sel, of "manager_bucket sys" w'] that
    show ?thesis by (simp add: ds_n1ql_def wp_ext)
  qed
  show ?thesis
    unfolding GetSpaceCreatePath_def
    apply (rule up_open [OF assms(1,2)])
    apply (unfold wp_bnd)
    apply (rule run)
    using assms(3) st apply (simp add: Let_def storage_of_def [symmetric])
    done
qed

lemma asks_storage_query [simp]: "asks_storage (storage_query sys hcn ssn)"
  by (simp add: asks_storage_def storage_query_def snprintf_n_def)

lemma sample_row:
  "storage_of (mem_sysq rows) (serialize mem_sys ser_StorageResource sample_storage) = sample_storage"
  using storage_of_serialize [OF mem_json_law [of rows] wf_samples(1)] by (cases rows) simp_all

lemma sample_path:
  "wp (GetSpaceCreatePath (mem_sysq [serialize mem_sys ser_StorageResource sample_storage]) n hcn ssn)
     (\<lambda>r w'. r = Val ((''STOR-s1'', ''1''), ''Beijing'', ''lustre'') \<and>
       cb_docs mem_sys w' = cb_docs mem_sys w) w"
proof -
  let ?row = "serialize mem_sys ser_StorageResource sample_storage"
  have "storage_of (mem_sysq [?row]) (snd (hd (rank_storage (mem_sysq [?row]) [?row]))) = sample_storage"
    by (simp add: rank_storage_fold sample_row)
  from GetSpaceCreatePath_rows [OF mem_couchbase_law mem_couchbase_up _ _ this, of hcn ssn n w]
  show ?thesis by (simp add: storage_prefix_def)
qed

text \<open>C26: The resource chosen for a new space is one of those the query found, and none of them has
  a greater key, the free capacity cut to 32 bits; so none of them has more free capacity as long as the free
  capacities fit 32 bits. When they do not, a fuller resource may be chosen (\<open>free_key_wraps\<close>).\<close>

theorem GetSpaceCreatePath_best:
  assumes "couchbase_law sys" and "couchbase_up sys" and "rows \<noteq> []"
    and q: "\<And>w. fst (cb_query sys (manager_bucket sys) (storage_query sys hcn ssn) w) = QRows rows"
  shows "wp (GetSpaceCreatePath sys n hcn ssn) (\<lambda>r w'. cb_docs sys w' = cb_docs sys w \<and>
    (\<exists>best \<in> set rows. let st = storage_of sys best; free = (\<lambda>x. st_total_capacity x - st_assign_capacity x) in
      r = Val ((storage_prefix @ st_storage_src_id st, st_host_center_id st),
               st_host_center_name st, st_storage_src_name st) \<and>
      (\<forall>row \<in> set rows. free_key (storage_of sys row) \<le> free_key st) \<and>
      ((\<forall>row \<in> set rows. in_i32 (free (storage_of sys row))) \<longrightarrow>
         (\<forall>row \<in> set rows. free (storage_of sys row) \<le> free st)))) w"
proof -
  let ?best = "snd (hd (rank_storage sys rows))"
  let ?free = "\<lambda>x. st_total_capacity x - st_assign_capacity x"
  have key: "free_key x = ?free x" if "in_i32 (?free x)" for x
    using that by (simp add: free_key_def i64_id i32_id in_i64_def in_i32_def)
  note best = rank_storage_best [OF assms(3), where sys = sys, unfolded row_key_def]
  have "\<forall>row \<in> set rows. ?free (storage_of sys row) \<le> ?free (storage_of sys ?best)"
    if "\<forall>row \<in> set rows. in_i32 (?free (storage_of sys row))"
    using best that key by metis
  with best show ?thesis
    by (intro wp_mono [OF GetSpaceCreatePath_rows [OF assms refl]]) (auto simp: Let_def)
qed

lemma GetSpaceCreatePath_best_witness:
  "wp (GetSpaceCreatePath (mem_sysq [serialize mem_sys ser_StorageResource sample_storage]) 5 ''Beijing'' [])
     (\<lambda>r w'. \<exists>x. r = Val x \<and> fst (fst x) = ''STOR-s1'') sample_mem"
  by (rule wp_mono [OF GetSpaceCreatePath_best [OF mem_couchbase_law mem_couchbase_up,
        of "[serialize mem_sys ser_StorageResource sample_storage]"]])
    (auto simp: sample_row in_i32_def Let_def storage_prefix_def)

text \<open>Beyond 2 GB of free capacity (in the unit of the ledger) the key wraps: a resource with
  3000000000 units free ranks below one with a single unit free.\<close>

theorem free_key_wraps:
  "free_key (sample_storage\<lparr>st_total_capacity := 3000000000, st_assign_capacity := 0\<rparr>)
     < free_key (sample_storage\<lparr>st_total_capacity := 1, st_assign_capacity := 0\<rparr>)"
  by (simp add: free_key_def i64_def i32_def signed_take_bit_eq_if_positive take_bit_eq_mod bit_iff_odd)

section \<open>Creating\<close>

lemma wp_GetSpaceCreatePath:
  assumes "couchbase_law sys"
    and "\<And>a b c d w'. cb_docs sys w' = cb_docs sys w \<Longrightarrow> Q (Val ((a, b), c, d)) w'"
    and "\<And>c w'. cb_docs sys w' = cb_docs sys w \<Longrightarrow> Q (Crash c) w'"
  shows "wp (GetSpaceCreatePath sys n hcn ssn) Q w"
  using assms unfolding GetSpaceCreatePath_def
  by (auto simp: Let_def select_storage_query intro!: wp_open_ds [OF assms(1)] wp_ds_n1ql [OF assms(1)])

text \<open>The documents hold an available space of that identifier, name and size.\<close>

definition created :: "'w sys \<Rightarrow> docs \<Rightarrow> string \<Rightarrow> int \<Rightarrow> string \<Rightarrow> bool" where
  "created sys d name n s \<longleftrightarrow> name \<noteq> [] \<and> n \<noteq> 0 \<and>
     (\<exists>sp. d (manager_bucket sys, space_prefix @ s) = Some (serialize sys ser_Space sp) \<and>
        sp_spaceID sp = s \<and> sp_spacePath sp = s \<and> sp_spaceName sp = name \<and> sp_spaceSize sp = n \<and>
        sp_status sp)"

lemma created_written [simp]:
  "name \<noteq> [] \<Longrightarrow> n \<noteq> 0 \<Longrightarrow> created sys (d((manager_bucket sys, space_prefix @ u) \<mapsto> serialize sys ser_Space
    (x\<lparr>sp_spaceID := u, sp_spacePath := u, sp_spaceName := name, sp_spaceSize := n,
      sp_hostCenterID := b, sp_hostCenterName := c, sp_storageSrcID := a, sp_storageSrcName := e,
      sp_status := True\<rparr>))) name n u"
  unfolding created_def fun_upd_same option.inject
  by (intro conjI exI [of _ "x\<lparr>sp_spaceID := u, sp_spacePath := u, sp_spaceName := name, sp_spaceSize := n,
      sp_hostCenterID := b, sp_hostCenterName := c, sp_storageSrcID := a, sp_storageSrcName := e,
      sp_status := True\<rparr>"]) simp_all

lemma wp_SpaceCreate:
  assumes "couchbase_law sys"
  shows "wp (SpaceCreate sys name owner members n info grp) (\<lambda>r w'. \<forall>s. r = Val s \<longrightarrow>
    s \<in> {''-1'', ''-2'', ''-3'', ''-5''} \<or> created sys (cb_docs sys w') name n s) w"
  unfolding SpaceCreate_def
  by (auto simp: Let_def
      intro!: wp_open_ds [OF assms] wp_GetSpaceCreatePath [OF assms] wp_SpaceSizeAdd [OF assms]
        wp_uuid_gen [OF assms] wp_os_mkdir [OF assms] wp_ds_set [OF assms])

text \<open>Creating a space, whatever fails: unless the answer is one of the four error texts, it is the
  identifier of a space whose document now exists, available, with the requested name and size, which
  are not empty and not 0.\<close>

theorem SpaceCreate_created:
  assumes "couchbase_law sys"
  shows "wp (SpaceCreate sys name owner members n info grp) (\<lambda>r w'. \<forall>s. r = Val s \<longrightarrow>
    s \<in> {''-1'', ''-2'', ''-3'', ''-5''} \<or> created sys (cb_docs sys w') name n s) w"
  by (rule wp_SpaceCreate [OF assms])

abbreviation mem_stor :: "mem sys" where
  "mem_stor \<equiv> mem_sysq [serialize mem_sys ser_StorageResource sample_storage]"

lemma SpaceCreate_created_witness:
  "wp (SpaceCreate mem_stor ''home'' ''u1'' [] 5 [] []) (\<lambda>r w'. \<forall>s. r = Val s \<longrightarrow>
    s \<in> {''-1'', ''-2'', ''-3'', ''-5''} \<or> created mem_stor (cb_docs mem_stor w') ''home'' 5 s) sample_mem"
  by (rule SpaceCreate_created [OF mem_couchbase_law])

text \<open>The space that \<open>SpaceCreate\<close> writes, and the path the storage query leads to.\<close>

definition made_space ::
  "'w sys \<Rightarrow> string \<Rightarrow> string \<Rightarrow> int \<Rightarrow> (string \<times> string) \<times> string \<times> string \<Rightarrow> space" where
  "made_space sys u name n path = (case path of ((sid, hid), hcn, ssn) \<Rightarrow>
     (new_Space sys)\<lparr>sp_spaceID := u, sp_spacePath := u, sp_spaceName := name, sp_spaceSize := n,
       sp_hostCenterID := hid, sp_hostCenterName := hcn, sp_storageSrcID := sid,
       sp_storageSrcName := ssn, sp_status := True\<rparr>)"

definition create_path ::
  "'w sys \<Rightarrow> int \<Rightarrow> string \<Rightarrow> (string \<times> string) \<times> string \<times> string \<Rightarrow> bool" where
  "create_path sys n info path \<longleftrightarrow> (let sp = load sys des_Space info (new_Space sys) in
     \<forall>w. wp (GetSpaceCreatePath sys n (sp_hostCenterName sp) (sp_storageSrcName sp))
       (\<lambda>r w'. r = Val path \<and> cb_docs sys w' = cb_docs sys w) w)"

text \<open>Making a directory may end with a code that \<open>P\<close> holds of.\<close>

definition mkdir_may :: "'w sys \<Rightarrow> (int \<Rightarrow> bool) \<Rightarrow> bool" where
  "mkdir_may sys P \<longleftrightarrow> (\<exists>d w. P (fst (os_mkdir sys d w)))"

lemma wp_mkdir:
  assumes "couchbase_law sys"
    and fail: "\<And>w' rc. cb_docs sys w' = cb_docs sys w \<Longrightarrow> rc \<noteq> 0 \<Longrightarrow> mkdir_may sys (\<lambda>rc. rc \<noteq> 0) \<Longrightarrow> Q (Val rc) w'"
    and good: "\<And>w'. cb_docs sys w' = cb_docs sys w \<Longrightarrow> mkdir_may sys (\<lambda>rc. rc = 0) \<Longrightarrow> Q (Val 0) w'"
  shows "wp (ext (os_mkdir sys d)) Q w"
proof -
  obtain rc w' where r: "os_mkdir sys d w = (rc, w')" by fastforce
  then have "P rc \<Longrightarrow> mkdir_may sys P" for P unfolding mkdir_may_def by (metis fst_conv)
  moreover have "cb_docs sys w' = cb_docs sys w" using quiet(4) [OF assms(1), of d w] r by simp
  ultimately show ?thesis using r fail good by (cases "rc = 0") (simp_all add: wp_ext)
qed

lemma wp_uuid_new:
  assumes "couchbase_law sys" and "\<And>w' u. cb_docs sys w' = cb_docs sys w \<Longrightarrow> new_id sys u \<Longrightarrow> Q (Val u) w'"
  shows "wp (ext (uuid_gen sys)) Q w"
  using assms(2) quiet(3) [OF assms(1), of w]
  by (cases "uuid_gen sys w") (simp add: wp_ext new_id_def, metis fst_conv snd_conv)

lemma ds_set_null [simp]: "ds_set sys None k v = crash Null_Deref"
  by (simp add: ds_set_def ds_call_def deref_def bnd_def crash_def)

text \<open>The part of the program after the capacity was taken.\<close>

definition make_space :: "'w sys \<Rightarrow> datastore_ptr \<Rightarrow> string \<Rightarrow> int \<Rightarrow> (string \<times> string) \<times> string \<times> string \<Rightarrow> ('w, string) prog" where
  "make_space sys p name n path =
     bnd (ext (uuid_gen sys)) (\<lambda>u. bnd (ext (os_mkdir sys (cstr (data_path sys @ ''/'' @ u)))) (\<lambda>rc.
     if rc \<noteq> 0 then ret ''-2''
     else if name = [] \<or> n = 0 then ret ''-5''
     else bnd (ds_set sys p (space_prefix @ u) (serialize sys ser_Space (made_space sys u name n path)))
       (\<lambda>flag. if flag \<noteq> 0 then ret ''-2'' else ret u)))"

lemma wp_make_space:
  assumes "couchbase_law sys" and "p = None \<and> \<not> couchbase_up sys \<or> p = Some (Datastore (manager_bucket sys) True)"
    and "\<And>w'. mkdir_may sys (\<lambda>rc. rc \<noteq> 0) \<Longrightarrow> cb_docs sys w' = cb_docs sys w \<Longrightarrow> Q (Val ''-2'') w'"
    and "\<And>w'. mkdir_may sys (\<lambda>rc. rc = 0) \<Longrightarrow> name = [] \<or> n = 0 \<Longrightarrow> cb_docs sys w' = cb_docs sys w \<Longrightarrow> Q (Val ''-5'') w'"
    and "\<And>w'. \<not> couchbase_up sys \<Longrightarrow> cb_docs sys w' = cb_docs sys w \<Longrightarrow> Q (Crash Null_Deref) w'"
    and "\<And>w' u. mkdir_may sys (\<lambda>rc. rc = 0) \<Longrightarrow> \<not> (name = [] \<or> n = 0) \<Longrightarrow> new_id sys u \<Longrightarrow> \<not> couchbase_up sys \<Longrightarrow>
      cb_docs sys w' = cb_docs sys w \<or> cb_docs sys w' = (cb_docs sys w)((manager_bucket sys, space_prefix @ u) \<mapsto>
        serialize sys ser_Space (made_space sys u name n path)) \<Longrightarrow> Q (Val ''-2'') w'"
    and "\<And>w' u. mkdir_may sys (\<lambda>rc. rc = 0) \<Longrightarrow> \<not> (name = [] \<or> n = 0) \<Longrightarrow> new_id sys u \<Longrightarrow>
      cb_docs sys w' = (cb_docs sys w)((manager_bucket sys, space_prefix @ u) \<mapsto>
        serialize sys ser_Space (made_space sys u name n path)) \<Longrightarrow> Q (Val u) w'"
  shows "wp (make_space sys p name n path) Q w"
  using assms(2) unfolding make_space_def
  by (auto intro!: wp_uuid_new [OF assms(1)] wp_mkdir [OF assms(1)] wp_ds_set [OF assms(1)]; metis assms(3-7))

lemma SpaceCreate_make_space:
  "SpaceCreate sys name owner members n info grp = bnd (open_ds sys (manager_bucket sys)) (\<lambda>p.
     let sp = load sys des_Space info (new_Space sys) in
     bnd (GetSpaceCreatePath sys n (sp_hostCenterName sp) (sp_storageSrcName sp)) (\<lambda>((sid, hid), hcn, ssn).
     if sid = [] \<and> hid = [] then ret ''-3''
     else bnd (SpaceSizeAdd sys sid n) (\<lambda>rc.
     if rc \<noteq> 0 then ret ''-1'' else make_space sys p name n ((sid, hid), hcn, ssn))))"
  by (simp add: SpaceCreate_def Let_def made_space_def make_space_def cong: if_cong)

lemma wp_SpaceCreate_branches:
  assumes laws: "json_law sys" "couchbase_law sys" and wf: "wf_StorageResource st"
    and path: "create_path sys n info ((sid, hid), hcn, ssn)"
    and st: "\<not> (sid = [] \<and> hid = []) \<Longrightarrow>
      cb_docs sys w (manager_bucket sys, sid) = Some (serialize sys ser_StorageResource st)"
  shows "wp (SpaceCreate sys name owner members n info grp) (\<lambda>r w'.
    let d = cb_docs sys w; d' = cb_docs sys w'; down = (\<not> couchbase_up sys);
        total = i64 (st_assign_capacity st + n);
        taken = d((manager_bucket sys, sid) \<mapsto>
          serialize sys ser_StorageResource (st\<lparr>st_assign_capacity := total\<rparr>)) in
    if sid = [] \<and> hid = [] then r = Val ''-3'' \<and> d' = d
    else if total > st_total_capacity st then (r = Val ''-1'' \<or> down \<and> r = Crash Null_Deref) \<and> d' = d
    else down \<and> r \<in> {Val ''-1'', Crash Null_Deref} \<and> d' \<in> {d, taken} \<or>
      mkdir_may sys (\<lambda>rc. rc \<noteq> 0) \<and> r = Val ''-2'' \<and> d' = taken \<or>
      mkdir_may sys (\<lambda>rc. rc = 0) \<and>
        (if name = [] \<or> n = 0 then r = Val ''-5'' \<and> d' = taken
         else \<exists>u. new_id sys u \<and>
           (let written = taken((manager_bucket sys, space_prefix @ u) \<mapsto>
                serialize sys ser_Space (made_space sys u name n ((sid, hid), hcn, ssn))) in
            r = Val u \<and> d' = written \<or> down \<and> r = Val ''-2'' \<and> d' \<in> {taken, written}))) w"
    (is "wp _ ?Q w")
proof -
  let ?taken = "(cb_docs sys w)((manager_bucket sys, sid) \<mapsto>
      serialize sys ser_StorageResource (st\<lparr>st_assign_capacity := i64 (st_assign_capacity st + n)\<rparr>))"
  have found: "wp (SpaceSizeAdd sys sid n) (\<lambda>r w'.
      if i64 (st_assign_capacity st + n) > st_total_capacity st
      then (r = Crash Null_Deref \<and> \<not> couchbase_up sys \<or> (\<exists>e. r = Val e \<and> e \<noteq> 0)) \<and> cb_docs sys w' = cb_docs sys w
      else r = Val 0 \<and> cb_docs sys w' = ?taken \<or> \<not> couchbase_up sys \<and> (r = Crash Null_Deref \<or> r = Val EAGAIN) \<and>
        cb_docs sys w' \<in> {cb_docs sys w, ?taken}) w'"
    if "\<not> (sid = [] \<and> hid = [])" "cb_docs sys w' = cb_docs sys w" for w'
    using st [OF that(1)] that(2) add_step_ser [OF laws(1) wf]
    by (intro wp_SpaceSizeAdd [OF laws(2)]) (auto split: if_splits)
  have run: "wp (bnd (GetSpaceCreatePath sys n (sp_hostCenterName tmpm) (sp_storageSrcName tmpm)) f) Q w'"
    if "tmpm = load sys des_Space info (new_Space sys)" "cb_docs sys w' = cb_docs sys w"
      "\<And>w''. cb_docs sys w'' = cb_docs sys w \<Longrightarrow> wp (f ((sid, hid), hcn, ssn)) Q w''" for tmpm f Q w'
    using path that by (auto simp: create_path_def Let_def elim!: allE [of _ w'] wp_mono)
  have made: "wp (make_space sys p name n ((sid, hid), hcn, ssn)) ?Q w'"
    if "\<not> (sid = [] \<and> hid = [])" "\<not> i64 (st_assign_capacity st + n) > st_total_capacity st" "cb_docs sys w' = ?taken"
      "p = None \<and> \<not> couchbase_up sys \<or> p = Some (Datastore (manager_bucket sys) True)" for w' p
    unfolding Let_def if_not_P [OF that(1)] if_not_P [OF that(2)]
  proof (rule wp_make_space [OF laws(2) that(4)], goal_cases)
    case (4 w' u)
    then show ?case unfolding that(3) if_not_P [OF 4(2)] by blast
  next
    case (5 w' u)
    then show ?case unfolding that(3) if_not_P [OF 5(2)] by blast
  qed (use that(3) in auto)
  have rest: "wp (bnd (SpaceSizeAdd sys sid n) (\<lambda>rc. if rc \<noteq> 0 then ret ''-1''
      else make_space sys p name n ((sid, hid), hcn, ssn))) ?Q w'"
    if "\<not> (sid = [] \<and> hid = [])" "cb_docs sys w' = cb_docs sys w"
      "p = None \<and> \<not> couchbase_up sys \<or> p = Some (Datastore (manager_bucket sys) True)" for w' p
    unfolding wp_bnd [of "SpaceSizeAdd _ _ _"]
  proof (rule wp_mono [OF found [OF that(1,2)]], goal_cases)
    case (1 r w'')
    show ?case
    proof (cases "\<not> i64 (st_assign_capacity st + n) > st_total_capacity st \<and> r = Val 0 \<and> cb_docs sys w'' = ?taken")
      case True
      with made [OF that(1) _ _ that(3), of w''] show ?thesis by simp
    qed (use 1 that(1) in \<open>auto simp: Let_def split: if_splits\<close>)
  qed
  have all: "wp (let sp = load sys des_Space info (new_Space sys) in
      bnd (GetSpaceCreatePath sys n (sp_hostCenterName sp) (sp_storageSrcName sp)) (\<lambda>((sid, hid), hcn, ssn).
      if sid = [] \<and> hid = [] then ret ''-3''
      else bnd (SpaceSizeAdd sys sid n) (\<lambda>rc.
      if rc \<noteq> 0 then ret ''-1'' else make_space sys p name n ((sid, hid), hcn, ssn)))) ?Q w'"
    if "cb_docs sys w' = cb_docs sys w"
      "p = None \<and> \<not> couchbase_up sys \<or> p = Some (Datastore (manager_bucket sys) True)" for w' p
    unfolding Let_def [of "load _ _ _ _"]
  proof (rule run [OF refl that(1)], goal_cases)
    case (1 w'')
    show ?case
    proof (cases "sid = [] \<and> hid = []")
      case False
      show ?thesis using rest [OF False 1 that(2)] unfolding prod.case if_not_P [OF False] .
    qed (use 1 in simp)
  qed
  show ?thesis
    unfolding SpaceCreate_make_space wp_bnd [of "open_ds _ _"]
    by (rule wp_open_ds [OF laws(2)]; unfold outcome.case; rule all) simp_all
qed

text \<open>The same when nothing fails.\<close>

lemma up_SpaceCreate:
  assumes laws: "json_law sys" "couchbase_law sys" "couchbase_up sys" and wf: "wf_StorageResource st"
    and mkdir: "\<And>d w. fst (os_mkdir sys d w) = 0"
    and path: "create_path sys n info ((sid, hid), hcn, ssn)" and "sid \<noteq> []"
    and st: "cb_docs sys w (manager_bucket sys, sid) = Some (serialize sys ser_StorageResource st)"
  shows "wp (SpaceCreate sys name owner members n info grp) (\<lambda>r w'.
    let total = i64 (st_assign_capacity st + n);
        counted = (cb_docs sys w)((manager_bucket sys, sid) \<mapsto>
          serialize sys ser_StorageResource (st\<lparr>st_assign_capacity := total\<rparr>)) in
    if total > st_total_capacity st then r = Val ''-1'' \<and> cb_docs sys w' = cb_docs sys w
    else if name = [] \<or> n = 0 then r = Val ''-5'' \<and> cb_docs sys w' = counted
    else \<exists>u. new_id sys u \<and> r = Val u \<and> cb_docs sys w' = counted((manager_bucket sys, space_prefix @ u) \<mapsto>
      serialize sys ser_Space (made_space sys u name n ((sid, hid), hcn, ssn)))) w"
proof -
  have "\<not> mkdir_may sys (\<lambda>rc. rc \<noteq> 0)" using mkdir by (simp add: mkdir_may_def)
  with assms(3,7) show ?thesis
    by (intro wp_mono [OF wp_SpaceCreate_branches [OF laws(1,2) wf path st]]) (auto simp: Let_def split: if_splits)
qed


lemma sample_create_path: "create_path mem_stor n info ((''STOR-s1'', ''1''), ''Beijing'', ''lustre'')"
  unfolding create_path_def Let_def by (auto intro!: wp_mono [OF sample_path])


end
