(* ===== verification/MD5.thy ===== *)
theory MD5
  imports Prelude "HOL-Library.Word"
begin

unbundle bit_operations_syntax

text \<open>
  \<open>manager/usermodel/MD5.cc\<close>: the digest that makes the login token. The code computes with
  \<open>UINT4\<close>, meant as a 32 bit type but declared as \<open>unsigned long int\<close>, which has 64 bits on the
  systems the program runs on. The definitions are generic in the width; \<open>md5\<close> of the program is the
  instance at 64 bits, and the instance at 32 bits is the algorithm of RFC 1321.
\<close>

record 'u md5_ctx =
  md_i0 :: 'u
  md_i1 :: 'u
  md_buf :: "'u \<times> 'u \<times> 'u \<times> 'u"
  md_in :: "8 word list"
  md_digest :: "8 word list"

definition PADDING :: "8 word list" where
  "PADDING = 0x80 # replicate 63 0"

section \<open>The steps\<close>

definition md_F :: "'a::len word \<Rightarrow> 'a word \<Rightarrow> 'a word \<Rightarrow> 'a word" where
  "md_F x y z = (x AND y) OR (NOT x AND z)"

definition md_G :: "'a::len word \<Rightarrow> 'a word \<Rightarrow> 'a word \<Rightarrow> 'a word" where
  "md_G x y z = (x AND z) OR (y AND NOT z)"

definition md_H :: "'a::len word \<Rightarrow> 'a word \<Rightarrow> 'a word \<Rightarrow> 'a word" where
  "md_H x y z = x XOR y XOR z"

definition md_I :: "'a::len word \<Rightarrow> 'a word \<Rightarrow> 'a word \<Rightarrow> 'a word" where
  "md_I x y z = y XOR (x OR NOT z)"

definition ROTATE_LEFT :: "'a::len word \<Rightarrow> nat \<Rightarrow> 'a word" where
  "ROTATE_LEFT x n = push_bit n x OR drop_bit (32 - n) x"

text \<open>
  One use of a macro \<open>FF(a, b, c, d, x, s, ac)\<close> updates \<open>a\<close>; the next use has the variables rotated
  by one place, so a step takes \<open>(a, b, c, d)\<close> to \<open>(d, a', b, c)\<close>.
\<close>

definition md_step ::
  "('a::len word \<Rightarrow> 'a word \<Rightarrow> 'a word \<Rightarrow> 'a word) \<Rightarrow> 'a word list \<Rightarrow>
   'a word \<times> 'a word \<times> 'a word \<times> 'a word \<Rightarrow> nat \<times> nat \<times> int \<Rightarrow>
   'a word \<times> 'a word \<times> 'a word \<times> 'a word" where
  "md_step f m st e = (case st of (a, b, c, d) \<Rightarrow> (case e of (k, s, ac) \<Rightarrow>
     (d, ROTATE_LEFT (a + (f b c d + m ! k + of_int ac)) s + b, b, c)))"

text \<open>Of every step: the word of the block, the shift, the constant.\<close>

definition round1 :: "(nat \<times> nat \<times> int) list" where
  "round1 =
     [(0, 7, 3614090360), (1, 12, 3905402710), (2, 17, 606105819), (3, 22, 3250441966),
      (4, 7, 4118548399), (5, 12, 1200080426), (6, 17, 2821735955), (7, 22, 4249261313),
      (8, 7, 1770035416), (9, 12, 2336552879), (10, 17, 4294925233), (11, 22, 2304563134),
      (12, 7, 1804603682), (13, 12, 4254626195), (14, 17, 2792965006), (15, 22, 1236535329)]"

definition round2 :: "(nat \<times> nat \<times> int) list" where
  "round2 =
     [(1, 5, 4129170786), (6, 9, 3225465664), (11, 14, 643717713), (0, 20, 3921069994),
      (5, 5, 3593408605), (10, 9, 38016083), (15, 14, 3634488961), (4, 20, 3889429448),
      (9, 5, 568446438), (14, 9, 3275163606), (3, 14, 4107603335), (8, 20, 1163531501),
      (13, 5, 2850285829), (2, 9, 4243563512), (7, 14, 1735328473), (12, 20, 2368359562)]"

definition round3 :: "(nat \<times> nat \<times> int) list" where
  "round3 =
     [(5, 4, 4294588738), (8, 11, 2272392833), (11, 16, 1839030562), (14, 23, 4259657740),
      (1, 4, 2763975236), (4, 11, 1272893353), (7, 16, 4139469664), (10, 23, 3200236656),
      (13, 4, 681279174), (0, 11, 3936430074), (3, 16, 3572445317), (6, 23, 76029189),
      (9, 4, 3654602809), (12, 11, 3873151461), (15, 16, 530742520), (2, 23, 3299628645)]"

definition round4 :: "(nat \<times> nat \<times> int) list" where
  "round4 =
     [(0, 6, 4096336452), (7, 10, 1126891415), (14, 15, 2878612391), (5, 21, 4237533241),
      (12, 6, 1700485571), (3, 10, 2399980690), (10, 15, 4293915773), (1, 21, 2240044497),
      (8, 6, 1873313359), (15, 10, 4264355552), (6, 15, 2734768916), (13, 21, 1309151649),
      (4, 6, 4149444226), (11, 10, 3174756917), (2, 15, 718787259), (9, 21, 3951481745)]"

definition TransformMD5 ::
  "'a::len word \<times> 'a word \<times> 'a word \<times> 'a word \<Rightarrow> 'a word list \<Rightarrow>
   'a word \<times> 'a word \<times> 'a word \<times> 'a word" where
  "TransformMD5 buf m =
    (let st = foldl (md_step md_F m) buf round1;
         st = foldl (md_step md_G m) st round2;
         st = foldl (md_step md_H m) st round3;
         st = foldl (md_step md_I m) st round4 in
     case (buf, st) of ((b0, b1, b2, b3), (a, b, c, d)) \<Rightarrow> (b0 + a, b1 + b, b2 + c, b3 + d))"

section \<open>The context\<close>

definition MD5Init :: "'a::len word md5_ctx \<Rightarrow> 'a word md5_ctx" where
  "MD5Init ctx = ctx\<lparr>md_i0 := 0, md_i1 := 0,
     md_buf := (0x67452301, 0xefcdab89, 0x98badcfe, 0x10325476)\<rparr>"

text \<open>Four bytes, the lowest first.\<close>

definition le_word :: "8 word list \<Rightarrow> nat \<Rightarrow> 'a::len word" where
  "le_word bs ii = push_bit 24 (ucast (bs ! (ii + 3))) OR push_bit 16 (ucast (bs ! (ii + 2)))
     OR push_bit 8 (ucast (bs ! (ii + 1))) OR ucast (bs ! ii)"

definition block_words :: "nat \<Rightarrow> 8 word list \<Rightarrow> 'a::len word list" where
  "block_words n bs = map (\<lambda>i. le_word bs (4 * i)) [0..<n]"

definition mdi_of :: "'a::len word \<Rightarrow> nat" where
  "mdi_of i0 = unat (drop_bit 3 i0 AND 0x3F)"

text \<open>The body of the loop: the state is the fill level, the input buffer and the scratch buffer.\<close>

definition md5_byte ::
  "nat \<times> 8 word list \<times> ('a::len word \<times> 'a word \<times> 'a word \<times> 'a word) \<Rightarrow> 8 word \<Rightarrow>
   nat \<times> 8 word list \<times> ('a word \<times> 'a word \<times> 'a word \<times> 'a word)" where
  "md5_byte st c = (case st of (mdi, inb, buf) \<Rightarrow>
    (let inb = inb[mdi := c]; mdi = mdi + 1 in
     if mdi = 64 then (0, inb, TransformMD5 buf (block_words 16 inb)) else (mdi, inb, buf)))"

definition MD5Update :: "'a::len word md5_ctx \<Rightarrow> 8 word list \<Rightarrow> 'a word md5_ctx" where
  "MD5Update ctx inBuf =
    (let inLen = take_bit 32 (int (length inBuf));
         mdi = mdi_of (md_i0 ctx);
         bits = push_bit 3 (of_int inLen);
         i1 = (if md_i0 ctx + bits < md_i0 ctx then md_i1 ctx + 1 else md_i1 ctx) in
     case foldl md5_byte (mdi, md_in ctx, md_buf ctx) (take (nat inLen) inBuf) of (_, inb, buf) \<Rightarrow>
       ctx\<lparr>md_i0 := md_i0 ctx + bits, md_i1 := i1 + drop_bit 29 (of_int inLen),
           md_in := inb, md_buf := buf\<rparr>)"

definition word_bytes :: "'a::len word \<Rightarrow> 8 word list" where
  "word_bytes x = [ucast (x AND 0xFF), ucast (drop_bit 8 x AND 0xFF),
     ucast (drop_bit 16 x AND 0xFF), ucast (drop_bit 24 x AND 0xFF)]"

definition MD5Final :: "'a::len word md5_ctx \<Rightarrow> 'a word md5_ctx" where
  "MD5Final ctx =
    (let in14 = md_i0 ctx; in15 = md_i1 ctx;
         mdi = mdi_of (md_i0 ctx);
         padLen = (if mdi < 56 then 56 - mdi else 120 - mdi);
         ctx = MD5Update ctx (take padLen PADDING);
         buf = TransformMD5 (md_buf ctx) (block_words 14 (md_in ctx) @ [in14, in15]) in
     case buf of (b0, b1, b2, b3) \<Rightarrow>
       ctx\<lparr>md_buf := buf,
           md_digest := word_bytes b0 @ word_bytes b1 @ word_bytes b2 @ word_bytes b3\<rparr>)"

section \<open>The digest as text\<close>

definition hex_char :: "nat \<Rightarrow> char" where
  "hex_char n = (if n < 10 then char_of (48 + n) else char_of (87 + n))"

definition hex2 :: "8 word \<Rightarrow> string" where
  "hex2 b = [hex_char (unat b div 16), hex_char (unat b mod 16)]"

definition string_bytes :: "string \<Rightarrow> 8 word list" where
  "string_bytes s = map (\<lambda>c. of_nat (of_char c)) s"

text \<open>\<open>ctx\<close> is the context on the stack, whose fields are indeterminate before \<open>MD5Init\<close>.\<close>

definition md5_with :: "'a::len word md5_ctx \<Rightarrow> string \<Rightarrow> string" where
  "md5_with ctx s = concat (map hex2 (md_digest (MD5Final (MD5Update (MD5Init ctx) (string_bytes s)))))"

definition blank_ctx :: "'a::len word md5_ctx" where
  "blank_ctx = \<lparr>md_i0 = 0, md_i1 = 0, md_buf = (0, 0, 0, 0), md_in = replicate 64 0, md_digest = replicate 16 0\<rparr>"

definition md5 :: "string \<Rightarrow> string" where
  "md5 s = md5_with (blank_ctx :: 64 word md5_ctx) s"

end
