(* ===== verification/UserModel.thy ===== *)
theory UserModel
  imports Datastore_Rules SpaceServer MD5
begin

text \<open>
  \<open>manager/usermodel/UserModelServer.cc\<close>: accounts, login and administration. An account is a
  document \<open>USER-<uuid>\<close>; the document \<open>.USER_UUID_MAP\<close> maps account names to identifiers, the
  document \<open>adminwhitelist\<close> lists the identifiers of administrators, a login stores its token as a
  document of its own, and a request waiting for an administrator is a document \<open>usign-<uuid>\<close>. The
  server keeps no state beside its configuration.
\<close>

definition user_prefix :: string where "user_prefix = ''USER-''"
definition sc_user_prefix :: string where "sc_user_prefix = ''SCUSER-''"
definition adminlist :: string where "adminlist = ''adminwhitelist''"
definition user_map_key :: string where "user_map_key = ''.USER_UUID_MAP''"

section \<open>Administrators\<close>

definition validadminidentity :: "'w sys \<Rightarrow> string \<Rightarrow> ('w, bool) prog" where
  "validadminidentity sys gvdsID =
    bnd (open_ds sys (manager_bucket sys)) (\<lambda>f0_dbPtr.
    bnd (ds_get sys f0_dbPtr adminlist) (\<lambda>(admin_vp, admin_err).
    if admin_err \<noteq> 0 then ret False
    else bnd (deref admin_vp) (\<lambda>v.
      let tmp_list = load sys des_AdminList v \<lparr>adl_namelist = []\<rparr> in
      ret (list_ex (\<lambda>x. gvdsID = x) (adl_namelist tmp_list)))))"

section \<open>Names and identifiers\<close>

text \<open>The vector that collects the identifiers keeps those found before a failure.\<close>

primrec member_loop ::
  "'w sys \<Rightarrow> datastore_ptr \<Rightarrow> string list \<Rightarrow> string list \<Rightarrow> ('w, bool \<times> string list) prog" where
  "member_loop sys p memberID [] = ret (True, memberID)"
| "member_loop sys p memberID (n # ns) =
    bnd (ds_get_sub sys p user_map_key n) (\<lambda>(pvalue, error_0).
    if error_0 \<noteq> 0 then ret (False, memberID)
    else bnd (deref pvalue) (\<lambda>v.
      member_loop sys p (memberID @ [json_decode sys dec_str v []]) ns))"

definition getMemberID :: "'w sys \<Rightarrow> string list \<Rightarrow> ('w, bool \<times> string list) prog" where
  "getMemberID sys memberName =
     bnd (open_ds sys (manager_bucket sys)) (\<lambda>f0_dbPtr. member_loop sys f0_dbPtr [] memberName)"

definition getMemberIDRest :: "'w sys \<Rightarrow> string \<Rightarrow> ('w, response) prog" where
  "getMemberIDRest sys info =
     bnd (getMemberID sys (json_decode sys (dec_vec dec_str []) info [])) (\<lambda>(flag, memberID).
     ret (http_ok (if flag then json_encode sys (enc_vec enc_str) memberID else ''fail'')))"

section \<open>Registration\<close>

text \<open>
  The name is entered into the map of names; when that document does not exist yet (error 13) it is
  made and the entry is written again. The last three steps differ between users and administrators.
\<close>

definition enter_name :: "'w sys \<Rightarrow> datastore_ptr \<Rightarrow> string \<Rightarrow> string \<Rightarrow> ('w, int) prog" where
  "enter_name sys p name uuid =
    bnd (ds_set_sub sys p user_map_key name (json_encode sys enc_str uuid)) (\<lambda>f1_flag.
    if f1_flag = 13 then
      bnd (ds_set sys p user_map_key ''{}'') (\<lambda>_.
      ds_set_sub sys p user_map_key name (json_encode sys enc_str uuid))
    else ret f1_flag)"

definition UserRegister :: "'w sys \<Rightarrow> account \<Rightarrow> ('w, string) prog" where
  "UserRegister sys person =
    bnd (open_ds sys (manager_bucket sys)) (\<lambda>f0_dbPtr.
    bnd (ds_get_sub sys f0_dbPtr user_map_key (acc_accountName person)) (\<lambda>(pvalue, error_0).
    if error_0 = 0 then ret ''Account name already exists!''
    else
      bnd (ext (uuid_gen sys)) (\<lambda>tmp_uuid.
      let person = person\<lparr>acc_accountID := tmp_uuid\<rparr> in
      bnd (enter_name sys f0_dbPtr (acc_accountName person) (acc_accountID person)) (\<lambda>f1_flag.
      if f1_flag \<noteq> 0 then ret ''Registration fail''
      else
        bnd (ds_set sys f0_dbPtr (user_prefix @ tmp_uuid) (serialize sys ser_Account person)) (\<lambda>flag.
        if flag \<noteq> 0 then ret ''Registration fail''
        else ret (''Dear:'' @ acc_accountName person @ '', registration success''))))))"

definition new_Account :: account where
  "new_Account = \<lparr>acc_accountName = [], acc_Password = [], acc_accountID = [], acc_accountEmail = [],
     acc_accountPhone = [], acc_accountAddress = [], acc_Department = []\<rparr>"

definition UserRegisterRest :: "'w sys \<Rightarrow> string \<Rightarrow> ('w, response) prog" where
  "UserRegisterRest sys info =
     bnd (UserRegister sys (load sys des_Account info new_Account)) (\<lambda>result. ret (http_ok result))"

definition AdminUserRegister :: "'w sys \<Rightarrow> account \<Rightarrow> ('w, string) prog" where
  "AdminUserRegister sys person =
    bnd (open_ds sys (manager_bucket sys)) (\<lambda>f0_dbPtr.
    bnd (ds_get_sub sys f0_dbPtr user_map_key (acc_accountName person)) (\<lambda>(pvalue, error_0).
    if error_0 = 0 then ret ''Account name already exists!''
    else
      bnd (ext (uuid_gen sys)) (\<lambda>tmp_uuid.
      let person = person\<lparr>acc_accountID := tmp_uuid\<rparr> in
      bnd (enter_name sys f0_dbPtr (acc_accountName person) (acc_accountID person)) (\<lambda>f1_flag.
      if f1_flag \<noteq> 0 then ret ''Registration fail''
      else
        bnd (ds_arr_insert_uniq sys f0_dbPtr adminlist ''namelist''
               (json_encode sys enc_str (acc_accountID person))) (\<lambda>admin_flag.
        if admin_flag \<noteq> 0 then ret ''Registration fail''
        else
          bnd (ds_set sys f0_dbPtr (user_prefix @ tmp_uuid) (serialize sys ser_Account person)) (\<lambda>flag.
          if flag \<noteq> 0 then ret ''Registration fail''
          else ret (''Dear:'' @ acc_accountName person @ '', registration success'')))))))"

definition AdminUserRegisterRest :: "'w sys \<Rightarrow> string \<Rightarrow> ('w, response) prog" where
  "AdminUserRegisterRest sys info =
     bnd (AdminUserRegister sys (load sys des_Account info new_Account)) (\<lambda>result. ret (http_ok result))"

definition bufferUserRegister :: "'w sys \<Rightarrow> string \<Rightarrow> ('w, int) prog" where
  "bufferUserRegister sys apply = file_apply sys ''usign-'' apply"

definition bufferUserRegisterRest :: "'w sys \<Rightarrow> string \<Rightarrow> ('w, response) prog" where
  "bufferUserRegisterRest sys info =
     bnd (bufferUserRegister sys info) (\<lambda>result. ret (http_ok (json_encode sys enc_int result)))"

section \<open>Login and logout\<close>

text \<open>
  The result, and what the reference parameters \<open>userID\<close> and \<open>identity\<close> hold afterwards (both are
  empty before).
\<close>

definition UserLogin ::
  "'w sys \<Rightarrow> string \<Rightarrow> string \<Rightarrow> string \<Rightarrow> string \<Rightarrow> ('w, bool \<times> string \<times> string) prog" where
  "UserLogin sys account pass userID identity =
    bnd (open_ds sys (manager_bucket sys)) (\<lambda>f0_dbPtr.
    bnd (ds_get_sub sys f0_dbPtr user_map_key account) (\<lambda>(pvalue, error_0).
    if error_0 \<noteq> 0 then ret (False, userID, identity)
    else bnd (deref pvalue) (\<lambda>v.
      let key = json_decode sys dec_str v [] in
      bnd (validadminidentity sys key) (\<lambda>admin.
      let identity = (if admin then ''1'' else ''0'') in
      bnd (ds_get sys f0_dbPtr (user_prefix @ key)) (\<lambda>(pvalue_2, error_2).
      if error_2 \<noteq> 0 then ret (False, userID, identity)
      else bnd (deref pvalue_2) (\<lambda>v2.
        let tmp = load sys des_Account v2 new_Account in
        if pass = acc_Password tmp then ret (True, key, identity)
        else ret (False, userID, identity)))))))"

text \<open>The response and the cookies it sets.\<close>

definition UserLoginRest :: "'w sys \<Rightarrow> string \<Rightarrow> ('w, response \<times> (string \<times> string) list) prog" where
  "UserLoginRest sys info =
    (let acc_pass = load sys des_AccountPass info \<lparr>aps_accountName = [], aps_Password = []\<rparr> in
     bnd (UserLogin sys (aps_accountName acc_pass) (aps_Password acc_pass) [] [])
       (\<lambda>(is_success, userID, identity).
     if is_success then
       let mtoken = md5 (aps_accountName acc_pass @ aps_Password acc_pass) in
       bnd (ds_init_direct sys (manager_bucket sys)) (\<lambda>f0_dbPtr.
       bnd (ds_set sys f0_dbPtr mtoken ''1'') (\<lambda>login_flag.
       if login_flag \<noteq> 0 then ret (http_ok ''-1'', [])
       else ret (http_ok (identity @ ''_'' @ userID), [(''token'', mtoken)])))
     else ret (http_ok ''-1'', [])))"

text \<open>\<open>auth_token\<close> takes the last cookie's value; it is called nowhere.\<close>

definition auth_token :: "'w sys \<Rightarrow> (string \<times> string) list \<Rightarrow> ('w, bool) prog" where
  "auth_token sys cookies =
    (let mtoken = (if cookies = [] then [] else snd (last cookies)) in
     bnd (ds_init_direct sys ''account_info'') (\<lambda>f0_dbPtr.
     bnd (ds_get sys f0_dbPtr mtoken) (\<lambda>(vp, err). ret (err = 0))))"

text \<open>Both branches report success.\<close>

definition exitUserAccount :: "'w sys \<Rightarrow> string \<Rightarrow> ('w, string \<times> bool) prog" where
  "exitUserAccount sys mtoken =
    bnd (open_ds sys (manager_bucket sys)) (\<lambda>f0_dbPtr.
    bnd (ds_remove sys f0_dbPtr mtoken) (\<lambda>flag.
    if flag = 0 then ret (''Eixt success'', True) else ret (''-1'', True)))"

definition exitUserAccountRest :: "'w sys \<Rightarrow> (string \<times> string) list \<Rightarrow> ('w, response) prog" where
  "exitUserAccountRest sys cookies =
    (let mtoken = (if cookies = [] then [] else snd (last cookies)) in
     bnd (exitUserAccount sys mtoken) (\<lambda>(data, is_exit_success).
     ret (http_ok (if is_exit_success then ''0'' else ''-1''))))"

section \<open>Account data\<close>

definition getUserinfo :: "'w sys \<Rightarrow> string \<Rightarrow> ('w, string \<times> bool) prog" where
  "getUserinfo sys uuid =
    bnd (open_ds sys (manager_bucket sys)) (\<lambda>f0_dbPtr.
    bnd (ds_get sys f0_dbPtr (user_prefix @ uuid)) (\<lambda>(pvalue, error).
    if error \<noteq> 0 then ret (''SearchFail'', False)
    else bnd (deref pvalue) (\<lambda>v. ret (v, True))))"

definition getUserinfoRest :: "'w sys \<Rightarrow> string \<Rightarrow> ('w, response) prog" where
  "getUserinfoRest sys uuid =
     bnd (getUserinfo sys uuid) (\<lambda>(data, is_get_success).
     ret (http_ok (if is_get_success then data else ''-1'')))"

definition modifyUserinfo :: "'w sys \<Rightarrow> account \<Rightarrow> ('w, string) prog" where
  "modifyUserinfo sys person =
    bnd (ds_init_direct sys (manager_bucket sys)) (\<lambda>f0_dbPtr.
    bnd (ds_set sys f0_dbPtr (user_prefix @ acc_accountID person) (serialize sys ser_Account person))
      (\<lambda>flag.
    if flag \<noteq> 0 then ret ''Modify fail'' else ret ''Modify success''))"

definition modifyUserinfoRest :: "'w sys \<Rightarrow> string \<Rightarrow> ('w, response) prog" where
  "modifyUserinfoRest sys info =
     bnd (modifyUserinfo sys (load sys des_Account info new_Account)) (\<lambda>result. ret (http_ok result))"

section \<open>Cancelling an account\<close>

text \<open>
  The flag \<open>is_cancel_success\<close> is passed by value, so the caller only sees the text. The third
  removal is of a document named by the account's name, not of the entry in the map of names.
\<close>

definition zone_owner_query :: "'w sys \<Rightarrow> string \<Rightarrow> string" where
  "zone_owner_query sys ownerID = snprintf_n 256
     (''select * from '' @ bq @ cstr (manager_bucket sys) @ bq @ '' where owner = '' @ dq @ cstr ownerID @ dq)"

definition cancellationUserAccount :: "'w sys \<Rightarrow> string \<Rightarrow> ('w, string) prog" where
  "cancellationUserAccount sys uuid =
    bnd (open_ds sys (manager_bucket sys)) (\<lambda>f0_dbPtr.
    bnd (ds_get sys f0_dbPtr (user_prefix @ uuid)) (\<lambda>(pvalue, error).
    if error \<noteq> 0 then ret ''-1''
    else bnd (deref pvalue) (\<lambda>v.
      let gvdsperson = load sys des_Account v new_Account in
      bnd (open_ds sys (manager_bucket sys)) (\<lambda>zonePtr.
      bnd (ds_n1ql sys zonePtr (zone_owner_query sys uuid)) (\<lambda>(vp, err).
      if vp \<noteq> [] then ret ''-2''
      else
        bnd (ds_init_direct sys (manager_bucket sys)) (\<lambda>f1_dbPtr.
        bnd (ds_remove sys f1_dbPtr (sc_user_prefix @ uuid)) (\<lambda>flag.
        if flag \<noteq> 0 then ret ''-1''
        else
          bnd (ds_remove sys f0_dbPtr (acc_accountName gvdsperson)) (\<lambda>acc_map_id_flag.
          if acc_map_id_flag \<noteq> 0 then ret ''-1''
          else
            bnd (ds_remove sys f0_dbPtr (user_prefix @ uuid)) (\<lambda>acc_info_flag.
            if acc_info_flag \<noteq> 0 then ret ''-1'' else ret ''User cancellation success.'')))))))))"

definition cancellationUserAccountRest :: "'w sys \<Rightarrow> string \<Rightarrow> ('w, response) prog" where
  "cancellationUserAccountRest sys uuid =
     bnd (cancellationUserAccount sys uuid) (\<lambda>data. ret (http_ok data))"

section \<open>Requests waiting for an administrator\<close>

definition apply_list_query :: "'w sys \<Rightarrow> string" where
  "apply_list_query sys =
     ''select id,data from '' @ manager_bucket sys @ '' where meta().id like '' @ dq @ ''usign-%'' @ dq
     @ '' or meta().id like '' @ dq @ ''zregi-%'' @ dq @ '' or meta().id like '' @ dq @ ''spadd-%'' @ dq
     @ '' or meta().id like '' @ dq @ ''spsiz-%'' @ dq @ '' limit 5''"

definition viewbufferList :: "'w sys \<Rightarrow> string \<Rightarrow> ('w, string) prog" where
  "viewbufferList sys gvdsID =
    bnd (validadminidentity sys gvdsID) (\<lambda>admin.
    if \<not> admin then ret ''33''
    else
      bnd (open_ds sys (manager_bucket sys)) (\<lambda>applyPtr.
      bnd (ds_n1ql sys applyPtr (apply_list_query sys)) (\<lambda>(vp, err).
      if err \<noteq> 0 then ret ''1'' else ret (json_encode sys (enc_vec enc_str) vp))))"

definition viewbufferListRest :: "'w sys \<Rightarrow> string \<Rightarrow> ('w, response) prog" where
  "viewbufferListRest sys info = bnd (viewbufferList sys info) (\<lambda>data. ret (http_ok data))"

text \<open>The body of the request is the key of the document to remove, without a check of any kind.\<close>

definition removeoneofApplyInfoRest :: "'w sys \<Rightarrow> string \<Rightarrow> ('w, response) prog" where
  "removeoneofApplyInfoRest sys info =
    bnd (open_ds sys (manager_bucket sys)) (\<lambda>f5_dbPtr.
    bnd (ds_remove sys f5_dbPtr info) (\<lambda>flag.
    ret (http_ok (if flag = 0 then ''0'' else ''1''))))"

section \<open>Account mappings and pools\<close>

definition adminCreateAccountMapping :: "'w sys \<Rightarrow> string \<Rightarrow> ('w, response) prog" where
  "adminCreateAccountMapping sys info = ret (http_ok ''0'')"

definition adminDelAccountMapping :: "'w sys \<Rightarrow> string \<Rightarrow> ('w, response) prog" where
  "adminDelAccountMapping sys info = ret (http_ok ''0'')"

definition adminSearchAccountMapping :: "'w sys \<Rightarrow> string \<Rightarrow> ('w, response) prog" where
  "adminSearchAccountMapping sys info =
    (let new_accountmap = load sys des_AdminAccountMap info
           \<lparr>aam_adgvdsID = [], aam_gvdsID = [], aam_hostCenterName = []\<rparr> in
     bnd (validadminidentity sys (aam_adgvdsID new_accountmap)) (\<lambda>admin.
     if \<not> admin then ret (http_ok ''33'')
     else
       bnd (ds_init_direct sys (manager_bucket sys)) (\<lambda>f1_dbPtr.
       bnd (ds_get sys f1_dbPtr (sc_user_prefix @ aam_gvdsID new_accountmap)) (\<lambda>(pvalue_scuser, error).
       if error \<noteq> 0 then ret (http_ok ''1'')
       else bnd (deref pvalue_scuser) (\<lambda>v. ret (http_ok v))))))"

text \<open>One entry per centre: the name, and how many accounts of its pool are used and unused.\<close>

definition count_pool :: "account_sc_pool \<Rightarrow> string \<Rightarrow> info_account_pool \<Rightarrow> info_account_pool" where
  "count_pool center_pool name acpool = acpool\<lparr>
     iap_hostCenterName := iap_hostCenterName acpool @ [name],
     iap_usecount := smap_set name (int (length (pool_use_account center_pool))) (iap_usecount acpool),
     iap_unusecount := smap_set name (int (length (pool_unuse_account center_pool))) (iap_unusecount acpool)\<rparr>"

primrec pool_loop ::
  "'w sys \<Rightarrow> datastore_ptr \<Rightarrow> center_info \<Rightarrow> info_account_pool \<Rightarrow> bool \<Rightarrow> string list \<Rightarrow> ('w, string) prog" where
  "pool_loop sys p mycenter acpool tmp [] =
     ret (if tmp then serialize sys ser_infoAccountPool acpool else ''1'')"
| "pool_loop sys p mycenter acpool tmp (cid # cids) =
    (let name = smap_at [] (ci_centerName mycenter) cid in
     bnd (ds_get sys p name) (\<lambda>(pv, pv_err).
     if pv_err \<noteq> 0 then ret ''1''
     else bnd (deref pv) (\<lambda>v.
       let center_pool = load sys des_AccountSCPool v \<lparr>pool_unuse_account = [], pool_use_account = []\<rparr> in
       pool_loop sys p mycenter (count_pool center_pool name acpool) True cids)))"

definition adminSearchAccountPool :: "'w sys \<Rightarrow> string \<Rightarrow> ('w, string) prog" where
  "adminSearchAccountPool sys adgvdsID =
    bnd (validadminidentity sys adgvdsID) (\<lambda>admin.
    if \<not> admin then ret ''33''
    else
      bnd (ds_init_direct sys (manager_bucket sys)) (\<lambda>f0_dbPtr.
      bnd (ds_get sys f0_dbPtr ''center_information'') (\<lambda>(pvalue, error_0).
      if error_0 \<noteq> 0 then ret ''1''
      else bnd (deref pvalue) (\<lambda>v.
        let mycenter = load sys des_CenterInfo v new_CenterInfo in
        bnd (ds_init_direct sys (manager_bucket sys)) (\<lambda>f1_dbPtr.
        pool_loop sys f1_dbPtr mycenter
          \<lparr>iap_hostCenterName = [], iap_usecount = [], iap_unusecount = []\<rparr> False
          (ci_centerID mycenter))))))"

definition adminSearchAccountPoolRest :: "'w sys \<Rightarrow> string \<Rightarrow> ('w, response) prog" where
  "adminSearchAccountPoolRest sys info =
     bnd (adminSearchAccountPool sys info) (\<lambda>data. ret (http_ok data))"

section \<open>Routes\<close>

text \<open>The routes that take a body; the others take a path parameter or the cookies.\<close>

definition UserModelServer_router :: "(string \<times> ('w sys \<Rightarrow> string \<Rightarrow> ('w, response) prog)) list" where
  "UserModelServer_router =
     [(''/users/modify'', modifyUserinfoRest),
      (''/users/search/:name'', getUserinfoRest),
      (''/users/registration'', UserRegisterRest),
      (''/users/cancel/:id'', cancellationUserAccountRest),
      (''/users/memberID'', getMemberIDRest),
      (''/users/adminregistration'', AdminUserRegisterRest),
      (''/users/bufferuserregister'', bufferUserRegisterRest),
      (''/users/listapply'', viewbufferListRest),
      (''/users/removeapply'', removeoneofApplyInfoRest),
      (''/users/adcam'', adminCreateAccountMapping),
      (''/users/aduam'', adminDelAccountMapping),
      (''/users/adsearcham'', adminSearchAccountMapping),
      (''/users/adsearchpool'', adminSearchAccountPoolRest)]"

end
