(* ===== verification/ZoneServer.thy ===== *)
theory ZoneServer
  imports SpaceServer UserModel
begin

text \<open>
  \<open>manager/zone/ZoneServer.cc\<close>: the server of zones. A zone is a document \<open>ZONE-<id>\<close> with an owner,
  members and the spaces mapped into it. Requests change it on behalf of its owner or of an
  administrator; the spaces themselves are made and deleted by the space server.
\<close>

definition zone_prefix :: string where "zone_prefix = ''ZONE-''"

section \<open>\<open>isSubset\<close>\<close>

text \<open>Both vectors are sorted; one scan then consumes an element of \<open>v1\<close> for each element of \<open>v2\<close>.\<close>

fun subset_scan :: "string list \<Rightarrow> string list \<Rightarrow> bool" where
  "subset_scan v1 [] = True"
| "subset_scan [] (y # ys) = False"
| "subset_scan (x # xs) (y # ys) =
     (if x < y then subset_scan xs (y # ys)
      else if x = y then subset_scan xs ys
      else False)"

definition isSubset :: "string list \<Rightarrow> string list \<Rightarrow> bool" where
  "isSubset v1 v2 = (if length v1 < length v2 then False else subset_scan (sort v1) (sort v2))"

section \<open>Reading and writing zones\<close>

definition lift :: "'a outcome \<Rightarrow> ('w, 'a) prog" where
  "lift r = (case r of Val a \<Rightarrow> ret a | Crash c \<Rightarrow> crash c)"

definition load_zone :: "'w sys \<Rightarrow> string \<Rightarrow> zone \<Rightarrow> ('w, zone) prog" where
  "load_zone sys v z = lift (deserialize sys des_Zone v z)"

definition owner_or_admin :: "'w sys \<Rightarrow> zone \<Rightarrow> string \<Rightarrow> ('w, bool) prog" where
  "owner_or_admin sys z ownerID =
     (if z_ownerID z = ownerID then ret True else validadminidentity sys ownerID)"

definition zone_name_query :: "'w sys \<Rightarrow> string \<Rightarrow> string \<Rightarrow> string" where
  "zone_name_query sys ownerID zoneName = snprintf_n 256
     (''select UUID, name, owner, members, spaces from '' @ bq @ cstr (manager_bucket sys) @ bq
      @ '' where owner = '' @ dq @ cstr ownerID @ dq @ '' and name = '' @ dq @ cstr zoneName @ dq
      @ '' and META().id like '' @ [CHR 0x27] @ zone_prefix @ ''%'' @ [CHR 0x27])"

definition new_ZoneRequest :: "'z indet_scheme \<Rightarrow> zone_request" where
  "new_ZoneRequest sys = \<lparr>zr_zoneID = [], zr_clientID = [], zr_memberID = [], zr_spaceID = [],
     zr_ownerID = [], zr_zoneName = [], zr_newZoneName = [], zr_spaceSize = ud_i64 sys,
     zr_spaceName = [], zr_spacePathInfo = []\<rparr>"

definition zone_req :: "'w sys \<Rightarrow> string \<Rightarrow> zone_request" where
  "zone_req sys info = load sys des_ZoneRequest info (new_ZoneRequest sys)"

definition reply_int :: "'w sys \<Rightarrow> ('w, int) prog \<Rightarrow> ('w, response) prog" where
  "reply_int sys m = bnd m (\<lambda>result. ret (http_ok (json_encode sys enc_int result)))"

section \<open>Renaming\<close>

definition ZoneRename :: "'w sys \<Rightarrow> string \<Rightarrow> string \<Rightarrow> string \<Rightarrow> ('w, int) prog" where
  "ZoneRename sys zoneID ownerID newZoneName =
    bnd (open_ds sys (manager_bucket sys)) (\<lambda>zonePtr.
    bnd (ds_get sys zonePtr (zone_prefix @ zoneID)) (\<lambda>(vp, err).
    if err \<noteq> 0 then ret EAGAIN
    else bnd (deref vp) (\<lambda>tmp_value.
      bnd (load_zone sys tmp_value (new_Zone sys)) (\<lambda>tmp.
      bnd (owner_or_admin sys tmp ownerID) (\<lambda>allowed.
      if allowed then
        let newZoneName = (if length newZoneName > 50 then drop 50 newZoneName else newZoneName) in
        bnd (ds_n1ql sys zonePtr (zone_name_query sys ownerID newZoneName)) (\<lambda>(vp, err).
        if vp \<noteq> [] then ret EINVAL
        else
          let tmp = tmp\<lparr>z_zoneName := newZoneName, z_contains_spaceinfo := False\<rparr> in
          bnd (ds_set sys zonePtr (zone_prefix @ zoneID) (serialize sys ser_Zone tmp)) (\<lambda>flag.
          if flag \<noteq> 0 then ret EAGAIN else ret 0))
      else ret EACCES)))))"

definition ZoneRenameRest :: "'w sys \<Rightarrow> string \<Rightarrow> ('w, response) prog" where
  "ZoneRenameRest sys info =
    (let req = zone_req sys info in
     reply_int sys (ZoneRename sys (zr_zoneID req) (zr_ownerID req) (zr_newZoneName req)))"

section \<open>Locating spaces and listing zones\<close>

definition GetZoneLocateInfo ::
  "'w sys \<Rightarrow> string \<Rightarrow> string \<Rightarrow> string list \<Rightarrow> ('w, bool \<times> space list) prog" where
  "GetZoneLocateInfo sys clientID zoneID spaceID =
    bnd (open_ds sys (manager_bucket sys)) (\<lambda>zonePtr.
    bnd (ds_get sys zonePtr (zone_prefix @ zoneID)) (\<lambda>(vz, err).
    if err \<noteq> 0 then ret (False, [])
    else bnd (deref vz) (\<lambda>tmp_value.
      bnd (load_zone sys tmp_value (new_Zone sys)) (\<lambda>tmp.
      bnd (if clientID = z_ownerID tmp \<or> clientID \<in> set (z_memberID tmp) then ret True
           else validadminidentity sys clientID) (\<lambda>allowed.
      if allowed then
        if isSubset (z_spaceID tmp) spaceID then
          bnd (GetSpacePosition sys [] spaceID) (\<lambda>result. ret (True, result))
        else ret (False, [])
      else ret (False, []))))))"

definition enc_Space :: "space \<Rightarrow> json" where "enc_Space s = JObj (ser_Space s)"
definition enc_Zone :: "zone \<Rightarrow> json" where "enc_Zone z = JObj (ser_Zone z)"

definition GetZoneLocateInfoRest :: "'w sys \<Rightarrow> string \<Rightarrow> ('w, response) prog" where
  "GetZoneLocateInfoRest sys info =
    (let req = zone_req sys info in
     bnd (GetZoneLocateInfo sys (zr_clientID req) (zr_zoneID req) (zr_spaceID req)) (\<lambda>(result_b, result_zl).
     ret (http_ok (if result_b then json_encode sys (enc_vec enc_Space) result_zl else ''fail''))))"

definition zones_owned_query :: "'w sys \<Rightarrow> string \<Rightarrow> string" where
  "zones_owned_query sys clientID = snprintf_n 256
     (''select UUID, name, owner, members, spaces from '' @ bq @ cstr (manager_bucket sys) @ bq
      @ '' where owner = '' @ dq @ cstr clientID @ dq
      @ '' and META().id like '' @ [CHR 0x27] @ zone_prefix @ ''%'' @ [CHR 0x27])"

definition zones_member_query :: "'w sys \<Rightarrow> string \<Rightarrow> string" where
  "zones_member_query sys clientID = snprintf_n 256
     (''select UUID, name, owner, members, spaces from '' @ bq @ cstr (manager_bucket sys) @ bq
      @ '' where '' @ dq @ cstr clientID @ dq @ '' within members''
      @ '' and META().id like '' @ [CHR 0x27] @ zone_prefix @ ''%'' @ [CHR 0x27])"

text \<open>The name of an account, or nothing when its document cannot be read.\<close>

definition account_name :: "'w sys \<Rightarrow> datastore_ptr \<Rightarrow> string \<Rightarrow> ('w, string option) prog" where
  "account_name sys p uid =
    bnd (ds_get sys p (user_prefix @ uid)) (\<lambda>(own, oerr).
    if oerr \<noteq> 0 then ret None
    else bnd (deref own) (\<lambda>v. ret (Some (acc_accountName (load sys des_Account v new_Account)))))"

primrec member_names ::
  "'w sys \<Rightarrow> datastore_ptr \<Rightarrow> string list \<Rightarrow> string list \<Rightarrow> ('w, string list option) prog" where
  "member_names sys p acc [] = ret (Some acc)"
| "member_names sys p acc (m # ms) =
    bnd (account_name sys p m) (\<lambda>n.
    case n of None \<Rightarrow> ret None | Some nm \<Rightarrow> member_names sys p (acc @ [nm]) ms)"

text \<open>One row: the zone with names for identifiers and its available spaces; nothing on a failure.\<close>

definition zone_info :: "'w sys \<Rightarrow> datastore_ptr \<Rightarrow> string \<Rightarrow> ('w, zone option) prog" where
  "zone_info sys accountPtr row =
    bnd (load_zone sys row (new_Zone sys)) (\<lambda>tmp.
    bnd (account_name sys accountPtr (z_ownerID tmp)) (\<lambda>own.
    case own of None \<Rightarrow> ret None
    | Some oname \<Rightarrow>
      bnd (member_names sys accountPtr [] (z_memberID tmp)) (\<lambda>mems.
      case mems of None \<Rightarrow> ret None
      | Some mnames \<Rightarrow>
        bnd (GetSpaceInfo sys (z_spaceID tmp)) (\<lambda>result_s.
        let avail = filter sp_status result_s in
        ret (Some ((new_Zone sys)\<lparr>z_zoneID := z_zoneID tmp, z_zoneName := z_zoneName tmp,
          z_ownerID := oname, z_memberID := mnames, z_spaceBicInfo := map Some avail,
          z_spaceID := map sp_spaceID avail\<rparr>))))))"

primrec zone_infos ::
  "'w sys \<Rightarrow> datastore_ptr \<Rightarrow> zone list \<Rightarrow> string list \<Rightarrow> ('w, bool \<times> zone list) prog" where
  "zone_infos sys p acc [] = ret (True, acc)"
| "zone_infos sys p acc (row # rows) =
    bnd (zone_info sys p row) (\<lambda>zi.
    case zi of None \<Rightarrow> ret (False, acc) | Some z \<Rightarrow> zone_infos sys p (acc @ [z]) rows)"

definition GetZoneInfo :: "'w sys \<Rightarrow> string \<Rightarrow> ('w, bool \<times> zone list) prog" where
  "GetZoneInfo sys clientID =
    bnd (open_ds sys (manager_bucket sys)) (\<lambda>accountPtr.
    bnd (open_ds sys (manager_bucket sys)) (\<lambda>zonePtr.
    bnd (ds_n1ql sys zonePtr (zones_owned_query sys clientID)) (\<lambda>(vp, err).
    if err \<noteq> 0 then ret (False, [])
    else
      bnd (open_ds sys (manager_bucket sys)) (\<lambda>zonePtr2.
      bnd (ds_n1ql sys zonePtr2 (zones_member_query sys clientID)) (\<lambda>(vp2, err2).
      if err2 \<noteq> 0 then ret (False, [])
      else zone_infos sys accountPtr [] (vp @ vp2))))))"

text \<open>The handler looks at the list only, so the zones found before a failure are sent.\<close>

definition GetZoneInfoRest :: "'w sys \<Rightarrow> string \<Rightarrow> ('w, response) prog" where
  "GetZoneInfoRest sys info =
     bnd (GetZoneInfo sys info) (\<lambda>(result_b, result_z).
     ret (http_ok (if result_z \<noteq> [] then json_encode sys (enc_vec enc_Zone) result_z else ''fail'')))"

section \<open>Sharing\<close>

definition share_members :: "string list \<Rightarrow> string list \<Rightarrow> string list" where
  "share_members mems new = foldl (\<lambda>ms x. if x \<in> set ms then ms else ms @ [x]) mems new"

text \<open>\<open>contains_spaceinfo\<close> is cleared after the zone was serialised, so the document carries it.\<close>

definition ZoneShare :: "'w sys \<Rightarrow> string \<Rightarrow> string \<Rightarrow> string list \<Rightarrow> ('w, int) prog" where
  "ZoneShare sys zoneID ownerID memberID =
    bnd (open_ds sys (manager_bucket sys)) (\<lambda>zonePtr.
    bnd (ds_get sys zonePtr (zone_prefix @ zoneID)) (\<lambda>(vp, err).
    if err \<noteq> 0 then ret EAGAIN
    else bnd (deref vp) (\<lambda>tmp_value.
      bnd (load_zone sys tmp_value (new_Zone sys)) (\<lambda>tmp.
      bnd (owner_or_admin sys tmp ownerID) (\<lambda>allowed.
      if allowed then
        let tmp = tmp\<lparr>z_memberID := share_members (z_memberID tmp) memberID\<rparr>;
            tmp_value = serialize sys ser_Zone tmp in
        bnd (ds_set sys zonePtr (zone_prefix @ zoneID) tmp_value) (\<lambda>flag.
        if flag \<noteq> 0 then ret EAGAIN else ret 0)
      else ret EACCES)))))"

definition ZoneShareRest :: "'w sys \<Rightarrow> string \<Rightarrow> ('w, response) prog" where
  "ZoneShareRest sys info =
    (let req = zone_req sys info in
     reply_int sys (ZoneShare sys (zr_zoneID req) (zr_ownerID req) (zr_memberID req)))"

definition erase_members :: "string list \<Rightarrow> string list \<Rightarrow> string list" where
  "erase_members mems gone = foldl (\<lambda>ms x. erase_all x ms) mems gone"

definition ZoneShareCancel :: "'w sys \<Rightarrow> string \<Rightarrow> string \<Rightarrow> string list \<Rightarrow> ('w, int) prog" where
  "ZoneShareCancel sys zoneID ownerID memberID =
    bnd (open_ds sys (manager_bucket sys)) (\<lambda>zonePtr.
    bnd (ds_get sys zonePtr (zone_prefix @ zoneID)) (\<lambda>(vp, err).
    if err \<noteq> 0 then ret EAGAIN
    else bnd (deref vp) (\<lambda>tmp_value.
      bnd (load_zone sys tmp_value (new_Zone sys)) (\<lambda>tmp.
      if \<not> isSubset (z_memberID tmp) memberID then ret EINVAL
      else
        bnd (owner_or_admin sys tmp ownerID) (\<lambda>allowed.
        if allowed then
          let tmp = tmp\<lparr>z_memberID := erase_members (z_memberID tmp) memberID\<rparr>;
              tmp_value = serialize sys ser_Zone tmp in
          bnd (ds_set sys zonePtr (zone_prefix @ zoneID) tmp_value) (\<lambda>flag.
          if flag \<noteq> 0 then ret EAGAIN else ret 0)
        else ret EACCES)))))"

definition ZoneShareCancelRest :: "'w sys \<Rightarrow> string \<Rightarrow> ('w, response) prog" where
  "ZoneShareCancelRest sys info =
    (let req = zone_req sys info in
     reply_int sys (ZoneShareCancel sys (zr_zoneID req) (zr_ownerID req) (zr_memberID req)))"


section \<open>Registering\<close>

text \<open>\<open>SpaceCreate\<close> reports its failures as texts of negative numbers.\<close>

definition space_error :: "string \<Rightarrow> int option" where
  "space_error res_sc =
    (if res_sc = ''-1'' then Some ENOSPC
     else if res_sc = ''-2'' then Some EAGAIN
     else if res_sc = ''-3'' then Some ENOENT
     else if res_sc = ''-4'' then Some EACCES
     else if res_sc = ''-5'' then Some EINVAL
     else None)"

text \<open>
  The error code of the query is not looked at: a query that fails answers no rows and counts as
  \<open>no such zone\<close>. The name of the zone is checked only after its space exists.
\<close>

definition ZoneRegister ::
  "'w sys \<Rightarrow> string \<Rightarrow> string \<Rightarrow> string list \<Rightarrow> string \<Rightarrow> int \<Rightarrow> string \<Rightarrow> ('w, int) prog" where
  "ZoneRegister sys zoneName ownerID memberID spaceName spaceSize spacePathInfo =
    bnd (open_ds sys (manager_bucket sys)) (\<lambda>zonePtr.
    bnd (ds_n1ql sys zonePtr (zone_name_query sys ownerID zoneName)) (\<lambda>(vp, err).
    if vp \<noteq> [] then ret EINVAL
    else
      bnd (ext (uuid_gen sys)) (\<lambda>tmp_uuid.
      let groupname = take 9 tmp_uuid in
      bnd (SpaceCreate sys spaceName ownerID memberID spaceSize spacePathInfo groupname) (\<lambda>res_sc.
      case space_error res_sc of
        Some e \<Rightarrow> ret e
      | None \<Rightarrow>
          let tmp = (new_Zone sys)\<lparr>z_zoneID := tmp_uuid, z_zoneName := zoneName, z_ownerID := ownerID,
                      z_memberID := memberID, z_spaceID := [res_sc], z_contains_spaceinfo := False\<rparr> in
          if z_zoneName tmp = [] then ret EINVAL
          else
            bnd (ds_set sys zonePtr (zone_prefix @ z_zoneID tmp) (serialize sys ser_Zone tmp)) (\<lambda>flag.
            if flag \<noteq> 0 then ret EAGAIN else ret 0)))))"

definition ZoneRegisterRest :: "'w sys \<Rightarrow> string \<Rightarrow> ('w, response) prog" where
  "ZoneRegisterRest sys info =
    (let req = zone_req sys info in
     reply_int sys (ZoneRegister sys (zr_zoneName req) (zr_ownerID req) (zr_memberID req)
       (zr_spaceName req) (zr_spaceSize req) (zr_spacePathInfo req)))"

text \<open>
  A request for another centre goes to that centre's manager as it came, and the answer comes back as
  it is.
\<close>

definition forward_request ::
  "'w sys \<Rightarrow> string \<Rightarrow> string \<Rightarrow> string \<Rightarrow> ('w, response) prog" where
  "forward_request sys hostCenterID path info =
    bnd (ds_init_direct sys (manager_bucket sys)) (\<lambda>f0_dbPtr.
    bnd (ds_get sys f0_dbPtr ''center_information'') (\<lambda>(pcenter_value, c_error).
    if c_error \<noteq> 0 then ret (http_ok (json_encode sys enc_int EAGAIN))
    else bnd (deref pcenter_value) (\<lambda>v.
      let mycenter = load sys des_CenterInfo v new_CenterInfo in
      bnd (remote_call sys (center_url mycenter hostCenterID path) info) (\<lambda>body.
      ret (http_ok body)))))"

definition ZoneRegisterCheckRest :: "'w sys \<Rightarrow> string \<Rightarrow> ('w, response) prog" where
  "ZoneRegisterCheckRest sys info =
    (let req = zone_req sys info;
         tmpm = load sys des_Space (zr_spacePathInfo req) (new_Space sys) in
     if ManagerID sys = sp_hostCenterID tmpm \<or> sp_hostCenterID tmpm = [] then
       reply_int sys (ZoneRegister sys (zr_zoneName req) (zr_ownerID req) (zr_memberID req)
         (zr_spaceName req) (zr_spaceSize req) (zr_spacePathInfo req))
     else forward_request sys (sp_hostCenterID tmpm) ''/zone/register'' info)"

section \<open>Adding an existing space to a zone\<close>

definition ZoneAdd ::
  "'w sys \<Rightarrow> string \<Rightarrow> string \<Rightarrow> string list \<Rightarrow> string \<Rightarrow> ('w, int) prog" where
  "ZoneAdd sys zoneName ownerID memberID spacePathInfo =
    bnd (open_ds sys (manager_bucket sys)) (\<lambda>zonePtr.
    bnd (ds_n1ql sys zonePtr (zone_name_query sys ownerID zoneName)) (\<lambda>(vp, err).
    if err \<noteq> 0 then ret EAGAIN
    else if length vp = 0 then
      bnd (SpaceCheck sys ownerID memberID spacePathInfo) (\<lambda>res_sc.
      if res_sc = ''false'' then ret EINVAL
      else
        bnd (ext (uuid_gen sys)) (\<lambda>tmp_uuid.
        let tmp = (new_Zone sys)\<lparr>z_zoneID := tmp_uuid, z_zoneName := zoneName, z_ownerID := ownerID,
                    z_memberID := memberID, z_spaceID := [res_sc], z_contains_spaceinfo := False\<rparr> in
        bnd (ds_set sys zonePtr (zone_prefix @ z_zoneID tmp) (serialize sys ser_Zone tmp)) (\<lambda>flag.
        if flag \<noteq> 0 then ret EAGAIN else ret 0)))
    else if length vp = 1 then
      bnd (SpaceCheck sys ownerID memberID spacePathInfo) (\<lambda>res_sc.
      if res_sc = ''false'' then ret EINVAL
      else
        bnd (load_zone sys (hd vp) (new_Zone sys)) (\<lambda>tmp.
        let tmp = tmp\<lparr>z_spaceID := z_spaceID tmp @ [res_sc], z_contains_spaceinfo := False\<rparr> in
        bnd (ds_set sys zonePtr (zone_prefix @ z_zoneID tmp) (serialize sys ser_Zone tmp)) (\<lambda>flag2.
        if flag2 \<noteq> 0 then ret EAGAIN else ret 0)))
    else ret EINVAL))"

definition ZoneAddRest :: "'w sys \<Rightarrow> string \<Rightarrow> ('w, response) prog" where
  "ZoneAddRest sys info =
    (let req = zone_req sys info in
     reply_int sys (ZoneAdd sys (zr_zoneName req) (zr_ownerID req) (zr_memberID req)
       (zr_spacePathInfo req)))"

section \<open>Cancelling a zone\<close>

definition ZoneCancel :: "'w sys \<Rightarrow> string \<Rightarrow> string \<Rightarrow> ('w, int) prog" where
  "ZoneCancel sys zoneID ownerID =
    bnd (open_ds sys (manager_bucket sys)) (\<lambda>zonePtr.
    bnd (ds_get sys zonePtr (zone_prefix @ zoneID)) (\<lambda>(vp, err).
    if err \<noteq> 0 then ret EAGAIN
    else bnd (deref vp) (\<lambda>tmp_value.
      if length tmp_value = 0 then ret ENOENT
      else
        bnd (load_zone sys tmp_value (new_Zone sys)) (\<lambda>tmp.
        bnd (owner_or_admin sys tmp ownerID) (\<lambda>allowed.
        if allowed then
          bnd (SpaceDelete sys (z_spaceID tmp)) (\<lambda>rc.
          if rc = 0 then
            bnd (ds_remove sys zonePtr (zone_prefix @ zoneID)) (\<lambda>flag.
            if flag \<noteq> 0 then ret EAGAIN else ret 0)
          else ret EAGAIN)
        else ret EACCES)))))"

definition ZoneCancelRest :: "'w sys \<Rightarrow> string \<Rightarrow> ('w, response) prog" where
  "ZoneCancelRest sys info =
    (let req = zone_req sys info in reply_int sys (ZoneCancel sys (zr_zoneID req) (zr_ownerID req)))"

section \<open>Mapping spaces into a zone\<close>

text \<open>For anybody but the owner the function flows off its end.\<close>

definition MapAdd ::
  "'w sys \<Rightarrow> string \<Rightarrow> string \<Rightarrow> string \<Rightarrow> int \<Rightarrow> string \<Rightarrow> ('w, int) prog" where
  "MapAdd sys zoneID ownerID spaceName spaceSize spacePathInfo =
    bnd (open_ds sys (manager_bucket sys)) (\<lambda>zonePtr.
    let tmp_key = zone_prefix @ zoneID in
    bnd (ds_get sys zonePtr tmp_key) (\<lambda>(vp, err).
    if err \<noteq> 0 then ret EAGAIN
    else bnd (deref vp) (\<lambda>tmp_value.
      bnd (load_zone sys tmp_value (new_Zone sys)) (\<lambda>tmp.
      bnd (GetSpacePosition sys [] (z_spaceID tmp)) (\<lambda>tmps.
      if list_ex (\<lambda>m. sp_spaceName m = spaceName) tmps then ret EINVAL
      else if z_ownerID tmp = ownerID then
        let groupname = take 9 zoneID in
        bnd (SpaceCreate sys spaceName ownerID (z_memberID tmp) spaceSize spacePathInfo groupname)
          (\<lambda>res_sc.
        case space_error res_sc of
          Some e \<Rightarrow> ret e
        | None \<Rightarrow>
            let tmp = tmp\<lparr>z_spaceID := z_spaceID tmp @ [res_sc], z_contains_spaceinfo := False\<rparr> in
            bnd (ds_set sys zonePtr tmp_key (serialize sys ser_Zone tmp)) (\<lambda>flag.
            if flag \<noteq> 0 then ret EAGAIN else ret 0))
      else crash Missing_Return)))))"

definition MapAddRest :: "'w sys \<Rightarrow> string \<Rightarrow> ('w, response) prog" where
  "MapAddRest sys info =
    (let req = zone_req sys info in
     reply_int sys (MapAdd sys (zr_zoneID req) (zr_ownerID req) (zr_spaceName req) (zr_spaceSize req)
       (zr_spacePathInfo req)))"

definition MapAddCheckRest :: "'w sys \<Rightarrow> string \<Rightarrow> ('w, response) prog" where
  "MapAddCheckRest sys info =
    (let req = zone_req sys info;
         tmpm = load sys des_Space (zr_spacePathInfo req) (new_Space sys) in
     if ManagerID sys = sp_hostCenterID tmpm \<or> sp_hostCenterID tmpm = [] then
       reply_int sys (MapAdd sys (zr_zoneID req) (zr_ownerID req) (zr_spaceName req) (zr_spaceSize req)
         (zr_spacePathInfo req))
     else forward_request sys (sp_hostCenterID tmpm) ''/zone/mapadd'' info)"

text \<open>The result of \<open>SpaceDelete\<close> is not looked at.\<close>

definition MapDeduct :: "'w sys \<Rightarrow> string \<Rightarrow> string \<Rightarrow> string list \<Rightarrow> ('w, int) prog" where
  "MapDeduct sys zoneID ownerID spaceID =
    bnd (open_ds sys (manager_bucket sys)) (\<lambda>zonePtr.
    bnd (ds_get sys zonePtr (zone_prefix @ zoneID)) (\<lambda>(vp, err).
    if err \<noteq> 0 then ret EAGAIN
    else bnd (deref vp) (\<lambda>tmp_value.
      bnd (load_zone sys tmp_value (new_Zone sys)) (\<lambda>tmp.
      if z_ownerID tmp = ownerID then
        if isSubset (z_spaceID tmp) spaceID then
          bnd (SpaceDelete sys spaceID) (\<lambda>_.
          let tmp = tmp\<lparr>z_spaceID := erase_members (z_spaceID tmp) spaceID,
                        z_contains_spaceinfo := False\<rparr> in
          bnd (ds_set sys zonePtr (zone_prefix @ zoneID) (serialize sys ser_Zone tmp)) (\<lambda>flag.
          if flag \<noteq> 0 then ret EAGAIN else ret 0))
        else ret EINVAL
      else ret EACCES))))"

definition MapDeductRest :: "'w sys \<Rightarrow> string \<Rightarrow> ('w, response) prog" where
  "MapDeductRest sys info =
    (let req = zone_req sys info in
     reply_int sys (MapDeduct sys (zr_zoneID req) (zr_ownerID req) (zr_spaceID req)))"

section \<open>Requests waiting for an administrator\<close>

definition long_name :: "string \<Rightarrow> string" where
  "long_name s = (if length s > 50 then drop 50 s else s)"

definition ZoneRegisterApply :: "'w sys \<Rightarrow> string \<Rightarrow> ('w, int) prog" where
  "ZoneRegisterApply sys apply =
    bnd (open_ds sys (manager_bucket sys)) (\<lambda>applyPtr.
    bnd (ext (uuid_gen sys)) (\<lambda>uuid.
    let key = ''zregi-'' @ uuid;
        req = zone_req sys apply;
        req = req\<lparr>zr_zoneName := long_name (zr_zoneName req)\<rparr>;
        req = req\<lparr>zr_spaceName := long_name (zr_spaceName req)\<rparr>;
        applyinfo = \<lparr>ai_id = key, ai_data = serialize sys ser_ZoneRequest req\<rparr> in
    bnd (ds_set sys applyPtr key (serialize sys ser_apply_info applyinfo)) (\<lambda>flag.
    if flag \<noteq> 0 then ret EAGAIN else ret 0)))"

definition ZoneRegisterApplyRest :: "'w sys \<Rightarrow> string \<Rightarrow> ('w, response) prog" where
  "ZoneRegisterApplyRest sys info = reply_int sys (ZoneRegisterApply sys info)"

definition MapAddApply :: "'w sys \<Rightarrow> string \<Rightarrow> ('w, int) prog" where
  "MapAddApply sys apply =
    bnd (open_ds sys (manager_bucket sys)) (\<lambda>applyPtr.
    bnd (ext (uuid_gen sys)) (\<lambda>uuid.
    let key = ''spadd-'' @ uuid;
        req = zone_req sys apply;
        req = req\<lparr>zr_spaceName := long_name (zr_spaceName req)\<rparr>;
        applyinfo = \<lparr>ai_id = key, ai_data = serialize sys ser_ZoneRequest req\<rparr> in
    bnd (ds_set sys applyPtr key (serialize sys ser_apply_info applyinfo)) (\<lambda>flag.
    if flag \<noteq> 0 then ret EAGAIN else ret 0)))"

definition MapAddApplyRest :: "'w sys \<Rightarrow> string \<Rightarrow> ('w, response) prog" where
  "MapAddApplyRest sys info = reply_int sys (MapAddApply sys info)"

section \<open>Routes\<close>

definition ZoneServer_router :: "(string \<times> ('w sys \<Rightarrow> string \<Rightarrow> ('w, response) prog)) list" where
  "ZoneServer_router =
     [(''/zone/rename'', ZoneRenameRest), (''/zone/locate'', GetZoneLocateInfoRest),
      (''/zone/info'', GetZoneInfoRest), (''/zone/share'', ZoneShareRest),
      (''/zone/sharecancel'', ZoneShareCancelRest), (''/zone/registerapply'', ZoneRegisterApplyRest),
      (''/zone/registercheck'', ZoneRegisterCheckRest), (''/zone/register'', ZoneRegisterRest),
      (''/zone/cancel'', ZoneCancelRest), (''/zone/mapaddapply'', MapAddApplyRest),
      (''/zone/mapaddcheck'', MapAddCheckRest), (''/zone/mapadd'', MapAddRest),
      (''/zone/mapdeduct'', MapDeductRest), (''/zone/add'', ZoneAddRest)]"

end
