(* ===== verification/User_Props.thy ===== *)
theory User_Props
  imports UserModel Sample_World
begin

text \<open>
  Accounts: who is an administrator, registration, login and logout, cancelling an account, and the
  requests that wait for an administrator.
\<close>

section \<open>Administrators\<close>

text \<open>The administrators that the documents list.\<close>

definition admins_in :: "'w sys \<Rightarrow> docs \<Rightarrow> string set" where
  "admins_in sys d = (case d (manager_bucket sys, adminlist) of
      Some v \<Rightarrow> set (adl_namelist (load sys des_AdminList v \<lparr>adl_namelist = []\<rparr>))
    | None \<Rightarrow> {})"

lemma wp_validadminidentity [wp_rules]:
  assumes law: "couchbase_law sys"
    and "\<And>w'. cb_docs sys w' = cb_docs sys w \<Longrightarrow> \<not> couchbase_up sys \<Longrightarrow> Q (Crash Null_Deref) w'"
    and "\<And>w'. cb_docs sys w' = cb_docs sys w \<Longrightarrow> couchbase_up sys \<longrightarrow> u \<notin> admins_in sys (cb_docs sys w) \<Longrightarrow>
      Q (Val False) w'"
    and "\<And>w'. cb_docs sys w' = cb_docs sys w \<Longrightarrow> u \<in> admins_in sys (cb_docs sys w) \<Longrightarrow> Q (Val True) w'"
  shows "wp (validadminidentity sys u) Q w"
proof -
  have ex: "list_ex (\<lambda>x. u = x) xs \<longleftrightarrow> u \<in> set xs" for xs
    by (auto simp: list_ex_iff)
  show ?thesis
    unfolding validadminidentity_def wp_bnd
  proof (rule wp_open_ds [OF law], goal_cases)
    case (1 w')
    then show ?case by (simp add: assms(2))
  next
    case (2 w')
    note w' = 2
    show ?case
      unfolding outcome.case wp_bnd
    proof (rule wp_ds_get [OF law], goal_cases)
      case (1 w'' rc)
      with w' show ?case by (auto simp: admins_in_def intro!: assms(3))
    next
      case (2 w'' v)
      with w' assms(3,4) [of w''] show ?case
        by (cases "u \<in> admins_in sys (cb_docs sys w)") (auto simp: admins_in_def ex Let_def)
    qed
  qed
qed

text \<open>Whatever fails, an identity passes the test only if the list of administrators holds it, and
  when nothing fails the test answers exactly that; it never changes a document.\<close>

theorem validadminidentity_iff:
  assumes "couchbase_law sys"
  shows "wp (validadminidentity sys u) (\<lambda>r w'. cb_docs sys w' = cb_docs sys w \<and>
    (r = Val True \<longrightarrow> u \<in> admins_in sys (cb_docs sys w)) \<and>
    (couchbase_up sys \<longrightarrow> r = Val (u \<in> admins_in sys (cb_docs sys w)))) w"
  by (rule wp_validadminidentity [OF assms]) auto

lemma sample_admins_in [simp]: "admins_in mem_sys (map_of (m_docs sample_mem)) = {''root''}"
  by (simp add: admins_in_def adminlist_def AdminList_json.load_roundtrip [OF mem_laws(1) wf_samples(5)])
    (simp add: sample_admins_def)

lemma validadminidentity_iff_witness:
  "wp (validadminidentity mem_sys ''root'') (\<lambda>r w'. r = Val True) sample_mem \<and>
   wp (validadminidentity mem_sys ''u1'') (\<lambda>r w'. r = Val False) sample_mem"
  using validadminidentity_iff [OF mem_laws(2), of "''root''" sample_mem]
    validadminidentity_iff [OF mem_laws(2), of "''u1''" sample_mem] mem_laws(3)
  by (auto elim!: wp_mono)

section \<open>Registration\<close>

text \<open>What the document of names says about a name, and the account of an identifier.\<close>

definition name_entry :: "'w sys \<Rightarrow> docs \<Rightarrow> string \<Rightarrow> json option" where
  "name_entry sys d name = doc_at sys (d (manager_bucket sys, user_map_key)) name"

definition account_in :: "'w sys \<Rightarrow> docs \<Rightarrow> string \<Rightarrow> account option" where
  "account_in sys d u = map_option (\<lambda>v. load sys des_Account v new_Account)
     (d (manager_bucket sys, user_prefix @ u))"

lemma user_keys [simp]:
  "user_prefix @ u \<noteq> user_map_key" "sc_user_prefix @ u \<noteq> user_map_key" "user_prefix @ u \<noteq> sc_user_prefix @ v"
  "user_map_key \<noteq> user_prefix @ u" "user_map_key \<noteq> sc_user_prefix @ u" "sc_user_prefix @ v \<noteq> user_prefix @ u"
  by (simp_all add: user_prefix_def sc_user_prefix_def user_map_key_def)

lemma parse_enc_str: "json_law sys \<Longrightarrow> rj_parse sys (cstr (json_encode sys enc_str s)) = Some (JStr s)"
  by (simp add: json_encode_def json_lawD enc_str_def)

lemma decode_str: "rj_parse sys (cstr v) = Some (JStr s) \<Longrightarrow> nul_free s \<Longrightarrow> json_decode sys dec_str v [] = s"
  by (simp add: json_decode_def dec_str_def cstr_id)

text \<open>\<open>d'\<close> is \<open>d\<close> with the account and its name entered.\<close>

definition entered :: "'w sys \<Rightarrow> docs \<Rightarrow> docs \<Rightarrow> account \<Rightarrow> string \<Rightarrow> bool" where
  "entered sys d d' person u \<longleftrightarrow>
     d' (manager_bucket sys, user_prefix @ u) =
       Some (serialize sys ser_Account (person\<lparr>acc_accountID := u\<rparr>)) \<and>
     (\<forall>n. name_entry sys d' n = (if n = acc_accountName person then Some (JStr u) else name_entry sys d n)) \<and>
     (\<forall>q. q \<noteq> (manager_bucket sys, user_prefix @ u) \<and> q \<noteq> (manager_bucket sys, user_map_key) \<longrightarrow> d' q = d q)"

lemma up_UserRegister:
  assumes laws: "json_law sys" "couchbase_law sys" "couchbase_up sys"
    and name: "simple_path (acc_accountName person)" "name_entry sys (cb_docs sys w) (acc_accountName person) = None"
    and map: "doc_members sys (cb_docs sys w (manager_bucket sys, user_map_key)) \<noteq> None"
  shows "wp (UserRegister sys person) (\<lambda>r w'.
    r = Val (''Dear:'' @ acc_accountName person @ '', registration success'') \<and>
    (\<exists>u. new_id sys u \<and> entered sys (cb_docs sys w) (cb_docs sys w') person u)) w"
  unfolding UserRegister_def enter_name_def
  apply (rule up_open [OF laws(2,3)])
  apply (rule up_get_sub_none [OF laws(2) name(1)])
  apply (use name(2) in \<open>simp add: name_entry_def\<close>)
  apply (simp del: wp_bnd)
  apply (rule wp_new_id [OF laws(2)])
  apply (simp only: Let_def bnd_assoc)
  apply (rule up_set_sub [OF laws(2,3)])
     apply (simp add: name)
    apply (simp add: map)
   apply (simp add: parse_enc_str [OF laws(1)])
  apply (simp del: wp_bnd)
  apply (rule up_set [OF laws(2,3)])
  apply (simp add: entered_def name_entry_def sub_written_def parse_enc_str [OF laws(1)])
  done

section \<open>Sample accounts\<close>

definition sample_account :: account where
  "sample_account = \<lparr>acc_accountName = ''bob'', acc_Password = ''pw'', acc_accountID = ''u1'',
     acc_accountEmail = [], acc_accountPhone = [], acc_accountAddress = [], acc_Department = []\<rparr>"

definition user_mem :: mem where
  "user_mem = sample_mem\<lparr>m_docs :=
     ((''gvds'', ''.USER_UUID_MAP''), mem_write (JObj [(''bob'', JStr ''u1'')])) #
     ((''gvds'', ''USER-u1''), serialize mem_sys ser_Account sample_account) #
     ((''gvds'', ''SCUSER-u1''), ''{}'') # m_docs sample_mem\<rparr>"

lemma wf_sample_account: "wf_Account sample_account"
  by (simp add: sample_account_def wf_Account_def nul_free_def)

lemma sample_account_sel [simp]:
  "acc_accountName sample_account = ''bob''" "acc_Password sample_account = ''pw''"
  "acc_accountID sample_account = ''u1''"
  by (simp_all add: sample_account_def)

lemma user_docs [simp]:
  "map_of (m_docs user_mem) (''gvds'', ''.USER_UUID_MAP'') = Some (mem_write (JObj [(''bob'', JStr ''u1'')]))"
  "map_of (m_docs user_mem) (''gvds'', ''USER-u1'') = Some (serialize mem_sys ser_Account sample_account)"
  "map_of (m_docs user_mem) (''gvds'', ''SCUSER-u1'') = Some ''{}''"
  "map_of (m_docs user_mem) (''gvds'', ''bob'') = None"
  "map_of (m_docs user_mem) (''gvds'', ''adminwhitelist'') = Some (serialize mem_sys ser_AdminList sample_admins)"
  by (simp_all add: user_mem_def sample_mem_def)

lemma user_admins [simp]: "admins_in mem_sys (map_of (m_docs user_mem)) = {''root''}"
  by (simp add: admins_in_def adminlist_def AdminList_json.load_roundtrip [OF mem_laws(1) wf_samples(5)])
    (simp add: sample_admins_def)

lemma user_names [simp]:
  "name_entry mem_sys (map_of (m_docs user_mem)) n = (if n = ''bob'' then Some (JStr ''u1'') else None)"
  by (simp add: name_entry_def user_map_key_def)

lemma mem_ids: "new_id (mem_sysq rows) u \<Longrightarrow> nul_free u"
proof -
  have dec: "nul_free (nat_dec n)" for n
  proof (induction n rule: nat_dec.induct)
    case (1 n)
    have "char_of (48 + m) \<noteq> (CHR 0x00 :: char)" if "m < 10" for m :: nat
    proof
      assume "char_of (48 + m) = (CHR 0x00 :: char)"
      then have "of_char (char_of (48 + m) :: char) = (of_char (CHR 0x00) :: nat)" by simp
      with that show False by simp
    qed
    from this [of n] this [of "n mod 10"] show ?case
      using 1 by (cases "n < 10") (auto simp: nul_free_def nat_dec.simps [of n])
  qed
  assume "new_id (mem_sysq rows) u"
  with dec show ?thesis by (auto simp: new_id_def nul_free_def)
qed

text \<open>Registering an account, when no call fails, under a name without path characters: a name that is
  entered already is refused and nothing is written; otherwise the account is stored under a new
  identifier, the name is entered with that identifier, and no other name and no other document
  changes.\<close>

theorem UserRegister_result:
  assumes laws: "json_law sys" "couchbase_law sys" "couchbase_up sys"
    and name: "simple_path (acc_accountName person)"
    and map: "doc_members sys (cb_docs sys w (manager_bucket sys, user_map_key)) \<noteq> None"
  shows "wp (UserRegister sys person) (\<lambda>r w'.
    if name_entry sys (cb_docs sys w) (acc_accountName person) \<noteq> None
    then r = Val ''Account name already exists!'' \<and> cb_docs sys w' = cb_docs sys w
    else r = Val (''Dear:'' @ acc_accountName person @ '', registration success'') \<and>
      (\<exists>u. new_id sys u \<and> entered sys (cb_docs sys w) (cb_docs sys w') person u)) w"
proof (cases "name_entry sys (cb_docs sys w) (acc_accountName person)")
  case None
  from up_UserRegister [OF laws name this map] None show ?thesis by (auto elim!: wp_mono)
next
  case (Some j)
  then show ?thesis
    unfolding UserRegister_def
    by (intro up_open [OF laws(2,3)] up_get_sub [OF laws(2,3) name]) (auto simp: name_entry_def)
qed

lemma UserRegister_result_witness:
  "wp (UserRegister mem_sys sample_account) (\<lambda>r w'. r = Val ''Account name already exists!'' \<and>
     cb_docs mem_sys w' = cb_docs mem_sys user_mem) user_mem \<and>
   wp (UserRegister mem_sys (sample_account\<lparr>acc_accountName := ''eve''\<rparr>)) (\<lambda>r w'.
     r = Val ''Dear:eve, registration success'') user_mem"
  using UserRegister_result [OF mem_laws, of sample_account user_mem]
    UserRegister_result [OF mem_laws, of "sample_account\<lparr>acc_accountName := ''eve''\<rparr>" user_mem]
  by (auto simp: simple_path_def user_map_key_def elim: wp_mono)

section \<open>Login\<close>

text \<open>C29: Whatever fails, a login succeeds only with the password of the account it answers, and it calls
  the user an administrator only if the list of administrators holds the identifier; it never changes
  a document.\<close>

theorem UserLogin_sound:
  assumes law: "couchbase_law sys"
  shows "wp (UserLogin sys name pass [] []) (\<lambda>r w'. cb_docs sys w' = cb_docs sys w \<and>
    (\<forall>u identity. r = Val (True, u, identity) \<longrightarrow>
      (\<exists>a. account_in sys (cb_docs sys w) u = Some a \<and> acc_Password a = pass) \<and>
      (identity = ''1'' \<longrightarrow> u \<in> admins_in sys (cb_docs sys w)))) w"
  unfolding UserLogin_def
  by (auto simp: Let_def account_in_def
      intro!: wp_open_ds [OF law] wp_ds_get_sub [OF law] wp_ds_get [OF law] wp_validadminidentity [OF law])

lemma UserLogin_sound_witness:
  "wp (UserLogin mem_sys ''bob'' ''wrong'' [] []) (\<lambda>r w'. \<forall>identity. r \<noteq> Val (True, ''u1'', identity)) user_mem"
  by (rule wp_mono [OF UserLogin_sound [OF mem_laws(2)]])
    (auto simp: account_in_def user_prefix_def Account_json.load_roundtrip [OF mem_laws(1) wf_sample_account])

text \<open>The account is entered under its name.\<close>

lemma up_UserLogin:
  assumes laws: "json_law sys" "couchbase_law sys" "couchbase_up sys"
    and name: "simple_path name" "name_entry sys (cb_docs sys w) name = Some (JStr u)" "nul_free u"
    and acc: "cb_docs sys w (manager_bucket sys, user_prefix @ u) = Some (serialize sys ser_Account a)"
    and wf: "wf_Account a"
  shows "wp (UserLogin sys name pass [] []) (\<lambda>r w'. cb_docs sys w' = cb_docs sys w \<and>
    r = Val (pass = acc_Password a, if pass = acc_Password a then u else [],
             if u \<in> admins_in sys (cb_docs sys w) then ''1'' else ''0'')) w"
proof -
  have admin: "wp (bnd (validadminidentity sys u) f) Q w'"
    if "cb_docs sys w' = cb_docs sys w"
      "\<And>w''. cb_docs sys w'' = cb_docs sys w \<Longrightarrow> wp (f (u \<in> admins_in sys (cb_docs sys w))) Q w''" for f Q w'
    using that laws(3) by (auto intro!: wp_validadminidentity [OF laws(2)])
  note reload = Account_json.load_roundtrip [OF laws(1) wf]
  show ?thesis
    unfolding UserLogin_def
    apply (rule up_open [OF laws(2,3)])
    apply (rule up_get_sub [OF laws(2,3) name(1), where j = "JStr u"])
     apply (use name(2) in \<open>simp add: name_entry_def\<close>)
    apply (simp only: run_simps decode_str [OF _ name(3)])
    apply (rule admin, simp)
    apply (rule up_get [OF laws(2,3)], simp add: acc)
    apply (simp add: reload)
    done
qed

text \<open>Registering and then logging in, when no call fails, under a fresh name without path characters:
  the right password is accepted and answers the identifier that was just made; any other password is
  refused.\<close>

theorem register_then_login:
  assumes laws: "json_law sys" "couchbase_law sys" "couchbase_up sys" and wf: "wf_Account person"
    and name: "simple_path (acc_accountName person)" "name_entry sys (cb_docs sys w) (acc_accountName person) = None"
    and map: "doc_members sys (cb_docs sys w (manager_bucket sys, user_map_key)) \<noteq> None"
    and ids: "\<And>u. new_id sys u \<Longrightarrow> nul_free u"
  shows "wp (bnd (UserRegister sys person) (\<lambda>_. UserLogin sys (acc_accountName person) pass [] []))
    (\<lambda>r w'. \<exists>u identity. new_id sys u \<and> (identity = ''1'' \<or> identity = ''0'') \<and>
      r = Val (if pass = acc_Password person then (True, u, identity) else (False, [], identity))) w"
proof -
  have login: "wp (UserLogin sys (acc_accountName person) pass [] []) (\<lambda>r w''. \<exists>u identity.
      new_id sys u \<and> (identity = ''1'' \<or> identity = ''0'') \<and>
      r = Val (if pass = acc_Password person then (True, u, identity) else (False, [], identity))) w'"
    if u: "new_id sys u" and d: "entered sys (cb_docs sys w) (cb_docs sys w') person u" for w' u
  proof -
    have wf': "wf_Account (person\<lparr>acc_accountID := u\<rparr>)"
      using wf ids [OF u] by (simp add: wf_Account_def)
    have e: "name_entry sys (cb_docs sys w') (acc_accountName person) = Some (JStr u)"
      "cb_docs sys w' (manager_bucket sys, user_prefix @ u) =
         Some (serialize sys ser_Account (person\<lparr>acc_accountID := u\<rparr>))"
      using d by (simp_all add: entered_def)
    show ?thesis
      by (rule wp_mono [OF up_UserLogin [OF laws name(1) e(1) ids [OF u] e(2) wf']]) (use u in auto)
  qed
  show ?thesis
    unfolding wp_bnd by (rule wp_mono [OF up_UserRegister [OF laws name map]]) (auto intro!: wp_mono [OF login] split: if_splits)
qed

lemma register_then_login_witness:
  "wp (bnd (UserRegister mem_sys (sample_account\<lparr>acc_accountName := ''eve''\<rparr>)) (\<lambda>_. UserLogin mem_sys ''eve'' ''pw'' [] []))
    (\<lambda>r w'. \<exists>u identity. r = Val (True, u, identity)) user_mem"
proof -
  have "wf_Account (sample_account\<lparr>acc_accountName := ''eve''\<rparr>)"
    using wf_sample_account by (simp add: wf_Account_def nul_free_def)
  from register_then_login [OF mem_laws this, of user_mem "''pw''"]
  show ?thesis by (auto simp: simple_path_def user_map_key_def mem_ids simp del: wp_bnd elim!: wp_mono)
qed

end
