(* ===== verification/Zone_Props.thy ===== *)
theory Zone_Props
  imports ZoneServer Space_Lifecycle User_Props "HOL-Library.Multiset"
begin

text \<open>
  The server of zones: the subset test, who may change a zone, and what each request makes of the
  zone's document.
\<close>

section \<open>The subset test\<close>

lemma subset_scan_iff:
  "sorted xs \<Longrightarrow> sorted ys \<Longrightarrow> subset_scan xs ys \<longleftrightarrow> mset ys \<subseteq># mset xs"
proof (induction xs ys rule: subset_scan.induct)
  case (3 x xs y ys)
  consider "x < y" | "x = y" | "y < x" by force
  then show ?case
  proof cases
    case 1
    then have "x \<notin> set (y # ys)" using 3(4) by auto
    then have "mset (y # ys) \<subseteq># mset (x # xs) \<longleftrightarrow> mset (y # ys) \<subseteq># mset xs"
      by (metis add_mset_diff_bothsides diff_empty insert_subset_eq_iff mset.simps(2) set_mset_mset
          subset_eq_diff_conv diff_single_trivial add_mset_remove_trivial add_mset_add_single)
    with 1 3 show ?thesis by simp
  next
    case 2
    with 3 show ?thesis by simp
  next
    case 3
    then have "y \<notin> set (x # xs)" using "3.prems" by auto
    then have "\<not> mset (y # ys) \<subseteq># mset (x # xs)"
      by (metis insert_subset_eq_iff mset.simps(2) set_mset_mset)
    with 3 show ?thesis by auto
  qed
qed auto

lemma isSubset_iff: "isSubset v1 v2 \<longleftrightarrow> mset v2 \<subseteq># mset v1"
proof -
  have "length v2 \<le> length v1" if "mset v2 \<subseteq># mset v1"
    using size_mset_mono [OF that] by simp
  then show ?thesis by (auto simp: isSubset_def subset_scan_iff not_less)
qed

text \<open>The subset test counts: it holds exactly when every string occurs in the second vector at most
  as often as in the first.\<close>

theorem isSubset_mset: "isSubset v1 v2 \<longleftrightarrow> (\<forall>x. count_list v2 x \<le> count_list v1 x)"
  unfolding isSubset_iff by (simp add: subseteq_mset_def count_mset)

section \<open>Reading a zone and asking who may change it\<close>

lemma wp_lift [simp]: "wp (lift r) Q w = Q r w"
  by (simp add: lift_def split: outcome.splits)

lemma wp_load_zone [simp]: "wp (load_zone sys v z) Q w = Q (deserialize sys des_Zone v z) w"
  by (simp add: load_zone_def)

lemma wp_any: "(\<And>r w'. Q r w') \<Longrightarrow> wp m Q w"
  by (simp add: wp_def split: prod.splits)

abbreviation zone_key :: "'w sys \<Rightarrow> string \<Rightarrow> dockey" where
  "zone_key sys k \<equiv> (manager_bucket sys, zone_prefix @ k)"

text \<open>The beginning of most requests: open the store and read a document.\<close>

lemma wp_open_read:
  assumes law: "couchbase_law sys"
    and "\<And>w'. cb_docs sys w' = cb_docs sys w \<Longrightarrow> \<not> couchbase_up sys \<Longrightarrow> Q (Crash Null_Deref) w'"
    and "\<And>w'. cb_docs sys w' = cb_docs sys w \<Longrightarrow> couchbase_up sys \<longrightarrow> cb_docs sys w (b, k) = None \<Longrightarrow>
      wp bad Q w'"
    and "\<And>w' v. cb_docs sys w' = cb_docs sys w \<Longrightarrow> cb_docs sys w (b, k) = Some v \<Longrightarrow>
      wp (g (Some (Datastore b True)) v) Q w'"
  shows "wp (bnd (open_ds sys b) (\<lambda>p. bnd (ds_get sys p k) (\<lambda>(vp, err).
    if err \<noteq> 0 then bad else bnd (deref vp) (g p)))) Q w"
  unfolding wp_bnd
proof (rule wp_open_ds [OF law], goal_cases)
  case (1 w')
  then show ?case using assms(2) by simp
next
  case (2 w')
  note w' = 2
  show ?case
    unfolding outcome.case wp_bnd
    by (rule wp_ds_get [OF law]) (use w' assms(3,4) in auto)
qed

lemma wp_owner_or_admin:
  assumes law: "couchbase_law sys"
    and "\<And>w'. cb_docs sys w' = cb_docs sys w \<Longrightarrow> \<not> couchbase_up sys \<Longrightarrow> Q (Crash Null_Deref) w'"
    and "\<And>w'. cb_docs sys w' = cb_docs sys w \<Longrightarrow> z_ownerID z \<noteq> u \<Longrightarrow>
      couchbase_up sys \<longrightarrow> u \<notin> admins_in sys (cb_docs sys w) \<Longrightarrow> Q (Val False) w'"
    and "\<And>w'. cb_docs sys w' = cb_docs sys w \<Longrightarrow>
      z_ownerID z = u \<or> u \<in> admins_in sys (cb_docs sys w) \<Longrightarrow> Q (Val True) w'"
  shows "wp (owner_or_admin sys z u) Q w"
  unfolding owner_or_admin_def
  by (cases "z_ownerID z = u") (simp_all add: assms wp_validadminidentity [OF law])

text \<open>\<open>u\<close> owns the zone \<open>k\<close> of these documents or is an administrator.\<close>

definition may_change :: "'w sys \<Rightarrow> docs \<Rightarrow> string \<Rightarrow> string \<Rightarrow> bool" where
  "may_change sys d k u \<longleftrightarrow> (\<exists>v z. d (zone_key sys k) = Some v \<and>
     deserialize sys des_Zone v (new_Zone sys) = Val z \<and> (z_ownerID z = u \<or> u \<in> admins_in sys d))"

text \<open>The requests that change an existing zone, with the zone and the identity they name.\<close>

datatype zone_call =
    Rename string string string
  | Share string string "string list"
  | Share_Cancel string string "string list"
  | Cancel string string
  | Map_Add string string string int string
  | Map_Deduct string string "string list"

fun call_zone :: "zone_call \<Rightarrow> string" where
  "call_zone (Rename k u n) = k" | "call_zone (Share k u m) = k" | "call_zone (Share_Cancel k u m) = k"
| "call_zone (Cancel k u) = k" | "call_zone (Map_Add k u n s i) = k" | "call_zone (Map_Deduct k u ss) = k"

fun call_user :: "zone_call \<Rightarrow> string" where
  "call_user (Rename k u n) = u" | "call_user (Share k u m) = u" | "call_user (Share_Cancel k u m) = u"
| "call_user (Cancel k u) = u" | "call_user (Map_Add k u n s i) = u" | "call_user (Map_Deduct k u ss) = u"

fun run_call :: "'w sys \<Rightarrow> zone_call \<Rightarrow> ('w, int) prog" where
  "run_call sys (Rename k u n) = ZoneRename sys k u n"
| "run_call sys (Share k u m) = ZoneShare sys k u m"
| "run_call sys (Share_Cancel k u m) = ZoneShareCancel sys k u m"
| "run_call sys (Cancel k u) = ZoneCancel sys k u"
| "run_call sys (Map_Add k u n s i) = MapAdd sys k u n s i"
| "run_call sys (Map_Deduct k u ss) = MapDeduct sys k u ss"

lemma wp_positions_loop:
  assumes law: "couchbase_law sys"
    and "\<And>r w'. cb_docs sys w' = cb_docs sys w \<Longrightarrow> Q r w'"
  shows "wp (positions_loop sys (Some (Datastore b True)) t acc ks) Q w"
  using assms(2)
proof (induction ks arbitrary: t acc w)
  case (Cons k ks)
  show ?case
    by (auto simp: Let_def intro!: wp_ds_get [OF law] wp_open_ds [OF law] Cons.IH Cons.prems)
qed simp

lemma wp_GetSpacePosition:
  assumes law: "couchbase_law sys"
    and "\<And>r w'. cb_docs sys w' = cb_docs sys w \<Longrightarrow> Q r w'"
  shows "wp (GetSpacePosition sys acc ks) Q w"
proof -
  have "wp (positions_loop sys None t acc ks) Q w1" if "cb_docs sys w1 = cb_docs sys w" for t w1
    using that by (cases ks) (auto intro: assms(2))
  then show ?thesis
    unfolding GetSpacePosition_def wp_bnd
    by (intro wp_open_ds [OF law]) (auto intro!: wp_positions_loop [OF law] assms(2))
qed

lemma select_zone_query: "select_query (zone_name_query sys u n)"
  by (simp add: select_query_def zone_name_query_def snprintf_n_def)

definition guarded :: "'w sys \<Rightarrow> docs \<Rightarrow> string \<Rightarrow> string \<Rightarrow> 'w \<Rightarrow> bool" where
  "guarded sys d k u w' \<longleftrightarrow> cb_docs sys w' = d \<or> may_change sys d k u"

lemma guarded_step:
  assumes law: "couchbase_law sys" and d: "cb_docs sys w = d" "d (zone_key sys k) = Some v"
    "deserialize sys des_Zone v (new_Zone sys) = Val z"
  shows "wp (bnd (owner_or_admin sys z u) (\<lambda>a. if a then m else ret e)) (\<lambda>r. guarded sys d k u) w"
  unfolding wp_bnd
proof (rule wp_owner_or_admin [OF law], goal_cases)
  case (3 w')
  then have "may_change sys d k u" using d by (auto simp: may_change_def)
  then show ?case by (auto simp: guarded_def intro!: wp_any)
qed (simp_all add: guarded_def d)

lemma guarded_owner:
  assumes "d (zone_key sys k) = Some v" "deserialize sys des_Zone v (new_Zone sys) = Val z" "z_ownerID z = u"
  shows "wp m (\<lambda>r. guarded sys d k u) w"
  using assms by (auto simp: guarded_def may_change_def intro!: wp_any)

lemma guarded_same: "cb_docs sys w = d \<Longrightarrow> guarded sys d k u w"
  by (simp add: guarded_def)

lemmas guarded_read = wp_open_read [where Q = "\<lambda>r. guarded sys d k u" and b = "manager_bucket sys"
    and k = "zone_prefix @ k" for sys d k u]

lemma run_call_guarded:
  assumes law: "couchbase_law sys"
  shows "wp (run_call sys c) (\<lambda>r. guarded sys (cb_docs sys w) (call_zone c) (call_user c)) w"
proof (cases c)
  case (Rename k u n)
  show ?thesis
    unfolding Rename run_call.simps call_zone.simps call_user.simps ZoneRename_def
    by (rule guarded_read [OF law])
      (auto simp: guarded_same simp del: wp_bnd split: outcome.split simp: wp_bnd [of "load_zone _ _ _"]
        intro!: guarded_step [OF law])
next
  case (Share k u m)
  show ?thesis
    unfolding Share run_call.simps call_zone.simps call_user.simps ZoneShare_def
    by (rule guarded_read [OF law])
      (auto simp: guarded_same simp del: wp_bnd split: outcome.split simp: wp_bnd [of "load_zone _ _ _"]
        intro!: guarded_step [OF law])
next
  case (Share_Cancel k u m)
  show ?thesis
    unfolding Share_Cancel run_call.simps call_zone.simps call_user.simps ZoneShareCancel_def
    by (rule guarded_read [OF law])
      (auto simp: guarded_same simp del: wp_bnd split: outcome.split simp: wp_bnd [of "load_zone _ _ _"]
        intro!: guarded_step [OF law])
next
  case (Cancel k u)
  show ?thesis
    unfolding Cancel run_call.simps call_zone.simps call_user.simps ZoneCancel_def
    by (rule guarded_read [OF law])
      (auto simp: guarded_same simp del: wp_bnd split: outcome.split simp: wp_bnd [of "load_zone _ _ _"]
        intro!: guarded_step [OF law])
next
  case (Map_Add k u n sz i)
  show ?thesis
    unfolding Map_Add run_call.simps call_zone.simps call_user.simps MapAdd_def Let_def
    by (rule guarded_read [OF law])
      (auto simp: guarded_same simp del: wp_bnd split: outcome.split
        simp: wp_bnd [of "load_zone _ _ _"] wp_bnd [of "GetSpacePosition _ _ _"]
        intro!: wp_GetSpacePosition [OF law] guarded_owner)
next
  case (Map_Deduct k u ss)
  show ?thesis
    unfolding Map_Deduct run_call.simps call_zone.simps call_user.simps MapDeduct_def
    by (rule guarded_read [OF law])
      (auto simp: guarded_same simp del: wp_bnd split: outcome.split simp: wp_bnd [of "load_zone _ _ _"]
        intro!: guarded_owner)
qed

text \<open>One request, which may fail in any way the store can fail, of somebody in \<open>us\<close>.\<close>

inductive call_by :: "'w sys \<Rightarrow> (zone_call \<Rightarrow> bool) \<Rightarrow> 'w \<Rightarrow> 'w \<Rightarrow> bool" for sys P where
  call: "run_call sys c w = (r, w') \<Longrightarrow> P c \<Longrightarrow> call_by sys P w w'"

text \<open>C3: Renaming, sharing, unsharing, cancelling and mapping change a document only on behalf of the
  owner of the zone or of an administrator: any sequence of such requests, each naming an identity that
  is neither for its zone, leaves every document as it was, whatever the store does.\<close>

theorem strangers_change_nothing:
  assumes "couchbase_law sys"
    and "(call_by sys (\<lambda>c. \<not> may_change sys (cb_docs sys w) (call_zone c) (call_user c)))\<^sup>*\<^sup>* w w'"
  shows "cb_docs sys w' = cb_docs sys w"
  using assms(2)
proof (induction rule: rtranclp_induct)
  case (step w1 w2)
  from step.hyps(2) obtain c r where r: "run_call sys c w1 = (r, w2)"
    and stranger: "\<not> may_change sys (cb_docs sys w) (call_zone c) (call_user c)"
    by (auto elim: call_by.cases)
  from wp_D [OF run_call_guarded [OF assms(1)] r] step.IH stranger
  show ?case by (simp add: guarded_def)
qed simp

lemma zone_back:
  "json_law sys \<Longrightarrow> wf_Zone z \<Longrightarrow>
    deserialize sys des_Zone (serialize sys ser_Zone z) (new_Zone sys) = Val (carry_Zone z (new_Zone sys))"
  by (rule Zone_json.text_roundtrip)

lemma carry_Zone_sel [simp]:
  "z_zoneID (carry_Zone z y) = z_zoneID z" "z_zoneName (carry_Zone z y) = z_zoneName z"
  "z_ownerID (carry_Zone z y) = z_ownerID z" "z_memberID (carry_Zone z y) = z_memberID z"
  "z_spaceID (carry_Zone z y) = z_spaceID z"
  by (simp_all add: carry_Zone_def)

lemma may_change_ser:
  assumes "json_law sys" "wf_Zone z" "d (zone_key sys k) = Some (serialize sys ser_Zone z)"
  shows "may_change sys d k u \<longleftrightarrow> z_ownerID z = u \<or> u \<in> admins_in sys d"
  using assms by (auto simp: may_change_def zone_back)

lemma sample_may_change:
  "may_change mem_sys (cb_docs mem_sys sample_mem) ''z1'' u \<longleftrightarrow> u = ''u1'' \<or> u = ''root''"
  using may_change_ser [OF mem_laws(1) wf_samples(3), of "cb_docs mem_sys sample_mem" "''z1''" u]
  by (auto simp: zone_prefix_def)

lemma strangers_change_nothing_witness:
  "cb_docs mem_sys (snd (run_call mem_sys (Cancel ''z1'' ''u2'')
     (snd (run_call mem_sys (Share ''z1'' ''u2'' [''u2'']) sample_mem)))) = cb_docs mem_sys sample_mem"
proof -
  let ?P = "\<lambda>c. \<not> may_change mem_sys (cb_docs mem_sys sample_mem) (call_zone c) (call_user c)"
  let ?w = "snd (run_call mem_sys (Share ''z1'' ''u2'' [''u2'']) sample_mem)"
  have step: "call_by mem_sys ?P w (snd (run_call mem_sys c w))" if "?P c" for c w
    using that by (intro call_by.call [OF prod.collapse [symmetric]])
  have "call_by mem_sys ?P sample_mem ?w" by (rule step) (simp add: sample_may_change del: mem_sys_sel)
  moreover have "call_by mem_sys ?P ?w (snd (run_call mem_sys (Cancel ''z1'' ''u2'') ?w))"
    by (rule step) (simp add: sample_may_change del: mem_sys_sel)
  ultimately show ?thesis
    by (intro strangers_change_nothing [OF mem_laws(2)]) (rule rtranclp.rtrancl_into_rtrancl [OF r_into_rtranclp])
qed

section \<open>Sharing and unsharing\<close>

lemma set_share_members: "set (share_members ms new) = set ms \<union> set new"
  unfolding share_members_def by (induction new arbitrary: ms) auto

lemma distinct_share_members: "distinct ms \<Longrightarrow> distinct (share_members ms new)"
  unfolding share_members_def by (induction new arbitrary: ms) auto

lemma share_members_fresh:
  "distinct new \<Longrightarrow> set ms \<inter> set new = {} \<Longrightarrow> share_members ms new = ms @ new"
  unfolding share_members_def by (induction new arbitrary: ms) auto

lemma erase_members_eq: "erase_members ms gone = filter (\<lambda>x. x \<notin> set gone) ms"
  unfolding erase_members_def
  by (induction gone arbitrary: ms) (auto simp: erase_all_def intro: filter_cong)

text \<open>The steps these handlers share, when the store does not fail and the document is a written zone.\<close>

lemma up_zone:
  assumes laws: "json_law sys" "couchbase_law sys" "couchbase_up sys" and wf: "wf_Zone z"
    and z: "cb_docs sys w (zone_key sys k) = Some (serialize sys ser_Zone z)"
    and rest: "\<And>w'. cb_docs sys w' = cb_docs sys w \<Longrightarrow>
      wp (f (Some (Datastore (manager_bucket sys) True)) (carry_Zone z (new_Zone sys))) Q w'"
  shows "wp (bnd (open_ds sys (manager_bucket sys)) (\<lambda>p. bnd (ds_get sys p (zone_prefix @ k)) (\<lambda>(vp, err).
    if err \<noteq> 0 then bad else bnd (deref vp) (\<lambda>v. bnd (load_zone sys v (new_Zone sys)) (f p))))) Q w"
  by (rule wp_open_read [OF laws(2)]) (use laws(3) z rest in \<open>auto simp: zone_back [OF laws(1) wf]\<close>)

lemma up_allowed:
  assumes "couchbase_law sys" "couchbase_up sys"
    and "\<And>w'. cb_docs sys w' = cb_docs sys w \<Longrightarrow>
      wp (f (z_ownerID z = u \<or> u \<in> admins_in sys (cb_docs sys w))) Q w'"
  shows "wp (bnd (owner_or_admin sys z u) f) Q w"
  unfolding wp_bnd by (rule wp_owner_or_admin [OF assms(1)]) (use assms in auto)

text \<open>What the document of a zone holds after its members were changed.\<close>

definition with_members :: "'w sys \<Rightarrow> zone \<Rightarrow> string list \<Rightarrow> zone" where
  "with_members sys z ms = (carry_Zone z (new_Zone sys))\<lparr>z_memberID := ms\<rparr>"

lemma with_members_sel [simp]:
  "z_zoneID (with_members sys z ms) = z_zoneID z" "z_zoneName (with_members sys z ms) = z_zoneName z"
  "z_ownerID (with_members sys z ms) = z_ownerID z" "z_memberID (with_members sys z ms) = ms"
  "z_spaceID (with_members sys z ms) = z_spaceID z"
  by (simp_all add: with_members_def)

lemma with_members_twice: "with_members sys (with_members sys z ms) ms' = with_members sys z ms'"
  by (auto simp: with_members_def carry_Zone_def new_Zone_def)

lemma wf_with_members:
  "indet_ok sys \<Longrightarrow> wf_Zone z \<Longrightarrow> list_all nul_free ms \<Longrightarrow> wf_Zone (with_members sys z ms)"
  by (auto simp: with_members_def carry_Zone_def new_Zone_def wf_Zone_def indet_ok_def)

lemma up_ZoneShare:
  assumes laws: "json_law sys" "couchbase_law sys" "couchbase_up sys" and wf: "wf_Zone z"
    and z: "cb_docs sys w (zone_key sys k) = Some (serialize sys ser_Zone z)"
  shows "wp (ZoneShare sys k u new) (\<lambda>r w'.
    if z_ownerID z = u \<or> u \<in> admins_in sys (cb_docs sys w)
    then r = Val 0 \<and> cb_docs sys w' = (cb_docs sys w)(zone_key sys k \<mapsto>
        serialize sys ser_Zone (with_members sys z (share_members (z_memberID z) new)))
    else r = Val EACCES \<and> cb_docs sys w' = cb_docs sys w) w"
  unfolding ZoneShare_def
  by (rule up_zone [OF laws wf z], rule up_allowed [OF laws(2,3)])
    (auto simp: Let_def with_members_def simp del: wp_bnd intro!: up_set [OF laws(2,3)])

text \<open>Sharing an existing zone, with a store that does not fail: for its owner and for an
  administrator the answer is 0 and exactly the zone's document is replaced, by the zone whose members
  are the old ones and the new ones, nobody twice; for anybody else the answer is \<open>EACCES\<close> and nothing
  is written.\<close>

theorem ZoneShare_result:
  assumes laws: "json_law sys" "couchbase_law sys" "couchbase_up sys" and wf: "wf_Zone z"
    and z: "cb_docs sys w (zone_key sys k) = Some (serialize sys ser_Zone z)"
  shows "wp (ZoneShare sys k u new) (\<lambda>r w'.
    if z_ownerID z = u \<or> u \<in> admins_in sys (cb_docs sys w)
    then \<exists>ms. set ms = set (z_memberID z) \<union> set new \<and> (distinct (z_memberID z) \<longrightarrow> distinct ms) \<and>
      r = Val 0 \<and> cb_docs sys w' = (cb_docs sys w)(zone_key sys k \<mapsto>
        serialize sys ser_Zone (with_members sys z ms))
    else r = Val EACCES \<and> cb_docs sys w' = cb_docs sys w) w"
  by (rule wp_mono [OF up_ZoneShare [OF assms]])
    (auto simp: set_share_members distinct_share_members split: if_splits
      intro!: exI [of _ "share_members (z_memberID z) new"])

lemma ZoneShare_result_witness:
  "wp (ZoneShare mem_sys ''z1'' ''root'' [''u2'', ''u3'']) (\<lambda>r w'. \<exists>ms. set ms = {''u2'', ''u3''} \<and>
     distinct ms \<and> r = Val 0 \<and> cb_docs mem_sys w' = (cb_docs mem_sys sample_mem)(zone_key mem_sys ''z1'' \<mapsto>
        serialize mem_sys ser_Zone (with_members mem_sys sample_zone ms))) sample_mem"
  using ZoneShare_result [OF mem_laws wf_samples(3), of sample_mem "''z1''" "''root''" "[''u2'', ''u3'']"]
  by (simp add: zone_prefix_def insert_commute)

lemma up_ZoneShareCancel:
  assumes laws: "json_law sys" "couchbase_law sys" "couchbase_up sys" and wf: "wf_Zone z"
    and z: "cb_docs sys w (zone_key sys k) = Some (serialize sys ser_Zone z)"
  shows "wp (ZoneShareCancel sys k u gone) (\<lambda>r w'.
    if \<not> mset gone \<subseteq># mset (z_memberID z) then r = Val EINVAL \<and> cb_docs sys w' = cb_docs sys w
    else if z_ownerID z = u \<or> u \<in> admins_in sys (cb_docs sys w)
    then r = Val 0 \<and> cb_docs sys w' = (cb_docs sys w)(zone_key sys k \<mapsto>
        serialize sys ser_Zone (with_members sys z (filter (\<lambda>m. m \<notin> set gone) (z_memberID z))))
    else r = Val EACCES \<and> cb_docs sys w' = cb_docs sys w) w"
  unfolding ZoneShareCancel_def
  by (rule up_zone [OF laws wf z])
    (auto simp: Let_def erase_members_eq isSubset_iff with_members_def simp del: wp_bnd
      intro!: up_set [OF laws(2,3)] up_allowed [OF laws(2,3)])

text \<open>Unsharing an existing zone, with a store that does not fail: unless every identity to remove is
  a member, counted with repetition, the answer is \<open>EINVAL\<close>, whoever asks; then for anybody but the
  owner and an administrator it is \<open>EACCES\<close>; otherwise it is 0 and exactly the zone's document is
  replaced, by the zone without them.\<close>

theorem ZoneShareCancel_result:
  assumes laws: "json_law sys" "couchbase_law sys" "couchbase_up sys" and wf: "wf_Zone z"
    and z: "cb_docs sys w (zone_key sys k) = Some (serialize sys ser_Zone z)"
  shows "wp (ZoneShareCancel sys k u gone) (\<lambda>r w'.
    if \<not> mset gone \<subseteq># mset (z_memberID z) then r = Val EINVAL \<and> cb_docs sys w' = cb_docs sys w
    else if z_ownerID z = u \<or> u \<in> admins_in sys (cb_docs sys w)
    then r = Val 0 \<and> cb_docs sys w' = (cb_docs sys w)(zone_key sys k \<mapsto>
        serialize sys ser_Zone (with_members sys z (filter (\<lambda>m. m \<notin> set gone) (z_memberID z))))
    else r = Val EACCES \<and> cb_docs sys w' = cb_docs sys w) w"
  by (rule up_ZoneShareCancel [OF assms])

lemma ZoneShareCancel_result_witness:
  "wp (ZoneShareCancel mem_sys ''z1'' ''u1'' [''u2'']) (\<lambda>r w'. r = Val 0 \<and> cb_docs mem_sys w' =
     (cb_docs mem_sys sample_mem)(zone_key mem_sys ''z1'' \<mapsto>
        serialize mem_sys ser_Zone (with_members mem_sys sample_zone []))) sample_mem \<and>
   wp (ZoneShareCancel mem_sys ''z1'' ''u1'' [''u2'', ''u2'']) (\<lambda>r w'. r = Val EINVAL \<and>
     cb_docs mem_sys w' = cb_docs mem_sys sample_mem) sample_mem"
  using ZoneShareCancel_result [OF mem_laws wf_samples(3), of sample_mem "''z1''" "''u1''" "[''u2'']"]
    ZoneShareCancel_result [OF mem_laws wf_samples(3), of sample_mem "''z1''" "''u1''" "[''u2'', ''u2'']"]
  by (simp add: zone_prefix_def insert_subset_eq_iff)

text \<open>C28: Unsharing takes back what sharing gave: when the owner shares a zone with identities that are
  not members yet and then unshares it from them, both answers are 0 and exactly the zone's document
  changed, which holds the members the zone had, in their order.\<close>

theorem share_then_unshare:
  assumes laws: "json_law sys" "couchbase_law sys" "couchbase_up sys" and "indet_ok sys" and wf: "wf_Zone z"
    and z: "cb_docs sys w (zone_key sys k) = Some (serialize sys ser_Zone z)"
    and "list_all nul_free new" and "distinct new" and fresh: "set (z_memberID z) \<inter> set new = {}"
  shows "wp (bnd (ZoneShare sys k (z_ownerID z) new) (\<lambda>r1.
             bnd (ZoneShareCancel sys k (z_ownerID z) new) (\<lambda>r2. ret (r1, r2))))
    (\<lambda>r w'. r = Val (0, 0) \<and> cb_docs sys w' = (cb_docs sys w)(zone_key sys k \<mapsto>
       serialize sys ser_Zone (with_members sys z (z_memberID z)))) w"
proof -
  let ?z = "with_members sys z (z_memberID z @ new)"
  have wf': "wf_Zone ?z" using assms(4,7) wf by (intro wf_with_members) (auto simp: wf_Zone_def)
  have keep: "filter (\<lambda>m. m \<notin> set new) (z_memberID z) = z_memberID z"
    using fresh by (auto simp: filter_id_conv)
  have undo: "wp (ZoneShareCancel sys k (z_ownerID z) new) (\<lambda>r w''. r = Val 0 \<and>
      cb_docs sys w'' = (cb_docs sys w)(zone_key sys k \<mapsto>
        serialize sys ser_Zone (with_members sys z (z_memberID z)))) w'"
    if d: "cb_docs sys w' = (cb_docs sys w)(zone_key sys k \<mapsto> serialize sys ser_Zone ?z)" for w'
    using up_ZoneShareCancel [OF laws wf', of w' k "z_ownerID z" new] d
    by (auto simp: with_members_twice keep elim!: wp_mono)
  show ?thesis
    unfolding wp_bnd
    by (rule wp_mono [OF up_ZoneShare [OF laws wf z]])
      (auto simp: share_members_fresh [OF assms(8) fresh] intro!: wp_mono [OF undo])
qed

lemma share_then_unshare_witness:
  "wp (bnd (ZoneShare mem_sys ''z1'' ''u1'' [''u3'', ''u4'']) (\<lambda>r1.
       bnd (ZoneShareCancel mem_sys ''z1'' ''u1'' [''u3'', ''u4'']) (\<lambda>r2. ret (r1, r2))))
    (\<lambda>r w'. r = Val (0, 0) \<and> cb_docs mem_sys w' = (cb_docs mem_sys sample_mem)(zone_key mem_sys ''z1'' \<mapsto>
       serialize mem_sys ser_Zone (with_members mem_sys sample_zone [''u2'']))) sample_mem"
  using share_then_unshare [OF mem_laws mem_indet_ok wf_samples(3), of sample_mem "''z1''" "[''u3'', ''u4'']"]
  by (simp add: zone_prefix_def nul_free_def)

end
