(* ===== verification/Zone_Lifecycle.thy ===== *)
theory Zone_Lifecycle
  imports Zone_Props
begin

text \<open>
  Locating the spaces of a zone, renaming, registering and cancelling zones, and mapping spaces into
  them and out of them.
\<close>

section \<open>Locating\<close>

text \<open>Whatever fails, the spaces of a zone are located only for its owner, its members and
  administrators, and only when every requested space is one of the zone's; a refused request gets an
  empty list, and no request of this kind changes a document.\<close>

theorem GetZoneLocateInfo_access:
  assumes law: "couchbase_law sys"
  shows "wp (GetZoneLocateInfo sys u k ss) (\<lambda>r w'. cb_docs sys w' = cb_docs sys w \<and>
    (\<forall>found res. r = Val (found, res) \<longrightarrow>
      (if found then \<exists>v z. cb_docs sys w (zone_key sys k) = Some v \<and>
         deserialize sys des_Zone v (new_Zone sys) = Val z \<and>
         (u = z_ownerID z \<or> u \<in> set (z_memberID z) \<or> u \<in> admins_in sys (cb_docs sys w)) \<and>
         mset ss \<subseteq># mset (z_spaceID z)
       else res = []))) w"
  unfolding GetZoneLocateInfo_def
  by (rule wp_open_read [OF law])
    (auto simp: isSubset_iff split: outcome.split
      intro!: wp_validadminidentity [OF law] wp_GetSpacePosition [OF law])

lemma sample_positions:
  assumes "cb_docs mem_sys w' = cb_docs mem_sys sample_mem"
  shows "fst (GetSpacePosition mem_sys [] [''p1''] w') = Val [sample_space]"
proof -
  have "wp (GetSpacePosition mem_sys [] [''p1'']) (\<lambda>r w'. r = Val [sample_space]) w'"
    unfolding GetSpacePosition_def positions_loop.simps
    apply (rule up_open [OF mem_laws(2,3)])
    apply (rule up_get [OF mem_laws(2,3)])
    using assms apply (simp add: space_prefix_def)
    apply (simp only: run_simps space_back [OF mem_laws(1) wf_samples(2)])
    apply (rule up_open [OF mem_laws(2,3)])
    apply (rule up_get [OF mem_laws(2,3)])
    using assms apply simp
    apply simp
    done
  then show ?thesis by (simp add: wp_def split: prod.splits)
qed

lemma sample_locate:
  "fst (GetZoneLocateInfo mem_sys ''u2'' ''z1'' [''p1''] sample_mem) = Val (True, [sample_space])"
proof -
  let ?z = "carry_Zone sample_zone (new_Zone mem_sys)"
  have s: "wp (GetSpacePosition mem_sys [] [''p1'']) (\<lambda>r w'. r = Val [sample_space]) w'"
    if "cb_docs mem_sys w' = cb_docs mem_sys sample_mem" for w'
    using sample_positions [OF that] by (auto simp: wp_def split: prod.splits)
  have "wp (GetZoneLocateInfo mem_sys ''u2'' ''z1'' [''p1'']) (\<lambda>r w'. r = Val (True, [sample_space])) sample_mem"
    unfolding GetZoneLocateInfo_def
    by (rule up_zone [OF mem_laws wf_samples(3)])
      (auto simp: zone_prefix_def isSubset_iff intro!: wp_mono [OF s])
  then show ?thesis by (simp add: wp_def split: prod.splits)
qed

lemma GetZoneLocateInfo_access_witness:
  "wp (GetZoneLocateInfo mem_sys ''u2'' ''z1'' [''p1'']) (\<lambda>r w'. r = Val (True, [sample_space]) \<and>
     cb_docs mem_sys w' = cb_docs mem_sys sample_mem) sample_mem \<and>
   wp (GetZoneLocateInfo mem_sys ''u3'' ''z1'' [''p1'']) (\<lambda>r w'. \<forall>res. r \<noteq> Val (True, res)) sample_mem"
proof -
  note t = GetZoneLocateInfo_access [OF mem_laws(2), of _ "''z1''" "[''p1'']" sample_mem]
  have "wp (GetZoneLocateInfo mem_sys ''u2'' ''z1'' [''p1'']) (\<lambda>r w'. r = Val (True, [sample_space]) \<and>
     cb_docs mem_sys w' = cb_docs mem_sys sample_mem) sample_mem"
    using t [of "''u2''"] sample_locate by (auto simp: wp_def split: prod.splits)
  moreover have "wp (GetZoneLocateInfo mem_sys ''u3'' ''z1'' [''p1'']) (\<lambda>r w'. \<forall>res. r \<noteq> Val (True, res)) sample_mem"
    by (rule wp_mono [OF t [of "''u3''"]])
      (auto simp: zone_prefix_def zone_back [OF mem_laws(1) wf_samples(3)] simp del: mem_serialize)
  ultimately show ?thesis by simp
qed

section \<open>Cancelling\<close>

definition keeps_others :: "docs \<Rightarrow> dockey \<Rightarrow> docs \<Rightarrow> bool" where
  "keeps_others d q d' \<longleftrightarrow> dom d - {q} \<subseteq> dom d'"

lemma keeps_others_simps [simp]:
  "keeps_others d q d"
  "dom d \<subseteq> dom d' \<Longrightarrow> keeps_others d q d'"
  "dom d \<subseteq> dom d' \<Longrightarrow> keeps_others d q (d'(q := None))"
  by (auto simp: keeps_others_def)

lemma wp_SpaceDelete_dom:
  assumes "couchbase_law sys" "cb_docs sys w' = d"
    and "\<And>r w''. dom d \<subseteq> dom (cb_docs sys w'') \<Longrightarrow> R r w''"
  shows "wp (SpaceDelete sys ss) R w'"
  using assms by (auto intro: wp_mono [OF SpaceDelete_dom])

text \<open>C32: Whatever fails, and whatever the answer: cancelling a zone changes documents only for its owner or an
  administrator, and the zone's is the only one it may remove; with the answer 0 the one who asked was one
  of them, and the zone's document is gone.\<close>

theorem ZoneCancel_safe:
  assumes law: "couchbase_law sys"
  shows "wp (ZoneCancel sys k u) (\<lambda>r w'. dom (cb_docs sys w) - {zone_key sys k} \<subseteq> dom (cb_docs sys w') \<and>
    (cb_docs sys w' \<noteq> cb_docs sys w \<longrightarrow> may_change sys (cb_docs sys w) k u) \<and>
    (r = Val 0 \<longrightarrow> may_change sys (cb_docs sys w) k u \<and> cb_docs sys w' (zone_key sys k) = None)) w"
  unfolding ZoneCancel_def keeps_others_def [symmetric]
  by (rule wp_open_read [OF law])
    (auto simp: may_change_def fun_upd_same simp del: fun_upd_apply split: outcome.split
      intro!: wp_owner_or_admin [OF law] wp_SpaceDelete_dom [OF law] wp_ds_remove [OF law])

lemma ZoneCancel_safe_witness:
  "wp (ZoneCancel mem_sys ''z1'' ''u2'') (\<lambda>r w'. r \<noteq> Val 0 \<and> cb_docs mem_sys w' = cb_docs mem_sys sample_mem) sample_mem"
  by (rule wp_mono [OF ZoneCancel_safe [OF mem_laws(2)]]) (auto simp: sample_may_change simp del: mem_sys_sel)

text \<open>A zone is removed even when its spaces were not deleted: if the first of its spaces has no
  document, cancelling answers 0 and removes the zone's document and nothing else, so the other spaces
  stay available and counted, with no zone to reach them by.\<close>

theorem ZoneCancel_orphans:
  assumes laws: "json_law sys" "couchbase_law sys" "couchbase_up sys" and wf: "wf_Zone z"
    and z: "cb_docs sys w (zone_key sys k) = Some (serialize sys ser_Zone z)"
    and "serialize sys ser_Zone z \<noteq> []" and ss: "z_spaceID z = s # ss"
    and "cb_docs sys w (manager_bucket sys, space_prefix @ s) = None"
    and "z_ownerID z = u \<or> u \<in> admins_in sys (cb_docs sys w)"
  shows "wp (ZoneCancel sys k u) (\<lambda>r w'. r = Val 0 \<and>
    cb_docs sys w' = (cb_docs sys w)(zone_key sys k := None)) w"
proof -
  have del: "wp (bnd (SpaceDelete sys (z_spaceID z)) f) Q w'"
    if "cb_docs sys w' = cb_docs sys w" "\<And>w''. cb_docs sys w'' = cb_docs sys w \<Longrightarrow> wp (f 0) Q w''" for f Q w'
    using that SpaceDelete_stops [OF laws(2,3), of w' s ss] assms(8)
    by (auto simp: ss simp del: SpaceDelete.simps wp_bnd intro!: wp_step)
  show ?thesis
    unfolding ZoneCancel_def
    apply (rule up_open [OF laws(2,3)])
    apply (rule up_get [OF laws(2,3)], simp add: z)
    apply (simp add: assms(6) deref_Some del: wp_bnd)
    apply (simp add: wp_bnd [of "load_zone _ _ _"] zone_back [OF laws(1) wf] del: wp_bnd)
    apply (rule up_allowed [OF laws(2,3)])
    apply (use assms(9) z in \<open>auto simp del: wp_bnd intro!: del up_remove [OF laws(2,3)]\<close>)
    done
qed

lemma mem_serialize_nonempty: "serialize mem_sys ser x \<noteq> []"
  using mem_write_nul_free [of "JObj (ser x)"]
  by (simp add: serialize_def cstr_id nul_free_def mem_write.simps)

text \<open>A zone whose first space has no document.\<close>

definition gone_zone :: zone where
  "gone_zone = sample_zone\<lparr>z_spaceID := [''gone'', ''p1'']\<rparr>"

definition gone_mem :: mem where
  "gone_mem = sample_mem\<lparr>m_docs := [((''gvds'', ''ZONE-z1''), serialize mem_sys ser_Zone gone_zone)]\<rparr>"

lemma gone_zone_sel [simp]: "z_ownerID gone_zone = ''u1''" "z_spaceID gone_zone = [''gone'', ''p1'']"
  by (simp_all add: gone_zone_def)

lemma wf_gone_zone: "wf_Zone gone_zone"
  using wf_samples(3) by (simp add: gone_zone_def wf_Zone_def nul_free_def)

lemma gone_docs [simp]:
  "map_of (m_docs gone_mem) (''gvds'', ''ZONE-z1'') = Some (serialize mem_sys ser_Zone gone_zone)"
  "map_of (m_docs gone_mem) (''gvds'', ''SPACE-gone'') = None"
  by (simp_all add: gone_mem_def)

lemma ZoneCancel_orphans_witness:
  "wp (ZoneCancel mem_sys ''z1'' ''u1'') (\<lambda>r w'. r = Val 0 \<and>
     cb_docs mem_sys w' = (cb_docs mem_sys gone_mem)((''gvds'', ''ZONE-z1'') := None)) gone_mem"
  using ZoneCancel_orphans [OF mem_laws wf_gone_zone, of gone_mem "''z1''" "''gone''" "[''p1'']" "''u1''"]
  by (simp add: zone_prefix_def space_prefix_def mem_serialize_nonempty)

lemma mem_answers_zone: "answers (mem_sysq rows) (zone_name_query (mem_sysq rows) u n) []"
  by (simp add: answers_def select_zone_query asks_storage_def) (simp add: zone_name_query_def snprintf_n_def)

section \<open>Renaming\<close>

text \<open>Renaming an existing zone, when no call fails: for its owner and for an administrator, unless a
  zone of that name is found, the answer is 0 and the zone's document holds the new name; the search is
  for a zone of the one who asks. A name longer than 50 characters is not cut to 50: what is searched
  for and stored is the part after them.\<close>

theorem ZoneRename_result:
  assumes laws: "json_law sys" "couchbase_law sys" "couchbase_up sys" and wf: "wf_Zone z"
    and z: "cb_docs sys w (zone_key sys k) = Some (serialize sys ser_Zone z)"
    and q: "answers sys (zone_name_query sys u (if length n > 50 then drop 50 n else n)) rows"
  shows "wp (ZoneRename sys k u n) (\<lambda>r w'.
    if \<not> (z_ownerID z = u \<or> u \<in> admins_in sys (cb_docs sys w))
    then r = Val EACCES \<and> cb_docs sys w' = cb_docs sys w
    else if rows \<noteq> [] then r = Val EINVAL \<and> cb_docs sys w' = cb_docs sys w
    else r = Val 0 \<and> cb_docs sys w' = (cb_docs sys w)(zone_key sys k \<mapsto> serialize sys ser_Zone
      ((carry_Zone z (new_Zone sys))\<lparr>z_zoneName := if length n > 50 then drop 50 n else n,
         z_contains_spaceinfo := False\<rparr>))) w"
  unfolding ZoneRename_def Let_def long_name_def [symmetric]
  by (rule up_zone [OF laws wf z], rule up_allowed [OF laws(2,3)])
    (insert q [folded long_name_def], auto simp del: wp_bnd intro!: up_n1ql [OF laws(2)] up_set [OF laws(2,3)])

lemma ZoneRename_result_witness:
  "wp (ZoneRename mem_sys ''z1'' ''u1'' ''team'') (\<lambda>r w'. r = Val 0 \<and>
     cb_docs mem_sys w' = (cb_docs mem_sys sample_mem)(zone_key mem_sys ''z1'' \<mapsto> serialize mem_sys ser_Zone
      ((carry_Zone sample_zone (new_Zone mem_sys))\<lparr>z_zoneName := ''team'', z_contains_spaceinfo := False\<rparr>))) sample_mem"
  using ZoneRename_result [OF mem_laws wf_samples(3), of sample_mem "''z1''" "''u1''" "''team''" "[]"]
    mem_answers_zone [of "[]" "''u1''" "''team''"]
  by (simp add: zone_prefix_def)

section \<open>Registering\<close>

text \<open>The zone that \<open>ZoneRegister\<close> writes.\<close>

definition made_zone :: "'w sys \<Rightarrow> string \<Rightarrow> string \<Rightarrow> string \<Rightarrow> string list \<Rightarrow> string \<Rightarrow> zone" where
  "made_zone sys zid name owner members u =
     (new_Zone sys)\<lparr>z_zoneID := zid, z_zoneName := name, z_ownerID := owner, z_memberID := members,
       z_spaceID := [u], z_contains_spaceinfo := False\<rparr>"

lemma space_error_simps [simp]:
  "space_error ''-1'' = Some ENOSPC" "space_error ''-5'' = Some EINVAL"
  by (simp_all add: space_error_def)

text \<open>C11: Registering a zone, when no call fails, no zone of that name is found and the storage resource
  of the new space is chosen: without room the answer is \<open>ENOSPC\<close> and nothing changes; a space without
  a name or of size 0 answers \<open>EINVAL\<close> and leaves its capacity taken; a zone without a name answers
  \<open>EINVAL\<close> too, but its space exists by then and stays, belonging to no zone; otherwise the answer is 0
  and the resource, the space and the zone are written, the zone holding exactly that space.\<close>

theorem ZoneRegister_result:
  assumes laws: "json_law sys" "couchbase_law sys" "couchbase_up sys" and wf: "wf_StorageResource st"
    and mkdir: "\<And>d w. fst (os_mkdir sys d w) = 0"
    and ids: "\<And>u. new_id sys u \<Longrightarrow> space_error u = None"
    and path: "create_path sys n info ((sid, hid), hcn, ssn)" and "sid \<noteq> []"
    and st: "cb_docs sys w (manager_bucket sys, sid) = Some (serialize sys ser_StorageResource st)"
    and q: "answers sys (zone_name_query sys owner zname) []"
  shows "wp (ZoneRegister sys zname owner members sname n info) (\<lambda>r w'.
    let total = i64 (st_assign_capacity st + n);
        counted = (cb_docs sys w)((manager_bucket sys, sid) \<mapsto>
          serialize sys ser_StorageResource (st\<lparr>st_assign_capacity := total\<rparr>)) in
    if total > st_total_capacity st then r = Val ENOSPC \<and> cb_docs sys w' = cb_docs sys w
    else if sname = [] \<or> n = 0 then r = Val EINVAL \<and> cb_docs sys w' = counted
    else \<exists>u zid. let spaced = counted((manager_bucket sys, space_prefix @ u) \<mapsto>
           serialize sys ser_Space (made_space sys u sname n ((sid, hid), hcn, ssn))) in
      if zname = [] then r = Val EINVAL \<and> cb_docs sys w' = spaced
      else r = Val 0 \<and> cb_docs sys w' = spaced(zone_key sys zid \<mapsto>
        serialize sys ser_Zone (made_zone sys zid zname owner members u))) w"
proof -
  have uuid: "wp (ext (uuid_gen sys)) R w'"
    if "\<And>w'' u. cb_docs sys w'' = cb_docs sys w' \<Longrightarrow> R (Val u) w''" for R w'
    using that by (rule wp_uuid_gen [OF laws(2)])
  show ?thesis
    unfolding ZoneRegister_def Let_def
    apply (rule up_open [OF laws(2,3)])
    apply (rule up_n1ql [OF laws(2) q])
    apply (simp del: wp_bnd)
    apply (subst wp_bnd, rule uuid)
    apply (simp only: outcome.case)
    apply (subst wp_bnd)
    apply (rule wp_mono [OF up_SpaceCreate [OF laws wf mkdir path assms(8)]], simp add: st)
    apply (auto simp: Let_def ids made_zone_def split: if_splits intro!: wp_ds_set [OF laws(2)] laws(3))
     apply (rule exI, rule refl)
    apply (intro exI, rule refl)
    done
qed

lemma mem_new_id: "new_id (mem_sysq rows) u \<Longrightarrow> space_error u = None"
  by (auto simp: new_id_def space_error_def)

lemma ZoneRegister_result_witness:
  "wp (ZoneRegister mem_stor [] ''u1'' [] ''home'' 5 []) (\<lambda>r w'. r = Val EINVAL \<and>
    (\<exists>u. cb_docs mem_sys w' = (cb_docs mem_sys sample_mem)((''gvds'', ''STOR-s1'') \<mapsto>
      serialize mem_sys ser_StorageResource (sample_storage\<lparr>st_assign_capacity := 45\<rparr>),
      (''gvds'', ''SPACE-'' @ u) \<mapsto> serialize mem_sys ser_Space
        (made_space mem_stor u ''home'' 5 ((''STOR-s1'', ''1''), ''Beijing'', ''lustre''))))) sample_mem"
  using ZoneRegister_result [where w = sample_mem and zname = "[]" and owner = "''u1''" and members = "[]"
      and sname = "''home''", OF mem_json_law mem_couchbase_law mem_couchbase_up wf_samples(1) _
      mem_new_id sample_create_path [of 5 "[]"] _ _ mem_answers_zone]
  by (simp add: i64_id in_i64_def Let_def space_prefix_def)

section \<open>Mapping spaces\<close>

text \<open>Mapping a space into a zone on behalf of anybody but its owner, administrators included, has no
  result: the C++ function flows off its end. Unless the name is taken, then the answer is \<open>EINVAL\<close>.
  Either way, when no call fails, nothing is written.\<close>

theorem MapAdd_not_owner:
  assumes laws: "json_law sys" "couchbase_law sys" "couchbase_up sys" and wf: "wf_Zone z"
    and z: "cb_docs sys w (zone_key sys k) = Some (serialize sys ser_Zone z)"
    and pos: "\<And>w'. cb_docs sys w' = cb_docs sys w \<Longrightarrow>
      fst (GetSpacePosition sys [] (z_spaceID z) w') = Val sps"
    and "z_ownerID z \<noteq> u"
  shows "wp (MapAdd sys k u name n info) (\<lambda>r w'. cb_docs sys w' = cb_docs sys w \<and>
    r = (if name \<in> sp_spaceName ` set sps then Val EINVAL else Crash Missing_Return)) w"
proof -
  have get: "wp (GetSpacePosition sys [] (z_spaceID z)) Q w'"
    if "cb_docs sys w' = cb_docs sys w" "\<And>w''. cb_docs sys w'' = cb_docs sys w \<Longrightarrow> Q (Val sps) w''" for Q w'
    using pos [OF that(1)] that
      wp_GetSpacePosition [OF laws(2), of w' "\<lambda>r w''. cb_docs sys w'' = cb_docs sys w'" "[]" "z_spaceID z"]
    by (auto simp: wp_def split: prod.splits)
  show ?thesis
    unfolding MapAdd_def Let_def
    by (rule up_zone [OF laws wf z]) (auto simp: assms(7) list_ex_iff intro!: get)
qed

lemma MapAdd_not_owner_witness:
  "wp (MapAdd mem_sys ''z1'' ''root'' ''scratch'' 5 []) (\<lambda>r w'. r = Crash Missing_Return) sample_mem"
  by (rule wp_mono [OF MapAdd_not_owner [OF mem_laws wf_samples(3), of _ "''z1''" "[sample_space]"]])
    (auto simp: zone_prefix_def intro: sample_positions)

text \<open>Taking spaces out of a zone, when no call fails: for anybody but the owner, administrators
  included, the answer is \<open>EACCES\<close>; for the owner it is \<open>EINVAL\<close> unless all of them are the zone's; and
  otherwise it is 0 and the zone's document loses all of them, also when the deletion of the spaces
  stopped early: here the first has no document, so no space was deleted and no capacity given back.\<close>

theorem MapDeduct_orphans:
  assumes laws: "json_law sys" "couchbase_law sys" "couchbase_up sys" and wf: "wf_Zone z"
    and z: "cb_docs sys w (zone_key sys k) = Some (serialize sys ser_Zone z)"
    and "cb_docs sys w (manager_bucket sys, space_prefix @ s) = None"
  shows "wp (MapDeduct sys k u (s # ss)) (\<lambda>r w'.
    if z_ownerID z \<noteq> u then r = Val EACCES \<and> cb_docs sys w' = cb_docs sys w
    else if \<not> mset (s # ss) \<subseteq># mset (z_spaceID z) then r = Val EINVAL \<and> cb_docs sys w' = cb_docs sys w
    else r = Val 0 \<and> cb_docs sys w' = (cb_docs sys w)(zone_key sys k \<mapsto> serialize sys ser_Zone
      ((carry_Zone z (new_Zone sys))\<lparr>z_spaceID := filter (\<lambda>x. x \<notin> set (s # ss)) (z_spaceID z),
         z_contains_spaceinfo := False\<rparr>))) w"
proof -
  have del: "wp (bnd (SpaceDelete sys (s # ss)) f) Q w'"
    if "cb_docs sys w' = cb_docs sys w" "\<And>w''. cb_docs sys w'' = cb_docs sys w \<Longrightarrow> wp (f 0) Q w''" for f Q w'
    using that SpaceDelete_stops [OF laws(2,3), of w' s ss] assms(6)
    by (auto simp del: SpaceDelete.simps wp_bnd intro!: wp_step)
  show ?thesis
    unfolding MapDeduct_def Let_def
    by (rule up_zone [OF laws wf z])
      (auto simp: isSubset_iff erase_members_eq simp del: wp_bnd SpaceDelete.simps mset.simps
        intro!: del up_set [OF laws(2,3)])
qed

lemma MapDeduct_orphans_witness:
  "wp (MapDeduct mem_sys ''z1'' ''u1'' [''gone'', ''p1'']) (\<lambda>r w'. r = Val 0 \<and>
     cb_docs mem_sys w' = (cb_docs mem_sys gone_mem)((''gvds'', ''ZONE-z1'') \<mapsto> serialize mem_sys ser_Zone
      ((carry_Zone gone_zone (new_Zone mem_sys))\<lparr>z_spaceID := [], z_contains_spaceinfo := False\<rparr>))) gone_mem"
  using MapDeduct_orphans [OF mem_laws wf_gone_zone, of gone_mem "''z1''" "''gone''" "''u1''" "[''p1'']"]
  by (simp add: zone_prefix_def space_prefix_def)

end
