(* ===== verification/User_Lifecycle.thy ===== *)
theory User_Lifecycle
  imports User_Props
begin

text \<open>
  Changing and cancelling accounts, logging out, and the requests that wait for an administrator.
\<close>

section \<open>Changing account data\<close>

text \<open>The request that changes account data is not authenticated and carries the password: when no
  call fails, whoever sends account data with the identifier of an existing name can then log in under
  that name with the password he sent, whatever account was stored before.\<close>

theorem modify_then_login:
  assumes laws: "json_law sys" "couchbase_law sys" "couchbase_up sys" and wf: "wf_Account a"
    and name: "simple_path name" "name_entry sys (cb_docs sys w) name = Some (JStr (acc_accountID a))"
  shows "wp (bnd (modifyUserinfo sys a) (\<lambda>_. UserLogin sys name (acc_Password a) [] []))
    (\<lambda>r w'. \<exists>identity. r = Val (True, acc_accountID a, identity)) w"
  unfolding modifyUserinfo_def bnd_assoc
proof (rule up_init [OF laws(2,3)], rule up_set [OF laws(2,3)], goal_cases)
  case (1 w1 w2)
  then have e: "name_entry sys (cb_docs sys w2) name = Some (JStr (acc_accountID a))"
    "cb_docs sys w2 (manager_bucket sys, user_prefix @ acc_accountID a) = Some (serialize sys ser_Account a)"
    using name(2) by (simp_all add: name_entry_def)
  have "nul_free (acc_accountID a)" using wf by (simp add: wf_Account_def)
  from up_UserLogin [OF laws name(1) e(1) this e(2) wf, of "acc_Password a"]
  show ?case by (auto elim!: wp_mono)
qed

lemma modify_then_login_witness:
  "wp (bnd (modifyUserinfo mem_sys (sample_account\<lparr>acc_Password := ''mine''\<rparr>)) (\<lambda>_. UserLogin mem_sys ''bob'' ''mine'' [] []))
    (\<lambda>r w'. \<exists>identity. r = Val (True, ''u1'', identity)) user_mem"
proof -
  have "wf_Account (sample_account\<lparr>acc_Password := ''mine''\<rparr>)"
    using wf_sample_account by (simp add: wf_Account_def nul_free_def)
  from modify_then_login [OF mem_laws this, of "''bob''" user_mem]
  show ?thesis by (simp add: simple_path_def del: wp_bnd)
qed

section \<open>Logging out\<close>

text \<open>Logging out never reports a failure: whatever the store does, even when the token was not
  removed, the answer is \<open>0\<close>, unless the store could not be opened, when the handler crashes.\<close>

theorem exitUserAccountRest_answer:
  "fst (exitUserAccountRest sys cookies w) \<in> {Val (200, ''0''), Crash Null_Deref}"
proof -
  have opened: "wp (open_ds sys b) (\<lambda>r w'. r = Val None \<or> r = Val (Some (Datastore b True))) v" for b v
    unfolding create_datastore_def ds_connect_def
    by (auto simp: wp_ext split: option.splits prod.splits)
  have removed: "wp (ds_remove sys (Some (Datastore b True)) k) (\<lambda>r w'. \<exists>rc. r = Val rc) v" for b k v
    by (auto simp: ds_remove_def wp_ext split: prod.splits)
  have "wp (exitUserAccountRest sys cookies) (\<lambda>r w'. r \<in> {Val (200, ''0''), Crash Null_Deref}) w"
    unfolding exitUserAccountRest_def exitUserAccount_def Let_def bnd_assoc wp_bnd
    by (rule wp_mono [OF opened]) (auto intro!: wp_mono [OF removed])
  then show ?thesis by (cases "exitUserAccountRest sys cookies w") (simp add: wp_def)
qed

section \<open>Cancelling an account\<close>

lemma select_zone_owner_query: "select_query (zone_owner_query sys u)"
  by (simp add: select_query_def zone_owner_query_def snprintf_n_def)

text \<open>Cancelling an account does not complete: when no call fails, the user owns no zone and has local
  accounts, and no document happens to have the name of the account as its key, the answer is \<open>-1\<close>; the
  local accounts are gone by then, but the account itself and its name stay.\<close>

theorem cancellation_incomplete:
  assumes laws: "json_law sys" "couchbase_law sys" "couchbase_up sys" and wf: "wf_Account a"
    and acc: "cb_docs sys w (manager_bucket sys, user_prefix @ u) = Some (serialize sys ser_Account a)"
    and q: "answers sys (zone_owner_query sys u) []"
    and "cb_docs sys w (manager_bucket sys, sc_user_prefix @ u) \<noteq> None"
    and "cb_docs sys w (manager_bucket sys, acc_accountName a) = None"
  shows "wp (cancellationUserAccount sys u) (\<lambda>r w'. r = Val ''-1'' \<and>
    cb_docs sys w' = (cb_docs sys w)((manager_bucket sys, sc_user_prefix @ u) := None)) w"
proof -
  have gone: "wp (bnd (ds_remove sys (Some (Datastore b True)) k) f) Q w'"
    if "cb_docs sys w' (b, k) = None"
      "\<And>w'' rc. rc \<noteq> 0 \<Longrightarrow> cb_docs sys w'' = cb_docs sys w' \<Longrightarrow> wp (f rc) Q w''" for b k f Q w'
  proof -
    have same: "(cb_docs sys w')((b, k) := None) = cb_docs sys w'" using that(1) by auto
    show ?thesis unfolding wp_bnd by (rule wp_ds_remove [OF laws(2)]) (use that same in auto)
  qed
  show ?thesis
    unfolding cancellationUserAccount_def
    apply (rule up_open [OF laws(2,3)])
    apply (rule up_get [OF laws(2,3)], simp add: acc)
    apply (simp only: run_simps Account_json.load_roundtrip [OF laws(1) wf])
    apply (rule up_open [OF laws(2,3)])
    apply (rule up_n1ql [OF laws(2) q])
    apply (simp del: wp_bnd)
    apply (rule up_init [OF laws(2,3)])
    apply (rule up_remove [OF laws(2,3)], simp add: assms(7))
    apply (simp del: wp_bnd)
    apply (rule gone)
    using assms(8) by simp_all
qed

lemma mem_answers_owner: "answers (mem_sysq rows) (zone_owner_query (mem_sysq rows) u) []"
  by (simp add: answers_def select_zone_owner_query asks_storage_def) (simp add: zone_owner_query_def snprintf_n_def)

lemma cancellation_incomplete_witness:
  "wp (cancellationUserAccount mem_sys ''u1'') (\<lambda>r w'. r = Val ''-1'' \<and>
     cb_docs mem_sys w' = (cb_docs mem_sys user_mem)((''gvds'', ''SCUSER-u1'') := None)) user_mem"
  using cancellation_incomplete [OF mem_laws wf_sample_account _ mem_answers_owner, of user_mem]
  by (simp add: user_prefix_def sc_user_prefix_def)

text \<open>A cancelled name is never free again: whatever the cancellation of an account does and whatever
  it answers, the name stays entered, and registering it again, when no call fails, is refused.\<close>

theorem cancelled_name_taken:
  assumes laws: "json_law sys" "couchbase_law sys" "couchbase_up sys" and wf: "wf_Account a"
    and acc: "cb_docs sys w (manager_bucket sys, user_prefix @ u) = Some (serialize sys ser_Account a)"
    and "acc_accountName a \<noteq> user_map_key"
    and name: "simple_path (acc_accountName b)" "name_entry sys (cb_docs sys w) (acc_accountName b) \<noteq> None"
  shows "wp (bnd (cancellationUserAccount sys u) (\<lambda>_. UserRegister sys b))
    (\<lambda>r w'. r = Val ''Account name already exists!'' \<or> r = Crash Assert_Failed) w"
proof -
  let ?map = "(manager_bucket sys, user_map_key)"
  have cancelled: "wp (cancellationUserAccount sys u) (\<lambda>r w'. cb_docs sys w' ?map = cb_docs sys w ?map \<and>
      (\<forall>c. r = Crash c \<longrightarrow> c = Assert_Failed)) w"
    unfolding cancellationUserAccount_def
    apply (rule up_open [OF laws(2,3)])
    apply (rule up_get [OF laws(2,3)], simp add: acc)
    apply (simp only: run_simps Account_json.load_roundtrip [OF laws(1) wf])
    apply (rule up_open [OF laws(2,3)])
    apply (subst wp_bnd, rule wp_ds_n1ql [OF laws(2) select_zone_owner_query])
     apply (auto simp: assms(6) assms(6) [symmetric] laws(3) intro!: wp_ds_init_direct [OF laws(2)] wp_ds_remove [OF laws(2)])
    done
  have again: "wp (UserRegister sys b) (\<lambda>r w''. r = Val ''Account name already exists!'') w'"
    if "cb_docs sys w' ?map = cb_docs sys w ?map" for w'
    using name that unfolding UserRegister_def
    by (intro up_open [OF laws(2,3)])
      (auto simp: name_entry_def simp del: wp_bnd intro!: up_get_sub [OF laws(2,3) name(1)])
  show ?thesis
    unfolding wp_bnd by (rule wp_mono [OF cancelled]) (auto split: outcome.split intro: wp_mono [OF again])
qed

lemma cancelled_name_taken_witness:
  "wp (bnd (cancellationUserAccount mem_sys ''u1'') (\<lambda>_. UserRegister mem_sys sample_account))
    (\<lambda>r w'. r = Val ''Account name already exists!'' \<or> r = Crash Assert_Failed) user_mem"
  by (rule cancelled_name_taken [OF mem_laws wf_sample_account])
    (simp_all add: user_prefix_def user_map_key_def simple_path_def)

section \<open>Requests waiting for an administrator\<close>

text \<open>The list of waiting requests is answered to administrators only: whatever fails, to anybody else
  the answer is \<open>33\<close>, unless the store could not be opened, when the handler crashes; and no document
  changes.\<close>

theorem viewbufferList_admins_only:
  assumes law: "couchbase_law sys" and "u \<notin> admins_in sys (cb_docs sys w)"
  shows "wp (viewbufferList sys u) (\<lambda>r w'. r \<in> {Val ''33'', Crash Null_Deref} \<and>
    cb_docs sys w' = cb_docs sys w) w"
  unfolding viewbufferList_def wp_bnd
  by (rule wp_validadminidentity [OF law]) (use assms(2) in auto)

lemma viewbufferList_admins_only_witness:
  "wp (viewbufferList mem_sys ''u1'') (\<lambda>r w'. r \<in> {Val ''33'', Crash Null_Deref} \<and>
    cb_docs mem_sys w' = cb_docs mem_sys user_mem) user_mem"
  by (rule viewbufferList_admins_only [OF mem_laws(2)]) simp

text \<open>The request that removes a waiting request removes any document: when no call fails, the body of
  the request is the key, whether it names a waiting request, an account, a space or a zone, and nobody
  is asked who he is.\<close>

theorem removeapply_removes_anything:
  assumes laws: "couchbase_law sys" "couchbase_up sys"
    and "cb_docs sys w (manager_bucket sys, k) \<noteq> None"
  shows "wp (removeoneofApplyInfoRest sys k) (\<lambda>r w'. r = Val (200, ''0'') \<and>
    cb_docs sys w' = (cb_docs sys w)((manager_bucket sys, k) := None)) w"
  unfolding removeoneofApplyInfoRest_def
  by (rule up_open [OF laws], rule up_remove [OF laws]) (use assms(3) in auto)

lemma removeapply_removes_anything_witness:
  "wp (removeoneofApplyInfoRest mem_sys ''ZONE-z1'') (\<lambda>r w'. r = Val (200, ''0'') \<and>
    cb_docs mem_sys w' = (cb_docs mem_sys sample_mem)((''gvds'', ''ZONE-z1'') := None)) sample_mem"
  using removeapply_removes_anything [OF mem_laws(2,3), of sample_mem "''ZONE-z1''"] by simp

end
