(* ===== verification/Registries.thy ===== *)
theory Registries
  imports SpaceServer
begin

text \<open>
  The registries of the manager: \<open>manager/mconf/mconf.cc\<close> (the centres and the pools of local accounts),
  \<open>manager/resaggregation_mgr.cc\<close> (the storage resources) and \<open>manager/ioproxy_mgr.cc\<close> (the I/O
  proxies). The first two keep their data in documents only; the third also keeps a map of the live
  proxies in memory, which its operations take and return.
\<close>

abbreviation (input) http_accepted :: "string \<Rightarrow> response" where "http_accepted s \<equiv> (202, s)"
abbreviation (input) http_bad_request :: "string \<Rightarrow> response" where "http_bad_request s \<equiv> (400, s)"
abbreviation (input) http_not_found :: "string \<Rightarrow> response" where "http_not_found s \<equiv> (404, s)"

section \<open>Centres\<close>

definition center_key :: string where "center_key = ''center_information''"

text \<open>The accounts \<open>test1\<close> to \<open>test100\<close> of a new centre, all unused.\<close>

definition test_accounts :: "(string \<times> string) list" where
  "test_accounts =
     foldl (\<lambda>m i. smap_set (snprintf_n 32 (''test'' @ nat_dec i)) [] m) [] [1..<101]"

definition new_pool :: "(string \<times> (string \<times> string) list) list" where
  "new_pool = smap_set ''unuse_account'' test_accounts
     (smap_set ''unuse_account'' [] (smap_set ''use_account'' [] []))"

text \<open>What a request makes of the table: an entry for its centre, replaced or new.\<close>

definition put_center :: "fe_center_info \<Rightarrow> center_info \<Rightarrow> center_info" where
  "put_center fe c = c\<lparr>
     ci_centerID := (if list_ex (\<lambda>i. fe_centerID fe = i) (ci_centerID c) then ci_centerID c
                     else ci_centerID c @ [fe_centerID fe]),
     ci_centerIP := smap_set (fe_centerID fe) (fe_centerIP fe) (ci_centerIP c),
     ci_centerPort := smap_set (fe_centerID fe) (fe_centerPort fe) (ci_centerPort c),
     ci_centerName := smap_set (fe_centerID fe) (fe_centerName fe) (ci_centerName c)\<rparr>"

text \<open>Every failure to read the table counts as the first access, and the table starts empty.\<close>

definition addCenter :: "'w sys \<Rightarrow> fe_center_info \<Rightarrow> ('w, int) prog" where
  "addCenter sys FEcenter =
    bnd (open_ds sys (manager_bucket sys)) (\<lambda>f0_dbPtr.
    bnd (ds_get sys f0_dbPtr center_key) (\<lambda>(pvalue, error_0).
    bnd (if error_0 \<noteq> 0 then ret new_CenterInfo
         else bnd (deref pvalue) (\<lambda>v. ret (load sys des_CenterInfo v new_CenterInfo))) (\<lambda>mycenter.
    bnd (if list_ex (\<lambda>i. fe_centerID FEcenter = i) (ci_centerID mycenter) then ret ()
         else bnd (ds_set sys f0_dbPtr (fe_centerName FEcenter)
                     (json_encode sys (enc_map (enc_map enc_str)) new_pool)) (\<lambda>_. ret ())) (\<lambda>_.
    bnd (ds_set sys f0_dbPtr center_key (serialize sys ser_CenterInfo (put_center FEcenter mycenter)))
      (\<lambda>flag. if flag \<noteq> 0 then ret (- 1) else ret 0)))))"

definition new_FECenterInfo :: fe_center_info where
  "new_FECenterInfo = \<lparr>fe_centerID = [], fe_centerIP = [], fe_centerPort = [], fe_centerName = []\<rparr>"

definition addCenterRest :: "'w sys \<Rightarrow> string \<Rightarrow> ('w, response) prog" where
  "addCenterRest sys info =
     bnd (addCenter sys (load sys des_FECenterInfo info new_FECenterInfo)) (\<lambda>flag.
     ret (if flag = - 1 then http_not_found ''fail'' else http_ok ''success''))"

definition searchCenter :: "'w sys \<Rightarrow> ('w, string) prog" where
  "searchCenter sys =
    bnd (open_ds sys (manager_bucket sys)) (\<lambda>f0_dbPtr.
    bnd (ds_get sys f0_dbPtr center_key) (\<lambda>(pvalue, error_0).
    if error_0 \<noteq> 0 then ret ''fail'' else deref pvalue))"

definition reply_fail :: "('w, string) prog \<Rightarrow> ('w, response) prog" where
  "reply_fail f = bnd f (\<lambda>data. ret (if data = ''fail'' then http_not_found ''fail'' else http_ok data))"

definition searchCenterRest :: "'w sys \<Rightarrow> ('w, response) prog" where
  "searchCenterRest sys = reply_fail (searchCenter sys)"

text \<open>The first occurrence of the identifier goes, and the entries of the three maps.\<close>

definition drop_center :: "string \<Rightarrow> center_info \<Rightarrow> center_info" where
  "drop_center centerID c = c\<lparr>
     ci_centerID := remove1 centerID (ci_centerID c),
     ci_centerIP := smap_erase centerID (ci_centerIP c),
     ci_centerPort := smap_erase centerID (ci_centerPort c),
     ci_centerName := smap_erase centerID (ci_centerName c)\<rparr>"

definition deleteCenter :: "'w sys \<Rightarrow> string \<Rightarrow> ('w, string) prog" where
  "deleteCenter sys centerID =
    bnd (open_ds sys (manager_bucket sys)) (\<lambda>f0_dbPtr.
    bnd (ds_get sys f0_dbPtr center_key) (\<lambda>(pvalue, error_0).
    if error_0 \<noteq> 0 then ret ''fail''
    else bnd (deref pvalue) (\<lambda>v.
      let mycenter = load sys des_CenterInfo v new_CenterInfo in
      if \<not> list_ex (\<lambda>i. i = centerID) (ci_centerID mycenter) then ret ''fail''
      else
        bnd (ds_set sys f0_dbPtr center_key
               (serialize sys ser_CenterInfo (drop_center centerID mycenter))) (\<lambda>flag.
        if flag \<noteq> 0 then ret ''fail'' else ret ''success''))))"

definition deleteCenterRest :: "'w sys \<Rightarrow> string \<Rightarrow> ('w, response) prog" where
  "deleteCenterRest sys info = reply_fail (deleteCenter sys info)"

definition Mconf_router :: "(string \<times> string \<times> ('w sys \<Rightarrow> string \<Rightarrow> ('w, response) prog)) list" where
  "Mconf_router =
     [(''POST'', ''/mconf/addCenter'', addCenterRest),
      (''GET'', ''/mconf/searchCenter'', \<lambda>sys _. searchCenterRest sys),
      (''POST'', ''/mconf/deleteCenter'', deleteCenterRest)]"

section \<open>Storage resources\<close>

text \<open>
  \<open>parse_request\<close> never returns a null pointer: the deserialiser keeps the object as it is when the
  text is not a JSON object, and throws nothing.
\<close>

definition parse_storage :: "'w sys \<Rightarrow> string \<Rightarrow> storage_resource option" where
  "parse_storage sys body = Some (load sys (des_StorageResource sys) body (new_StorageResource sys))"

definition resource_add :: "'w sys \<Rightarrow> string \<Rightarrow> ('w, bool \<times> response) prog" where
  "resource_add sys body =
    bnd (open_ds sys (manager_bucket sys)) (\<lambda>dbPtr.
    case parse_storage sys body of
      None \<Rightarrow> ret (False, http_bad_request ''resource parse fail'')
    | Some storage_res \<Rightarrow>
        bnd (ds_get sys dbPtr (storage_key storage_res)) (\<lambda>(vp, err).
        if err = 0 then ret (False, http_bad_request ''fail, resource already exist'')
        else
          bnd (ds_insert sys dbPtr (storage_key storage_res)
                 (serialize sys ser_StorageResource storage_res)) (\<lambda>err.
          if err = 0 then ret (True, http_accepted ''ok'')
          else ret (False, http_bad_request ''fail''))))"

definition resource_query :: "'w sys \<Rightarrow> string \<Rightarrow> string" where
  "resource_query sys uuid = snprintf_n 256
    (if uuid = ''all'' then
       ''select assign_capacity,host_center_id,host_center_name,mgs_address,state, ''
       @ ''storage_src_id, storage_src_name, total_capacity'' @ '' from '' @ bq @ cstr (manager_bucket sys)
       @ bq @ '' where META().id like '' @ [CHR 0x27] @ storage_prefix @ ''%'' @ [CHR 0x27]
       @ '' order by '' @ ''META().id''
     else ''select * from '' @ bq @ cstr (manager_bucket sys) @ bq @ '' where META().id == '' @ [CHR 0x27]
       @ cstr (storage_prefix @ uuid) @ [CHR 0x27])"

text \<open>A row is decoded into a new object; a row that is not a JSON object fails an assertion.\<close>

definition decode_storage :: "'w sys \<Rightarrow> string \<Rightarrow> storage_resource outcome" where
  "decode_storage sys row =
     deserialize_value (\<lambda>ms s. Val (des_StorageResource sys ms s))
       (case rj_parse sys (cstr row) of Some v \<Rightarrow> v | None \<Rightarrow> JNull) (new_StorageResource sys)"

fun decode_storages :: "'w sys \<Rightarrow> string list \<Rightarrow> storage_resource list outcome" where
  "decode_storages sys [] = Val []"
| "decode_storages sys (row # rows) =
     (case decode_storage sys row of Crash c \<Rightarrow> Crash c
      | Val s \<Rightarrow> (case decode_storages sys rows of Crash c \<Rightarrow> Crash c | Val ss \<Rightarrow> Val (s # ss)))"

definition resource_list :: "'w sys \<Rightarrow> string \<Rightarrow> ('w, bool \<times> response) prog" where
  "resource_list sys uuid =
    bnd (open_ds sys (manager_bucket sys)) (\<lambda>dbPtr.
    bnd (ds_n1ql sys dbPtr (resource_query sys uuid)) (\<lambda>(iop_infos, err).
    if err = 0 then
      (case decode_storages sys iop_infos of
         Crash c \<Rightarrow> crash c
       | Val rstlists \<Rightarrow> ret (True, http_ok (json_encode sys
           (enc_vec (enc_ptr (\<lambda>s. JObj (ser_StorageResource s)))) (map Some rstlists))))
    else ret (False, http_bad_request [])))"

definition resource_delete_query :: "'w sys \<Rightarrow> string \<Rightarrow> string" where
  "resource_delete_query sys uuid = snprintf_n 256
    (if uuid = ''all'' then
       ''delete from '' @ bq @ cstr (manager_bucket sys) @ bq @ '' where SUBSTR(META().id,0,''
       @ nat_dec (length storage_prefix) @ '') == '' @ [CHR 0x27] @ storage_prefix @ [CHR 0x27]
     else ''delete from '' @ bq @ cstr (manager_bucket sys) @ bq @ '' where META().id == '' @ [CHR 0x27]
       @ cstr (storage_prefix @ uuid) @ [CHR 0x27])"

definition resource_del :: "'w sys \<Rightarrow> string \<Rightarrow> ('w, bool \<times> response) prog" where
  "resource_del sys uuid =
    bnd (open_ds sys (manager_bucket sys)) (\<lambda>dbPtr.
    bnd (ds_n1ql sys dbPtr (resource_delete_query sys uuid)) (\<lambda>(iop_infos, err).
    if err = 0 then ret (True, http_ok ''ok'') else ret (False, http_bad_request ''fail'')))"

text \<open>A text keeps the stored one when it begins with \<open>#\<close>, a number when it is \<open>-1\<close>.\<close>

definition pick_text :: "string \<Rightarrow> string \<Rightarrow> string" where
  "pick_text new old = (if new \<noteq> [] \<and> hd new = CHR ''#'' then old else new)"

definition pick_num :: "int \<Rightarrow> int \<Rightarrow> int" where
  "pick_num new old = (if new \<noteq> - 1 then new else old)"

definition merge_storage :: "storage_resource \<Rightarrow> storage_resource \<Rightarrow> storage_resource" where
  "merge_storage new old = old\<lparr>
     st_storage_src_id := pick_text (st_storage_src_id new) (st_storage_src_id old),
     st_storage_src_name := pick_text (st_storage_src_name new) (st_storage_src_name old),
     st_host_center_id := pick_text (st_host_center_id new) (st_host_center_id old),
     st_host_center_name := pick_text (st_host_center_name new) (st_host_center_name old),
     st_total_capacity := pick_num (st_total_capacity new) (st_total_capacity old),
     st_assign_capacity := pick_num (st_assign_capacity new) (st_assign_capacity old),
     st_mgs_address := pick_text (st_mgs_address new) (st_mgs_address old),
     st_state := pick_num (st_state new) (st_state old)\<rparr>"

definition resource_update :: "'w sys \<Rightarrow> string \<Rightarrow> ('w, bool \<times> response) prog" where
  "resource_update sys body =
    bnd (open_ds sys (manager_bucket sys)) (\<lambda>dbPtr.
    case parse_storage sys body of
      None \<Rightarrow> ret (False, http_bad_request ''resource parse fail'')
    | Some storage_res \<Rightarrow>
        bnd (ds_get sys dbPtr (storage_key storage_res)) (\<lambda>(vp, err).
        if err \<noteq> 0 then ret (False, http_bad_request ''fail, resource dose not exist'')
        else bnd (deref vp) (\<lambda>v.
          case decode_storage sys v of
            Crash c \<Rightarrow> crash c
          | Val storRe \<Rightarrow>
              bnd (ds_set sys dbPtr (storage_key storage_res)
                     (serialize sys ser_StorageResource (merge_storage storage_res storRe))) (\<lambda>rc.
              if rc = 0 then ret (True, http_accepted ''ok'')
              else ret (False, http_bad_request ''fail'')))))"

text \<open>The routes: what a handler takes is the body of the request, or the parameter \<open>:id\<close> of its path.\<close>

definition ResAggregation_router ::
  "(string \<times> string \<times> ('w sys \<Rightarrow> string \<Rightarrow> ('w, bool \<times> response) prog)) list" where
  "ResAggregation_router =
     [(''POST'', ''/resource/register'', resource_add), (''GET'', ''/resource/query/:id'', resource_list),
      (''DELETE'', ''/resource/delete/:id'', resource_del), (''POST'', ''/resource/update'', resource_update)]"

section \<open>I/O proxies\<close>

text \<open>The state: the proxies in memory, by identifier.\<close>

type_synonym live_proxies = "(string \<times> ioproxy_node) list"

text \<open>A new node has an identifier of its own and stopped state; its ports are indeterminate.\<close>

definition new_IOProxyNode :: "'z indet_scheme \<Rightarrow> string \<Rightarrow> ioproxy_node" where
  "new_IOProxyNode d u = \<lparr>iop_rpc_port = ud_int d, iop_data_port = ud_int d, iop_ip = [], iop_name = [],
     iop_status = 1, iop_uuid = u, iop_cid = []\<rparr>"

definition parse_proxy :: "'w sys \<Rightarrow> string \<Rightarrow> ('w, ioproxy_node option) prog" where
  "parse_proxy sys body =
     bnd (ext (uuid_gen sys)) (\<lambda>u.
     ret (Some (load sys (des_IOProxyNode sys) body (new_IOProxyNode sys u))))"

definition proxy_add :: "'w sys \<Rightarrow> live_proxies \<Rightarrow> string \<Rightarrow> ('w, live_proxies \<times> bool \<times> response) prog" where
  "proxy_add sys live body =
    bnd (parse_proxy sys body) (\<lambda>iop.
    case iop of
      None \<Rightarrow> ret (live, False, http_bad_request [])
    | Some iop \<Rightarrow>
        let iop = iop\<lparr>iop_status := 0\<rparr>;
            live = smap_set (iop_uuid iop) iop live in
        bnd (open_ds sys (manager_bucket sys)) (\<lambda>dbPtr.
        bnd (ds_set sys dbPtr (ioproxy_prefix @ iop_uuid iop) (serialize sys ser_IOProxyNode iop)) (\<lambda>err.
        ret (live, True, http_accepted (iop_uuid iop)))))"

definition proxy_list :: "'w sys \<Rightarrow> live_proxies \<Rightarrow> ('w, bool \<times> response) prog" where
  "proxy_list sys live =
     ret (True, http_ok (json_encode sys (enc_map (enc_ptr (\<lambda>n. JObj (ser_IOProxyNode n))))
       (map (\<lambda>(k, n). (k, Some n)) live)))"

definition proxy_del :: "'w sys \<Rightarrow> live_proxies \<Rightarrow> string \<Rightarrow> ('w, live_proxies \<times> bool \<times> response) prog" where
  "proxy_del sys live uuid =
    bnd (open_ds sys (manager_bucket sys)) (\<lambda>dbPtr.
    bnd (ds_remove sys dbPtr (ioproxy_prefix @ uuid)) (\<lambda>err.
    ret (smap_erase uuid live, True, if err = 0 then http_ok uuid else http_bad_request uuid)))"

definition proxy_update :: "'w sys \<Rightarrow> live_proxies \<Rightarrow> string \<Rightarrow> ('w, live_proxies \<times> bool \<times> response) prog" where
  "proxy_update sys live uuid = crash Missing_Return"

definition proxy_query :: "'w sys \<Rightarrow> string" where
  "proxy_query sys = snprintf_n 256
     (''select uuid,data_port,ip,name,rpc_port,cid from '' @ bq @ cstr (manager_bucket sys) @ bq
      @ '' where '' @ ''META().id like '' @ [CHR 0x27] @ ioproxy_prefix @ ''%'' @ [CHR 0x27])"

text \<open>The error of the query is not looked at: after a failure the map is empty.\<close>

primrec init_loop :: "'w sys \<Rightarrow> live_proxies \<Rightarrow> string list \<Rightarrow> ('w, live_proxies) prog" where
  "init_loop sys tmp [] = ret tmp"
| "init_loop sys tmp (info # infos) =
     bnd (ext (uuid_gen sys)) (\<lambda>u.
     let ion = load sys (des_IOProxyNode sys) info (new_IOProxyNode sys u) in
     init_loop sys (smap_set (iop_uuid ion) ion tmp) infos)"

definition init_ioproxy_list :: "'w sys \<Rightarrow> ('w, live_proxies) prog" where
  "init_ioproxy_list sys =
    bnd (open_ds sys (manager_bucket sys)) (\<lambda>dbPtr.
    bnd (ds_n1ql sys dbPtr (proxy_query sys)) (\<lambda>(iop_infos_p, err).
    init_loop sys [] iop_infos_p))"

definition proxy_start :: "'w sys \<Rightarrow> live_proxies \<Rightarrow> ('w, live_proxies) prog" where
  "proxy_start sys live = init_ioproxy_list sys"

text \<open>
  The routes that read or change the registry; \<open>GET /ioproxy/detail\<close> gives out statistics that no operation
  here keeps, and is listed with the routes of the manager (\<open>module_routes\<close>).
\<close>

definition IOProxy_router ::
  "(string \<times> string \<times> ('w sys \<Rightarrow> live_proxies \<Rightarrow> string \<Rightarrow> ('w, live_proxies \<times> bool \<times> response) prog)) list" where
  "IOProxy_router =
     (let list = (\<lambda>sys live _. bnd (proxy_list sys live) (\<lambda>(b, r). ret (live, b, r))) in
     [(''GET'', ''/ioproxy'', list), (''GET'', ''/ioproxy/:id'', list), (''POST'', ''/ioproxy'', proxy_add),
      (''DELETE'', ''/ioproxy/:id'', proxy_del), (''PUT'', ''/ioproxy/:id'', proxy_update)])"

end
