(* ===== verification/Registry_Props.thy ===== *)
theory Registry_Props
  imports Registries Space_Props
begin

text \<open>
  The table of centres and its consistency, registering and updating storage resources, and the map of
  live I/O proxies.
\<close>

section \<open>The table of centres\<close>

text \<open>Every listed centre has an address, a port and a name, and only those have; none is listed twice.\<close>

definition centers_ok :: "center_info \<Rightarrow> bool" where
  "centers_ok c \<longleftrightarrow> distinct (ci_centerID c) \<and> wf_CenterInfo c \<and>
     fst ` set (ci_centerIP c) = set (ci_centerID c) \<and>
     fst ` set (ci_centerPort c) = set (ci_centerID c) \<and>
     fst ` set (ci_centerName c) = set (ci_centerID c)"

lemma list_ex_eq [simp]: "list_ex (\<lambda>i. x = i) xs \<longleftrightarrow> x \<in> set xs" "list_ex (\<lambda>i. i = x) xs \<longleftrightarrow> x \<in> set xs"
  by (auto simp: list_ex_iff)

lemma set_smap_set: "set (smap_set k v m) \<subseteq> insert (k, v) (set m)"
  by (induction k v m rule: smap_set.induct) auto

lemma str_map_ok_set: "str_map_ok m \<Longrightarrow> nul_free k \<Longrightarrow> nul_free v \<Longrightarrow> str_map_ok (smap_set k v m)"
  using set_smap_set [of k v m] by (auto simp: str_map_ok_def list_all_iff)

lemma str_map_ok_erase: "str_map_ok m \<Longrightarrow> str_map_ok (smap_erase k m)"
  by (auto simp: str_map_ok_def list_all_iff) (auto simp: smap_erase_def)

lemma centers_ok_put: "wf_FECenterInfo fe \<Longrightarrow> centers_ok c \<Longrightarrow> centers_ok (put_center fe c)"
  by (auto simp: centers_ok_def put_center_def wf_CenterInfo_def wf_FECenterInfo_def str_map_ok_set)

lemma centers_ok_drop: "centers_ok c \<Longrightarrow> centers_ok (drop_center k c)"
  by (auto simp: centers_ok_def drop_center_def wf_CenterInfo_def str_map_ok_erase list_all_iff
      dest: notin_set_remove1)

lemma smap_erase_set:
  "smap_ok m \<Longrightarrow> k \<notin> fst ` set m \<Longrightarrow> smap_erase k (smap_set k v m) = m"
proof (induction k v m rule: smap_set.induct)
  case (2 k v k' v' m)
  have "smap_erase k m = m" using 2(3) by (auto simp: smap_erase_def filter_id_conv)
  with 2 show ?case by (auto simp: smap_erase_def smap_ok_Cons split: if_splits)
qed (simp add: smap_erase_def)

lemma drop_put_center:
  assumes "centers_ok c" "fe_centerID fe \<notin> set (ci_centerID c)"
  shows "drop_center (fe_centerID fe) (put_center fe c) = c"
  using assms
  by (auto simp: centers_ok_def drop_center_def put_center_def remove1_append smap_erase_set
      wf_CenterInfo_def str_map_ok_def)

text \<open>The table that the documents hold.\<close>

abbreviation centers_key :: "'w sys \<Rightarrow> dockey" where
  "centers_key sys \<equiv> (manager_bucket sys, center_key)"

definition table_in :: "'w sys \<Rightarrow> docs \<Rightarrow> center_info \<Rightarrow> bool" where
  "table_in sys d c \<longleftrightarrow> centers_ok c \<and> d (centers_key sys) = Some (serialize sys ser_CenterInfo c)"

lemma wf_centers: "centers_ok c \<Longrightarrow> wf_CenterInfo c"
  by (simp add: centers_ok_def)

lemma up_addCenter:
  assumes laws: "json_law sys" "couchbase_law sys" "couchbase_up sys"
    and c: "table_in sys (cb_docs sys w) c" and "fe_centerName fe \<noteq> center_key"
  shows "wp (addCenter sys fe) (\<lambda>r w'. r = Val 0 \<and> cb_docs sys w' =
    ((if fe_centerID fe \<in> set (ci_centerID c) then cb_docs sys w
      else (cb_docs sys w)((manager_bucket sys, fe_centerName fe) \<mapsto>
             json_encode sys (enc_map (enc_map enc_str)) new_pool))
     (centers_key sys \<mapsto> serialize sys ser_CenterInfo (put_center fe c)))) w"
proof -
  have ok: "centers_ok c" "cb_docs sys w (centers_key sys) = Some (serialize sys ser_CenterInfo c)"
    using c by (simp_all add: table_in_def)
  show ?thesis
    unfolding addCenter_def
    apply (rule up_open [OF laws(2,3)])
    apply (rule up_get [OF laws(2,3)], simp add: ok)
    apply (simp only: run_simps bnd_assoc CenterInfo_json.load_roundtrip [OF laws(1) wf_centers [OF ok(1)]])
    apply (auto simp: bnd_assoc simp del: wp_bnd intro!: up_set [OF laws(2,3)])
    done
qed

lemma up_deleteCenter:
  assumes laws: "json_law sys" "couchbase_law sys" "couchbase_up sys"
    and c: "table_in sys (cb_docs sys w) c"
  shows "wp (deleteCenter sys k) (\<lambda>r w'. if k \<in> set (ci_centerID c)
    then r = Val ''success'' \<and>
      cb_docs sys w' = (cb_docs sys w)(centers_key sys \<mapsto> serialize sys ser_CenterInfo (drop_center k c))
    else r = Val ''fail'' \<and> cb_docs sys w' = cb_docs sys w) w"
proof -
  have ok: "centers_ok c" "cb_docs sys w (centers_key sys) = Some (serialize sys ser_CenterInfo c)"
    using c by (simp_all add: table_in_def)
  show ?thesis
    unfolding deleteCenter_def
    apply (rule up_open [OF laws(2,3)])
    apply (rule up_get [OF laws(2,3)], simp add: ok)
    apply (simp only: run_simps CenterInfo_json.load_roundtrip [OF laws(1) wf_centers [OF ok(1)]])
    apply (auto simp del: wp_bnd intro!: up_set [OF laws(2,3)])
    done
qed

text \<open>A request that adds or changes a centre, or deletes one.\<close>

datatype center_call = Add fe_center_info | Delete string

fun run_center :: "'w sys \<Rightarrow> center_call \<Rightarrow> ('w, unit) prog" where
  "run_center sys (Add fe) = bnd (addCenter sys fe) (\<lambda>_. ret ())"
| "run_center sys (Delete k) = bnd (deleteCenter sys k) (\<lambda>_. ret ())"

inductive center_step :: "'w sys \<Rightarrow> 'w \<Rightarrow> 'w \<Rightarrow> bool" for sys where
  step: "run_center sys c w = (r, w') \<Longrightarrow>
    (\<And>fe. c = Add fe \<Longrightarrow> wf_FECenterInfo fe \<and> fe_centerName fe \<noteq> center_key) \<Longrightarrow> center_step sys w w'"

text \<open>C33: Along any sequence of requests that add, change and delete centres, when no call fails, the
  table stays consistent: every listed centre has an address, a port and a name, only those have, and
  none is listed twice.\<close>

theorem centers_consistent:
  assumes laws: "json_law sys" "couchbase_law sys" "couchbase_up sys"
    and "table_in sys (cb_docs sys w) c" and "(center_step sys)\<^sup>*\<^sup>* w w'"
  shows "\<exists>c'. table_in sys (cb_docs sys w') c'"
  using assms(5,4)
proof (induction rule: rtranclp_induct)
  case base
  then show ?case by blast
next
  case (step w1 w2)
  then obtain c1 where c1: "table_in sys (cb_docs sys w1) c1" by blast
  then have ok: "centers_ok c1" by (simp add: table_in_def)
  from step.hyps(2) obtain x r where x: "run_center sys x w1 = (r, w2)"
    "\<And>fe. x = Add fe \<Longrightarrow> wf_FECenterInfo fe \<and> fe_centerName fe \<noteq> center_key"
    by (auto elim: center_step.cases)
  have "wp (run_center sys x) (\<lambda>r w'. \<exists>c'. table_in sys (cb_docs sys w') c') w1"
  proof (cases x)
    case (Add fe)
    then have fe: "wf_FECenterInfo fe" "fe_centerName fe \<noteq> center_key" using x(2) by blast+
    have "wp (addCenter sys fe) (\<lambda>r w'. r = Val 0 \<and> table_in sys (cb_docs sys w') (put_center fe c1)) w1"
      by (rule wp_mono [OF up_addCenter [OF laws c1 fe(2)]])
        (auto simp: table_in_def centers_ok_put [OF fe(1) ok])
    then show ?thesis using Add by (auto elim!: wp_mono)
  next
    case (Delete k)
    have "wp (deleteCenter sys k) (\<lambda>r w'. (\<exists>s. r = Val s) \<and> (\<exists>c'. table_in sys (cb_docs sys w') c')) w1"
      by (rule wp_mono [OF up_deleteCenter [OF laws c1, of k]])
        (use c1 in \<open>auto simp: table_in_def centers_ok_drop intro: exI [of _ "drop_center k c1"] split: if_splits\<close>)
    then show ?thesis using Delete by (auto elim!: wp_mono)
  qed
  from wp_D [OF this x(1)] show ?case .
qed

definition sample_fe :: fe_center_info where
  "sample_fe = \<lparr>fe_centerID = ''3'', fe_centerIP = ''10.0.0.3'', fe_centerPort = ''9090'',
     fe_centerName = ''Shanghai''\<rparr>"

lemma sample_table: "table_in mem_sys (cb_docs mem_sys sample_mem) sample_centers"
proof -
  have "centers_ok sample_centers"
    unfolding centers_ok_def using wf_samples(4) by (simp add: sample_centers_def insert_commute)
  then show ?thesis by (simp add: table_in_def center_key_def)
qed

lemma sample_fe_ok: "wf_FECenterInfo sample_fe" "fe_centerName sample_fe \<noteq> center_key"
  by (simp_all add: sample_fe_def wf_FECenterInfo_def nul_free_def center_key_def)

lemma centers_consistent_witness:
  "\<exists>c'. table_in mem_sys (cb_docs mem_sys (snd (run_center mem_sys (Add sample_fe) sample_mem))) c'"
proof -
  have "center_step mem_sys sample_mem (snd (run_center mem_sys (Add sample_fe) sample_mem))"
    by (rule center_step.step [OF prod.collapse [symmetric]]) (auto simp: sample_fe_ok)
  then have "(center_step mem_sys)\<^sup>*\<^sup>* sample_mem (snd (run_center mem_sys (Add sample_fe) sample_mem))"
    by (rule r_into_rtranclp)
  from centers_consistent [OF mem_laws sample_table this] show ?thesis .
qed

text \<open>Adding a new centre and deleting it again, when no call fails, gives the table back as it was;
  what stays is the pool of local accounts, the document named by the centre.\<close>

theorem add_then_delete_center:
  assumes laws: "json_law sys" "couchbase_law sys" "couchbase_up sys"
    and c: "table_in sys (cb_docs sys w) c" and fe: "wf_FECenterInfo fe" "fe_centerName fe \<noteq> center_key"
    and new: "fe_centerID fe \<notin> set (ci_centerID c)"
  shows "wp (bnd (addCenter sys fe) (\<lambda>r1. bnd (deleteCenter sys (fe_centerID fe)) (\<lambda>r2. ret (r1, r2))))
    (\<lambda>r w'. r = Val (0, ''success'') \<and> cb_docs sys w' =
       (cb_docs sys w)((manager_bucket sys, fe_centerName fe) \<mapsto>
         json_encode sys (enc_map (enc_map enc_str)) new_pool)) w"
proof -
  let ?d = "(cb_docs sys w)((manager_bucket sys, fe_centerName fe) \<mapsto>
      json_encode sys (enc_map (enc_map enc_str)) new_pool)"
  have ok: "centers_ok c" "cb_docs sys w (centers_key sys) = Some (serialize sys ser_CenterInfo c)"
    using c by (simp_all add: table_in_def)
  have undo: "wp (deleteCenter sys (fe_centerID fe)) (\<lambda>r w''. r = Val ''success'' \<and> cb_docs sys w'' = ?d) w'"
    if d: "cb_docs sys w' = ?d(centers_key sys \<mapsto> serialize sys ser_CenterInfo (put_center fe c))" for w'
  proof -
    have t: "table_in sys (cb_docs sys w') (put_center fe c)"
      using d centers_ok_put [OF fe(1) ok(1)] by (simp add: table_in_def)
    have "fe_centerID fe \<in> set (ci_centerID (put_center fe c))" by (simp add: put_center_def)
    with wp_mono [OF up_deleteCenter [OF laws t, of "fe_centerID fe"]] d ok(2) fe(2)
    show ?thesis
      by (auto simp: drop_put_center [OF ok(1) new] fun_eq_iff elim!: wp_mono)
  qed
  show ?thesis
    unfolding wp_bnd
    by (rule wp_mono [OF up_addCenter [OF laws c fe(2)]]) (auto simp: new intro!: wp_mono [OF undo])
qed

lemma add_then_delete_center_witness:
  "wp (bnd (addCenter mem_sys sample_fe) (\<lambda>r1. bnd (deleteCenter mem_sys ''3'') (\<lambda>r2. ret (r1, r2))))
    (\<lambda>r w'. r = Val (0, ''success'') \<and> cb_docs mem_sys w' =
       (cb_docs mem_sys sample_mem)((''gvds'', ''Shanghai'') \<mapsto>
         json_encode mem_sys (enc_map (enc_map enc_str)) new_pool)) sample_mem"
  using add_then_delete_center [OF mem_laws sample_table sample_fe_ok]
  by (simp add: sample_fe_def sample_centers_def del: wp_bnd)

text \<open>Any failure to read the table counts as its first use: when the read fails although the table is
  there, and the write works, the new table holds the new centre only.\<close>

theorem addCenter_forgets:
  assumes laws: "couchbase_law sys" and cfg: "wp (open_ds sys (manager_bucket sys)) (\<lambda>r w'.
      r = Val (Some (Datastore (manager_bucket sys) True)) \<and> cb_docs sys w' = cb_docs sys w) w"
    and fail: "\<And>w. fst (fst (cb_get sys (manager_bucket sys) center_key w)) \<noteq> 0"
    and set: "\<And>k v w. fst (cb_upsert sys (manager_bucket sys) k v w) = 0"
  shows "wp (addCenter sys fe) (\<lambda>r w'. r = Val 0 \<and>
    cb_docs sys w' (centers_key sys) = Some (serialize sys ser_CenterInfo
      \<lparr>ci_centerID = [fe_centerID fe], ci_centerIP = [(fe_centerID fe, fe_centerIP fe)],
       ci_centerPort = [(fe_centerID fe, fe_centerPort fe)], ci_centerName = [(fe_centerID fe, fe_centerName fe)]\<rparr>)) w"
proof -
  let ?p = "Some (Datastore (manager_bucket sys) True)"
  have get: "wp (bnd (ds_get sys ?p center_key) f) Q w'" if "\<And>rc w''. rc \<noteq> 0 \<Longrightarrow> wp (f (None, rc)) Q w''" for f Q w'
    using fail [of w'] that by (auto simp: ds_get_def wp_ext get_result_def split: prod.splits)
  have put: "wp (bnd (ds_set sys ?p k v) f) Q w'"
    if "\<And>w''. cb_docs sys w'' = (cb_docs sys w')((manager_bucket sys, k) \<mapsto> v) \<Longrightarrow> wp (f 0) Q w''" for k v f Q w'
  proof -
    obtain w'' where r: "cb_upsert sys (manager_bucket sys) k v w' = (0, w'')"
      using set [of k v w'] by (metis prod.collapse)
    from upsert_lawD [OF laws r] that r show ?thesis by (auto simp: ds_set_def wp_ext wrote_def)
  qed
  show ?thesis
    unfolding addCenter_def
    apply (rule wp_step [OF cfg])
    apply (rule get)
    apply (auto simp: bnd_assoc new_CenterInfo_def put_center_def simp del: wp_bnd intro!: put)
    done
qed

text \<open>A store whose reads fail.\<close>

definition deaf_sys :: "mem sys" where
  "deaf_sys = mem_sys\<lparr>cb_get := \<lambda>b k w. ((19, []), w)\<rparr>"

lemma other_laws:
  fixes sys :: "'w sys"
  shows "upsert_law (sys\<lparr>cb_get := g\<rparr>) = upsert_law sys" "insert_law (sys\<lparr>cb_get := g\<rparr>) = insert_law sys"
    "remove_law (sys\<lparr>cb_get := g\<rparr>) = remove_law sys" "get_sub_law (sys\<lparr>cb_get := g\<rparr>) = get_sub_law sys"
    "upsert_sub_law (sys\<lparr>cb_get := g\<rparr>) = upsert_sub_law sys"
    "arr_insert_law (sys\<lparr>cb_get := g\<rparr>) = arr_insert_law sys" "quiet_law (sys\<lparr>cb_get := g\<rparr>) = quiet_law sys"
proof -
  have d: "doc_at (sys\<lparr>cb_get := g\<rparr>) = doc_at sys" "doc_members (sys\<lparr>cb_get := g\<rparr>) = doc_members sys"
    by (auto simp: fun_eq_iff doc_at_def doc_members_def split: option.splits)
  show "upsert_law (sys\<lparr>cb_get := g\<rparr>) = upsert_law sys" "insert_law (sys\<lparr>cb_get := g\<rparr>) = insert_law sys"
    "remove_law (sys\<lparr>cb_get := g\<rparr>) = remove_law sys" "get_sub_law (sys\<lparr>cb_get := g\<rparr>) = get_sub_law sys"
    "upsert_sub_law (sys\<lparr>cb_get := g\<rparr>) = upsert_sub_law sys"
    "arr_insert_law (sys\<lparr>cb_get := g\<rparr>) = arr_insert_law sys" "quiet_law (sys\<lparr>cb_get := g\<rparr>) = quiet_law sys"
    by (simp_all add: upsert_law_def insert_law_def remove_law_def get_sub_law_def upsert_sub_law_def
        arr_insert_law_def quiet_law_def d)
qed

lemma deaf_law: "couchbase_law deaf_sys"
proof -
  have "get_law deaf_sys" by (simp add: deaf_sys_def get_law_def)
  then show ?thesis
    using mem_couchbase_law [of "[]"] by (simp add: deaf_sys_def couchbase_law_def other_laws)
qed

lemma addCenter_forgets_witness:
  "wp (addCenter deaf_sys sample_fe) (\<lambda>r w'. r = Val 0 \<and>
    cb_docs deaf_sys w' (''gvds'', ''center_information'') = Some (serialize deaf_sys ser_CenterInfo
      \<lparr>ci_centerID = [''3''], ci_centerIP = [(''3'', ''10.0.0.3'')],
       ci_centerPort = [(''3'', ''9090'')], ci_centerName = [(''3'', ''Shanghai'')]\<rparr>)) sample_mem"
proof -
  have b: "manager_bucket deaf_sys = ''gvds''" by (simp add: deaf_sys_def manager_bucket_def mem_cfg_def)
  have "wp (open_ds deaf_sys (manager_bucket deaf_sys)) (\<lambda>r w'.
      r = Val (Some (Datastore (manager_bucket deaf_sys) True)) \<and>
      cb_docs deaf_sys w' = cb_docs deaf_sys sample_mem) sample_mem"
    by (simp add: create_datastore_def ds_connect_def deaf_sys_def mem_cfg_def wp_ext)
  from addCenter_forgets [OF deaf_law this, of sample_fe]
  show ?thesis by (simp add: b center_key_def) (simp add: deaf_sys_def sample_fe_def)
qed

section \<open>Storage resources\<close>

text \<open>Registering a storage resource, when no call fails: a resource that has a document already is
  refused and nothing is written; otherwise exactly the document of the resource is written.\<close>

theorem resource_add_result:
  assumes laws: "couchbase_law sys" "couchbase_up sys"
    and st: "parse_storage sys body = Some st"
  shows "wp (resource_add sys body) (\<lambda>r w'.
    if cb_docs sys w (manager_bucket sys, storage_key st) \<noteq> None
    then r = Val (False, 400, ''fail, resource already exist'') \<and> cb_docs sys w' = cb_docs sys w
    else r = Val (True, 202, ''ok'') \<and> cb_docs sys w' =
      (cb_docs sys w)((manager_bucket sys, storage_key st) \<mapsto> serialize sys ser_StorageResource st)) w"
  unfolding resource_add_def st option.case
  by (rule up_open [OF laws], unfold wp_bnd, rule wp_ds_get [OF laws(1)])
    (use laws(2) in \<open>auto intro!: wp_ds_insert [OF laws(1)]\<close>)

lemma parse_written:
  "json_law sys \<Longrightarrow> wf_StorageResource st \<Longrightarrow> parse_storage sys (serialize sys ser_StorageResource st) = Some st"
  by (simp add: parse_storage_def StorageResource_json.load_roundtrip)

lemma resource_add_result_witness:
  "wp (resource_add mem_sys (serialize mem_sys ser_StorageResource sample_storage)) (\<lambda>r w'.
     r = Val (False, 400, ''fail, resource already exist'') \<and> cb_docs mem_sys w' = cb_docs mem_sys sample_mem) sample_mem \<and>
   wp (resource_add mem_sys (serialize mem_sys ser_StorageResource sample_storage)) (\<lambda>r w'.
     r = Val (True, 202, ''ok'') \<and> cb_docs mem_sys w' (''gvds'', ''STOR-s1'') =
       Some (serialize mem_sys ser_StorageResource sample_storage)) empty_mem"
  using resource_add_result [OF mem_laws(2,3) parse_written [OF mem_laws(1) wf_samples(1)], of sample_mem]
    resource_add_result [OF mem_laws(2,3) parse_written [OF mem_laws(1) wf_samples(1)], of empty_mem]
  by (auto simp: storage_key_def storage_prefix_def empty_mem_def elim!: wp_mono)

text \<open>Updating a storage resource, when no call fails: without a document it is refused; otherwise
  exactly its document is replaced. A text that begins with \<open>#\<close> and the number \<open>-1\<close> keep what was
  stored; everything else, the empty text included, replaces it: also the assigned capacity, past the
  checks of the ledger, and the identifier stays because it is the key.\<close>

theorem resource_update_result:
  assumes laws: "json_law sys" "couchbase_law sys" "couchbase_up sys"
    and st: "parse_storage sys body = Some new" and old: "wf_StorageResource old"
    and doc: "cb_docs sys w (manager_bucket sys, storage_key new) = Some (serialize sys ser_StorageResource old)"
    and key: "st_storage_src_id new = st_storage_src_id old"
  shows "wp (resource_update sys body) (\<lambda>r w'. r = Val (True, 202, ''ok'') \<and> (\<exists>m.
    cb_docs sys w' = (cb_docs sys w)((manager_bucket sys, storage_key new) \<mapsto> serialize sys ser_StorageResource m) \<and>
    st_storage_src_id m = st_storage_src_id old \<and>
    st_total_capacity m = (if st_total_capacity new = - 1 then st_total_capacity old else st_total_capacity new) \<and>
    st_assign_capacity m = (if st_assign_capacity new = - 1 then st_assign_capacity old else st_assign_capacity new) \<and>
    (\<forall>f \<in> {st_storage_src_name, st_host_center_id, st_host_center_name, st_mgs_address}.
       f m = (if take 1 (f new) = ''#'' then f old else f new)))) w"
proof -
  have dec: "decode_storage sys (serialize sys ser_StorageResource old) = Val old"
    using json_lawD [OF laws(1), of "JObj (ser_StorageResource old)"] StorageResource_json.plain_members [OF old]
      StorageResource_json.read_back [OF old]
    by (simp add: decode_storage_def serialize_def deserialize_value_def)
  have pick: "pick_text a b = (if take 1 a = ''#'' then b else a)" for a b
    by (cases a) (auto simp: pick_text_def)
  show ?thesis
    unfolding resource_update_def st option.case
    by (rule up_open [OF laws(2,3)], rule up_get [OF laws(2,3)], simp add: doc)
      (auto simp: deref_Some dec key merge_storage_def pick pick_num_def simp del: wp_bnd
        intro!: up_set [OF laws(2,3)] exI [of _ "merge_storage new old"])
qed

lemma resource_update_result_witness:
  "wp (resource_update mem_sys (serialize mem_sys ser_StorageResource
      (sample_storage\<lparr>st_storage_src_name := ''#'', st_total_capacity := - 1, st_assign_capacity := 500\<rparr>)))
    (\<lambda>r w'. r = Val (True, 202, ''ok'') \<and> (\<exists>m.
      cb_docs mem_sys w' = (cb_docs mem_sys sample_mem)((''gvds'', ''STOR-s1'') \<mapsto> serialize mem_sys ser_StorageResource m) \<and>
      st_storage_src_name m = ''lustre'' \<and> st_total_capacity m = 100 \<and> st_assign_capacity m = 500)) sample_mem"
proof -
  let ?new = "sample_storage\<lparr>st_storage_src_name := ''#'', st_total_capacity := - 1, st_assign_capacity := 500\<rparr>"
  have "wf_StorageResource ?new"
    using wf_samples(1) by (simp add: wf_StorageResource_def nul_free_def in_i64_def)
  from resource_update_result [OF mem_laws parse_written [OF mem_laws(1) this] wf_samples(1), of sample_mem]
  show ?thesis by (auto simp: storage_key_def storage_prefix_def elim!: wp_mono)
qed

section \<open>I/O proxies\<close>

text \<open>The row that the query of the registry answers for a proxy: every member but the status.\<close>

definition proxy_row :: "'w sys \<Rightarrow> ioproxy_node \<Rightarrow> string" where
  "proxy_row sys n = cstr (rj_write sys (JObj
     [(''uuid'', enc_str (iop_uuid n)), (''data_port'', enc_int (iop_data_port n)), (''ip'', enc_str (iop_ip n)),
      (''name'', enc_str (iop_name n)), (''rpc_port'', enc_int (iop_rpc_port n)), (''cid'', enc_str (iop_cid n))]))"

lemma load_proxy_row:
  assumes "json_law sys" "wf_IOProxyNode n"
  shows "load sys (des_IOProxyNode sys) (proxy_row sys n) x = n\<lparr>iop_status := ud_int sys\<rparr>"
proof -
  let ?j = "JObj [(''uuid'', enc_str (iop_uuid n)), (''data_port'', enc_int (iop_data_port n)),
      (''ip'', enc_str (iop_ip n)), (''name'', enc_str (iop_name n)), (''rpc_port'', enc_int (iop_rpc_port n)),
      (''cid'', enc_str (iop_cid n))]"
  have "plain ?j" using assms(2) by (simp add: wf_IOProxyNode_def)
  from json_lawD [OF assms(1) this] assms(2) show ?thesis
    by (cases n; cases x) (simp add: load_def proxy_row_def des_IOProxyNode_def get_member_def wf_IOProxyNode_def)
qed

lemma wp_init_loop:
  assumes law: "json_law sys" "couchbase_law sys" and "\<And>n. n \<in> set ns \<Longrightarrow> wf_IOProxyNode n"
  shows "wp (init_loop sys acc (map (proxy_row sys) ns)) (\<lambda>r w'. cb_docs sys w' = cb_docs sys w \<and>
    r = Val (foldl (\<lambda>m n. smap_set (iop_uuid n) (n\<lparr>iop_status := ud_int sys\<rparr>) m) acc ns)) w"
  using assms(3)
proof (induction ns arbitrary: acc w)
  case (Cons n ns)
  show ?case
    by (auto simp: Let_def load_proxy_row [OF law(1) Cons.prems] intro!: wp_uuid_gen [OF law(2)] wp_mono [OF Cons.IH]
        Cons.prems)
qed simp

lemma map_of_foldl_smap:
  "distinct (map f ns) \<Longrightarrow> n \<in> set ns \<Longrightarrow> map_of (foldl (\<lambda>m n. smap_set (f n) (g n) m) acc ns) (f n) = Some (g n)"
proof (induction ns arbitrary: acc)
  case (Cons x ns)
  have keep: "map_of (foldl (\<lambda>m n. smap_set (f n) (g n) m) acc ns) k = map_of acc k"
    if "k \<notin> f ` set ns" for acc k
    using that by (induction ns arbitrary: acc) auto
  show ?case
  proof (cases "n = x")
    case True
    with Cons.prems(1) keep [of "f x"] show ?thesis by simp
  next
    case False
    with Cons show ?thesis by simp
  qed
qed simp

lemma wp_registry:
  assumes laws: "json_law sys" "couchbase_law sys" "couchbase_up sys"
    and "answers sys (proxy_query sys) (map (proxy_row sys) ns)"
    and "\<And>n. n \<in> set ns \<Longrightarrow> wf_IOProxyNode n" and "distinct (map iop_uuid ns)"
  shows "wp (init_ioproxy_list sys) (\<lambda>r w'. cb_docs sys w' = cb_docs sys w \<and>
    (\<exists>live. r = Val live \<and> (\<forall>n \<in> set ns. map_of live (iop_uuid n) = Some (n\<lparr>iop_status := ud_int sys\<rparr>)))) w"
  unfolding init_ioproxy_list_def
  by (rule up_open [OF laws(2,3)], rule up_n1ql [OF laws(2) assms(4)], simp del: wp_bnd,
      rule wp_mono [OF wp_init_loop [OF laws(1,2)]])
    (auto simp: assms(5) map_of_foldl_smap [OF assms(6)])

text \<open>After a restart the registry finds every proxy the documents hold, with its address and ports;
  but the query does not ask for the status, so each has an indeterminate one, whatever was stored.\<close>

theorem restart_forgets_status:
  assumes laws: "json_law sys" "couchbase_law sys" "couchbase_up sys"
    and "answers sys (proxy_query sys) (map (proxy_row sys) ns)"
    and "\<And>n. n \<in> set ns \<Longrightarrow> wf_IOProxyNode n" and "distinct (map iop_uuid ns)"
  shows "wp (init_ioproxy_list sys) (\<lambda>r w'. cb_docs sys w' = cb_docs sys w \<and>
    (\<exists>live. r = Val live \<and> (\<forall>n \<in> set ns. map_of live (iop_uuid n) = Some (n\<lparr>iop_status := ud_int sys\<rparr>)))) w"
  by (rule wp_registry [OF assms])

text \<open>A system whose queries all answer the same rows.\<close>

definition sample_proxy :: ioproxy_node where
  "sample_proxy = \<lparr>iop_rpc_port = 9095, iop_data_port = 9096, iop_ip = ''10.0.0.9'', iop_name = ''px'',
     iop_status = 0, iop_uuid = ''q1'', iop_cid = ''1''\<rparr>"

definition row_sys :: "string list \<Rightarrow> mem sys" where
  "row_sys rows = mem_sys\<lparr>cb_query := \<lambda>b q w. (QRows rows, w)\<rparr>"

lemma row_sys_laws: "json_law (row_sys rows)" "couchbase_law (row_sys rows)" "couchbase_up (row_sys rows)"
proof -
  have d: "doc_at (row_sys rows) = doc_at mem_sys" "doc_members (row_sys rows) = doc_members mem_sys"
    by (auto simp: fun_eq_iff row_sys_def doc_at_def doc_members_def split: option.splits)
  show "json_law (row_sys rows)" using mem_laws(1) by (simp add: json_law_def row_sys_def)
  show "couchbase_law (row_sys rows)"
  proof -
    have "get_law (row_sys rows) = get_law mem_sys" "upsert_law (row_sys rows) = upsert_law mem_sys"
      "insert_law (row_sys rows) = insert_law mem_sys" "remove_law (row_sys rows) = remove_law mem_sys"
      "get_sub_law (row_sys rows) = get_sub_law mem_sys"
      "upsert_sub_law (row_sys rows) = upsert_sub_law mem_sys"
      "arr_insert_law (row_sys rows) = arr_insert_law mem_sys" "quiet_law (row_sys rows) = quiet_law mem_sys"
      by (simp_all add: get_law_def upsert_law_def insert_law_def remove_law_def get_sub_law_def
          upsert_sub_law_def arr_insert_law_def quiet_law_def d) (simp_all add: row_sys_def)
    then show ?thesis using mem_laws(2) by (simp add: couchbase_law_def)
  qed
  show "couchbase_up (row_sys rows)"
    using mem_laws(3) unfolding couchbase_up_def d by (simp add: row_sys_def)
qed

lemma restart_forgets_status_witness:
  "wp (init_ioproxy_list (row_sys [proxy_row mem_sys sample_proxy])) (\<lambda>r w'. \<exists>live. r = Val live \<and>
    map_of live ''q1'' = Some (sample_proxy\<lparr>iop_status := 7\<rparr>)) sample_mem"
proof -
  let ?s = "row_sys [proxy_row mem_sys sample_proxy]"
  have r: "proxy_row ?s n = proxy_row mem_sys n" for n by (simp add: proxy_row_def row_sys_def)
  have a: "answers ?s (proxy_query ?s) (map (proxy_row ?s) [sample_proxy])"
    by (simp add: answers_def r) (simp add: row_sys_def select_query_def proxy_query_def snprintf_n_def)
  have "ud_int ?s = 7" by (simp add: row_sys_def)
  with restart_forgets_status [OF row_sys_laws a, of sample_mem] show ?thesis
    by (auto simp: sample_proxy_def wf_IOProxyNode_def nul_free_def in_i32_def elim!: wp_mono)
qed

end
