(* ===== verification/Lru.thy ===== *)
theory Lru
  imports Prelude "HOL-Library.AList"
begin

text \<open>
  \<open>common/LRU.h\<close>: the list of objects by recency with an index of iterators into it. A node of the list
  is a pair of its address and its object, so an iterator is an address and the index maps keys to
  addresses. The theorems say that the two structures agree and that the operations are those of a
  bounded list of entries in the order of their last use.
\<close>

section \<open>The structure\<close>

record ('k, 'v) lru_object =
  lo_pinned :: bool
  lo_key :: 'k
  lo_data :: 'v

record ('k, 'v) lru =
  lrulist :: "(nat \<times> ('k, 'v) lru_object) list"
  lruindex :: "('k \<times> nat) list"
  max_n :: nat
  next_node :: nat

text \<open>The bound is an \<open>unsigned long\<close> that is kept in an \<open>unsigned int\<close>; 0 means none.\<close>

definition new_lru :: "nat \<Rightarrow> ('k, 'v) lru" where
  "new_lru n = \<lparr>lrulist = [], lruindex = [], max_n = n mod 2 ^ 32, next_node = 0\<rparr>"

definition lru_size :: "('k, 'v) lru \<Rightarrow> nat" where
  "lru_size l = length (lrulist l)"

definition lru_empty :: "('k, 'v) lru \<Rightarrow> bool" where
  "lru_empty l \<longleftrightarrow> lruindex l = []"

text \<open>On the empty list the decremented end iterator is the end iterator again.\<close>

definition lru_expire :: "('k, 'v) lru \<Rightarrow> ('k, 'v) lru_object option \<times> ('k, 'v) lru" where
  "lru_expire l =
     (if lrulist l = [] then (None, l)
      else let tmp = snd (last (lrulist l)) in
        (Some tmp, l\<lparr>lrulist := butlast (lrulist l), lruindex := AList.delete (lo_key tmp) (lruindex l)\<rparr>))"

text \<open>What the iterator of a key points at; \<open>None\<close> is the end iterator.\<close>

definition lru_find :: "('k, 'v) lru \<Rightarrow> 'k \<Rightarrow> ('k, 'v) lru_object option" where
  "lru_find l key = Option.bind (map_of (lruindex l) key) (map_of (lrulist l))"

definition erase_node :: "nat \<Rightarrow> ('k, 'v) lru \<Rightarrow> ('k, 'v) lru" where
  "erase_node a l = l\<lparr>lrulist := filter (\<lambda>n. fst n \<noteq> a) (lrulist l)\<rparr>"

text \<open>A new node at the front, and the index entry for its key.\<close>

definition emplace_front :: "('k, 'v) lru_object \<Rightarrow> ('k, 'v) lru \<Rightarrow> ('k, 'v) lru" where
  "emplace_front ob l = l\<lparr>lrulist := (next_node l, ob) # lrulist l,
     lruindex := AList.update (lo_key ob) (next_node l) (lruindex l), next_node := Suc (next_node l)\<rparr>"

definition lru_remove :: "('k, 'v) lru \<Rightarrow> 'k \<Rightarrow> bool \<times> ('k, 'v) lru" where
  "lru_remove l key =
     (case map_of (lruindex l) key of
        None \<Rightarrow> (False, l)
      | Some a \<Rightarrow> (True, (erase_node a l)\<lparr>lruindex := AList.delete key (lruindex l)\<rparr>))"

text \<open>The object of an existing key moves to the front as it is.\<close>

definition renew :: "('k, 'v) lru \<Rightarrow> nat \<Rightarrow> ('k, 'v) lru" where
  "renew l a = (case map_of (lrulist l) a of
                  None \<Rightarrow> l
                | Some ob \<Rightarrow> emplace_front ob (erase_node a l))"

definition make_room :: "('k, 'v) lru \<Rightarrow> ('k, 'v) lru" where
  "make_room l = (if max_n l \<noteq> 0 \<and> lru_size l \<ge> max_n l then snd (lru_expire l) else l)"

text \<open>\<open>touch(key)\<close>: a new object has indeterminate data \<open>d\<close>.\<close>

definition lru_touch_key :: "'v \<Rightarrow> 'k \<Rightarrow> ('k, 'v) lru \<Rightarrow> ('k, 'v) lru" where
  "lru_touch_key d key l =
     (case map_of (lruindex l) key of
        None \<Rightarrow> emplace_front \<lparr>lo_pinned = False, lo_key = key, lo_data = d\<rparr> (make_room l)
      | Some a \<Rightarrow> renew l a)"

definition lru_touch :: "'k \<Rightarrow> 'v \<Rightarrow> ('k, 'v) lru \<Rightarrow> ('k, 'v) lru" where
  "lru_touch key value l =
     (case map_of (lruindex l) key of
        None \<Rightarrow> emplace_front \<lparr>lo_pinned = False, lo_key = key, lo_data = value\<rparr> (make_room l)
      | Some a \<Rightarrow> renew l a)"

definition lru_hit :: "'k \<Rightarrow> ('k, 'v) lru \<Rightarrow> bool \<times> ('k, 'v) lru" where
  "lru_hit key l = (case map_of (lruindex l) key of None \<Rightarrow> (False, l) | Some a \<Rightarrow> (True, renew l a))"

section \<open>The invariant\<close>

definition index_agrees :: "('k \<times> nat) list \<Rightarrow> (nat \<times> ('k, 'v) lru_object) list \<Rightarrow> bool" where
  "index_agrees ix ns \<longleftrightarrow>
     (\<forall>k a. map_of ix k = Some a \<longleftrightarrow> (\<exists>ob. (a, ob) \<in> set ns \<and> lo_key ob = k))"

text \<open>Nodes and keys are distinct, and the index holds the address of the node of every key.\<close>

definition lru_ok :: "('k, 'v) lru \<Rightarrow> bool" where
  "lru_ok l \<longleftrightarrow>
     distinct (map fst (lrulist l)) \<and> distinct (map (\<lambda>n. lo_key (snd n)) (lrulist l)) \<and>
     (\<forall>n \<in> set (lrulist l). fst n < next_node l) \<and>
     index_agrees (lruindex l) (lrulist l) \<and>
     (max_n l \<noteq> 0 \<longrightarrow> length (lrulist l) \<le> max_n l)"

text \<open>What is observed of the structure: the entries, the most recently used first.\<close>

definition recency :: "('k, 'v) lru \<Rightarrow> ('k \<times> 'v) list" where
  "recency l = map (\<lambda>n. (lo_key (snd n), lo_data (snd n))) (lrulist l)"

lemma keys_recency: "map fst (recency l) = map (\<lambda>n. lo_key (snd n)) (lrulist l)"
  by (simp add: recency_def)

lemma distinct_recency: "lru_ok l \<Longrightarrow> distinct (map fst (recency l))"
  by (simp add: keys_recency lru_ok_def)

lemma length_recency: "length (recency l) = lru_size l"
  by (simp add: recency_def lru_size_def)

text \<open>An entry of the index is a node of the list.\<close>

lemma index_Some:
  "lru_ok l \<Longrightarrow> map_of (lruindex l) k = Some a \<longleftrightarrow> (\<exists>ob. (a, ob) \<in> set (lrulist l) \<and> lo_key ob = k)"
  by (simp add: lru_ok_def index_agrees_def)

lemma key_node: "k \<in> fst ` set (recency l) \<longleftrightarrow> (\<exists>a ob. (a, ob) \<in> set (lrulist l) \<and> lo_key ob = k)"
  by (force simp: recency_def)

lemma index_None: "lru_ok l \<Longrightarrow> map_of (lruindex l) k = None \<longleftrightarrow> k \<notin> fst ` set (recency l)"
  using index_Some [of l k] unfolding key_node by (metis not_None_eq)

lemma node_of:
  assumes "lru_ok l" "map_of (lruindex l) k = Some a"
  obtains ob where "map_of (lrulist l) a = Some ob" "lo_key ob = k" "(a, ob) \<in> set (lrulist l)"
  using assms index_Some [OF assms(1)] by (auto simp: lru_ok_def)

lemma same_node:
  assumes "lru_ok l" "(a, ob) \<in> set (lrulist l)" "n \<in> set (lrulist l)"
  shows "fst n = a \<longleftrightarrow> lo_key (snd n) = lo_key ob"
proof -
  have "inj_on fst (set (lrulist l))" "inj_on (\<lambda>n. lo_key (snd n)) (set (lrulist l))"
    using assms(1) by (simp_all add: lru_ok_def distinct_map)
  from inj_onD [OF this(1) _ assms(3,2)] inj_onD [OF this(2) _ assms(3,2)] show ?thesis by fastforce
qed

lemma recency_erase:
  assumes "lru_ok l" "(a, ob) \<in> set (lrulist l)"
  shows "map (\<lambda>n. (lo_key (snd n), lo_data (snd n))) (filter (\<lambda>n. fst n \<noteq> a) (lrulist l))
    = AList.delete (lo_key ob) (recency l)"
  using same_node [OF assms] unfolding recency_def AList.delete_eq filter_map
  by (intro arg_cong [of _ _ "map _"] filter_cong) auto

lemma find_recency:
  assumes "lru_ok l"
  shows "map_option lo_data (lru_find l k) = map_of (recency l) k"
proof (cases "map_of (lruindex l) k")
  case None
  then show ?thesis using index_None [OF assms, of k] by (simp add: lru_find_def) (simp add: map_of_eq_None_iff [symmetric])
next
  case (Some a)
  from node_of [OF assms this] obtain ob where n: "map_of (lrulist l) a = Some ob" "lo_key ob = k"
    "(a, ob) \<in> set (lrulist l)" .
  then have "(k, lo_data ob) \<in> set (recency l)" by (force simp: recency_def image_iff)
  with distinct_recency [OF assms] have "map_of (recency l) k = Some (lo_data ob)" by simp
  then show ?thesis using Some n by (simp add: lru_find_def)
qed

lemma find_key: "lru_ok l \<Longrightarrow> lru_find l k = Some ob \<Longrightarrow> lo_key ob = k"
  by (auto simp: lru_find_def Option.bind_eq_Some_conv elim!: node_of)

section \<open>The operations keep the invariant and act on the entries\<close>

lemma lru_ok_new: "lru_ok (new_lru n)" and recency_new: "recency (new_lru n) = []"
  by (simp_all add: new_lru_def lru_ok_def recency_def index_agrees_def)

lemma lru_ok_erase:
  assumes "lru_ok l" "(a, ob) \<in> set (lrulist l)"
  shows "lru_ok ((erase_node a l)\<lparr>lruindex := AList.delete (lo_key ob) (lruindex l)\<rparr>)"
    and "recency (erase_node a l) = AList.delete (lo_key ob) (recency l)"
proof -
  show "recency (erase_node a l) = AList.delete (lo_key ob) (recency l)"
    using recency_erase [OF assms] by (simp add: recency_def erase_node_def)
  have "index_agrees (AList.delete (lo_key ob) (lruindex l)) (filter (\<lambda>n. fst n \<noteq> a) (lrulist l))"
    unfolding index_agrees_def
  proof (intro allI)
    fix k a'
    show "map_of (AList.delete (lo_key ob) (lruindex l)) k = Some a'
      \<longleftrightarrow> (\<exists>ob'. (a', ob') \<in> set (filter (\<lambda>n. fst n \<noteq> a) (lrulist l)) \<and> lo_key ob' = k)"
      using same_node [OF assms] index_Some [OF assms(1), of k a']
      by (cases "k = lo_key ob") (force simp: AList.delete_conv')+
  qed
  then show "lru_ok ((erase_node a l)\<lparr>lruindex := AList.delete (lo_key ob) (lruindex l)\<rparr>)"
    using assms(1) le_trans [OF length_filter_le]
    by (auto simp: lru_ok_def erase_node_def distinct_map_filter)
qed

lemma lru_ok_emplace:
  assumes "lru_ok l" "lo_key ob \<notin> fst ` set (recency l)" "max_n l \<noteq> 0 \<longrightarrow> lru_size l < max_n l"
  shows "lru_ok (emplace_front ob l)"
    and "recency (emplace_front ob l) = (lo_key ob, lo_data ob) # recency l"
proof -
  have "index_agrees (AList.update (lo_key ob) (next_node l) (lruindex l)) ((next_node l, ob) # lrulist l)"
    unfolding index_agrees_def
  proof (intro allI)
    fix k a'
    show "map_of (AList.update (lo_key ob) (next_node l) (lruindex l)) k = Some a'
      \<longleftrightarrow> (\<exists>ob'. (a', ob') \<in> set ((next_node l, ob) # lrulist l) \<and> lo_key ob' = k)"
      using index_Some [OF assms(1), of k a'] assms(2)[unfolded key_node]
      by (cases "k = lo_key ob") (auto simp: AList.update_conv')
  qed
  then show "lru_ok (emplace_front ob l)"
    using assms by (auto simp: lru_ok_def emplace_front_def recency_def lru_size_def image_image)
  show "recency (emplace_front ob l) = (lo_key ob, lo_data ob) # recency l"
    by (simp add: emplace_front_def recency_def)
qed

text \<open>Only the mapping of the index matters.\<close>

lemma lru_ok_index:
  "lru_ok l \<Longrightarrow> map_of ix = map_of (lruindex l) \<Longrightarrow> lru_ok (l\<lparr>lruindex := ix\<rparr>)"
  by (simp add: lru_ok_def index_agrees_def)

text \<open>The entry of an existing key moves to the front.\<close>

lemma lru_ok_renew:
  assumes "lru_ok l" "map_of (lruindex l) k = Some a"
  shows "lru_ok (renew l a)"
    and "\<exists>v. map_of (recency l) k = Some v \<and> recency (renew l a) = (k, v) # AList.delete k (recency l)"
proof -
  from node_of [OF assms] obtain ob where n: "map_of (lrulist l) a = Some ob" "lo_key ob = k"
    "(a, ob) \<in> set (lrulist l)" .
  let ?e = "(erase_node a l)\<lparr>lruindex := AList.delete k (lruindex l)\<rparr>"
  have e: "lru_ok ?e" "recency ?e = AList.delete k (recency l)"
    using lru_ok_erase [OF assms(1) n(3)] n(2) by (simp_all add: recency_def)
  have "length (filter (\<lambda>n. fst n \<noteq> a) (lrulist l)) < length (lrulist l)"
    using n(3) by (intro length_filter_less [of "(a, ob)"]) auto
  then have "max_n ?e \<noteq> 0 \<longrightarrow> lru_size ?e < max_n ?e"
    using assms(1) by (auto simp: lru_ok_def erase_node_def lru_size_def)
  moreover have "lo_key ob \<notin> fst ` set (recency ?e)" using n(2) e(2) delete_notin_dom by metis
  ultimately have "lru_ok (emplace_front ob ?e)"
    "recency (emplace_front ob ?e) = (k, lo_data ob) # AList.delete k (recency l)"
    using lru_ok_emplace [OF e(1), of ob] e(2) n(2) by simp_all
  moreover have "renew l a = (emplace_front ob ?e)\<lparr>lruindex := AList.update k (next_node l) (lruindex l)\<rparr>"
    using n by (simp add: renew_def emplace_front_def erase_node_def)
  moreover have "map_of (AList.update k (next_node l) (lruindex l)) = map_of (lruindex (emplace_front ob ?e))"
    using n(2) by (simp add: emplace_front_def erase_node_def AList.update_conv' AList.delete_conv')
  moreover have "map_of (recency l) k = Some (lo_data ob)"
    using n(2,3) distinct_recency [OF assms(1)] by (force simp: recency_def image_iff)
  ultimately show "lru_ok (renew l a)"
    and "\<exists>v. map_of (recency l) k = Some v \<and> recency (renew l a) = (k, v) # AList.delete k (recency l)"
    by (simp_all add: lru_ok_index) (simp add: recency_def)
qed

lemma lru_ok_expire:
  assumes "lru_ok l" "lru_expire l = (r, l')"
  shows "lru_ok l'" "recency l' = butlast (recency l)" "max_n l' = max_n l"
    and "map_option (\<lambda>ob. (lo_key ob, lo_data ob)) r = (if recency l = [] then None else Some (last (recency l)))"
proof -
  show "max_n l' = max_n l"
    using assms(2) by (auto simp: lru_expire_def Let_def split: if_splits)
  show "recency l' = butlast (recency l)"
    using assms(2) by (auto simp: lru_expire_def Let_def recency_def map_butlast split: if_splits)
  show "map_option (\<lambda>ob. (lo_key ob, lo_data ob)) r = (if recency l = [] then None else Some (last (recency l)))"
    using assms(2) by (auto simp: lru_expire_def Let_def recency_def last_map split: if_splits)
  show "lru_ok l'"
  proof (cases "lrulist l = []")
    case True
    then show ?thesis using assms by (simp add: lru_expire_def)
  next
    case False
    then obtain ns a ob where l: "lrulist l = ns @ [(a, ob)]" by (metis append_butlast_last_id prod.collapse)
    then have "filter (\<lambda>n. fst n \<noteq> a) (lrulist l) = ns"
      using assms(1) by (auto simp: lru_ok_def filter_id_conv)
    then show ?thesis
      using lru_ok_erase(1) [OF assms(1), of a ob] assms(2) l
      by (auto simp: lru_expire_def Let_def erase_node_def)
  qed
qed

lemma lru_ok_remove:
  assumes "lru_ok l" "lru_remove l k = (b, l')"
  shows "lru_ok l'" "recency l' = AList.delete k (recency l)" "max_n l' = max_n l"
    and "b \<longleftrightarrow> k \<in> fst ` set (recency l)"
proof -
  show "max_n l' = max_n l"
    using assms(2) by (auto simp: lru_remove_def erase_node_def split: option.splits)
  have "lru_ok l' \<and> recency l' = AList.delete k (recency l) \<and> (b \<longleftrightarrow> k \<in> fst ` set (recency l))"
  proof (cases "map_of (lruindex l) k")
    case None
    then show ?thesis using assms index_None [OF assms(1), of k] by (auto simp: lru_remove_def)
  next
    case (Some a)
    from node_of [OF assms(1) this] obtain ob where n: "lo_key ob = k" "(a, ob) \<in> set (lrulist l)" .
    then show ?thesis
      using assms(2) Some lru_ok_erase [OF assms(1) n(2)] index_None [OF assms(1), of k]
      by (auto simp: lru_remove_def recency_def)
  qed
  then show "lru_ok l'" "recency l' = AList.delete k (recency l)" "b \<longleftrightarrow> k \<in> fst ` set (recency l)" by auto
qed

lemma make_room_ok:
  assumes "lru_ok l"
  shows "lru_ok (make_room l)" "max_n (make_room l) = max_n l"
    and "max_n l \<noteq> 0 \<longrightarrow> lru_size (make_room l) < max_n l"
    and "recency (make_room l) = (if max_n l \<noteq> 0 \<and> length (recency l) \<ge> max_n l then butlast (recency l) else recency l)"
proof -
  obtain r l' where e: "lru_expire l = (r, l')" by (cases "lru_expire l")
  note x = lru_ok_expire [OF assms e]
  have "lru_size l' = lru_size l - 1" using x(2) by (simp add: length_recency [symmetric])
  moreover have "max_n l \<noteq> 0 \<longrightarrow> lru_size l \<le> max_n l" using assms by (simp add: lru_ok_def lru_size_def)
  ultimately show "lru_ok (make_room l)" "max_n (make_room l) = max_n l"
    "max_n l \<noteq> 0 \<longrightarrow> lru_size (make_room l) < max_n l"
    "recency (make_room l) = (if max_n l \<noteq> 0 \<and> length (recency l) \<ge> max_n l then butlast (recency l) else recency l)"
    using assms x e by (auto simp: make_room_def length_recency)
qed

section \<open>The list of entries as the specification\<close>

datatype ('k, 'v) lru_op = Touch 'k 'v | Hit 'k | Remove 'k | Expire

fun lru_step :: "('k, 'v) lru_op \<Rightarrow> ('k, 'v) lru \<Rightarrow> ('k, 'v) lru" where
  "lru_step (Touch k v) l = lru_touch k v l"
| "lru_step (Hit k) l = snd (lru_hit k l)"
| "lru_step (Remove k) l = snd (lru_remove l k)"
| "lru_step Expire l = snd (lru_expire l)"

text \<open>An entry that exists keeps its value and moves to the front, also when it is touched with another
  value; a new one pushes the last entry of a full list out.\<close>

fun spec_step :: "nat \<Rightarrow> ('k, 'v) lru_op \<Rightarrow> ('k \<times> 'v) list \<Rightarrow> ('k \<times> 'v) list" where
  "spec_step n (Touch k v) r =
     (case map_of r k of
        Some u \<Rightarrow> (k, u) # AList.delete k r
      | None \<Rightarrow> (k, v) # (if n \<noteq> 0 \<and> length r \<ge> n then butlast r else r))"
| "spec_step n (Hit k) r = (case map_of r k of Some u \<Rightarrow> (k, u) # AList.delete k r | None \<Rightarrow> r)"
| "spec_step n (Remove k) r = AList.delete k r"
| "spec_step n Expire r = butlast r"

lemma renew_max [simp]: "max_n (renew l a) = max_n l"
  by (simp add: renew_def emplace_front_def erase_node_def split: option.splits)

lemma emplace_max [simp]: "max_n (emplace_front ob l) = max_n l"
  by (simp add: emplace_front_def)

lemma map_of_key: "lru_ok l \<Longrightarrow> map_of (lruindex l) k = None \<longleftrightarrow> map_of (recency l) k = None"
  using index_None [of l k] by (metis map_of_eq_None_iff)

lemma touch_refines:
  assumes "lru_ok l"
  shows "lru_ok (lru_touch k v l) \<and> max_n (lru_touch k v l) = max_n l \<and>
    recency (lru_touch k v l) = spec_step (max_n l) (Touch k v) (recency l)"
proof (cases "map_of (lruindex l) k")
  case None
  let ?o = "\<lparr>lo_pinned = False, lo_key = k, lo_data = v\<rparr>"
  have "k \<notin> fst ` set (recency (make_room l))"
    using None index_None [OF assms, of k] make_room_ok(4) [OF assms] by (auto dest: in_set_butlastD split: if_splits)
  with lru_ok_emplace [OF make_room_ok(1) [OF assms], of ?o] make_room_ok [OF assms] None
  show ?thesis
    using map_of_key [OF assms, of k] by (simp add: lru_touch_def)
next
  case (Some a)
  then show ?thesis using lru_ok_renew [OF assms Some] by (auto simp: lru_touch_def)
qed

lemma hit_refines:
  assumes "lru_ok l"
  shows "lru_ok (snd (lru_hit k l)) \<and> max_n (snd (lru_hit k l)) = max_n l \<and>
    recency (snd (lru_hit k l)) = spec_step (max_n l) (Hit k) (recency l)"
  using lru_ok_renew [OF assms, of k] map_of_key [OF assms, of k] assms
  by (cases "map_of (lruindex l) k") (auto simp: lru_hit_def)

lemma step_refines:
  assumes "lru_ok l"
  shows "lru_ok (lru_step x l) \<and> max_n (lru_step x l) = max_n l \<and>
    recency (lru_step x l) = spec_step (max_n l) x (recency l)"
proof (cases x)
  case (Remove k)
  then show ?thesis
    using lru_ok_remove [OF assms, of k] by (cases "lru_remove l k") simp
next
  case Expire
  then show ?thesis using lru_ok_expire [OF assms] by (cases "lru_expire l") simp
qed (use touch_refines [OF assms] hit_refines [OF assms] in simp_all)

lemma steps_refine:
  assumes "lru_ok l"
  shows "lru_ok (fold lru_step xs l) \<and> recency (fold lru_step xs l) = fold (spec_step (max_n l)) xs (recency l)"
  using assms
proof (induction xs arbitrary: l)
  case (Cons x xs)
  from step_refines [OF Cons.prems, of x] Cons.IH [of "lru_step x l"] show ?case by simp
qed simp

text \<open>C7: Whatever is done to a new LRU structure, in any order, its list and its index of iterators
  agree, and what is found in it is what a plain list of entries by recency holds after the same
  operations.\<close>

theorem lru_refines:
  "let l = fold lru_step xs (new_lru n); r = fold (spec_step (n mod 2 ^ 32)) xs [] in
     lru_ok l \<and> recency l = r \<and> (\<forall>k. map_option lo_data (lru_find l k) = map_of r k)"
proof -
  have m: "max_n (new_lru n) = n mod 2 ^ 32" by (simp add: new_lru_def)
  show ?thesis
    using steps_refine [OF lru_ok_new, of xs n] find_recency [of "fold lru_step xs (new_lru n)"]
    unfolding m recency_new Let_def by metis
qed

section \<open>The contract of a cache of handles\<close>

text \<open>What the descriptor table relies on: entries under distinct keys, found by key, unbounded.\<close>

locale handle_cache =
  fixes ok :: "'c \<Rightarrow> bool" and entries :: "'c \<Rightarrow> ('k \<times> 'v) list" and find :: "'c \<Rightarrow> 'k \<Rightarrow> 'v option"
    and touch :: "'k \<Rightarrow> 'v \<Rightarrow> 'c \<Rightarrow> 'c" and hit :: "'k \<Rightarrow> 'c \<Rightarrow> 'c" and remove :: "'k \<Rightarrow> 'c \<Rightarrow> 'c"
    and expire :: "'c \<Rightarrow> ('k \<times> 'v) option \<times> 'c"
  assumes distinct_keys: "ok c \<Longrightarrow> distinct (map fst (entries c))"
    and find: "ok c \<Longrightarrow> find c k = map_of (entries c) k"
    and touch_new: "ok c \<Longrightarrow> find c k = None \<Longrightarrow> ok (touch k v c) \<and> entries (touch k v c) = (k, v) # entries c"
    and hit_old: "ok c \<Longrightarrow> find c k = Some v \<Longrightarrow>
      ok (hit k c) \<and> entries (hit k c) = (k, v) # AList.delete k (entries c)"
    and remove: "ok c \<Longrightarrow> ok (remove k c) \<and> entries (remove k c) = AList.delete k (entries c)"
    and expire: "ok c \<Longrightarrow> expire c = (r, c') \<Longrightarrow> ok c' \<and> entries c' = butlast (entries c) \<and>
      r = (if entries c = [] then None else Some (last (entries c)))"
begin

lemma found_held: "ok c \<Longrightarrow> find c k = Some v \<Longrightarrow> v \<in> snd ` set (entries c)"
  by (force simp: find dest: map_of_SomeD)

lemma hit_held:
  assumes "ok c" "find c k = Some v"
  shows "set (entries (hit k c)) = set (entries c)"
proof -
  have "(k, v) \<in> set (entries c)" using assms by (simp add: find map_of_SomeD)
  then show ?thesis
    using hit_old [OF assms] distinct_keys [OF assms(1)] eq_key_imp_eq_value
    by (fastforce simp: AList.delete_eq)
qed

lemma hit_length:
  assumes "ok c" "find c k = Some v"
  shows "length (entries (hit k c)) = length (entries c)"
proof -
  have d: "distinct (entries x)" if "ok x" for x using distinct_keys [OF that] by (simp add: distinct_map)
  show ?thesis
    using hit_held [OF assms] d [OF assms(1)] d [of "hit k c"] hit_old [OF assms] by (metis distinct_card)
qed

lemma remove_held:
  assumes "ok c" "find c k = Some v" "inj_on snd (set (entries c))"
  shows "snd ` set (entries (remove k c)) = snd ` set (entries c) - {v}"
    and "inj_on snd (set (entries (remove k c)))"
proof -
  have kv: "(k, v) \<in> set (entries c)" using assms by (simp add: find map_of_SomeD)
  have "set (AList.delete k (entries c)) = set (entries c) - {(k, v)}"
    using kv eq_key_imp_eq_value [OF distinct_keys [OF assms(1)]] by (auto simp: AList.delete_eq)
  then show "snd ` set (entries (remove k c)) = snd ` set (entries c) - {v}"
    "inj_on snd (set (entries (remove k c)))"
    using remove [OF assms(1), of k] kv inj_on_image_set_diff [OF assms(3), of "set (entries c)" "{(k, v)}"]
      inj_on_diff [OF assms(3)] by simp_all
qed

lemma expire_held:
  assumes "ok c" "expire c = (Some (k, v), c')" "inj_on snd (set (entries c))"
  shows "snd ` set (entries c') = snd ` set (entries c) - {v}" "inj_on snd (set (entries c'))"
    and "v \<in> snd ` set (entries c)" "length (entries c) = Suc (length (entries c'))"
proof -
  from expire [OF assms(1,2)] have e: "entries c = entries c' @ [(k, v)]"
    by (metis append_butlast_last_id option.distinct(1) option.inject)
  with distinct_keys [OF assms(1)] have "(k, v) \<notin> set (entries c')" by force
  with e assms(3) show "snd ` set (entries c') = snd ` set (entries c) - {v}" "inj_on snd (set (entries c'))"
    "v \<in> snd ` set (entries c)" "length (entries c) = Suc (length (entries c'))"
    by (auto simp: inj_on_def)
qed

end

text \<open>The LRU structure without a bound is such a cache.\<close>

interpretation fds: handle_cache "\<lambda>l :: ('k, 'v) lru. lru_ok l \<and> max_n l = 0" recency
  "\<lambda>l k. map_option lo_data (lru_find l k)" lru_touch "\<lambda>k l. snd (lru_hit k l)" "\<lambda>k l. snd (lru_remove l k)"
  "\<lambda>l. case lru_expire l of (r, l') \<Rightarrow> (map_option (\<lambda>ob. (lo_key ob, lo_data ob)) r, l')"
proof (unfold_locales, goal_cases)
  case (3 c k v)
  then show ?case using touch_refines [of c k v] find_recency [of c k] by auto
next
  case (4 c k v)
  then show ?case using hit_refines [of c k] find_recency [of c k] by auto
next
  case (5 c k)
  then show ?case using step_refines [of c "Remove k"] by simp
next
  case (6 c r c')
  then show ?case using lru_ok_expire [of c] by (cases "lru_expire c") simp
qed (simp_all add: distinct_recency find_recency)

end
