(* ===== verification/Proxy_World.thy ===== *)
theory Proxy_World
  imports Lru Structs
begin

unbundle bit_operations_syntax

text \<open>
  What the components of the I/O proxy share: the messages of \<open>common/pb/op.proto\<close>, the calls into the
  operating system and the libraries, and the state of the process, in which each component has its
  fields. The generated code of a message is a record with one field for each member and a datatype for
  each \<open>oneof\<close>.
\<close>

section \<open>Messages\<close>

datatype op_type =
    T_statfs | T_getattr | T_rename | T_access | T_utimens | T_lock
  | T_setxattr | T_getxattr | T_listxattr | T_removexattr | T_chmod | T_chown
  | T_truncate | T_open | T_read | T_write | T_flush | T_release | T_fsync | T_create
  | T_write_buf | T_read_buf | T_fallocate | T_flock
  | T_mkdir | T_rmdir | T_opendir | T_readdir | T_releasedir | T_fsyncdir
  | T_readlink | T_unlink | T_symlink | T_link | T_bmap | T_ioctl | T_poll
  | T_rep_init_space | T_rep_remove_space | T_rep_update_index | T_rep_sync_data

datatype node_type = RegularFile | Directory | Link

record attr =
  at_size :: int
  at_type :: node_type
  at_permission :: int
  at_ctime :: int
  at_mtime :: int

definition new_Attr :: attr where
  "new_Attr = \<lparr>at_size = 0, at_type = RegularFile, at_permission = 0, at_ctime = 0, at_mtime = 0\<rparr>"

record io_param =
  par_offset :: nat
  par_size :: nat

datatype additional_param = No_Param | Noadditional bool | Newpath string | Xattr_name string | Io_Param io_param

record op_request =
  rq_id :: nat
  rq_filepath :: string
  rq_type :: op_type
  rq_extra :: string
  rq_param :: additional_param
  rq_mode :: nat
  rq_size :: nat
  rq_data :: string

definition new_OpRequest :: op_request where
  "new_OpRequest = \<lparr>rq_id = 0, rq_filepath = [], rq_type = T_statfs, rq_extra = [], rq_param = No_Param,
     rq_mode = 0, rq_size = 0, rq_data = []\<rparr>"

text \<open>A member of the \<open>oneof\<close> that is not set reads as its default.\<close>

definition rq_newpath :: "op_request \<Rightarrow> string" where
  "rq_newpath r = (case rq_param r of Newpath s \<Rightarrow> s | _ \<Rightarrow> [])"

definition rq_xattr_name :: "op_request \<Rightarrow> string" where
  "rq_xattr_name r = (case rq_param r of Xattr_name s \<Rightarrow> s | _ \<Rightarrow> [])"

definition rq_io :: "op_request \<Rightarrow> io_param" where
  "rq_io r = (case rq_param r of Io_Param p \<Rightarrow> p | _ \<Rightarrow> \<lparr>par_offset = 0, par_size = 0\<rparr>)"

datatype reply_content = No_Content | R_Noadditional bool | R_Data string | R_Attr attr

record op_reply =
  rp_id :: nat
  rp_err_code :: int
  rp_content :: reply_content
  rp_entry_names :: "string list"
  rp_entries :: "attr list"
  rp_io_params :: "io_param list"

definition new_OpReply :: op_reply where
  "new_OpReply = \<lparr>rp_id = 0, rp_err_code = 0, rp_content = No_Content, rp_entry_names = [],
     rp_entries = [], rp_io_params = []\<rparr>"

definition rp_data :: "op_reply \<Rightarrow> string" where
  "rp_data r = (case rp_content r of R_Data s \<Rightarrow> s | _ \<Rightarrow> [])"

section \<open>The operating system and the libraries\<close>

text \<open>A call answers its value and the \<open>errno\<close> it leaves behind; \<open>'e\<close> is the world outside.\<close>

type_synonym 'e syscall = "'e \<Rightarrow> (int \<times> int) \<times> 'e"

record file_stat =
  fs_mode :: int
  fs_size :: int
  fs_ctime :: int
  fs_mtime :: int

text \<open>
  \<open>readdir\<close> is called until it answers null, so a directory stream is the list of the names it yields.
  \<open>stale_node\<close> is what a read through an iterator yields whose list node was freed and a node with the
  given data allocated since. Bitmaps are those of the roaring library, messages are written and parsed
  by the protobuf library and sent by gRPC, whose call answers whether it succeeded, and the reply.
  \<open>loop_fuel\<close> is how often a loop that the outside drives runs before it counts as endless: more often
  than there are directories to walk and descriptors to retry.
\<close>

record ('e, 'b) kernel =
  k_open :: "string \<Rightarrow> int \<Rightarrow> int \<Rightarrow> 'e syscall"
  k_close :: "int \<Rightarrow> 'e syscall"
  k_unlink :: "string \<Rightarrow> 'e syscall"
  k_fsync :: "int \<Rightarrow> 'e syscall"
  k_ftruncate :: "int \<Rightarrow> int \<Rightarrow> 'e syscall"
  k_truncate :: "string \<Rightarrow> int \<Rightarrow> 'e syscall"
  k_fallocate :: "int \<Rightarrow> int \<Rightarrow> int \<Rightarrow> int \<Rightarrow> 'e syscall"
  k_seek_end :: "int \<Rightarrow> 'e \<Rightarrow> int"
  k_seek_data :: "int \<Rightarrow> int \<Rightarrow> 'e \<Rightarrow> int"
  k_seek_hole :: "int \<Rightarrow> int \<Rightarrow> 'e \<Rightarrow> int"
  k_pread :: "int \<Rightarrow> int \<Rightarrow> int \<Rightarrow> 'e \<Rightarrow> ((int \<times> int) \<times> string) \<times> 'e"
  k_pwrite :: "int \<Rightarrow> string \<Rightarrow> int \<Rightarrow> 'e syscall"
  k_stat :: "string \<Rightarrow> 'e \<Rightarrow> ((int \<times> int) \<times> file_stat) \<times> 'e"
  k_fstat :: "int \<Rightarrow> 'e \<Rightarrow> ((int \<times> int) \<times> file_stat) \<times> 'e"
  k_access :: "string \<Rightarrow> int \<Rightarrow> 'e syscall"
  k_utimensat :: "int \<Rightarrow> string \<Rightarrow> (int \<times> int) \<times> (int \<times> int) \<Rightarrow> int \<Rightarrow> 'e syscall"
  k_mkdir :: "string \<Rightarrow> int \<Rightarrow> 'e syscall"
  k_rmdir :: "string \<Rightarrow> 'e syscall"
  k_creat :: "string \<Rightarrow> int \<Rightarrow> 'e syscall"
  k_rename :: "string \<Rightarrow> string \<Rightarrow> 'e syscall"
  k_link :: "string \<Rightarrow> string \<Rightarrow> 'e syscall"
  k_symlink :: "string \<Rightarrow> string \<Rightarrow> 'e syscall"
  k_readlink :: "string \<Rightarrow> int \<Rightarrow> 'e \<Rightarrow> ((int \<times> int) \<times> string) \<times> 'e"
  k_chmod :: "string \<Rightarrow> int \<Rightarrow> 'e syscall"
  k_chown :: "string \<Rightarrow> int \<Rightarrow> int \<Rightarrow> 'e syscall"
  k_opendir :: "string \<Rightarrow> 'e \<Rightarrow> (string list option \<times> int) \<times> 'e"
  k_closedir_null :: "'e syscall"
  k_fgetxattr :: "int \<Rightarrow> string \<Rightarrow> int \<Rightarrow> 'e \<Rightarrow> ((int \<times> int) \<times> string) \<times> 'e"
  k_fsetxattr :: "int \<Rightarrow> string \<Rightarrow> string \<Rightarrow> int \<Rightarrow> 'e syscall"
  k_getxattr :: "string \<Rightarrow> string \<Rightarrow> int \<Rightarrow> 'e \<Rightarrow> ((int \<times> int) \<times> string) \<times> 'e"
  k_setxattr :: "string \<Rightarrow> string \<Rightarrow> string \<Rightarrow> int \<Rightarrow> 'e syscall"
  k_listxattr :: "string \<Rightarrow> int \<Rightarrow> 'e \<Rightarrow> ((int \<times> int) \<times> string) \<times> 'e"
  k_removexattr :: "string \<Rightarrow> string \<Rightarrow> 'e syscall"
  fs_rename :: "string \<Rightarrow> string \<Rightarrow> 'e \<Rightarrow> int \<times> 'e"
  fs_permissions :: "string \<Rightarrow> int \<Rightarrow> 'e \<Rightarrow> int \<times> 'e"
  fs_resize_file :: "string \<Rightarrow> int \<Rightarrow> 'e \<Rightarrow> int \<times> 'e"
  fs_create_directory :: "string \<Rightarrow> 'e \<Rightarrow> int \<times> 'e"
  fs_remove :: "string \<Rightarrow> 'e \<Rightarrow> int \<times> 'e"
  stale_node :: "'e \<Rightarrow> int \<Rightarrow> int"
  rb_create :: 'b
  rb_from_range :: "nat \<Rightarrow> nat \<Rightarrow> nat \<Rightarrow> 'b"
  rb_add_closed :: "nat \<Rightarrow> nat \<Rightarrow> 'b \<Rightarrow> 'b"
  rb_write :: "'b \<Rightarrow> string"
  rb_read :: "string \<Rightarrow> 'b option"
  pb_write :: "op_reply \<Rightarrow> string"
  pb_read :: "string \<Rightarrow> op_reply"
  grpc_submit :: "string \<Rightarrow> op_request \<Rightarrow> 'e \<Rightarrow> (bool \<times> op_reply) \<times> 'e"
  loop_fuel :: nat

section \<open>The state of the process\<close>

text \<open>
  A file handler (\<open>HvsFileHandler\<close>). The table of handlers never drops or replaces an entry, so a shared
  pointer to a handler is the descriptor under which the table has it.
\<close>

record 'b handler =
  fh_fd :: int
  fh_bitmaps :: "(int \<times> 'b) list"
  fh_cids :: string

text \<open>
  The fields of the file descriptor manager (\<open>fds\<close>, \<open>file_handlers\<close>, \<open>max_fd_num\<close>) and of the replica
  manager: its identity, the proxies of the other centres, the channels to them, the queue \<open>m_new\<close> of
  requests to replicate, and \<open>in_flight\<close>, the requests the flusher has taken out of the queue.
\<close>

record ('e, 'b) iop =
  env :: 'e
  fds :: "(string, int) lru"
  file_handlers :: "(int \<times> 'b handler) list"
  max_fd_num :: nat
  data_dir :: string
  center_id :: string
  mcid :: nat
  replicate_data_path :: string
  ioproxys :: "(nat \<times> ioproxy_node) list"
  operators :: "(string \<times> string) list"
  m_new :: "op_request list"
  in_flight :: "op_request list"
  m_max_new :: nat

type_synonym ('e, 'b, 'a) iprog = "(('e, 'b) iop, 'a) prog"

text \<open>A call into the outside, a reading of it, and access to the state.\<close>

definition sysc :: "('e \<Rightarrow> 'a \<times> 'e) \<Rightarrow> ('e, 'b, 'a) iprog" where
  "sysc f = (\<lambda>s. case f (env s) of (a, e) \<Rightarrow> (Val a, s\<lparr>env := e\<rparr>))"

definition gets :: "(('e, 'b) iop \<Rightarrow> 'a) \<Rightarrow> ('e, 'b, 'a) iprog" where
  "gets f = (\<lambda>s. (Val (f s), s))"

definition modify :: "(('e, 'b) iop \<Rightarrow> ('e, 'b) iop) \<Rightarrow> ('e, 'b, unit) iprog" where
  "modify f = (\<lambda>s. (Val (), f s))"

lemma wp_gets [simp]: "wp (gets f) Q s = Q (Val (f s)) s"
  by (simp add: wp_def gets_def)

lemma wp_modify [simp]: "wp (modify f) Q s = Q (Val ()) (f s)"
  by (simp add: wp_def modify_def)

lemma wp_sysc [simp]: "wp (sysc f) Q s = (case f (env s) of (a, e) \<Rightarrow> Q (Val a) (s\<lparr>env := e\<rparr>))"
  by (simp add: wp_def sysc_def split: prod.splits)

section \<open>Paths\<close>

text \<open>\<open>a / b\<close> of \<open>std::experimental::filesystem::path\<close>: a separator where there is none.\<close>

definition path_join :: "string \<Rightarrow> string \<Rightarrow> string" where
  "path_join a b =
     (if a = [] \<or> b = [] \<or> last a = CHR ''/'' \<or> hd b = CHR ''/'' then a @ b else a @ ''/'' @ b)"

text \<open>\<open>*path.begin()\<close>: the root name or the root directory of an absolute path, else the first name. The
  empty path has no component.\<close>

definition first_component :: "string \<Rightarrow> string option" where
  "first_component p =
     (case p of
        [] \<Rightarrow> None
      | c # cs \<Rightarrow>
          if c \<noteq> CHR ''/'' then Some (takeWhile (\<lambda>x. x \<noteq> CHR ''/'') p)
          else (case cs of
                  [] \<Rightarrow> Some ''/''
                | d # ds \<Rightarrow> if d = CHR ''/'' then Some (''//'' @ takeWhile (\<lambda>x. x \<noteq> CHR ''/'') ds) else Some ''/''))"

definition space_dir :: "string \<Rightarrow> string \<Rightarrow> ('e, 'b, string) iprog" where
  "space_dir base p =
     (case first_component p of None \<Rightarrow> crash Out_Of_Range | Some c \<Rightarrow> ret (path_join base c))"

section \<open>Integers\<close>

definition u64 :: "int \<Rightarrow> nat" where
  "u64 x = nat (x mod 2 ^ 64)"

definition add64 :: "nat \<Rightarrow> nat \<Rightarrow> nat" where
  "add64 a b = (a + b) mod 2 ^ 64"

text \<open>A \<open>uint64_t\<close> that is passed as an \<open>off_t\<close>.\<close>

definition s64 :: "nat \<Rightarrow> int" where
  "s64 n = i64 (int n)"

lemma s64_id: "n < 2 ^ 63 \<Longrightarrow> s64 n = int n"
  by (simp add: s64_def i64_id in_i64_def)

lemma u64_id: "0 \<le> x \<Longrightarrow> x < 2 ^ 64 \<Longrightarrow> u64 x = nat x"
  by (simp add: u64_def)

lemma add64_id: "a + b < 2 ^ 64 \<Longrightarrow> add64 a b = a + b"
  by (simp add: add64_def)

abbreviation (input) O_WRONLY :: int where "O_WRONLY \<equiv> 1"
abbreviation (input) O_RDWR :: int where "O_RDWR \<equiv> 2"
abbreviation (input) O_CREAT :: int where "O_CREAT \<equiv> 64"
abbreviation (input) O_TRUNC :: int where "O_TRUNC \<equiv> 512"
abbreviation (input) O_DSYNC :: int where "O_DSYNC \<equiv> 4096"
abbreviation (input) O_DIRECT :: int where "O_DIRECT \<equiv> 16384"
abbreviation (input) O_SYNC :: int where "O_SYNC \<equiv> 1052672"
abbreviation (input) EEXIST :: int where "EEXIST \<equiv> 17"
abbreviation (input) EMLINK :: int where "EMLINK \<equiv> 31"

end
