(* ===== verification/Fd_Manager.thy ===== *)
theory Fd_Manager
  imports Proxy_World
begin

text \<open>
  \<open>io_proxy/fd_mgr.cc\<close>: the handlers of open files with the bitmaps of their replicas, the search for
  holes and data in a file, and the table of open descriptors, an LRU structure by path. Operations on a
  handler take the descriptor under which the table has it.
\<close>

section \<open>File handlers\<close>

definition new_handler :: "int \<Rightarrow> 'b handler" where
  "new_handler fd = \<lparr>fh_fd = fd, fh_bitmaps = [], fh_cids = []\<rparr>"

definition handler_of :: "int \<Rightarrow> ('e, 'b, 'b handler) iprog" where
  "handler_of h = bnd (gets (\<lambda>s. map_of (file_handlers s) h)) deref"

definition put_handler :: "int \<Rightarrow> 'b handler \<Rightarrow> ('e, 'b, unit) iprog" where
  "put_handler h x = modify (\<lambda>s. s\<lparr>file_handlers := smap_set h x (file_handlers s)\<rparr>)"

definition xattr_centers :: string where "xattr_centers = ''user.gvds.r.c''"

definition xattr_bitmap :: "int \<Rightarrow> string" where
  "xattr_bitmap cid = snprintf_n 64 (''user.gvds.r.fb'' @ int_dec cid)"

text \<open>The buffer keeps its 256 bytes whatever the length of the attribute.\<close>

definition get_rep_centers :: "('e, 'b) kernel \<Rightarrow> int \<Rightarrow> ('e, 'b, string) iprog" where
  "get_rep_centers k h =
     bnd (handler_of h) (\<lambda>x.
     if fh_cids x \<noteq> [] then ret (fh_cids x)
     else bnd (sysc (k_fgetxattr k (fh_fd x) xattr_centers 256)) (\<lambda>((err, _), buf).
       let cids = (if err \<le> 0 then [] else take 256 (buf @ replicate 256 (CHR 0x00))) in
       bnd (put_handler h (x\<lparr>fh_cids := cids\<rparr>)) (\<lambda>_. ret cids)))"

definition get_bitmap :: "('e, 'b) kernel \<Rightarrow> int \<Rightarrow> int \<Rightarrow> bool \<Rightarrow> ('e, 'b, 'b option) iprog" where
  "get_bitmap k h cid create =
     bnd (handler_of h) (\<lambda>x.
     if fh_fd x < 0 then ret None
     else case map_of (fh_bitmaps x) cid of
       Some bm \<Rightarrow> ret (Some bm)
     | None \<Rightarrow>
         bnd (sysc (k_fgetxattr k (fh_fd x) (xattr_bitmap cid) (128 * 1024))) (\<lambda>((count, _), buf).
         let bitmap = (if count > 0 then rb_read k buf else if create then Some (rb_create k) else None) in
         (case bitmap of
            None \<Rightarrow> ret None
          | Some bm \<Rightarrow> bnd (put_handler h (x\<lparr>fh_bitmaps := smap_set cid bm (fh_bitmaps x)\<rparr>))
                         (\<lambda>_. ret (Some bm)))))"

definition set_bitmap :: "int \<Rightarrow> int \<Rightarrow> 'b \<Rightarrow> ('e, 'b, unit) iprog" where
  "set_bitmap h cid bm =
     bnd (handler_of h) (\<lambda>x. put_handler h (x\<lparr>fh_bitmaps := smap_set cid bm (fh_bitmaps x)\<rparr>))"

text \<open>A failure to write the attribute is not reported.\<close>

definition flush_bitmap :: "('e, 'b) kernel \<Rightarrow> int \<Rightarrow> int \<Rightarrow> ('e, 'b, bool) iprog" where
  "flush_bitmap k h cid =
     bnd (handler_of h) (\<lambda>x.
     if fh_fd x < 0 then ret False
     else case map_of (fh_bitmaps x) cid of
       None \<Rightarrow> ret True
     | Some bm \<Rightarrow>
         bnd (sysc (k_fsetxattr k (fh_fd x) (xattr_bitmap cid) (rb_write k bm) 0)) (\<lambda>_. ret True))"

primrec flush_bitmaps :: "('e, 'b) kernel \<Rightarrow> int \<Rightarrow> int list \<Rightarrow> ('e, 'b, bool) iprog" where
  "flush_bitmaps k h [] = crash Missing_Return"
| "flush_bitmaps k h (cid # cids) = bnd (flush_bitmap k h cid) (\<lambda>_. flush_bitmaps k h cids)"

definition flush_all_bitmaps :: "('e, 'b) kernel \<Rightarrow> int \<Rightarrow> ('e, 'b, bool) iprog" where
  "flush_all_bitmaps k h = bnd (handler_of h) (\<lambda>x. flush_bitmaps k h (map fst (fh_bitmaps x)))"

section \<open>Holes\<close>

abbreviation (input) PAGE :: nat where "PAGE \<equiv> 4096"

text \<open>The pages that a range touches: from the start of its first to the end of its last.\<close>

definition page_floor :: "nat \<Rightarrow> nat" where
  "page_floor off = off - off mod PAGE"

definition page_ceil :: "nat \<Rightarrow> nat" where
  "page_ceil e = (if e mod PAGE \<noteq> 0 then add64 (page_floor e) PAGE else e)"

definition punch_hole_local :: "('e, 'b) kernel \<Rightarrow> int \<Rightarrow> nat \<Rightarrow> nat \<Rightarrow> ('e, 'b, bool) iprog" where
  "punch_hole_local k h offset len =
     bnd (handler_of h) (\<lambda>x.
     if fh_fd x < 0 then ret False
     else bnd (gets (\<lambda>s. u64 (k_seek_end k (fh_fd x) (env s)))) (\<lambda>eof.
       let end1 = add64 offset len; end_align = page_ceil end1; offset_align = page_floor offset in
       bnd (if end1 > eof then bnd (sysc (k_ftruncate k (fh_fd x) (s64 end1))) (\<lambda>_. ret ()) else ret ()) (\<lambda>_.
       bnd (sysc (k_fallocate k (fh_fd x) 3 (s64 offset_align) (s64 (u64 (int end_align - int offset_align)))))
         (\<lambda>(err, _). ret (err \<noteq> - 1)))))"

text \<open>
  The loops seek from \<open>off\<close> for the next data (\<open>sd\<close>) and the next hole (\<open>sh\<close>). They may run forever,
  which is \<open>None\<close>.
\<close>

partial_function (option) find_holes_loop ::
  "(nat \<Rightarrow> nat) \<Rightarrow> (nat \<Rightarrow> nat) \<Rightarrow> nat \<Rightarrow> nat \<Rightarrow> (nat \<times> nat) list \<Rightarrow> (nat \<times> nat) list option" where
  "find_holes_loop sd sh to off holes =
     (if off < to then
        let data_begin = sd off in
        if data_begin > off then
          if data_begin \<ge> to then Some (holes @ [(off, to)])
          else find_holes_loop sd sh to (sh data_begin) (holes @ [(off, data_begin)])
        else find_holes_loop sd sh to (sh data_begin) holes
      else Some holes)"

text \<open>Here the position of the next data goes through an \<open>int\<close>.\<close>

partial_function (option) find_data_loop ::
  "(nat \<Rightarrow> nat) \<Rightarrow> (nat \<Rightarrow> int) \<Rightarrow> nat \<Rightarrow> nat \<Rightarrow> (nat \<times> nat) list \<Rightarrow> (nat \<times> nat) list option" where
  "find_data_loop sh sd to off holes =
     (if off < to then
        let data_begin = sh off in
        if data_begin > off then
          if data_begin \<ge> to then Some (holes @ [(off, to)])
          else find_data_loop sh sd to (u64 (i32 (sd data_begin))) (holes @ [(off, data_begin)])
        else find_data_loop sh sd to (u64 (i32 (sd data_begin))) holes
      else Some holes)"

definition or_hang :: "'a option \<Rightarrow> ('w, 'a) prog" where
  "or_hang r = (case r of None \<Rightarrow> crash Blocked_Forever | Some x \<Rightarrow> ret x)"

definition find_holes_in_range :: "('e, 'b) kernel \<Rightarrow> int \<Rightarrow> nat \<Rightarrow> nat \<Rightarrow> ('e, 'b, (nat \<times> nat) list) iprog" where
  "find_holes_in_range k h start to =
     bnd (handler_of h) (\<lambda>x. bnd (gets env) (\<lambda>e.
     let to = min to (u64 (k_seek_end k (fh_fd x) e)) in
     or_hang (find_holes_loop (\<lambda>p. u64 (k_seek_data k (fh_fd x) (s64 p) e))
       (\<lambda>p. u64 (k_seek_hole k (fh_fd x) (s64 p) e)) to start [])))"

definition find_data_in_range :: "('e, 'b) kernel \<Rightarrow> int \<Rightarrow> nat \<Rightarrow> nat \<Rightarrow> ('e, 'b, (nat \<times> nat) list) iprog" where
  "find_data_in_range k h start to =
     bnd (handler_of h) (\<lambda>x. bnd (gets env) (\<lambda>e.
     let to = min to (u64 (k_seek_end k (fh_fd x) e)) in
     or_hang (find_data_loop (\<lambda>p. u64 (k_seek_hole k (fh_fd x) (s64 p) e))
       (\<lambda>p. k_seek_data k (fh_fd x) (s64 p) e) to start [])))"

section \<open>The table of descriptors\<close>

text \<open>The oldest descriptors are closed until the table is within its bound.\<close>

function checkAndExpire :: "('e, 'b) kernel \<Rightarrow> ('e, 'b) iop \<Rightarrow> unit outcome \<times> ('e, 'b) iop" where
  "checkAndExpire k s =
     (if lru_size (fds s) > max_fd_num s then
        (case lru_expire (fds s) of
           (None, l) \<Rightarrow> (Val (), s)
         | (Some ob, l) \<Rightarrow>
             checkAndExpire k (s\<lparr>fds := l, env := snd (k_close k (lo_data ob) (env s))\<rparr>))
      else (Val (), s))"
  by pat_completeness auto
termination
  by (relation "measure (\<lambda>(k, s). lru_size (fds s))")
    (auto simp: lru_expire_def lru_size_def Let_def split: if_splits)

declare checkAndExpire.simps [simp del]

definition mask_flags :: "int \<Rightarrow> int" where
  "mask_flags flags = flags AND NOT (O_SYNC OR O_DSYNC OR O_DIRECT OR 0 OR O_WRONLY)"

text \<open>
  On a hit the flags but \<open>O_TRUNC\<close> are ignored, and the descriptor is read through the iterator after
  \<open>hit\<close> has freed its node.
\<close>

definition fdm_open :: "('e, 'b) kernel \<Rightarrow> string \<Rightarrow> int \<Rightarrow> int \<Rightarrow> ('e, 'b, int) iprog" where
  "fdm_open k path flags mode =
     bnd (gets (\<lambda>s. lru_find (fds s) path)) (\<lambda>fd_it.
     case fd_it of
       Some ob \<Rightarrow>
         bnd (if flags AND O_TRUNC \<noteq> 0 then bnd (sysc (k_ftruncate k (lo_data ob) 0)) (\<lambda>_. ret ()) else ret ()) (\<lambda>_.
         bnd (modify (\<lambda>s. s\<lparr>fds := snd (lru_hit path (fds s))\<rparr>)) (\<lambda>_.
         gets (\<lambda>s. stale_node k (env s) (lo_data ob))))
     | None \<Rightarrow>
         bnd (sysc (k_open k (cstr path) (mask_flags flags) mode)) (\<lambda>(fd, errno).
         if fd = - 1 then ret (- errno)
         else if fd \<ge> 0 then
           bnd (modify (\<lambda>s. s\<lparr>fds := lru_touch path fd (fds s)\<rparr>)) (\<lambda>_.
           bnd (checkAndExpire k) (\<lambda>_. ret fd))
         else ret (- EACCES)))"

definition fdm_flush :: "('e, 'b) kernel \<Rightarrow> string \<Rightarrow> ('e, 'b, int) iprog" where
  "fdm_flush k path =
     bnd (gets (\<lambda>s. lru_find (fds s) path)) (\<lambda>fd_it.
     case fd_it of
       Some ob \<Rightarrow> bnd (sysc (k_fsync k (lo_data ob))) (\<lambda>_. ret 0)
     | None \<Rightarrow> ret 0)"

definition fdm_close :: "('e, 'b) kernel \<Rightarrow> string \<Rightarrow> ('e, 'b, int) iprog" where
  "fdm_close k path = bnd (fdm_flush k path) (\<lambda>_. ret 0)"

text \<open>The entry of a path leaves the table and its descriptor is closed.\<close>

definition drop_fd :: "('e, 'b) kernel \<Rightarrow> string \<Rightarrow> ('e, 'b, int) iprog" where
  "drop_fd k path =
     bnd (gets (\<lambda>s. lru_find (fds s) path)) (\<lambda>fd_it.
     case fd_it of
       None \<Rightarrow> ret (- 1)
     | Some ob \<Rightarrow>
         bnd (modify (\<lambda>s. s\<lparr>fds := snd (lru_remove (fds s) (lo_key ob))\<rparr>)) (\<lambda>_.
         bnd (sysc (k_close k (lo_data ob))) (\<lambda>_. ret (lo_data ob))))"

definition fdm_create :: "('e, 'b) kernel \<Rightarrow> string \<Rightarrow> int \<Rightarrow> ('e, 'b, int) iprog" where
  "fdm_create k path mode =
     bnd (sysc (k_open k (cstr path) (O_CREAT OR O_SYNC) mode)) (\<lambda>(fd_new, _).
     if fd_new \<ge> 0 then
       bnd (drop_fd k path) (\<lambda>_. bnd (sysc (k_close k fd_new)) (\<lambda>_. ret 0))
     else ret fd_new)"

definition fdm_remove :: "('e, 'b) kernel \<Rightarrow> string \<Rightarrow> ('e, 'b, int) iprog" where
  "fdm_remove k path =
     bnd (drop_fd k path) (\<lambda>_. bnd (sysc (k_unlink k (cstr path))) (\<lambda>(r, _). ret r))"

definition fdm_expire :: "('e, 'b) kernel \<Rightarrow> string \<Rightarrow> ('e, 'b, int) iprog" where
  "fdm_expire k path = drop_fd k path"

definition setMaxFdNum :: "nat \<Rightarrow> ('e, 'b, bool) iprog" where
  "setMaxFdNum num =
     bnd (modify (\<lambda>s. s\<lparr>max_fd_num := (if num > 1 then num else 1)\<rparr>)) (\<lambda>_. crash Missing_Return)"

text \<open>
  The handler of a path: the lock is held while the file is opened and then taken again for the table of handlers, so that
  other operations may come in between.
\<close>

definition enter_handler :: "int \<Rightarrow> ('e, 'b, int option) iprog" where
  "enter_handler fd =
     bnd (gets (\<lambda>s. map_of (file_handlers s) fd)) (\<lambda>fh_it.
     case fh_it of
       Some _ \<Rightarrow> ret (Some fd)
     | None \<Rightarrow> bnd (put_handler fd (new_handler fd)) (\<lambda>_. ret (Some fd)))"

definition get_file_handler :: "('e, 'b) kernel \<Rightarrow> string \<Rightarrow> ('e, 'b, int option) iprog" where
  "get_file_handler k path =
     bnd (fdm_open k path O_RDWR 436) (\<lambda>fd.
     if fd < 0 then ret None else enter_handler fd)"

end
