(* ===== verification/Sample_Proxy.thy ===== *)
theory Sample_Proxy
  imports Fd_Manager
begin

text \<open>
  A concrete machine for the witnesses of the I/O proxy: it hands out the smallest free descriptor from 3
  on, remembers the paths behind the open ones, the messages sent and the attributes of the space
  directories; every file has the same layout. Bitmaps are lists of closed ranges.
\<close>

record box =
  bx_open :: "(int \<times> string) list"
  bx_files :: "string list"
  bx_sent :: "(string \<times> op_request) list"
  bx_xattr :: "(string \<times> string) list"

fun least_fd :: "nat \<Rightarrow> int \<Rightarrow> int list \<Rightarrow> int" where
  "least_fd 0 n used = n"
| "least_fd (Suc m) n used = (if n \<in> set used then least_fd m (n + 1) used else n)"

definition free_fd :: "box \<Rightarrow> int" where
  "free_fd e = least_fd (length (bx_open e)) 3 (map fst (bx_open e))"

definition fine :: "box syscall" where
  "fine e = ((0, 0), e)"

definition box_kernel :: "nat \<Rightarrow> (nat \<Rightarrow> int) \<Rightarrow> (nat \<Rightarrow> int) \<Rightarrow> (box, (nat \<times> nat) list) kernel" where
  "box_kernel eof sd sh = \<lparr>
     k_open = \<lambda>p f m e.
       (if p \<in> set (bx_files e) \<or> f AND O_CREAT \<noteq> 0
        then ((free_fd e, 0), e\<lparr>bx_open := (free_fd e, p) # bx_open e, bx_files := List.insert p (bx_files e)\<rparr>)
        else ((- 1, ENOENT), e)),
     k_close = \<lambda>fd e. ((0, 0), e\<lparr>bx_open := AList.delete fd (bx_open e)\<rparr>),
     k_unlink = \<lambda>p e. (if p \<in> set (bx_files e) then ((0, 0), e\<lparr>bx_files := removeAll p (bx_files e)\<rparr>)
                       else ((- 1, ENOENT), e)),
     k_fsync = \<lambda>fd. fine, k_ftruncate = \<lambda>fd n. fine, k_truncate = \<lambda>p n. fine,
     k_fallocate = \<lambda>fd m off len. fine,
     k_seek_end = \<lambda>fd e. int eof, k_seek_data = \<lambda>fd p e. sd (nat p), k_seek_hole = \<lambda>fd p e. sh (nat p),
     k_pread = \<lambda>fd n off e. (((n, 0), replicate (nat n) CHR ''x''), e),
     k_pwrite = \<lambda>fd d off e. ((int (length d), 0), e),
     k_stat = \<lambda>p e. ((if p \<in> set (bx_files e) then (0, 0) else (- 1, ENOENT),
        \<lparr>fs_mode = 33188, fs_size = int eof, fs_ctime = 0, fs_mtime = 0\<rparr>), e),
     k_fstat = \<lambda>fd e. (((0, 0), \<lparr>fs_mode = 33188, fs_size = int eof, fs_ctime = 0, fs_mtime = 0\<rparr>), e),
     k_access = \<lambda>p m. fine, k_utimensat = \<lambda>d p t f. fine, k_mkdir = \<lambda>p m. fine, k_rmdir = \<lambda>p. fine,
     k_creat = \<lambda>p m. fine, k_rename = \<lambda>p q. fine, k_link = \<lambda>p q. fine, k_symlink = \<lambda>p q. fine,
     k_readlink = \<lambda>p n e. (((0, 0), []), e), k_chmod = \<lambda>p m. fine, k_chown = \<lambda>p u g. fine,
     k_opendir = \<lambda>p e. ((None, ENOENT), e), k_closedir_null = \<lambda>e. ((- 1, EINVAL), e),
     k_fgetxattr = \<lambda>fd n m e. (((- 1, ENOENT), []), e), k_fsetxattr = \<lambda>fd n v f. fine,
     k_getxattr = \<lambda>p n m e. (case map_of (bx_xattr e) p of None \<Rightarrow> (((- 1, ENOENT), []), e)
                             | Some v \<Rightarrow> (((int (length v), 0), v), e)),
     k_setxattr = \<lambda>p n v f e. ((0, 0), e\<lparr>bx_xattr := (p, v) # bx_xattr e\<rparr>),
     k_listxattr = \<lambda>p n e. (((0, 0), []), e), k_removexattr = \<lambda>p n. fine,
     fs_rename = \<lambda>p q e. (0, e), fs_permissions = \<lambda>p m e. (0, e), fs_resize_file = \<lambda>p n e. (0, e),
     fs_create_directory = \<lambda>p e. (0, e), fs_remove = \<lambda>p e. (0, e),
     stale_node = \<lambda>e v. v,
     rb_create = [], rb_from_range = \<lambda>a b step. [(a, b - 1)], rb_add_closed = \<lambda>a b m. (a, b) # m,
     rb_write = \<lambda>m. [], rb_read = \<lambda>s. Some [],
     pb_write = \<lambda>r. [], pb_read = \<lambda>s. new_OpReply,
     grpc_submit = \<lambda>t r e. ((True, new_OpReply), e\<lparr>bx_sent := bx_sent e @ [(t, r)]\<rparr>),
     loop_fuel = 100\<rparr>"

definition sample_box :: box where
  "sample_box = \<lparr>bx_open = [], bx_files = [''/data/s1/a'', ''/data/s1/b'', ''/data/s1/c''], bx_sent = [],
     bx_xattr = [(''/data/s1'', [CHR 0x01, CHR 0x02])]\<rparr>"

definition peer :: ioproxy_node where
  "peer = \<lparr>iop_rpc_port = 9095, iop_data_port = 9096, iop_ip = ''10.0.0.2'', iop_name = ''p2'',
     iop_status = 0, iop_uuid = ''u2'', iop_cid = ''2''\<rparr>"

definition sample_iop :: "(box, (nat \<times> nat) list) iop" where
  "sample_iop = \<lparr>env = sample_box, fds = new_lru 0, file_handlers = [], max_fd_num = 500, data_dir = ''/data'',
     center_id = ''1'', mcid = 1, replicate_data_path = ''/data'', ioproxys = [(2, peer)], operators = [],
     m_new = [], in_flight = [], m_max_new = 1048576\<rparr>"

end
