(* ===== verification/Extents.thy ===== *)
theory Extents
  imports Sample_Proxy
begin

text \<open>
  The search of \<open>io_proxy/fd_mgr.cc\<close> for the holes and the data of a range: it ends and answers exactly
  the holes, or exactly the data of a file of at most 2 GB; beyond that the position of the next data is
  cut to 32 bits, and the search for data may run forever.
\<close>

section \<open>What seeking answers\<close>

text \<open>
  The layout of a file: which bytes before the end are data. \<open>lseek\<close> with \<open>SEEK_DATA\<close> answers the next
  byte of data, or -1 when there is none; with \<open>SEEK_HOLE\<close> the next byte that is not data, the end of the
  file included.
\<close>

definition seeks_data :: "(nat \<Rightarrow> bool) \<Rightarrow> nat \<Rightarrow> (nat \<Rightarrow> int) \<Rightarrow> bool" where
  "seeks_data data eof sd \<longleftrightarrow> (\<forall>off < eof.
     (sd off = - 1 \<and> (\<forall>p. off \<le> p \<and> p < eof \<longrightarrow> \<not> data p)) \<or>
     (\<exists>d. sd off = int d \<and> off \<le> d \<and> d < eof \<and> data d \<and> (\<forall>p. off \<le> p \<and> p < d \<longrightarrow> \<not> data p)))"

definition seeks_hole :: "(nat \<Rightarrow> bool) \<Rightarrow> nat \<Rightarrow> (nat \<Rightarrow> int) \<Rightarrow> bool" where
  "seeks_hole data eof sh \<longleftrightarrow> (\<forall>off < eof.
     \<exists>d. sh off = int d \<and> off \<le> d \<and> d \<le> eof \<and> (d < eof \<longrightarrow> \<not> data d) \<and> (\<forall>p. off \<le> p \<and> p < d \<longrightarrow> data p))"

lemma next_data:
  assumes "seeks_data data eof sd" "off < eof" "off \<le> p" "p < eof" "data p"
  obtains d where "sd off = int d" "off \<le> d" "d \<le> p" "data d" "\<And>q. off \<le> q \<Longrightarrow> q < d \<Longrightarrow> \<not> data q"
  using assms unfolding seeks_data_def by (metis not_less)

lemma no_data:
  assumes "seeks_data data eof sd" "off < eof" "\<And>p. off \<le> p \<Longrightarrow> p < to \<Longrightarrow> \<not> data p"
  shows "sd off = - 1 \<or> (\<exists>d. sd off = int d \<and> to \<le> d \<and> d < eof)"
  using assms unfolding seeks_data_def by (metis not_less)

lemma next_hole:
  assumes "seeks_hole data eof sh" "off < eof"
  obtains d where "sh off = int d" "off \<le> d" "d \<le> eof" "d < eof \<Longrightarrow> \<not> data d"
    "\<And>q. off \<le> q \<Longrightarrow> q < d \<Longrightarrow> data q"
  using assms unfolding seeks_hole_def by metis

text \<open>The bytes that a list of ranges covers.\<close>

definition covered :: "(nat \<times> nat) list \<Rightarrow> nat set" where
  "covered rs = (\<Union>(a, b) \<in> set rs. {a..<b})"

lemma covered_simps [simp]:
  "covered [] = {}" "covered (rs @ rs') = covered rs \<union> covered rs'" "covered [(a, b)] = {a..<b}"
  by (auto simp: covered_def)

text \<open>The ranges are nonempty and follow each other before \<open>n\<close>.\<close>

definition ascending :: "nat \<Rightarrow> (nat \<times> nat) list \<Rightarrow> bool" where
  "ascending n rs \<longleftrightarrow> sorted_wrt (\<lambda>p q. snd p < fst q) rs \<and> (\<forall>(a, b) \<in> set rs. a < b \<and> b \<le> n)"

lemma ascending_Nil [simp]: "ascending n []"
  by (simp add: ascending_def)

lemma ascending_snoc: "ascending m rs \<Longrightarrow> m < a \<Longrightarrow> a < b \<Longrightarrow> b \<le> n \<Longrightarrow> ascending n (rs @ [(a, b)])"
  by (fastforce simp: ascending_def sorted_wrt_append)

lemma ascending_mono: "ascending m rs \<Longrightarrow> m \<le> n \<Longrightarrow> ascending n rs"
  by (fastforce simp: ascending_def)

lemma u64_int [simp]: "n < 2 ^ 64 \<Longrightarrow> u64 (int n) = n"
  by (simp add: u64_id)

lemma u64_minus_one [simp]: "u64 (- 1) = 2 ^ 64 - 1"
  by (simp add: u64_def)

section \<open>Holes\<close>

text \<open>The ranges found before \<open>off\<close>, and what closing the range that starts there makes of them.\<close>

definition found :: "nat \<Rightarrow> nat \<Rightarrow> (nat \<times> nat) list \<Rightarrow> bool" where
  "found to off acc \<longleftrightarrow> acc = [] \<or> (\<exists>m < off. m \<le> to \<and> ascending m acc)"

lemma found_done: "found to off acc \<Longrightarrow> ascending to acc"
  using ascending_mono by (auto simp: found_def)

lemma found_mono: "found to off acc \<Longrightarrow> off \<le> off' \<Longrightarrow> found to off' acc"
  by (auto simp: found_def)

lemma found_snoc: "found to off acc \<Longrightarrow> off < b \<Longrightarrow> b \<le> n \<Longrightarrow> ascending n (acc @ [(off, b)])"
  using ascending_snoc [of _ acc off b n] by (auto simp: found_def ascending_def)

lemma found_next: "found to off acc \<Longrightarrow> off < b \<Longrightarrow> b \<le> to \<Longrightarrow> b < off' \<Longrightarrow> found to off' (acc @ [(off, b)])"
  using found_snoc [of to off acc b b] by (auto simp: found_def)

lemma find_holes_acc:
  assumes sd: "seeks_data data eof sd" and sh: "seeks_hole data eof sh" and eof: "to \<le> eof" "eof < 2 ^ 63"
    and acc: "covered acc = {p. start \<le> p \<and> p < min off to \<and> \<not> data p}" "start \<le> off" "found to off acc"
  shows "\<exists>hs. find_holes_loop (\<lambda>p. u64 (sd p)) (\<lambda>p. u64 (sh p)) to off acc = Some hs \<and>
    covered hs = {p. start \<le> p \<and> p < to \<and> \<not> data p} \<and> ascending to hs"
  using acc
proof (induction "to - off" arbitrary: off acc rule: less_induct)
  case less
  show ?case
  proof (cases "off < to")
    case False
    then show ?thesis
      using less.prems(1) found_done [OF less.prems(3)] by (simp add: find_holes_loop.simps min_def)
  next
    case True
    let ?loop = "find_holes_loop (\<lambda>p. u64 (sd p)) (\<lambda>p. u64 (sh p)) to"
    from True eof have off: "off < eof" by simp
    show ?thesis
    proof (cases "\<forall>p. off \<le> p \<and> p < to \<longrightarrow> \<not> data p")
      case none: True
      have "to \<le> u64 (sd off)"
        using no_data [OF sd off, of to] none eof by auto
      then have "?loop off acc = Some (acc @ [(off, to)])"
        using True by (simp add: find_holes_loop.simps)
      moreover have "covered (acc @ [(off, to)]) = {p. start \<le> p \<and> p < to \<and> \<not> data p}"
        using less.prems(1,2) none True by auto
      ultimately show ?thesis using found_snoc [OF less.prems(3) True] by simp
    next
      case False
      then obtain p where p: "off \<le> p" "p < to" "data p" by auto
      from next_data [OF sd off p(1) _ p(3)] p(2) eof obtain d where
        d: "sd off = int d" "off \<le> d" "d < to" "data d" "\<And>q. off \<le> q \<Longrightarrow> q < d \<Longrightarrow> \<not> data q"
        by (metis le_less_trans less_le_trans)
      have "d < eof" using d(3) eof by simp
      from next_hole [OF sh this] obtain h where
        h: "sh d = int h" "d \<le> h" "h \<le> eof" "h < eof \<Longrightarrow> \<not> data h" "\<And>q. d \<le> q \<Longrightarrow> q < h \<Longrightarrow> data q"
        by blast
      have lt: "d < h" using d(4) h(2,4) \<open>d < eof\<close> by (metis le_neq_implies_less)
      let ?acc = "if off < d then acc @ [(off, d)] else acc"
      have "?loop off acc = ?loop h ?acc"
        using True d(1-3) h(1,3) eof by (subst find_holes_loop.simps) (simp add: Let_def)
      moreover have "covered ?acc = {p. start \<le> p \<and> p < min h to \<and> \<not> data p}"
        using less.prems(1,2) d(2-5) h(5) lt by (auto simp: not_less)
      moreover have "found to h ?acc"
        using found_next [OF less.prems(3) _ _ lt] found_mono [OF less.prems(3), of h] d(2,3) lt by simp
      ultimately show ?thesis
        using less.hyps [of h ?acc] lt d(2) less.prems(2) True by simp
    qed
  qed
qed

text \<open>The layout of the file behind a descriptor.\<close>

definition file_layout :: "('e, 'b) kernel \<Rightarrow> 'e \<Rightarrow> int \<Rightarrow> (nat \<Rightarrow> bool) \<Rightarrow> nat \<Rightarrow> bool" where
  "file_layout k e fd data eof \<longleftrightarrow> eof < 2 ^ 63 \<and> k_seek_end k fd e = int eof \<and>
     seeks_data data eof (\<lambda>p. k_seek_data k fd (int p) e) \<and> seeks_hole data eof (\<lambda>p. k_seek_hole k fd (int p) e)"

lemma file_layoutD:
  assumes "file_layout k e fd data eof"
  shows "eof < 2 ^ 63" "u64 (k_seek_end k fd e) = eof" "seeks_data data eof (\<lambda>p. k_seek_data k fd (s64 p) e)"
    "seeks_hole data eof (\<lambda>p. k_seek_hole k fd (s64 p) e)"
proof -
  show e: "eof < 2 ^ 63" and "u64 (k_seek_end k fd e) = eof"
    using assms by (simp_all add: file_layout_def)
  have "s64 p = int p" if "p < eof" for p using that e by (simp add: s64_id)
  then show "seeks_data data eof (\<lambda>p. k_seek_data k fd (s64 p) e)"
    "seeks_hole data eof (\<lambda>p. k_seek_hole k fd (s64 p) e)"
    using assms by (auto simp: file_layout_def seeks_data_def seeks_hole_def)
qed

text \<open>C12: The search for holes ends on every file and answers exactly the holes of the range, in ascending
  order and each as long as it can be.\<close>

theorem find_holes_exact:
  assumes "map_of (file_handlers s) h = Some x" and layout: "file_layout k (env s) (fh_fd x) data eof"
  shows "wp (find_holes_in_range k h a b) (\<lambda>r s'. s' = s \<and> (\<exists>hs. r = Val hs \<and>
    covered hs = {p. a \<le> p \<and> p < min b eof \<and> \<not> data p} \<and> ascending (min b eof) hs)) s"
proof -
  note l = file_layoutD [OF layout]
  from find_holes_acc [OF l(3,4), of "min b eof" "[]" a a] l(1)
  obtain hs where "find_holes_loop (\<lambda>p. u64 (k_seek_data k (fh_fd x) (s64 p) (env s)))
      (\<lambda>p. u64 (k_seek_hole k (fh_fd x) (s64 p) (env s))) (min b eof) a [] = Some hs"
    "covered hs = {p. a \<le> p \<and> p < min b eof \<and> \<not> data p}" "ascending (min b eof) hs"
    by (auto simp: found_def)
  then show ?thesis
    using assms(1) l(2) by (auto simp: find_holes_in_range_def handler_of_def or_hang_def Let_def)
qed

section \<open>Data\<close>

lemma find_data_acc:
  assumes sd: "seeks_data data eof sd" and sh: "seeks_hole data eof sh" and eof: "to \<le> eof" "eof \<le> 2 ^ 31"
    and acc: "covered acc = {p. start \<le> p \<and> p < min off to \<and> data p}" "start \<le> off" "found to off acc"
  shows "\<exists>ds. find_data_loop (\<lambda>p. u64 (sh p)) sd to off acc = Some ds \<and>
    covered ds = {p. start \<le> p \<and> p < to \<and> data p} \<and> ascending to ds"
  using acc
proof (induction "to - off" arbitrary: off acc rule: less_induct)
  case less
  show ?case
  proof (cases "off < to")
    case False
    then show ?thesis
      using less.prems(1) found_done [OF less.prems(3)] by (simp add: find_data_loop.simps min_def)
  next
    case True
    let ?loop = "find_data_loop (\<lambda>p. u64 (sh p)) sd to"
    from True eof have "off < eof" by simp
    from next_hole [OF sh this] obtain h where
      h: "sh off = int h" "off \<le> h" "h \<le> eof" "h < eof \<Longrightarrow> \<not> data h" "\<And>q. off \<le> q \<Longrightarrow> q < h \<Longrightarrow> data q"
      by blast
    let ?acc = "if off < h then acc @ [(off, h)] else acc"
    show ?thesis
    proof (cases "to \<le> h")
      case last: True
      then have "?loop off acc = Some (acc @ [(off, to)])"
        using True h(1,3) eof by (simp add: find_data_loop.simps)
      moreover have "covered (acc @ [(off, to)]) = {p. start \<le> p \<and> p < to \<and> data p}"
        using less.prems(1,2) last True h(5) by auto
      ultimately show ?thesis using found_snoc [OF less.prems(3) True] by simp
    next
      case False
      then have lt: "h < to" "h < eof" using eof by auto
      have step: "?loop off acc = ?loop (u64 (i32 (sd h))) ?acc"
        using True lt h(1,2) eof by (subst find_data_loop.simps) (simp add: Let_def)
      have cov: "covered ?acc = {p. start \<le> p \<and> p < h \<and> data p}"
        using less.prems(1,2) h(2,5) True by (auto simp: min_def not_less)
      have fnd: "found to d ?acc" if "h < d" for d
        using found_next [OF less.prems(3) _ _ that] found_mono [OF less.prems(3), of d] lt(1) h(2) that by simp
      have "\<exists>d. u64 (i32 (sd h)) = d \<and> h < d \<and> (\<forall>q. h \<le> q \<and> q < min d to \<longrightarrow> \<not> data q)"
      proof (cases "\<exists>p. h \<le> p \<and> p < eof \<and> data p")
        case True
        then obtain p where p: "h \<le> p" "p < eof" "data p" by auto
        from next_data [OF sd lt(2) p(1,2,3)] obtain d where
          d: "sd h = int d" "h \<le> d" "d \<le> p" "data d" "\<And>q. h \<le> q \<Longrightarrow> q < d \<Longrightarrow> \<not> data q" by blast
        have "h < d" using d(2,4) h(4) lt(2) by (metis le_neq_implies_less)
        moreover have "u64 (i32 (sd h)) = d" using d(1,3) p(2) eof by (simp add: i32_id in_i32_def)
        ultimately show ?thesis using d(5) by simp
      next
        case False
        then have "sd h = - 1" using no_data [OF sd lt(2), of eof] by auto
        then have "u64 (i32 (sd h)) = 2 ^ 64 - 1" by (simp add: i32_id in_i32_def)
        then show ?thesis using False lt eof by auto
      qed
      then obtain d where d: "u64 (i32 (sd h)) = d" "h < d" "\<And>q. h \<le> q \<Longrightarrow> q < min d to \<Longrightarrow> \<not> data q" by blast
      have "covered ?acc = {p. start \<le> p \<and> p < min d to \<and> data p}"
        using cov d(2,3) lt(1) by (auto simp: not_less)
      then show ?thesis
        using less.hyps [of d ?acc] step d(1,2) fnd [OF d(2)] less.prems(2) h(2) True by simp
    qed
  qed
qed

text \<open>In a file of at most 2 GB the search for data ends too and answers exactly the data of the range.\<close>

theorem find_data_exact:
  assumes "map_of (file_handlers s) h = Some x" and layout: "file_layout k (env s) (fh_fd x) data eof"
    and "eof \<le> 2 ^ 31"
  shows "wp (find_data_in_range k h a b) (\<lambda>r s'. s' = s \<and> (\<exists>ds. r = Val ds \<and>
    covered ds = {p. a \<le> p \<and> p < min b eof \<and> data p} \<and> ascending (min b eof) ds)) s"
proof -
  note l = file_layoutD [OF layout]
  from find_data_acc [OF l(3,4) _ assms(3), of "min b eof" "[]" a a]
  obtain ds where "find_data_loop (\<lambda>p. u64 (k_seek_hole k (fh_fd x) (s64 p) (env s)))
      (\<lambda>p. k_seek_data k (fh_fd x) (s64 p) (env s)) (min b eof) a [] = Some ds"
    "covered ds = {p. a \<le> p \<and> p < min b eof \<and> data p}" "ascending (min b eof) ds"
    by (auto simp: found_def)
  then show ?thesis
    using assms(1) l(2) by (auto simp: find_data_in_range_def handler_of_def or_hang_def Let_def)
qed

text \<open>A position of 4 GB is 0 again, and the search starts over.\<close>

lemma find_data_loops:
  assumes "0 < sh 0" "sh 0 < to" "sd (sh 0) = 2 ^ 32"
  shows "find_data_loop sh sd to 0 acc = None"
proof -
  let ?P = "\<lambda>sh' sd' to' off (acc :: (nat \<times> nat) list) (r :: (nat \<times> nat) list).
    off = (0::nat) \<and> sh' = sh \<and> sd' = sd \<and> to' = to \<longrightarrow> False"
  have "?P sh sd to 0 acc r" if run: "find_data_loop sh sd to 0 acc = Some r" for r
  proof (rule find_data_loop.raw_induct [where P = ?P, OF _ run], intro impI, elim conjE)
    fix loop :: "(nat \<Rightarrow> nat) \<Rightarrow> (nat \<Rightarrow> int) \<Rightarrow> nat \<Rightarrow> nat \<Rightarrow> (nat \<times> nat) list \<Rightarrow> (nat \<times> nat) list option"
    fix sh' sd' to' and off :: nat and acc r
    assume IH: "\<And>sh' sd' to' off acc r. loop sh' sd' to' off acc = Some r \<Longrightarrow> ?P sh' sd' to' off acc r"
      and eq: "off = 0" "sh' = sh" "sd' = sd" "to' = to"
      and body: "(if off < to' then let d = sh' off in
         if off < d then if to' \<le> d then Some (acc @ [(off, to')])
           else loop sh' sd' to' (u64 (i32 (sd' d))) (acc @ [(off, d)])
         else loop sh' sd' to' (u64 (i32 (sd' d))) acc
       else Some acc) = Some r"
    have "u64 (i32 (2 ^ 32)) = 0" by (simp add: i32_def u64_def)
    with body eq assms have "loop sh sd to 0 (acc @ [(0, sh 0)]) = Some r" by (simp add: Let_def)
    from IH [OF this] show False by simp
  qed
  then show ?thesis by (cases "find_data_loop sh sd to 0 acc") auto
qed

text \<open>A file whose data goes on at 4 GB after a hole is searched forever: the thread that serves the
  request never ends.\<close>

theorem find_data_diverges:
  assumes "map_of (file_handlers s) h = Some x"
    and "k_seek_end k (fh_fd x) (env s) = int eof" "eof < 2 ^ 63"
    and "k_seek_hole k (fh_fd x) 0 (env s) = int d" "0 < d" "d < min b eof"
    and "k_seek_data k (fh_fd x) (int d) (env s) = 2 ^ 32"
  shows "wp (find_data_in_range k h 0 b) (\<lambda>r s'. r = Crash Blocked_Forever) s"
proof -
  have z: "s64 0 = 0" "s64 d = int d" using assms(3,6) by (simp_all add: s64_id)
  have "find_data_loop (\<lambda>p. u64 (k_seek_hole k (fh_fd x) (s64 p) (env s)))
      (\<lambda>p. k_seek_data k (fh_fd x) (s64 p) (env s)) (min b eof) 0 [] = None"
    using assms(3-7) z by (intro find_data_loops) simp_all
  moreover have "u64 (int eof) = eof" using assms(3) by simp
  ultimately show ?thesis
    using assms(1,2) by (auto simp: find_data_in_range_def handler_of_def or_hang_def Let_def)
qed

section \<open>Two files\<close>

text \<open>A file with a hole from 4096 to 8192, and one with data at its start and at 4 GB.\<close>

definition holed_kernel :: "(box, (nat \<times> nat) list) kernel" where
  "holed_kernel = box_kernel 12288 (\<lambda>p. if p < 4096 \<or> 8192 \<le> p then int p else 8192)
     (\<lambda>p. if p < 4096 then 4096 else if p < 8192 then int p else 12288)"

definition far_kernel :: "(box, (nat \<times> nat) list) kernel" where
  "far_kernel = box_kernel (2 ^ 33) (\<lambda>p. if p < 4096 then int p else 2 ^ 32) (\<lambda>p. if p < 4096 then 4096 else 2 ^ 33)"

definition one_handler :: "(box, (nat \<times> nat) list) iop" where
  "one_handler = sample_iop\<lparr>file_handlers := [(3, new_handler 3)]\<rparr>"

lemma holed_layout: "file_layout holed_kernel e 3 (\<lambda>p. p < 4096 \<or> 8192 \<le> p) 12288"
proof -
  have "\<exists>d. (if p < 4096 \<or> 8192 \<le> p then int p else 8192) = int d \<and> p \<le> d \<and> d < 12288 \<and>
      (d < 4096 \<or> 8192 \<le> d) \<and> (\<forall>q. p \<le> q \<and> q < d \<longrightarrow> \<not> (q < 4096 \<or> 8192 \<le> q))" if "p < 12288" for p
    using that by (intro exI [of _ "if p < 4096 \<or> 8192 \<le> p then p else 8192"]) auto
  moreover have "\<exists>d. (if p < 4096 then 4096 else if p < 8192 then int p else 12288) = int d \<and> p \<le> d \<and>
      d \<le> 12288 \<and> (d < 12288 \<longrightarrow> \<not> (d < 4096 \<or> 8192 \<le> d)) \<and>
      (\<forall>q. p \<le> q \<and> q < d \<longrightarrow> q < 4096 \<or> 8192 \<le> q)" if "p < 12288" for p
    using that by (intro exI [of _ "if p < 4096 then 4096 else if p < 8192 then p else 12288"]) auto
  ultimately show ?thesis
    by (simp add: file_layout_def seeks_data_def seeks_hole_def holed_kernel_def box_kernel_def)
qed

lemma one_handler_holed:
  "map_of (file_handlers one_handler) 3 = Some (new_handler 3)"
  "file_layout holed_kernel (env one_handler) (fh_fd (new_handler 3)) (\<lambda>p. p < 4096 \<or> 8192 \<le> p) 12288"
  by (simp_all add: one_handler_def new_handler_def holed_layout)

lemma find_holes_exact_witness:
  "wp (find_holes_in_range holed_kernel 3 100 9000) (\<lambda>r s'. \<exists>hs. r = Val hs \<and> covered hs = {4096..<8192}) one_handler"
  by (rule wp_mono [OF find_holes_exact [OF one_handler_holed]]) auto

lemma find_data_exact_witness:
  "wp (find_data_in_range holed_kernel 3 100 9000)
     (\<lambda>r s'. \<exists>ds. r = Val ds \<and> covered ds = {100..<4096} \<union> {8192..<9000}) one_handler"
  by (rule wp_mono [OF find_data_exact [OF one_handler_holed]]) auto

lemma find_data_diverges_witness:
  "wp (find_data_in_range far_kernel 3 0 (2 ^ 33)) (\<lambda>r s'. r = Crash Blocked_Forever) one_handler"
  by (rule find_data_diverges [where eof = "2 ^ 33" and d = 4096])
    (auto simp: one_handler_def new_handler_def far_kernel_def box_kernel_def)

end
