(* ===== verification/Replica_Mgr.thy ===== *)
theory Replica_Mgr
  imports Fd_Manager
begin

text \<open>
  \<open>io_proxy/replica_mgr.cc\<close>: replication between the I/O proxies of several centres. A request that changes
  a replicated space is queued with the centres of the space and sent to each of them by the flusher;
  reading a hole fetches the data from the other centres first; and three kinds of requests from other
  proxies are handled here.
\<close>

section \<open>Text and characters\<close>

definition is_digit :: "char \<Rightarrow> bool" where
  "is_digit c \<longleftrightarrow> 48 \<le> (of_char c :: nat) \<and> of_char c \<le> (57 :: nat)"

definition is_blank :: "char \<Rightarrow> bool" where
  "is_blank c \<longleftrightarrow> c = CHR '' '' \<or> 9 \<le> (of_char c :: nat) \<and> of_char c \<le> (13 :: nat)"

definition digits_val :: "string \<Rightarrow> int" where
  "digits_val ds = foldl (\<lambda>v c. 10 * v + (of_char c - 48)) 0 ds"

text \<open>\<open>std::stoi\<close>; \<open>None\<close> when it throws.\<close>

definition stoi :: "string \<Rightarrow> int option" where
  "stoi s =
     (let t = dropWhile is_blank s;
          neg = (t \<noteq> [] \<and> hd t = CHR ''-'');
          u = (if t \<noteq> [] \<and> (hd t = CHR ''-'' \<or> hd t = CHR ''+'') then tl t else t);
          ds = takeWhile is_digit u;
          v = (if neg then - digits_val ds else digits_val ds)
      in if ds = [] \<or> \<not> in_i32 v then None else Some v)"

text \<open>\<open>boost::split\<close> with \<open>token_compress_on\<close>: runs of separators separate, at the ends they leave an empty
  token.\<close>

function split_compress :: "(char \<Rightarrow> bool) \<Rightarrow> string \<Rightarrow> string list" where
  "split_compress d s =
     (let r = dropWhile (\<lambda>c. \<not> d c) s in
      takeWhile (\<lambda>c. \<not> d c) s # (if r = [] then [] else split_compress d (dropWhile d r)))"
  by pat_completeness auto
termination
proof (relation "measure (\<lambda>(d, s). length s)", simp, goal_cases)
  case (1 d s)
  then obtain c cs where r: "dropWhile (\<lambda>c. \<not> d c) s = c # cs" by (cases "dropWhile (\<lambda>c. \<not> d c) s") auto
  then have "d c" using hd_dropWhile [of "\<lambda>c. \<not> d c" s] by simp
  then have "length (dropWhile d (c # cs)) < length (c # cs)" by (simp add: length_dropWhile_le less_Suc_eq_le)
  also have "\<dots> \<le> length s" using length_dropWhile_le [of "\<lambda>c. \<not> d c" s] r by simp
  finally show ?case using 1 r by simp
qed

declare split_compress.simps [simp del]

text \<open>A \<open>char\<close> is signed: the centre that a byte of the list of centres stands for.\<close>

definition char_u32 :: "char \<Rightarrow> nat" where
  "char_u32 c = (let n = of_char c in if n < 128 then n else 2 ^ 32 - 256 + n)"

definition char_int :: "char \<Rightarrow> int" where
  "char_int c = (let n = of_char c in if n < 128 then n else n - 256)"

text \<open>What \<open>push_back\<close> of an integer keeps.\<close>

definition low_char :: "int \<Rightarrow> char" where
  "low_char i = char_of (nat (i mod 256))"

definition extra_0 :: "op_request \<Rightarrow> char" where
  "extra_0 rq = (if rq_extra rq = [] then CHR 0x00 else hd (rq_extra rq))"

section \<open>Attributes\<close>

definition type_of_mode :: "int \<Rightarrow> node_type" where
  "type_of_mode m = (let t = m AND 61440 in
     if t = 16384 then Directory else if t = 32768 then RegularFile else if t = 40960 then Link else RegularFile)"

text \<open>\<open>ProxyOP::get_attr\<close>.\<close>

definition get_attr :: "('e, 'b) kernel \<Rightarrow> string \<Rightarrow> ('e, 'b, int \<times> attr) iprog" where
  "get_attr k path =
     bnd (sysc (k_stat k (cstr path))) (\<lambda>((err, errno), st).
     if err = - 1 then ret (- errno, new_Attr)
     else ret (0, \<lparr>at_size = fs_size st mod 2 ^ 64, at_type = type_of_mode (fs_mode st),
       at_permission = i32 (fs_mode st), at_ctime = fs_ctime st mod 2 ^ 64, at_mtime = fs_mtime st mod 2 ^ 64\<rparr>))"

section \<open>Channels\<close>

text \<open>A channel is the address it was created for; the first one under a key stays.\<close>

definition address :: "ioproxy_node \<Rightarrow> string" where
  "address n = snprintf_n 256 (cstr (iop_ip n) @ '':'' @ nat_dec (nat (iop_rpc_port n mod 2 ^ 32)))"

definition get_operator :: "ioproxy_node option \<Rightarrow> nat \<Rightarrow> ('e, 'b, string) iprog" where
  "get_operator node channel_id =
     bnd (deref node) (\<lambda>n.
     let channel_key = iop_uuid n @ nat_dec channel_id in
     bnd (gets (\<lambda>s. map_of (operators s) channel_key)) (\<lambda>oper_pair.
     case oper_pair of
       Some oper \<Rightarrow> ret oper
     | None \<Rightarrow>
         bnd (modify (\<lambda>s. s\<lparr>operators := smap_set channel_key (address n) (operators s)\<rparr>)) (\<lambda>_.
         ret (address n))))"

text \<open>Sending a request to a centre. A centre without a proxy reads as a null pointer.\<close>

definition submit_to :: "('e, 'b) kernel \<Rightarrow> nat \<Rightarrow> op_request \<Rightarrow> ('e, 'b, op_reply) iprog" where
  "submit_to k cid rq =
     bnd (gets (\<lambda>s. map_of (ioproxys s) cid)) (\<lambda>node.
     bnd (get_operator node 100) (\<lambda>oper.
     bnd (sysc (grpc_submit k oper rq)) (\<lambda>(_, reply). ret reply)))"

section \<open>The queue\<close>

text \<open>The flusher takes everything that is queued.\<close>

definition take_batch :: "('e, 'b) iop \<Rightarrow> ('e, 'b) iop" where
  "take_batch s = s\<lparr>in_flight := in_flight s @ m_new s, m_new := []\<rparr>"

text \<open>A full queue makes the caller wait until the flusher has taken it.\<close>

definition submit_replicated_request :: "op_request \<Rightarrow> ('e, 'b, unit) iprog" where
  "submit_replicated_request rq =
     modify (\<lambda>s. let s = (if length (m_new s) > m_max_new s then take_batch s else s)
                 in s\<lparr>m_new := m_new s @ [rq]\<rparr>)"

text \<open>Each centre of the list but this one gets the request.\<close>

primrec send_all :: "('e, 'b) kernel \<Rightarrow> op_request \<Rightarrow> string \<Rightarrow> ('e, 'b, unit) iprog" where
  "send_all k rq [] = ret ()"
| "send_all k rq (c # cs) =
     bnd (gets mcid) (\<lambda>me.
     if char_u32 c = me then send_all k rq cs
     else bnd (submit_to k (char_u32 c) rq) (\<lambda>_. send_all k rq cs))"

text \<open>A write is sent as the update of an index, and the attributes of the system are not sent.\<close>

definition is_system_attr :: "op_request \<Rightarrow> bool" where
  "is_system_attr rq \<longleftrightarrow> rq_type rq = T_setxattr \<and> take 9 (rq_xattr_name rq) = ''user.gvds''"

definition as_replica :: "nat \<Rightarrow> op_request \<Rightarrow> op_request" where
  "as_replica me rq = rq\<lparr>rq_type := (if rq_type rq = T_write then T_rep_update_index else rq_type rq),
     rq_extra := [low_char (int me)]\<rparr>"

definition deliver :: "('e, 'b) kernel \<Rightarrow> op_request \<Rightarrow> ('e, 'b, unit) iprog" where
  "deliver k rq =
     (if is_system_attr rq then ret ()
      else bnd (gets mcid) (\<lambda>me. send_all k (as_replica me rq) (rq_extra rq)))"

primrec deliver_list :: "('e, 'b) kernel \<Rightarrow> op_request list \<Rightarrow> ('e, 'b, unit) iprog" where
  "deliver_list k [] = ret ()"
| "deliver_list k (rq # rqs) = bnd (deliver k rq) (\<lambda>_. deliver_list k rqs)"

definition flush_replicas :: "('e, 'b) kernel \<Rightarrow> ('e, 'b, unit) iprog" where
  "flush_replicas k =
     bnd (modify take_batch) (\<lambda>_.
     bnd (gets in_flight) (\<lambda>t.
     bnd (modify (\<lambda>s. s\<lparr>in_flight := []\<rparr>)) (\<lambda>_. deliver_list k t)))"

text \<open>The identity of this proxy is one byte of the number its configuration gives.\<close>

definition replica_start :: "('e, 'b, unit) iprog" where
  "replica_start =
     bnd (gets center_id) (\<lambda>cid.
     case stoi cid of
       None \<Rightarrow> crash Uncaught_Exception
     | Some n \<Rightarrow> modify (\<lambda>s. s\<lparr>replicate_data_path := data_dir s, mcid := nat (n mod 256)\<rparr>))"

section \<open>Fetching data\<close>

text \<open>\<open>pwrite(fd, data + cursor, size, offset)\<close>: the bytes and the final NUL of the data can be read, nothing
  beyond.\<close>

definition write_from :: "('e, 'b) kernel \<Rightarrow> int \<Rightarrow> string \<Rightarrow> nat \<Rightarrow> nat \<Rightarrow> nat \<Rightarrow> ('e, 'b, int \<times> int) iprog" where
  "write_from k fd data cursor n off =
     (if cursor + n > length data + 1 then crash Out_Of_Range
      else sysc (k_pwrite k fd (take n (drop cursor (data @ [CHR 0x00]))) (s64 off)))"

primrec write_params :: "('e, 'b) kernel \<Rightarrow> int \<Rightarrow> string \<Rightarrow> nat \<Rightarrow> io_param list \<Rightarrow> ('e, 'b, unit) iprog" where
  "write_params k fd data cursor [] = ret ()"
| "write_params k fd data cursor (p # ps) =
     bnd (write_from k fd data cursor (par_size p) (par_offset p)) (\<lambda>_.
     write_params k fd data (cursor + par_size p) ps)"

primrec fetch_all :: "('e, 'b) kernel \<Rightarrow> int \<Rightarrow> op_request \<Rightarrow> string \<Rightarrow> ('e, 'b, unit) iprog" where
  "fetch_all k fd rq [] = ret ()"
| "fetch_all k fd rq (c # cs) =
     bnd (gets mcid) (\<lambda>me.
     if char_u32 c = me then fetch_all k fd rq cs
     else
       bnd (submit_to k (char_u32 c) rq) (\<lambda>reply.
       bnd (write_params k fd (rp_data reply) 0 (rp_io_params reply)) (\<lambda>_. fetch_all k fd rq cs)))"

definition sync_filedata :: "('e, 'b) kernel \<Rightarrow> string \<Rightarrow> nat \<Rightarrow> nat \<Rightarrow> ('e, 'b, int) iprog" where
  "sync_filedata k path off len =
     bnd (gets data_dir) (\<lambda>dir.
     bnd (get_file_handler k (path_join dir path)) (\<lambda>fhp.
     bnd (deref fhp) (\<lambda>h.
     bnd (find_holes_in_range k h off (add64 off len)) (\<lambda>holes.
     if holes = [] then ret 0
     else
       bnd (space_dir dir path) (\<lambda>space_path.
       bnd (sysc (k_getxattr k (cstr space_path) xattr_centers 256)) (\<lambda>((sz, _), cid).
       if sz = - 1 then ret 0
       else
         let request = new_OpRequest\<lparr>rq_filepath := path, rq_type := T_rep_sync_data,
               rq_param := Io_Param \<lparr>par_offset = off, par_size = len\<rparr>\<rparr> in
         bnd (handler_of h) (\<lambda>x. bnd (fetch_all k (fh_fd x) request cid) (\<lambda>_. ret 0))))))))"

text \<open>The first and the last page of a range are fetched when the range does not fill them.\<close>

definition unaligned_pages :: "nat \<Rightarrow> nat \<Rightarrow> nat list" where
  "unaligned_pages off len =
     (if off mod PAGE \<noteq> 0 then [off div PAGE * PAGE] else []) @
     (if add64 off len mod PAGE \<noteq> 0 then [add64 off len div PAGE * PAGE] else [])"

primrec sync_pages :: "('e, 'b) kernel \<Rightarrow> string \<Rightarrow> nat list \<Rightarrow> ('e, 'b, int) iprog" where
  "sync_pages k path [] = ret 0"
| "sync_pages k path (p # ps) = bnd (sync_filedata k path p PAGE) (\<lambda>_. sync_pages k path ps)"

definition sync_unalign_page :: "('e, 'b) kernel \<Rightarrow> string \<Rightarrow> nat \<Rightarrow> nat \<Rightarrow> ('e, 'b, int) iprog" where
  "sync_unalign_page k path off len = sync_pages k path (unaligned_pages off len)"

section \<open>Requests of other proxies\<close>

abbreviation (input) SYNC_BLK :: nat where "SYNC_BLK \<equiv> 131072"

text \<open>\<open>creat\<close> answers a descriptor, which nothing closes.\<close>

definition create_entry :: "('e, 'b) kernel \<Rightarrow> op_request \<Rightarrow> string \<Rightarrow> attr \<Rightarrow> ('e, 'b, unit) iprog" where
  "create_entry k rq nodepath a =
     bnd (case at_type a of
            Directory \<Rightarrow> bnd (sysc (k_mkdir k (cstr nodepath) (at_permission a))) (\<lambda>_. ret ())
          | RegularFile \<Rightarrow>
              bnd (sysc (k_creat k (cstr nodepath) (at_permission a))) (\<lambda>_.
              bnd (sysc (k_truncate k (cstr nodepath) (i64 (at_size a)))) (\<lambda>_.
              bnd (get_file_handler k nodepath) (\<lambda>fh.
              bnd (deref fh) (\<lambda>h.
              set_bitmap h (char_int (extra_0 rq)) (rb_from_range k 0 (nat (at_size a)) 1)))))
          | Link \<Rightarrow> ret ()) (\<lambda>_.
     bnd (sysc (k_utimensat k 0 (cstr nodepath) ((i64 (at_ctime a), 0), (i64 (at_mtime a), 0)) 256)) (\<lambda>_. ret ()))"

fun create_entries :: "('e, 'b) kernel \<Rightarrow> op_request \<Rightarrow> string \<Rightarrow> string list \<Rightarrow> attr list \<Rightarrow> ('e, 'b, unit) iprog" where
  "create_entries k rq base [] as = ret ()"
| "create_entries k rq base (n # ns) [] = crash Out_Of_Range"
| "create_entries k rq base (n # ns) (a # as) =
     bnd (create_entry k rq (path_join base n) a) (\<lambda>_. create_entries k rq base ns as)"

definition handle_create_replicated_space ::
  "('e, 'b) kernel \<Rightarrow> op_request \<Rightarrow> op_reply \<Rightarrow> ('e, 'b, op_reply) iprog" where
  "handle_create_replicated_space k rq rp =
     bnd (gets replicate_data_path) (\<lambda>base.
     let rep_space_path = path_join base (rq_filepath rq) in
     bnd (sysc (k_mkdir k (cstr rep_space_path) 509)) (\<lambda>(err, errno).
     if err = - 1 \<and> errno \<noteq> EEXIST then ret (rp\<lparr>rp_err_code := - errno\<rparr>)
     else
       bnd (sysc (k_setxattr k (cstr rep_space_path) xattr_centers (rq_extra rq) 1)) (\<lambda>(sz, errno).
       if sz = - 1 then ret (rp\<lparr>rp_err_code := - errno\<rparr>)
       else
         let dir_entries = pb_read k (rq_data rq) in
         bnd (create_entries k rq base (rp_entry_names dir_entries) (rp_entries dir_entries)) (\<lambda>_.
         ret (rp\<lparr>rp_err_code := 0\<rparr>)))))"

text \<open>The data of the ranges, one after the other, and where each of them belongs.\<close>

fun read_ranges :: "('e, 'b) kernel \<Rightarrow> int \<Rightarrow> (nat \<times> nat) list \<Rightarrow> string \<Rightarrow> op_reply \<Rightarrow> ('e, 'b, op_reply) iprog" where
  "read_ranges k fd [] buf rp = ret (rp\<lparr>rp_content := R_Data buf, rp_err_code := 0\<rparr>)"
| "read_ranges k fd ((off1, off2) # rs) buf rp =
     bnd (sysc (k_pread k fd (int (off2 - off1)) (s64 off1))) (\<lambda>((r, errno), bytes).
     if r = - 1 then ret (rp\<lparr>rp_err_code := - errno\<rparr>)
     else read_ranges k fd rs (buf @ take (nat r) bytes)
            (rp\<lparr>rp_io_params := rp_io_params rp @ [\<lparr>par_offset = off1, par_size = nat r\<rparr>]\<rparr>))"

definition handle_file_sync_data :: "('e, 'b) kernel \<Rightarrow> op_request \<Rightarrow> op_reply \<Rightarrow> ('e, 'b, op_reply) iprog" where
  "handle_file_sync_data k rq rp =
     (let off = par_offset (rq_io rq); len = par_size (rq_io rq) in
      bnd (gets replicate_data_path) (\<lambda>base.
      bnd (get_file_handler k (path_join base (rq_filepath rq))) (\<lambda>fhp.
      bnd (deref fhp) (\<lambda>h.
      bnd (find_data_in_range k h off (add64 off len)) (\<lambda>data_ranges.
      bnd (handler_of h) (\<lambda>x. read_ranges k (fh_fd x) data_ranges [] rp))))))"

text \<open>The blocks of the range, the last one included, are marked as newer at the other centre.\<close>

definition handle_file_index_update :: "('e, 'b) kernel \<Rightarrow> op_request \<Rightarrow> op_reply \<Rightarrow> ('e, 'b, op_reply) iprog" where
  "handle_file_index_update k rq rp =
     (let off = par_offset (rq_io rq); len = par_size (rq_io rq); cid = int (of_char (extra_0 rq)) in
      bnd (gets replicate_data_path) (\<lambda>base.
      bnd (get_file_handler k (path_join base (rq_filepath rq))) (\<lambda>fhp.
      if rq_type rq \<noteq> T_rep_update_index then crash Assert_Failed
      else
        bnd (deref fhp) (\<lambda>h.
        bnd (get_bitmap k h cid True) (\<lambda>bitmap.
        bnd (deref bitmap) (\<lambda>bm.
        bnd (set_bitmap h cid (rb_add_closed k (off div SYNC_BLK mod 2 ^ 32) (add64 off len div SYNC_BLK mod 2 ^ 32) bm)) (\<lambda>_.
        bnd (punch_hole_local k h off len) (\<lambda>_.
        bnd (flush_bitmap k h cid) (\<lambda>_. ret (rp\<lparr>rp_err_code := 0\<rparr>))))))))))"

section \<open>Replicating a space\<close>

text \<open>The numbers of the request become bytes, after that of this centre. \<open>Inl\<close> is the answer that stops.\<close>

fun compress_cids :: "string list \<Rightarrow> string \<Rightarrow> ('e, 'b, int + string) iprog" where
  "compress_cids [] cids = ret (Inr cids)"
| "compress_cids (cid # rest) cids =
     (case stoi cid of
        None \<Rightarrow> crash Uncaught_Exception
      | Some n \<Rightarrow>
          bnd (gets (\<lambda>s. map_of (ioproxys s) (nat (n mod 2 ^ 32)))) (\<lambda>found.
          if found = None then ret (Inl (- ENXIO)) else compress_cids rest (cids @ [low_char n])))"

text \<open>The entries of a directory are added to the message, and its directories to the stack.\<close>

primrec walk_entries :: "('e, 'b) kernel \<Rightarrow> string \<Rightarrow> string \<Rightarrow> string list \<Rightarrow> string list \<times> op_reply
    \<Rightarrow> ('e, 'b, string list \<times> op_reply) iprog" where
  "walk_entries k base cur_dir [] acc = ret acc"
| "walk_entries k base cur_dir (filename # rest) acc =
     (if filename = ''.'' \<or> filename = ''..'' then walk_entries k base cur_dir rest acc
      else
        bnd (get_attr k (path_join (path_join base cur_dir) filename)) (\<lambda>(err, a).
        if err \<noteq> 0 then walk_entries k base cur_dir rest acc
        else
          let name = path_join cur_dir filename;
              dirs = (if at_type a = Directory then name # fst acc else fst acc);
              rp = (snd acc)\<lparr>rp_entry_names := rp_entry_names (snd acc) @ [name],
                             rp_entries := rp_entries (snd acc) @ [a]\<rparr> in
          walk_entries k base cur_dir rest (dirs, rp)))"

primrec walk_dirs :: "('e, 'b) kernel \<Rightarrow> string \<Rightarrow> nat \<Rightarrow> string list \<Rightarrow> op_reply \<Rightarrow> ('e, 'b, op_reply) iprog" where
  "walk_dirs k base 0 dirs rp = (if dirs = [] then ret rp else crash Blocked_Forever)"
| "walk_dirs k base (Suc n) dirs rp =
     (case dirs of
        [] \<Rightarrow> ret rp
      | cur_dir # rest \<Rightarrow>
          bnd (sysc (k_opendir k (cstr (path_join base cur_dir)))) (\<lambda>(names, _).
          case names of
            None \<Rightarrow> bnd (sysc (k_closedir_null k)) (\<lambda>_. walk_dirs k base n rest rp)
          | Some ns \<Rightarrow>
              bnd (walk_entries k base cur_dir ns (rest, rp)) (\<lambda>(dirs, rp). walk_dirs k base n dirs rp)))"

definition replicate_space_request :: "('e, 'b) kernel \<Rightarrow> string \<Rightarrow> string \<Rightarrow> ('e, 'b, op_request) iprog" where
  "replicate_space_request k sp cids =
     bnd (gets data_dir) (\<lambda>base.
     bnd (walk_dirs k base (loop_fuel k) [sp] new_OpReply) (\<lambda>dir_entries.
     ret (new_OpRequest\<lparr>rq_filepath := sp, rq_type := T_rep_init_space, rq_extra := cids,
            rq_data := pb_write k dir_entries\<rparr>)))"

primrec submit_each :: "('e, 'b) kernel \<Rightarrow> op_request \<Rightarrow> string \<Rightarrow> ('e, 'b, unit) iprog" where
  "submit_each k rq [] = ret ()"
| "submit_each k rq (c # cs) = bnd (submit_to k (char_u32 c) rq) (\<lambda>_. submit_each k rq cs)"

definition create_replicated_space :: "('e, 'b) kernel \<Rightarrow> string \<Rightarrow> string \<Rightarrow> ('e, 'b, int) iprog" where
  "create_replicated_space k filepath cids_str =
     bnd (gets mcid) (\<lambda>me.
     bnd (compress_cids (split_compress (\<lambda>c. c \<in> set '',/|'') cids_str) [low_char (int me)]) (\<lambda>res.
     case res of
       Inl e \<Rightarrow> ret e
     | Inr cids \<Rightarrow>
         bnd (gets data_dir) (\<lambda>dir.
         bnd (space_dir dir filepath) (\<lambda>space_path.
         bnd (sysc (k_setxattr k (cstr space_path) xattr_centers cids 1)) (\<lambda>(sz, _).
         if sz = - 1 then ret (- EMLINK)
         else
           bnd (space_dir [] filepath) (\<lambda>sp.
           bnd (replicate_space_request k sp cids) (\<lambda>request.
           bnd (submit_each k request (tl cids)) (\<lambda>_. ret 0))))))))"

section \<open>What is replicated\<close>

datatype replica_kind = Read_Only | Mutation | Data_Write | Init_Space | Sync_Data | Update_Index | Not_Listed

fun replica_kind_of :: "op_type \<Rightarrow> replica_kind" where
  "replica_kind_of T_getattr = Read_Only" | "replica_kind_of T_access = Read_Only"
| "replica_kind_of T_getxattr = Read_Only" | "replica_kind_of T_listxattr = Read_Only"
| "replica_kind_of T_read = Read_Only" | "replica_kind_of T_flush = Read_Only"
| "replica_kind_of T_release = Read_Only" | "replica_kind_of T_fsync = Read_Only"
| "replica_kind_of T_write_buf = Read_Only" | "replica_kind_of T_read_buf = Read_Only"
| "replica_kind_of T_opendir = Read_Only" | "replica_kind_of T_releasedir = Read_Only"
| "replica_kind_of T_readdir = Read_Only" | "replica_kind_of T_fsyncdir = Read_Only"
| "replica_kind_of T_readlink = Read_Only" | "replica_kind_of T_bmap = Read_Only"
| "replica_kind_of T_ioctl = Read_Only" | "replica_kind_of T_poll = Read_Only"
| "replica_kind_of T_open = Mutation" | "replica_kind_of T_rename = Mutation"
| "replica_kind_of T_utimens = Mutation" | "replica_kind_of T_lock = Mutation"
| "replica_kind_of T_setxattr = Mutation" | "replica_kind_of T_removexattr = Mutation"
| "replica_kind_of T_chmod = Mutation" | "replica_kind_of T_chown = Mutation"
| "replica_kind_of T_truncate = Mutation" | "replica_kind_of T_create = Mutation"
| "replica_kind_of T_fallocate = Mutation" | "replica_kind_of T_flock = Mutation"
| "replica_kind_of T_mkdir = Mutation" | "replica_kind_of T_rmdir = Mutation"
| "replica_kind_of T_unlink = Mutation" | "replica_kind_of T_symlink = Mutation"
| "replica_kind_of T_link = Mutation"
| "replica_kind_of T_write = Data_Write"
| "replica_kind_of T_rep_init_space = Init_Space" | "replica_kind_of T_rep_sync_data = Sync_Data"
| "replica_kind_of T_rep_update_index = Update_Index"
| "replica_kind_of T_statfs = Not_Listed" | "replica_kind_of T_rep_remove_space = Not_Listed"

text \<open>A request that succeeded is queued when the space of its file is at two centres or more.\<close>

definition queue_replica :: "('e, 'b) kernel \<Rightarrow> op_request \<Rightarrow> op_reply \<Rightarrow> ('e, 'b, op_reply) iprog" where
  "queue_replica k rq rp =
     (if rp_err_code rp < 0 then ret rp
      else
        bnd (gets data_dir) (\<lambda>dir.
        bnd (space_dir dir (rq_filepath rq)) (\<lambda>space_path.
        bnd (sysc (k_getxattr k (cstr space_path) xattr_centers 256)) (\<lambda>((sz, _), cid).
        if sz = - 1 \<or> sz < 2 then ret rp
        else bnd (submit_replicated_request (rq\<lparr>rq_extra := take (nat sz) cid\<rparr>)) (\<lambda>_. ret rp)))))"

definition handle_replica_async :: "('e, 'b) kernel \<Rightarrow> op_request \<Rightarrow> op_reply \<Rightarrow> ('e, 'b, op_reply) iprog" where
  "handle_replica_async k rq rp =
     (if rq_filepath rq = [] then ret rp
      else case replica_kind_of (rq_type rq) of
        Read_Only \<Rightarrow> ret rp
      | Mutation \<Rightarrow> if rq_extra rq \<noteq> [] then ret rp else queue_replica k rq rp
      | Data_Write \<Rightarrow> queue_replica k (rq\<lparr>rq_data := []\<rparr>) rp
      | Init_Space \<Rightarrow> handle_create_replicated_space k rq rp
      | Sync_Data \<Rightarrow> handle_file_sync_data k rq rp
      | Update_Index \<Rightarrow> handle_file_index_update k rq rp
      | Not_Listed \<Rightarrow> queue_replica k rq rp)"

end
