(* ===== verification/Proxy_Op.thy ===== *)
theory Proxy_Op
  imports Replica_Mgr
begin

text \<open>
  What the I/O proxy does with a request: \<open>ProxyOP::do_op\<close> of \<open>io_proxy/proxy_op.cc\<close>, one definition per
  case of its switch, and then the replication of the request.
\<close>

section \<open>Requests over gRPC\<close>

text \<open>A path below the data directory.\<close>

definition local_path :: "op_request \<Rightarrow> ('e, 'b, string) iprog" where
  "local_path rq = gets (\<lambda>s. path_join (data_dir s) (rq_filepath rq))"

definition op_getattr :: "('e, 'b) kernel \<Rightarrow> op_request \<Rightarrow> op_reply \<Rightarrow> ('e, 'b, op_reply) iprog" where
  "op_getattr k rq rp =
     bnd (local_path rq) (\<lambda>p. bnd (get_attr k p) (\<lambda>(err, a).
     ret (if err \<noteq> 0 then rp\<lparr>rp_err_code := err\<rparr> else rp\<lparr>rp_content := R_Attr a, rp_err_code := 0\<rparr>)))"

text \<open>A call of \<open>std::experimental::filesystem\<close> answers an error code.\<close>

definition op_fs :: "(string \<Rightarrow> 'e \<Rightarrow> int \<times> 'e) \<Rightarrow> op_request \<Rightarrow> op_reply \<Rightarrow> ('e, 'b, op_reply) iprog" where
  "op_fs f rq rp =
     bnd (local_path rq) (\<lambda>p. bnd (sysc (f p)) (\<lambda>ec. ret (rp\<lparr>rp_err_code := - ec\<rparr>)))"

definition op_rename :: "('e, 'b) kernel \<Rightarrow> op_request \<Rightarrow> op_reply \<Rightarrow> ('e, 'b, op_reply) iprog" where
  "op_rename k rq rp =
     bnd (gets data_dir) (\<lambda>dir. op_fs (\<lambda>p. fs_rename k p (path_join dir (rq_newpath rq))) rq rp)"

text \<open>The times travel as the size and the offset of the request. The directory is descriptor 0.\<close>

definition op_utimens :: "('e, 'b) kernel \<Rightarrow> op_request \<Rightarrow> op_reply \<Rightarrow> ('e, 'b, op_reply) iprog" where
  "op_utimens k rq rp =
     (let t = (s64 (par_size (rq_io rq)), s64 (par_offset (rq_io rq))) in
      bnd (local_path rq) (\<lambda>p.
      bnd (sysc (k_utimensat k 0 (cstr p) (t, t) 256)) (\<lambda>(err, errno).
      ret (if err = - 1 then rp\<lparr>rp_err_code := - errno\<rparr> else rp))))"

definition op_chmod :: "('e, 'b) kernel \<Rightarrow> op_request \<Rightarrow> op_reply \<Rightarrow> ('e, 'b, op_reply) iprog" where
  "op_chmod k rq rp = op_fs (\<lambda>p. fs_permissions k p (int (rq_mode rq) AND 4095)) rq rp"

definition op_truncate :: "('e, 'b) kernel \<Rightarrow> op_request \<Rightarrow> op_reply \<Rightarrow> ('e, 'b, op_reply) iprog" where
  "op_truncate k rq rp = op_fs (\<lambda>p. fs_resize_file k p (int (rq_size rq))) rq rp"

definition op_open :: "('e, 'b) kernel \<Rightarrow> op_request \<Rightarrow> op_reply \<Rightarrow> ('e, 'b, op_reply) iprog" where
  "op_open k rq rp =
     bnd (local_path rq) (\<lambda>p.
     bnd (fdm_open k p (i32 (int (rq_mode rq) OR O_RDWR)) 420) (\<lambda>fd. ret (rp\<lparr>rp_err_code := fd\<rparr>)))"

definition op_release :: "('e, 'b) kernel \<Rightarrow> op_request \<Rightarrow> op_reply \<Rightarrow> ('e, 'b, op_reply) iprog" where
  "op_release k rq rp =
     bnd (local_path rq) (\<lambda>p. bnd (fdm_close k p) (\<lambda>err. ret (rp\<lparr>rp_err_code := err\<rparr>)))"

definition op_create :: "('e, 'b) kernel \<Rightarrow> op_request \<Rightarrow> op_reply \<Rightarrow> ('e, 'b, op_reply) iprog" where
  "op_create k rq rp =
     bnd (local_path rq) (\<lambda>p.
     bnd (fdm_create k p (i32 (int (rq_mode rq)))) (\<lambda>err. ret (rp\<lparr>rp_err_code := err\<rparr>)))"

definition op_fallocate :: "('e, 'b) kernel \<Rightarrow> op_request \<Rightarrow> op_reply \<Rightarrow> ('e, 'b, op_reply) iprog" where
  "op_fallocate k rq rp =
     bnd (local_path rq) (\<lambda>p.
     bnd (fdm_open k p (O_CREAT OR O_RDWR) 438) (\<lambda>fd.
     if fd > 0 then
       bnd (sysc (k_fallocate k fd (i32 (int (rq_mode rq))) (s64 (par_offset (rq_io rq))) (s64 (par_size (rq_io rq)))))
         (\<lambda>(err, errno). ret (if err = - 1 then rp\<lparr>rp_err_code := - errno\<rparr> else rp))
     else ret (rp\<lparr>rp_err_code := - EBADF\<rparr>)))"

primrec list_entries :: "('e, 'b) kernel \<Rightarrow> string \<Rightarrow> string list \<Rightarrow> op_reply \<Rightarrow> ('e, 'b, op_reply) iprog" where
  "list_entries k dir [] rp = ret rp"
| "list_entries k dir (name # names) rp =
     bnd (get_attr k (path_join dir name)) (\<lambda>(err, a).
     list_entries k dir names
       (if err \<noteq> 0 then rp
        else rp\<lparr>rp_entry_names := rp_entry_names rp @ [name], rp_entries := rp_entries rp @ [a]\<rparr>))"

text \<open>A directory that cannot be opened: \<open>closedir\<close> of the null pointer sets \<open>errno\<close> before it is read.\<close>

definition op_readdir :: "('e, 'b) kernel \<Rightarrow> op_request \<Rightarrow> op_reply \<Rightarrow> ('e, 'b, op_reply) iprog" where
  "op_readdir k rq rp =
     bnd (local_path rq) (\<lambda>p.
     bnd (sysc (k_opendir k (cstr p))) (\<lambda>(names, errno).
     case names of
       None \<Rightarrow> bnd (sysc (k_closedir_null k)) (\<lambda>(_, errno). ret (rp\<lparr>rp_err_code := - errno\<rparr>))
     | Some ns \<Rightarrow> if ns = [] then ret (rp\<lparr>rp_err_code := - errno\<rparr>) else list_entries k p ns rp))"

text \<open>The reply keeps the whole buffer, what was read and zeros, and the number of bytes read.\<close>

definition fill :: "nat \<Rightarrow> string \<Rightarrow> string" where
  "fill n s = take n (s @ replicate n (CHR 0x00))"

definition op_read :: "('e, 'b) kernel \<Rightarrow> op_request \<Rightarrow> op_reply \<Rightarrow> ('e, 'b, op_reply) iprog" where
  "op_read k rq rp =
     (let off = par_offset (rq_io rq); n = par_size (rq_io rq) in
      bnd (local_path rq) (\<lambda>p.
      bnd (fdm_open k p O_RDWR 429) (\<lambda>fd.
      if fd < 0 then ret (rp\<lparr>rp_err_code := fd\<rparr>)
      else
        bnd (sync_filedata k (rq_filepath rq) off n) (\<lambda>_.
        bnd (sysc (k_pread k fd (int n) (s64 off))) (\<lambda>((r, errno), bytes).
        ret (if r = - 1 then rp\<lparr>rp_err_code := - errno\<rparr>
             else rp\<lparr>rp_content := R_Data (fill n bytes), rp_err_code := i32 r\<rparr>))))))"

definition op_write :: "('e, 'b) kernel \<Rightarrow> op_request \<Rightarrow> op_reply \<Rightarrow> ('e, 'b, op_reply) iprog" where
  "op_write k rq rp =
     (let off = par_offset (rq_io rq); n = par_size (rq_io rq) in
      bnd (local_path rq) (\<lambda>p.
      bnd (fdm_open k p O_RDWR 429) (\<lambda>fd.
      if fd < 0 then ret (rp\<lparr>rp_err_code := fd\<rparr>)
      else
        bnd (sync_unalign_page k (rq_filepath rq) off n) (\<lambda>_.
        bnd (write_from k fd (rq_data rq) 0 n off) (\<lambda>(r, errno).
        ret (rp\<lparr>rp_err_code := (if r = - 1 then - errno else i32 r)\<rparr>))))))"

definition op_unlink :: "('e, 'b) kernel \<Rightarrow> op_request \<Rightarrow> op_reply \<Rightarrow> ('e, 'b, op_reply) iprog" where
  "op_unlink k rq rp =
     bnd (local_path rq) (\<lambda>p. bnd (fdm_remove k p) (\<lambda>r. ret (rp\<lparr>rp_err_code := r\<rparr>)))"

text \<open>The attribute \<open>user.replicate.create\<close> is not one: setting it replicates the space.\<close>

definition op_setxattr :: "('e, 'b) kernel \<Rightarrow> op_request \<Rightarrow> op_reply \<Rightarrow> ('e, 'b, op_reply) iprog" where
  "op_setxattr k rq rp =
     (if rq_xattr_name rq = ''user.replicate.create'' then
        bnd (create_replicated_space k (rq_filepath rq) (rq_data rq)) (\<lambda>err. ret (rp\<lparr>rp_err_code := err\<rparr>))
      else if rq_size rq > length (rq_data rq) + 1 then crash Out_Of_Range
      else
        bnd (local_path rq) (\<lambda>p.
        bnd (sysc (k_setxattr k (cstr p) (cstr (rq_xattr_name rq)) (take (rq_size rq) (rq_data rq @ [CHR 0x00]))
               (i32 (int (rq_mode rq))))) (\<lambda>(err, errno).
        ret (if err = - 1 then rp\<lparr>rp_err_code := - errno\<rparr> else rp))))"

definition op_getxattr :: "('e, 'b) kernel \<Rightarrow> op_request \<Rightarrow> op_reply \<Rightarrow> ('e, 'b, op_reply) iprog" where
  "op_getxattr k rq rp =
     bnd (local_path rq) (\<lambda>p.
     bnd (sysc (k_getxattr k (cstr p) (cstr (rq_xattr_name rq)) (int (rq_size rq)))) (\<lambda>((err, errno), buf).
     ret (if err = - 1 then rp\<lparr>rp_err_code := - errno\<rparr>
          else rp\<lparr>rp_err_code := err, rp_content := R_Data (fill (rq_size rq) buf)\<rparr>)))"

definition op_listxattr :: "('e, 'b) kernel \<Rightarrow> op_request \<Rightarrow> op_reply \<Rightarrow> ('e, 'b, op_reply) iprog" where
  "op_listxattr k rq rp =
     bnd (local_path rq) (\<lambda>p.
     bnd (sysc (k_listxattr k (cstr p) (int (rq_size rq)))) (\<lambda>((err, errno), buf).
     ret (if err = - 1 then rp\<lparr>rp_err_code := - errno\<rparr>
          else rp\<lparr>rp_err_code := err, rp_content := R_Data (fill (rq_size rq) buf)\<rparr>)))"

definition op_removexattr :: "('e, 'b) kernel \<Rightarrow> op_request \<Rightarrow> op_reply \<Rightarrow> ('e, 'b, op_reply) iprog" where
  "op_removexattr k rq rp =
     bnd (local_path rq) (\<lambda>p.
     bnd (sysc (k_removexattr k (cstr p) (cstr (rq_xattr_name rq)))) (\<lambda>(err, errno).
     ret (rp\<lparr>rp_err_code := (if err = - 1 then - errno else err)\<rparr>)))"

fun serve :: "('e, 'b) kernel \<Rightarrow> op_type \<Rightarrow> op_request \<Rightarrow> op_reply \<Rightarrow> ('e, 'b, op_reply) iprog" where
  "serve k T_getattr rq rp = op_getattr k rq rp"
| "serve k T_rename rq rp = op_rename k rq rp"
| "serve k T_utimens rq rp = op_utimens k rq rp"
| "serve k T_chmod rq rp = op_chmod k rq rp"
| "serve k T_truncate rq rp = op_truncate k rq rp"
| "serve k T_open rq rp = op_open k rq rp"
| "serve k T_release rq rp = op_release k rq rp"
| "serve k T_create rq rp = op_create k rq rp"
| "serve k T_fallocate rq rp = op_fallocate k rq rp"
| "serve k T_mkdir rq rp = op_fs (fs_create_directory k) rq rp"
| "serve k T_rmdir rq rp = op_fs (fs_remove k) rq rp"
| "serve k T_readdir rq rp = op_readdir k rq rp"
| "serve k T_read rq rp = op_read k rq rp"
| "serve k T_write rq rp = op_write k rq rp"
| "serve k T_unlink rq rp = op_unlink k rq rp"
| "serve k T_setxattr rq rp = op_setxattr k rq rp"
| "serve k T_getxattr rq rp = op_getxattr k rq rp"
| "serve k T_listxattr rq rp = op_listxattr k rq rp"
| "serve k T_removexattr rq rp = op_removexattr k rq rp"
| "serve k t rq rp = ret rp"

text \<open>The operation, then its replication.\<close>

definition do_op :: "('e, 'b) kernel \<Rightarrow> op_request \<Rightarrow> op_reply \<Rightarrow> ('e, 'b, op_reply) iprog" where
  "do_op k rq rp =
     bnd (serve k (rq_type rq) rq (rp\<lparr>rp_id := rq_id rq, rp_err_code := 0\<rparr>)) (\<lambda>rp.
     handle_replica_async k rq rp)"

end
