(* ===== verification/Fd_Props.thy ===== *)
theory Fd_Props
  imports Sample_Proxy
begin

text \<open>
  The descriptor table of \<open>io_proxy/fd_mgr.cc\<close>: along any use of it the cached descriptors are open,
  different for different paths and at most as many as allowed, and no descriptor leaks; an opened path is
  found under the descriptor answered. A handler however outlives its file.
\<close>

section \<open>The operating system\<close>

text \<open>
  \<open>ofds\<close> reads which descriptors the process has open: opening gives one that was not or fails with an
  error number, closing frees it, and the other calls do not change them. Reading the freed list node
  gives what was in it: the allocator hands the node out again for the node that replaces it.
\<close>

definition descriptor_law :: "('e, 'b) kernel \<Rightarrow> ('e \<Rightarrow> int set) \<Rightarrow> bool" where
  "descriptor_law k ofds \<longleftrightarrow>
     (\<forall>p f m e fd er e'. k_open k p f m e = ((fd, er), e') \<longrightarrow>
        (fd = - 1 \<and> 0 < er \<and> ofds e' = ofds e) \<or> (0 \<le> fd \<and> fd \<notin> ofds e \<and> ofds e' = insert fd (ofds e))) \<and>
     (\<forall>fd e. ofds (snd (k_close k fd e)) = ofds e - {fd}) \<and>
     (\<forall>fd n e. ofds (snd (k_ftruncate k fd n e)) = ofds e) \<and>
     (\<forall>fd e. ofds (snd (k_fsync k fd e)) = ofds e) \<and>
     (\<forall>p e. ofds (snd (k_unlink k p e)) = ofds e) \<and>
     (\<forall>e. \<forall>fd \<in> ofds e. 0 \<le> fd) \<and> (\<forall>e v. stale_node k e v = v)"

lemma open_law:
  assumes "descriptor_law k ofds" "k_open k p f m e = ((fd, er), e')"
  obtains "fd = - 1" "0 < er" "ofds e' = ofds e"
    | "0 \<le> fd" "fd \<notin> ofds e" "ofds e' = insert fd (ofds e)"
  using assms unfolding descriptor_law_def by metis

lemma quiet_calls:
  assumes "descriptor_law k ofds"
  shows "k_close k fd e = (r, e') \<Longrightarrow> ofds e' = ofds e - {fd}"
    and "k_ftruncate k fd n e = (r, e') \<Longrightarrow> ofds e' = ofds e"
    and "k_fsync k fd e = (r, e') \<Longrightarrow> ofds e' = ofds e"
    and "k_unlink k p e = (r, e') \<Longrightarrow> ofds e' = ofds e"
    and "stale_node k e v = v" and "fd \<in> ofds e \<Longrightarrow> 0 \<le> fd"
  using assms unfolding descriptor_law_def by (metis snd_conv)+

section \<open>The invariant\<close>

definition cached :: "('e, 'b) iop \<Rightarrow> int set" where
  "cached s = snd ` set (recency (fds s))"

text \<open>The descriptors that are open and not in the table.\<close>

definition stray :: "('e \<Rightarrow> int set) \<Rightarrow> ('e, 'b) iop \<Rightarrow> int set" where
  "stray ofds s = ofds (env s) - cached s"

definition table_ok :: "('e \<Rightarrow> int set) \<Rightarrow> ('e, 'b) iop \<Rightarrow> bool" where
  "table_ok ofds s \<longleftrightarrow> lru_ok (fds s) \<and> max_n (fds s) = 0 \<and> inj_on snd (set (recency (fds s))) \<and>
     cached s \<subseteq> ofds (env s) \<and> 0 < max_fd_num s"

definition fdm_ok :: "('e \<Rightarrow> int set) \<Rightarrow> ('e, 'b) iop \<Rightarrow> bool" where
  "fdm_ok ofds s \<longleftrightarrow> table_ok ofds s \<and> length (recency (fds s)) \<le> max_fd_num s"

text \<open>What a step keeps of the state it started in.\<close>

definition kept :: "('e \<Rightarrow> int set) \<Rightarrow> ('e, 'b) iop \<Rightarrow> ('e, 'b) iop \<Rightarrow> bool" where
  "kept ofds s s' \<longleftrightarrow> fdm_ok ofds s' \<and> stray ofds s' = stray ofds s \<and> max_fd_num s' = max_fd_num s"

lemma kept_refl: "fdm_ok ofds s \<Longrightarrow> kept ofds s s"
  by (simp add: kept_def)

lemma kept_trans: "kept ofds s s' \<Longrightarrow> kept ofds s' s'' \<Longrightarrow> kept ofds s s''"
  by (simp add: kept_def)

lemma table_lru: "table_ok ofds s \<Longrightarrow> lru_ok (fds s) \<and> max_n (fds s) = 0"
  by (simp add: table_ok_def)

section \<open>Expiring\<close>

lemma expire_oldest:
  assumes law: "descriptor_law k ofds" and ok: "table_ok ofds s" and some: "lru_expire (fds s) = (Some ob, l)"
  defines "s' \<equiv> s\<lparr>fds := l, env := snd (k_close k (lo_data ob) (env s))\<rparr>"
  shows "table_ok ofds s'" "stray ofds s' = stray ofds s" "recency l = butlast (recency (fds s))"
    "length (recency (fds s)) = Suc (length (recency l))"
proof -
  note c = table_lru [OF ok]
  from some have e: "(case lru_expire (fds s) of (r, l') \<Rightarrow> (map_option (\<lambda>ob. (lo_key ob, lo_data ob)) r, l'))
      = (Some (lo_key ob, lo_data ob), l)" by simp
  have inj: "inj_on snd (set (recency (fds s)))" using ok by (simp add: table_ok_def)
  note h = fds.expire_held [OF c e inj]
  note x = lru_ok_expire [OF _ some]
  show "recency l = butlast (recency (fds s))" "length (recency (fds s)) = Suc (length (recency l))"
    using x(2) c h(4) by auto
  have cl: "ofds (env s') = ofds (env s) - {lo_data ob}"
    using law unfolding descriptor_law_def s'_def by simp
  show "table_ok ofds s'"
    using ok h cl x c by (auto simp: table_ok_def s'_def cached_def)
  show "stray ofds s' = stray ofds s"
    using h(1,3) cl by (auto simp: stray_def cached_def s'_def)
qed

lemma checkAndExpire_ok:
  assumes law: "descriptor_law k ofds" and ok: "table_ok ofds s"
  shows "\<exists>s'. checkAndExpire k s = (Val (), s') \<and> kept ofds s s' \<and>
    recency (fds s') = take (max_fd_num s) (recency (fds s)) \<and> file_handlers s' = file_handlers s"
  using ok
proof (induction "lru_size (fds s)" arbitrary: s rule: less_induct)
  case less
  show ?case
  proof (cases "lru_size (fds s) > max_fd_num s")
    case False
    then show ?thesis
      using less.prems by (auto simp: checkAndExpire.simps [of k s] kept_def fdm_ok_def length_recency)
  next
    case True
    then have "lrulist (fds s) \<noteq> []" by (auto simp: lru_size_def)
    then obtain ob l where some: "lru_expire (fds s) = (Some ob, l)" by (auto simp: lru_expire_def Let_def)
    let ?s = "s\<lparr>fds := l, env := snd (k_close k (lo_data ob) (env s))\<rparr>"
    note x = expire_oldest [OF law less.prems some]
    have "lru_size l < lru_size (fds s)" using x(4) by (simp add: length_recency)
    with less.hyps [of ?s] x(1) obtain s' where s': "checkAndExpire k ?s = (Val (), s')" "kept ofds ?s s'"
      "recency (fds s') = take (max_fd_num s) (recency l)" "file_handlers s' = file_handlers s" by auto
    have "checkAndExpire k s = checkAndExpire k ?s"
      using True some by (simp add: checkAndExpire.simps [of k s])
    moreover have "take (max_fd_num s) (recency l) = take (max_fd_num s) (recency (fds s))"
      using True unfolding x(3) length_recency [symmetric] by (rule take_butlast)
    ultimately show ?thesis using s' x(2) by (auto simp: kept_def)
  qed
qed

section \<open>The operations\<close>

lemma table_hit:
  assumes ok: "fdm_ok ofds s" and some: "lru_find (fds s) path = Some ob" and env: "ofds e = ofds (env s)"
  defines "s' \<equiv> s\<lparr>env := e, fds := snd (lru_hit path (fds s))\<rparr>"
  shows "kept ofds s s'" "map_of (recency (fds s')) path = Some (lo_data ob)" "lo_data ob \<in> cached s"
proof -
  have t: "table_ok ofds s" using ok by (simp add: fdm_ok_def)
  note c = table_lru [OF t]
  have f: "map_option lo_data (lru_find (fds s) path) = Some (lo_data ob)" using some by simp
  have "recency (fds s') = (path, lo_data ob) # AList.delete path (recency (fds s))" "lru_ok (fds s')" "max_n (fds s') = 0"
    using fds.hit_old [OF c f] by (simp_all add: s'_def)
  moreover have "set (recency (fds s')) = set (recency (fds s))" "length (recency (fds s')) = length (recency (fds s))"
    using fds.hit_held [OF c f] fds.hit_length [OF c f] by (simp_all add: s'_def)
  moreover have "env s' = e" "max_fd_num s' = max_fd_num s" by (simp_all add: s'_def)
  ultimately show "kept ofds s s'" "map_of (recency (fds s')) path = Some (lo_data ob)"
    using ok env by (auto simp: kept_def fdm_ok_def table_ok_def stray_def cached_def)
  show "lo_data ob \<in> cached s" using fds.found_held [OF c f] by (simp add: cached_def)
qed

lemma table_touch:
  assumes ok: "fdm_ok ofds s" and none: "lru_find (fds s) path = None" and fd: "fd \<notin> ofds (env s)"
    and env: "ofds e = insert fd (ofds (env s))"
  defines "s' \<equiv> s\<lparr>env := e, fds := lru_touch path fd (fds s)\<rparr>"
  shows "table_ok ofds s'" "stray ofds s' = stray ofds s" "recency (fds s') = (path, fd) # recency (fds s)"
proof -
  have t: "table_ok ofds s" using ok by (simp add: fdm_ok_def)
  note c = table_lru [OF t]
  have f: "map_option lo_data (lru_find (fds s) path) = None" using none by simp
  from fds.touch_new [OF c f, of fd] show r: "recency (fds s') = (path, fd) # recency (fds s)"
    by (simp add: s'_def)
  have "fd \<notin> cached s" using t fd by (auto simp: table_ok_def)
  then show "table_ok ofds s'" "stray ofds s' = stray ofds s"
    using t r env fd fds.touch_new [OF c f, of fd]
    by (auto simp: table_ok_def stray_def cached_def s'_def inj_on_insert)
qed

lemma wp_fdm_open:
  assumes law: "descriptor_law k ofds" and ok: "fdm_ok ofds s"
  shows "wp (fdm_open k path flags mode) (\<lambda>r s'. kept ofds s s' \<and> file_handlers s' = file_handlers s \<and>
    (\<exists>fd. r = Val fd \<and> (if fd < 0 then recency (fds s') = recency (fds s)
       else map_of (recency (fds s')) path = Some fd \<and> fd \<in> ofds (env s')))) s"
proof (cases "lru_find (fds s) path")
  case (Some ob)
  have "kept ofds s s' \<and> file_handlers s' = file_handlers s \<and> map_of (recency (fds s')) path = Some (lo_data ob) \<and>
      lo_data ob \<in> ofds (env s') \<and> 0 \<le> lo_data ob \<and> stale_node k (env s') (lo_data ob) = lo_data ob"
    if "s' = s\<lparr>env := e, fds := snd (lru_hit path (fds s))\<rparr>" "ofds e = ofds (env s)" for s' e
    using table_hit [OF ok Some that(2)] that quiet_calls(5,6) [OF law] ok
    by (auto simp: fdm_ok_def table_ok_def)
  note hit = this
  have n: "\<not> lo_data ob < 0" using hit [OF refl refl] by force
  show ?thesis
    using hit [of "s\<lparr>env := env s, fds := snd (lru_hit path (fds s))\<rparr>" "env s", OF refl refl] hit [OF refl]
    by (auto simp: fdm_open_def Some quiet_calls(2) [OF law] n split: prod.splits)
next
  case None
  obtain fd er e where o: "k_open k (cstr path) (mask_flags flags) mode (env s) = ((fd, er), e)" by (metis prod.collapse)
  from open_law [OF law o] show ?thesis
  proof cases
    case 1
    have "kept ofds s (s\<lparr>env := e\<rparr>)"
      using ok 1 by (simp add: kept_def fdm_ok_def table_ok_def stray_def cached_def)
    then show ?thesis using 1 o by (simp add: fdm_open_def None)
  next
    case 2
    let ?s = "s\<lparr>env := e, fds := lru_touch path fd (fds s)\<rparr>"
    note t = table_touch [OF ok None 2(2,3)]
    from checkAndExpire_ok [OF law t(1)] obtain s' where s': "checkAndExpire k ?s = (Val (), s')" "kept ofds ?s s'"
      "recency (fds s') = take (max_fd_num s) ((path, fd) # recency (fds s))" "file_handlers s' = file_handlers s"
      using t(3) by auto
    have "0 < max_fd_num s" using ok by (simp add: fdm_ok_def table_ok_def)
    then have first: "map_of (recency (fds s')) path = Some fd" using s'(3) by (simp add: take_Cons')
    then have "fd \<in> cached s'" by (force simp: cached_def dest: map_of_SomeD)
    then have "fd \<in> ofds (env s')" using s'(2) by (auto simp: kept_def fdm_ok_def table_ok_def)
    moreover have "kept ofds s s'" using s'(2) t(2) by (simp add: kept_def)
    moreover have "wp (checkAndExpire k) (\<lambda>r s''. r = Val () \<and> s'' = s') ?s" using s'(1) by (simp add: wp_def)
    ultimately show ?thesis
      using 2(1) o s'(4) first by (auto simp: fdm_open_def None intro!: exI [of _ fd] elim!: wp_mono)
  qed
qed

lemma wp_fdm_flush:
  assumes law: "descriptor_law k ofds" and ok: "fdm_ok ofds s"
  shows "wp (fdm_flush k path) (\<lambda>r s'. kept ofds s s' \<and> r = Val 0) s"
  using ok by (auto simp: fdm_flush_def kept_def fdm_ok_def table_ok_def stray_def cached_def quiet_calls(3) [OF law]
      split: option.splits prod.splits)

lemma table_remove:
  assumes ok: "fdm_ok ofds s" and some: "lru_find (fds s) path = Some ob"
  shows "ofds e = ofds (env s) - {lo_data ob} \<Longrightarrow> kept ofds s (s\<lparr>fds := snd (lru_remove (fds s) path), env := e\<rparr>)"
    and "map_of (recency (snd (lru_remove (fds s) path))) path = None"
proof -
  have t: "table_ok ofds s" using ok by (simp add: fdm_ok_def)
  note c = table_lru [OF t]
  have f: "map_option lo_data (lru_find (fds s) path) = Some (lo_data ob)" using some by simp
  have inj: "inj_on snd (set (recency (fds s)))" using t by (simp add: table_ok_def)
  note r = fds.remove [OF c, of path] fds.remove_held [OF c f inj]
  have "length (AList.delete path (recency (fds s))) \<le> length (recency (fds s))" by (rule length_delete_le)
  moreover have "lo_data ob \<in> snd ` set (recency (fds s))" using fds.found_held [OF c f] .
  ultimately show "ofds e = ofds (env s) - {lo_data ob} \<Longrightarrow> kept ofds s (s\<lparr>fds := snd (lru_remove (fds s) path), env := e\<rparr>)"
    using ok r by (auto simp: kept_def fdm_ok_def table_ok_def stray_def cached_def)
  show "map_of (recency (snd (lru_remove (fds s) path))) path = None"
    using r(1) by (simp add: AList.delete_conv')
qed

lemma wp_drop_fd:
  assumes law: "descriptor_law k ofds" and ok: "fdm_ok ofds s"
  shows "wp (drop_fd k path) (\<lambda>r s'. kept ofds s s' \<and> (\<exists>v. r = Val v) \<and>
    map_of (recency (fds s')) path = None \<and> file_handlers s' = file_handlers s) s"
proof (cases "lru_find (fds s) path")
  case None
  have "map_of (recency (fds s)) path = None"
    using find_recency [of "fds s" path] None ok by (simp add: fdm_ok_def table_ok_def)
  then show ?thesis using kept_refl [OF ok] None by (simp add: drop_fd_def)
next
  case (Some ob)
  have "lo_key ob = path" using find_key [OF _ Some] ok by (simp add: fdm_ok_def table_ok_def)
  then show ?thesis
    using Some table_remove [OF ok Some] quiet_calls(1) [OF law]
    by (auto simp: drop_fd_def split: prod.splits)
qed

text \<open>A program that opens a descriptor and closes it again later holds it meanwhile.\<close>

lemma wp_fdm_create:
  assumes law: "descriptor_law k ofds" and ok: "fdm_ok ofds s"
  shows "wp (fdm_create k path mode) (\<lambda>r s'. kept ofds s s' \<and>
    (r = Val 0 \<and> map_of (recency (fds s')) path = None \<or> r = Val (- 1) \<and> recency (fds s') = recency (fds s))) s"
proof -
  obtain fd er e where o: "k_open k (cstr path) (O_CREAT OR O_SYNC) mode (env s) = ((fd, er), e)" by (metis prod.collapse)
  from open_law [OF law o] show ?thesis
  proof cases
    case 1
    have "kept ofds s (s\<lparr>env := e\<rparr>)"
      using ok 1 by (simp add: kept_def fdm_ok_def table_ok_def stray_def cached_def)
    then show ?thesis using 1 o by (simp add: fdm_create_def)
  next
    case 2
    let ?s = "s\<lparr>env := e\<rparr>"
    have c: "cached s \<subseteq> ofds (env s)" using ok by (simp add: fdm_ok_def table_ok_def)
    have s: "fdm_ok ofds ?s" "stray ofds ?s = insert fd (stray ofds s)" "fd \<notin> stray ofds s"
      using ok 2 c by (auto simp: fdm_ok_def table_ok_def stray_def cached_def)
    have rest: "kept ofds s (s'\<lparr>env := e'\<rparr>)" if "kept ofds ?s s'" "ofds e' = ofds (env s') - {fd}" for s' e'
      using that s by (auto simp: kept_def fdm_ok_def table_ok_def stray_def cached_def)
    from wp_drop_fd [OF law s(1), of path] show ?thesis
      using 2(1) o rest quiet_calls(1) [OF law]
      by (auto simp: fdm_create_def elim!: wp_mono split: prod.splits)
  qed
qed

lemma wp_fdm_remove:
  assumes law: "descriptor_law k ofds" and ok: "fdm_ok ofds s"
  shows "wp (fdm_remove k path) (\<lambda>r s'. kept ofds s s' \<and> (\<exists>v. r = Val v) \<and> map_of (recency (fds s')) path = None) s"
proof -
  have rest: "kept ofds s (s'\<lparr>env := e'\<rparr>)" if "kept ofds s s'" "ofds e' = ofds (env s')" for s' e'
    using that by (auto simp: kept_def fdm_ok_def table_ok_def stray_def cached_def)
  from wp_drop_fd [OF law ok, of path] show ?thesis
    using rest quiet_calls(4) [OF law] by (auto simp: fdm_remove_def elim!: wp_mono split: prod.splits)
qed

lemma kept_handlers [simp]: "kept ofds s (s'\<lparr>file_handlers := x\<rparr>) = kept ofds s s'"
  by (simp add: kept_def fdm_ok_def table_ok_def stray_def cached_def)

lemma wp_get_file_handler:
  assumes law: "descriptor_law k ofds" and ok: "fdm_ok ofds s"
  shows "wp (get_file_handler k path) (\<lambda>r s'. kept ofds s s' \<and>
    (r = Val None \<or> (\<exists>fd. r = Val (Some fd))) \<and>
    (\<forall>fd. r = Val (Some fd) \<longrightarrow> map_of (recency (fds s')) path = Some fd \<and> map_of (file_handlers s') fd =
        Some (case map_of (file_handlers s) fd of None \<Rightarrow> new_handler fd | Some h \<Rightarrow> h))) s"
  using wp_fdm_open [OF law ok, of path O_RDWR 436]
  by (auto simp: get_file_handler_def enter_handler_def put_handler_def elim!: wp_mono split: option.splits)

section \<open>Any use of the table\<close>

text \<open>
  \<open>Enter\<close> is the second half of \<open>get_file_handler\<close> when other calls have come between the two; the first half
  is \<open>Open\<close>.
\<close>

datatype fdm_call = Open string int int | Close string | Create string int | Unlink string | Drop string | Flush string
  | Handler string | Enter int

fun call :: "('e, 'b) kernel \<Rightarrow> fdm_call \<Rightarrow> ('e, 'b, unit) iprog" where
  "call k (Open p f m) = bnd (fdm_open k p f m) (\<lambda>_. ret ())"
| "call k (Close p) = bnd (fdm_close k p) (\<lambda>_. ret ())"
| "call k (Create p m) = bnd (fdm_create k p m) (\<lambda>_. ret ())"
| "call k (Unlink p) = bnd (fdm_remove k p) (\<lambda>_. ret ())"
| "call k (Drop p) = bnd (fdm_expire k p) (\<lambda>_. ret ())"
| "call k (Flush p) = bnd (fdm_flush k p) (\<lambda>_. ret ())"
| "call k (Handler p) = bnd (get_file_handler k p) (\<lambda>_. ret ())"
| "call k (Enter fd) = bnd (enter_handler fd) (\<lambda>_. ret ())"

primrec calls :: "('e, 'b) kernel \<Rightarrow> fdm_call list \<Rightarrow> ('e, 'b, unit) iprog" where
  "calls k [] = ret ()"
| "calls k (c # cs) = bnd (call k c) (\<lambda>_. calls k cs)"

lemma wp_call:
  assumes law: "descriptor_law k ofds" and ok: "fdm_ok ofds s"
  shows "wp (call k c) (\<lambda>r s'. r = Val () \<and> kept ofds s s') s"
proof (cases c)
  case (Open p f m)
  show ?thesis using wp_fdm_open [OF law ok, of p f m] by (auto simp: Open elim!: wp_mono)
next
  case (Close p)
  show ?thesis using wp_fdm_flush [OF law ok, of p] by (auto simp: Close fdm_close_def elim!: wp_mono)
next
  case (Create p m)
  show ?thesis using wp_fdm_create [OF law ok, of p m] by (auto simp: Create elim!: wp_mono)
next
  case (Unlink p)
  show ?thesis using wp_fdm_remove [OF law ok, of p] by (auto simp: Unlink elim!: wp_mono)
next
  case (Drop p)
  show ?thesis using wp_drop_fd [OF law ok, of p] by (auto simp: Drop fdm_expire_def elim!: wp_mono)
next
  case (Flush p)
  show ?thesis using wp_fdm_flush [OF law ok, of p] by (auto simp: Flush elim!: wp_mono)
next
  case (Handler p)
  show ?thesis using wp_get_file_handler [OF law ok, of p] by (auto simp: Handler elim!: wp_mono)
next
  case (Enter fd)
  have "kept ofds s (s\<lparr>file_handlers := h\<rparr>)" for h
    using ok by (simp add: kept_def fdm_ok_def table_ok_def stray_def cached_def)
  with kept_refl [OF ok] show ?thesis by (auto simp: Enter enter_handler_def put_handler_def split: option.splits)
qed

text \<open>C5: Along any sequence of calls, whatever the operating system answers, every cached descriptor is
  open and belongs to one path, no more are cached than allowed, and every other descriptor of the process
  is as it was: none leaks and none of another part of the process is closed.\<close>

theorem descriptors_accounted:
  assumes "descriptor_law k ofds" and "fdm_ok ofds s"
  shows "wp (calls k cs) (\<lambda>r s'. r = Val () \<and> lru_ok (fds s') \<and>
    inj_on snd (set (recency (fds s'))) \<and> length (recency (fds s')) \<le> max_fd_num s \<and>
    ofds (env s') = cached s' \<union> stray ofds s \<and> cached s' \<inter> stray ofds s = {}) s"
proof -
  have "wp (calls k cs) (\<lambda>r s'. r = Val () \<and> kept ofds s s') s"
    using assms(2)
  proof (induction cs arbitrary: s)
    case (Cons c cs)
    have "wp (calls k cs) (\<lambda>r s''. r = Val () \<and> kept ofds s s'') s'" if "kept ofds s s'" for s'
      using Cons.IH [of s'] that kept_trans by (fastforce simp: kept_def elim!: wp_mono)
    then show ?case using wp_call [OF assms(1) Cons.prems, of c] by (auto elim!: wp_mono)
  qed (simp add: kept_refl)
  then show ?thesis
    by (rule wp_mono) (auto simp: kept_def fdm_ok_def table_ok_def stray_def)
qed

text \<open>An opened path is answered the descriptor under which the table has it then, which is open and not
  negative; a failure is answered as a negative error number and leaves the table as it is.\<close>

theorem fdm_open_result:
  assumes "descriptor_law k ofds" and "fdm_ok ofds s"
  shows "wp (fdm_open k path flags mode) (\<lambda>r s'. \<exists>fd. r = Val fd \<and>
    (if fd < 0 then recency (fds s') = recency (fds s)
     else map_of (recency (fds s')) path = Some fd \<and> fd \<in> ofds (env s'))) s"
  by (rule wp_mono [OF wp_fdm_open [OF assms]]) auto

text \<open>The handler of a file outlives it: when the operating system gives the descriptor of a closed file
  to another one, that file gets the handler, and with it the bitmaps, of the first.\<close>

theorem handler_outlives_file:
  assumes "descriptor_law k ofds" and "fdm_ok ofds s"
    and "map_of (file_handlers s) fd = Some h"
    and "lru_find (fds s) path = None" and "k_open k (cstr path) O_RDWR 436 (env s) = ((fd, er), e)" and "0 \<le> fd"
  shows "wp (get_file_handler k path) (\<lambda>r s'. r = Val (Some fd) \<and> map_of (file_handlers s') fd = Some h) s"
proof -
  have m: "mask_flags O_RDWR = O_RDWR" by (simp add: mask_flags_def)
  have "fd \<notin> ofds (env s)" "ofds e = insert fd (ofds (env s))"
    using open_law [OF assms(1,5)] assms(6) by auto
  from table_touch(1) [OF assms(2,4) this] checkAndExpire_ok [OF assms(1)] obtain s' where
    "checkAndExpire k (s\<lparr>env := e, fds := lru_touch path fd (fds s)\<rparr>) = (Val (), s')"
    "file_handlers s' = file_handlers s" by force
  then have "wp (checkAndExpire k) (\<lambda>r s'. r = Val () \<and> file_handlers s' = file_handlers s)
      (s\<lparr>env := e, fds := lru_touch path fd (fds s)\<rparr>)" by (simp add: wp_def)
  then show ?thesis
    using assms(3-6) by (auto simp: get_file_handler_def enter_handler_def fdm_open_def m elim!: wp_mono)
qed

section \<open>The machine of the samples\<close>

definition box_fds :: "box \<Rightarrow> int set" where
  "box_fds e = fst ` set (bx_open e) \<inter> {0..}"

lemma least_fd_ge: "n \<le> least_fd m n used"
proof (induction m arbitrary: n)
  case (Suc m)
  from Suc.IH [of "n + 1"] show ?case by simp
qed simp

lemma least_fd_free: "card (set used \<inter> {n..}) \<le> m \<Longrightarrow> least_fd m n used \<notin> set used"
proof (induction m arbitrary: n)
  case 0
  then show ?case by (auto simp: card_eq_0_iff)
next
  case (Suc m)
  have "set used \<inter> {n..} = insert n (set used \<inter> {n + 1..})" if "n \<in> set used"
    using that by (auto simp: less_eq_int_code)
  then show ?case using Suc by (auto simp: card_insert_if)
qed

lemma free_fd_new: "0 \<le> free_fd e" "free_fd e \<notin> fst ` set (bx_open e)"
proof -
  have "3 \<le> free_fd e" unfolding free_fd_def by (rule least_fd_ge)
  then show "0 \<le> free_fd e" by simp
  have "card (fst ` set (bx_open e) \<inter> {3..}) \<le> card (fst ` set (bx_open e))" by (rule card_mono) auto
  also have "\<dots> \<le> length (bx_open e)" by (metis card_length set_map length_map)
  finally show "free_fd e \<notin> fst ` set (bx_open e)"
    using least_fd_free [of "map fst (bx_open e)" 3 "length (bx_open e)"] by (simp add: free_fd_def)
qed

lemma box_law: "descriptor_law (box_kernel eof sd sh) box_fds"
proof -
  have "fst ` set (AList.delete fd xs) = fst ` set xs - {fd}" for fd and xs :: "(int \<times> string) list"
    by (auto simp: AList.delete_eq)
  then show ?thesis
    using free_fd_new
    by (auto simp: descriptor_law_def box_kernel_def box_fds_def fine_def split: if_splits)
qed

lemma sample_fdm_ok: "fdm_ok box_fds sample_iop"
  by (simp add: sample_iop_def fdm_ok_def table_ok_def recency_new lru_ok_new cached_def) (simp add: new_lru_def)

text \<open>The machine after the handler of a first file was made, its bitmap set, and the file expired.\<close>

definition plain_kernel :: "(box, (nat \<times> nat) list) kernel" where
  "plain_kernel = box_kernel 0 (\<lambda>_. - 1) (\<lambda>_. - 1)"

lemma plain_law: "descriptor_law plain_kernel box_fds"
  by (simp add: plain_kernel_def box_law)

lemma descriptors_accounted_witness:
  "wp (calls plain_kernel [Open ''/data/s1/a'' 2 0, Open ''/data/s1/b'' 2 0, Create ''/data/s1/a'' 0, Handler ''/data/s1/c'',
        Unlink ''/data/s1/b'', Open ''/data/s1/a'' 514 0])
     (\<lambda>r s'. r = Val () \<and> length (recency (fds s')) \<le> 500 \<and> box_fds (env s') = cached s') sample_iop"
  by (rule wp_mono [OF descriptors_accounted [OF plain_law sample_fdm_ok]])
    (auto simp: stray_def box_fds_def sample_iop_def sample_box_def)

lemma fdm_open_result_witness:
  "wp (fdm_open plain_kernel ''/data/s1/a'' 2 0) (\<lambda>r s'. \<exists>fd. r = Val fd \<and>
     (if fd < 0 then recency (fds s') = [] else map_of (recency (fds s')) ''/data/s1/a'' = Some fd)) sample_iop"
  by (rule wp_mono [OF fdm_open_result [OF plain_law sample_fdm_ok]])
    (auto simp: sample_iop_def recency_new split: if_splits)

definition reused_iop :: "(box, (nat \<times> nat) list) iop" where
  "reused_iop = sample_iop\<lparr>file_handlers := [(3, \<lparr>fh_fd = 3, fh_bitmaps = [(2, [(0, 7)])], fh_cids = []\<rparr>)]\<rparr>"

lemma handler_outlives_file_witness:
  "wp (get_file_handler plain_kernel ''/data/s1/b'') (\<lambda>r s'. r = Val (Some 3) \<and>
     (\<exists>h. map_of (file_handlers s') 3 = Some h \<and> fh_bitmaps h = [(2, [(0, 7)])])) reused_iop"
proof -
  let ?h = "\<lparr>fh_fd = 3, fh_bitmaps = [(2, [(0, 7)])], fh_cids = []\<rparr> :: (nat \<times> nat) list handler"
  have 1: "fdm_ok box_fds reused_iop"
    using sample_fdm_ok by (simp add: reused_iop_def fdm_ok_def table_ok_def cached_def)
  have 2: "map_of (file_handlers reused_iop) 3 = Some ?h" "lru_find (fds reused_iop) ''/data/s1/b'' = None"
    by (simp_all add: reused_iop_def sample_iop_def new_lru_def lru_find_def)
  have 3: "k_open plain_kernel (cstr ''/data/s1/b'') O_RDWR 436 (env reused_iop)
    = ((3, 0), sample_box\<lparr>bx_open := [(3, ''/data/s1/b'')]\<rparr>)"
    by (simp add: plain_kernel_def box_kernel_def reused_iop_def sample_iop_def sample_box_def cstr_def free_fd_def)
  show ?thesis
    by (rule wp_mono [OF handler_outlives_file [OF plain_law 1 2 3]]) simp_all
qed

end
