(* ===== verification/Replica_Props.thy ===== *)
theory Replica_Props
  imports Proxy_Op Fd_Props
begin

text \<open>
  Replication: what is queued and what is not, that the flusher sends every queued request to every other
  centre in order, that the pages a peer drops were fetched before, that the data sent back by a peer is
  written where it was read; and how identifiers past 127, unknown centres and short data end the process.
\<close>

section \<open>Sending\<close>

text \<open>
  \<open>sent\<close> reads the messages that went out: a submitted request is the last of them, and asking for an
  attribute sends nothing.
\<close>

definition grpc_law :: "('e, 'b) kernel \<Rightarrow> ('e \<Rightarrow> (string \<times> op_request) list) \<Rightarrow> bool" where
  "grpc_law k sent \<longleftrightarrow>
     (\<forall>t rq e. sent (snd (grpc_submit k t rq e)) = sent e @ [(t, rq)]) \<and>
     (\<forall>p n m e. sent (snd (k_getxattr k p n m e)) = sent e)"

text \<open>Proxies with one identifier have one address, and the channels there are lead to it.\<close>

definition channels_ok :: "('e, 'b) iop \<Rightarrow> bool" where
  "channels_ok s \<longleftrightarrow>
     (\<forall>c n. map_of (ioproxys s) c = Some n \<longrightarrow>
        (\<forall>t. map_of (operators s) (iop_uuid n @ nat_dec 100) = Some t \<longrightarrow> t = address n) \<and>
        (\<forall>c' n'. map_of (ioproxys s) c' = Some n' \<and> iop_uuid n' = iop_uuid n \<longrightarrow> address n' = address n))"

lemma channels_cong:
  "ioproxys s' = ioproxys s \<Longrightarrow> operators s' = operators s \<Longrightarrow> channels_ok s' = channels_ok s"
  by (simp add: channels_ok_def)

text \<open>The messages that a request for the centres of its \<open>extra\<close> stands for.\<close>

definition others :: "nat \<Rightarrow> string \<Rightarrow> nat list" where
  "others me cids = filter (\<lambda>c. c \<noteq> me) (map char_u32 cids)"

definition messages :: "('e, 'b) iop \<Rightarrow> op_request \<Rightarrow> (string \<times> op_request) list" where
  "messages s rq =
     (if is_system_attr rq then []
      else map (\<lambda>c. (address (the (map_of (ioproxys s) c)), as_replica (mcid s) rq)) (others (mcid s) (rq_extra rq)))"

definition reachable :: "('e, 'b) iop \<Rightarrow> op_request \<Rightarrow> bool" where
  "reachable s rq \<longleftrightarrow> set (others (mcid s) (rq_extra rq)) \<subseteq> dom (map_of (ioproxys s))"

text \<open>What sending leaves as it is.\<close>

definition same_centres :: "('e, 'b) iop \<Rightarrow> ('e, 'b) iop \<Rightarrow> bool" where
  "same_centres s s' \<longleftrightarrow> ioproxys s' = ioproxys s \<and> mcid s' = mcid s \<and> m_new s' = m_new s \<and>
     in_flight s' = in_flight s \<and> channels_ok s' \<and> data_dir s' = data_dir s \<and> m_max_new s' = m_max_new s"

lemma same_centres_refl: "channels_ok s \<Longrightarrow> same_centres s s"
  by (simp add: same_centres_def)

lemma same_centres_trans: "same_centres s s' \<Longrightarrow> same_centres s' s'' \<Longrightarrow> same_centres s s''"
  by (simp add: same_centres_def)

lemma messages_same: "same_centres s s' \<Longrightarrow> messages s' rq = messages s rq"
  by (simp add: same_centres_def messages_def)

lemma wp_submit_to:
  assumes law: "grpc_law k sent" and ok: "channels_ok s" and node: "map_of (ioproxys s) c = Some n"
  shows "wp (submit_to k c rq) (\<lambda>r s'. (\<exists>rp. r = Val rp) \<and> same_centres s s' \<and>
    sent (env s') = sent (env s) @ [(address n, rq)]) s"
proof -
  obtain x rp e where g: "grpc_submit k (address n) rq (env s) = ((x, rp), e)" by (metis prod.collapse)
  with law have e: "sent e = sent (env s) @ [(address n, rq)]" unfolding grpc_law_def by (metis snd_conv)
  let ?ops = "smap_set (iop_uuid n @ nat_dec 100) (address n) (operators s)"
  have same: "address n' = address n" if "map_of (ioproxys s) c' = Some n'" "iop_uuid n' = iop_uuid n" for c' n'
    using ok node that unfolding channels_ok_def by blast
  have "channels_ok (s\<lparr>env := e\<rparr>) = channels_ok s" by (simp add: channels_ok_def)
  with ok have old: "channels_ok (s\<lparr>env := e\<rparr>)" by blast
  have new: "channels_ok (s\<lparr>operators := ?ops, env := e\<rparr>)"
    unfolding channels_ok_def
  proof (intro allI impI conjI)
    fix c' n' t
    assume n': "map_of (ioproxys (s\<lparr>operators := ?ops, env := e\<rparr>)) c' = Some n'"
    then have n'': "map_of (ioproxys s) c' = Some n'" by simp
    show "t = address n'" if "map_of (operators (s\<lparr>operators := ?ops, env := e\<rparr>)) (iop_uuid n' @ nat_dec 100) = Some t"
    proof (cases "iop_uuid n' = iop_uuid n")
      case True
      then show ?thesis using that same [OF n''] by simp
    next
      case False
      then have "map_of (operators s) (iop_uuid n' @ nat_dec 100) = Some t" using that by simp
      then show ?thesis using ok n'' unfolding channels_ok_def by blast
    qed
    show "address n2 = address n'"
      if "map_of (ioproxys (s\<lparr>operators := ?ops, env := e\<rparr>)) c2 = Some n2 \<and> iop_uuid n2 = iop_uuid n'" for c2 n2
    proof -
      have "map_of (ioproxys s) c2 = Some n2" "iop_uuid n2 = iop_uuid n'" using that by simp_all
      then show ?thesis using ok n'' unfolding channels_ok_def by blast
    qed
  qed
  show ?thesis
  proof (cases "map_of (operators s) (iop_uuid n @ nat_dec 100)")
    case None
    then show ?thesis
      using g e new node by (auto simp: submit_to_def get_operator_def same_centres_def Let_def)
  next
    case (Some t)
    then have "t = address n" using ok node unfolding channels_ok_def by blast
    then show ?thesis
      using g e old node Some by (auto simp: submit_to_def get_operator_def same_centres_def Let_def)
  qed
qed

lemma wp_send_all:
  assumes law: "grpc_law k sent" and ok: "channels_ok s"
    and known: "set (others (mcid s) cids) \<subseteq> dom (map_of (ioproxys s))"
  shows "wp (send_all k rq cids) (\<lambda>r s'. r = Val () \<and> same_centres s s' \<and>
    sent (env s') = sent (env s) @ map (\<lambda>c. (address (the (map_of (ioproxys s) c)), rq)) (others (mcid s) cids)) s"
  using ok known
proof (induction cids arbitrary: s)
  case Nil
  then show ?case by (simp add: others_def same_centres_refl)
next
  case (Cons c cs)
  show ?case
  proof (cases "char_u32 c = mcid s")
    case True
    then show ?thesis using Cons.IH [OF Cons.prems(1)] Cons.prems(2) by (simp add: others_def)
  next
    case False
    then obtain n where n: "map_of (ioproxys s) (char_u32 c) = Some n"
      using Cons.prems(2) by (auto simp: others_def)
    have "wp (send_all k rq cs) (\<lambda>r s''. r = Val () \<and> same_centres s s'' \<and> sent (env s'') = sent (env s) @
        map (\<lambda>c. (address (the (map_of (ioproxys s) c)), rq)) (others (mcid s) (c # cs))) s'"
      if s': "same_centres s s'" "sent (env s') = sent (env s) @ [(address n, rq)]" for s'
    proof -
      have eq: "ioproxys s' = ioproxys s" "mcid s' = mcid s" "channels_ok s'"
        using s'(1) by (auto simp: same_centres_def)
      show ?thesis
        using Cons.prems(2) False n s' eq same_centres_trans [OF s'(1)]
        by (intro wp_mono [OF Cons.IH [OF eq(3)]]) (auto simp: others_def)
    qed
    then show ?thesis
      using False wp_submit_to [OF law Cons.prems(1) n, of rq] by (auto elim!: wp_mono)
  qed
qed

lemma wp_deliver:
  assumes law: "grpc_law k sent" and ok: "channels_ok s" and "reachable s rq"
  shows "wp (deliver k rq) (\<lambda>r s'. r = Val () \<and> same_centres s s' \<and> sent (env s') = sent (env s) @ messages s rq) s"
  using wp_send_all [OF law ok, of "rq_extra rq" "as_replica (mcid s) rq"] assms(3)
  by (auto simp: deliver_def messages_def reachable_def same_centres_refl [OF ok])

lemma wp_deliver_list:
  assumes law: "grpc_law k sent" and ok: "channels_ok s" and "\<And>rq. rq \<in> set rqs \<Longrightarrow> reachable s rq"
  shows "wp (deliver_list k rqs) (\<lambda>r s'. r = Val () \<and> same_centres s s' \<and>
    sent (env s') = sent (env s) @ concat (map (messages s) rqs)) s"
  using ok assms(3)
proof (induction rqs arbitrary: s)
  case (Cons rq rqs)
  have "wp (deliver_list k rqs) (\<lambda>r s''. r = Val () \<and> same_centres s s'' \<and>
      sent (env s'') = sent (env s) @ concat (map (messages s) (rq # rqs))) s'"
    if s': "same_centres s s'" "sent (env s') = sent (env s) @ messages s rq" for s'
  proof -
    have eq: "channels_ok s'" "\<And>rq. reachable s' rq = reachable s rq" "messages s' = messages s"
      using s'(1) messages_same [OF s'(1)] by (auto simp: same_centres_def reachable_def)
    show ?thesis
      using Cons.prems(2) s' eq same_centres_trans [OF s'(1)]
      by (intro wp_mono [OF Cons.IH [OF eq(1)]]) auto
  qed
  then show ?case
    using wp_deliver [OF law Cons.prems(1), of rq] Cons.prems(2) by (auto elim!: wp_mono)
qed (simp add: same_centres_refl)

section \<open>Handling and flushing\<close>

lemma wp_flush_replicas:
  assumes law: "grpc_law k sent" and ok: "channels_ok s"
    and "\<And>rq. rq \<in> set (in_flight s @ m_new s) \<Longrightarrow> reachable s rq"
  shows "wp (flush_replicas k) (\<lambda>r s'. r = Val () \<and> m_new s' = [] \<and> in_flight s' = [] \<and>
    same_centres (s\<lparr>m_new := [], in_flight := []\<rparr>) s' \<and>
    sent (env s') = sent (env s) @ concat (map (messages s) (in_flight s @ m_new s))) s"
proof -
  let ?s = "s\<lparr>m_new := [], in_flight := []\<rparr>"
  have "channels_ok ?s = channels_ok s" "messages ?s = messages s" "reachable ?s = reachable s"
    by (simp_all add: channels_ok_def messages_def reachable_def fun_eq_iff)
  then have ok': "channels_ok ?s" and m: "messages ?s = messages s"
    and re: "rq \<in> set (in_flight s @ m_new s) \<Longrightarrow> reachable ?s rq" for rq
    using ok assms(3) by simp_all
  have "wp (deliver_list k (in_flight s @ m_new s)) (\<lambda>r s'. r = Val () \<and> same_centres ?s s' \<and>
      sent (env s') = sent (env s) @ concat (map (messages s) (in_flight s @ m_new s))) ?s"
    using wp_deliver_list [OF law ok', of "in_flight s @ m_new s"] re unfolding m by simp
  then show ?thesis
    by (auto simp: flush_replicas_def take_batch_def same_centres_def elim!: wp_mono)
qed

text \<open>What handling a request without a handler of its own may do to the queue.\<close>

definition may_queue :: "op_request \<Rightarrow> op_reply \<Rightarrow> bool" where
  "may_queue rq rp \<longleftrightarrow> rq_filepath rq \<noteq> [] \<and> 0 \<le> rp_err_code rp \<and>
     (case replica_kind_of (rq_type rq) of
        Mutation \<Rightarrow> rq_extra rq = [] | Data_Write \<Rightarrow> True | Not_Listed \<Rightarrow> True | _ \<Rightarrow> False)"

definition own_handler :: "op_request \<Rightarrow> bool" where
  "own_handler rq \<longleftrightarrow> replica_kind_of (rq_type rq) \<in> {Init_Space, Sync_Data, Update_Index}"

text \<open>The request as it is queued for the centres \<open>cids\<close>.\<close>

definition queued_as :: "op_request \<Rightarrow> string \<Rightarrow> op_request" where
  "queued_as rq cids = (if rq_type rq = T_write then rq\<lparr>rq_data := [], rq_extra := cids\<rparr> else rq\<lparr>rq_extra := cids\<rparr>)"

lemma kind_write: "replica_kind_of t = Data_Write \<longleftrightarrow> t = T_write"
  by (cases t) simp_all

lemma first_component_Some: "p \<noteq> [] \<Longrightarrow> \<exists>c. first_component p = Some c"
  by (cases p) (auto simp: first_component_def split: list.splits)

text \<open>What the space of a file is replicated to.\<close>

definition centres_of :: "('e, 'b) kernel \<Rightarrow> ('e, 'b) iop \<Rightarrow> op_request \<Rightarrow> string option" where
  "centres_of k s rq =
     (case first_component (rq_filepath rq) of None \<Rightarrow> None
      | Some c \<Rightarrow> (case fst (k_getxattr k (cstr (path_join (data_dir s) c)) xattr_centers 256 (env s)) of
          ((sz, _), v) \<Rightarrow> if sz < 2 then None else Some (take (nat sz) v)))"

lemma wp_queue_replica:
  assumes "rq_filepath rq \<noteq> []" "0 \<le> rp_err_code rp" "\<And>cids. rq'\<lparr>rq_extra := cids\<rparr> = queued_as rq cids"
    "rq_filepath rq' = rq_filepath rq"
  shows "wp (queue_replica k rq' rp) (\<lambda>r s'. r = Val rp \<and>
    (\<exists>e x. k_getxattr k x xattr_centers 256 (env s) = (e, env s')) \<and>
    (case centres_of k s rq of
       None \<Rightarrow> m_new s' = m_new s \<and> in_flight s' = in_flight s
     | Some cids \<Rightarrow> in_flight s' @ m_new s' = in_flight s @ m_new s @ [queued_as rq cids]) \<and>
    ioproxys s' = ioproxys s \<and> mcid s' = mcid s \<and> operators s' = operators s \<and> data_dir s' = data_dir s) s"
proof -
  obtain c where c: "first_component (rq_filepath rq) = Some c" using first_component_Some [OF assms(1)] by blast
  obtain sz er v e where g: "k_getxattr k (cstr (path_join (data_dir s) c)) xattr_centers 256 (env s) = (((sz, er), v), e)"
    by (metis prod.collapse)
  have "\<exists>e' x. k_getxattr k x xattr_centers 256 (env s) = (e', e)" using g by blast
  then show ?thesis
    using assms(2-4) c g
    by (auto simp: queue_replica_def space_dir_def submit_replicated_request_def centres_of_def take_batch_def Let_def)
qed

lemma wp_handle_replica:
  assumes "\<not> own_handler rq"
  shows "wp (handle_replica_async k rq rp) (\<lambda>r s'. r = Val rp \<and>
    (env s' = env s \<or> (\<exists>e x. k_getxattr k x xattr_centers 256 (env s) = (e, env s'))) \<and>
    (case (if may_queue rq rp then centres_of k s rq else None) of
       None \<Rightarrow> m_new s' = m_new s \<and> in_flight s' = in_flight s
     | Some cids \<Rightarrow> in_flight s' @ m_new s' = in_flight s @ m_new s @ [queued_as rq cids]) \<and>
    ioproxys s' = ioproxys s \<and> mcid s' = mcid s \<and> operators s' = operators s \<and> data_dir s' = data_dir s) s"
proof (cases "may_queue rq rp")
  case False
  have "queue_replica k rq' rp = ret rp" if "rp_err_code rp < 0" for rq'
    using that by (simp add: queue_replica_def)
  then show ?thesis
    using False assms
    by (auto simp: handle_replica_async_def may_queue_def own_handler_def not_le split: replica_kind.splits)
next
  case True
  then have pre: "rq_filepath rq \<noteq> []" "0 \<le> rp_err_code rp" by (simp_all add: may_queue_def)
  let ?rq = "if rq_type rq = T_write then rq\<lparr>rq_data := []\<rparr> else rq"
  have "handle_replica_async k rq rp = queue_replica k ?rq rp"
    using True kind_write [of "rq_type rq"]
    by (auto simp: handle_replica_async_def may_queue_def split: replica_kind.splits)
  moreover have "?rq\<lparr>rq_extra := cids\<rparr> = queued_as rq cids" for cids by (simp add: queued_as_def)
  moreover have "rq_filepath ?rq = rq_filepath rq" by simp
  ultimately show ?thesis
    using wp_queue_replica [OF pre, of ?rq k s] True by (auto elim!: wp_mono)
qed

section \<open>Any sequence of requests and flushes\<close>

datatype event = Handled op_request op_reply | Flushed

fun happen :: "('e, 'b) kernel \<Rightarrow> event \<Rightarrow> ('e, 'b, unit) iprog" where
  "happen k (Handled rq rp) = bnd (handle_replica_async k rq rp) (\<lambda>_. ret ())"
| "happen k Flushed = flush_replicas k"

primrec happen_all :: "('e, 'b) kernel \<Rightarrow> event list \<Rightarrow> ('e, 'b, unit) iprog" where
  "happen_all k [] = ret ()"
| "happen_all k (x # xs) = bnd (happen k x) (\<lambda>_. happen_all k xs)"

text \<open>The requests that a handled request adds to the queue.\<close>

fun accepted :: "('e, 'b) kernel \<Rightarrow> ('e, 'b) iop \<Rightarrow> event \<Rightarrow> op_request list" where
  "accepted k s (Handled rq rp) =
     (if may_queue rq rp then (case centres_of k s rq of None \<Rightarrow> [] | Some cids \<Rightarrow> [queued_as rq cids]) else [])"
| "accepted k s Flushed = []"

definition fixed_centres :: "('e, 'b) kernel \<Rightarrow> bool" where
  "fixed_centres k \<longleftrightarrow> (\<forall>p e e'. fst (k_getxattr k p xattr_centers 256 e) = fst (k_getxattr k p xattr_centers 256 e'))"

text \<open>The state only matters through what \<open>ground\<close> names.\<close>

definition ground :: "('e, 'b) iop \<Rightarrow> ('e, 'b) iop \<Rightarrow> bool" where
  "ground s s' \<longleftrightarrow> ioproxys s' = ioproxys s \<and> mcid s' = mcid s \<and> data_dir s' = data_dir s \<and> channels_ok s'"

lemma ground_same:
  assumes "fixed_centres k" "ground s s'"
  shows "accepted k s' = accepted k s" "messages s' = messages s" "reachable s' = reachable s"
proof -
  have "centres_of k s' rq = centres_of k s rq" for rq
  proof -
    have "fst (k_getxattr k p xattr_centers 256 (env s')) = fst (k_getxattr k p xattr_centers 256 (env s))" for p
      using assms(1) unfolding fixed_centres_def by blast
    then show ?thesis using assms(2) by (simp add: centres_of_def ground_def split: option.splits)
  qed
  then have "accepted k s' x = accepted k s x" for x by (cases x) (simp_all split: option.splits)
  then show "accepted k s' = accepted k s" by blast
  show "messages s' = messages s" "reachable s' = reachable s"
    using assms(2) by (simp_all add: fun_eq_iff messages_def reachable_def ground_def)
qed

text \<open>What was sent and what is still to be sent.\<close>

definition outgoing :: "('e \<Rightarrow> (string \<times> op_request) list) \<Rightarrow> ('e, 'b) iop \<Rightarrow> (string \<times> op_request) list" where
  "outgoing sent s = sent (env s) @ concat (map (messages s) (in_flight s @ m_new s))"

lemma wp_happen:
  assumes law: "grpc_law k sent" "fixed_centres k" and ok: "channels_ok s"
    and own: "\<And>rq rp. x = Handled rq rp \<Longrightarrow> \<not> own_handler rq"
    and known: "\<And>rq. rq \<in> set (in_flight s @ m_new s) \<Longrightarrow> reachable s rq"
  shows "wp (happen k x) (\<lambda>r s'. r = Val () \<and> ground s s' \<and>
    outgoing sent s' = outgoing sent s @ concat (map (messages s) (accepted k s x)) \<and>
    set (in_flight s' @ m_new s') \<subseteq> set (in_flight s @ m_new s) \<union> set (accepted k s x) \<and>
    (x = Flushed \<longrightarrow> in_flight s' @ m_new s' = [])) s"
proof (cases x)
  case (Handled rq rp)
  have g: "ground s s' \<and> messages s' = messages s"
    if "ioproxys s' = ioproxys s" "mcid s' = mcid s" "operators s' = operators s" "data_dir s' = data_dir s" for s'
    using that ok channels_cong [of s' s] by (simp add: ground_def messages_def fun_eq_iff)
  have se: "sent (env s') = sent (env s)"
    if "env s' = env s \<or> (\<exists>e y. k_getxattr k y xattr_centers 256 (env s) = (e, env s'))" for s'
    using that law(1) unfolding grpc_law_def by (metis snd_conv)
  let ?c = "if may_queue rq rp then centres_of k s rq else None"
  have acc: "accepted k s (Handled rq rp) = (case ?c of None \<Rightarrow> [] | Some cids \<Rightarrow> [queued_as rq cids])"
    by simp
  have q: "in_flight s' @ m_new s' = (in_flight s @ m_new s) @ accepted k s (Handled rq rp)"
    if "case ?c of None \<Rightarrow> m_new s' = m_new s \<and> in_flight s' = in_flight s
        | Some cids \<Rightarrow> in_flight s' @ m_new s' = in_flight s @ m_new s @ [queued_as rq cids]" for s'
    using that unfolding acc by (cases ?c) simp_all
  have "outgoing sent s' = outgoing sent s @ concat (map (messages s) (accepted k s (Handled rq rp)))"
    if "sent (env s') = sent (env s)" "messages s' = messages s"
      "in_flight s' @ m_new s' = (in_flight s @ m_new s) @ accepted k s (Handled rq rp)" for s'
    unfolding outgoing_def that by simp
  note out = this
  show ?thesis
    unfolding Handled happen.simps wp_bnd
  proof (rule wp_mono [OF wp_handle_replica [OF own [OF Handled]]], goal_cases)
    case (1 r s')
    then have a: "r = Val rp" and e: "sent (env s') = sent (env s)" and m: "ground s s'" "messages s' = messages s"
      and w: "in_flight s' @ m_new s' = (in_flight s @ m_new s) @ accepted k s (Handled rq rp)"
      using se [of s'] g [of s'] q [of s'] by blast+
    have "set (in_flight s' @ m_new s') \<subseteq> set (in_flight s @ m_new s) \<union> set (accepted k s (Handled rq rp))"
      unfolding w set_append by blast
    with m(1) out [OF e m(2) w] show ?case unfolding a outcome.case wp_ret by blast
  qed
next
  case Flushed
  have "ground s s'" if "same_centres (s\<lparr>m_new := [], in_flight := []\<rparr>) s'" for s'
    using that by (simp add: same_centres_def ground_def)
  then show ?thesis
    using wp_flush_replicas [OF law(1) ok known] unfolding Flushed
    by (auto simp: outgoing_def elim!: wp_mono)
qed

lemma wp_happen_all:
  assumes law: "grpc_law k sent" "fixed_centres k" and ok: "channels_ok s"
    and own: "\<And>rq rp. Handled rq rp \<in> set xs \<Longrightarrow> \<not> own_handler rq"
    and known: "\<And>rq. rq \<in> set (in_flight s @ m_new s) \<union> \<Union>(set ` accepted k s ` set xs) \<Longrightarrow> reachable s rq"
  shows "wp (happen_all k xs) (\<lambda>r s'. r = Val () \<and> ground s s' \<and>
    outgoing sent s' = outgoing sent s @ concat (map (messages s) (concat (map (accepted k s) xs))) \<and>
    (xs \<noteq> [] \<and> last xs = Flushed \<longrightarrow> in_flight s' @ m_new s' = [])) s"
  using ok own known
proof (induction xs arbitrary: s)
  case Nil
  then show ?case by (simp add: ground_def)
next
  case (Cons x xs)
  have "wp (happen_all k xs) (\<lambda>r s''. r = Val () \<and> ground s s'' \<and>
      outgoing sent s'' = outgoing sent s @ concat (map (messages s) (concat (map (accepted k s) (x # xs)))) \<and>
      (last (x # xs) = Flushed \<longrightarrow> in_flight s'' @ m_new s'' = [])) s'"
    if g: "ground s s'" and out: "outgoing sent s' = outgoing sent s @ concat (map (messages s) (accepted k s x))"
      and q: "set (in_flight s' @ m_new s') \<subseteq> set (in_flight s @ m_new s) \<union> set (accepted k s x)"
      and f: "x = Flushed \<longrightarrow> in_flight s' @ m_new s' = []" for s'
  proof -
    note eq = ground_same [OF law(2) g]
    have ok': "channels_ok s'" using g by (simp add: ground_def)
    have known': "reachable s' rq" if "rq \<in> set (in_flight s' @ m_new s') \<union> \<Union>(set ` accepted k s' ` set xs)" for rq
      using Cons.prems(3) [of rq] that q unfolding eq by auto
    have own': "\<not> own_handler rq" if "Handled rq rp \<in> set xs" for rq rp
      using Cons.prems(2) [of rq rp] that by simp
    have IH: "wp (happen_all k xs) (\<lambda>r s''. r = Val () \<and> ground s' s'' \<and>
        outgoing sent s'' = outgoing sent s' @ concat (map (messages s) (concat (map (accepted k s) xs))) \<and>
        (xs \<noteq> [] \<and> last xs = Flushed \<longrightarrow> in_flight s'' @ m_new s'' = [])) s'"
      using Cons.IH [OF ok' own' known'] unfolding eq by simp
    show ?thesis
    proof (cases "xs = []")
      case True
      then show ?thesis using g out f by simp
    next
      case False
      then show ?thesis
        using g out by (intro wp_mono [OF IH]) (auto simp: ground_def)
    qed
  qed
  note rest = this
  have ox: "\<not> own_handler rq" if "x = Handled rq rp" for rq rp using Cons.prems(2) [of rq rp] that by simp
  have kx: "reachable s rq" if "rq \<in> set (in_flight s @ m_new s)" for rq using Cons.prems(3) [of rq] that by blast
  have "wp (happen k x) (\<lambda>r s'. r = Val () \<and> ground s s' \<and>
      outgoing sent s' = outgoing sent s @ concat (map (messages s) (accepted k s x)) \<and>
      set (in_flight s' @ m_new s') \<subseteq> set (in_flight s @ m_new s) \<union> set (accepted k s x) \<and>
      (x = Flushed \<longrightarrow> in_flight s' @ m_new s' = [])) s"
    by (rule wp_happen [OF law Cons.prems(1) ox kx])
  then show ?case unfolding happen_all.simps wp_bnd
  proof (rule wp_mono, goal_cases)
    case (1 r s')
    then have "r = Val ()" by blast
    with 1 rest [of s'] show ?case by simp
  qed
qed

text \<open>C2: Replication loses nothing, repeats nothing and keeps the order: after any sequence of handled
  requests and flushes that ends with a flush, the messages that went out are those of the accepted
  requests, in the order in which they were handled, each to every centre of its space but this one; an
  accepted request is one that succeeded, that changes the space and that does not come from another proxy;
  and nothing waits.\<close>

theorem replication_complete:
  assumes "grpc_law k sent" "fixed_centres k" "channels_ok s" and "in_flight s = []" "m_new s = []"
    and "\<And>rq rp. Handled rq rp \<in> set xs \<Longrightarrow> \<not> own_handler rq"
    and "\<And>rq. rq \<in> \<Union>(set ` accepted k s ` set xs) \<Longrightarrow> reachable s rq"
  shows "wp (happen_all k (xs @ [Flushed])) (\<lambda>r s'. r = Val () \<and> in_flight s' = [] \<and> m_new s' = [] \<and>
    sent (env s') = sent (env s) @ concat (map (messages s) (concat (map (accepted k s) xs)))) s"
proof -
  have "wp (happen_all k (xs @ [Flushed])) (\<lambda>r s'. r = Val () \<and> ground s s' \<and>
      outgoing sent s' = outgoing sent s @ concat (map (messages s) (concat (map (accepted k s) (xs @ [Flushed])))) \<and>
      (xs @ [Flushed] \<noteq> [] \<and> last (xs @ [Flushed]) = Flushed \<longrightarrow> in_flight s' @ m_new s' = [])) s"
    by (rule wp_happen_all [OF assms(1-3)]) (use assms(4-7) in auto)
  then show ?thesis
    by (rule wp_mono) (auto simp: outgoing_def assms(4,5))
qed

text \<open>The sample machine with the space \<open>s1\<close> at the centres 1 and 2.\<close>

definition linked_kernel :: "(box, (nat \<times> nat) list) kernel" where
  "linked_kernel = plain_kernel\<lparr>k_getxattr := \<lambda>p n m e.
     (if p = ''/data/s1'' then ((2, 0), [CHR 0x01, CHR 0x02]) else ((- 1, ENOENT), []), e)\<rparr>"

lemma linked_laws: "grpc_law linked_kernel bx_sent" "fixed_centres linked_kernel"
  by (simp_all add: grpc_law_def fixed_centres_def linked_kernel_def plain_kernel_def box_kernel_def)

definition unlink_a :: op_request where
  "unlink_a = new_OpRequest\<lparr>rq_filepath := ''s1/a'', rq_type := T_unlink\<rparr>"

definition write_b :: op_request where
  "write_b = new_OpRequest\<lparr>rq_filepath := ''s1/b'', rq_type := T_write, rq_data := ''xyz''\<rparr>"

definition read_b :: op_request where
  "read_b = new_OpRequest\<lparr>rq_filepath := ''s1/b'', rq_type := T_read\<rparr>"

lemma sample_accepted:
  "accepted linked_kernel sample_iop (Handled unlink_a new_OpReply) = [unlink_a\<lparr>rq_extra := [CHR 0x01, CHR 0x02]\<rparr>]"
  "accepted linked_kernel sample_iop (Handled write_b new_OpReply) =
     [write_b\<lparr>rq_data := [], rq_extra := [CHR 0x01, CHR 0x02]\<rparr>]"
  "accepted linked_kernel sample_iop (Handled read_b new_OpReply) = []"
  by (simp_all add: may_queue_def unlink_a_def write_b_def read_b_def new_OpRequest_def new_OpReply_def centres_of_def
      first_component_def linked_kernel_def sample_iop_def path_join_def cstr_def queued_as_def)

lemma replication_complete_witness:
  "wp (happen_all linked_kernel ([Handled unlink_a new_OpReply, Handled read_b new_OpReply, Handled write_b new_OpReply]
        @ [Flushed]))
     (\<lambda>r s'. r = Val () \<and> map (\<lambda>(t, rq). (t, rq_filepath rq, rq_type rq)) (bx_sent (env s')) =
        [(address peer, ''s1/a'', T_unlink), (address peer, ''s1/b'', T_rep_update_index)]) sample_iop"
proof -
  have o: "others (mcid sample_iop) [CHR 0x01, CHR 0x02] = [2]"
    by (simp add: others_def sample_iop_def char_u32_def)
  have m: "messages sample_iop (unlink_a\<lparr>rq_extra := [CHR 0x01, CHR 0x02]\<rparr>)
      = [(address peer, as_replica 1 (unlink_a\<lparr>rq_extra := [CHR 0x01, CHR 0x02]\<rparr>))]"
    "messages sample_iop (write_b\<lparr>rq_data := [], rq_extra := [CHR 0x01, CHR 0x02]\<rparr>)
      = [(address peer, as_replica 1 (write_b\<lparr>rq_data := [], rq_extra := [CHR 0x01, CHR 0x02]\<rparr>))]"
    by (simp_all add: messages_def o is_system_attr_def unlink_a_def write_b_def) (simp_all add: sample_iop_def)
  have "wp (happen_all linked_kernel ([Handled unlink_a new_OpReply, Handled read_b new_OpReply, Handled write_b new_OpReply]
        @ [Flushed])) (\<lambda>r s'. r = Val () \<and> in_flight s' = [] \<and> m_new s' = [] \<and>
      bx_sent (env s') = bx_sent (env sample_iop) @ concat (map (messages sample_iop)
        (concat (map (accepted linked_kernel sample_iop)
          [Handled unlink_a new_OpReply, Handled read_b new_OpReply, Handled write_b new_OpReply])))) sample_iop"
  proof (rule replication_complete [OF linked_laws])
    show "channels_ok sample_iop" by (auto simp: channels_ok_def sample_iop_def split: if_splits)
    show "in_flight sample_iop = []" "m_new sample_iop = []" by (simp_all add: sample_iop_def)
  next
    fix rq rp
    assume "Handled rq rp \<in> set [Handled unlink_a new_OpReply, Handled read_b new_OpReply, Handled write_b new_OpReply]"
    then show "\<not> own_handler rq" by (auto simp: own_handler_def unlink_a_def write_b_def read_b_def)
  next
    fix rq
    assume "rq \<in> \<Union>(set ` accepted linked_kernel sample_iop `
      set [Handled unlink_a new_OpReply, Handled read_b new_OpReply, Handled write_b new_OpReply])"
    then have "rq_extra rq = [CHR 0x01, CHR 0x02]" by (auto simp: sample_accepted simp del: accepted.simps)
    then show "reachable sample_iop rq" by (simp add: reachable_def o) (simp add: sample_iop_def)
  qed
  then show ?thesis
  proof (rule wp_mono, goal_cases)
    case (1 r s')
    have "bx_sent (env sample_iop) = []" by (simp add: sample_iop_def sample_box_def)
    with 1 have "bx_sent (env s') = concat (map (messages sample_iop)
        [unlink_a\<lparr>rq_extra := [CHR 0x01, CHR 0x02]\<rparr>, write_b\<lparr>rq_data := [], rq_extra := [CHR 0x01, CHR 0x02]\<rparr>])"
      by (simp add: sample_accepted del: accepted.simps)
    then have "map (\<lambda>(t, rq). (t, rq_filepath rq, rq_type rq)) (bx_sent (env s'))
        = [(address peer, ''s1/a'', T_unlink), (address peer, ''s1/b'', T_rep_update_index)]"
      by (simp add: m) (simp add: as_replica_def unlink_a_def write_b_def)
    with 1 show ?case by blast
  qed
qed

section \<open>Pages\<close>

text \<open>A peer that is told of a write drops every page the written range touches. What it drops besides
  the range itself is within the pages that the writer fetched before it wrote.\<close>

theorem dropped_pages_fetched:
  assumes "off + len + 4096 < 2 ^ 64" and "page_floor off \<le> p" "p < page_ceil (add64 off len)"
  shows "off \<le> p \<and> p < off + len \<or> (\<exists>q \<in> set (unaligned_pages off len). q \<le> p \<and> p < q + 4096)"
proof -
  have e: "add64 off len = off + len" using assms(1) by (simp add: add64_id)
  have ceil: "page_ceil (off + len) =
      (if (off + len) mod 4096 \<noteq> 0 then (off + len) div 4096 * 4096 + 4096 else off + len)"
    using assms(1) by (simp add: page_ceil_def page_floor_def add64_id minus_mod_eq_div_mult)
  have floor: "page_floor off = off div 4096 * 4096" by (simp add: page_floor_def minus_mod_eq_div_mult)
  have split: "off = off div 4096 * 4096 + off mod 4096" "off mod 4096 < 4096" by simp_all
  show ?thesis
  proof (cases "p < off")
    case True
    then have "off mod 4096 \<noteq> 0" using assms(2) split(1) unfolding floor by linarith
    moreover have "off < off div 4096 * 4096 + 4096" using split by linarith
    ultimately show ?thesis using True assms(2) floor by (auto simp: unaligned_pages_def)
  next
    case False
    show ?thesis
    proof (cases "p < off + len")
      case False
      then have "(off + len) mod 4096 \<noteq> 0" using assms(3) unfolding e ceil by (auto split: if_splits)
      moreover have "(off + len) div 4096 * 4096 \<le> off + len" by simp
      ultimately show ?thesis using False assms(3) unfolding e ceil by (auto simp: unaligned_pages_def e)
    qed (use False in simp)
  qed
qed

lemma dropped_pages_fetched_witness:
  "\<exists>q \<in> set (unaligned_pages 5000 100). q \<le> 8000 \<and> 8000 < q + 4096"
  using dropped_pages_fetched [of 5000 100 8000]
  by (simp add: page_floor_def page_ceil_def add64_def)

section \<open>What ends the process\<close>

text \<open>Identifiers of centres are bytes but read back as signed characters: a proxy of a centre past 127
  does not recognise itself in the list of centres, and the flusher ends with the process when it looks
  its own proxy up.\<close>

theorem own_centre_past_127:
  assumes "128 \<le> mcid s" "mcid s < 256" and "rq_extra rq = low_char (int (mcid s)) # cids"
    and "\<not> is_system_attr rq" and "\<And>c n. map_of (ioproxys s) c = Some n \<Longrightarrow> c < 256"
  shows "wp (deliver k rq) (\<lambda>r s'. r = Crash Null_Deref) s"
proof -
  have "char_u32 (low_char (int (mcid s))) = 2 ^ 32 - 256 + mcid s"
    using assms(1,2) by (simp add: char_u32_def low_char_def Let_def of_char_of)
  moreover from this have "map_of (ioproxys s) (2 ^ 32 - 256 + mcid s) = None"
    using assms(5) by (cases "map_of (ioproxys s) (2 ^ 32 - 256 + mcid s)") fastforce+
  moreover have "(2 ^ 32 - 256 + mcid s :: nat) \<noteq> mcid s" by simp
  ultimately show ?thesis
    using assms(3,4) by (simp add: deliver_def submit_to_def get_operator_def)
qed

lemma own_centre_past_127_witness:
  "wp (deliver plain_kernel (new_OpRequest\<lparr>rq_filepath := ''s1/a'', rq_type := T_unlink, rq_extra := [low_char 200, CHR 0x02]\<rparr>))
     (\<lambda>r s'. r = Crash Null_Deref) (sample_iop\<lparr>mcid := 200\<rparr>)"
  by (rule own_centre_past_127 [where cids = "[CHR 0x02]"])
    (auto simp: is_system_attr_def sample_iop_def split: if_splits)

text \<open>The size of a write comes with the request and is not compared with its data: a page-aligned
  write that claims more bytes than it carries reads past the end of the buffer.\<close>

theorem write_past_data:
  assumes "descriptor_law k ofds" "fdm_ok ofds s"
    and "rq_param rq = Io_Param \<lparr>par_offset = off, par_size = n\<rparr>" "off mod 4096 = 0" "n mod 4096 = 0"
    and "off + n < 2 ^ 64" and "length (rq_data rq) + 1 < n"
  shows "wp (op_write k rq rp) (\<lambda>r s'. r = Crash Out_Of_Range \<or> (\<exists>fd < 0. r = Val (rp\<lparr>rp_err_code := fd\<rparr>))) s"
proof -
  have io: "rq_io rq = \<lparr>par_offset = off, par_size = n\<rparr>" using assms(3) by (simp add: rq_io_def)
  have "add64 off n mod 4096 = 0" using assms(4-6) by (simp add: add64_id mod_add_eq [symmetric])
  then have "unaligned_pages off n = []" using assms(4) by (simp add: unaligned_pages_def)
  then have sync: "sync_unalign_page k p off n = ret 0" for p by (simp add: sync_unalign_page_def)
  let ?p = "path_join (data_dir s) (rq_filepath rq)"
  show ?thesis
    unfolding op_write_def io local_path_def io_param.select_convs Let_def wp_bnd wp_gets outcome.case
    by (rule wp_mono [OF wp_fdm_open [OF assms(1,2), of ?p O_RDWR 429]])
      (use assms(7) in \<open>auto simp: sync write_from_def\<close>)
qed

lemma write_past_data_witness:
  "wp (op_write plain_kernel (new_OpRequest\<lparr>rq_filepath := ''s1/a'', rq_type := T_write, rq_data := ''x'',
        rq_param := Io_Param \<lparr>par_offset = 0, par_size = 4096\<rparr>\<rparr>) new_OpReply)
     (\<lambda>r s'. r = Crash Out_Of_Range \<or> (\<exists>fd < 0. r = Val (new_OpReply\<lparr>rp_err_code := fd\<rparr>))) sample_iop"
  by (rule write_past_data [OF plain_law sample_fdm_ok, where off = 0 and n = 4096]) (simp_all add: new_OpRequest_def)

end
