(* ===== verification/Sync_Io.thy ===== *)
theory Sync_Io
  imports Replica_Mgr
begin

text \<open>
  The older interface of the I/O proxy: \<open>io_proxy/sync_io.cc\<close> and the second half of
  \<open>io_proxy/proxy_op.cc\<close>, on the operations of \<open>msg/op.h\<close>. A call takes the operation and answers its
  result and the operation with the members it has set.
\<close>

section \<open>Operations\<close>

datatype op_kind = GENERIC | IO_PROXY_CONTROLL | IO_PROXY_METADATA | IO_PROXY_DATA

record op =
  op_kind :: op_kind
  op_id :: nat
  open_flags :: int
  error_code :: int
  should_prepare :: bool

datatype metadata_operation =
  M_stat | M_open | M_close | M_flush | M_readdir | M_rename | M_access | M_utimes | M_chmod | M_chown

record metadata_op = op +
  mo_operation :: metadata_operation
  mo_path :: string
  mo_newpath :: string
  mo_buf :: "file_stat option"
  mo_mode :: int
  sec0n :: int
  sec0s :: int
  sec1n :: int
  sec1s :: int
  mo_uid :: int
  mo_gid :: int
  dirvector :: "string list"

datatype data_operation =
  D_read | D_write | D_truncate | D_mkdir | D_rmdir | D_create | D_unlink | D_link | D_symlink | D_readlink

text \<open>\<open>obuf\<close> is null or the memory for what is read.\<close>

record data_op = op +
  do_operation :: data_operation
  do_path :: string
  do_newpath :: string
  obuf :: "string option"
  ibuf :: string
  do_size :: nat
  do_offset :: int
  do_mode :: int
  linkbuf :: string

abbreviation (input) EFAULT :: int where "EFAULT \<equiv> 14"

text \<open>The result of a call that answers -1 for a failure.\<close>

definition neg_errno :: "int \<times> int \<Rightarrow> int" where
  "neg_errno = (\<lambda>(r, errno). if r = - 1 then - errno else r)"

section \<open>Synchronous calls\<close>

definition sopen :: "('e, 'b) kernel \<Rightarrow> string \<Rightarrow> int \<Rightarrow> int \<Rightarrow> 'o op_scheme \<Rightarrow> ('e, 'b, int \<times> 'o op_scheme) iprog" where
  "sopen k pathname flags mode op =
     bnd (sysc (k_open k pathname flags mode)) (\<lambda>(fd, errno).
     ret (fd, op\<lparr>error_code := (if fd = - 1 then - errno else 0)\<rparr>))"

definition sclose :: "int \<Rightarrow> 'o op_scheme \<Rightarrow> ('e, 'b, int \<times> 'o op_scheme) iprog" where
  "sclose fd op = ret (0, op\<lparr>error_code := 0\<rparr>)"

definition sread_fd :: "('e, 'b) kernel \<Rightarrow> int \<Rightarrow> nat \<Rightarrow> int \<Rightarrow> 'o op_scheme
    \<Rightarrow> ('e, 'b, (int \<times> string) \<times> 'o op_scheme) iprog" where
  "sread_fd k fd count offset op =
     bnd (sysc (k_pread k fd (int count) offset)) (\<lambda>((r, errno), bytes).
     ret ((r, bytes), op\<lparr>error_code := (if r = - 1 then - errno else 0)\<rparr>))"

text \<open>After a failed open the descriptor is read all the same.\<close>

definition sread :: "('e, 'b) kernel \<Rightarrow> string \<Rightarrow> nat \<Rightarrow> int \<Rightarrow> 'o op_scheme
    \<Rightarrow> ('e, 'b, (int \<times> string) \<times> 'o op_scheme) iprog" where
  "sread k path count offset op =
     bnd (fdm_open k path (open_flags op OR O_RDWR) 429) (\<lambda>fd.
     sread_fd k fd count offset (op\<lparr>error_code := (if fd < 0 then - fd else 0)\<rparr>))"

definition swrite_fd :: "('e, 'b) kernel \<Rightarrow> int \<Rightarrow> string \<Rightarrow> int \<Rightarrow> 'o op_scheme \<Rightarrow> ('e, 'b, int \<times> 'o op_scheme) iprog" where
  "swrite_fd k fd data offset op =
     bnd (sysc (k_pwrite k fd data offset)) (\<lambda>(r, errno).
     ret (r, op\<lparr>error_code := (if r = - 1 then - errno else i32 r)\<rparr>))"

text \<open>A descriptor that was closed behind the table's back is dropped and the write tried again.\<close>

primrec swrite_loop :: "('e, 'b) kernel \<Rightarrow> nat \<Rightarrow> string \<Rightarrow> string \<Rightarrow> int \<Rightarrow> 'o op_scheme
    \<Rightarrow> ('e, 'b, int \<times> 'o op_scheme) iprog" where
  "swrite_loop k 0 path data offset op = crash Blocked_Forever"
| "swrite_loop k (Suc n) path data offset op =
     bnd (fdm_open k path (open_flags op OR O_RDWR) 429) (\<lambda>fd.
     if fd < 0 then ret (fd, op\<lparr>error_code := - fd\<rparr>)
     else
       bnd (swrite_fd k fd data offset (op\<lparr>error_code := 0\<rparr>)) (\<lambda>(r, op).
       if error_code op = - EBADF then bnd (fdm_expire k path) (\<lambda>_. swrite_loop k n path data offset op)
       else ret (r, op)))"

definition swrite :: "('e, 'b) kernel \<Rightarrow> string \<Rightarrow> string \<Rightarrow> int \<Rightarrow> 'o op_scheme \<Rightarrow> ('e, 'b, int \<times> 'o op_scheme) iprog" where
  "swrite k path data offset op = swrite_loop k (loop_fuel k) path data offset op"

text \<open>A null buffer makes the call fail.\<close>

definition stat_into :: "(int \<times> int) \<times> file_stat \<Rightarrow> metadata_op \<Rightarrow> int \<times> metadata_op" where
  "stat_into = (\<lambda>((r, errno), st) op.
     case mo_buf op of
       None \<Rightarrow> (- 1, op\<lparr>error_code := (if r = - 1 then - errno else - EFAULT)\<rparr>)
     | Some _ \<Rightarrow> if r = - 1 then (- 1, op\<lparr>error_code := - errno\<rparr>) else (r, op\<lparr>error_code := 0, mo_buf := Some st\<rparr>))"

definition sstat :: "('e, 'b) kernel \<Rightarrow> string \<Rightarrow> metadata_op \<Rightarrow> ('e, 'b, int \<times> metadata_op) iprog" where
  "sstat k pathname op = bnd (sysc (k_stat k pathname)) (\<lambda>x. ret (stat_into x op))"

definition sfstat :: "('e, 'b) kernel \<Rightarrow> int \<Rightarrow> metadata_op \<Rightarrow> ('e, 'b, int \<times> metadata_op) iprog" where
  "sfstat k fd op = bnd (sysc (k_fstat k fd)) (\<lambda>x. ret (stat_into x op))"

definition sreaddir :: "('e, 'b) kernel \<Rightarrow> string \<Rightarrow> metadata_op \<Rightarrow> ('e, 'b, int \<times> metadata_op) iprog" where
  "sreaddir k path op =
     bnd (sysc (k_opendir k path)) (\<lambda>(names, errno).
     case names of
       None \<Rightarrow> ret (- errno, op\<lparr>error_code := - errno\<rparr>)
     | Some ns \<Rightarrow>
         if ns = [] then ret (- errno, op\<lparr>error_code := - errno\<rparr>)
         else ret (0, op\<lparr>error_code := 0, dirvector := dirvector op @ ns\<rparr>))"

definition struncate :: "('e, 'b) kernel \<Rightarrow> string \<Rightarrow> int \<Rightarrow> ('e, 'b, int) iprog" where
  "struncate k path len =
     bnd (fdm_expire k path) (\<lambda>_. bnd (sysc (k_truncate k path len)) (\<lambda>r. ret (neg_errno r)))"

definition srename :: "('e, 'b) kernel \<Rightarrow> string \<Rightarrow> string \<Rightarrow> ('e, 'b, int) iprog" where
  "srename k path newpath =
     bnd (fdm_expire k path) (\<lambda>_. bnd (fdm_expire k newpath) (\<lambda>_.
     bnd (sysc (k_rename k path newpath)) (\<lambda>r. ret (neg_errno r))))"

definition smkdir :: "('e, 'b) kernel \<Rightarrow> string \<Rightarrow> int \<Rightarrow> ('e, 'b, int) iprog" where
  "smkdir k path mode = bnd (sysc (k_mkdir k path mode)) (\<lambda>r. ret (neg_errno r))"

definition srmdir :: "('e, 'b) kernel \<Rightarrow> string \<Rightarrow> ('e, 'b, int) iprog" where
  "srmdir k path = bnd (sysc (k_rmdir k path)) (\<lambda>r. ret (neg_errno r))"

definition screate :: "('e, 'b) kernel \<Rightarrow> string \<Rightarrow> int \<Rightarrow> ('e, 'b, int) iprog" where
  "screate k path mode = fdm_create k path mode"

definition sunlink :: "('e, 'b) kernel \<Rightarrow> string \<Rightarrow> ('e, 'b, int) iprog" where
  "sunlink k path = fdm_remove k path"

definition slink :: "('e, 'b) kernel \<Rightarrow> string \<Rightarrow> string \<Rightarrow> ('e, 'b, int) iprog" where
  "slink k path newpath = bnd (sysc (k_link k path newpath)) (\<lambda>r. ret (neg_errno r))"

text \<open>The error is computed and then 0 returned.\<close>

definition saccess :: "('e, 'b) kernel \<Rightarrow> string \<Rightarrow> int \<Rightarrow> ('e, 'b, int) iprog" where
  "saccess k path mode = bnd (sysc (k_access k path mode)) (\<lambda>r. ret 0)"

definition sutimes :: "('e, 'b) kernel \<Rightarrow> string \<Rightarrow> int \<Rightarrow> int \<Rightarrow> int \<Rightarrow> int \<Rightarrow> ('e, 'b, int) iprog" where
  "sutimes k path s0n s0s s1n s1s =
     bnd (sysc (k_utimensat k (- 100) path ((s0s, s0n), (s1s, s1n)) 0)) (\<lambda>r. ret (neg_errno r))"

definition ssymlink :: "('e, 'b) kernel \<Rightarrow> string \<Rightarrow> string \<Rightarrow> ('e, 'b, int) iprog" where
  "ssymlink k target newlinkpath = bnd (sysc (k_symlink k target newlinkpath)) (\<lambda>r. ret (neg_errno r))"

definition sreadlink :: "('e, 'b) kernel \<Rightarrow> string \<Rightarrow> data_op \<Rightarrow> ('e, 'b, int \<times> data_op) iprog" where
  "sreadlink k path op =
     bnd (sysc (k_readlink k path (int (do_size op) - 1))) (\<lambda>(r, buf).
     ret (0, if neg_errno r \<ge> 0 then op\<lparr>linkbuf := cstr (take (nat (neg_errno r)) buf)\<rparr> else op))"

definition schmod :: "('e, 'b) kernel \<Rightarrow> string \<Rightarrow> int \<Rightarrow> ('e, 'b, int) iprog" where
  "schmod k path mode =
     bnd (fdm_expire k path) (\<lambda>_. bnd (sysc (k_chmod k path mode)) (\<lambda>r. ret (neg_errno r)))"

definition schown :: "('e, 'b) kernel \<Rightarrow> string \<Rightarrow> int \<Rightarrow> int \<Rightarrow> ('e, 'b, int) iprog" where
  "schown k path uid gid =
     bnd (fdm_expire k path) (\<lambda>_. bnd (sysc (k_chown k path uid gid)) (\<lambda>r. ret (neg_errno r)))"

section \<open>Dispatch\<close>

definition prepare_metadata :: "metadata_op \<Rightarrow> metadata_op" where
  "prepare_metadata op =
     (if should_prepare op
      then op\<lparr>mo_buf := Some \<lparr>fs_mode = 0, fs_size = 0, fs_ctime = 0, fs_mtime = 0\<rparr>\<rparr> else op)"

text \<open>The memory that \<open>malloc\<close> gives is indeterminate.\<close>

definition prepare_data :: "string \<Rightarrow> data_op \<Rightarrow> data_op" where
  "prepare_data garbage op = (if should_prepare op then op\<lparr>obuf := Some (take (do_size op) garbage)\<rparr> else op)"

definition answer :: "'o op_scheme \<Rightarrow> ('e, 'b, int) iprog \<Rightarrow> ('e, 'b, 'o op_scheme) iprog" where
  "answer op m = bnd m (\<lambda>r. ret (op\<lparr>error_code := r\<rparr>))"

definition metadata_step :: "('e, 'b) kernel \<Rightarrow> metadata_op \<Rightarrow> ('e, 'b, metadata_op) iprog" where
  "metadata_step k op =
     (case mo_operation op of
        M_stat \<Rightarrow> bnd (sstat k (mo_path op) op) (\<lambda>(_, op). ret op)
      | M_open \<Rightarrow> answer op (fdm_open k (mo_path op) (open_flags op OR O_RDWR) 420)
      | M_close \<Rightarrow> answer op (fdm_close k (mo_path op))
      | M_flush \<Rightarrow> answer op (fdm_flush k (mo_path op))
      | M_readdir \<Rightarrow> bnd (sreaddir k (mo_path op) op) (\<lambda>(_, op). ret op)
      | M_rename \<Rightarrow> answer op (srename k (mo_path op) (mo_newpath op))
      | M_access \<Rightarrow> answer op (saccess k (mo_path op) (mo_mode op))
      | M_utimes \<Rightarrow> answer op (sutimes k (mo_path op) (sec0n op) (sec0s op) (sec1n op) (sec1s op))
      | M_chmod \<Rightarrow> answer op (schmod k (mo_path op) (mo_mode op mod 2 ^ 32))
      | M_chown \<Rightarrow> answer op (schown k (mo_path op) (mo_uid op) (mo_gid op)))"

definition ioproxy_do_metadata_op :: "('e, 'b) kernel \<Rightarrow> metadata_op \<Rightarrow> ('e, 'b, int \<times> metadata_op) iprog" where
  "ioproxy_do_metadata_op k op = bnd (metadata_step k op) (\<lambda>op. ret (error_code op, op))"

text \<open>A read without memory fails in the kernel; a write past the end of its buffer has no meaning.\<close>

definition data_step :: "('e, 'b) kernel \<Rightarrow> data_op \<Rightarrow> ('e, 'b, data_op) iprog" where
  "data_step k op =
     (let path = cstr (do_path op); newpath = cstr (do_newpath op) in
      case do_operation op of
        D_read \<Rightarrow>
          (case obuf op of
             None \<Rightarrow> bnd (fdm_open k path (open_flags op OR O_RDWR) 429) (\<lambda>fd.
               ret (op\<lparr>do_size := u64 (- 1), error_code := (if fd < 0 then - EBADF else - EFAULT)\<rparr>))
           | Some b \<Rightarrow> bnd (sread k path (do_size op) (do_offset op) op) (\<lambda>((r, bytes), op).
               ret (op\<lparr>do_size := u64 r, obuf := Some (bytes @ drop (length bytes) b)\<rparr>)))
      | D_write \<Rightarrow>
          if do_size op > length (ibuf op) then crash Out_Of_Range
          else bnd (swrite k path (take (do_size op) (ibuf op)) (do_offset op) op) (\<lambda>(_, op). ret op)
      | D_truncate \<Rightarrow> answer op (struncate k path (do_offset op))
      | D_mkdir \<Rightarrow> answer op (smkdir k path (do_mode op))
      | D_rmdir \<Rightarrow> answer op (srmdir k path)
      | D_create \<Rightarrow> answer op (screate k path (do_mode op))
      | D_unlink \<Rightarrow> answer op (sunlink k path)
      | D_link \<Rightarrow> answer op (slink k path newpath)
      | D_symlink \<Rightarrow> answer op (ssymlink k path newpath)
      | D_readlink \<Rightarrow> bnd (sreadlink k path op) (\<lambda>(r, op). ret (op\<lparr>error_code := r\<rparr>)))"

definition ioproxy_do_data_op :: "('e, 'b) kernel \<Rightarrow> data_op \<Rightarrow> ('e, 'b, int \<times> data_op) iprog" where
  "ioproxy_do_data_op k op = bnd (data_step k op) (\<lambda>op. ret (error_code op, op))"

end
