(* ===== verification/Io_Worker.thy ===== *)
theory Io_Worker
  imports Prelude
begin

text \<open>
  A worker of the I/O proxy: the state machine of \<open>io_proxy/io_worker.cc\<close>, fed by the completion queue that
  \<open>io_proxy/grpc_impl.cc\<close> polls. Three threads take part, the scheduler that runs the machine, the poller
  and gRPC itself, and every interleaving of their steps is a run of the relation below. The theorems say
  that no event is lost, that every call is answered once, and that a worker can always take the next call.
\<close>

section \<open>The machine\<close>

datatype wstate = Waiting | Processing | Finished

datatype status = WAITING | PROCESSING | FINISHED

datatype wevent = OpQueued | OpComplete | OpFinished

text \<open>What the constructor of a state does, one statement at a time.\<close>

datatype action = Set_Status status | Request_Submit | Do_Op | Finish

fun entry_of :: "wstate \<Rightarrow> action list" where
  "entry_of Waiting = [Set_Status WAITING, Request_Submit]"
| "entry_of Processing = [Set_Status PROCESSING, Do_Op]"
| "entry_of Finished = [Set_Status FINISHED, Finish]"

text \<open>The reactions; an event without one is discarded.\<close>

fun react :: "wstate \<Rightarrow> wevent \<Rightarrow> wstate option" where
  "react Waiting OpQueued = Some Processing"
| "react Processing OpComplete = Some Finished"
| "react Finished OpFinished = Some Waiting"
| "react _ _ = None"

text \<open>
  A worker: its state and status, the statements of a constructor still to run, the events the scheduler
  has queued for it; how often its tag waits in gRPC for a call, for a reply to be sent, and in the
  completion queue; and the numbers of calls and of replies.
\<close>

record worker =
  w_state :: wstate
  w_status :: status
  todo :: "action list"
  inbox :: "wevent list"
  awaiting_call :: nat
  awaiting_send :: nat
  completed :: nat
  calls_taken :: nat
  replies :: nat

text \<open>A new worker enters \<open>Waiting\<close>; its status is whatever the memory held.\<close>

definition initiate :: "status \<Rightarrow> worker" where
  "initiate st = \<lparr>w_state = Waiting, w_status = st, todo = entry_of Waiting, inbox = [], awaiting_call = 0,
     awaiting_send = 0, completed = 0, calls_taken = 0, replies = 0\<rparr>"

fun perform :: "action \<Rightarrow> worker \<Rightarrow> worker" where
  "perform (Set_Status st) w = w\<lparr>w_status := st\<rparr>"
| "perform Request_Submit w = w\<lparr>awaiting_call := Suc (awaiting_call w)\<rparr>"
| "perform Do_Op w = w\<lparr>inbox := inbox w @ [OpComplete]\<rparr>"
| "perform Finish w = w\<lparr>awaiting_send := Suc (awaiting_send w), replies := Suc (replies w)\<rparr>"

text \<open>What the poller queues for a tag, by the status it reads.\<close>

fun poll_event :: "status \<Rightarrow> wevent list" where
  "poll_event WAITING = [OpQueued]"
| "poll_event FINISHED = [OpFinished]"
| "poll_event PROCESSING = []"

definition dispatch :: "wevent \<Rightarrow> worker \<Rightarrow> worker" where
  "dispatch ev w =
     (case react (w_state w) ev of
        None \<Rightarrow> w
      | Some st \<Rightarrow> w\<lparr>w_state := st, todo := entry_of st\<rparr>)"

text \<open>
  The steps. The scheduler runs the statements of a constructor and, when there are none left, the next
  event; gRPC completes a wait for a call or for a reply; the poller takes a tag.
\<close>

inductive wstep :: "worker \<Rightarrow> worker \<Rightarrow> bool" where
  run: "todo w = a # as \<Longrightarrow> wstep w (perform a (w\<lparr>todo := as\<rparr>))"
| event: "todo w = [] \<Longrightarrow> inbox w = ev # evs \<Longrightarrow> wstep w (dispatch ev (w\<lparr>inbox := evs\<rparr>))"
| call: "awaiting_call w = Suc n \<Longrightarrow>
    wstep w (w\<lparr>awaiting_call := n, completed := Suc (completed w), calls_taken := Suc (calls_taken w)\<rparr>)"
| sent: "awaiting_send w = Suc n \<Longrightarrow> wstep w (w\<lparr>awaiting_send := n, completed := Suc (completed w)\<rparr>)"
| poll: "completed w = Suc n \<Longrightarrow> wstep w (w\<lparr>completed := n, inbox := inbox w @ poll_event (w_status w)\<rparr>)"

inductive reachable_worker :: "worker \<Rightarrow> bool" where
  init: "reachable_worker (initiate st)"
| step: "reachable_worker w \<Longrightarrow> wstep w w' \<Longrightarrow> reachable_worker w'"

inductive_cases wstepE: "wstep w w'"

section \<open>The invariant\<close>

text \<open>At any time exactly one thing is under way for a worker.\<close>

definition tokens :: "worker \<Rightarrow> nat" where
  "tokens w = length (inbox w) + awaiting_call w + awaiting_send w + completed w"

fun status_of :: "wstate \<Rightarrow> status" where
  "status_of Waiting = WAITING" | "status_of Processing = PROCESSING" | "status_of Finished = FINISHED"

fun awaited :: "wstate \<Rightarrow> wevent" where
  "awaited Waiting = OpQueued" | "awaited Processing = OpComplete" | "awaited Finished = OpFinished"

text \<open>The replies lag behind the calls while a call is at work.\<close>

definition in_work :: "worker \<Rightarrow> nat" where
  "in_work w =
     (if w_state w = Processing \<or> w_state w = Finished \<and> Finish \<in> set (todo w) then 1
      else if w_state w = Waiting \<and> todo w = [] \<and> awaiting_call w = 0 then 1 else 0)"

definition worker_ok :: "worker \<Rightarrow> bool" where
  "worker_ok w \<longleftrightarrow>
     (if todo w = [] then
        tokens w = 1 \<and> w_status w = status_of (w_state w) \<and> set (inbox w) \<subseteq> {awaited (w_state w)} \<and>
        (awaiting_call w > 0 \<longrightarrow> w_state w = Waiting) \<and> (awaiting_send w > 0 \<longrightarrow> w_state w = Finished) \<and>
        (completed w > 0 \<longrightarrow> w_state w \<noteq> Processing)
      else tokens w = 0 \<and> (todo w = entry_of (w_state w) \<or>
        todo w = tl (entry_of (w_state w)) \<and> w_status w = status_of (w_state w))) \<and>
     calls_taken w = replies w + in_work w"

lemma initiate_ok: "worker_ok (initiate st)"
  by (simp add: worker_ok_def initiate_def tokens_def in_work_def)

lemma worker_ok_idle:
  "todo w = [] \<Longrightarrow> worker_ok w \<longleftrightarrow>
     tokens w = 1 \<and> w_status w = status_of (w_state w) \<and> set (inbox w) \<subseteq> {awaited (w_state w)} \<and>
     (awaiting_call w > 0 \<longrightarrow> w_state w = Waiting) \<and> (awaiting_send w > 0 \<longrightarrow> w_state w = Finished) \<and>
     (completed w > 0 \<longrightarrow> w_state w \<noteq> Processing) \<and> calls_taken w = replies w + in_work w"
  by (simp add: worker_ok_def)

lemma worker_ok_busy:
  "todo w = a # as \<Longrightarrow> worker_ok w \<longleftrightarrow>
     tokens w = 0 \<and> calls_taken w = replies w + in_work w \<and> (todo w = entry_of (w_state w) \<or>
        todo w = tl (entry_of (w_state w)) \<and> w_status w = status_of (w_state w))"
  by (auto simp: worker_ok_def)

lemma todo_step:
  assumes "todo w = a # as" "worker_ok w"
  shows "worker_ok (perform a (w\<lparr>todo := as\<rparr>))"
proof -
  have h: "tokens w = 0" "calls_taken w = replies w + in_work w"
    "a # as = entry_of (w_state w) \<or> a # as = tl (entry_of (w_state w)) \<and> w_status w = status_of (w_state w)"
    using assms by (simp_all add: worker_ok_busy)
  show ?thesis
  proof (cases "w_state w")
    case Waiting
    then show ?thesis using h assms(1) by (elim disjE) (simp_all add: worker_ok_def tokens_def in_work_def)
  next
    case Processing
    then show ?thesis using h assms(1) by (elim disjE) (simp_all add: worker_ok_def tokens_def in_work_def)
  next
    case Finished
    then show ?thesis using h assms(1) by (elim disjE) (simp_all add: worker_ok_def tokens_def in_work_def)
  qed
qed

lemma event_step:
  assumes "todo w = []" "inbox w = ev # evs" "worker_ok w"
  shows "worker_ok (dispatch ev (w\<lparr>inbox := evs\<rparr>))"
proof -
  have h: "evs = []" "awaiting_call w = 0" "awaiting_send w = 0" "completed w = 0" "ev = awaited (w_state w)"
    "calls_taken w = replies w + in_work w"
    using assms by (simp_all add: worker_ok_idle tokens_def)
  then show ?thesis using assms(1)
    by (cases "w_state w") (simp_all add: worker_ok_def tokens_def in_work_def dispatch_def)
qed

lemma idle_step:
  assumes "todo w = []" "worker_ok w"
  shows "awaiting_call w = Suc n \<Longrightarrow>
      worker_ok (w\<lparr>awaiting_call := n, completed := Suc (completed w), calls_taken := Suc (calls_taken w)\<rparr>)"
    and "awaiting_send w = Suc n \<Longrightarrow> worker_ok (w\<lparr>awaiting_send := n, completed := Suc (completed w)\<rparr>)"
    and "completed w = Suc n \<Longrightarrow> worker_ok (w\<lparr>completed := n, inbox := inbox w @ poll_event (w_status w)\<rparr>)"
  using assms by (cases "w_state w"; simp add: worker_ok_idle tokens_def in_work_def)+

lemma step_ok:
  assumes "worker_ok w" "wstep w w'"
  shows "worker_ok w'"
proof -
  have idle: "todo w = []" if "tokens w > 0"
    using assms(1) that by (cases "todo w") (simp_all add: worker_ok_busy)
  from assms(2) show ?thesis
  proof cases
    case run
    then show ?thesis using assms(1) by (simp add: todo_step)
  next
    case event
    then show ?thesis using assms(1) by (simp add: event_step)
  next
    case call
    then show ?thesis using assms(1) idle by (simp add: idle_step(1) tokens_def)
  next
    case sent
    then show ?thesis using assms(1) idle by (simp add: idle_step(2) tokens_def)
  next
    case poll
    then show ?thesis using assms(1) idle by (simp add: idle_step(3) tokens_def)
  qed
qed

lemma reachable_ok: "reachable_worker w \<Longrightarrow> worker_ok w"
  by (induction rule: reachable_worker.induct) (auto intro: initiate_ok step_ok)

text \<open>C13: In every interleaving of the scheduler, the poller and gRPC exactly one thing is under way for a
  worker, every event finds the state that reacts to it, so that none is discarded, and every call but the
  one at work has been answered exactly once.\<close>

theorem worker_loses_nothing:
  assumes "reachable_worker w"
  shows "tokens w + (if todo w = [] then 0 else 1) = 1 \<and> (\<forall>ev \<in> set (inbox w). react (w_state w) ev \<noteq> None) \<and>
    (completed w > 0 \<longrightarrow> (\<exists>ev. poll_event (w_status w) = [ev] \<and> react (w_state w) ev \<noteq> None)) \<and>
    replies w \<le> calls_taken w \<and> calls_taken w \<le> Suc (replies w)"
proof -
  have ok: "worker_ok w" by (rule reachable_ok [OF assms])
  show ?thesis
  proof (cases "todo w")
    case Nil
    with ok show ?thesis
      by (cases "w_state w") (auto simp: worker_ok_idle in_work_def tokens_def)
  next
    case (Cons a as)
    with ok have "tokens w = 0" "calls_taken w = replies w + in_work w" by (simp_all add: worker_ok_busy)
    then show ?thesis using Cons by (simp add: tokens_def in_work_def)
  qed
qed

theorem worker_loses_nothing_witness:
  "(let w = perform Request_Submit (perform (Set_Status WAITING) (initiate PROCESSING)\<lparr>todo := []\<rparr>) in
      tokens w + (if todo w = [] then 0 else 1) = 1)"
proof -
  define w0 where "w0 = initiate PROCESSING"
  define w1 where "w1 = perform (Set_Status WAITING) (w0\<lparr>todo := [Request_Submit]\<rparr>)"
  define w2 where "w2 = perform Request_Submit (w1\<lparr>todo := []\<rparr>)"
  have "wstep w0 w1" unfolding w1_def by (rule run) (simp add: w0_def initiate_def)
  moreover have "wstep w1 w2" unfolding w2_def by (rule run) (simp add: w1_def)
  ultimately have "reachable_worker w2"
    using init [of PROCESSING] by (metis reachable_worker.step w0_def)
  from worker_loses_nothing [OF this] show ?thesis
    by (simp add: w2_def w1_def w0_def Let_def initiate_def tokens_def)
qed

section \<open>Progress\<close>

text \<open>How many steps a worker is away from waiting for a call.\<close>

definition distance :: "worker \<Rightarrow> nat" where
  "distance w =
     (case w_state w of
        Waiting \<Rightarrow> if todo w \<noteq> [] then length (todo w) else if awaiting_call w > 0 then 0
                   else if inbox w \<noteq> [] then 11 else 12
      | Processing \<Rightarrow> length (todo w) + 8
      | Finished \<Rightarrow> if todo w \<noteq> [] then length (todo w) + 5 else if awaiting_send w > 0 then 5
                    else if inbox w \<noteq> [] then 3 else 4)"

lemma distance_bound: "worker_ok w \<Longrightarrow> distance w \<le> 12"
  by (cases "todo w"; cases "w_state w") (auto simp: distance_def worker_ok_busy)

lemma distance_zero:
  "worker_ok w \<Longrightarrow> distance w = 0 \<Longrightarrow> w_state w = Waiting \<and> todo w = [] \<and> awaiting_call w = 1"
  by (cases "w_state w") (auto simp: distance_def worker_ok_idle tokens_def split: if_splits)

lemma distance_step:
  assumes "worker_ok w" "wstep w w'" "distance w = Suc n"
  shows "distance w' = n"
  using assms(2)
proof cases
  case (run a as)
  then show ?thesis using assms(1,3)
    by (cases "w_state w") (auto simp: worker_ok_busy distance_def tokens_def)
next
  case (event ev evs)
  then have "evs = []" "awaiting_call w = 0" "awaiting_send w = 0" "completed w = 0" "ev = awaited (w_state w)"
    using assms(1) by (simp_all add: worker_ok_idle tokens_def)
  then show ?thesis using event assms(3)
    by (cases "w_state w") (simp_all add: distance_def dispatch_def)
next
  case (call m)
  then show ?thesis using assms(1,3)
    by (cases "todo w"; cases "w_state w") (simp_all add: worker_ok_idle worker_ok_busy distance_def tokens_def)
next
  case (sent m)
  then show ?thesis using assms(1,3)
    by (cases "todo w"; cases "w_state w") (simp_all add: worker_ok_idle worker_ok_busy distance_def tokens_def)
next
  case (poll m)
  then show ?thesis using assms(1,3)
    by (cases "todo w"; cases "w_state w") (simp_all add: worker_ok_idle worker_ok_busy distance_def tokens_def)
qed

lemma can_step:
  assumes "worker_ok w"
  shows "\<exists>w'. wstep w w'"
proof (cases "todo w")
  case Nil
  with assms have "tokens w = 1" by (simp add: worker_ok_idle)
  then have "inbox w \<noteq> [] \<or> awaiting_call w = 1 \<or> awaiting_send w = 1 \<or> completed w = 1"
    by (auto simp: tokens_def)
  then show ?thesis
  proof (elim disjE)
    assume "inbox w \<noteq> []"
    then obtain ev evs where "inbox w = ev # evs" by (cases "inbox w") auto
    then show ?thesis using Nil event by blast
  qed (metis One_nat_def call sent poll)+
next
  case Cons
  then show ?thesis using run by blast
qed

lemma progress:
  "worker_ok w \<Longrightarrow> distance w = n \<Longrightarrow> (\<exists>w'. (wstep ^^ n) w w') \<and>
     (\<forall>w'. (wstep ^^ n) w w' \<longrightarrow> w_state w' = Waiting \<and> todo w' = [] \<and> awaiting_call w' = 1)"
proof (induction n arbitrary: w)
  case 0
  then show ?case by (auto simp: distance_zero)
next
  case (Suc n)
  then obtain v where v: "wstep w v" using can_step by blast
  have next_ok: "worker_ok u \<and> distance u = n" if "wstep w u" for u
    using Suc.prems that step_ok distance_step by blast
  from v next_ok Suc.IH have "\<exists>w'. (wstep ^^ n) v w'" by blast
  with v have "\<exists>w'. (wstep ^^ Suc n) w w'" by (meson relpowp_Suc_I2)
  moreover have "w_state w' = Waiting \<and> todo w' = [] \<and> awaiting_call w' = 1" if "(wstep ^^ Suc n) w w'" for w'
  proof -
    from that obtain u where "wstep w u" "(wstep ^^ n) u w'" by (meson relpowp_Suc_D2)
    then show ?thesis using Suc.IH next_ok by blast
  qed
  ultimately show ?case by blast
qed

text \<open>C24: A worker never gets stuck: from every state that it can reach, every run of the threads brings it
  back, after at most twelve steps, to waiting for the next call, and there is such a run.\<close>

theorem worker_returns:
  assumes "reachable_worker w"
  shows "\<exists>n \<le> 12. (\<exists>w'. (wstep ^^ n) w w') \<and>
    (\<forall>w'. (wstep ^^ n) w w' \<longrightarrow> w_state w' = Waiting \<and> todo w' = [] \<and> awaiting_call w' = 1)"
proof -
  have ok: "worker_ok w" by (rule reachable_ok [OF assms])
  show ?thesis using progress [OF ok refl] distance_bound [OF ok] by blast
qed

theorem worker_returns_witness:
  "\<exists>n \<le> 12. (\<exists>w'. (wstep ^^ n) (initiate FINISHED) w') \<and>
    (\<forall>w'. (wstep ^^ n) (initiate FINISHED) w' \<longrightarrow> w_state w' = Waiting \<and> todo w' = [] \<and> awaiting_call w' = 1)"
  by (rule worker_returns [OF init])

end
