(* ===== verification/Client_Structs.thy ===== *)
theory Client_Structs
  imports Structs
begin

text \<open>
  The structs that only the client uses: \<open>client/clientuser/ClientAuth_struct.h\<close> and the requests of the
  command line programs, \<open>client/ipc_struct.h\<close>. They follow the pattern of Structs.
\<close>

section \<open>Rights\<close>

text \<open>The rights of an account in its zones, by the identifier of the zone.\<close>

record auth_search =
  as_gvdsID :: string
  as_vec_ZoneID :: "string list"
  as_read :: "(string \<times> string) list"
  as_write :: "(string \<times> string) list"
  as_exe :: "(string \<times> string) list"
  as_isowner :: "(string \<times> string) list"
  as_ownergroupR :: "(string \<times> string) list"
  as_ownergroupW :: "(string \<times> string) list"
  as_ownergroupE :: "(string \<times> string) list"
  as_zoneName :: "(string \<times> string) list"

definition ser_AuthSearch :: "auth_search \<Rightarrow> members" where
  "ser_AuthSearch x =
     [(''gvdsID'', enc_str (as_gvdsID x)),
      (''vec_ZoneID'', enc_vec enc_str (as_vec_ZoneID x)),
      (''read'', enc_map enc_str (as_read x)),
      (''write'', enc_map enc_str (as_write x)),
      (''exe'', enc_map enc_str (as_exe x)),
      (''isowner'', enc_map enc_str (as_isowner x)),
      (''ownergroupR'', enc_map enc_str (as_ownergroupR x)),
      (''ownergroupW'', enc_map enc_str (as_ownergroupW x)),
      (''ownergroupE'', enc_map enc_str (as_ownergroupE x)),
      (''zoneName'', enc_map enc_str (as_zoneName x))]"

definition des_AuthSearch :: "members \<Rightarrow> auth_search \<Rightarrow> auth_search" where
  "des_AuthSearch ms x = x\<lparr>
     as_gvdsID := get_member ms ''gvdsID'' dec_str (as_gvdsID x),
     as_vec_ZoneID := get_member ms ''vec_ZoneID'' (dec_vec dec_str []) (as_vec_ZoneID x),
     as_read := get_member ms ''read'' (dec_map dec_str []) (as_read x),
     as_write := get_member ms ''write'' (dec_map dec_str []) (as_write x),
     as_exe := get_member ms ''exe'' (dec_map dec_str []) (as_exe x),
     as_isowner := get_member ms ''isowner'' (dec_map dec_str []) (as_isowner x),
     as_ownergroupR := get_member ms ''ownergroupR'' (dec_map dec_str []) (as_ownergroupR x),
     as_ownergroupW := get_member ms ''ownergroupW'' (dec_map dec_str []) (as_ownergroupW x),
     as_ownergroupE := get_member ms ''ownergroupE'' (dec_map dec_str []) (as_ownergroupE x),
     as_zoneName := get_member ms ''zoneName'' (dec_map dec_str []) (as_zoneName x)\<rparr>"

definition wf_AuthSearch :: "auth_search \<Rightarrow> bool" where
  "wf_AuthSearch x \<longleftrightarrow>
     nul_free (as_gvdsID x) \<and>
     list_all nul_free (as_vec_ZoneID x) \<and>
     str_map_ok (as_read x) \<and>
     str_map_ok (as_write x) \<and>
     str_map_ok (as_exe x) \<and>
     str_map_ok (as_isowner x) \<and>
     str_map_ok (as_ownergroupR x) \<and>
     str_map_ok (as_ownergroupW x) \<and>
     str_map_ok (as_ownergroupE x) \<and>
     str_map_ok (as_zoneName x)"

interpretation AuthSearch_json: json_total ser_AuthSearch des_AuthSearch wf_AuthSearch
  by unfold_locales
    (auto simp: ser_AuthSearch_def des_AuthSearch_def wf_AuthSearch_def get_member_def intro!: auth_search.equality)

definition new_AuthSearch :: auth_search where
  "new_AuthSearch = \<lparr>as_gvdsID = [], as_vec_ZoneID = [], as_read = [], as_write = [], as_exe = [], as_isowner = [],
     as_ownergroupR = [], as_ownergroupW = [], as_ownergroupE = [], as_zoneName = []\<rparr>"

text \<open>A change of the rights of the members of a zone.\<close>

record fe_auth_modify =
  fam_gvdsID :: string
  fam_zonename :: string
  fam_modify_groupauth :: string

definition ser_FEAuthModifygroupinfo :: "fe_auth_modify \<Rightarrow> members" where
  "ser_FEAuthModifygroupinfo x =
     [(''gvdsID'', enc_str (fam_gvdsID x)),
      (''zonename'', enc_str (fam_zonename x)),
      (''modify_groupauth'', enc_str (fam_modify_groupauth x))]"

definition des_FEAuthModifygroupinfo :: "members \<Rightarrow> fe_auth_modify \<Rightarrow> fe_auth_modify" where
  "des_FEAuthModifygroupinfo ms x = x\<lparr>
     fam_gvdsID := get_member ms ''gvdsID'' dec_str (fam_gvdsID x),
     fam_zonename := get_member ms ''zonename'' dec_str (fam_zonename x),
     fam_modify_groupauth := get_member ms ''modify_groupauth'' dec_str (fam_modify_groupauth x)\<rparr>"

definition wf_FEAuthModifygroupinfo :: "fe_auth_modify \<Rightarrow> bool" where
  "wf_FEAuthModifygroupinfo x \<longleftrightarrow>
     nul_free (fam_gvdsID x) \<and>
     nul_free (fam_zonename x) \<and>
     nul_free (fam_modify_groupauth x)"

interpretation FEAuthModifygroupinfo_json: json_total ser_FEAuthModifygroupinfo des_FEAuthModifygroupinfo wf_FEAuthModifygroupinfo
  by unfold_locales
    (auto simp: ser_FEAuthModifygroupinfo_def des_FEAuthModifygroupinfo_def wf_FEAuthModifygroupinfo_def get_member_def intro!: fe_auth_modify.equality)

section \<open>Commands\<close>

text \<open>What a command line program asks of the client.\<close>

record ipc_req =
  ipc_cmdname :: string
  ipc_ip :: string
  ipc_port :: int
  ipc_zonename :: string
  ipc_newzonename :: string
  ipc_ownName :: string
  ipc_memName :: "string list"
  ipc_newspacename :: string
  ipc_spacename :: string
  ipc_spacenames :: "string list"
  ipc_newspacesize :: int
  ipc_spacesize :: int
  ipc_spaceurl :: string
  ipc_accountName :: string
  ipc_Password :: string
  ipc_gvdsID :: string
  ipc_email :: string
  ipc_phone :: string
  ipc_address :: string
  ipc_department :: string
  ipc_changeauth :: string
  ipc_centerID :: string
  ipc_centerIP :: string
  ipc_centerPort :: string
  ipc_centerName :: string
  ipc_sug :: string
  ipc_applyid :: string
  ipc_storage_src_id :: string
  ipc_storage_src_name :: string
  ipc_host_center_id :: string
  ipc_host_center_name :: string
  ipc_total_capacity :: int
  ipc_assign_capacity :: int
  ipc_mgs_address :: string
  ipc_state :: int

definition ser_IPCreq :: "ipc_req \<Rightarrow> members" where
  "ser_IPCreq x =
     [(''cmdname'', enc_str (ipc_cmdname x)),
      (''ip'', enc_str (ipc_ip x)),
      (''port'', enc_int (ipc_port x)),
      (''zonename'', enc_str (ipc_zonename x)),
      (''newzonename'', enc_str (ipc_newzonename x)),
      (''ownName'', enc_str (ipc_ownName x)),
      (''memName'', enc_vec enc_str (ipc_memName x)),
      (''newspacename'', enc_str (ipc_newspacename x)),
      (''spacename'', enc_str (ipc_spacename x)),
      (''spacenames'', enc_vec enc_str (ipc_spacenames x)),
      (''newspacesize'', enc_int (ipc_newspacesize x)),
      (''spacesize'', enc_int (ipc_spacesize x)),
      (''spaceurl'', enc_str (ipc_spaceurl x)),
      (''accountName'', enc_str (ipc_accountName x)),
      (''Password'', enc_str (ipc_Password x)),
      (''gvdsID'', enc_str (ipc_gvdsID x)),
      (''email'', enc_str (ipc_email x)),
      (''phone'', enc_str (ipc_phone x)),
      (''address'', enc_str (ipc_address x)),
      (''department'', enc_str (ipc_department x)),
      (''changeauth'', enc_str (ipc_changeauth x)),
      (''centerID'', enc_str (ipc_centerID x)),
      (''centerIP'', enc_str (ipc_centerIP x)),
      (''centerPort'', enc_str (ipc_centerPort x)),
      (''centerName'', enc_str (ipc_centerName x)),
      (''sug'', enc_str (ipc_sug x)),
      (''applyid'', enc_str (ipc_applyid x)),
      (''storage_src_id'', enc_str (ipc_storage_src_id x)),
      (''storage_src_name'', enc_str (ipc_storage_src_name x)),
      (''host_center_id'', enc_str (ipc_host_center_id x)),
      (''host_center_name'', enc_str (ipc_host_center_name x)),
      (''total_capacity'', enc_int (ipc_total_capacity x)),
      (''assign_capacity'', enc_int (ipc_assign_capacity x)),
      (''mgs_address'', enc_str (ipc_mgs_address x)),
      (''state'', enc_int (ipc_state x))]"

definition des_IPCreq :: "members \<Rightarrow> ipc_req \<Rightarrow> ipc_req" where
  "des_IPCreq ms x = x\<lparr>
     ipc_cmdname := get_member ms ''cmdname'' dec_str (ipc_cmdname x),
     ipc_ip := get_member ms ''ip'' dec_str (ipc_ip x),
     ipc_port := get_member ms ''port'' dec_int (ipc_port x),
     ipc_zonename := get_member ms ''zonename'' dec_str (ipc_zonename x),
     ipc_newzonename := get_member ms ''newzonename'' dec_str (ipc_newzonename x),
     ipc_ownName := get_member ms ''ownName'' dec_str (ipc_ownName x),
     ipc_memName := get_member ms ''memName'' (dec_vec dec_str []) (ipc_memName x),
     ipc_newspacename := get_member ms ''newspacename'' dec_str (ipc_newspacename x),
     ipc_spacename := get_member ms ''spacename'' dec_str (ipc_spacename x),
     ipc_spacenames := get_member ms ''spacenames'' (dec_vec dec_str []) (ipc_spacenames x),
     ipc_newspacesize := get_member ms ''newspacesize'' dec_i64 (ipc_newspacesize x),
     ipc_spacesize := get_member ms ''spacesize'' dec_i64 (ipc_spacesize x),
     ipc_spaceurl := get_member ms ''spaceurl'' dec_str (ipc_spaceurl x),
     ipc_accountName := get_member ms ''accountName'' dec_str (ipc_accountName x),
     ipc_Password := get_member ms ''Password'' dec_str (ipc_Password x),
     ipc_gvdsID := get_member ms ''gvdsID'' dec_str (ipc_gvdsID x),
     ipc_email := get_member ms ''email'' dec_str (ipc_email x),
     ipc_phone := get_member ms ''phone'' dec_str (ipc_phone x),
     ipc_address := get_member ms ''address'' dec_str (ipc_address x),
     ipc_department := get_member ms ''department'' dec_str (ipc_department x),
     ipc_changeauth := get_member ms ''changeauth'' dec_str (ipc_changeauth x),
     ipc_centerID := get_member ms ''centerID'' dec_str (ipc_centerID x),
     ipc_centerIP := get_member ms ''centerIP'' dec_str (ipc_centerIP x),
     ipc_centerPort := get_member ms ''centerPort'' dec_str (ipc_centerPort x),
     ipc_centerName := get_member ms ''centerName'' dec_str (ipc_centerName x),
     ipc_sug := get_member ms ''sug'' dec_str (ipc_sug x),
     ipc_applyid := get_member ms ''applyid'' dec_str (ipc_applyid x),
     ipc_storage_src_id := get_member ms ''storage_src_id'' dec_str (ipc_storage_src_id x),
     ipc_storage_src_name := get_member ms ''storage_src_name'' dec_str (ipc_storage_src_name x),
     ipc_host_center_id := get_member ms ''host_center_id'' dec_str (ipc_host_center_id x),
     ipc_host_center_name := get_member ms ''host_center_name'' dec_str (ipc_host_center_name x),
     ipc_total_capacity := get_member ms ''total_capacity'' dec_i64 (ipc_total_capacity x),
     ipc_assign_capacity := get_member ms ''assign_capacity'' dec_i64 (ipc_assign_capacity x),
     ipc_mgs_address := get_member ms ''mgs_address'' dec_str (ipc_mgs_address x),
     ipc_state := get_member ms ''state'' dec_int (ipc_state x)\<rparr>"

definition wf_IPCreq :: "ipc_req \<Rightarrow> bool" where
  "wf_IPCreq x \<longleftrightarrow>
     nul_free (ipc_cmdname x) \<and>
     nul_free (ipc_ip x) \<and>
     in_i32 (ipc_port x) \<and>
     nul_free (ipc_zonename x) \<and>
     nul_free (ipc_newzonename x) \<and>
     nul_free (ipc_ownName x) \<and>
     list_all nul_free (ipc_memName x) \<and>
     nul_free (ipc_newspacename x) \<and>
     nul_free (ipc_spacename x) \<and>
     list_all nul_free (ipc_spacenames x) \<and>
     in_i64 (ipc_newspacesize x) \<and>
     in_i64 (ipc_spacesize x) \<and>
     nul_free (ipc_spaceurl x) \<and>
     nul_free (ipc_accountName x) \<and>
     nul_free (ipc_Password x) \<and>
     nul_free (ipc_gvdsID x) \<and>
     nul_free (ipc_email x) \<and>
     nul_free (ipc_phone x) \<and>
     nul_free (ipc_address x) \<and>
     nul_free (ipc_department x) \<and>
     nul_free (ipc_changeauth x) \<and>
     nul_free (ipc_centerID x) \<and>
     nul_free (ipc_centerIP x) \<and>
     nul_free (ipc_centerPort x) \<and>
     nul_free (ipc_centerName x) \<and>
     nul_free (ipc_sug x) \<and>
     nul_free (ipc_applyid x) \<and>
     nul_free (ipc_storage_src_id x) \<and>
     nul_free (ipc_storage_src_name x) \<and>
     nul_free (ipc_host_center_id x) \<and>
     nul_free (ipc_host_center_name x) \<and>
     in_i64 (ipc_total_capacity x) \<and>
     in_i64 (ipc_assign_capacity x) \<and>
     nul_free (ipc_mgs_address x) \<and>
     in_i32 (ipc_state x)"

interpretation IPCreq_json: json_total ser_IPCreq des_IPCreq wf_IPCreq
  by unfold_locales
    (auto simp: ser_IPCreq_def des_IPCreq_def wf_IPCreq_def get_member_def intro!: ipc_req.equality)

text \<open>The members of the resources have initialisers, the other numbers have none.\<close>

definition new_IPCreq :: "'z indet_scheme \<Rightarrow> ipc_req" where
  "new_IPCreq d = \<lparr>ipc_cmdname = [], ipc_ip = [], ipc_port = ud_int d, ipc_zonename = [], ipc_newzonename = [],
     ipc_ownName = [], ipc_memName = [], ipc_newspacename = [], ipc_spacename = [],
     ipc_spacenames = [], ipc_newspacesize = ud_i64 d, ipc_spacesize = ud_i64 d, ipc_spaceurl = [],
     ipc_accountName = [], ipc_Password = [], ipc_gvdsID = [], ipc_email = [], ipc_phone = [],
     ipc_address = [], ipc_department = [], ipc_changeauth = [], ipc_centerID = [],
     ipc_centerIP = [], ipc_centerPort = [], ipc_centerName = [], ipc_sug = [], ipc_applyid = [],
     ipc_storage_src_id = ''#default'', ipc_storage_src_name = ''#default'',
     ipc_host_center_id = ''#default'', ipc_host_center_name = ''#default'',
     ipc_total_capacity = - 1, ipc_assign_capacity = - 1, ipc_mgs_address = ''#default'',
     ipc_state = - 1\<rparr>"

end
