(* ===== verification/Client_World.thy ===== *)
theory Client_World
  imports Replica_Mgr Lru Client_Structs
begin

text \<open>
  What the modules of the client share: the outside, the state of the process, in which each module has
  its fields, the account of \<open>client/clientuser/ClientUser.cc\<close>, and the requests of \<open>client/msg_mod.cc\<close>.
\<close>

section \<open>The outside\<close>

text \<open>A REST call is answered with a body, or it is rejected, takes longer than the client waits, or throws.\<close>

datatype http_result = Answered string | Rejected | Timed_Out | Thrown

text \<open>What \<open>stat\<close> gives the kernel of the client.\<close>

record fuse_stat =
  st_mode :: int
  st_nlink :: int
  st_uid :: int
  st_gid :: int
  st_size :: int
  st_blocks :: int
  st_atime :: int
  st_mtime :: int
  st_ctime :: int

definition zero_stat :: fuse_stat where
  "zero_stat = \<lparr>st_mode = 0, st_nlink = 0, st_uid = 0, st_gid = 0, st_size = 0, st_blocks = 0, st_atime = 0,
     st_mtime = 0, st_ctime = 0\<rparr>"

text \<open>
  What other threads do with the queue of writes: the dispatcher takes it, a worker that was given a buffer
  begins, a worker is told that its write is complete.
\<close>

datatype queue_event = Q_Dispatch | Q_Start nat | Q_Complete nat

text \<open>
  REST calls (\<open>net_login\<close> sends no token, and the values of the cookies that come back are read) and gRPC
  calls, the sessions of the UDT transport (a session is a number), the clock, the configuration, the
  function that FUSE passes to \<open>readdir\<close>, the order in which an unordered map is walked, and the contents of
  memory just allocated. While a thread waits, the other threads take steps in the read-ahead
  (\<open>net_arrivals\<close>) and the queue of writes makes progress (\<open>net_progress\<close>).
\<close>

text \<open>
  What threads do with the read-ahead: a reader sets a task or begins and ends waiting for a sector or
  copies out of it, a writer clears, the thread of a proxy receives the answer to a call (its number and the
  reply, unless the call failed), and the callback of a call goes on to its next step.
\<close>

datatype ra_event =
    Ra_Task "ioproxy_node option" string bool nat nat nat
  | Ra_Clear string
  | Ra_Wait bool nat
  | Ra_Waited bool nat nat
  | Ra_Copy bool nat nat
  | Ra_Answer nat "op_reply option"
  | Ra_Callback nat

record udt_buffer =
  ub_error :: int
  ub_data :: string
  ub_offset :: nat
  ub_path :: string
  ub_is_read :: bool
  ub_read_size :: nat
  ub_fid :: int
  ub_flags :: int

record 'c net = indet +
  net_cfg :: "string \<Rightarrow> string option"
  net_cfg_int :: "string \<Rightarrow> int option"
  net_cfg_bool :: "string \<Rightarrow> bool option"
  net_post :: "string \<Rightarrow> string \<Rightarrow> string \<Rightarrow> 'c \<Rightarrow> http_result \<times> 'c"
  net_get :: "string \<Rightarrow> string \<Rightarrow> 'c \<Rightarrow> http_result \<times> 'c"
  net_delete :: "string \<Rightarrow> 'c \<Rightarrow> http_result \<times> 'c"
  net_login :: "string \<Rightarrow> string \<Rightarrow> 'c \<Rightarrow> (http_result \<times> string list) \<times> 'c"
  net_submit :: "string \<Rightarrow> op_request \<Rightarrow> 'c \<Rightarrow> (bool \<times> op_reply) \<times> 'c"
  udt_create :: "string \<Rightarrow> int \<Rightarrow> 'c \<Rightarrow> nat option \<times> 'c"
  udt_close :: "nat \<Rightarrow> 'c \<Rightarrow> 'c"
  udt_write :: "nat \<Rightarrow> udt_buffer \<Rightarrow> 'c \<Rightarrow> int \<times> 'c"
  udt_wait :: "nat \<Rightarrow> int \<Rightarrow> 'c \<Rightarrow> udt_buffer option \<times> 'c"
  udt_auto :: "nat \<Rightarrow> int \<Rightarrow> 'c \<Rightarrow> 'c"
  net_async :: "string \<Rightarrow> op_request \<Rightarrow> 'c \<Rightarrow> 'c"
  net_arrivals :: "'c \<Rightarrow> ra_event list \<times> 'c"
  net_progress :: "'c \<Rightarrow> queue_event list \<times> 'c"
  net_junk :: "'c \<Rightarrow> (nat \<Rightarrow> char) \<times> 'c"
  net_uuid :: "'c \<Rightarrow> string \<times> 'c"
  net_time :: "'c \<Rightarrow> int \<times> 'c"
  fuse_fill :: "string \<Rightarrow> fuse_stat option \<Rightarrow> 'c \<Rightarrow> int \<times> 'c"
  hash_order :: "string list \<Rightarrow> string list"

text \<open>A network on which nothing is ever answered.\<close>

definition dead_net :: "'c net" where
  "dead_net = \<lparr>rj_write = (\<lambda>j. []), rj_parse = (\<lambda>s. None), ud_int = 0, ud_i64 = 0, ud_bool = False,
     net_cfg = (\<lambda>p. None), net_cfg_int = (\<lambda>p. None), net_cfg_bool = (\<lambda>p. None),
     net_post = (\<lambda>u t d e. (Rejected, e)), net_get = (\<lambda>u t e. (Rejected, e)), net_delete = (\<lambda>u e. (Rejected, e)),
     net_login = (\<lambda>u d e. ((Rejected, []), e)),
     net_submit = (\<lambda>a r e. ((False, new_OpReply), e)), udt_create = (\<lambda>a p e. (None, e)), udt_close = (\<lambda>c e. e),
     udt_write = (\<lambda>c b e. (- 1, e)), udt_wait = (\<lambda>c i e. (None, e)), udt_auto = (\<lambda>c i e. e),
     net_async = (\<lambda>a r e. e), net_arrivals = (\<lambda>e. ([], e)), net_progress = (\<lambda>e. ([], e)),
     net_junk = (\<lambda>e. ((\<lambda>i. CHR 0x00), e)),
     net_uuid = (\<lambda>e. ([], e)), net_time = (\<lambda>e. (0, e)), fuse_fill = (\<lambda>n st e. (0, e)), hash_order = (\<lambda>ks. ks)\<rparr>"

section \<open>The state\<close>

text \<open>\<open>struct_Node\<close> of \<open>client/OPTNode/opt_node.h\<close>: where the manager of a centre is.\<close>

record centre_node =
  cn_location :: string
  cn_ip_addr :: string
  cn_port :: string
  cn_center_id :: string

text \<open>
  An area of the read-ahead (\<open>BufArea\<close>): the sectors \<open>ba_sec_bg\<close> up to \<open>ba_sec_bg + ba_max_sec\<close> of the
  file, those that have arrived with their sizes, the memory and how much of it was allocated, the calls and the promises by sector. A
  promise is its number in \<open>promises\<close>, a call its number in \<open>ra_calls\<close>.
\<close>

record buf_area =
  ba_sec_bg :: nat
  ba_bufferd :: "(nat \<times> nat) list"
  ba_max_sec :: nat
  ba_mem :: "(nat \<Rightarrow> char) option"
  ba_alloc :: nat
  ba_epoch :: nat
  ft_res_tab :: "(nat \<times> nat) list"
  ft_waiting_tab :: "(nat \<times> nat) list"
  prom_waiting_tab :: "(nat \<times> nat) list"
  ba_iop :: "ioproxy_node option"
  ba_name :: string
  ba_onlink :: nat
  ba_cur_sec :: nat
  ba_cursor :: int

definition new_BufArea :: buf_area where
  "new_BufArea = \<lparr>ba_sec_bg = 0, ba_bufferd = [], ba_max_sec = 0, ba_mem = None, ba_alloc = 0, ba_epoch = 0, ft_res_tab = [],
     ft_waiting_tab = [], prom_waiting_tab = [], ba_iop = None, ba_name = [], ba_onlink = 0, ba_cur_sec = 0,
     ba_cursor = 0\<rparr>"

text \<open>What the callback of an asynchronous read has captured.\<close>

record ra_call =
  rc_sec :: nat
  rc_iop :: "ioproxy_node option"
  rc_name :: string
  rc_buf :: bool
  rc_epoch :: nat

text \<open>
  The reply of a call (\<open>AsyncClientCall\<close> of \<open>msg/operator_client.hpp\<close>): it is set when the call is answered, a
  null pointer when it failed, and deleted when the callback has ended. A callback is between two of its
  steps: it has been entered, it has taken the future of a call (by its number), copied the reply of that
  call, marked the sector, decided to set a task or to request sectors of an area, or is in the loop that
  requests them for the file it looked up, where it may have a call of a sector to store.
\<close>

datatype async_state = A_Pending | A_Ready "op_reply option" | A_Deleted

datatype cb_phase =
    Cb_Entered
  | Cb_Taken nat
  | Cb_Copied nat
  | Cb_Marked nat
  | Cb_Task nat nat
  | Cb_Fetch bool
  | Cb_Rounds bool ioproxy_node string string
  | Cb_Store bool ioproxy_node string string nat nat

text \<open>A queued write (\<open>Buffer\<close>), and a worker: waiting, given a buffer, or processing it.\<close>

record write_buf =
  wb_data :: string
  wb_offset :: nat
  wb_path :: string
  wb_dest :: "ioproxy_node option"

datatype worker_state = W_Waiting | W_Queued write_buf | W_Processing write_buf

text \<open>
  The modules by name: user, optNode, the command interface, zone, graph, cache, rpc, fuse, readahead, queue. An unordered map is an association
  list; \<open>q_batch\<close> is what the dispatcher has taken out of the queue; \<open>graph_readers\<close> counts the shared locks of \<open>graph_mutex\<close> that are held. The lists of proxies are
  held through pointers that are never null once they are in the map.
\<close>

record 'c client =
  net_env :: 'c
  mtoken :: string
  accountName :: string
  accountID :: string
  apply_id_data :: "(string \<times> string) list"
  buf_delay :: "centre_node list"
  buf_area :: "centre_node list"
  node_locked :: bool
  center_Information :: string
  myauth :: auth_search
  ipc_zonemap :: "(string \<times> zone) list"
  zonemap :: "(string \<times> zone) list"
  space_metadata :: "(string \<times> space option) list"
  graph_readers :: nat
  ioproxy_list :: "(string \<times> ioproxy_node list) list"
  force_map :: "(string \<times> string) list"
  missing :: "string list"
  cached :: "(string \<times> fuse_stat) list"
  stat_cache_ct :: int
  max_stat_cache_ct :: int
  rpc_operators :: "(string \<times> string) list"
  udt_clients :: "(string \<times> nat option) list"
  channelLoads :: "int list"
  use_udt :: bool
  async_mode :: bool
  readahead_size :: int
  buf_0 :: buf_area
  buf_1 :: buf_area
  last_req_filename :: string
  last_req_sec :: nat
  last_req_hit_ct :: nat
  hit_threshold :: nat
  max_onlink :: nat
  ra_calls :: "ra_call list"
  ra_async :: "async_state list"
  ra_callbacks :: "(nat \<times> cb_phase) list"
  promises :: "bool option list"
  buf_waiting_line :: "write_buf list"
  q_batch :: "write_buf list"
  m_max_buf :: int
  q_channel_loads :: "int list"
  q_workers :: "worker_state list"
  idle_list :: "nat list"
  buf_onlink :: int
  buf_inqueue :: int

text \<open>A client as its constructors leave it.\<close>

definition new_client :: "'c \<Rightarrow> 'c client" where
  "new_client e = \<lparr>net_env = e, mtoken = ''1'', accountName = [], accountID = [], apply_id_data = [],
     buf_delay = [], buf_area = [], node_locked = False, center_Information = [],
     myauth = new_AuthSearch, ipc_zonemap = [], zonemap = [], space_metadata = [],
     graph_readers = 0, ioproxy_list = [], force_map = [], missing = [], cached = [], stat_cache_ct = 0,
     max_stat_cache_ct = 0, rpc_operators = [], udt_clients = [], channelLoads = [0], use_udt = False,
     async_mode = False, readahead_size = 0, buf_0 = new_BufArea, buf_1 = new_BufArea, last_req_filename = [],
     last_req_sec = 0, last_req_hit_ct = 0, hit_threshold = 1, max_onlink = 64, ra_calls = [], ra_async = [], ra_callbacks = [], promises = [],
     buf_waiting_line = [], q_batch = [], m_max_buf = 10240000, q_channel_loads = [0], q_workers = [], idle_list = [],
     buf_onlink = 0, buf_inqueue = 0\<rparr>"

type_synonym ('c, 'a) cprog = "('c client, 'a) prog"

definition outside :: "('c \<Rightarrow> 'a \<times> 'c) \<Rightarrow> ('c, 'a) cprog" where
  "outside f = (\<lambda>s. case f (net_env s) of (a, e) \<Rightarrow> (Val a, s\<lparr>net_env := e\<rparr>))"

definition asks :: "('c client \<Rightarrow> 'a) \<Rightarrow> ('c, 'a) cprog" where
  "asks f = (\<lambda>s. (Val (f s), s))"

definition update :: "('c client \<Rightarrow> 'c client) \<Rightarrow> ('c, unit) cprog" where
  "update f = (\<lambda>s. (Val (), f s))"

lemma wp_asks [simp]: "wp (asks f) Q s = Q (Val (f s)) s"
  by (simp add: wp_def asks_def)

lemma wp_update [simp]: "wp (update f) Q s = Q (Val ()) (f s)"
  by (simp add: wp_def update_def)

lemma wp_outside [simp]: "wp (outside f) Q s = (case f (net_env s) of (a, e) \<Rightarrow> Q (Val a) (s\<lparr>net_env := e\<rparr>))"
  by (simp add: wp_def outside_def split: prod.splits)

text \<open>The same one step at a time, for programs whose later steps have rules of their own.\<close>

lemma wp_bnd_asks: "wp (bnd (asks f) g) Q s = wp (g (f s)) Q s"
  by simp

lemma wp_bnd_update: "wp (bnd (update f) g) Q s = wp (g ()) Q (f s)"
  by simp

lemma wp_bnd_deref: "wp (bnd (deref p) g) Q s = (case p of Some a \<Rightarrow> wp (g a) Q s | None \<Rightarrow> Q (Crash Null_Deref) s)"
  by (simp split: option.splits)

lemmas wp_steps = wp_bnd_asks wp_bnd_update wp_bnd_deref

section \<open>The account\<close>

definition setToken :: "string \<Rightarrow> ('c, unit) cprog" where
  "setToken m = update (\<lambda>s. s\<lparr>mtoken := m\<rparr>)"

definition getToken :: "('c, string) cprog" where
  "getToken = asks mtoken"

definition setAccountName :: "string \<Rightarrow> ('c, unit) cprog" where
  "setAccountName m = update (\<lambda>s. s\<lparr>accountName := m\<rparr>)"

definition getAccountName :: "('c, string) cprog" where
  "getAccountName = asks accountName"

definition setAccountID :: "string \<Rightarrow> ('c, unit) cprog" where
  "setAccountID m = update (\<lambda>s. s\<lparr>accountID := m\<rparr>)"

definition getAccountID :: "('c, string) cprog" where
  "getAccountID = asks accountID"

definition setApply :: "string \<Rightarrow> string \<Rightarrow> ('c, unit) cprog" where
  "setApply i data = update (\<lambda>s. s\<lparr>apply_id_data := smap_set i data (apply_id_data s)\<rparr>)"

text \<open>Reading an identifier that is not there enters it with the empty text.\<close>

definition getApply :: "string \<Rightarrow> ('c, string) cprog" where
  "getApply i =
     bnd (asks (\<lambda>s. smap_at [] (apply_id_data s) i)) (\<lambda>data.
     bnd (update (\<lambda>s. s\<lparr>apply_id_data := smap_set i data (apply_id_data s)\<rparr>)) (\<lambda>_. ret data))"

definition clearApply :: "('c, unit) cprog" where
  "clearApply = update (\<lambda>s. s\<lparr>apply_id_data := []\<rparr>)"

section \<open>Requests\<close>

text \<open>Every failure of a REST call is answered as the empty text. The cookies that come back are not read.\<close>

definition rest_answer :: "http_result \<Rightarrow> string" where
  "rest_answer r = (case r of Answered body \<Rightarrow> body | _ \<Rightarrow> [])"

definition post_request :: "'c net \<Rightarrow> string \<Rightarrow> string \<Rightarrow> string \<Rightarrow> ('c, string) cprog" where
  "post_request k endpoint url data =
     bnd getToken (\<lambda>token. bnd (outside (net_post k (endpoint @ url) token data)) (\<lambda>r. ret (rest_answer r)))"

definition get_request :: "'c net \<Rightarrow> string \<Rightarrow> string \<Rightarrow> ('c, string) cprog" where
  "get_request k endpoint url =
     bnd getToken (\<lambda>token. bnd (outside (net_get k (endpoint @ url) token)) (\<lambda>r. ret (rest_answer r)))"

definition delete_request :: "'c net \<Rightarrow> string \<Rightarrow> string \<Rightarrow> ('c, string) cprog" where
  "delete_request k endpoint url =
     bnd (outside (net_delete k (endpoint @ url))) (\<lambda>r. ret (rest_answer r))"

text \<open>A channel is the address it was created for.\<close>

definition client_operator :: "ioproxy_node \<Rightarrow> nat \<Rightarrow> ('c, string) cprog" where
  "client_operator node channel_id =
     (let channel_key = iop_uuid node @ nat_dec channel_id in
      bnd (asks (\<lambda>s. map_of (rpc_operators s) channel_key)) (\<lambda>rpcc.
      case rpcc of
        Some oper \<Rightarrow> ret oper
      | None \<Rightarrow>
          bnd (update (\<lambda>s. s\<lparr>rpc_operators := AList.update channel_key (address node) (rpc_operators s)\<rparr>)) (\<lambda>_.
          ret (address node))))"

text \<open>Sending a request to a proxy on the first channel: whether the call went through, and the reply.\<close>

definition submit_op :: "'c net \<Rightarrow> ioproxy_node \<Rightarrow> op_request \<Rightarrow> ('c, bool \<times> op_reply) cprog" where
  "submit_op k node rq = bnd (client_operator node 0) (\<lambda>oper. outside (net_submit k oper rq))"

section \<open>UDT sessions\<close>

text \<open>
  Reconnecting closes the old session and swaps the new one in. When the new one cannot be made the table
  is left with a null pointer, which stays there: it is answered from then on, and the next reconnection
  dereferences it.
\<close>

definition udt_channel :: "'c net \<Rightarrow> ioproxy_node \<Rightarrow> bool \<Rightarrow> ('c, nat option) cprog" where
  "udt_channel k node reconnect =
     bnd (asks (\<lambda>s. map_of (udt_clients s) (iop_uuid node))) (\<lambda>udtc.
     case udtc of
       Some old \<Rightarrow>
         if reconnect then
           bnd (deref old) (\<lambda>c.
           bnd (update (\<lambda>s. s\<lparr>net_env := udt_close k c (net_env s)\<rparr>)) (\<lambda>_.
           bnd (outside (udt_create k (iop_ip node) (iop_data_port node mod 2 ^ 16))) (\<lambda>new.
           bnd (update (\<lambda>s. s\<lparr>udt_clients := AList.update (iop_uuid node) new (udt_clients s)\<rparr>)) (\<lambda>_. ret new))))
         else ret old
     | None \<Rightarrow>
         bnd (outside (udt_create k (iop_ip node) (iop_data_port node mod 2 ^ 16))) (\<lambda>udtp.
         if udtp = None then ret None
         else
           bnd (update (\<lambda>s. s\<lparr>udt_clients := AList.update (iop_uuid node) udtp (udt_clients s)\<rparr>)) (\<lambda>_.
           ret udtp)))"

text \<open>Writing through a session pointer. The buffer gives its memory away.\<close>

definition session_write :: "'c net \<Rightarrow> nat option \<Rightarrow> udt_buffer \<Rightarrow> ('c, int) cprog" where
  "session_write k p b = bnd (deref p) (\<lambda>c. outside (udt_write k c b))"

abbreviation (input) ECONNRESET :: int where "ECONNRESET \<equiv> 104"
abbreviation (input) ETIMEDOUT :: int where "ETIMEDOUT \<equiv> 110"
abbreviation (input) ECONNREFUSED :: int where "ECONNREFUSED \<equiv> 111"

definition write_data :: "'c net \<Rightarrow> ioproxy_node \<Rightarrow> udt_buffer \<Rightarrow> ('c, int) cprog" where
  "write_data k node b =
     bnd (udt_channel k node False) (\<lambda>p.
     if p = None then ret (- ETIMEDOUT)
     else
       bnd (session_write k p b) (\<lambda>i.
       bnd (if i = - ECONNRESET then
              bnd (udt_channel k node True) (\<lambda>p. bnd (session_write k p b) (\<lambda>i. ret (p, i)))
            else ret (p, i)) (\<lambda>(p, i).
       if i < 0 then ret (- ECONNREFUSED)
       else
         bnd (deref p) (\<lambda>c. bnd (outside (udt_wait k c i)) (\<lambda>res.
         ret (case res of Some r \<Rightarrow> ub_error r | None \<Rightarrow> - ETIMEDOUT))))))"

definition write_data_async :: "'c net \<Rightarrow> ioproxy_node \<Rightarrow> udt_buffer \<Rightarrow> ('c, int) cprog" where
  "write_data_async k node b =
     bnd (udt_channel k node False) (\<lambda>p.
     if p = None then ret (- ETIMEDOUT)
     else
       bnd (session_write k p b) (\<lambda>i.
       bnd (if i = - ECONNRESET then
              bnd (udt_channel k node True) (\<lambda>p.
              if p = None then ret (p, None) else bnd (session_write k p b) (\<lambda>i. ret (p, Some i)))
            else ret (p, Some i)) (\<lambda>(p, id).
       case id of
         None \<Rightarrow> ret (- ETIMEDOUT)
       | Some i \<Rightarrow>
           if i < 0 then ret (- ECONNREFUSED)
           else
             bnd (deref p) (\<lambda>c.
             bnd (update (\<lambda>s. s\<lparr>net_env := udt_auto k c i (net_env s)\<rparr>)) (\<lambda>_.
             ret (i32 (int (length (ub_data b)))))))))"

definition read_data :: "'c net \<Rightarrow> ioproxy_node \<Rightarrow> udt_buffer \<Rightarrow> ('c, udt_buffer option) cprog" where
  "read_data k node b =
     bnd (udt_channel k node False) (\<lambda>p.
     if p = None then ret None
     else
       bnd (session_write k p b) (\<lambda>i.
       bnd (if i < 0 then
              bnd (udt_channel k node True) (\<lambda>p. bnd (session_write k p b) (\<lambda>i. ret (p, i)))
            else ret (p, i)) (\<lambda>(p, i).
       if i < 0 then ret None
       else bnd (deref p) (\<lambda>c. outside (udt_wait k c i)))))"

section \<open>Channels by load\<close>

text \<open>The least loaded channel, the first of several, and the loads after it was chosen.\<close>

fun least_loaded :: "int list \<Rightarrow> nat \<Rightarrow> nat \<Rightarrow> int \<Rightarrow> nat \<times> int" where
  "least_loaded [] i best m = (best, m)"
| "least_loaded (l # ls) i best m =
     (if l < m then least_loaded ls (Suc i) i l else least_loaded ls (Suc i) best m)"

definition getMinLoadCNumber :: "('c, nat) cprog" where
  "getMinLoadCNumber =
     bnd (asks channelLoads) (\<lambda>loads.
     case loads of
       [] \<Rightarrow> crash Out_Of_Range
     | l0 # _ \<Rightarrow>
         let (n, m) = least_loaded loads 0 0 l0;
             loads = (if m > 1000 then map (\<lambda>l. l - m) loads else loads) in
         bnd (update (\<lambda>s. s\<lparr>channelLoads := loads[n := loads ! n + 1]\<rparr>)) (\<lambda>_. ret n))"

end
