(* ===== verification/Readahead.thy ===== *)
theory Readahead
  imports Client_World
begin

text \<open>
  \<open>client/readahead.cc\<close>: reading a file ahead in sectors of 256 KB into two areas that take turns. The calls
  are asynchronous. The callback that runs when one of them is answered is taken apart into its steps: what
  it does under the lock of its area, twice, and what it does without, so that readers, writers and other callbacks
  come in between.
\<close>

section \<open>The areas\<close>

datatype ra_status = MAY_SEQ_READ | UNLIKE_SEQ_READ | ON_LINK | IN_BUFFER | RA_NOT_FOUND

abbreviation (input) SECTOR :: nat where "SECTOR \<equiv> 262144"

definition area :: "bool \<Rightarrow> 'c client \<Rightarrow> buf_area" where
  "area i s = (if i then buf_1 s else buf_0 s)"

definition set_area :: "bool \<Rightarrow> buf_area \<Rightarrow> 'c client \<Rightarrow> 'c client" where
  "set_area i b s = (if i then s\<lparr>buf_1 := b\<rparr> else s\<lparr>buf_0 := b\<rparr>)"

definition in_area :: "buf_area \<Rightarrow> nat \<Rightarrow> bool" where
  "in_area b sec \<longleftrightarrow> ba_sec_bg b \<le> sec \<and> sec < add64 (ba_sec_bg b) (ba_max_sec b)"

definition lookup :: "buf_area \<Rightarrow> string \<Rightarrow> nat \<Rightarrow> ra_status" where
  "lookup b filename sec =
     (if filename \<noteq> ba_name b \<or> \<not> in_area b sec then RA_NOT_FOUND
      else if map_of (ba_bufferd b) sec \<noteq> None then IN_BUFFER else ON_LINK)"

definition sector_addr :: "buf_area \<Rightarrow> nat \<Rightarrow> int" where
  "sector_addr b sec = (int sec - int (ba_sec_bg b)) * int SECTOR"

definition readahead_start :: "'c net \<Rightarrow> ('c, unit) cprog" where
  "readahead_start k = update (\<lambda>s. s\<lparr>
     hit_threshold := nat ((case net_cfg_int k ''client.seq_threshold'' of Some n \<Rightarrow> n | None \<Rightarrow> 1) mod 2 ^ 32),
     max_onlink := nat ((case net_cfg_int k ''client.onlink'' of Some n \<Rightarrow> n | None \<Rightarrow> 64) mod 2 ^ 32)\<rparr>)"

text \<open>Memory is read and written inside what was allocated; an address is the distance to its beginning.\<close>

definition overlay :: "nat \<Rightarrow> string \<Rightarrow> (nat \<Rightarrow> char) \<Rightarrow> nat \<Rightarrow> char" where
  "overlay a bytes m = (\<lambda>i. if a \<le> i \<and> i < a + length bytes then bytes ! (i - a) else m i)"

definition area_write :: "int \<Rightarrow> string \<Rightarrow> buf_area \<Rightarrow> ('w, buf_area) prog" where
  "area_write a bytes b =
     bnd (deref (ba_mem b)) (\<lambda>m.
     if bytes \<noteq> [] \<and> (a < 0 \<or> a + int (length bytes) > int (ba_alloc b)) then crash Out_Of_Range
     else ret (b\<lparr>ba_mem := Some (overlay (nat a) bytes m)\<rparr>))"

definition area_read :: "int \<Rightarrow> nat \<Rightarrow> buf_area \<Rightarrow> ('w, string) prog" where
  "area_read a n b =
     bnd (deref (ba_mem b)) (\<lambda>m.
     if n > 0 \<and> (a < 0 \<or> a + int n > int (ba_alloc b)) then crash Out_Of_Range
     else ret (map m [nat a..<nat a + n]))"

section \<open>Promises\<close>

text \<open>A promise that is fulfilled twice throws.\<close>

definition fulfil :: "nat \<Rightarrow> bool \<Rightarrow> ('c, unit) cprog" where
  "fulfil p v =
     bnd (asks (\<lambda>s. promises s ! p)) (\<lambda>old.
     if old = None then update (\<lambda>s. s\<lparr>promises := (promises s)[p := Some v]\<rparr>) else crash Uncaught_Exception)"

primrec fulfil_all :: "nat list \<Rightarrow> ('c, unit) cprog" where
  "fulfil_all [] = ret ()"
| "fulfil_all (p # ps) = bnd (fulfil p False) (\<lambda>_. fulfil_all ps)"

section \<open>Calls\<close>

definition sector_request :: "string \<Rightarrow> nat \<Rightarrow> op_request" where
  "sector_request filename sec = new_OpRequest\<lparr>rq_type := T_read, rq_filepath := filename,
     rq_param := Io_Param \<lparr>par_offset = sec * SECTOR mod 2 ^ 64, par_size = SECTOR\<rparr>\<rparr>"

text \<open>
  The loop that requests sectors: it goes on while calls are few and the area has sectors left. In one round
  the next sector is requested, of the file that was looked up before the loop, and the call is stored by its number.
\<close>

definition wants_sector :: "bool \<Rightarrow> 'c client \<Rightarrow> bool" where
  "wants_sector i s \<longleftrightarrow> ba_onlink (area i s) < max_onlink s \<and>
     ba_cur_sec (area i s) < add64 (ba_sec_bg (area i s)) (ba_max_sec (area i s))"

definition request_sector ::
  "'c net \<Rightarrow> bool \<Rightarrow> ioproxy_node \<Rightarrow> string \<Rightarrow> string \<Rightarrow> 'c client \<Rightarrow> 'c client" where
  "request_sector k i node filename oper s =
     (let b = area i s; sec = ba_cur_sec b;
          call = \<lparr>rc_sec = sec, rc_iop = Some node, rc_name = filename, rc_buf = i, rc_epoch = ba_epoch b\<rparr> in
      set_area i (b\<lparr>ba_onlink := ba_onlink b + 1, ba_cur_sec := sec + 1\<rparr>)
        (s\<lparr>ra_calls := ra_calls s @ [call], ra_async := ra_async s @ [A_Pending],
           net_env := net_async k oper (sector_request filename sec) (net_env s)\<rparr>))"

definition store_call :: "bool \<Rightarrow> nat \<Rightarrow> nat \<Rightarrow> 'c client \<Rightarrow> 'c client" where
  "store_call i sec n s = set_area i ((area i s)\<lparr>ft_res_tab := smap_set sec n (ft_res_tab (area i s))\<rparr>) s"

definition submit_sector ::
  "'c net \<Rightarrow> bool \<Rightarrow> ioproxy_node \<Rightarrow> string \<Rightarrow> string \<Rightarrow> 'c client \<Rightarrow> 'c client" where
  "submit_sector k i node filename oper s =
     store_call i (ba_cur_sec (area i s)) (length (ra_calls s)) (request_sector k i node filename oper s)"

primrec submit_sectors ::
  "nat \<Rightarrow> 'c net \<Rightarrow> bool \<Rightarrow> ioproxy_node \<Rightarrow> string \<Rightarrow> string \<Rightarrow> 'c client \<Rightarrow> 'c client" where
  "submit_sectors 0 k i node filename oper s = s"
| "submit_sectors (Suc n) k i node filename oper s =
     (if wants_sector i s then submit_sectors n k i node filename oper (submit_sector k i node filename oper s) else s)"

text \<open>Looking up the proxy and the file of an area, which takes no lock, and the whole function.\<close>

definition fetch_begin :: "bool \<Rightarrow> ('c, ioproxy_node \<times> string \<times> string) cprog" where
  "fetch_begin i =
     bnd (asks (\<lambda>s. (ba_iop (area i s), ba_name (area i s)))) (\<lambda>(p, filename).
     bnd (deref p) (\<lambda>node.
     bnd (client_operator node 100) (\<lambda>oper. ret (node, filename, oper))))"

definition fetch_sector_remote :: "'c net \<Rightarrow> bool \<Rightarrow> ('c, unit) cprog" where
  "fetch_sector_remote k i =
     bnd (fetch_begin i) (\<lambda>(node, filename, oper).
     update (\<lambda>s. submit_sectors (max_onlink s - ba_onlink (area i s)) k i node filename oper s))"

text \<open>
  Setting a task on an area: nothing happens for an old epoch, a sector the area already has, or an area
  whose sectors have not been read. The memory is allocated for a size computed in 32 bits.
\<close>

definition alloc_area :: "(nat \<Rightarrow> char) \<Rightarrow> nat \<Rightarrow> buf_area \<Rightarrow> buf_area" where
  "alloc_area junk sec_max b =
     b\<lparr>ba_mem := Some (\<lambda>j. case ba_mem b of Some m \<Rightarrow> if j < ba_alloc b then m j else junk j | None \<Rightarrow> junk j),
       ba_alloc := sec_max * SECTOR mod 2 ^ 32\<rparr>"

definition start_area :: "ioproxy_node option \<Rightarrow> string \<Rightarrow> nat \<Rightarrow> nat \<Rightarrow> nat \<Rightarrow> buf_area \<Rightarrow> buf_area" where
  "start_area iop filename sec_bg sec_max epoch b =
     b\<lparr>ba_epoch := epoch, prom_waiting_tab := [], ft_waiting_tab := [], ft_res_tab := [], ba_bufferd := [],
       ba_sec_bg := sec_bg, ba_max_sec := sec_max, ba_cur_sec := sec_bg, ba_onlink := 0, ba_iop := iop,
       ba_name := filename, ba_cursor := i32 (int sec_bg)\<rparr>"

definition set_task ::
  "'c net \<Rightarrow> ioproxy_node option \<Rightarrow> string \<Rightarrow> bool \<Rightarrow> nat \<Rightarrow> nat \<Rightarrow> nat \<Rightarrow> ('c, bool) cprog" where
  "set_task k iop filename i sec_bg sec_max epoch0 =
     bnd (asks (area i)) (\<lambda>b.
     let epoch = (if epoch0 = 2 ^ 64 - 1 then add64 (ba_epoch b) 1 else epoch0) in
     if epoch < ba_epoch b then ret False
     else if filename = ba_name b \<and> in_area b sec_bg then ret False
     else if filename = ba_name b \<and> u64 (i32 (ba_cursor b + 1)) < add64 (ba_sec_bg b) (ba_max_sec b) then
       bnd (update (\<lambda>s. if epoch > ba_epoch b then set_area i (b\<lparr>ba_cursor := i32 (ba_cursor b + 1)\<rparr>) s else s)) (\<lambda>_.
       ret False)
     else
       bnd (fulfil_all (map snd (prom_waiting_tab b))) (\<lambda>_.
       bnd (outside (net_junk k)) (\<lambda>junk.
       bnd (update (set_area i (start_area iop filename sec_bg sec_max epoch (alloc_area junk sec_max b)))) (\<lambda>_.
       bnd (fetch_sector_remote k i) (\<lambda>_. ret True)))))"

section \<open>Clearing\<close>

text \<open>The epoch is increased, and then set to what it was before.\<close>

definition clear_area :: "nat \<Rightarrow> bool \<Rightarrow> ('c, unit) cprog" where
  "clear_area to_epoch i =
     bnd (asks (area i)) (\<lambda>b.
     bnd (fulfil_all (map snd (prom_waiting_tab b))) (\<lambda>_.
     update (set_area i (b\<lparr>ba_epoch := to_epoch, prom_waiting_tab := [], ft_waiting_tab := [], ba_iop := None,
       ba_name := [], ft_res_tab := [], ba_bufferd := [], ba_cur_sec := 0, ba_onlink := 0, ba_sec_bg := 0,
       ba_max_sec := 0, ba_cursor := 0\<rparr>))))"

definition clear_buf :: "string \<Rightarrow> ('c, unit) cprog" where
  "clear_buf filepath =
     bnd (asks buf_0) (\<lambda>b.
     if filepath \<noteq> ba_name b then ret ()
     else
       bnd (update (\<lambda>s. s\<lparr>buf_0 := b\<lparr>ba_epoch := add64 (ba_epoch b) 1\<rparr>\<rparr>)) (\<lambda>_.
       bnd (clear_area (ba_epoch b) False) (\<lambda>_. clear_area (ba_epoch b) True)))"

section \<open>The callback\<close>

text \<open>
  A step of a callback ends with the next step to take, or with the end of the callback, after which the
  thread of the proxy deletes the call with its reply.
\<close>

definition cb_go :: "nat \<Rightarrow> cb_phase \<Rightarrow> ('c, unit) cprog" where
  "cb_go n ph = update (\<lambda>s. s\<lparr>ra_callbacks := smap_set n ph (ra_callbacks s)\<rparr>)"

definition cb_end :: "nat \<Rightarrow> ('c, unit) cprog" where
  "cb_end n = update (\<lambda>s. s\<lparr>ra_callbacks := smap_erase n (ra_callbacks s), ra_async := (ra_async s)[n := A_Deleted]\<rparr>)"

text \<open>The reply that the future of a call gives: a call that has failed gives a null pointer.\<close>

definition reply_of :: "nat \<Rightarrow> ('c, op_reply) cprog" where
  "reply_of n = bnd (asks (\<lambda>s. ra_async s ! n)) (\<lambda>a. case a of A_Ready p \<Rightarrow> deref p | _ \<Rightarrow> crash Use_After_Free)"

text \<open>
  Under the lock: a response of another epoch is dropped, otherwise the future that the area has under the
  number of the sector is taken out, whichever call it belongs to.
\<close>

definition cb_take :: "nat \<Rightarrow> ra_call \<Rightarrow> ('c, unit) cprog" where
  "cb_take n c =
     (let i = rc_buf c in
      bnd (asks (area i)) (\<lambda>b.
      if ba_epoch b \<noteq> rc_epoch c then cb_end n
      else
        bnd (update (set_area i (b\<lparr>ba_onlink := u64 (int (ba_onlink b) - 1),
          ft_res_tab := smap_erase (rc_sec c) (ft_res_tab b)\<rparr>))) (\<lambda>_.
        case map_of (ft_res_tab b) (rc_sec c) of None \<Rightarrow> cb_end n | Some f \<Rightarrow> cb_go n (Cb_Taken f))))"

text \<open>
  Without the lock: a future that is not ready is given up (the 100 milliseconds pass before this step), the data is
  copied to where the area, as it is now, has the sector.
\<close>

definition cb_copy :: "nat \<Rightarrow> ra_call \<Rightarrow> nat \<Rightarrow> ('c, unit) cprog" where
  "cb_copy n c f =
     bnd (asks (\<lambda>s. ra_async s ! f)) (\<lambda>a.
     if a = A_Pending then cb_end n
     else
       bnd (reply_of f) (\<lambda>rp.
       if rp_err_code rp < 0 then cb_end n
       else if nat (rp_err_code rp) > length (rp_data rp) + 1 then crash Out_Of_Range
       else
         bnd (asks (area (rc_buf c))) (\<lambda>b.
         bnd (area_write (sector_addr b (rc_sec c)) (take (nat (rp_err_code rp)) (rp_data rp @ [CHR 0x00])) b) (\<lambda>b.
         bnd (update (set_area (rc_buf c) b)) (\<lambda>_. cb_go n (Cb_Copied f))))))"

text \<open>Under the lock again: the sector has arrived, whatever the area is used for by now; its reader is woken.\<close>

definition cb_mark :: "nat \<Rightarrow> ra_call \<Rightarrow> nat \<Rightarrow> ('c, unit) cprog" where
  "cb_mark n c f =
     (let i = rc_buf c in
      bnd (reply_of f) (\<lambda>rp.
      bnd (asks (area i)) (\<lambda>b0.
      let b = b0\<lparr>ba_bufferd := smap_set (rc_sec c) (nat (rp_err_code rp)) (ba_bufferd b0)\<rparr> in
      bnd (case map_of (prom_waiting_tab b) (rc_sec c) of
             None \<Rightarrow> update (set_area i b)
           | Some p \<Rightarrow>
               bnd (update (set_area i (b\<lparr>prom_waiting_tab := smap_erase (rc_sec c) (prom_waiting_tab b)\<rparr>))) (\<lambda>_.
               fulfil p (rp_err_code rp \<ge> 0))) (\<lambda>_.
      cb_go n (Cb_Marked f)))))"

text \<open>
  Without the lock: whether to request more, from this area, or when it is full from the other, which is given a
  task unless it has a newer one.
\<close>

definition cb_decide :: "nat \<Rightarrow> ra_call \<Rightarrow> nat \<Rightarrow> ('c, unit) cprog" where
  "cb_decide n c f =
     (let i = rc_buf c in
      bnd (reply_of f) (\<lambda>rp.
      bnd (asks (\<lambda>s. (area i s, area (\<not> i) s, max_onlink s))) (\<lambda>(b, b', limit).
      if rp_err_code rp > 0 \<and> ba_onlink b < limit then
        cb_go n
          (if ba_cur_sec b < add64 (ba_sec_bg b) (ba_max_sec b) then Cb_Fetch i
           else if rc_epoch c \<ge> ba_epoch b' then Cb_Task (ba_cur_sec b) (ba_max_sec b)
           else Cb_Fetch (\<not> i))
      else cb_end n)))"

text \<open>
  One round of the loop in a callback. No lock is held here, so that the call may be answered before it is
  stored.
\<close>

definition cb_round :: "'c net \<Rightarrow> nat \<Rightarrow> bool \<Rightarrow> ioproxy_node \<Rightarrow> string \<Rightarrow> string \<Rightarrow> ('c, unit) cprog" where
  "cb_round k n i node filename oper =
     bnd (asks (\<lambda>s. (wants_sector i s, ba_cur_sec (area i s), length (ra_calls s)))) (\<lambda>(more, sec, m).
     if more then
       bnd (update (request_sector k i node filename oper)) (\<lambda>_. cb_go n (Cb_Store i node filename oper sec m))
     else cb_end n)"

fun cb_step :: "'c net \<Rightarrow> nat \<Rightarrow> ra_call \<Rightarrow> cb_phase \<Rightarrow> ('c, unit) cprog" where
  "cb_step k n c Cb_Entered = cb_take n c"
| "cb_step k n c (Cb_Taken f) = cb_copy n c f"
| "cb_step k n c (Cb_Copied f) = cb_mark n c f"
| "cb_step k n c (Cb_Marked f) = cb_decide n c f"
| "cb_step k n c (Cb_Task sec sec_max) =
     bnd (set_task k (rc_iop c) (rc_name c) (\<not> rc_buf c) sec sec_max (rc_epoch c)) (\<lambda>_. cb_end n)"
| "cb_step k n c (Cb_Fetch i) =
     bnd (fetch_begin i) (\<lambda>(node, filename, oper). cb_go n (Cb_Rounds i node filename oper))"
| "cb_step k n c (Cb_Rounds i node filename oper) = cb_round k n i node filename oper"
| "cb_step k n c (Cb_Store i node filename oper sec m) =
     bnd (update (store_call i sec m)) (\<lambda>_. cb_go n (Cb_Rounds i node filename oper))"

section \<open>The threads\<close>

text \<open>The thread of a proxy sets the reply of a call and enters the callback.\<close>

definition ra_answer :: "nat \<Rightarrow> op_reply option \<Rightarrow> ('c, unit) cprog" where
  "ra_answer n reply = update (\<lambda>s.
     if n < length (ra_async s) \<and> ra_async s ! n = A_Pending
     then s\<lparr>ra_async := (ra_async s)[n := A_Ready reply], ra_callbacks := smap_set n Cb_Entered (ra_callbacks s)\<rparr>
     else s)"

definition ra_callback :: "'c net \<Rightarrow> nat \<Rightarrow> ('c, unit) cprog" where
  "ra_callback k n =
     bnd (asks (\<lambda>s. (map_of (ra_callbacks s) n, ra_calls s))) (\<lambda>(ph, calls).
     case ph of None \<Rightarrow> ret () | Some ph \<Rightarrow> cb_step k n (calls ! n) ph)"

text \<open>A reader begins to wait for a sector, and ends. A sector nobody waits for any more counts as arrived.\<close>

definition wait_begin :: "bool \<Rightarrow> nat \<Rightarrow> ('c, nat) cprog" where
  "wait_begin i sec =
     bnd (update (\<lambda>s. let b = area i s; p = length (promises s) in
       if map_of (ft_waiting_tab b) sec \<noteq> None then s
       else set_area i (b\<lparr>prom_waiting_tab := smap_set sec p (prom_waiting_tab b),
              ft_waiting_tab := smap_set sec p (ft_waiting_tab b)\<rparr>) (s\<lparr>promises := promises s @ [None]\<rparr>))) (\<lambda>_.
     asks (\<lambda>s. the (map_of (ft_waiting_tab (area i s)) sec)))"

definition wait_end :: "bool \<Rightarrow> nat \<Rightarrow> nat \<Rightarrow> ('c, bool) cprog" where
  "wait_end i sec sft =
     bnd (asks (\<lambda>s. map_of (ft_waiting_tab (area i s)) sec = None \<or> promises s ! sft = Some True)) (\<lambda>r.
     bnd (update (\<lambda>s. let b = area i s in
       if map_of (ft_waiting_tab b) sec = None then s
       else set_area i (b\<lparr>prom_waiting_tab := smap_erase sec (prom_waiting_tab b),
              ft_waiting_tab := smap_erase sec (ft_waiting_tab b)\<rparr>) s)) (\<lambda>_.
     ret r))"

text \<open>
  Copying out of a sector that has arrived. The number of bytes left in it is a difference of unsigned
  numbers.
\<close>

definition sector_left :: "buf_area \<Rightarrow> nat \<Rightarrow> nat" where
  "sector_left b offset =
     (case map_of (ba_bufferd b) (offset div SECTOR) of
        Some n \<Rightarrow> u64 (int n - int (offset mod SECTOR)) | None \<Rightarrow> u64 (- int (offset mod SECTOR)))"

definition copy_out :: "bool \<Rightarrow> nat \<Rightarrow> nat \<Rightarrow> ('c, ra_status \<times> string option) cprog" where
  "copy_out i offset n =
     bnd (asks (area i)) (\<lambda>b.
     let sec = offset div SECTOR; orig = sector_addr b sec + int (offset mod SECTOR) in
     if orig + int n > int (ba_max_sec b * SECTOR) then ret (RA_NOT_FOUND, None)
     else
       bnd (area_read orig (min n (sector_left b offset)) b) (\<lambda>bytes.
       bnd (update (set_area i (b\<lparr>ba_cursor := (if sec > u64 (ba_cursor b) then i32 (int sec) else ba_cursor b)\<rparr>))) (\<lambda>_.
       ret (IN_BUFFER, Some bytes))))"

fun ra_step :: "'c net \<Rightarrow> ra_event \<Rightarrow> ('c, unit) cprog" where
  "ra_step k (Ra_Task iop filename i sec sec_max epoch) = bnd (set_task k iop filename i sec sec_max epoch) (\<lambda>_. ret ())"
| "ra_step k (Ra_Clear filename) = clear_buf filename"
| "ra_step k (Ra_Wait i sec) = bnd (wait_begin i sec) (\<lambda>_. ret ())"
| "ra_step k (Ra_Waited i sec sft) = bnd (wait_end i sec sft) (\<lambda>_. ret ())"
| "ra_step k (Ra_Copy i offset n) = bnd (copy_out i offset n) (\<lambda>_. ret ())"
| "ra_step k (Ra_Answer n reply) = ra_answer n reply"
| "ra_step k (Ra_Callback n) = ra_callback k n"

primrec ra_steps :: "'c net \<Rightarrow> ra_event list \<Rightarrow> ('c, unit) cprog" where
  "ra_steps k [] = ret ()"
| "ra_steps k (x # xs) = bnd (ra_step k x) (\<lambda>_. ra_steps k xs)"

section \<open>Reading\<close>

text \<open>Waiting until the sector has arrived, at most a second, in which the other threads take steps.\<close>

definition wait_sector :: "'c net \<Rightarrow> bool \<Rightarrow> nat \<Rightarrow> ('c, bool) cprog" where
  "wait_sector k i sec =
     bnd (wait_begin i sec) (\<lambda>sft.
     bnd (outside (net_arrivals k)) (\<lambda>events.
     bnd (ra_steps k events) (\<lambda>_.
     wait_end i sec sft)))"

text \<open>One area; \<open>None\<close> goes on to the next.\<close>

definition fetch_from ::
  "'c net \<Rightarrow> bool \<Rightarrow> string \<Rightarrow> nat \<Rightarrow> nat \<Rightarrow> ('c, (ra_status \<times> string option) option) cprog" where
  "fetch_from k i filename offset n =
     (let sec = offset div SECTOR in
      bnd (asks (\<lambda>s. lookup (area i s) filename sec)) (\<lambda>st.
      case st of
        RA_NOT_FOUND \<Rightarrow> ret None
      | IN_BUFFER \<Rightarrow> bnd (copy_out i offset n) (\<lambda>r. ret (Some r))
      | ON_LINK \<Rightarrow>
          bnd (wait_sector k i sec) (\<lambda>ok.
          bnd (asks (\<lambda>s. lookup (area i s) filename sec)) (\<lambda>st.
          if ok \<and> st = IN_BUFFER then bnd (copy_out i offset n) (\<lambda>r. ret (Some r))
          else ret (Some (RA_NOT_FOUND, None))))
      | _ \<Rightarrow> ret (Some (RA_NOT_FOUND, None))))"

text \<open>A sector in neither area leaves the function at its end, without a value.\<close>

definition fetch_cache :: "'c net \<Rightarrow> string \<Rightarrow> nat \<Rightarrow> nat \<Rightarrow> ('c, ra_status \<times> string option) cprog" where
  "fetch_cache k filename offset n =
     bnd (fetch_from k False filename offset n) (\<lambda>r.
     case r of
       Some x \<Rightarrow> ret x
     | None \<Rightarrow>
         bnd (fetch_from k True filename offset n) (\<lambda>r.
         case r of Some x \<Rightarrow> ret x | None \<Rightarrow> crash Missing_Return))"

text \<open>What to do with a read: the bytes copied to the reader's buffer, if any, come with the status.\<close>

definition ra_status_of :: "'c net \<Rightarrow> string \<Rightarrow> nat \<Rightarrow> nat \<Rightarrow> ('c, ra_status \<times> string option) cprog" where
  "ra_status_of k rpath offset n =
     (let sector_bg = offset div SECTOR in
      bnd (asks (\<lambda>s. s)) (\<lambda>s.
      if rpath = ba_name (buf_0 s) then fetch_cache k rpath offset n
      else if last_req_filename s \<noteq> rpath then
        bnd (update (\<lambda>s. s\<lparr>last_req_filename := rpath, last_req_hit_ct := 1\<rparr>)) (\<lambda>_. ret (UNLIKE_SEQ_READ, None))
      else if last_req_sec s > sector_bg then
        bnd (update (\<lambda>s. s\<lparr>last_req_sec := sector_bg\<rparr>)) (\<lambda>_. ret (UNLIKE_SEQ_READ, None))
      else if last_req_hit_ct s < hit_threshold s then
        bnd (update (\<lambda>s. s\<lparr>last_req_hit_ct := last_req_hit_ct s + 1\<rparr>)) (\<lambda>_. ret (UNLIKE_SEQ_READ, None))
      else ret (MAY_SEQ_READ, None)))"

end
