(* ===== verification/Readahead_Props.thy ===== *)
theory Readahead_Props
  imports Readahead
begin

text \<open>
  What the read-ahead copies out is what the file has, as long as the proxies answer with the file and the
  reader stays inside what arrived of the sector; what happens outside, and after a call that failed.
\<close>

section \<open>The areas hold the file\<close>

text \<open>\<open>F name j\<close> is the byte \<open>j\<close> of a file that nobody writes. An honest reply is a part of it.\<close>

definition honest :: "(string \<Rightarrow> nat \<Rightarrow> char) \<Rightarrow> ra_call \<Rightarrow> op_reply \<Rightarrow> bool" where
  "honest F c rp \<longleftrightarrow> (let n = nat (rp_err_code rp) in
     n \<le> SECTOR \<and> n \<le> length (rp_data rp) \<and> (\<forall>j < n. rp_data rp ! j = F (rc_name c) (rc_sec c * SECTOR + j)))"

definition sector_ok :: "(string \<Rightarrow> nat \<Rightarrow> char) \<Rightarrow> buf_area \<Rightarrow> nat \<Rightarrow> nat \<Rightarrow> bool" where
  "sector_ok F b sec n \<longleftrightarrow> ba_sec_bg b \<le> sec \<and> n \<le> SECTOR \<and>
     (\<exists>m. ba_mem b = Some m \<and> (\<forall>j < n. m ((sec - ba_sec_bg b) * SECTOR + j) = F (ba_name b) (sec * SECTOR + j)))"

definition sectors_ok :: "(string \<Rightarrow> nat \<Rightarrow> char) \<Rightarrow> buf_area \<Rightarrow> bool" where
  "sectors_ok F b \<longleftrightarrow> (\<forall>sec n. map_of (ba_bufferd b) sec = Some n \<longrightarrow> sector_ok F b sec n)"

text \<open>A call that belongs to the task of an area, and the calls that an area has stored.\<close>

definition call_for :: "ra_call list \<Rightarrow> bool \<Rightarrow> buf_area \<Rightarrow> nat \<Rightarrow> nat \<Rightarrow> bool" where
  "call_for cs i b sec f \<longleftrightarrow> f < length cs \<and> ba_sec_bg b \<le> sec \<and>
     rc_buf (cs ! f) = i \<and> rc_sec (cs ! f) = sec \<and> rc_name (cs ! f) = ba_name b"

definition calls_ok :: "ra_call list \<Rightarrow> bool \<Rightarrow> buf_area \<Rightarrow> bool" where
  "calls_ok cs i b \<longleftrightarrow> ba_sec_bg b \<le> ba_cur_sec b \<and>
     (\<forall>sec f. map_of (ft_res_tab b) sec = Some f \<longrightarrow> call_for cs i b sec f)"

text \<open>
  What a callback relies on between its steps, and on which area: from taking the future until the sector is
  marked the area keeps its task, and while it requests sectors the area keeps the file that was looked up.
\<close>

fun claims :: "ra_call \<Rightarrow> cb_phase \<Rightarrow> bool \<Rightarrow> bool" where
  "claims c (Cb_Taken f) i = (rc_buf c = i)"
| "claims c (Cb_Copied f) i = (rc_buf c = i)"
| "claims c (Cb_Rounds j node filename oper) i = (j = i)"
| "claims c (Cb_Store j node filename oper sec m) i = (j = i)"
| "claims c _ i = False"

fun cb_ok ::
  "(string \<Rightarrow> nat \<Rightarrow> char) \<Rightarrow> ra_call list \<Rightarrow> async_state list \<Rightarrow> (bool \<Rightarrow> buf_area) \<Rightarrow> ra_call \<Rightarrow> cb_phase \<Rightarrow> bool"
where
  "cb_ok F cs as ar c (Cb_Taken f) = call_for cs (rc_buf c) (ar (rc_buf c)) (rc_sec c) f"
| "cb_ok F cs as ar c (Cb_Copied f) = (call_for cs (rc_buf c) (ar (rc_buf c)) (rc_sec c) f \<and> as ! f \<noteq> A_Pending \<and>
     (\<forall>rp. as ! f = A_Ready (Some rp) \<longrightarrow> sector_ok F (ar (rc_buf c)) (rc_sec c) (nat (rp_err_code rp))))"
| "cb_ok F cs as ar c (Cb_Rounds i node filename oper) = (filename = ba_name (ar i))"
| "cb_ok F cs as ar c (Cb_Store i node filename oper sec m) = (filename = ba_name (ar i) \<and> call_for cs i (ar i) sec m)"
| "cb_ok F cs as ar c _ = True"

definition ra_inv ::
  "(string \<Rightarrow> nat \<Rightarrow> char) \<Rightarrow> ra_call list \<Rightarrow> async_state list \<Rightarrow> (nat \<times> cb_phase) list \<Rightarrow> (bool \<Rightarrow> buf_area) \<Rightarrow> bool"
where
  "ra_inv F cs as cbs ar \<longleftrightarrow> (\<forall>i. sectors_ok F (ar i) \<and> calls_ok cs i (ar i)) \<and> length as = length cs \<and>
     (\<forall>n rp. n < length cs \<longrightarrow> as ! n = A_Ready (Some rp) \<longrightarrow> honest F (cs ! n) rp) \<and>
     (\<forall>n ph. map_of cbs n = Some ph \<longrightarrow> n < length cs \<and> cb_ok F cs as ar (cs ! n) ph)"

definition areas :: "'c client \<Rightarrow> bool \<Rightarrow> buf_area" where
  "areas s = (\<lambda>i. area i s)"

definition ra_ok :: "(string \<Rightarrow> nat \<Rightarrow> char) \<Rightarrow> 'c client \<Rightarrow> bool" where
  "ra_ok F s = ra_inv F (ra_calls s) (ra_async s) (ra_callbacks s) (areas s)"

text \<open>An area on which no callback relies.\<close>

definition idle :: "bool \<Rightarrow> 'c client \<Rightarrow> bool" where
  "idle i s \<longleftrightarrow> (\<forall>(n, ph) \<in> set (ra_callbacks s). \<not> claims (ra_calls s ! n) ph i)"

section \<open>Frames\<close>

lemma area_set [simp]: "area i (set_area j b s) = (if i = j then b else area i s)"
  by (auto simp: area_def set_area_def)

lemma areas_set [simp]: "areas (set_area i b s) = (areas s)(i := b)"
  by (auto simp: areas_def)

lemma set_area_frame [simp]:
  "ra_calls (set_area i b s) = ra_calls s" "promises (set_area i b s) = promises s"
  "ra_async (set_area i b s) = ra_async s" "ra_callbacks (set_area i b s) = ra_callbacks s"
  "max_onlink (set_area i b s) = max_onlink s" "net_env (set_area i b s) = net_env s"
  by (simp_all add: set_area_def)

lemma areas_frame [simp]:
  "areas (s\<lparr>promises := ps\<rparr>) = areas s" "areas (s\<lparr>net_env := e\<rparr>) = areas s"
  "areas (s\<lparr>ra_calls := cs\<rparr>) = areas s" "areas (s\<lparr>rpc_operators := os\<rparr>) = areas s"
  "areas (s\<lparr>ra_async := as\<rparr>) = areas s" "areas (s\<lparr>ra_callbacks := cbs\<rparr>) = areas s"
  by (simp_all add: areas_def area_def fun_eq_iff)

lemma area_areas: "area i s = areas s i"
  by (simp add: areas_def)

lemma ra_ok_frame [simp]:
  "ra_ok F (s\<lparr>promises := ps\<rparr>) = ra_ok F s" "ra_ok F (s\<lparr>net_env := e\<rparr>) = ra_ok F s"
  "ra_ok F (s\<lparr>rpc_operators := os\<rparr>) = ra_ok F s"
  by (simp_all add: ra_ok_def)

lemma idle_frame [simp]:
  "idle i (s\<lparr>promises := ps\<rparr>) = idle i s" "idle i (s\<lparr>net_env := e\<rparr>) = idle i s" "idle i (set_area j b s) = idle i s"
  by (simp_all add: idle_def)

text \<open>The data of an area depends on its file, its first sector and its memory.\<close>

lemma sector_ok_cong:
  "ba_sec_bg b' = ba_sec_bg b \<Longrightarrow> ba_name b' = ba_name b \<Longrightarrow> ba_mem b' = ba_mem b \<Longrightarrow> sector_ok F b' = sector_ok F b"
  by (simp add: sector_ok_def fun_eq_iff)

lemma call_for_cong:
  "ba_sec_bg b' = ba_sec_bg b \<Longrightarrow> ba_name b' = ba_name b \<Longrightarrow> call_for cs i b' = call_for cs i b"
  by (simp add: call_for_def fun_eq_iff)

lemma call_for_append: "call_for cs i b sec f \<Longrightarrow> call_for (cs @ [c]) i b sec f"
  by (auto simp: call_for_def nth_append)

section \<open>What keeps the invariant\<close>

text \<open>A change of an area within its task; a new task where no callback relies on the old one.\<close>

lemma ra_inv_area:
  assumes "ra_inv F cs as cbs ar" and "ba_sec_bg b = ba_sec_bg (ar i)" "ba_name b = ba_name (ar i)"
    and mono: "\<And>sec n. sector_ok F (ar i) sec n \<Longrightarrow> sector_ok F b sec n"
    and "sectors_ok F b" "calls_ok cs i b"
  shows "ra_inv F cs as cbs (ar(i := b))"
proof -
  have "cb_ok F cs as (ar(i := b)) c ph" if "cb_ok F cs as ar c ph" for c ph
    using that call_for_cong [OF assms(2,3)] mono assms(3) by (cases ph) auto
  with assms show ?thesis by (auto simp: ra_inv_def)
qed

lemma ra_inv_reset:
  assumes "ra_inv F cs as cbs ar" and "\<And>n ph. map_of cbs n = Some ph \<Longrightarrow> \<not> claims (cs ! n) ph i"
    and "sectors_ok F b" "calls_ok cs i b"
  shows "ra_inv F cs as cbs (ar(i := b))"
proof -
  have "cb_ok F cs as (ar(i := b)) c ph" if "cb_ok F cs as ar c ph" "\<not> claims c ph i" for c ph
    using that by (cases ph) auto
  with assms show ?thesis by (auto simp: ra_inv_def)
qed

lemma ra_inv_call:
  assumes "ra_inv F cs as cbs ar"
  shows "ra_inv F (cs @ [c]) (as @ [A_Pending]) cbs ar"
proof -
  have "cb_ok F (cs @ [c]) (as @ [A_Pending]) ar d ph" if "cb_ok F cs as ar d ph" "length as = length cs" for d ph
    using that by (cases ph) (auto intro: call_for_append simp: nth_append call_for_def)
  moreover have "calls_ok (cs @ [c]) i (ar i)" for i
    using assms by (auto simp: ra_inv_def calls_ok_def intro: call_for_append)
  ultimately show ?thesis
    using assms by (auto simp: ra_inv_def nth_append less_Suc_eq)
qed

lemma ra_inv_go: "ra_inv F cs as cbs ar \<Longrightarrow> n < length cs \<Longrightarrow> cb_ok F cs as ar (cs ! n) ph \<Longrightarrow>
    ra_inv F cs as (smap_set n ph cbs) ar"
  by (auto simp: ra_inv_def)

lemma nth_update: "(xs[n := a]) ! f = (if n = f \<and> n < length xs then a else xs ! f)"
  by (cases "n < length xs") (auto simp: list_update_beyond)

lemma cb_ok_async:
  assumes "cb_ok F cs as ar c ph" and "as ! n = A_Pending \<or> a = A_Deleted" and "length as = length cs"
    and "a \<noteq> A_Pending"
  shows "cb_ok F cs (as[n := a]) ar c ph"
  using assms by (cases ph) (auto simp: nth_update)

lemma ra_inv_end: "ra_inv F cs as cbs ar \<Longrightarrow> ra_inv F cs (as[n := A_Deleted]) (smap_erase n cbs) ar"
  by (auto simp: ra_inv_def nth_update intro: cb_ok_async)

lemma ra_inv_answer:
  "ra_inv F cs as cbs ar \<Longrightarrow> n < length as \<Longrightarrow> as ! n = A_Pending \<Longrightarrow> (\<And>rp. reply = Some rp \<Longrightarrow> honest F (cs ! n) rp) \<Longrightarrow>
     ra_inv F cs (as[n := A_Ready reply]) (smap_set n Cb_Entered cbs) ar"
  by (auto simp: ra_inv_def nth_update intro: cb_ok_async)

lemma idleD: "idle i s \<Longrightarrow> map_of (ra_callbacks s) n = Some ph \<Longrightarrow> \<not> claims (ra_calls s ! n) ph i"
  by (auto simp: idle_def dest: map_of_SomeD)

text \<open>The same of states.\<close>

lemma ra_ok_set_area:
  assumes "ra_ok F s" and "ba_sec_bg b = ba_sec_bg (area i s)" "ba_name b = ba_name (area i s)"
    and "ba_mem b = ba_mem (area i s)" "ba_bufferd b = ba_bufferd (area i s)" and "calls_ok (ra_calls s) i b"
  shows "ra_ok F (set_area i b s)"
proof -
  note eq = sector_ok_cong [OF assms(2-4)]
  have "sectors_ok F b" using assms(1,5) eq by (simp add: ra_ok_def ra_inv_def sectors_ok_def area_areas)
  with assms eq show ?thesis by (auto simp: ra_ok_def area_areas intro!: ra_inv_area)
qed

lemma ra_ok_reset:
  "ra_ok F s \<Longrightarrow> idle i s \<Longrightarrow> sectors_ok F b \<Longrightarrow> calls_ok (ra_calls s) i b \<Longrightarrow> ra_ok F (set_area i b s)"
  by (auto simp: ra_ok_def intro!: ra_inv_reset dest: idleD)

lemma ra_ok_areaD: "ra_ok F s \<Longrightarrow> sectors_ok F (area i s) \<and> calls_ok (ra_calls s) i (area i s)"
  by (simp add: ra_ok_def ra_inv_def area_areas)

lemma ra_ok_cbD: "ra_ok F s \<Longrightarrow> map_of (ra_callbacks s) n = Some ph \<Longrightarrow>
    n < length (ra_calls s) \<and> cb_ok F (ra_calls s) (ra_async s) (areas s) (ra_calls s ! n) ph"
  by (simp add: ra_ok_def ra_inv_def)

lemma wp_cb_go: "ra_ok F s \<Longrightarrow> n < length (ra_calls s) \<Longrightarrow>
    cb_ok F (ra_calls s) (ra_async s) (areas s) (ra_calls s ! n) ph \<Longrightarrow> wp (cb_go n ph) (\<lambda>r s'. ra_ok F s') s"
  by (simp add: cb_go_def ra_ok_def ra_inv_go)

lemma wp_cb_end: "ra_ok F s \<Longrightarrow> wp (cb_end n) (\<lambda>r s'. ra_ok F s') s"
  by (simp add: cb_end_def ra_ok_def ra_inv_end)

lemma wp_reply_of: "wp (reply_of f) Q s = (case ra_async s ! f of
    A_Ready (Some rp) \<Rightarrow> Q (Val rp) s | A_Ready None \<Rightarrow> Q (Crash Null_Deref) s | _ \<Rightarrow> Q (Crash Use_After_Free) s)"
  by (simp add: reply_of_def split: async_state.splits option.splits)

lemma wp_fulfil_all: "wp (fulfil_all ps) (\<lambda>r s'. \<exists>qs. s' = s\<lparr>promises := qs\<rparr>) s"
proof (induction ps arbitrary: s)
  case Nil
  show ?case by (simp add: exI [of _ "promises s"])
next
  case (Cons p ps)
  have "\<exists>qs. s = s\<lparr>promises := qs\<rparr>" by (rule exI [of _ "promises s"]) simp
  with Cons.IH [of "s\<lparr>promises := (promises s)[p := Some False]\<rparr>"] show ?case
    by (auto simp: fulfil_def elim!: wp_mono)
qed

section \<open>Calls\<close>

lemma ra_ok_request:
  assumes "ra_ok F s"
  shows "ra_ok F (request_sector k i node filename oper s)"
proof -
  let ?c = "\<lparr>rc_sec = ba_cur_sec (area i s), rc_iop = Some node, rc_name = filename, rc_buf = i, rc_epoch = ba_epoch (area i s)\<rparr>"
  let ?s = "s\<lparr>ra_calls := ra_calls s @ [?c], ra_async := ra_async s @ [A_Pending],
    net_env := net_async k oper (sector_request filename (ba_cur_sec (area i s))) (net_env s)\<rparr>"
  have s: "ra_ok F ?s" using assms by (simp add: ra_ok_def ra_inv_call)
  have "calls_ok (ra_calls ?s) i (area i s)" using ra_ok_areaD [OF s, of i] by (simp add: area_areas)
  then have "ra_ok F (set_area i ((area i s)\<lparr>ba_onlink := ba_onlink (area i s) + 1, ba_cur_sec := ba_cur_sec (area i s) + 1\<rparr>) ?s)"
    by (intro ra_ok_set_area [OF s]) (simp_all add: area_areas calls_ok_def call_for_def)
  then show ?thesis by (simp add: request_sector_def Let_def)
qed

lemma request_frame:
  "call_for (ra_calls (request_sector k i node filename oper s)) i (area i (request_sector k i node filename oper s))
     (ba_cur_sec (area i s)) (length (ra_calls s)) \<longleftrightarrow> ba_sec_bg (area i s) \<le> ba_cur_sec (area i s) \<and> filename = ba_name (area i s)"
  "ba_name (area i (request_sector k i node filename oper s)) = ba_name (area i s)"
  "length (ra_calls (request_sector k i node filename oper s)) = Suc (length (ra_calls s))"
  "n < length (ra_calls s) \<Longrightarrow> ra_calls (request_sector k i node filename oper s) ! n = ra_calls s ! n"
  by (auto simp: request_sector_def Let_def call_for_def nth_append)

lemma ra_ok_store:
  assumes "ra_ok F s" "call_for (ra_calls s) i (area i s) sec m"
  shows "ra_ok F (store_call i sec m s)"
  unfolding store_call_def using assms ra_ok_areaD [OF assms(1), of i]
  by (intro ra_ok_set_area) (auto simp: calls_ok_def call_for_def)

lemma ra_ok_submits:
  "ra_ok F s \<Longrightarrow> ba_name (area i s) = filename \<Longrightarrow> ra_ok F (submit_sectors n k i node filename oper s)"
proof (induction n arbitrary: s)
  case (Suc n)
  have "ra_ok F (submit_sector k i node filename oper s)"
    unfolding submit_sector_def using Suc.prems ra_ok_areaD [OF Suc.prems(1), of i]
    by (intro ra_ok_store ra_ok_request) (simp_all add: request_frame calls_ok_def)
  moreover have "ba_name (area i (submit_sector k i node filename oper s)) = ba_name (area i s)"
    by (simp add: submit_sector_def store_call_def request_frame)
  ultimately show ?case using Suc by simp
qed simp

lemma wp_fetch_begin:
  "wp (fetch_begin i) (\<lambda>r s'. (\<exists>os. s' = s\<lparr>rpc_operators := os\<rparr>) \<and>
     (case r of Val (node, filename, oper) \<Rightarrow> filename = ba_name (area i s) | Crash c \<Rightarrow> True)) s"
proof -
  have "\<exists>os. s = s\<lparr>rpc_operators := os\<rparr>" by (rule exI [of _ "rpc_operators s"]) simp
  then show ?thesis by (auto simp: fetch_begin_def client_operator_def Let_def split: option.splits)
qed

lemma wp_fetch_remote: "ra_ok F s \<Longrightarrow> wp (fetch_sector_remote k i) (\<lambda>r s'. ra_ok F s') s"
  unfolding fetch_sector_remote_def wp_bnd [of "fetch_begin _"]
  by (rule wp_mono [OF wp_fetch_begin])
    (auto split: outcome.splits intro!: ra_ok_submits simp: area_areas)

lemma wp_set_task:
  assumes "ra_ok F s" "idle i s"
  shows "wp (set_task k iop name i sec_bg sec_max epoch0) (\<lambda>r s'. ra_ok F s') s"
proof -
  let ?b = "area i s"
  have cur: "ra_ok F (set_area i (?b\<lparr>ba_cursor := x\<rparr>) s)" for x
    using assms ra_ok_areaD [OF assms(1), of i] by (intro ra_ok_set_area) (auto simp: calls_ok_def call_for_def)
  have new: "sectors_ok F (start_area iop name sec_bg sec_max e b')" "calls_ok cs i (start_area iop name sec_bg sec_max e b')"
    for e cs b' by (simp_all add: start_area_def sectors_ok_def calls_ok_def)
  have rest: "wp (bnd (fulfil_all ps) (\<lambda>_. bnd (outside (net_junk k)) (\<lambda>junk.
       bnd (update (set_area i (start_area iop name sec_bg sec_max e (alloc_area junk sec_max ?b)))) (\<lambda>_.
       bnd (fetch_sector_remote k i) (\<lambda>_. ret True))))) (\<lambda>r s'. ra_ok F s') s" for ps e
    unfolding wp_bnd [of "fulfil_all ps"]
    by (rule wp_mono [OF wp_fulfil_all])
      (auto split: outcome.splits prod.splits intro!: wp_mono [OF wp_fetch_remote] ra_ok_reset new simp: assms)
  show ?thesis
    unfolding set_task_def Let_def using assms cur rest by (auto simp del: wp_bnd simp: wp_bnd [of "asks _"] wp_bnd [of "update _"])
qed

section \<open>The callback\<close>

lemma wp_cb_take:
  assumes "ra_ok F s" and "n < length (ra_calls s)" "c = ra_calls s ! n"
  shows "wp (cb_take n c) (\<lambda>r s'. ra_ok F s') s"
proof -
  let ?i = "rc_buf c"
  let ?b = "area ?i s"
  let ?b' = "?b\<lparr>ba_onlink := u64 (int (ba_onlink ?b) - 1), ft_res_tab := smap_erase (rc_sec c) (ft_res_tab ?b)\<rparr>"
  have b: "calls_ok (ra_calls s) ?i ?b" using ra_ok_areaD [OF assms(1)] by simp
  then have s: "ra_ok F (set_area ?i ?b' s)"
    using assms(1) by (intro ra_ok_set_area) (auto simp: calls_ok_def call_for_def split: if_splits)
  have "wp (cb_go n (Cb_Taken f)) (\<lambda>r s'. ra_ok F s') (set_area ?i ?b' s)" if "map_of (ft_res_tab ?b) (rc_sec c) = Some f" for f
    using b that assms(2) by (intro wp_cb_go [OF s]) (simp_all add: calls_ok_def call_for_def flip: assms(3))
  note go = this
  show ?thesis
  proof (cases "ba_epoch ?b = rc_epoch c")
    case True
    then show ?thesis
      using go wp_cb_end [OF s] by (cases "map_of (ft_res_tab ?b) (rc_sec c)") (simp_all add: cb_take_def Let_def wp_steps del: wp_bnd)
  qed (simp add: cb_take_def Let_def wp_cb_end [OF assms(1)])
qed

text \<open>Copying an honest reply into its own sector leaves every other sector as it is.\<close>

lemma sector_ok_overlay:
  assumes "ba_mem b = Some m" and "ba_sec_bg b \<le> sec" and "length bytes \<le> SECTOR"
    and "\<And>j. j < length bytes \<Longrightarrow> bytes ! j = F (ba_name b) (sec * SECTOR + j)"
  defines "b' \<equiv> b\<lparr>ba_mem := Some (overlay (nat (sector_addr b sec)) bytes m)\<rparr>"
  shows "sector_ok F b' sec (length bytes)" and "sector_ok F b x n \<Longrightarrow> sector_ok F b' x n"
proof -
  have a: "nat (sector_addr b sec) = (sec - ba_sec_bg b) * SECTOR"
    using assms(2) by (simp add: sector_addr_def nat_mult_distrib nat_diff_distrib')
  show "sector_ok F b' sec (length bytes)"
    using assms(1-4) by (simp add: sector_ok_def b'_def a overlay_def)
  assume x: "sector_ok F b x n"
  then have bounds: "ba_sec_bg b \<le> x" "n \<le> SECTOR" by (simp_all add: sector_ok_def)
  have "\<not> ((sec - ba_sec_bg b) * SECTOR \<le> (x - ba_sec_bg b) * SECTOR + j \<and>
      (x - ba_sec_bg b) * SECTOR + j < (sec - ba_sec_bg b) * SECTOR + length bytes)" if "j < n" "x \<noteq> sec" for j
    using that bounds assms(2,3) by auto
  moreover have "(sec - ba_sec_bg b) * SECTOR \<le> (sec - ba_sec_bg b) * SECTOR + j" for j by simp
  ultimately show "sector_ok F b' x n"
    using x assms(1,4) by (cases "x = sec") (auto simp: sector_ok_def b'_def a overlay_def)
qed

lemma wp_cb_copy:
  assumes "ra_ok F s" and "map_of (ra_callbacks s) n = Some (Cb_Taken f)" "c = ra_calls s ! n"
  shows "wp (cb_copy n c f) (\<lambda>r s'. ra_ok F s') s"
proof (cases "ra_async s ! f")
  case (A_Ready p)
  show ?thesis
  proof (cases p)
    case (Some rp)
    let ?i = "rc_buf c"
    let ?b = "area ?i s"
    let ?n = "nat (rp_err_code rp)"
    let ?bytes = "take ?n (rp_data rp @ [CHR 0x00])"
    have n: "n < length (ra_calls s)" and f: "call_for (ra_calls s) ?i ?b (rc_sec c) f"
      using ra_ok_cbD [OF assms(1,2)] assms(3) by (simp_all add: area_areas)
    have "honest F (ra_calls s ! f) rp"
      using assms(1) f A_Ready Some by (simp add: ra_ok_def ra_inv_def call_for_def)
    with f have len: "?n \<le> SECTOR" "?n \<le> length (rp_data rp)" "length ?bytes = ?n"
      and eq: "j < ?n \<Longrightarrow> ?bytes ! j = F (ba_name ?b) (rc_sec c * SECTOR + j)" for j
      by (auto simp: honest_def Let_def nth_append call_for_def)
    have "wp (cb_go n (Cb_Copied f)) (\<lambda>r s'. ra_ok F s')
        (set_area ?i (?b\<lparr>ba_mem := Some (overlay (nat (sector_addr ?b (rc_sec c))) ?bytes m)\<rparr>) s)"
      if m: "ba_mem ?b = Some m" for m
    proof -
      let ?b' = "?b\<lparr>ba_mem := Some (overlay (nat (sector_addr ?b (rc_sec c))) ?bytes m)\<rparr>"
      have bg: "ba_sec_bg ?b \<le> rc_sec c" using f by (simp add: call_for_def)
      note ok = sector_ok_overlay [OF m bg, of ?bytes F]
      have new: "sector_ok F ?b' (rc_sec c) ?n" and old: "sector_ok F ?b x y \<Longrightarrow> sector_ok F ?b' x y" for x y
        using ok len eq by simp_all
      have "sectors_ok F ?b'" "calls_ok (ra_calls s) ?i ?b'"
        using ra_ok_areaD [OF assms(1), of ?i] old by (auto simp: sectors_ok_def calls_ok_def call_for_def)
      then have s: "ra_ok F (set_area ?i ?b' s)"
        using assms(1) old by (auto simp: ra_ok_def area_areas intro!: ra_inv_area)
      show ?thesis using n f new A_Ready Some assms(3) by (intro wp_cb_go [OF s]) (auto simp: call_for_def)
    qed
    with A_Ready Some assms(1) show ?thesis
      by (auto simp: cb_copy_def wp_reply_of area_write_def intro: wp_cb_end split: option.splits)
  qed (use A_Ready assms(1) in \<open>simp add: cb_copy_def wp_reply_of\<close>)
qed (use assms(1) in \<open>auto simp: cb_copy_def wp_reply_of intro: wp_cb_end\<close>)

lemma wp_cb_mark:
  assumes "ra_ok F s" and "map_of (ra_callbacks s) n = Some (Cb_Copied f)" "c = ra_calls s ! n"
  shows "wp (cb_mark n c f) (\<lambda>r s'. ra_ok F s') s"
proof (cases "\<exists>rp. ra_async s ! f = A_Ready (Some rp)")
  case True
  then obtain rp where rp: "ra_async s ! f = A_Ready (Some rp)" by blast
  let ?i = "rc_buf c"
  let ?b = "area ?i s"
  have n: "n < length (ra_calls s)" "sector_ok F ?b (rc_sec c) (nat (rp_err_code rp))"
    using ra_ok_cbD [OF assms(1,2)] assms(3) rp by (simp_all add: area_areas)
  let ?b' = "\<lambda>t. ?b\<lparr>ba_bufferd := smap_set (rc_sec c) (nat (rp_err_code rp)) (ba_bufferd ?b), prom_waiting_tab := t\<rparr>"
  have s: "ra_ok F (set_area ?i (?b' t) s)" for t
  proof -
    have eq: "sector_ok F (?b' t) = sector_ok F ?b" by (rule sector_ok_cong) simp_all
    with n(2) ra_ok_areaD [OF assms(1), of ?i] have "sectors_ok F (?b' t)" "calls_ok (ra_calls s) ?i (?b' t)"
      by (auto simp: sectors_ok_def calls_ok_def call_for_def)
    with assms(1) eq show ?thesis by (auto simp: ra_ok_def area_areas intro!: ra_inv_area)
  qed
  from s [of "prom_waiting_tab ?b"]
  have s0: "ra_ok F (set_area ?i (?b\<lparr>ba_bufferd := smap_set (rc_sec c) (nat (rp_err_code rp)) (ba_bufferd ?b)\<rparr>) s)" by simp
  from s s0 n(1) rp show ?thesis
    by (auto simp: cb_mark_def wp_reply_of Let_def fulfil_def intro!: wp_cb_go split: option.splits)
next
  case False
  with assms(1) show ?thesis by (auto simp: cb_mark_def wp_reply_of Let_def split: async_state.splits option.splits)
qed

lemma wp_cb_decide: "ra_ok F s \<Longrightarrow> n < length (ra_calls s) \<Longrightarrow> wp (cb_decide n c f) (\<lambda>r s'. ra_ok F s') s"
  by (auto simp: cb_decide_def wp_reply_of Let_def intro: wp_cb_end wp_cb_go split: async_state.splits option.splits)

lemma wp_cb_round:
  assumes "ra_ok F s" and "n < length (ra_calls s)" "filename = ba_name (area i s)"
  shows "wp (cb_round k n i node filename oper) (\<lambda>r s'. ra_ok F s') s"
proof -
  have "wp (cb_go n (Cb_Store i node filename oper (ba_cur_sec (area i s)) (length (ra_calls s)))) (\<lambda>r s'. ra_ok F s')
      (request_sector k i node filename oper s)"
    using ra_ok_areaD [OF assms(1), of i] assms(2,3)
    by (intro wp_cb_go ra_ok_request [OF assms(1)]) (simp_all add: request_frame calls_ok_def flip: area_areas)
  with assms(1) show ?thesis by (simp add: cb_round_def wp_cb_end)
qed

lemma wp_cb_step:
  assumes "ra_ok F s" and "map_of (ra_callbacks s) n = Some ph" "c = ra_calls s ! n"
    and idle: "\<And>sec m. ph = Cb_Task sec m \<Longrightarrow> idle (\<not> rc_buf c) s"
  shows "wp (cb_step k n c ph) (\<lambda>r s'. ra_ok F s') s"
proof -
  have n: "n < length (ra_calls s)" and ok: "cb_ok F (ra_calls s) (ra_async s) (areas s) c ph"
    using ra_ok_cbD [OF assms(1,2)] assms(3) by simp_all
  show ?thesis
  proof (cases ph)
    case (Cb_Task sec m)
    then show ?thesis
      by (auto intro!: wp_mono [OF wp_set_task [OF assms(1) idle [OF Cb_Task]]] wp_cb_end split: outcome.splits)
  next
    case (Cb_Fetch i)
    have "wp (cb_go n (Cb_Rounds i node (ba_name (area i s)) oper)) (\<lambda>r s'. ra_ok F s') (s\<lparr>rpc_operators := os\<rparr>)"
      for node oper os using assms(1) n by (intro wp_cb_go) (simp_all add: area_areas)
    with assms(1) Cb_Fetch show ?thesis
      by (auto simp: wp_bnd [of "fetch_begin _"] simp del: wp_bnd intro!: wp_mono [OF wp_fetch_begin] split: outcome.splits)
  next
    case (Cb_Store i node filename oper sec m)
    have s: "ra_ok F (store_call i sec m s)" using assms(1) ok Cb_Store by (intro ra_ok_store) (simp_all add: area_areas)
    have "wp (cb_go n (Cb_Rounds i node filename oper)) (\<lambda>r s'. ra_ok F s') (store_call i sec m s)"
      using n ok Cb_Store by (intro wp_cb_go [OF s]) (simp_all add: store_call_def area_areas)
    with Cb_Store show ?thesis by simp
  qed (use assms n ok in \<open>auto intro: wp_cb_take wp_cb_copy wp_cb_mark wp_cb_decide wp_cb_round simp: area_areas\<close>)
qed

section \<open>The threads\<close>

text \<open>An answer is honest, or the call failed.\<close>

fun honest_event :: "(string \<Rightarrow> nat \<Rightarrow> char) \<Rightarrow> 'c client \<Rightarrow> ra_event \<Rightarrow> bool" where
  "honest_event F s (Ra_Answer n reply) = (\<forall>rp. reply = Some rp \<longrightarrow> n < length (ra_calls s) \<longrightarrow> honest F (ra_calls s ! n) rp)"
| "honest_event F s _ = True"

text \<open>The areas that a step may give another task, and a step that does so only where no callback is in the way.\<close>

fun resets :: "'c client \<Rightarrow> ra_event \<Rightarrow> bool \<Rightarrow> bool" where
  "resets s (Ra_Task iop filename i sec sec_max epoch) j = (j = i)"
| "resets s (Ra_Clear filename) j = (filename = ba_name (buf_0 s))"
| "resets s (Ra_Callback n) j =
     (case map_of (ra_callbacks s) n of Some (Cb_Task sec sec_max) \<Rightarrow> j = (\<not> rc_buf (ra_calls s ! n)) | _ \<Rightarrow> False)"
| "resets s _ j = False"

definition undisturbed :: "'c client \<Rightarrow> ra_event \<Rightarrow> bool" where
  "undisturbed s x \<longleftrightarrow> (\<forall>i. resets s x i \<longrightarrow> idle i s)"

text \<open>The states a client comes to by steps that satisfy \<open>P\<close>; a process that crashes takes no further step.\<close>

inductive ra_reach :: "('c client \<Rightarrow> ra_event \<Rightarrow> bool) \<Rightarrow> 'c net \<Rightarrow> 'c client \<Rightarrow> 'c client \<Rightarrow> bool" for P k s0 where
  start: "ra_reach P k s0 s0"
| step: "ra_reach P k s0 s \<Longrightarrow> P s x \<Longrightarrow> ra_step k x s = (Val (), s') \<Longrightarrow> ra_reach P k s0 s'"

lemma wp_clear_buf:
  assumes "ra_ok F s" and "\<And>i. name = ba_name (buf_0 s) \<Longrightarrow> idle i s"
  shows "wp (clear_buf name) (\<lambda>r s'. ra_ok F s') s"
proof -
  have area: "wp (clear_area e i) (\<lambda>r s'. ra_ok F s' \<and> idle j s') s" if "ra_ok F s" "idle i s" "idle j s" for e i j s
    unfolding clear_area_def wp_bnd_asks wp_bnd [of "fulfil_all _"]
    by (rule wp_mono [OF wp_fulfil_all])
      (use that in \<open>auto intro!: ra_ok_reset split: outcome.splits simp: sectors_ok_def calls_ok_def\<close>)
  let ?s = "\<lambda>e. s\<lparr>buf_0 := buf_0 s\<lparr>ba_epoch := e\<rparr>\<rparr>"
  have "?s e = set_area False ((area False s)\<lparr>ba_epoch := e\<rparr>) s" for e by (simp add: set_area_def area_def)
  then have s: "ra_ok F (?s e)" "idle i (?s e) = idle i s" for e i
    using assms(1) ra_ok_areaD [OF assms(1), of False] by (auto intro!: ra_ok_set_area simp: calls_ok_def call_for_def)
  have "wp (bnd (clear_area e False) (\<lambda>_. clear_area e True)) (\<lambda>r s'. ra_ok F s') (?s e')" if "name = ba_name (buf_0 s)" for e e'
    using s assms(2) [OF that] unfolding wp_bnd [of "clear_area _ _"]
    by (intro wp_mono [OF area [of _ False True]]) (auto split: outcome.splits intro: wp_mono [OF area [of _ True True]])
  with assms(1) show ?thesis by (auto simp: clear_buf_def wp_bnd_asks wp_bnd_update simp del: wp_bnd)
qed

lemma ra_ok_step:
  assumes "ra_ok F s" "honest_event F s x" "undisturbed s x"
  shows "wp (ra_step k x) (\<lambda>r s'. ra_ok F s') s"
proof (cases x)
  case (Ra_Task iop filename i sec sec_max epoch)
  with assms(3) have "idle i s" by (simp add: undisturbed_def)
  with Ra_Task show ?thesis by (auto intro!: wp_mono [OF wp_set_task [OF assms(1)]] split: outcome.splits)
next
  case (Ra_Clear filename)
  with assms show ?thesis by (auto simp: undisturbed_def intro!: wp_clear_buf)
next
  case (Ra_Callback n)
  have "wp (cb_step k n (ra_calls s ! n) ph) (\<lambda>r s'. ra_ok F s') s" if "map_of (ra_callbacks s) n = Some ph" for ph
    using assms that Ra_Callback by (intro wp_cb_step) (auto simp: undisturbed_def)
  with assms(1) Ra_Callback show ?thesis by (auto simp: ra_callback_def split: option.splits)
next
  case (Ra_Answer n reply)
  have "length (ra_async s) = length (ra_calls s)" using assms(1) by (simp add: ra_ok_def ra_inv_def)
  with assms Ra_Answer show ?thesis by (auto simp: ra_answer_def ra_ok_def intro!: ra_inv_answer)
next
  case (Ra_Copy i offset n)
  have "ra_ok F (set_area i ((area i s)\<lparr>ba_cursor := y\<rparr>) s)" for y
    using assms(1) ra_ok_areaD [OF assms(1), of i] by (intro ra_ok_set_area) (auto simp: calls_ok_def call_for_def)
  from this this [of "ba_cursor (area i s)"] Ra_Copy assms(1) show ?thesis by (auto simp: copy_out_def area_read_def Let_def split: option.splits)
qed (use assms(1) ra_ok_areaD [OF assms(1)] in
    \<open>auto simp: wait_begin_def wait_end_def Let_def calls_ok_def call_for_def area_areas intro!: ra_ok_set_area\<close>)

lemma ra_ok_reach:
  assumes "ra_reach P k s0 s" and "ra_ok F s0" and "\<And>s x. P s x \<Longrightarrow> honest_event F s x \<and> undisturbed s x"
  shows "ra_ok F s"
  using assms(1)
proof induction
  case (step s x s')
  with assms(3) [OF step(2)] show ?case by (auto dest: wp_D [OF ra_ok_step])
qed (rule assms(2))

lemma ra_ok_start: "ra_ok F (snd (readahead_start k (new_client e)))"
  by (simp add: readahead_start_def update_def new_client_def ra_ok_def ra_inv_def areas_def area_def new_BufArea_def
      sectors_ok_def calls_ok_def)


section \<open>A run\<close>

text \<open>A file of which the first sector, three bytes, is read ahead. The callback is taken step by step.\<close>

definition sample_files :: "string \<Rightarrow> nat \<Rightarrow> char" where
  "sample_files name j = (if name = ''/s1/f'' \<and> j < 3 then ''abc'' ! j else CHR ''z'')"

definition sample_node :: ioproxy_node where
  "sample_node = \<lparr>iop_rpc_port = 9095, iop_data_port = 9096, iop_ip = ''10.0.0.2'', iop_name = ''p2'',
     iop_status = 0, iop_uuid = ''u2'', iop_cid = ''2''\<rparr>"

definition sample_task :: "string \<Rightarrow> ra_event" where
  "sample_task name = Ra_Task (Some sample_node) name False 0 1 (2 ^ 64 - 1)"

definition sample_reply :: op_reply where
  "sample_reply = new_OpReply\<lparr>rp_err_code := 3, rp_content := R_Data ''abc''\<rparr>"

definition sample_call :: "string \<Rightarrow> nat \<Rightarrow> ra_call" where
  "sample_call name epoch = \<lparr>rc_sec = 0, rc_iop = Some sample_node, rc_name = name, rc_buf = False, rc_epoch = epoch\<rparr>"

definition sample_area :: "string \<Rightarrow> nat \<Rightarrow> nat \<Rightarrow> (nat \<times> nat) list \<Rightarrow> string \<Rightarrow> (nat \<times> nat) list \<Rightarrow> buf_area" where
  "sample_area name epoch onlink calls bytes arrived = new_BufArea\<lparr>ba_epoch := epoch, ba_max_sec := 1, ba_cur_sec := 1,
     ba_onlink := onlink, ba_iop := Some sample_node, ba_name := name, ft_res_tab := calls,
     ba_mem := Some (overlay 0 bytes (\<lambda>j. CHR 0x00)), ba_alloc := SECTOR, ba_bufferd := arrived\<rparr>"

definition sample_client :: "ra_call list \<Rightarrow> async_state list \<Rightarrow> (nat \<times> cb_phase) list \<Rightarrow> buf_area \<Rightarrow> unit client" where
  "sample_client cs as cbs b = (new_client ())\<lparr>buf_0 := b, rpc_operators := [(''u2'' @ nat_dec 100, address sample_node)],
     ra_calls := cs, ra_async := as, ra_callbacks := cbs\<rparr>"

lemma start_dead_net: "snd (readahead_start dead_net (new_client ())) = new_client ()"
  by (simp add: readahead_start_def update_def dead_net_def new_client_def)

lemma submit_sectors_rec:
  "0 < n \<Longrightarrow> wants_sector i s \<Longrightarrow>
     submit_sectors n k i node name oper s = submit_sectors (n - 1) k i node name oper (submit_sector k i node name oper s)"
  "\<not> wants_sector i s \<Longrightarrow> submit_sectors n k i node name oper s = s"
  by (cases n; simp)+

lemmas sample_defs = sample_task_def sample_call_def sample_area_def sample_client_def sample_node_def set_task_def new_client_def
  area_def set_area_def new_BufArea_def add64_def fetch_sector_remote_def fetch_begin_def client_operator_def submit_sector_def
  request_sector_def store_call_def wants_sector_def dead_net_def start_area_def alloc_area_def i32_def in_area_def
  submit_sectors_rec u64_def

lemma wp_run: "wp m (\<lambda>r s'. r = Val a \<and> s' = t) s \<Longrightarrow> m s = (Val a, t)"
  by (simp add: wp_def split: prod.splits)

lemma sample_start:
  "ra_step dead_net (sample_task f) (new_client ()) =
     (Val (), sample_client [sample_call f 1] [A_Pending] [] (sample_area f 1 1 [(0, 0)] [] []))" if "f \<noteq> []"
  by (rule wp_run) (use that in \<open>simp add: sample_defs overlay_def Let_def\<close>)

lemma sample_answer:
  "ra_step dead_net (Ra_Answer 0 reply) (sample_client cs [A_Pending] [] b) =
     (Val (), sample_client cs [A_Ready reply] [(0, Cb_Entered)] b)"
  by (rule wp_run) (simp add: sample_client_def ra_answer_def)

lemma sample_take:
  "ra_step dead_net (Ra_Callback 0) (sample_client [sample_call f 1] as [(0, Cb_Entered)] (sample_area f 1 1 [(0, 0)] [] [])) =
     (Val (), sample_client [sample_call f 1] as [(0, Cb_Taken 0)] (sample_area f 1 0 [] [] []))"
  by (rule wp_run) (simp add: ra_callback_def cb_take_def cb_go_def smap_erase_def sample_defs Let_def)

lemma sample_copy:
  "ra_step dead_net (Ra_Callback 0)
     (sample_client (sample_call f 1 # cs) (A_Ready (Some sample_reply) # as) [(0, Cb_Taken 0)] (sample_area g e n calls [] [])) =
     (Val (), sample_client (sample_call f 1 # cs) (A_Ready (Some sample_reply) # as) [(0, Cb_Copied 0)]
        (sample_area g e n calls ''abc'' []))"
  by (rule wp_run) (simp add: ra_callback_def cb_copy_def cb_go_def wp_reply_of sample_reply_def new_OpReply_def rp_data_def
      sector_addr_def area_write_def overlay_def sample_client_def sample_area_def sample_call_def new_client_def
      area_def set_area_def new_BufArea_def)

lemma sample_mark:
  "ra_step dead_net (Ra_Callback 0)
     (sample_client (sample_call f 1 # cs) (A_Ready (Some sample_reply) # as) [(0, Cb_Copied 0)] (sample_area g e n calls bytes [])) =
     (Val (), sample_client (sample_call f 1 # cs) (A_Ready (Some sample_reply) # as) [(0, Cb_Marked 0)]
        (sample_area g e n calls bytes [(0, 3)]))"
  by (rule wp_run) (simp add: ra_callback_def cb_mark_def cb_go_def wp_reply_of sample_reply_def new_OpReply_def
      Let_def sample_client_def sample_area_def sample_call_def new_client_def area_def set_area_def new_BufArea_def)

lemma sample_other:
  "ra_step dead_net (sample_task g) (sample_client [sample_call f 1] [a] cbs (sample_area f 1 0 [] [] [])) =
     (Val (), sample_client [sample_call f 1, sample_call g 2] [a, A_Pending] cbs (sample_area g 2 1 [(0, 1)] [] []))" if "f \<noteq> g"
  by (rule wp_run) (use that in \<open>simp add: sample_defs overlay_def Let_def\<close>)

definition sample_taken :: "unit client" where
  "sample_taken = sample_client [sample_call ''/s1/f'' 1] [A_Ready (Some sample_reply)] [(0, Cb_Taken 0)]
     (sample_area ''/s1/f'' 1 0 [] [] [])"

definition sample_read_ahead :: "unit client" where
  "sample_read_ahead = sample_client [sample_call ''/s1/f'' 1] [A_Ready (Some sample_reply)] [(0, Cb_Marked 0)]
     (sample_area ''/s1/f'' 1 0 [] ''abc'' [(0, 3)])"

text \<open>The first sector is requested, answered, and the callback takes the future; undisturbed it goes on.\<close>

lemma sample_honest: "honest sample_files (sample_call ''/s1/f'' (Suc 0)) sample_reply"
  by (auto simp: honest_def sample_call_def sample_reply_def sample_files_def rp_data_def new_OpReply_def Let_def)

lemma sample_reach_taken:
  assumes "\<And>s x. honest_event sample_files s x \<Longrightarrow> undisturbed s x \<Longrightarrow> P s x"
  shows "ra_reach P dead_net (new_client ()) sample_taken"
proof -
  have quiet: "P s x" if "honest_event sample_files s x" "\<And>i. resets s x i \<Longrightarrow> ra_callbacks s = []" for s x
    using that by (intro assms) (auto simp: undisturbed_def idle_def)
  let ?s1 = "sample_client [sample_call ''/s1/f'' 1] [A_Pending] [] (sample_area ''/s1/f'' 1 1 [(0, 0)] [] [])"
  have "P (new_client ()) (sample_task ''/s1/f'')" by (rule quiet) (simp_all add: sample_task_def new_client_def)
  from ra_reach.step [where P = P, OF ra_reach.start this sample_start [of "''/s1/f''"]] have 1: "ra_reach P dead_net (new_client ()) ?s1" by simp
  have "P ?s1 (Ra_Answer 0 (Some sample_reply))" by (rule quiet) (simp_all add: sample_client_def sample_honest)
  from ra_reach.step [OF 1 this sample_answer] have 2: "ra_reach P dead_net (new_client ())
    (sample_client [sample_call ''/s1/f'' 1] [A_Ready (Some sample_reply)] [(0, Cb_Entered)] (sample_area ''/s1/f'' 1 1 [(0, 0)] [] []))" .
  show ?thesis
    unfolding sample_taken_def by (rule ra_reach.step [OF 2 _ sample_take]) (rule quiet; simp add: sample_client_def)
qed

lemma sample_reach:
  "ra_reach (\<lambda>s x. honest_event sample_files s x \<and> undisturbed s x) dead_net (new_client ()) sample_read_ahead"
proof -
  let ?P = "\<lambda>s x. honest_event sample_files s x \<and> undisturbed s x"
  have quiet: "?P (sample_client cs as [(0, ph)] b) (Ra_Callback 0)" if "\<And>x y. ph \<noteq> Cb_Task x y" for cs as ph b
    using that by (auto simp: undisturbed_def sample_client_def split: cb_phase.splits)
  have "ra_reach ?P dead_net (new_client ()) sample_taken" by (rule sample_reach_taken) simp
  note ra_reach.step [OF this [unfolded sample_taken_def] quiet sample_copy]
  from ra_reach.step [OF this quiet sample_mark] show ?thesis by (simp add: sample_read_ahead_def)
qed

lemma sample_read:
  "lookup (area False sample_read_ahead) ''/s1/f'' 0 = IN_BUFFER"
  "map_of (ba_bufferd (area False sample_read_ahead)) 0 = Some 3" "ba_name (buf_0 sample_read_ahead) = ''/s1/f''"
  "\<not> in_area (buf_0 sample_read_ahead) 2" "\<not> in_area (buf_1 sample_read_ahead) 2"
  by (simp_all add: sample_read_ahead_def sample_client_def sample_area_def lookup_def in_area_def area_def
      new_BufArea_def new_client_def add64_def)


section \<open>What can go wrong\<close>

text \<open>
  Another file is given to the area after a callback has taken its future, before the callback copies and marks:
  the area then has a sector of the new file that has arrived with the bytes of the old one. All answers were
  honest.
\<close>

theorem late_callback_mixes_files:
  "\<exists>s. ra_reach (honest_event sample_files) dead_net (snd (readahead_start dead_net (new_client ()))) s \<and>
     lookup (area False s) ''/s1/g'' 0 = IN_BUFFER \<and> map_of (ba_bufferd (area False s)) 0 = Some 3 \<and>
     wp (copy_out False 0 3) (\<lambda>r s'. r = Val (IN_BUFFER, Some ''abc'')) s \<and>
     map (sample_files ''/s1/g'') [0..<3] = ''zzz''"
proof -
  let ?P = "honest_event sample_files"
  let ?s = "sample_client [sample_call ''/s1/f'' 1, sample_call ''/s1/g'' 2] [A_Ready (Some sample_reply), A_Pending]
    [(0, Cb_Marked 0)] (sample_area ''/s1/g'' 2 1 [(0, 1)] ''abc'' [(0, 3)])"
  have upt: "[0..<3] = [0, 1, 2::nat]" by (simp add: upt_rec)
  have any: "?P s (Ra_Callback n)" "?P s (sample_task g)" for s :: "unit client" and n g by (simp_all add: sample_task_def)
  have "ra_reach ?P dead_net (new_client ()) sample_taken" by (rule sample_reach_taken)
  note ra_reach.step [OF this [unfolded sample_taken_def] any(2) sample_other [of "''/s1/f''" "''/s1/g''"]]
  then have "ra_reach ?P dead_net (new_client ()) (sample_client [sample_call ''/s1/f'' 1, sample_call ''/s1/g'' 2]
    [A_Ready (Some sample_reply), A_Pending] [(0, Cb_Taken 0)] (sample_area ''/s1/g'' 2 1 [(0, 1)] [] []))" by simp
  note ra_reach.step [OF this any(1) sample_copy]
  from ra_reach.step [OF this any(1) sample_mark] have "ra_reach ?P dead_net (new_client ()) ?s" .
  moreover have "lookup (area False ?s) ''/s1/g'' 0 = IN_BUFFER" "map_of (ba_bufferd (area False ?s)) 0 = Some 3"
    by (simp_all add: sample_client_def sample_area_def area_def lookup_def in_area_def new_BufArea_def add64_def)
  moreover have "wp (copy_out False 0 3) (\<lambda>r s'. r = Val (IN_BUFFER, Some ''abc'')) ?s"
  proof -
    have "sector_left (area False ?s) 0 = 3" "sector_addr (area False ?s) 0 = 0"
      "area False ?s = sample_area ''/s1/g'' 2 1 [(0, 1)] ''abc'' [(0, 3)]"
      by (simp_all add: sample_client_def sample_area_def area_def sector_addr_def sector_left_def new_BufArea_def u64_def)
    then show ?thesis by (simp add: copy_out_def area_read_def Let_def upt sample_area_def overlay_def new_BufArea_def)
  qed
  moreover have "map (sample_files ''/s1/g'') [0..<3] = ''zzz''" by (simp add: upt sample_files_def)
  ultimately show ?thesis unfolding start_dead_net by (intro exI [of _ ?s] conjI)
qed

text \<open>A read of the file that is being read ahead, at a sector outside both areas, leaves a function at its
  end where it must return a status.\<close>

theorem readahead_without_sector:
  assumes "rpath = ba_name (buf_0 s)" and "\<not> in_area (buf_0 s) (offset div SECTOR)"
    and "rpath \<noteq> ba_name (buf_1 s) \<or> \<not> in_area (buf_1 s) (offset div SECTOR)"
  shows "wp (ra_status_of k rpath offset n) (\<lambda>r s'. r = Crash Missing_Return \<and> s' = s) s"
  using assms by (auto simp: ra_status_of_def fetch_cache_def fetch_from_def lookup_def area_def Let_def)

theorem readahead_without_sector_witness:
  "wp (ra_status_of dead_net ''/s1/f'' 600000 4096) (\<lambda>r s'. r = Crash Missing_Return) sample_read_ahead"
proof -
  have "(600000::nat) div SECTOR = 2" by simp
  with readahead_without_sector [of "''/s1/f''" sample_read_ahead 600000 dead_net 4096] sample_read
  show ?thesis by (auto elim: wp_mono)
qed

text \<open>When the call for a sector fails, its callback dereferences the null pointer it is given.\<close>

theorem failed_prefetch_is_fatal:
  assumes "map_of (ra_callbacks s) n = Some (Cb_Taken f)" and "ra_async s ! f = A_Ready None"
  shows "wp (ra_step k (Ra_Callback n)) (\<lambda>r s'. r = Crash Null_Deref) s"
  using assms by (simp add: ra_callback_def cb_copy_def wp_reply_of)

theorem failed_prefetch_is_fatal_witness:
  "wp (ra_steps dead_net [sample_task ''/s1/f'', Ra_Answer 0 None, Ra_Callback 0, Ra_Callback 0])
     (\<lambda>r s'. r = Crash Null_Deref) (new_client ())"
proof -
  let ?s = "sample_client [sample_call ''/s1/f'' 1] [A_Ready None] [(0, Cb_Taken 0)] (sample_area ''/s1/f'' 1 0 [] [] [])"
  have "wp (ra_step dead_net (Ra_Callback 0)) (\<lambda>r s'. r = Crash Null_Deref) ?s"
    by (rule failed_prefetch_is_fatal [of _ _ 0]) (simp_all add: sample_client_def)
  then have "wp (ra_steps dead_net [Ra_Callback 0]) (\<lambda>r s'. r = Crash Null_Deref) ?s"
    by (auto elim!: wp_mono split: outcome.splits)
  then show ?thesis
    using sample_start [of "''/s1/f''"] sample_answer [of None] sample_take
    by (simp add: wp_def bnd_def del: ra_step.simps split: prod.splits)
qed

text \<open>
  A read that begins behind the end of a short sector has as many bytes left as an unsigned difference
  below zero: it copies what the memory had before.
\<close>

lemma read_behind_short_sector:
  assumes "map_of (ba_bufferd b) (offset div SECTOR) = Some left" and "left < offset mod SECTOR" and "n \<le> SECTOR"
  shows "min n (sector_left b offset) = n"
proof -
  let ?d = "int left - int (offset mod SECTOR)"
  have o: "offset mod SECTOR < SECTOR" by simp
  then have d: "?d < 0" "- 262144 \<le> ?d" using assms(2) by linarith+
  then have "?d mod 2 ^ 64 = ?d + 2 ^ 64"
    using mod_add_self2 [of ?d "2 ^ 64"] mod_pos_pos_trivial [of "?d + 2 ^ 64" "2 ^ 64"] by simp
  with assms d show ?thesis by (simp add: sector_left_def u64_def)
qed

text \<open>Clearing leaves the epoch where it was.\<close>

lemma clear_buf_keeps_epoch:
  "prom_waiting_tab (buf_0 s) = [] \<Longrightarrow> prom_waiting_tab (buf_1 s) = [] \<Longrightarrow>
     wp (clear_buf name) (\<lambda>r s'. ba_epoch (buf_0 s') = ba_epoch (buf_0 s)) s"
  by (simp add: clear_buf_def clear_area_def area_def set_area_def)

end
