(* ===== verification/Write_Queue.thy ===== *)
theory Write_Queue
  imports Client_World
begin

text \<open>
  The queue of asynchronous writes, \<open>client/queue.cc\<close> and \<open>common/buffer.h\<close>, and the workers that send them,
  \<open>client/client_worker.cc\<close>. The workers run on several schedulers: a buffer that a worker was given waits
  until its scheduler comes to it.
\<close>

section \<open>Queueing a write\<close>

abbreviation (input) MAX_MERGE_SIZE :: nat where "MAX_MERGE_SIZE \<equiv> 1048576"

definition wb_size :: "write_buf \<Rightarrow> nat" where
  "wb_size b = length (wb_data b)"

text \<open>\<open>Buffer::append\<close>: the memory grows; the destination and the offset stay.\<close>

definition wb_append :: "write_buf \<Rightarrow> write_buf \<Rightarrow> write_buf" where
  "wb_append l b = l\<lparr>wb_data := wb_data l @ wb_data b\<rparr>"

definition mergeable :: "write_buf \<Rightarrow> write_buf \<Rightarrow> bool" where
  "mergeable l b \<longleftrightarrow> wb_path l = wb_path b \<and> wb_size l + wb_size b < MAX_MERGE_SIZE \<and>
     add64 (wb_offset l) (wb_size l) = wb_offset b"

definition merge_target :: "write_buf \<Rightarrow> 'c client \<Rightarrow> bool" where
  "merge_target b s \<longleftrightarrow> buf_waiting_line s \<noteq> [] \<and> mergeable (last (buf_waiting_line s)) b"

section \<open>Workers\<close>

text \<open>The state of the workers after the dispatcher has handed out what it can.\<close>

fun hand_out :: "write_buf list \<Rightarrow> nat list \<Rightarrow> worker_state list \<Rightarrow> int \<Rightarrow>
    write_buf list \<times> nat list \<times> worker_state list \<times> int" where
  "hand_out (b # bs) (w # ws) workers onlink = hand_out bs ws (workers[w := W_Queued b]) (onlink + 1)"
| "hand_out bs ws workers onlink = (bs, ws, workers, onlink)"

definition dispatch_more :: "'c client \<Rightarrow> 'c client" where
  "dispatch_more s =
     (case hand_out (q_batch s) (idle_list s) (q_workers s) (buf_onlink s) of (bs, ws, workers, n) \<Rightarrow>
      s\<lparr>q_batch := bs, idle_list := ws, q_workers := workers, buf_onlink := n\<rparr>)"

text \<open>\<open>_dispatch\<close>: the whole line is taken; the dispatcher comes back once it is handed out.\<close>

definition take_line :: "'c client \<Rightarrow> 'c client" where
  "take_line s =
     (if q_batch s = [] then dispatch_more (s\<lparr>q_batch := buf_waiting_line s, buf_waiting_line := []\<rparr>) else s)"

definition get_spare_channel :: "('c, nat) cprog" where
  "get_spare_channel =
     bnd (asks q_channel_loads) (\<lambda>loads.
     case loads of
       [] \<Rightarrow> crash Out_Of_Range
     | l0 # ls \<Rightarrow>
         let n = fst (least_loaded ls 1 0 l0) in
         bnd (update (\<lambda>s. s\<lparr>q_channel_loads := loads[n := loads ! n + 1]\<rparr>)) (\<lambda>_. ret n))"

definition write_request :: "write_buf \<Rightarrow> op_request" where
  "write_request b = new_OpRequest\<lparr>rq_type := T_write, rq_filepath := wb_path b,
     rq_param := Io_Param \<lparr>par_offset = wb_offset b, par_size = wb_size b\<rparr>, rq_data := wb_data b\<rparr>"

text \<open>The buffer of the UDT call takes the memory of the queued one, which is left empty.\<close>

definition take_buffer :: "'c net \<Rightarrow> write_buf \<Rightarrow> udt_buffer" where
  "take_buffer k b = \<lparr>ub_error = ud_int k, ub_data = wb_data b, ub_offset = wb_offset b, ub_path = wb_path b,
     ub_is_read = False, ub_read_size = 0, ub_fid = ud_int k, ub_flags = 0\<rparr>"

text \<open>\<open>Processing::Processing\<close>.\<close>

definition process :: "'c net \<Rightarrow> write_buf \<Rightarrow> ('c, write_buf) cprog" where
  "process k b =
     (if wb_path b = [] then ret b
      else
        bnd (asks use_udt) (\<lambda>udt.
        if \<not> udt then
          bnd get_spare_channel (\<lambda>c.
          bnd (deref (wb_dest b)) (\<lambda>node.
          bnd (client_operator node (c + 1)) (\<lambda>oper.
          bnd (update (\<lambda>s. s\<lparr>net_env := net_async k oper (write_request b) (net_env s)\<rparr>)) (\<lambda>_. ret b))))
        else
          bnd (deref (wb_dest b)) (\<lambda>node.
          bnd (udt_channel k node False) (\<lambda>p.
          bnd (session_write k p (take_buffer k b)) (\<lambda>i.
          bnd (if i = - ECONNRESET then
                 bnd (udt_channel k node True) (\<lambda>p. session_write k p (take_buffer k b))
               else ret i) (\<lambda>_. ret (b\<lparr>wb_data := []\<rparr>)))))))"

definition start_worker :: "'c net \<Rightarrow> nat \<Rightarrow> ('c, unit) cprog" where
  "start_worker k w =
     bnd (asks q_workers) (\<lambda>workers.
     if w < length workers then
       (case workers ! w of
          W_Queued b \<Rightarrow>
            bnd (process k b) (\<lambda>b. update (\<lambda>s. s\<lparr>q_workers := (q_workers s)[w := W_Processing b]\<rparr>))
        | _ \<Rightarrow> ret ())
     else ret ())"

text \<open>\<open>done_one\<close>: it is always called for the first channel.\<close>

definition done_one :: "nat \<Rightarrow> nat \<Rightarrow> ('c, unit) cprog" where
  "done_one channel_id bufsize =
     bnd (update (\<lambda>s. s\<lparr>buf_onlink := buf_onlink s - 1, buf_inqueue := buf_inqueue s - int bufsize,
       q_channel_loads := (q_channel_loads s)[channel_id := q_channel_loads s ! channel_id - 1]\<rparr>)) (\<lambda>_.
     bnd (asks buf_onlink) (\<lambda>n. if n \<ge> 0 then ret () else crash Assert_Failed))"

definition complete_worker :: "nat \<Rightarrow> ('c, unit) cprog" where
  "complete_worker w =
     bnd (asks q_workers) (\<lambda>workers.
     if w < length workers then
       (case workers ! w of
          W_Processing b \<Rightarrow>
            bnd (done_one 0 (wb_size b)) (\<lambda>_.
            update (\<lambda>s. dispatch_more (s\<lparr>q_workers := (q_workers s)[w := W_Waiting], idle_list := idle_list s @ [w]\<rparr>)))
        | _ \<Rightarrow> ret ())
     else ret ())"

fun queue_step :: "'c net \<Rightarrow> queue_event \<Rightarrow> ('c, unit) cprog" where
  "queue_step k Q_Dispatch = update take_line"
| "queue_step k (Q_Start w) = start_worker k w"
| "queue_step k (Q_Complete w) = complete_worker w"

primrec queue_steps :: "'c net \<Rightarrow> queue_event list \<Rightarrow> ('c, unit) cprog" where
  "queue_steps k [] = ret ()"
| "queue_steps k (e # es) = bnd (queue_step k e) (\<lambda>_. queue_steps k es)"

text \<open>Waiting while the queue holds more than it may. \<open>net_progress\<close> is all that happens meanwhile.\<close>

definition await_room :: "'c net \<Rightarrow> ('c, unit) cprog" where
  "await_room k =
     bnd (asks (\<lambda>s. buf_inqueue s > m_max_buf s)) (\<lambda>full.
     if full then
       bnd (outside (net_progress k)) (\<lambda>es.
       bnd (queue_steps k es) (\<lambda>_.
       bnd (asks (\<lambda>s. buf_inqueue s > m_max_buf s)) (\<lambda>full.
       if full then crash Blocked_Forever else ret ())))
     else ret ())"

definition merge_last :: "write_buf \<Rightarrow> 'c client \<Rightarrow> 'c client" where
  "merge_last b s =
     s\<lparr>buf_waiting_line := butlast (buf_waiting_line s) @ [wb_append (last (buf_waiting_line s)) b],
       buf_inqueue := buf_inqueue s + int (wb_size b)\<rparr>"

definition push_back :: "write_buf \<Rightarrow> 'c client \<Rightarrow> 'c client" where
  "push_back b s =
     s\<lparr>buf_inqueue := buf_inqueue s + int (wb_size b), buf_waiting_line := buf_waiting_line s @ [b]\<rparr>"

text \<open>\<open>queue_buffer\<close>: a write that continues the last one waiting is appended to it, another one waits for
  room.\<close>

definition queue_buffer :: "'c net \<Rightarrow> write_buf \<Rightarrow> ('c, bool) cprog" where
  "queue_buffer k b =
     bnd (asks (merge_target b)) (\<lambda>merge.
     if merge then bnd (update (merge_last b)) (\<lambda>_. ret True)
     else bnd (await_room k) (\<lambda>_. bnd (update (push_back b)) (\<lambda>_. ret True)))"

text \<open>The constructor and \<open>start\<close>: eight schedulers share the workers.\<close>

definition queue_start :: "'c net \<Rightarrow> ('c, unit) cprog" where
  "queue_start k =
     (let cfg = (\<lambda>p d. case net_cfg_int k p of Some n \<Rightarrow> n | None \<Rightarrow> d);
          channels = cfg ''client.multi_channel'' 1;
          workers = 8 * nat (cfg ''client.onlink'' 1024 div 8) in
      if channels < 0 then crash Uncaught_Exception
      else update (\<lambda>s. s\<lparr>m_max_buf := cfg ''client.max_queue'' 10240000,
             q_channel_loads := replicate (nat channels) 0, buf_onlink := 0, buf_inqueue := 0,
             buf_waiting_line := [], q_batch := [], q_workers := replicate workers W_Waiting,
             idle_list := [0..<workers]\<rparr>))"

end
