(* ===== verification/Write_Queue_Props.thy ===== *)
theory Write_Queue_Props
  imports Write_Queue Readahead
begin

text \<open>
  What the queue of asynchronous writes keeps: merging does not change what is written, the counters are what
  is in the queue and in the hands of the workers; and what it does not: the order of the writes, and with
  UDT the room of the writes that are done.
\<close>

section \<open>Merging\<close>

text \<open>The effect of a write on the files of the proxies.\<close>

type_synonym files = "ioproxy_node option \<times> string \<Rightarrow> nat \<Rightarrow> char"

definition write_effect :: "files \<Rightarrow> write_buf \<Rightarrow> files" where
  "write_effect fs b = (let f = (wb_dest b, wb_path b) in fs(f := overlay (wb_offset b) (wb_data b) (fs f)))"

lemma overlay_append: "overlay (a + length x) y (overlay a x m) = overlay a (x @ y) m"
  by (auto simp: overlay_def fun_eq_iff nth_append)

lemma write_effect_append:
  assumes "mergeable l b" "wb_dest l = wb_dest b" "wb_offset l + wb_size l < 2 ^ 64"
  shows "write_effect fs (wb_append l b) = write_effect (write_effect fs l) b"
  using assms overlay_append [of "wb_offset l" "wb_data l" "wb_data b"]
  by (simp add: write_effect_def wb_append_def mergeable_def wb_size_def add64_id Let_def fun_upd_def fun_eq_iff)

text \<open>C21: While there is room, a write is queued such that writing what is in the line has the effect of
  writing what was in it and then this write, provided that writes to one path go to one proxy.\<close>

theorem queue_keeps_the_writes:
  assumes "buf_inqueue s \<le> m_max_buf s"
    and "merge_target b s \<Longrightarrow> wb_dest (last (buf_waiting_line s)) = wb_dest b \<and>
      wb_offset (last (buf_waiting_line s)) + wb_size (last (buf_waiting_line s)) < 2 ^ 64"
  shows "wp (queue_buffer k b) (\<lambda>r s'. r = Val True \<and> buf_inqueue s' = buf_inqueue s + int (wb_size b) \<and>
    foldl write_effect fs (buf_waiting_line s') = write_effect (foldl write_effect fs (buf_waiting_line s)) b) s"
proof (cases "merge_target b s")
  case True
  let ?l = "buf_waiting_line s"
  have l: "foldl write_effect fs ?l = write_effect (foldl write_effect fs (butlast ?l)) (last ?l)"
    using True foldl_append [of write_effect fs "butlast ?l" "[last ?l]"]
    by (simp add: merge_target_def append_butlast_last_id)
  have "mergeable (last ?l) b" using True by (simp add: merge_target_def)
  from write_effect_append [OF this] assms(2) [OF True] l True show ?thesis
    by (simp add: queue_buffer_def merge_last_def)
qed (use assms(1) in \<open>simp add: queue_buffer_def await_room_def push_back_def\<close>)

definition sample_write :: "nat \<Rightarrow> string \<Rightarrow> write_buf" where
  "sample_write off d = \<lparr>wb_data = d, wb_offset = off, wb_path = ''/s1/f'',
     wb_dest = Some \<lparr>iop_rpc_port = 9095, iop_data_port = 9096, iop_ip = ''10.0.0.2'', iop_name = ''p'',
       iop_status = 0, iop_uuid = ''u2'', iop_cid = ''2''\<rparr>\<rparr>"

theorem queue_keeps_the_writes_witness:
  "wp (queue_buffer dead_net (sample_write 2 ''cd'')) (\<lambda>r s'. r = Val True \<and> buf_inqueue s' = 4 \<and>
     (\<forall>fs. foldl write_effect fs (buf_waiting_line s') = write_effect (write_effect fs (sample_write 0 ''ab'')) (sample_write 2 ''cd'')))
     ((new_client ())\<lparr>buf_waiting_line := [sample_write 0 ''ab''], buf_inqueue := 2\<rparr>)"
proof -
  let ?s = "(new_client ())\<lparr>buf_waiting_line := [sample_write 0 ''ab''], buf_inqueue := 2\<rparr>"
  have "wp (queue_buffer dead_net (sample_write 2 ''cd'')) (\<lambda>r s'. r = Val True \<and> buf_inqueue s' = 4 \<and>
     foldl write_effect fs (buf_waiting_line s') = write_effect (write_effect fs (sample_write 0 ''ab'')) (sample_write 2 ''cd'')) ?s"
    for fs
    by (rule wp_mono [OF queue_keeps_the_writes [of ?s _ _ fs]])
      (simp_all add: new_client_def sample_write_def wb_size_def)
  then show ?thesis
    by (cases "queue_buffer dead_net (sample_write 2 ''cd'') ?s") (simp add: wp_def)
qed

section \<open>The counters\<close>

primrec worker_bytes :: "worker_state \<Rightarrow> int" where
  "worker_bytes W_Waiting = 0"
| "worker_bytes (W_Queued b) = int (wb_size b)"
| "worker_bytes (W_Processing b) = int (wb_size b)"

primrec busy :: "worker_state \<Rightarrow> int" where
  "busy W_Waiting = 0"
| "busy (W_Queued b) = 1"
| "busy (W_Processing b) = 1"

definition bytes :: "write_buf list \<Rightarrow> int" where
  "bytes bs = sum_list (map (\<lambda>b. int (wb_size b)) bs)"

text \<open>What is in the line, taken by the dispatcher or in the hands of a worker.\<close>

definition held :: "'c client \<Rightarrow> int" where
  "held s = bytes (buf_waiting_line s) + bytes (q_batch s) + sum_list (map worker_bytes (q_workers s))"

definition idle_ok :: "nat list \<Rightarrow> worker_state list \<Rightarrow> bool" where
  "idle_ok ws workers \<longleftrightarrow> distinct ws \<and> (\<forall>w \<in> set ws. w < length workers \<and> workers ! w = W_Waiting)"

definition queue_ok :: "'c client \<Rightarrow> bool" where
  "queue_ok s \<longleftrightarrow> \<not> use_udt s \<and> buf_inqueue s = held s \<and> buf_onlink s = sum_list (map busy (q_workers s)) \<and>
     idle_ok (idle_list s) (q_workers s)"

lemma sum_list_set:
  "i < length xs \<Longrightarrow> sum_list (map f (xs[i := x])) = sum_list (map f xs) - f (xs ! i) + (f x :: int)"
  by (induction xs arbitrary: i) (auto split: nat.splits)

lemma bytes_simps [simp]: "bytes [] = 0" "bytes (b # bs) = int (wb_size b) + bytes bs" "bytes (xs @ ys) = bytes xs + bytes ys"
  by (simp_all add: bytes_def)

lemma hand_out_ok:
  assumes "idle_ok ws workers" "hand_out bs ws workers n = (bs', ws', workers', n')"
  shows "idle_ok ws' workers' \<and> n' - sum_list (map busy workers') = n - sum_list (map busy workers) \<and>
    bytes bs' + sum_list (map worker_bytes workers') = bytes bs + sum_list (map worker_bytes workers)"
  using assms
proof (induction bs ws workers n rule: hand_out.induct)
  case (1 b bs w ws workers n)
  have "idle_ok ws (workers[w := W_Queued b])" using 1(2) by (auto simp: idle_ok_def nth_list_update)
  from 1(1) [OF this] 1(2,3) show ?case by (auto simp: sum_list_set idle_ok_def)
qed auto

lemma queue_ok_dispatch_more:
  assumes "\<not> use_udt s" "buf_inqueue s = held s" "buf_onlink s = sum_list (map busy (q_workers s))"
    "idle_ok (idle_list s) (q_workers s)"
  shows "queue_ok (dispatch_more s)"
proof -
  obtain bs ws workers n where h: "hand_out (q_batch s) (idle_list s) (q_workers s) (buf_onlink s) = (bs, ws, workers, n)"
    by (metis prod_cases4)
  from hand_out_ok [OF assms(4) h] assms(1-3) h show ?thesis
    by (auto simp: queue_ok_def dispatch_more_def held_def)
qed

lemma busy_nonneg: "0 \<le> busy w"
  by (cases w) auto

lemma busy_sum: "0 \<le> sum_list (map busy ws)"
  by (induction ws) (auto simp: busy_nonneg add_nonneg_nonneg)

text \<open>Starting a worker without UDT changes nothing that is counted.\<close>

lemma wp_process:
  assumes "\<not> use_udt s"
  shows "wp (process k b) (\<lambda>r s'. r \<noteq> Crash Assert_Failed \<and> (\<forall>b'. r = Val b' \<longrightarrow> b' = b) \<and> \<not> use_udt s' \<and>
    buf_inqueue s' = buf_inqueue s \<and> held s' = held s \<and> buf_onlink s' = buf_onlink s \<and>
    q_workers s' = q_workers s \<and> idle_list s' = idle_list s) s"
  using assms
  by (auto simp: process_def get_spare_channel_def client_operator_def held_def Let_def
      split: list.splits option.splits)

lemma queue_ok_step:
  assumes "queue_ok s"
  shows "wp (queue_step k e) (\<lambda>r s'. r \<noteq> Crash Assert_Failed \<and> (r = Val () \<longrightarrow> queue_ok s')) s"
proof (cases e)
  case Q_Dispatch
  have "queue_ok (take_line s)" using assms
    by (auto simp: take_line_def intro!: queue_ok_dispatch_more) (auto simp: queue_ok_def held_def)
  with Q_Dispatch show ?thesis by simp
next
  case (Q_Start w)
  have "\<not> use_udt s" using assms by (simp add: queue_ok_def)
  note p = wp_process [OF this]
  have "wp (bnd (process k b) (\<lambda>b. update (\<lambda>s. s\<lparr>q_workers := (q_workers s)[w := W_Processing b]\<rparr>)))
      (\<lambda>r s'. r \<noteq> Crash Assert_Failed \<and> (r = Val () \<longrightarrow> queue_ok s')) s"
    if w: "w < length (q_workers s)" "q_workers s ! w = W_Queued b" for b
    unfolding wp_bnd
    by (rule wp_mono [OF p])
      (use assms w in \<open>auto simp: queue_ok_def held_def idle_ok_def sum_list_set nth_list_update split: outcome.splits\<close>)
  with assms Q_Start show ?thesis
    by (auto simp: start_worker_def wp_steps simp del: wp_bnd split: worker_state.splits)
next
  case (Q_Complete w)
  show ?thesis
  proof (cases "w < length (q_workers s) \<and> (\<exists>b. q_workers s ! w = W_Processing b)")
    case True
    then obtain b where w: "w < length (q_workers s)" "q_workers s ! w = W_Processing b" by blast
    let ?s = "s\<lparr>buf_onlink := buf_onlink s - 1, buf_inqueue := buf_inqueue s - int (wb_size b),
       q_channel_loads := (q_channel_loads s)[0 := q_channel_loads s ! 0 - 1],
       q_workers := (q_workers s)[w := W_Waiting], idle_list := idle_list s @ [w]\<rparr>"
    have q: "queue_ok (dispatch_more ?s)"
      by (rule queue_ok_dispatch_more)
        (use assms w in \<open>auto simp: queue_ok_def held_def idle_ok_def sum_list_set nth_list_update\<close>)
    have "0 \<le> buf_onlink s - 1"
      using assms w busy_sum [of "(q_workers s)[w := W_Waiting]"] by (simp add: queue_ok_def sum_list_set)
    with Q_Complete w q show ?thesis by (simp add: complete_worker_def done_one_def)
  qed (use assms Q_Complete in \<open>auto simp: complete_worker_def split: worker_state.splits\<close>)
qed

lemma queue_ok_steps:
  "queue_ok s \<Longrightarrow> wp (queue_steps k es) (\<lambda>r s'. r \<noteq> Crash Assert_Failed \<and> (r = Val () \<longrightarrow> queue_ok s')) s"
proof (induction es arbitrary: s)
  case (Cons e es)
  from queue_ok_step [OF Cons.prems] show ?case
    unfolding queue_steps.simps wp_bnd by (rule wp_mono) (use Cons.IH in \<open>auto split: outcome.splits\<close>)
qed simp

lemma queue_ok_env: "queue_ok s \<Longrightarrow> queue_ok (s\<lparr>net_env := e\<rparr>)"
  by (simp add: queue_ok_def held_def)

lemma queue_ok_await:
  assumes "queue_ok s"
  shows "wp (await_room k) (\<lambda>r s'. r \<noteq> Crash Assert_Failed \<and> (r = Val () \<longrightarrow> queue_ok s')) s"
proof -
  have "wp (bnd (queue_steps k es) (\<lambda>_. bnd (asks (\<lambda>s. buf_inqueue s > m_max_buf s)) (\<lambda>full.
      if full then crash Blocked_Forever else ret ()))) (\<lambda>r t. r \<noteq> Crash Assert_Failed \<and> (r = Val () \<longrightarrow> queue_ok t)) t"
    if "queue_ok t" for t :: "'a client" and es
    unfolding wp_bnd [of "queue_steps _ _"]
    by (rule wp_mono [OF queue_ok_steps [OF that]]) (auto split: outcome.splits)
  with assms show ?thesis
    by (simp add: await_room_def wp_steps wp_bnd [of "outside _"] queue_ok_env del: wp_bnd split: prod.splits)
qed

lemma queue_ok_push: "queue_ok s \<Longrightarrow> queue_ok (push_back b s)"
  by (simp add: queue_ok_def held_def push_back_def)

lemma queue_ok_merge:
  assumes "queue_ok s" "merge_target b s"
  shows "queue_ok (merge_last b s)"
proof -
  have "bytes (buf_waiting_line s) = bytes (butlast (buf_waiting_line s)) + int (wb_size (last (buf_waiting_line s)))"
    using assms(2) bytes_simps(3) [of "butlast (buf_waiting_line s)" "[last (buf_waiting_line s)]"]
    by (simp add: merge_target_def)
  with assms(1) show ?thesis by (simp add: queue_ok_def held_def wb_append_def wb_size_def merge_last_def)
qed

lemma queue_ok_buffer:
  assumes "queue_ok s"
  shows "wp (queue_buffer k b) (\<lambda>r s'. r \<noteq> Crash Assert_Failed \<and> (\<forall>v. r = Val v \<longrightarrow> queue_ok s')) s"
proof -
  have "wp (bnd (await_room k) (\<lambda>_. bnd (update (push_back b)) (\<lambda>_. ret True)))
      (\<lambda>r s'. r \<noteq> Crash Assert_Failed \<and> (\<forall>v. r = Val v \<longrightarrow> queue_ok s')) s"
    unfolding wp_bnd [of "await_room _"]
    by (rule wp_mono [OF queue_ok_await [OF assms]]) (auto simp: queue_ok_push split: outcome.splits)
  with queue_ok_merge [OF assms] show ?thesis
    by (simp add: queue_buffer_def wp_steps del: wp_bnd)
qed

text \<open>Writers and the threads of the queue, in any order.\<close>

datatype queue_op = Q_Write write_buf | Q_Event queue_event

primrec run_queue :: "'c net \<Rightarrow> queue_op \<Rightarrow> ('c, unit) cprog" where
  "run_queue k (Q_Write b) = bnd (queue_buffer k b) (\<lambda>_. ret ())"
| "run_queue k (Q_Event e) = queue_step k e"

primrec run_queues :: "'c net \<Rightarrow> queue_op list \<Rightarrow> ('c, unit) cprog" where
  "run_queues k [] = ret ()"
| "run_queues k (x # xs) = bnd (run_queue k x) (\<lambda>_. run_queues k xs)"

lemma queue_ok_runs:
  "queue_ok s \<Longrightarrow> wp (run_queues k xs) (\<lambda>r s'. r \<noteq> Crash Assert_Failed \<and> (r = Val () \<longrightarrow> queue_ok s')) s"
proof (induction xs arbitrary: s)
  case (Cons x xs)
  have "wp (run_queue k x) (\<lambda>r s'. r \<noteq> Crash Assert_Failed \<and> (r = Val () \<longrightarrow> queue_ok s')) s"
    by (cases x) (auto intro: wp_mono [OF queue_ok_buffer [OF Cons.prems]] queue_ok_step [OF Cons.prems] split: outcome.splits)
  then show ?case
    unfolding run_queues.simps wp_bnd by (rule wp_mono) (use Cons.IH in \<open>auto split: outcome.splits\<close>)
qed simp

text \<open>C10: Without UDT, whatever writers, the dispatcher and the workers do in any order, the bytes the queue
  counts are those in the line, taken by the dispatcher or held by a worker, the writes it counts are those
  of the busy workers, and its assertion never fails.\<close>

theorem queue_counts_what_it_holds:
  assumes "\<not> use_udt s"
  shows "wp (bnd (queue_start k) (\<lambda>_. run_queues k xs)) (\<lambda>r s'. r \<noteq> Crash Assert_Failed \<and> (r = Val () \<longrightarrow>
    buf_inqueue s' = bytes (buf_waiting_line s') + bytes (q_batch s') + sum_list (map worker_bytes (q_workers s')) \<and>
    buf_onlink s' = int (length (filter (\<lambda>w. w \<noteq> W_Waiting) (q_workers s'))))) s"
proof -
  have busy: "sum_list (map busy ws) = int (length (filter (\<lambda>w. w \<noteq> W_Waiting) ws))" for ws
  proof (induction ws)
    case (Cons w ws)
    then show ?case by (cases w) simp_all
  qed simp
  have zero: "sum_list (map busy (replicate n W_Waiting)) = 0" "sum_list (map worker_bytes (replicate n W_Waiting)) = 0" for n
    by (induction n) auto
  show ?thesis
    using assms
    by (auto simp: queue_start_def Let_def intro!: wp_mono [OF queue_ok_runs])
      (auto simp: queue_ok_def held_def busy zero idle_ok_def sum_list_replicate)
qed

theorem queue_counts_what_it_holds_witness:
  "wp (bnd (queue_start dead_net) (\<lambda>_. run_queues dead_net [Q_Write (sample_write 0 ''ab''), Q_Event Q_Dispatch,
     Q_Event (Q_Start 0), Q_Event (Q_Complete 0)])) (\<lambda>r s'. r \<noteq> Crash Assert_Failed) (new_client ())"
  by (rule wp_mono [OF queue_counts_what_it_holds]) (simp_all add: new_client_def)

section \<open>Order\<close>

text \<open>Two writes that wait in the line and go to two idle workers may reach their proxies in the reverse
  order: the second worker's scheduler is the faster one.\<close>

theorem workers_may_reorder_writes:
  assumes "\<not> use_udt s" "buf_waiting_line s = [b1, b2]" "q_batch s = []" "idle_list s = [w1, w2]"
    and "w1 \<noteq> w2" "w1 < length (q_workers s)" "w2 < length (q_workers s)" "q_channel_loads s = [l]"
    and "wb_path b1 \<noteq> []" "wb_path b2 \<noteq> []" "wb_dest b1 = Some p" "wb_dest b2 = Some p"
  shows "wp (queue_steps k [Q_Dispatch, Q_Start w2, Q_Start w1]) (\<lambda>r s'. r = Val () \<and>
    (\<exists>a. net_env s' = net_async k a (write_request b1) (net_async k a (write_request b2) (net_env s)))) s"
  using assms
  by (cases "map_of (rpc_operators s) (iop_uuid p @ nat_dec 1)")
    (auto simp: take_line_def dispatch_more_def start_worker_def process_def get_spare_channel_def client_operator_def
      Let_def nth_list_update update_conv')

theorem workers_may_reorder_writes_witness:
  "wp (queue_steps dead_net [Q_Dispatch, Q_Start 1, Q_Start 0]) (\<lambda>r s'. r = Val () \<and>
     (\<exists>a. net_env s' = net_async dead_net a (write_request (sample_write 0 ''old''))
       (net_async dead_net a (write_request (sample_write 0 ''new'')) ())))
     ((new_client ())\<lparr>buf_waiting_line := [sample_write 0 ''old'', sample_write 0 ''new''],
       q_workers := [W_Waiting, W_Waiting], idle_list := [0, 1]\<rparr>)"
  by (rule wp_mono [OF workers_may_reorder_writes [where l = 0]]) (auto simp: new_client_def sample_write_def)

section \<open>UDT\<close>

text \<open>A worker that sends over UDT holds an empty buffer.\<close>

primrec udt_worker :: "worker_state \<Rightarrow> bool" where
  "udt_worker W_Waiting = True"
| "udt_worker (W_Queued b) = (wb_path b \<noteq> [])"
| "udt_worker (W_Processing b) = (wb_data b = [])"

definition udt_drained :: "'c client \<Rightarrow> bool" where
  "udt_drained s \<longleftrightarrow> use_udt s \<and> (\<forall>b \<in> set (buf_waiting_line s) \<union> set (q_batch s). wb_path b \<noteq> []) \<and>
     list_all udt_worker (q_workers s)"

lemma list_all_set: "list_all P xs \<Longrightarrow> P y \<Longrightarrow> list_all P (xs[i := y])"
  by (cases "i < length xs") (auto simp: list_all_length nth_list_update)

lemma list_all_at: "list_all P xs \<Longrightarrow> i < length xs \<Longrightarrow> P (xs ! i)"
  by (simp add: list_all_length)

lemma hand_out_paths:
  assumes "hand_out bs ws workers n = (bs', ws', workers', n')" "\<forall>b \<in> set bs. wb_path b \<noteq> []"
    "list_all udt_worker workers"
  shows "(\<forall>b \<in> set bs'. wb_path b \<noteq> []) \<and>
    list_all udt_worker workers'"
  using assms
proof (induction bs ws workers n rule: hand_out.induct)
  case (1 b bs w ws workers n)
  then show ?case by (simp add: list_all_set)
qed auto

lemma udt_drained_dispatch_more: "udt_drained s \<Longrightarrow> udt_drained (dispatch_more s) \<and> buf_inqueue (dispatch_more s) = buf_inqueue s
    \<and> m_max_buf (dispatch_more s) = m_max_buf s"
  using hand_out_paths [of "q_batch s" "idle_list s" "q_workers s" "buf_onlink s"]
  by (auto simp: dispatch_more_def udt_drained_def split: prod.splits)

text \<open>What a call over UDT leaves alone.\<close>

definition same_queue :: "'c client \<Rightarrow> 'c client \<Rightarrow> bool" where
  "same_queue s s' \<longleftrightarrow> buf_waiting_line s' = buf_waiting_line s \<and> q_batch s' = q_batch s \<and> q_workers s' = q_workers s \<and>
     idle_list s' = idle_list s \<and> use_udt s' = use_udt s \<and> buf_inqueue s' = buf_inqueue s \<and> m_max_buf s' = m_max_buf s"

lemma same_queue_refl [simp]: "same_queue s s" "same_queue s (s\<lparr>net_env := e\<rparr>)" "same_queue s (s\<lparr>udt_clients := u\<rparr>)"
  by (simp_all add: same_queue_def)

lemma same_queue_trans: "same_queue s s' \<Longrightarrow> same_queue s' s'' \<Longrightarrow> same_queue s s''"
  by (simp add: same_queue_def)

lemma wp_udt_channel: "wp (udt_channel k node c) (\<lambda>r s'. same_queue s s') s"
  by (auto simp: udt_channel_def same_queue_def split: option.splits prod.splits)

lemma wp_session_write: "wp (session_write k p b) (\<lambda>r s'. same_queue s s') s"
  by (auto simp: session_write_def split: option.splits prod.splits)

lemma wp_same_bnd:
  assumes "wp m (\<lambda>r s'. same_queue s s') s" "\<And>a s'. same_queue s s' \<Longrightarrow> wp (f a) (\<lambda>r s''. same_queue s' s'' \<and> Q r) s'"
    "\<And>c. Q (Crash c)"
  shows "wp (bnd m f) (\<lambda>r s'. same_queue s s' \<and> Q r) s"
  unfolding wp_bnd
  by (rule wp_mono [OF assms(1)])
    (auto split: outcome.splits intro: assms(3) wp_mono [OF assms(2)] same_queue_trans)

lemma wp_process_udt:
  assumes "use_udt s" "wb_path b \<noteq> []"
  shows "wp (process k b) (\<lambda>r s'. same_queue s s' \<and> (\<forall>b'. r = Val b' \<longrightarrow> wb_data b' = [])) s"
proof -
  have "wp (bnd (udt_channel k node False) (\<lambda>p. bnd (session_write k p x) (\<lambda>i.
      bnd (if i = - ECONNRESET then bnd (udt_channel k node True) (\<lambda>p. session_write k p y) else ret i)
        (\<lambda>_. ret (b\<lparr>wb_data := []\<rparr>))))) (\<lambda>r s'. same_queue s s' \<and> (\<forall>b'. r = Val b' \<longrightarrow> wb_data b' = [])) s" for node x y
  proof (intro wp_same_bnd wp_udt_channel wp_session_write)
    fix i and s1 :: "'a client"
    have "wp (bnd (udt_channel k node True) (\<lambda>p. session_write k p y)) (\<lambda>r s'. same_queue s1 s' \<and> True) s1"
      by (intro wp_same_bnd wp_udt_channel) (simp_all add: wp_session_write)
    then show "wp (if i = - ECONNRESET then bnd (udt_channel k node True) (\<lambda>p. session_write k p y) else ret i)
        (\<lambda>r s'. same_queue s1 s') s1" by simp
  qed auto
  with assms show ?thesis by (cases "wb_dest b") (simp_all add: process_def wp_steps del: wp_bnd)
qed

lemma udt_drained_step:
  assumes "udt_drained s"
  shows "wp (queue_step k e) (\<lambda>r s'. udt_drained s' \<and> buf_inqueue s' = buf_inqueue s \<and> m_max_buf s' = m_max_buf s \<or> (\<exists>c. r = Crash c)) s"
proof (cases e)
  case Q_Dispatch
  with assms udt_drained_dispatch_more [of "s\<lparr>q_batch := buf_waiting_line s, buf_waiting_line := []\<rparr>"]
  show ?thesis by (auto simp: take_line_def udt_drained_def)
next
  case (Q_Start w)
  have "wp (bnd (process k b) (\<lambda>b. update (\<lambda>s. s\<lparr>q_workers := (q_workers s)[w := W_Processing b]\<rparr>)))
      (\<lambda>r s'. udt_drained s' \<and> buf_inqueue s' = buf_inqueue s \<and> m_max_buf s' = m_max_buf s \<or> (\<exists>c. r = Crash c)) s"
    if w: "w < length (q_workers s)" "q_workers s ! w = W_Queued b" for b
  proof -
    have "wb_path b \<noteq> []" "use_udt s"
      using assms w list_all_at [of udt_worker "q_workers s" w] by (simp_all add: udt_drained_def)
    from wp_process_udt [OF this(2,1)] show ?thesis
      unfolding wp_bnd
      by (rule wp_mono)
        (use assms in \<open>auto simp: udt_drained_def same_queue_def intro!: list_all_set split: outcome.splits\<close>)
  qed
  with assms Q_Start show ?thesis
    by (auto simp: start_worker_def wp_steps simp del: wp_bnd split: worker_state.splits)
next
  case (Q_Complete w)
  show ?thesis
  proof (cases "w < length (q_workers s) \<and> (\<exists>b. q_workers s ! w = W_Processing b)")
    case True
    then obtain b where w: "w < length (q_workers s)" "q_workers s ! w = W_Processing b" by blast
    then have "wb_size b = 0"
      using assms list_all_at [of udt_worker "q_workers s" w] by (simp add: udt_drained_def wb_size_def)
    moreover have "udt_drained (s\<lparr>buf_onlink := x, q_channel_loads := y, q_workers := (q_workers s)[w := W_Waiting],
        idle_list := z\<rparr>)" for x y z
      using assms by (auto simp: udt_drained_def intro!: list_all_set)
    note udt_drained_dispatch_more [OF this]
    ultimately show ?thesis using Q_Complete w
      by (auto simp: complete_worker_def done_one_def)
  qed (use assms Q_Complete in \<open>auto simp: complete_worker_def split: worker_state.splits\<close>)
qed

lemma udt_drained_steps:
  "udt_drained s \<Longrightarrow> wp (queue_steps k es) (\<lambda>r s'. udt_drained s' \<and> buf_inqueue s' = buf_inqueue s \<and>
     m_max_buf s' = m_max_buf s \<or> (\<exists>c. r = Crash c)) s"
proof (induction es arbitrary: s)
  case (Cons e es)
  show ?case
    unfolding queue_steps.simps wp_bnd
  proof (rule wp_mono [OF udt_drained_step [OF Cons.prems]], goal_cases)
    case (1 r t)
    then show ?case using Cons.IH [of t] by (cases r) auto
  qed
qed simp

text \<open>C34: Over UDT the room of a write is never given back: once the queue counts more than it may, a write that
  does not continue the last one waiting never returns, whatever the dispatcher and the workers do.\<close>

theorem udt_queue_never_drains:
  assumes "udt_drained s" and "buf_inqueue s > m_max_buf s" and "\<not> merge_target b s"
  shows "wp (queue_buffer k b) (\<lambda>r s'. \<exists>c. r = Crash c) s"
proof -
  have env: "udt_drained (s\<lparr>net_env := e\<rparr>)" for e using assms(1) by (simp add: udt_drained_def)
  have "wp (queue_steps k es) (\<lambda>r s'. (\<exists>c. r = Crash c) \<or> m_max_buf s' < buf_inqueue s') (s\<lparr>net_env := e\<rparr>)" for es e
    by (rule wp_mono [OF udt_drained_steps [OF env]]) (use assms(2) in auto)
  then have "wp (bnd (queue_steps k es) (\<lambda>_. bnd (asks (\<lambda>s. buf_inqueue s > m_max_buf s)) (\<lambda>full.
      if full then crash Blocked_Forever else ret ()))) (\<lambda>r s'. \<exists>c. r = Crash c) (s\<lparr>net_env := e\<rparr>)" for es e
    unfolding wp_bnd [of "queue_steps _ _"] by (rule wp_mono) (auto split: outcome.splits)
  then have "wp (await_room k) (\<lambda>r s'. \<exists>c. r = Crash c) s"
    using assms(2) by (simp add: await_room_def wp_steps wp_bnd [of "outside _"] del: wp_bnd split: prod.splits)
  then show ?thesis
    using assms(3) by (auto simp: queue_buffer_def elim!: wp_mono split: outcome.splits)
qed

theorem udt_queue_never_drains_witness:
  "wp (queue_buffer dead_net (sample_write 0 ''ab'')) (\<lambda>r s'. \<exists>c. r = Crash c)
     ((new_client ())\<lparr>use_udt := True, buf_inqueue := 20000000\<rparr>)"
  by (rule udt_queue_never_drains) (simp_all add: new_client_def udt_drained_def merge_target_def)

end
