(* ===== verification/Client_Paths.thy ===== *)
theory Client_Paths
  imports Client_World Registries
begin

text \<open>
  How the client finds its way: the managers of the centres (\<open>client/OPTNode/opt_node.cc\<close>), the zones of the
  account (\<open>client/zone_mod.cc\<close>) and the proxies of the centres (\<open>client/graph_mod.cc\<close>). A path of the
  mounted tree is \<open>/zone/space/rest\<close>.
\<close>

section \<open>Splitting a path\<close>

text \<open>\<open>splitWithStl(str, "/")\<close>: the pieces between the separators; the empty text has no piece.\<close>

fun pieces :: "string \<Rightarrow> string \<Rightarrow> string list" where
  "pieces acc [] = [acc]"
| "pieces acc (c # cs) = (if c = CHR ''/'' then acc # pieces [] cs else pieces (acc @ [c]) cs)"

definition splitWithStl :: "string \<Rightarrow> string list" where
  "splitWithStl str = (if str = [] then [] else pieces [] str)"

text \<open>\<open>find('/', pos)\<close>; \<open>npos\<close> is \<open>None\<close>, and \<open>npos + 1\<close> is 0.\<close>

definition find_slash :: "string \<Rightarrow> nat \<Rightarrow> nat option" where
  "find_slash s pos =
     (let n = length (takeWhile (\<lambda>c. c \<noteq> CHR ''/'') (drop pos s)) in if pos + n < length s then Some (pos + n) else None)"

definition after :: "nat option \<Rightarrow> nat" where
  "after p = (case p of Some n \<Rightarrow> n + 1 | None \<Rightarrow> 0)"

definition at_index :: "'a list \<Rightarrow> nat \<Rightarrow> ('w, 'a) prog" where
  "at_index xs i = (if i < length xs then ret (xs ! i) else crash Out_Of_Range)"

section \<open>The managers\<close>

text \<open>\<open>getNode\<close>: only the first choice unlocks the mutex it has locked.\<close>

definition getNode :: "int \<Rightarrow> ('c, centre_node list) cprog" where
  "getNode choice =
     bnd (asks node_locked) (\<lambda>locked.
     if locked then crash Blocked_Forever
     else if choice = 1 then asks buf_delay
     else bnd (update (\<lambda>s. s\<lparr>node_locked := True\<rparr>)) (\<lambda>_. asks (if choice = 2 then buf_area else buf_delay)))"

definition node_url :: "centre_node \<Rightarrow> string" where
  "node_url c = snprintf_n 256 (''http://'' @ cstr (cn_ip_addr c) @ '':'' @ cstr (cn_port c))"

definition get_manager :: "('c, string) cprog" where
  "get_manager =
     bnd (getNode 1) (\<lambda>centers. ret (case centers of [] \<Rightarrow> [] | c # _ \<Rightarrow> node_url c))"

text \<open>
  \<open>ClientUser::getMemberID\<close>: the identifiers of members by name. Only the text \<open>fail\<close> is a failure; without an
  answer the list stays as it was.
\<close>

definition client_getMemberID :: "'c net \<Rightarrow> string list \<Rightarrow> string list \<Rightarrow> ('c, bool \<times> string list) cprog" where
  "client_getMemberID k memberName memberID =
     bnd get_manager (\<lambda>endpoint.
     bnd (post_request k endpoint ''/users/memberID'' (json_encode k (enc_vec enc_str) memberName)) (\<lambda>res.
     ret (if res = ''fail'' then (False, memberID) else (True, json_decode k (dec_vec dec_str []) res memberID))))"

text \<open>The configuration must name the manager: the missing optional is dereferenced.\<close>

definition getCenterInformation :: "'c net \<Rightarrow> ('c, unit) cprog" where
  "getCenterInformation k =
     bnd (deref (net_cfg k ''manager_addr'')) (\<lambda>addr.
     bnd (get_request k (''http://'' @ addr) ''/mconf/searchCenter'') (\<lambda>response.
     update (\<lambda>s. if response = ''fail'' \<and> center_Information s = [] then s
                  else s\<lparr>center_Information := response\<rparr>)))"

definition centre_info :: "'c net \<Rightarrow> 'c client \<Rightarrow> center_info" where
  "centre_info k s = load k des_CenterInfo (center_Information s) new_CenterInfo"

definition centre_entry :: "center_info \<Rightarrow> string \<Rightarrow> centre_node" where
  "centre_entry ci i = \<lparr>cn_location = smap_at [] (ci_centerName ci) i, cn_ip_addr = smap_at [] (ci_centerIP ci) i,
     cn_port = smap_at [] (ci_centerPort ci) i, cn_center_id = i\<rparr>"

definition node_start :: "'c net \<Rightarrow> ('c, unit) cprog" where
  "node_start k =
     bnd (getCenterInformation k) (\<lambda>_.
     update (\<lambda>s. if center_Information s = [] then s
       else let ci = centre_info k s in s\<lparr>buf_delay := buf_delay s @ map (centre_entry ci) (ci_centerID ci)\<rparr>))"

text \<open>The identifier of a centre by its name, or the text \<open>fail\<close>.\<close>

definition getmapIdName :: "'c net \<Rightarrow> 'c client \<Rightarrow> string \<Rightarrow> string" where
  "getmapIdName k s name =
     (let ci = centre_info k s in
      case find (\<lambda>i. smap_at [] (ci_centerName ci) i = name) (ci_centerID ci) of Some i \<Rightarrow> i | None \<Rightarrow> ''fail'')"

text \<open>The managers in the order of their measured distance; the identifier of the centre is not filled in.\<close>

definition write_rtt :: "'c net \<Rightarrow> (string \<times> 'r) list \<Rightarrow> ('c, unit) cprog" where
  "write_rtt k ranked =
     bnd (asks center_Information) (\<lambda>info.
     if info = [] then getCenterInformation k
     else
       bnd (asks node_locked) (\<lambda>locked.
       if locked then crash Blocked_Forever
       else
         update (\<lambda>s. let ci = centre_info k s in
           s\<lparr>buf_delay := map (\<lambda>(name, _). (centre_entry ci (getmapIdName k s name))\<lparr>cn_center_id := []\<rparr>) ranked\<rparr>)))"

text \<open>
  The rights of the account. Only the texts \<open>fail\<close> and \<open>33\<close> are failures; another text that is no object leaves
  the rights as they were.
\<close>

definition getAuthFromServer :: "'c net \<Rightarrow> string \<Rightarrow> ('c, unit) cprog" where
  "getAuthFromServer k gvdsID =
     bnd get_manager (\<lambda>endpoint.
     bnd (post_request k endpoint ''/auth/search'' gvdsID) (\<lambda>res.
     if res \<noteq> ''fail'' \<and> res \<noteq> ''33'' then
       bnd (asks node_locked) (\<lambda>locked.
       if locked then crash Blocked_Forever
       else update (\<lambda>s. s\<lparr>myauth := load k des_AuthSearch res (myauth s)\<rparr>))
     else ret ()))"

text \<open>Reading the rights of a zone enters it into the maps it is missing from.\<close>

definition touch_auth :: "string \<Rightarrow> auth_search \<Rightarrow> auth_search" where
  "touch_auth i a = (let touch = (\<lambda>m. smap_set i (smap_at [] m i) m) in
     a\<lparr>as_read := touch (as_read a), as_write := touch (as_write a), as_exe := touch (as_exe a),
       as_isowner := touch (as_isowner a)\<rparr>)"

definition copy_auth :: "auth_search \<Rightarrow> string \<Rightarrow> auth_search \<Rightarrow> auth_search" where
  "copy_auth a i t = t\<lparr>as_vec_ZoneID := as_vec_ZoneID t @ [i],
     as_read := smap_set i (smap_at [] (as_read a) i) (as_read t),
     as_write := smap_set i (smap_at [] (as_write a) i) (as_write t),
     as_exe := smap_set i (smap_at [] (as_exe a) i) (as_exe t),
     as_isowner := smap_set i (smap_at [] (as_isowner a) i) (as_isowner t)\<rparr>"

definition getAuthFromClient :: "('c, auth_search) cprog" where
  "getAuthFromClient =
     bnd (asks node_locked) (\<lambda>locked.
     if locked then crash Blocked_Forever
     else
       bnd (asks myauth) (\<lambda>a.
       if as_gvdsID a = [] then ret new_AuthSearch
       else
         bnd (update (\<lambda>s. s\<lparr>myauth := fold touch_auth (as_vec_ZoneID a) a\<rparr>)) (\<lambda>_.
         ret (fold (copy_auth a) (as_vec_ZoneID a) (new_AuthSearch\<lparr>as_gvdsID := as_gvdsID a\<rparr>)))))"

section \<open>The zones\<close>

fun dec_zones :: "'z indet_scheme \<Rightarrow> json list \<Rightarrow> zone list outcome" where
  "dec_zones d [] = Val []"
| "dec_zones d (v # vs) =
     (case deserialize_value des_Zone v (new_Zone d) of
        Crash c \<Rightarrow> Crash c
      | Val z \<Rightarrow> (case dec_zones d vs of Crash c \<Rightarrow> Crash c | Val r \<Rightarrow> Val (z # r)))"

text \<open>A text that is no array leaves the vector empty.\<close>

definition decode_zones :: "'z indet_scheme \<Rightarrow> string \<Rightarrow> zone list outcome" where
  "decode_zones d text = (case rj_parse d (cstr text) of Some (JArr vs) \<Rightarrow> dec_zones d vs | _ \<Rightarrow> Val [])"

definition of_outcome :: "'a outcome \<Rightarrow> ('w, 'a) prog" where
  "of_outcome r = (case r of Val a \<Rightarrow> ret a | Crash c \<Rightarrow> crash c)"

lemma wp_of_outcome [simp]: "wp (of_outcome r) Q s = Q r s"
  by (cases r) (simp_all add: of_outcome_def)

primrec enter_spaces :: "space option list \<Rightarrow> (string \<times> space option) list \<Rightarrow> ('w, (string \<times> space option) list) prog" where
  "enter_spaces [] m = ret m"
| "enter_spaces (sp # sps) m = bnd (deref sp) (\<lambda>x. enter_spaces sps (AList.update (sp_spaceID x) sp m))"

primrec enter_zones :: "zone list \<Rightarrow> ('c, unit) cprog" where
  "enter_zones [] = ret ()"
| "enter_zones (z # zs) =
     bnd (update (\<lambda>s. s\<lparr>zonemap := AList.update (z_zoneName z) z (zonemap s)\<rparr>)) (\<lambda>_.
     bnd (asks space_metadata) (\<lambda>m. bnd (enter_spaces (z_spaceBicInfo z) m) (\<lambda>m.
     bnd (update (\<lambda>s. s\<lparr>space_metadata := m\<rparr>)) (\<lambda>_. enter_zones zs))))"

definition GetZoneInfo_client :: "'c net \<Rightarrow> string \<Rightarrow> ('c, bool) cprog" where
  "GetZoneInfo_client k clientID =
     bnd get_manager (\<lambda>endpoint.
     bnd (post_request k endpoint ''/zone/info'' clientID) (\<lambda>inforesult.
     bnd (if inforesult = [] then ret [] else of_outcome (decode_zones k inforesult)) (\<lambda>zs.
     if zs = [] then ret False
     else
       bnd (update (\<lambda>s. s\<lparr>space_metadata := [], zonemap := []\<rparr>)) (\<lambda>_.
       bnd (enter_zones zs) (\<lambda>_. ret True)))))"

text \<open>The last space of that name.\<close>

primrec space_named :: "string \<Rightarrow> space option list \<Rightarrow> space option \<Rightarrow> ('w, space option) prog" where
  "space_named n [] acc = ret acc"
| "space_named n (sp # sps) acc =
     bnd (deref sp) (\<lambda>x. space_named n sps (if sp_spaceName x = n then Some x else acc))"

definition locatePosition :: "string \<Rightarrow> ('c, zone option \<times> space option \<times> string) cprog" where
  "locatePosition path =
     (let namev = splitWithStl path;
          pos = find_slash path (after (find_slash path 1)) in
      bnd (at_index namev 1) (\<lambda>zonename. bnd (at_index namev 2) (\<lambda>spacename.
      let remotepath = (case pos of None \<Rightarrow> ''/'' | Some p \<Rightarrow> drop p path) in
      bnd (asks (\<lambda>s. map_of (zonemap s) zonename)) (\<lambda>mapping.
      case mapping of
        None \<Rightarrow> ret (None, None, remotepath)
      | Some z \<Rightarrow> bnd (space_named spacename (z_spaceBicInfo z) None) (\<lambda>sp. ret (Some z, sp, remotepath))))))"

text \<open>The two look-ups by identifier insert a null pointer for one that is not there and dereference it.\<close>

definition spaceuuid_to_spacerpath :: "string \<Rightarrow> ('c, string) cprog" where
  "spaceuuid_to_spacerpath uuid =
     bnd (asks (\<lambda>s. Option.bind (map_of (space_metadata s) uuid) id)) (\<lambda>p. bnd (deref p) (\<lambda>x. ret (sp_spacePath x)))"

definition spaceuuid_to_hostcenterID :: "string \<Rightarrow> ('c, string) cprog" where
  "spaceuuid_to_hostcenterID uuid =
     bnd (asks (\<lambda>s. Option.bind (map_of (space_metadata s) uuid) id)) (\<lambda>p. bnd (deref p) (\<lambda>x. ret (sp_hostCenterID x)))"

definition isZoneSpacePath :: "string \<Rightarrow> ('c, int) cprog" where
  "isZoneSpacePath path =
     (let namev = splitWithStl path in
      if cstr path = ''/'' then ret 0
      else if length namev \<ge> 2 then
        bnd (asks (\<lambda>s. map_of (zonemap s) (namev ! 1))) (\<lambda>mapping.
        if mapping = None then ret (- ENOENT)
        else if length namev = 2 then ret 1 else if length namev = 3 then ret 2 else ret 3)
      else crash Missing_Return)"

text \<open>The attributes of the root and of a zone; \<open>S_IFDIR | 0755\<close>.\<close>

definition zone_getattr :: "'c net \<Rightarrow> string \<Rightarrow> ('c, int \<times> fuse_stat) cprog" where
  "zone_getattr k path =
     bnd (outside (net_time k)) (\<lambda>t.
     let st = zero_stat\<lparr>st_mode := 16877, st_nlink := 1, st_size := 4096, st_blocks := 8,
           st_atime := t, st_mtime := t, st_ctime := t\<rparr>;
         namev = splitWithStl path in
     if cstr path = ''/'' then ret (0, st)
     else
       bnd (asks (\<lambda>s. length namev = 2 \<and> namev ! 1 \<noteq> [] \<and> map_of (zonemap s) (namev ! 1) \<noteq> None)) (\<lambda>is_zone.
       if is_zone then ret (0, st\<lparr>st_uid := 1000, st_gid := 1000\<rparr>)
       else if length namev < 3 then ret (- ENOENT, st) else crash Missing_Return))"

section \<open>The proxies\<close>

text \<open>
  The first running proxy of the centre of the space, or of the one that \<open>force_map\<close> names. Where the
  centre has no list the function returns without giving back the shared lock.
\<close>

definition get_mapping :: "string \<Rightarrow> ('c, ioproxy_node option \<times> string) cprog" where
  "get_mapping path =
     bnd (locatePosition path) (\<lambda>(zone, sp, rpath).
     case (zone, sp) of
       (Some z, Some x) \<Rightarrow>
         bnd (asks (\<lambda>s. smap_at (sp_hostCenterID x) (force_map s) (sp_spaceID x))) (\<lambda>centerID.
         bnd (asks (\<lambda>s. map_of (ioproxy_list s) centerID)) (\<lambda>l.
         case l of
           None \<Rightarrow> bnd (update (\<lambda>s. s\<lparr>graph_readers := Suc (graph_readers s)\<rparr>)) (\<lambda>_. ret (None, rpath))
         | Some proxies \<Rightarrow> ret (find (\<lambda>p. iop_status p = 0) proxies, sp_spacePath x @ rpath)))
     | _ \<Rightarrow> ret (None, rpath))"

text \<open>A writer of \<open>graph_mutex\<close> waits until no reader holds it.\<close>

definition lock_graph :: "('c, unit) cprog" where
  "lock_graph = bnd (asks graph_readers) (\<lambda>n. if n = 0 then ret () else crash Blocked_Forever)"

definition set_force_mapping :: "string \<Rightarrow> string \<Rightarrow> ('c, int) cprog" where
  "set_force_mapping path cid =
     bnd (locatePosition path) (\<lambda>(zone, sp, rpath).
     case (zone, sp) of
       (Some z, Some x) \<Rightarrow>
         bnd lock_graph (\<lambda>_. bnd (update (\<lambda>s. s\<lparr>force_map := smap_set (sp_spaceID x) cid (force_map s)\<rparr>)) (\<lambda>_. ret 0))
     | _ \<Rightarrow> ret (- 1))"

primrec space_names :: "space option list \<Rightarrow> ('w, string list) prog" where
  "space_names [] = ret []"
| "space_names (sp # sps) = bnd (deref sp) (\<lambda>x. bnd (space_names sps) (\<lambda>ns. ret (sp_spaceName x # ns)))"

definition list_space :: "string \<Rightarrow> ('c, string list) cprog" where
  "list_space zonename =
     bnd (asks (\<lambda>s. map_of (zonemap s) zonename)) (\<lambda>m.
     case m of None \<Rightarrow> ret [] | Some z \<Rightarrow> space_names (z_spaceBicInfo z))"

definition list_zone :: "'c net \<Rightarrow> ('c, string list) cprog" where
  "list_zone k = asks (\<lambda>s. hash_order k (map fst (zonemap s)))"

primrec fill_names :: "'c net \<Rightarrow> string list \<Rightarrow> ('c, int) cprog" where
  "fill_names k [] = ret 0"
| "fill_names k (n # ns) =
     bnd (outside (fuse_fill k (cstr n) None)) (\<lambda>r. if r \<noteq> 0 then ret (- ENOMEM) else fill_names k ns)"

definition zone_readdir :: "'c net \<Rightarrow> string \<Rightarrow> ('c, int) cprog" where
  "zone_readdir k path =
     (let namev = splitWithStl path in
      if cstr path = ''/'' then bnd (list_zone k) (fill_names k)
      else if length namev = 2 \<and> namev ! 1 \<noteq> [] then bnd (list_space (namev ! 1)) (fill_names k)
      else if length namev < 3 then ret (- ENOENT) else ret 0)"

text \<open>A proxy replaces the list of its centre, whatever was in it.\<close>

definition enter_proxy :: "(string \<times> ioproxy_node list) list \<Rightarrow> ioproxy_node \<Rightarrow> (string \<times> ioproxy_node list) list" where
  "enter_proxy m p = smap_set (iop_cid p) [p] m"

text \<open>
  The elements of the answer are decoded one after the other, each into a new proxy unless there is one under
  its name; an element that is no object ends the process.
\<close>

primrec dec_proxies ::
  "'c net \<Rightarrow> members \<Rightarrow> (string \<times> ioproxy_node) list \<Rightarrow> ('c, (string \<times> ioproxy_node) list) cprog" where
  "dec_proxies k [] m = ret m"
| "dec_proxies k (nv # ms) m =
     bnd (case map_of m (cstr (fst nv)) of
            Some p \<Rightarrow> ret p
          | None \<Rightarrow> bnd (outside (net_uuid k)) (\<lambda>u. ret (new_IOProxyNode k u))) (\<lambda>p.
     bnd (of_outcome (deserialize_value (\<lambda>ms x. Val (des_IOProxyNode k ms x)) (snd nv) p)) (\<lambda>p.
     dec_proxies k ms (smap_set (cstr (fst nv)) p m)))"

definition decode_proxies :: "'c net \<Rightarrow> string \<Rightarrow> ('c, (string \<times> ioproxy_node) list) cprog" where
  "decode_proxies k text = (case rj_parse k (cstr text) of Some (JObj ms) \<Rightarrow> dec_proxies k ms [] | _ \<Rightarrow> ret [])"

primrec fresh_from :: "'c net \<Rightarrow> centre_node list \<Rightarrow> ('c, unit) cprog" where
  "fresh_from k [] = ret ()"
| "fresh_from k (c # cs) =
     bnd (get_request k (node_url c) ''/ioproxy'') (\<lambda>res.
     bnd (if res = [] then ret ()
          else
            bnd (decode_proxies k res) (\<lambda>ps.
            bnd lock_graph (\<lambda>_.
            update (\<lambda>s. s\<lparr>ioproxy_list := foldl enter_proxy (ioproxy_list s) (map snd ps)\<rparr>)))) (\<lambda>_.
     fresh_from k cs))"

definition fresh_ioproxy :: "'c net \<Rightarrow> ('c, unit) cprog" where
  "fresh_ioproxy k = bnd (getNode 1) (fresh_from k)"

end
