(* ===== verification/Client_Cache.thy ===== *)
theory Client_Cache
  imports Client_World
begin

text \<open>
  \<open>client/cache_mod.cc\<close>: the client's memory of file attributes and of files that do not exist. The theorem
  says that what it answers is always what the last operation on the path left, and that it keeps to its
  bound.
\<close>

section \<open>Operations\<close>

datatype cache_status = FOUND fuse_stat | NOT_FOUND | FOUND_MISSING

definition cache_start :: "'c net \<Rightarrow> ('c, unit) cprog" where
  "cache_start k = update (\<lambda>s. s\<lparr>max_stat_cache_ct :=
     (case net_cfg_int k ''client.stat_cache_size'' of Some n \<Rightarrow> n | None \<Rightarrow> 0), stat_cache_ct := 0\<rparr>)"

definition cache_lookup :: "'c client \<Rightarrow> string \<Rightarrow> cache_status" where
  "cache_lookup s key =
     (if key \<in> set (missing s) then FOUND_MISSING
      else case map_of (cached s) key of None \<Rightarrow> NOT_FOUND | Some st \<Rightarrow> FOUND st)"

definition get_stat :: "string \<Rightarrow> ('c, cache_status) cprog" where
  "get_stat path = asks (\<lambda>s. cache_lookup s path)"

text \<open>\<open>None\<close> is the null pointer: the file does not exist.\<close>

definition set_stat :: "string \<Rightarrow> fuse_stat option \<Rightarrow> ('c, bool) cprog" where
  "set_stat path st_buf =
     (case st_buf of
        None \<Rightarrow> bnd (update (\<lambda>s. s\<lparr>missing := List.insert path (missing s)\<rparr>)) (\<lambda>_. ret True)
      | Some st \<Rightarrow>
          bnd (update (\<lambda>s. s\<lparr>missing := removeAll path (missing s)\<rparr>)) (\<lambda>_.
          bnd (asks (\<lambda>s. (cache_lookup s path, stat_cache_ct s \<ge> max_stat_cache_ct s))) (\<lambda>(lk, full).
          case lk of
            FOUND _ \<Rightarrow> bnd (update (\<lambda>s. s\<lparr>cached := smap_set path st (cached s)\<rparr>)) (\<lambda>_. ret True)
          | _ \<Rightarrow>
              if full then ret False
              else bnd (update (\<lambda>s. s\<lparr>cached := smap_set path st (cached s), stat_cache_ct := stat_cache_ct s + 1\<rparr>))
                     (\<lambda>_. ret True))))"

definition expire_stat :: "string \<Rightarrow> ('c, unit) cprog" where
  "expire_stat path =
     update (\<lambda>s. s\<lparr>missing := removeAll path (missing s), cached := smap_erase path (cached s),
       stat_cache_ct := (if map_of (cached s) path \<noteq> None then stat_cache_ct s - 1 else stat_cache_ct s)\<rparr>)"

section \<open>The cache is never stale\<close>

datatype cache_op = Set_Stat string "fuse_stat option" | Expire_Stat string

fun run_cache :: "cache_op \<Rightarrow> ('c, unit) cprog" where
  "run_cache (Set_Stat p st) = bnd (set_stat p st) (\<lambda>_. ret ())"
| "run_cache (Expire_Stat p) = expire_stat p"

primrec run_caches :: "cache_op list \<Rightarrow> ('c, unit) cprog" where
  "run_caches [] = ret ()"
| "run_caches (x # xs) = bnd (run_cache x) (\<lambda>_. run_caches xs)"

text \<open>What the last operation on a path said of it.\<close>

fun said :: "cache_op \<Rightarrow> string \<times> cache_status" where
  "said (Set_Stat p None) = (p, FOUND_MISSING)"
| "said (Set_Stat p (Some st)) = (p, FOUND st)"
| "said (Expire_Stat p) = (p, NOT_FOUND)"

fun last_said :: "cache_op list \<Rightarrow> string \<Rightarrow> cache_status" where
  "last_said xs p = (case map_of (rev (map said xs)) p of Some r \<Rightarrow> r | None \<Rightarrow> NOT_FOUND)"

text \<open>The counter is the number of entries, and the bound is kept once it is above zero.\<close>

definition cache_ok :: "'c client \<Rightarrow> bool" where
  "cache_ok s \<longleftrightarrow> smap_ok (cached s) \<and> stat_cache_ct s = int (length (cached s)) \<and>
     int (length (cached s)) \<le> max 0 (max_stat_cache_ct s)"

text \<open>What a cache answers is what was said, or nothing when it was full.\<close>

definition truthful :: "(string \<Rightarrow> cache_status) \<Rightarrow> 'c client \<Rightarrow> bool" where
  "truthful f s \<longleftrightarrow> (\<forall>p. cache_lookup s p = f p \<or> cache_lookup s p = NOT_FOUND \<and> (\<exists>st. f p = FOUND st))"

lemma length_smap_set:
  "smap_ok m \<Longrightarrow> length (smap_set p v m) = (if map_of m p = None then Suc (length m) else length m)"
proof (induction p v m rule: smap_set.induct)
  case (2 k v k' v' m)
  have "k < k' \<Longrightarrow> map_of m k = None" using 2(2) by (force simp: smap_ok_Cons map_of_eq_None_iff)
  with 2 show ?case by (auto simp: smap_ok_Cons)
qed simp

lemma length_smap_erase:
  "smap_ok m \<Longrightarrow> length (smap_erase p m) = (if map_of m p = None then length m else length m - 1)"
proof (induction m)
  case (Cons a m)
  obtain k v where a: "a = (k, v)" by (cases a)
  have "map_of m k = None" using Cons.prems a by (force simp: smap_ok_Cons map_of_eq_None_iff)
  moreover have "map_of m p \<noteq> None \<Longrightarrow> length m > 0" by (cases m) auto
  ultimately show ?case using Cons a by (auto simp: smap_ok_Cons smap_erase_def)
qed (simp add: smap_erase_def)

lemma truthful_update:
  assumes "truthful f s" and "\<And>q. q \<noteq> p \<Longrightarrow> cache_lookup s' q = cache_lookup s q"
    and "cache_lookup s' p = c \<or> cache_lookup s' p = NOT_FOUND \<and> (\<exists>st. c = FOUND st)"
  shows "truthful (f(p := c)) s'"
  using assms by (auto simp: truthful_def)

lemma wp_run_cache:
  assumes "cache_ok s" "truthful f s"
  shows "wp (run_cache x) (\<lambda>r s'. r = Val () \<and> cache_ok s' \<and> truthful (f(fst (said x) := snd (said x))) s' \<and>
    max_stat_cache_ct s' = max_stat_cache_ct s) s"
proof -
  have ok: "smap_ok (cached s)" "stat_cache_ct s = int (length (cached s))"
    "int (length (cached s)) \<le> max 0 (max_stat_cache_ct s)" using assms(1) by (simp_all add: cache_ok_def)
  have pos: "map_of (cached s) p \<noteq> None \<Longrightarrow> int (length (cached s) - Suc 0) = int (length (cached s)) - 1" for p
    by (cases "cached s") auto
  note t = truthful_update [OF assms(2)]
  show ?thesis
  proof (cases x)
    case (Set_Stat p st)
    show ?thesis
    proof (cases st)
      case None
      with Set_Stat ok show ?thesis
        by (auto simp: set_stat_def cache_ok_def cache_lookup_def intro!: t)
    next
      case (Some t')
      with Set_Stat ok show ?thesis
        by (cases "map_of (cached s) p")
          (auto simp: set_stat_def cache_ok_def cache_lookup_def length_smap_set intro!: t split: option.splits)
    qed
  next
    case (Expire_Stat p)
    with ok pos [of p] show ?thesis
      by (cases "map_of (cached s) p")
        (auto simp: expire_stat_def cache_ok_def cache_lookup_def length_smap_erase intro!: t)
  qed
qed

lemma last_said_Cons:
  "last_said (xs @ [x]) = (last_said xs)(fst (said x) := snd (said x))"
  by (cases x; cases "said x") (auto simp: fun_eq_iff)

lemma wp_run_caches:
  "cache_ok s \<Longrightarrow> truthful (last_said ys) s \<Longrightarrow>
     wp (run_caches xs) (\<lambda>r s'. r = Val () \<and> cache_ok s' \<and> truthful (last_said (ys @ xs)) s' \<and>
       max_stat_cache_ct s' = max_stat_cache_ct s) s"
proof (induction xs arbitrary: s ys)
  case (Cons x xs)
  show ?case
    unfolding run_caches.simps
  proof (rule wp_step [OF wp_run_cache [OF Cons.prems]])
    fix s' :: "'a client"
    assume s': "cache_ok s' \<and> truthful ((last_said ys)(fst (said x) := snd (said x))) s' \<and>
      max_stat_cache_ct s' = max_stat_cache_ct s"
    then have "truthful (last_said (ys @ [x])) s'" unfolding last_said_Cons by simp
    from Cons.IH [OF _ this] s'
    have "wp (run_caches xs) (\<lambda>r s'. r = Val () \<and> cache_ok s' \<and>
        truthful (last_said ((ys @ [x]) @ xs)) s' \<and> max_stat_cache_ct s' = max_stat_cache_ct s') s'"
      by (auto elim!: wp_mono simp del: last_said.simps)
    from Cons.IH [OF _ \<open>truthful (last_said (ys @ [x])) s'\<close>] s'
    show "wp (run_caches xs) (\<lambda>r s'. r = Val () \<and> cache_ok s' \<and>
        truthful (last_said (ys @ x # xs)) s' \<and> max_stat_cache_ct s' = max_stat_cache_ct s) s'"
      by (simp del: last_said.simps)
  qed
qed (simp del: last_said.simps)

text \<open>C23: After any operations on a cache that starts empty, a path is answered what the last operation on it
  said, or is not found when the attributes were refused because the cache was full; the entries never
  exceed the configured number.\<close>

theorem cache_never_stale:
  assumes "missing s = []" "cached s = []"
  shows "wp (bnd (cache_start k) (\<lambda>_. run_caches xs)) (\<lambda>r s'. r = Val () \<and>
    int (length (cached s')) \<le> max 0 (max_stat_cache_ct s') \<and>
    (\<forall>p. cache_lookup s' p = last_said xs p \<or>
         cache_lookup s' p = NOT_FOUND \<and> (\<exists>st. last_said xs p = FOUND st))) s"
proof -
  let ?s = "s\<lparr>max_stat_cache_ct := (case net_cfg_int k ''client.stat_cache_size'' of Some n \<Rightarrow> n | None \<Rightarrow> 0),
    stat_cache_ct := 0\<rparr>"
  have "cache_ok ?s" "truthful (last_said []) ?s"
    using assms by (simp_all add: cache_ok_def truthful_def cache_lookup_def)
  from wp_run_caches [OF this, of xs] show ?thesis
    by (auto simp: cache_start_def cache_ok_def truthful_def simp del: last_said.simps elim!: wp_mono)
qed

theorem cache_never_stale_witness:
  "wp (bnd (cache_start (dead_net\<lparr>net_cfg_int := \<lambda>_. Some 1\<rparr>)) (\<lambda>_. run_caches
     [Set_Stat ''a'' (Some zero_stat), Set_Stat ''b'' (Some zero_stat), Set_Stat ''a'' None])) (\<lambda>r s'. r = Val () \<and>
     cache_lookup s' ''a'' = FOUND_MISSING \<and> (cache_lookup s' ''b'' = FOUND zero_stat \<or> cache_lookup s' ''b'' = NOT_FOUND))
     (new_client ())"
  by (rule wp_mono [OF cache_never_stale]) (auto simp: new_client_def dest: spec [of _ "''a''"] spec [of _ "''b''"])

end
