(* ===== verification/Fuse_Impl.thy ===== *)
theory Fuse_Impl
  imports Client_Paths Client_Cache Readahead Write_Queue
begin

text \<open>
  The operations of the mounted tree, \<open>client/gvds_fuse_impl.cc\<close>. Paths above a space are answered by the
  client; the others are mapped to a proxy and a path there, and the request is sent to it. What an operation
  gives the kernel is its return value and, where there is one, the attributes or the bytes it filled in.
\<close>

section \<open>Requests\<close>

definition u32 :: "int \<Rightarrow> nat" where
  "u32 x = nat (x mod 2 ^ 32)"

definition fuse_request :: "op_type \<Rightarrow> string \<Rightarrow> op_request" where
  "fuse_request t rpath = new_OpRequest\<lparr>rq_type := t, rq_filepath := rpath\<rparr>"

text \<open>The proxy of the path, or an error when there is none.\<close>

definition with_mapping ::
  "string \<Rightarrow> (ioproxy_node \<Rightarrow> string \<Rightarrow> ('c, 'a) cprog) \<Rightarrow> 'a \<Rightarrow> ('c, 'a) cprog" where
  "with_mapping path f missing_proxy =
     bnd (get_mapping path) (\<lambda>(iop, rpath). case iop of None \<Rightarrow> ret missing_proxy | Some n \<Rightarrow> f n rpath)"

text \<open>A call that does not go through counts as a file that does not exist.\<close>

definition call_proxy :: "'c net \<Rightarrow> ioproxy_node \<Rightarrow> op_request \<Rightarrow> 'a \<Rightarrow> (op_reply \<Rightarrow> ('c, 'a) cprog) \<Rightarrow> ('c, 'a) cprog" where
  "call_proxy k n rq failed f = bnd (submit_op k n rq) (\<lambda>(ok, reply). if \<not> ok then ret failed else f reply)"

definition simple_call :: "'c net \<Rightarrow> ioproxy_node \<Rightarrow> op_request \<Rightarrow> ('c, int) cprog" where
  "simple_call k n rq = call_proxy k n rq (- ENOENT) (\<lambda>reply. ret (rp_err_code reply))"

definition expire :: "string \<Rightarrow> ('c, unit) cprog" where
  "expire rpath = bnd (asks max_stat_cache_ct) (\<lambda>m. if m > 0 then expire_stat rpath else ret ())"

definition remember :: "string \<Rightarrow> fuse_stat option \<Rightarrow> ('c, unit) cprog" where
  "remember rpath st =
     bnd (asks max_stat_cache_ct) (\<lambda>m. if m > 0 then bnd (set_stat rpath st) (\<lambda>_. ret ()) else ret ())"

definition in_content :: "string \<Rightarrow> bool" where
  "in_content path \<longleftrightarrow> length (splitWithStl path) > 3"

section \<open>Attributes and directories\<close>

definition stat_of :: "attr \<Rightarrow> fuse_stat" where
  "stat_of a = zero_stat\<lparr>st_mode := at_permission a mod 2 ^ 32, st_nlink := 1, st_uid := 1000, st_gid := 1000,
     st_size := i64 (at_size a), st_atime := i64 (at_ctime a), st_mtime := i64 (at_mtime a), st_ctime := i64 (at_ctime a)\<rparr>"

definition rp_attr :: "op_reply \<Rightarrow> attr" where
  "rp_attr r = (case rp_content r of R_Attr a \<Rightarrow> a | _ \<Rightarrow> new_Attr)"

text \<open>Any error of the proxy is remembered as a file that does not exist.\<close>

definition getattr_remote :: "'c net \<Rightarrow> ioproxy_node \<Rightarrow> string \<Rightarrow> ('c, int \<times> fuse_stat option) cprog" where
  "getattr_remote k iop rpath =
     call_proxy k iop (fuse_request T_getattr rpath) (- ENOENT, None) (\<lambda>reply.
     if rp_err_code reply \<noteq> 0 then bnd (remember rpath None) (\<lambda>_. ret (rp_err_code reply, None))
     else
       let st = stat_of (rp_attr reply) in bnd (remember rpath (Some st)) (\<lambda>_. ret (0, Some st)))"

definition gvdsfs_getattr :: "'c net \<Rightarrow> string \<Rightarrow> ('c, int \<times> fuse_stat option) cprog" where
  "gvdsfs_getattr k path =
     bnd (isZoneSpacePath path) (\<lambda>zs_res.
     if zs_res < 0 then ret (zs_res, None)
     else if zs_res < 2 then bnd (zone_getattr k path) (\<lambda>(r, st). ret (r, Some st))
     else
       with_mapping path (\<lambda>iop rpath.
         bnd (asks (\<lambda>s. if max_stat_cache_ct s > 0 then cache_lookup s rpath else NOT_FOUND)) (\<lambda>found.
         case found of
           FOUND st \<Rightarrow> ret (0, Some st)
         | FOUND_MISSING \<Rightarrow> ret (- ENOENT, None)
         | NOT_FOUND \<Rightarrow> getattr_remote k iop rpath)) (- EPERM, None))"

text \<open>Each name of the reply with the attributes of the same index.\<close>

primrec fill_entries :: "'c net \<Rightarrow> string \<Rightarrow> attr list \<Rightarrow> nat \<Rightarrow> string list \<Rightarrow> ('c, int) cprog" where
  "fill_entries k rpath attrs i [] = ret 0"
| "fill_entries k rpath attrs i (name # names) =
     bnd (at_index attrs i) (\<lambda>a.
     let st = stat_of a in
     bnd (outside (fuse_fill k (cstr name) (Some st))) (\<lambda>r.
     if r \<noteq> 0 then ret (- ENOMEM)
     else bnd (remember (path_join rpath name) (Some st)) (\<lambda>_. fill_entries k rpath attrs (i + 1) names)))"

definition gvdsfs_readdir :: "'c net \<Rightarrow> string \<Rightarrow> ('c, int) cprog" where
  "gvdsfs_readdir k path =
     bnd (isZoneSpacePath path) (\<lambda>zs_res.
     if zs_res < 0 then ret zs_res
     else if zs_res < 2 then zone_readdir k path
     else
       with_mapping path (\<lambda>iop rpath.
         call_proxy k iop (fuse_request T_readdir rpath) (- ENOENT) (\<lambda>reply.
         fill_entries k rpath (rp_entries reply) 0 (rp_entry_names reply))) (- ENOENT))"

section \<open>Files\<close>

abbreviation (input) ENOTSUP :: int where "ENOTSUP \<equiv> 95"
abbreviation (input) ENODATA :: int where "ENODATA \<equiv> 61"

text \<open>The result and the file handle, which is the descriptor of the proxy.\<close>

definition gvdsfs_open :: "'c net \<Rightarrow> string \<Rightarrow> int \<Rightarrow> ('c, int \<times> nat option) cprog" where
  "gvdsfs_open k path flags =
     bnd (isZoneSpacePath path) (\<lambda>zs_res.
     if zs_res < 0 then ret (zs_res, None)
     else if zs_res < 2 then ret (- ENOTSUP, None)
     else
       with_mapping path (\<lambda>iop rpath.
         bnd (expire rpath) (\<lambda>_.
         call_proxy k iop (fuse_request T_open rpath\<lparr>rq_mode := u32 flags\<rparr>) (- ENOENT, None) (\<lambda>reply.
         ret (if rp_err_code reply > 0 then (0, Some (nat (rp_err_code reply))) else (rp_err_code reply, None)))))
         (- ENOENT, None))"

text \<open>Copying to the buffer of the reader, always to its beginning; \<open>n\<close> is the size of that buffer.\<close>

definition memcpy_to :: "nat \<Rightarrow> string \<Rightarrow> int \<Rightarrow> string \<Rightarrow> ('w, string) prog" where
  "memcpy_to n src len buf =
     (if nat len > length src + 1 \<or> nat len > n then crash Out_Of_Range
      else ret (take (nat len) (src @ [CHR 0x00]) @ drop (nat len) buf))"

text \<open>What is left to read in the sector of an offset.\<close>

definition sector_rest :: "nat \<Rightarrow> nat \<Rightarrow> nat" where
  "sector_rest cur_off size_left = min size_left ((cur_off div SECTOR + 1) * SECTOR - cur_off)"

lemma sector_rest_pos: "0 < size_left \<Longrightarrow> 0 < sector_rest cur_off size_left"
  using div_mult_mod_eq [of cur_off SECTOR] mod_less_divisor [of SECTOR cur_off] by (simp add: sector_rest_def)

text \<open>
  The part of \<open>read\<close> that looks into the read-ahead (bytes come with the status \<open>IN_BUFFER\<close>): what is left to read, what has been read, and the buffer.
  The reader's position moves on, the place in the buffer does not. After a task was set the file is being
  read ahead, and the read is never again taken for the beginning of a sequence.
\<close>

function read_ahead :: "'c net \<Rightarrow> ioproxy_node \<Rightarrow> string \<Rightarrow> nat \<Rightarrow> bool \<Rightarrow> nat \<Rightarrow> nat \<Rightarrow> nat \<Rightarrow> string \<Rightarrow>
    ('c, nat \<times> nat \<times> string) cprog" where
  "read_ahead k iop rpath offset tasked cur_off size_left got buf =
     (if size_left = 0 then ret (0, got, buf)
      else
        let cur_sec_left = sector_rest cur_off size_left in
        bnd (ra_status_of k rpath cur_off cur_sec_left) (\<lambda>(cache_st, bytes).
        case bytes of
          Some bs \<Rightarrow>
            read_ahead k iop rpath offset tasked (cur_off + cur_sec_left) (size_left - cur_sec_left)
              (got + length bs) (bs @ drop (length bs) buf)
        | None \<Rightarrow>
        if cache_st = MAY_SEQ_READ then
          bnd (asks (\<lambda>s. nat (readahead_size s mod 2 ^ 32))) (\<lambda>sec_max.
          bnd (set_task k (Some iop) rpath False (offset div SECTOR) sec_max (2 ^ 64 - 1)) (\<lambda>nt.
          if \<not> nt then ret (size_left, got, buf)
          else if tasked then crash Blocked_Forever
          else read_ahead k iop rpath offset True cur_off size_left got buf))
        else ret (size_left, got, buf)))"
  by pat_completeness auto
termination
  by (relation "measure (\<lambda>(k, iop, rpath, offset, tasked, cur_off, size_left, got, buf).
    2 * size_left + (if tasked then 0 else 1))") (auto intro!: diff_less add_strict_mono simp: sector_rest_pos)

declare read_ahead.simps [simp del]

definition read_remote :: "'c net \<Rightarrow> ioproxy_node \<Rightarrow> string \<Rightarrow> nat \<Rightarrow> nat \<Rightarrow> nat \<Rightarrow> int \<Rightarrow> string \<Rightarrow> ('c, int \<times> string) cprog" where
  "read_remote k iop rpath n offset fh flags buf =
     bnd (asks use_udt) (\<lambda>udt.
     if udt then
       bnd (read_data k iop \<lparr>ub_error = 0, ub_data = [], ub_offset = offset, ub_path = cstr rpath, ub_is_read = True,
         ub_read_size = n, ub_fid = i32 (int fh), ub_flags = flags\<rparr>) (\<lambda>res.
       case res of
         None \<Rightarrow> ret (- ETIMEDOUT, buf)
       | Some r \<Rightarrow>
           if ub_error r < 0 then ret (ub_error r, buf)
           else bnd (memcpy_to n (ub_data r) (int (length (ub_data r))) buf) (\<lambda>buf.
                ret (i32 (int (length (ub_data r))), buf)))
     else
       call_proxy k iop (fuse_request T_read rpath\<lparr>rq_param := Io_Param \<lparr>par_offset = offset, par_size = n\<rparr>\<rparr>)
         (- ENOENT, buf) (\<lambda>reply.
       if rp_err_code reply \<le> 0 then ret (rp_err_code reply, buf)
       else bnd (memcpy_to n (rp_data reply) (rp_err_code reply) buf) (\<lambda>buf. ret (rp_err_code reply, buf))))"

definition gvdsfs_read :: "'c net \<Rightarrow> string \<Rightarrow> nat \<Rightarrow> nat \<Rightarrow> nat \<Rightarrow> int \<Rightarrow> ('c, int \<times> string) cprog" where
  "gvdsfs_read k path n offset fh flags =
     with_mapping path (\<lambda>iop rpath.
       bnd (asks (\<lambda>s. readahead_size s \<noteq> 0)) (\<lambda>ahead.
       bnd (if ahead then read_ahead k iop rpath offset False offset n 0 [] else ret (1, 0, [])) (\<lambda>(left, got, buf).
       if ahead \<and> left = 0 then ret (i32 (int got), buf)
       else read_remote k iop rpath n offset fh flags buf))) (- ENOENT, [])"

text \<open>An asynchronous write is done when it is queued; its reply is never looked at.\<close>

definition gvdsfs_write :: "'c net \<Rightarrow> string \<Rightarrow> string \<Rightarrow> nat \<Rightarrow> ('c, int) cprog" where
  "gvdsfs_write k path data offset =
     with_mapping path (\<lambda>iop rpath.
       bnd (asks (\<lambda>s. readahead_size s \<noteq> 0)) (\<lambda>ahead.
       bnd (if ahead then clear_buf rpath else ret ()) (\<lambda>_.
       bnd (expire rpath) (\<lambda>_.
       bnd (asks async_mode) (\<lambda>async.
       if async then
         bnd (queue_buffer k \<lparr>wb_data = data, wb_offset = offset, wb_path = rpath, wb_dest = Some iop\<rparr>) (\<lambda>_.
         ret (i32 (int (length data))))
       else
         simple_call k iop (fuse_request T_write rpath\<lparr>
           rq_param := Io_Param \<lparr>par_offset = offset, par_size = length data\<rparr>, rq_data := data\<rparr>)))))) (- ENOENT)"

definition gvdsfs_access :: "'c net \<Rightarrow> string \<Rightarrow> int \<Rightarrow> ('c, int) cprog" where
  "gvdsfs_access k path mode =
     bnd (isZoneSpacePath path) (\<lambda>zs_res.
     if zs_res < 0 then ret zs_res
     else if zs_res < 2 then ret 0
     else with_mapping path (\<lambda>iop rpath. simple_call k iop (fuse_request T_access rpath\<lparr>rq_mode := u32 mode\<rparr>)) (- ENOENT))"

text \<open>The size goes into the parameters of a read or write.\<close>

definition gvdsfs_truncate :: "'c net \<Rightarrow> string \<Rightarrow> int \<Rightarrow> ('c, int) cprog" where
  "gvdsfs_truncate k path len =
     with_mapping path (\<lambda>iop rpath.
       bnd (expire rpath) (\<lambda>_.
       simple_call k iop (fuse_request T_truncate rpath\<lparr>rq_param := Io_Param \<lparr>par_offset = 0, par_size = u64 len\<rparr>\<rparr>)))
       (- ENOENT)"

section \<open>Names\<close>

text \<open>An operation on something in a space: its cached attributes are forgotten and the request is sent.\<close>

definition content_op :: "'c net \<Rightarrow> string \<Rightarrow> (string \<Rightarrow> op_request) \<Rightarrow> ('c, int) cprog" where
  "content_op k path rq =
     with_mapping path (\<lambda>iop rpath. bnd (expire rpath) (\<lambda>_. simple_call k iop (rq rpath))) (- ENOENT)"

definition gvdsfs_mkdir :: "'c net \<Rightarrow> string \<Rightarrow> int \<Rightarrow> ('c, int) cprog" where
  "gvdsfs_mkdir k path mode =
     (if \<not> in_content path then ret (- EPERM)
      else content_op k path (\<lambda>rpath. fuse_request T_mkdir rpath\<lparr>rq_mode := u32 mode\<rparr>))"

definition gvdsfs_unlink :: "'c net \<Rightarrow> string \<Rightarrow> ('c, int) cprog" where
  "gvdsfs_unlink k path = content_op k path (fuse_request T_unlink)"

definition gvdsfs_rmdir :: "'c net \<Rightarrow> string \<Rightarrow> ('c, int) cprog" where
  "gvdsfs_rmdir k path =
     (if \<not> in_content path then ret (- EPERM) else content_op k path (fuse_request T_rmdir))"

definition gvdsfs_rename :: "'c net \<Rightarrow> string \<Rightarrow> string \<Rightarrow> ('c, int) cprog" where
  "gvdsfs_rename k path newpath =
     (if \<not> in_content path then ret (- EPERM)
      else
        bnd (get_mapping path) (\<lambda>(siop, srpath).
        bnd (get_mapping newpath) (\<lambda>(diop, drpath).
        case (siop, diop) of
          (Some s, Some d) \<Rightarrow>
            if iop_uuid s \<noteq> iop_uuid d then ret (- ENOTSUP)
            else
              bnd (expire srpath) (\<lambda>_. bnd (expire drpath) (\<lambda>_.
              simple_call k s (fuse_request T_rename srpath\<lparr>rq_param := Newpath drpath\<rparr>)))
        | _ \<Rightarrow> ret (- ENOENT))))"

definition gvdsfs_chmod :: "'c net \<Rightarrow> string \<Rightarrow> int \<Rightarrow> ('c, int) cprog" where
  "gvdsfs_chmod k path mode =
     (if \<not> in_content path then ret (- EPERM)
      else content_op k path (\<lambda>rpath. fuse_request T_chmod rpath\<lparr>rq_mode := u32 mode\<rparr>))"

definition gvdsfs_chown :: "'c net \<Rightarrow> string \<Rightarrow> ('c, int) cprog" where
  "gvdsfs_chown k path =
     (if \<not> in_content path then ret (- EPERM)
      else with_mapping path (\<lambda>iop rpath. bnd (expire rpath) (\<lambda>_. ret (- ENOTSUP))) (- ENOENT))"

definition gvdsfs_create :: "'c net \<Rightarrow> string \<Rightarrow> int \<Rightarrow> ('c, int) cprog" where
  "gvdsfs_create k path mode =
     (if \<not> in_content path then ret (- EPERM)
      else content_op k path (\<lambda>rpath. fuse_request T_create rpath\<lparr>rq_mode := u32 mode\<rparr>))"

text \<open>Only the second time is sent; both travel as a size and an offset.\<close>

definition gvdsfs_utimens :: "'c net \<Rightarrow> string \<Rightarrow> (int \<times> int) \<times> (int \<times> int) \<Rightarrow> ('c, int) cprog" where
  "gvdsfs_utimens k path tv =
     (case tv of ((sec0s, sec0n), (sec1s, sec1n)) \<Rightarrow>
      if \<not> in_content path then ret (- EPERM)
      else content_op k path (\<lambda>rpath. fuse_request T_utimens rpath\<lparr>
             rq_param := Io_Param \<lparr>par_offset = u64 sec1n, par_size = u64 sec1s\<rparr>\<rparr>))"

text \<open>The operations that do nothing, and those that are not supported.\<close>

definition fuse_does_nothing :: "('c, int) cprog" where
  "fuse_does_nothing = ret 0"

definition fuse_unsupported :: "('c, int) cprog" where
  "fuse_unsupported = ret (- ENOTSUP)"

section \<open>Extended attributes\<close>

definition gvdsfs_setxattr :: "'c net \<Rightarrow> string \<Rightarrow> string \<Rightarrow> string \<Rightarrow> int \<Rightarrow> ('c, int) cprog" where
  "gvdsfs_setxattr k path name val flags =
     (if \<not> in_content path then ret (- EPERM)
      else if name = ''user.gvds.visit.force'' then bnd (set_force_mapping path val) (\<lambda>_. ret 0)
      else
        with_mapping path (\<lambda>iop rpath.
          simple_call k iop (fuse_request T_setxattr rpath\<lparr>rq_param := Xattr_name name, rq_data := val,
            rq_size := length val, rq_mode := u32 flags\<rparr>)) (- ENOENT))"

text \<open>\<open>rfind(pat) == 0\<close>: the last place where the pattern is found is the beginning.\<close>

definition rfind_at_0 :: "string \<Rightarrow> string \<Rightarrow> bool" where
  "rfind_at_0 pat s \<longleftrightarrow>
     [i \<leftarrow> [0..<length s + 1]. i + length pat \<le> length s \<and> take (length pat) (drop i s) = pat] = [0]"

text \<open>The value is copied to the buffer of the caller, which has room for \<open>room\<close> bytes.\<close>

definition copy_value :: "nat \<Rightarrow> op_reply \<Rightarrow> ('c, int \<times> string) cprog" where
  "copy_value room reply =
     (if rp_err_code reply > 0 then
        bnd (memcpy_to room (rp_data reply) (rp_err_code reply) []) (\<lambda>buf. ret (rp_err_code reply, buf))
      else ret (rp_err_code reply, []))"

definition gvdsfs_getxattr :: "'c net \<Rightarrow> string \<Rightarrow> string \<Rightarrow> nat \<Rightarrow> ('c, int \<times> string) cprog" where
  "gvdsfs_getxattr k path name room =
     (if \<not> in_content path then ret (- ENODATA, [])
      else
        with_mapping path (\<lambda>iop rpath.
          if rfind_at_0 ''security.capability'' name then ret (- ENODATA, [])
          else
            call_proxy k iop (fuse_request T_getxattr rpath\<lparr>rq_param := Xattr_name name, rq_size := room\<rparr>)
              (- ENOENT, []) (copy_value room)) (- ENODATA, []))"

definition gvdsfs_listxattr :: "'c net \<Rightarrow> string \<Rightarrow> nat \<Rightarrow> ('c, int \<times> string) cprog" where
  "gvdsfs_listxattr k path room =
     (if \<not> in_content path then ret (- EPERM, [])
      else
        with_mapping path (\<lambda>iop rpath.
          call_proxy k iop (fuse_request T_listxattr rpath\<lparr>rq_size := room\<rparr>) (- ENOENT, []) (copy_value room))
          (- ENOENT, []))"

definition gvdsfs_removexattr :: "'c net \<Rightarrow> string \<Rightarrow> string \<Rightarrow> ('c, int) cprog" where
  "gvdsfs_removexattr k path name =
     (if \<not> in_content path then ret (- EPERM)
      else
        with_mapping path (\<lambda>iop rpath.
          simple_call k iop (fuse_request T_removexattr rpath\<lparr>rq_param := Xattr_name name\<rparr>)) (- ENOENT))"

section \<open>Start\<close>

text \<open>\<open>ClientFuse::start\<close>: what it keeps of the configuration.\<close>

definition fuse_start :: "'c net \<Rightarrow> ('c, unit) cprog" where
  "fuse_start k = update (\<lambda>s. s\<lparr>
     use_udt := (case net_cfg_bool k ''client.use_udt'' of Some b \<Rightarrow> b | None \<Rightarrow> False),
     async_mode := (case net_cfg_bool k ''client.async'' of Some b \<Rightarrow> b | None \<Rightarrow> False),
     readahead_size := (case net_cfg_int k ''client.readahead'' of Some n \<Rightarrow> n | None \<Rightarrow> 0)\<rparr>)"

end
