(* ===== verification/Client_Path_Props.thy ===== *)
theory Client_Path_Props
  imports Client_Paths
begin

text \<open>
  Where the client sends a path: the space it is in, the proxy of the centre of the space and the path on
  that proxy; and what becomes of the proxies when a centre has none.
\<close>

section \<open>Paths\<close>

lemma pieces_slash: "CHR ''/'' \<notin> set a \<Longrightarrow> pieces acc (a @ CHR ''/'' # r) = (acc @ a) # pieces [] r"
  by (induction a arbitrary: acc) auto

lemma pieces_last: "CHR ''/'' \<notin> set a \<Longrightarrow> pieces acc a = [acc @ a]"
  by (induction a arbitrary: acc) auto

lemma find_slash_at:
  "CHR ''/'' \<notin> set a \<Longrightarrow> find_slash (p @ a @ CHR ''/'' # r) (length p) = Some (length p + length a)"
  by (simp add: find_slash_def takeWhile_append)

lemma find_slash_none: "CHR ''/'' \<notin> set a \<Longrightarrow> find_slash (p @ a) (length p) = None"
proof -
  assume "CHR ''/'' \<notin> set a"
  then have "takeWhile (\<lambda>c. c \<noteq> CHR ''/'') a = a" by (auto simp: takeWhile_eq_all_conv)
  then show ?thesis by (simp add: find_slash_def Let_def del: takeWhile_eq_all_conv)
qed

text \<open>A path in a space: a zone, a space in it, and the rest, which is empty or begins with a separator.\<close>

definition space_path :: "string \<Rightarrow> string \<Rightarrow> string \<Rightarrow> string" where
  "space_path zn sn rest = ''/'' @ zn @ ''/'' @ sn @ rest"

definition path_ok :: "string \<Rightarrow> string \<Rightarrow> string \<Rightarrow> bool" where
  "path_ok zn sn rest \<longleftrightarrow> CHR ''/'' \<notin> set zn \<and> CHR ''/'' \<notin> set sn \<and> (rest = [] \<or> hd rest = CHR ''/'')"

lemma split_space_path:
  assumes "path_ok zn sn rest"
  shows "splitWithStl (space_path zn sn rest) =
    (if rest = [] then [[], zn, sn] else [[], zn, sn] @ splitWithStl (tl rest @ []) @ (if tl rest = [] then [[]] else []))"
proof (cases rest)
  case Nil
  with assms show ?thesis by (simp add: path_ok_def space_path_def splitWithStl_def pieces_slash pieces_last)
next
  case (Cons c r)
  with assms have "c = CHR ''/''" by (simp add: path_ok_def)
  with assms Cons show ?thesis
    using pieces_slash [of zn "[]" "sn @ CHR ''/'' # r"] pieces_slash [of sn "[]" r]
    by (simp add: path_ok_def space_path_def splitWithStl_def)
qed

lemma second_slash:
  assumes "path_ok zn sn rest"
  shows "find_slash (space_path zn sn rest) (after (find_slash (space_path zn sn rest) 1)) =
    (if rest = [] then None else Some (length zn + length sn + 2))"
proof -
  have 1: "find_slash (space_path zn sn rest) 1 = Some (Suc (length zn))"
    using assms find_slash_at [of zn "''/''" "sn @ rest"] by (simp add: path_ok_def space_path_def)
  have n: "after (Some (Suc (length zn))) = length (''/'' @ zn @ ''/'')" by (simp add: after_def)
  show ?thesis
  proof (cases rest)
    case Nil
    with assms find_slash_none [of sn "''/'' @ zn @ ''/''"] show ?thesis
      unfolding 1 n by (simp add: path_ok_def space_path_def)
  next
    case (Cons c r)
    with assms have "c = CHR ''/''" by (simp add: path_ok_def)
    with assms Cons find_slash_at [of sn "''/'' @ zn @ ''/''" r] show ?thesis
      unfolding 1 n by (simp add: path_ok_def space_path_def)
  qed
qed

lemma bnd_deref: "bnd (deref (Some x)) f = f x"
  by (simp add: deref_def bnd_def ret_def)

lemma space_named_Some:
  "space_named n (map Some sps) acc =
     ret (case find (\<lambda>x. sp_spaceName x = n) (rev sps) of None \<Rightarrow> acc | Some x \<Rightarrow> Some x)"
proof (induction sps arbitrary: acc)
  case (Cons x sps)
  have last: "find P (xs @ [x]) = (case find P xs of None \<Rightarrow> if P x then Some x else None | r \<Rightarrow> r)"
    for P and xs :: "space list" and x
    by (induction xs) auto
  show ?case
    by (simp only: list.map space_named.simps bnd_deref Cons) (simp add: last split: option.splits)
qed simp

lemma space_named_None:
  "space_named n (map Some sps) None = ret (find (\<lambda>x. sp_spaceName x = n) (rev sps))"
  by (simp add: space_named_Some split: option.splits)

lemma locate_in:
  assumes "path_ok zn sn rest" and "map_of (zonemap s) zn = Some z" and "z_spaceBicInfo z = map Some sps"
  shows "wp (locatePosition (space_path zn sn rest)) (\<lambda>r s'.
    r = Val (Some z, find (\<lambda>x. sp_spaceName x = sn) (rev sps), if rest = [] then ''/'' else rest) \<and> s' = s) s"
proof -
  have d: "drop (length zn + length sn + 2) (space_path zn sn rest) = rest" by (simp add: space_path_def)
  have n: "splitWithStl (space_path zn sn rest) ! 1 = zn" "splitWithStl (space_path zn sn rest) ! 2 = sn"
    "2 < length (splitWithStl (space_path zn sn rest))" using split_space_path [OF assms(1)] by auto
  then have "1 < length (splitWithStl (space_path zn sn rest))" by simp
  with n d assms(2,3) show ?thesis
    by (simp add: locatePosition_def second_slash [OF assms(1), unfolded One_nat_def] at_index_def space_named_None Let_def)
qed

section \<open>The proxy of a path\<close>

lemma get_mapping_served:
  assumes "path_ok zn sn rest" and "map_of (zonemap s) zn = Some z" and "z_spaceBicInfo z = map Some sps"
    and "find (\<lambda>x. sp_spaceName x = sn) (rev sps) = Some x"
    and "map_of (ioproxy_list s) (case map_of (force_map s) (sp_spaceID x) of Some c \<Rightarrow> c | None \<Rightarrow> sp_hostCenterID x) =
      Some proxies"
  shows "wp (get_mapping (space_path zn sn rest)) (\<lambda>r s'. s' = s \<and>
    r = Val (find (\<lambda>p. iop_status p = 0) proxies, sp_spacePath x @ (if rest = [] then ''/'' else rest))) s"
  unfolding get_mapping_def
  using assms(4,5) by (intro wp_step [OF locate_in [OF assms(1-3)]]) (simp add: smap_at_def)

text \<open>C22: A path in a space goes to the first running proxy of the centre that the space is forced to, or of
  its own centre, under the path of the space followed by the rest.\<close>

theorem path_goes_to_its_proxy:
  assumes "path_ok zn sn rest" and "map_of (zonemap s) zn = Some z" and "z_spaceBicInfo z = map Some sps"
    and "find (\<lambda>x. sp_spaceName x = sn) (rev sps) = Some x"
    and "map_of (ioproxy_list s) (case map_of (force_map s) (sp_spaceID x) of Some c \<Rightarrow> c | None \<Rightarrow> sp_hostCenterID x) =
      Some proxies"
  shows "wp (get_mapping (space_path zn sn rest)) (\<lambda>r s'. s' = s \<and>
    r = Val (find (\<lambda>p. iop_status p = 0) proxies, sp_spacePath x @ (if rest = [] then ''/'' else rest))) s"
  by (rule get_mapping_served [OF assms])

text \<open>A client with one zone and one space in it.\<close>

definition client_proxy :: "string \<Rightarrow> ioproxy_node" where
  "client_proxy u = \<lparr>iop_rpc_port = 9095, iop_data_port = 9096, iop_ip = ''10.0.0.2'', iop_name = ''p'',
     iop_status = 0, iop_uuid = u, iop_cid = ''2''\<rparr>"

definition sample_space_2 :: space where
  "sample_space_2 = zero_Space\<lparr>sp_spaceID := ''i1'', sp_spaceName := ''s1'', sp_spacePath := ''/d1'', sp_hostCenterID := ''2''\<rparr>"

definition sample_client :: "unit client" where
  "sample_client = (new_client ())\<lparr>
     zonemap := [(''z1'', (new_Zone (dead_net :: unit net))\<lparr>z_spaceBicInfo := [Some sample_space_2]\<rparr>)],
     ioproxy_list := [(''2'', [client_proxy ''u2''])]\<rparr>"

lemma sample_running: "iop_status (client_proxy u) = 0"
  by (simp add: client_proxy_def)

lemma sample_find: "find (\<lambda>p. iop_status p = 0) [client_proxy u] = Some (client_proxy u)"
  by (simp add: sample_running)

lemma client_path: "path_ok ''z1'' ''s1'' ''/f''" "space_path ''z1'' ''s1'' ''/f'' = ''/z1/s1/f''"
  by (simp_all add: path_ok_def space_path_def)

lemma client_zone_facts: "map_of (zonemap sample_client) ''z1'' = Some ((new_Zone (dead_net :: unit net))\<lparr>z_spaceBicInfo := map Some [sample_space_2]\<rparr>)"
  "find (\<lambda>x. sp_spaceName x = ''s1'') (rev [sample_space_2]) = Some sample_space_2"
  "sp_spaceID sample_space_2 = ''i1''" "sp_hostCenterID sample_space_2 = ''2''" "sp_spacePath sample_space_2 = ''/d1''"
  "force_map sample_client = []" "ioproxy_list sample_client = [(''2'', [client_proxy ''u2''])]"
  "graph_readers sample_client = 0"
  by (simp_all add: sample_client_def sample_space_2_def new_client_def)

theorem path_goes_to_its_proxy_witness:
  "wp (get_mapping ''/z1/s1/f'') (\<lambda>r s'. r = Val (Some (client_proxy ''u2''), ''/d1/f'')) sample_client"
proof -
  have "map_of (ioproxy_list sample_client)
      (case map_of (force_map sample_client) (sp_spaceID sample_space_2) of Some c \<Rightarrow> c | None \<Rightarrow> sp_hostCenterID sample_space_2) =
      Some [client_proxy ''u2'']"
    by (simp add: client_zone_facts)
  from path_goes_to_its_proxy [OF client_path(1) client_zone_facts(1) _ client_zone_facts(2) this] show ?thesis
    by (auto elim!: wp_mono simp: sample_running client_path client_zone_facts)
qed

text \<open>Looking up a path whose centre has no proxies keeps a lock that is never given back: forcing a
  mapping afterwards blocks forever.\<close>

theorem unmapped_centre_blocks_writers:
  assumes "path_ok zn sn rest" and "map_of (zonemap s) zn = Some z" and "z_spaceBicInfo z = map Some sps"
    and "find (\<lambda>x. sp_spaceName x = sn) (rev sps) = Some x"
    and "map_of (ioproxy_list s) (case map_of (force_map s) (sp_spaceID x) of Some c \<Rightarrow> c | None \<Rightarrow> sp_hostCenterID x) =
      None"
  shows "wp (bnd (get_mapping (space_path zn sn rest)) (\<lambda>_. set_force_mapping (space_path zn sn rest) c))
    (\<lambda>r s'. r = Crash Blocked_Forever) s"
proof -
  let ?p = "space_path zn sn rest"
  have "wp (get_mapping ?p) (\<lambda>r s'. r = Val (None, if rest = [] then ''/'' else rest) \<and>
      s' = s\<lparr>graph_readers := Suc (graph_readers s)\<rparr>) s"
    unfolding get_mapping_def
    using assms(4,5) by (intro wp_step [OF locate_in [OF assms(1-3)]]) (simp add: smap_at_def)
  then show ?thesis
  proof (rule wp_step)
    fix s'
    assume s': "s' = s\<lparr>graph_readers := Suc (graph_readers s)\<rparr>"
    with assms(2) have "map_of (zonemap s') zn = Some z" by simp
    show "wp (set_force_mapping ?p c) (\<lambda>r s'. r = Crash Blocked_Forever) s'"
      unfolding set_force_mapping_def
      by (rule wp_step [OF locate_in [OF assms(1) \<open>map_of (zonemap s') zn = Some z\<close> assms(3)]])
        (use assms(4) s' in \<open>simp add: lock_graph_def\<close>)
  qed
qed

theorem unmapped_centre_blocks_writers_witness:
  "wp (bnd (get_mapping ''/z1/s1/f'') (\<lambda>_. set_force_mapping ''/z1/s1/f'' ''1'')) (\<lambda>r s'. r = Crash Blocked_Forever)
     (sample_client\<lparr>ioproxy_list := []\<rparr>)"
proof -
  have "map_of (zonemap (sample_client\<lparr>ioproxy_list := []\<rparr>)) ''z1'' =
      Some ((new_Zone (dead_net :: unit net))\<lparr>z_spaceBicInfo := map Some [sample_space_2]\<rparr>)"
    using client_zone_facts(1) by simp
  from unmapped_centre_blocks_writers [OF client_path(1) this _ client_zone_facts(2)] show ?thesis
    by (simp add: client_path)
qed

section \<open>The lists of proxies\<close>

definition single_proxies :: "(string \<times> ioproxy_node list) list \<Rightarrow> bool" where
  "single_proxies m \<longleftrightarrow> (\<forall>c l. map_of m c = Some l \<longrightarrow> length l = 1)"

lemma single_enter: "single_proxies m \<Longrightarrow> single_proxies (foldl enter_proxy m ps)"
proof (induction ps arbitrary: m)
  case (Cons p ps)
  then have "single_proxies (enter_proxy m p)" by (auto simp: single_proxies_def enter_proxy_def)
  from Cons.IH [OF this] show ?case by simp
qed simp

lemma dec_proxies_keeps: "wp (dec_proxies k ms m) (\<lambda>r s'. ioproxy_list s' = ioproxy_list s) s"
proof (induction ms arbitrary: m s)
  case (Cons nv ms)
  have "wp (dec_proxies k ms m') (\<lambda>r s'. ioproxy_list s' = ioproxy_list s) s'"
    if "ioproxy_list s' = ioproxy_list s" for m' s'
    using Cons.IH [of m' s'] that by simp
  then show ?case by (auto split: option.splits prod.splits outcome.splits)
qed simp

text \<open>However many proxies the managers name, a refresh leaves each centre with exactly one: the load of a
  centre is never spread.\<close>

theorem refresh_keeps_one_proxy_per_centre:
  assumes "single_proxies (ioproxy_list s)"
  shows "wp (fresh_ioproxy k) (\<lambda>r s'. single_proxies (ioproxy_list s')) s"
proof -
  have keep: "wp m (\<lambda>r s'. single_proxies (ioproxy_list s')) s1"
    if "wp m (\<lambda>r s'. ioproxy_list s' = ioproxy_list s1) s1" "single_proxies (ioproxy_list s1)" for m :: "('a, 'b) cprog" and s1
    using that by (auto elim: wp_mono)
  have "wp (fresh_from k cs) (\<lambda>r s'. single_proxies (ioproxy_list s')) s" if "single_proxies (ioproxy_list s)" for cs s
    using that
  proof (induction cs arbitrary: s)
    case (Cons c cs)
    have dec: "wp (decode_proxies k x) (\<lambda>r s'. ioproxy_list s' = ioproxy_list s1) s1" for x s1
      by (auto simp: decode_proxies_def dec_proxies_keeps split: option.splits json.splits)
    have rest: "wp (bnd (decode_proxies k x) (\<lambda>ps. bnd lock_graph (\<lambda>_.
        update (\<lambda>s. s\<lparr>ioproxy_list := foldl enter_proxy (ioproxy_list s) (map snd ps)\<rparr>))))
        (\<lambda>r s'. case r of Val a \<Rightarrow> wp (fresh_from k cs) (\<lambda>r s'. single_proxies (ioproxy_list s')) s'
           | Crash c \<Rightarrow> single_proxies (ioproxy_list s')) s1" if "single_proxies (ioproxy_list s1)" for x s1
      unfolding wp_bnd [of "decode_proxies _ _"]
      by (rule wp_mono [OF dec])
        (use that Cons.IH in \<open>auto simp: lock_graph_def single_enter split: outcome.splits\<close>)
    show ?case
      using Cons rest by (auto simp: get_request_def getToken_def wp_bnd [of "get_request _ _ _"] simp del: wp_bnd
          simp: wp_bnd split: prod.splits)
  qed simp
  with assms show ?thesis by (auto simp: fresh_ioproxy_def getNode_def)
qed

theorem refresh_keeps_one_proxy_per_centre_witness:
  "wp (fresh_ioproxy dead_net) (\<lambda>r s'. single_proxies (ioproxy_list s')) sample_client"
  by (rule refresh_keeps_one_proxy_per_centre) (simp add: single_proxies_def client_zone_facts)

end
