(* ===== verification/Fuse_Props.thy ===== *)
theory Fuse_Props
  imports Fuse_Impl Client_Path_Props Proxy_Op Sample_Proxy
begin

text \<open>
  The mounted tree together with the proxies: what the requests of the file operations do on the proxy, what
  the replies have in them, and what the client's caches make of them.
\<close>

section \<open>Paths that have a proxy\<close>

definition at_proxy :: "'c client \<Rightarrow> string \<Rightarrow> ioproxy_node \<Rightarrow> string \<Rightarrow> bool" where
  "at_proxy s path n rpath \<longleftrightarrow> nul_free path \<and> (\<exists>zn sn rest z sps x proxies. path = space_path zn sn rest \<and> path_ok zn sn rest \<and>
     map_of (zonemap s) zn = Some z \<and> z_spaceBicInfo z = map Some sps \<and>
     find (\<lambda>x. sp_spaceName x = sn) (rev sps) = Some x \<and>
     map_of (ioproxy_list s) (case map_of (force_map s) (sp_spaceID x) of Some c \<Rightarrow> c | None \<Rightarrow> sp_hostCenterID x) =
       Some proxies \<and>
     find (\<lambda>p. iop_status p = 0) proxies = Some n \<and> rpath = sp_spacePath x @ (if rest = [] then ''/'' else rest))"

lemma get_mapping_at:
  assumes "at_proxy s path n rpath"
  shows "get_mapping path s = (Val (Some n, rpath), s)"
proof -
  have "wp (get_mapping path) (\<lambda>r s'. s' = s \<and> r = Val (Some n, rpath)) s"
    using assms unfolding at_proxy_def by (elim exE conjE) (use get_mapping_served in fastforce)
  then show ?thesis by (auto simp: wp_def split: prod.splits)
qed

lemma wp_with_mapping [simp]: "at_proxy s path n rpath \<Longrightarrow> wp (with_mapping path f m) Q s = wp (f n rpath) Q s"
  using get_mapping_at [of s path n rpath] by (simp add: with_mapping_def wp_def bnd_def)

text \<open>A path that goes to a proxy is below a zone.\<close>

lemma level_at:
  assumes "at_proxy s path n rpath"
  shows "isZoneSpacePath path s = (Val (if length (splitWithStl path) = 3 then 2 else 3), s)"
proof -
  obtain zn sn rest z where p: "path = space_path zn sn rest" "path_ok zn sn rest" "map_of (zonemap s) zn = Some z"
    using assms unfolding at_proxy_def by blast
  have "splitWithStl path ! 1 = zn" "length (splitWithStl path) > 2"
    using split_space_path [OF p(2)] p(1) by auto
  moreover have "cstr path = path" using assms by (simp add: at_proxy_def cstr_id)
  moreover have "path \<noteq> ''/''" using p(1) by (simp add: space_path_def)
  ultimately show ?thesis
    using p(3) by (simp add: isZoneSpacePath_def Let_def asks_def bnd_def ret_def)
qed

section \<open>Requests\<close>

text \<open>The channel of a request, and the state once it is there.\<close>

definition channel_of :: "'c client \<Rightarrow> ioproxy_node \<Rightarrow> string" where
  "channel_of s n = (case map_of (rpc_operators s) (iop_uuid n @ nat_dec 0) of Some a \<Rightarrow> a | None \<Rightarrow> address n)"

definition with_channel :: "'c client \<Rightarrow> ioproxy_node \<Rightarrow> 'c client" where
  "with_channel s n = (case map_of (rpc_operators s) (iop_uuid n @ nat_dec 0) of Some a \<Rightarrow> s
     | None \<Rightarrow> s\<lparr>rpc_operators := AList.update (iop_uuid n @ nat_dec 0) (address n) (rpc_operators s)\<rparr>)"

text \<open>What the proxy answers.\<close>

definition proxy_answer :: "'c net \<Rightarrow> 'c client \<Rightarrow> ioproxy_node \<Rightarrow> op_request \<Rightarrow> bool \<times> op_reply" where
  "proxy_answer k s n rq = fst (net_submit k (channel_of s n) rq (net_env s))"

definition answered :: "'c net \<Rightarrow> 'c client \<Rightarrow> ioproxy_node \<Rightarrow> op_request \<Rightarrow> 'c client" where
  "answered k s n rq = (with_channel s n)\<lparr>net_env := snd (net_submit k (channel_of s n) rq (net_env s))\<rparr>"

lemma net_env_channel [simp]: "net_env (with_channel s n) = net_env s"
  by (simp add: with_channel_def split: option.splits)

lemma wp_call_proxy [simp]:
  "wp (call_proxy k n rq failed f) Q s =
     (if fst (proxy_answer k s n rq) then wp (f (snd (proxy_answer k s n rq))) Q (answered k s n rq)
      else Q (Val failed) (answered k s n rq))"
  by (auto simp: call_proxy_def submit_op_def client_operator_def Let_def proxy_answer_def answered_def channel_of_def
      with_channel_def split: option.splits prod.splits)

lemma answered_frame [simp]:
  "zonemap (answered k s n rq) = zonemap s" "ioproxy_list (answered k s n rq) = ioproxy_list s"
  "force_map (answered k s n rq) = force_map s" "cached (answered k s n rq) = cached s"
  "missing (answered k s n rq) = missing s" "max_stat_cache_ct (answered k s n rq) = max_stat_cache_ct s"
  "net_env (answered k s n rq) = snd (net_submit k (channel_of s n) rq (net_env s))"
  by (simp_all add: answered_def with_channel_def split: option.splits)

text \<open>Forgetting the attributes of a path leaves the way to the proxies alone.\<close>

definition expired :: "string \<Rightarrow> 'c client \<Rightarrow> 'c client" where
  "expired rpath s = (if max_stat_cache_ct s > 0 then
     s\<lparr>missing := removeAll rpath (missing s), cached := smap_erase rpath (cached s),
       stat_cache_ct := (if map_of (cached s) rpath \<noteq> None then stat_cache_ct s - 1 else stat_cache_ct s)\<rparr> else s)"

lemma wp_expire [simp]: "wp (expire rpath) Q s = Q (Val ()) (expired rpath s)"
  by (simp add: expire_def expire_stat_def expired_def)

lemma expired_frame [simp]:
  "zonemap (expired p s) = zonemap s" "ioproxy_list (expired p s) = ioproxy_list s"
  "force_map (expired p s) = force_map s" "net_env (expired p s) = net_env s"
  "max_stat_cache_ct (expired p s) = max_stat_cache_ct s" "channel_of (expired p s) n = channel_of s n"
  "proxy_answer k (expired p s) n rq = proxy_answer k s n rq"
  by (simp_all add: expired_def channel_of_def proxy_answer_def)

lemma at_proxy_frame [simp]:
  "at_proxy (expired p s) path n rpath = at_proxy s path n rpath"
  "at_proxy (answered k s m rq) path n rpath = at_proxy s path n rpath"
  "at_proxy (s\<lparr>missing := ms\<rparr>) path n rpath = at_proxy s path n rpath"
  by (simp_all add: at_proxy_def)

definition reply_code :: "bool \<times> op_reply \<Rightarrow> int" where
  "reply_code a = (if fst a then rp_err_code (snd a) else - ENOENT)"

lemma wp_simple_call [simp]:
  "wp (simple_call k n rq) Q s = Q (Val (reply_code (proxy_answer k s n rq))) (answered k s n rq)"
  by (simp add: simple_call_def reply_code_def)

text \<open>The proxies reached over gRPC: a proxy that stops has not answered.\<close>

definition proxy_net :: "('e, 'b) kernel \<Rightarrow> ('e, 'b) iop net" where
  "proxy_net kern = dead_net\<lparr>net_submit := \<lambda>a rq e. (case do_op kern rq new_OpReply e of
     (Val rp, e') \<Rightarrow> ((True, rp), e') | (Crash c, e') \<Rightarrow> ((False, new_OpReply), e'))\<rparr>"

lemma answer_proxy:
  assumes "wp (do_op kern rq new_OpReply) (\<lambda>r e'. \<exists>rp. r = Val rp \<and> P rp e') (net_env s)"
  shows "fst (proxy_answer (proxy_net kern) s n rq) \<and> P (snd (proxy_answer (proxy_net kern) s n rq)) (net_env (answered (proxy_net kern) s n rq))"
  using assms by (auto simp: proxy_answer_def proxy_net_def wp_def split: prod.splits outcome.splits)

section \<open>What the requests do\<close>

text \<open>However long the file is to become, the proxy that is asked to truncate it resizes it to 0 bytes: the
  client puts the length where the proxy does not look.\<close>

theorem fuse_truncate_resizes_to_zero:
  assumes "at_proxy s path n rpath"
  shows "\<exists>rq. rq_filepath rq = rpath \<and>
    (\<forall>kern rp. serve kern (rq_type rq) rq rp = op_fs (\<lambda>p. fs_resize_file kern p 0) rq rp) \<and>
    wp (gvdsfs_truncate k path len) (\<lambda>r s'. r = Val (reply_code (proxy_answer k s n rq)) \<and>
      net_env s' = snd (net_submit k (channel_of s n) rq (net_env s))) s"
proof (intro exI conjI)
  let ?rq = "fuse_request T_truncate rpath\<lparr>rq_param := Io_Param \<lparr>par_offset = 0, par_size = u64 len\<rparr>\<rparr>"
  show "rq_filepath ?rq = rpath" "\<forall>kern rp. serve kern (rq_type ?rq) ?rq rp = op_fs (\<lambda>p. fs_resize_file kern p 0) ?rq rp"
    by (simp_all add: fuse_request_def new_OpRequest_def op_truncate_def)
  show "wp (gvdsfs_truncate k path len) (\<lambda>r s'. r = Val (reply_code (proxy_answer k s n ?rq)) \<and>
      net_env s' = snd (net_submit k (channel_of s n) ?rq (net_env s))) s"
    using assms by (simp add: gvdsfs_truncate_def)
qed

lemma sample_at_proxy:
  assumes "zonemap s = zonemap sample_client" "ioproxy_list s = ioproxy_list sample_client" "force_map s = []"
    and "hd rest = CHR ''/''" "nul_free rest" "rest \<noteq> []"
  shows "at_proxy s (''/z1/s1'' @ rest) (client_proxy ''u2'') (''/d1'' @ rest)"
  unfolding at_proxy_def
  using client_zone_facts assms
  by (intro conjI exI [of _ "''z1''"] exI [of _ "''s1''"] exI [of _ rest])
    (auto simp: nul_free_def sample_running path_ok_def space_path_def intro!: exI [of _ "[sample_space_2]"] exI [of _ sample_space_2])

lemma sample_client_at [simp]:
  "at_proxy (sample_client\<lparr>max_stat_cache_ct := m, cached := c\<rparr>) ''/z1/s1/f'' (client_proxy ''u2'') ''/d1/f''"
  "at_proxy (sample_client\<lparr>max_stat_cache_ct := m, cached := c\<rparr>) ''/z1/s1/g'' (client_proxy ''u2'') ''/d1/g''"
  "at_proxy (sample_client\<lparr>max_stat_cache_ct := m, cached := c\<rparr>) ''/z1/s1/f/x'' (client_proxy ''u2'') ''/d1/f/x''"
  "at_proxy (sample_client\<lparr>max_stat_cache_ct := m\<rparr>) ''/z1/s1/f'' (client_proxy ''u2'') ''/d1/f''"
  "at_proxy sample_client ''/z1/s1/f'' (client_proxy ''u2'') ''/d1/f''"
  by (simp_all add: sample_at_proxy [where rest = "''/f''", simplified] sample_at_proxy [where rest = "''/g''", simplified]
      sample_at_proxy [where rest = "''/f/x''", simplified] client_zone_facts nul_free_def)

theorem fuse_truncate_resizes_to_zero_witness:
  "\<exists>rq. rq_filepath rq = ''/d1/f'' \<and> wp (gvdsfs_truncate dead_net ''/z1/s1/f'' 4096)
     (\<lambda>r s'. r = Val (reply_code (proxy_answer dead_net sample_client (client_proxy ''u2'') rq))) sample_client"
proof -
  from fuse_truncate_resizes_to_zero [OF sample_client_at(5), of dead_net 4096] show ?thesis
    by (auto elim: wp_mono)
qed

text \<open>C25: Creating a directory in a space makes its proxy create the directory of that path below its data
  directory: the error is that of the creation, and what the machine of the proxy is left with is what the
  creation made of it, after which, if the creation succeeded, only the centres that the space is replicated to
  have been looked up in its attributes.\<close>

theorem fuse_mkdir_creates_the_directory:
  assumes "at_proxy s path n rpath" and "in_content path" and "rpath \<noteq> []"
    and "fs_create_directory kern (path_join (data_dir (net_env s)) rpath) (env (net_env s)) = (ec, e')"
  shows "wp (gvdsfs_mkdir (proxy_net kern) path mode) (\<lambda>r s'. r = Val (- ec) \<and>
     env (net_env s') = (if ec > 0 then e' else
       snd (k_getxattr kern (cstr (path_join (data_dir (net_env s)) (the (first_component rpath)))) xattr_centers 256 e')) \<and>
     data_dir (net_env s') = data_dir (net_env s)) s"
proof -
  let ?rq = "fuse_request T_mkdir rpath\<lparr>rq_mode := u32 mode\<rparr>"
  let ?P = "\<lambda>e''. env e'' = (if ec > 0 then e' else
      snd (k_getxattr kern (cstr (path_join (data_dir (net_env s)) (the (first_component rpath)))) xattr_centers 256 e')) \<and>
    data_dir e'' = data_dir (net_env s)"
  have rq: "rq_type ?rq = T_mkdir" "rq_filepath ?rq = rpath" "rq_extra ?rq = []"
    by (simp_all add: fuse_request_def new_OpRequest_def)
  have "first_component rpath \<noteq> None" using assms(3) by (auto simp: first_component_def split: list.splits)
  then have "wp (do_op kern ?rq new_OpReply) (\<lambda>r e''. \<exists>rp. r = Val rp \<and> rp_err_code rp = - ec \<and> ?P e'') (net_env s)"
    using assms(3,4) rq
    by (auto simp: do_op_def op_fs_def local_path_def handle_replica_async_def queue_replica_def space_dir_def
        submit_replicated_request_def take_batch_def Let_def split: option.splits prod.splits)
  from answer_proxy [OF this, of n] assms(1,2) show ?thesis
    by (simp add: gvdsfs_mkdir_def content_op_def reply_code_def)
qed

text \<open>A client whose proxies are one machine.\<close>

definition sample_mount :: "(box, (nat \<times> nat) list) iop client" where
  "sample_mount = (new_client sample_iop)\<lparr>zonemap := zonemap sample_client, ioproxy_list := ioproxy_list sample_client\<rparr>"

lemma sample_mount_at [simp]: "at_proxy sample_mount ''/z1/s1/f'' (client_proxy ''u2'') ''/d1/f''"
  using sample_at_proxy [of sample_mount "''/f''"] by (simp add: sample_mount_def new_client_def nul_free_def)

lemma sample_in_content [simp]: "in_content ''/z1/s1/f''"
  by (simp add: in_content_def splitWithStl_def)

theorem fuse_mkdir_creates_the_directory_witness:
  "wp (gvdsfs_mkdir (proxy_net ((box_kernel 0 (\<lambda>_. 0) (\<lambda>_. 0))
       \<lparr>fs_create_directory := \<lambda>p e. if p \<in> set (bx_files e) then (17, e) else (0, e\<lparr>bx_files := p # bx_files e\<rparr>)\<rparr>))
     ''/z1/s1/f'' 493)
     (\<lambda>r s'. r = Val 0 \<and> bx_files (env (net_env s')) = ''/data/d1/f'' # bx_files (env (net_env sample_mount))) sample_mount"
proof -
  let ?k = "(box_kernel 0 (\<lambda>_. 0) (\<lambda>_. 0))
    \<lparr>fs_create_directory := \<lambda>p e. if p \<in> set (bx_files e) then (17, e) else (0, e\<lparr>bx_files := p # bx_files e\<rparr>)\<rparr>"
  let ?e = "env (net_env sample_mount)"
  have "fs_create_directory ?k (path_join (data_dir (net_env sample_mount)) ''/d1/f'') ?e =
      (0, ?e\<lparr>bx_files := ''/data/d1/f'' # bx_files ?e\<rparr>)"
    by (simp add: path_join_def sample_mount_def new_client_def sample_iop_def sample_box_def)
  note made = fuse_mkdir_creates_the_directory [OF sample_mount_at sample_in_content _ this]
  show ?thesis by (rule wp_mono [OF made]) (simp_all add: box_kernel_def split: option.splits)
qed

section \<open>The replies\<close>

text \<open>
  What a reply to a request has in it: the attributes when they were asked for, for a read or an extended
  attribute as many bytes as there was room, and as many attributes as names.
\<close>

definition reply_typed :: "op_request \<Rightarrow> op_reply \<Rightarrow> bool" where
  "reply_typed rq rp \<longleftrightarrow> length (rp_entry_names rp) = length (rp_entries rp) \<and>
     (rq_type rq = T_getattr \<and> rp_err_code rp = 0 \<longrightarrow> (\<exists>a. rp_content rp = R_Attr a)) \<and>
     (rq_type rq = T_read \<and> rp_err_code rp > 0 \<longrightarrow> (\<exists>d. rp_content rp = R_Data d \<and> length d = par_size (rq_io rq))) \<and>
     (rq_type rq \<in> {T_getxattr, T_listxattr} \<and> rp_err_code rp > 0 \<longrightarrow>
        (\<exists>d. rp_content rp = R_Data d \<and> length d = rq_size rq))"

definition no_entries :: "op_reply \<Rightarrow> bool" where
  "no_entries rp \<longleftrightarrow> rp_entry_names rp = [] \<and> rp_entries rp = []"

lemma length_fill [simp]: "length (fill n s) = n"
  by (simp add: fill_def)

lemma wp_list_entries:
  "length (rp_entry_names rp) = length (rp_entries rp) \<Longrightarrow>
     wp (list_entries k dir names rp) (\<lambda>r s'. \<forall>rp'. r = Val rp' \<longrightarrow> length (rp_entry_names rp') = length (rp_entries rp')) s"
  by (induction names arbitrary: rp s) (auto simp: get_attr_def split: prod.splits)

text \<open>Error numbers are not negative.\<close>

definition errno_law :: "('e, 'b) kernel \<Rightarrow> bool" where
  "errno_law k \<longleftrightarrow> (\<forall>p n m e. snd (fst (fst (k_getxattr k p n m e))) \<ge> 0) \<and> (\<forall>p m e. snd (fst (fst (k_listxattr k p m e))) \<ge> 0) \<and>
     (\<forall>fd n off e. snd (fst (fst (k_pread k fd n off e))) \<ge> 0)"

text \<open>A step of which nothing needs to be known, and those of which only the error number does.\<close>

lemma wp_any_step: "(\<And>a w. wp (f a) Q w) \<Longrightarrow> (\<And>c w. Q (Crash c) w) \<Longrightarrow> wp (bnd m f) Q w"
  unfolding wp_bnd by (rule wp_I) (auto split: outcome.splits)

lemma wp_errno:
  assumes "errno_law k" "\<And>r b d w. 0 \<le> b \<Longrightarrow> wp (f ((r, b), d)) Q w"
  shows "wp (bnd (sysc (k_getxattr k p n m)) f) Q s" "wp (bnd (sysc (k_listxattr k p m)) f) Q s"
    "wp (bnd (sysc (k_pread k fd l off)) f) Q s"
proof -
  have e: "0 \<le> snd (fst (fst (k_getxattr k p n m (env s))))" "0 \<le> snd (fst (fst (k_listxattr k p m (env s))))"
    "0 \<le> snd (fst (fst (k_pread k fd l off (env s))))"
    using assms(1) by (simp_all add: errno_law_def)
  show "wp (bnd (sysc (k_getxattr k p n m)) f) Q s"
    using e(1) assms(2) by (cases "k_getxattr k p n m (env s)") auto
  show "wp (bnd (sysc (k_listxattr k p m)) f) Q s"
    using e(2) assms(2) by (cases "k_listxattr k p m (env s)") auto
  show "wp (bnd (sysc (k_pread k fd l off)) f) Q s"
    using e(3) assms(2) by (cases "k_pread k fd l off (env s)") auto
qed

abbreviation (input) typed_result :: "op_request \<Rightarrow> op_reply outcome \<Rightarrow> ('e, 'b) iop \<Rightarrow> bool" where
  "typed_result rq \<equiv> \<lambda>r s'. \<forall>rp'. r = Val rp' \<longrightarrow> reply_typed rq rp'"

text \<open>The operations that read, one lemma each; the others leave the lists of the reply alone.\<close>

lemma typed_getattr:
  "no_entries rp \<Longrightarrow> rq_type rq = T_getattr \<Longrightarrow> wp (op_getattr k rq rp) (typed_result rq) s"
  by (auto simp: op_getattr_def local_path_def get_attr_def reply_typed_def no_entries_def split: prod.splits)

lemma typed_readdir:
  "no_entries rp \<Longrightarrow> rq_type rq = T_readdir \<Longrightarrow> wp (op_readdir k rq rp) (typed_result rq) s"
  by (auto simp: op_readdir_def local_path_def reply_typed_def no_entries_def split: prod.splits option.splits
      intro!: wp_mono [OF wp_list_entries])

lemma typed_getxattr:
  "errno_law k \<Longrightarrow> no_entries rp \<Longrightarrow> rq_type rq = T_getxattr \<Longrightarrow> wp (op_getxattr k rq rp) (typed_result rq) s"
  unfolding op_getxattr_def
  by (rule wp_any_step, rule wp_errno) (auto simp: reply_typed_def no_entries_def)

lemma typed_listxattr:
  "errno_law k \<Longrightarrow> no_entries rp \<Longrightarrow> rq_type rq = T_listxattr \<Longrightarrow> wp (op_listxattr k rq rp) (typed_result rq) s"
  unfolding op_listxattr_def
  by (rule wp_any_step, rule wp_errno) (auto simp: reply_typed_def no_entries_def)

lemma typed_read:
  assumes "errno_law k" "no_entries rp" "rq_type rq = T_read"
  shows "wp (op_read k rq rp) (typed_result rq) s"
proof -
  have data: "wp (bnd (sysc (k_pread k fd n off)) (\<lambda>((r, errno), bytes).
       ret (if r = - 1 then rp\<lparr>rp_err_code := - errno\<rparr>
            else rp\<lparr>rp_content := R_Data (fill (par_size (rq_io rq)) bytes), rp_err_code := i32 r\<rparr>)))
       (typed_result rq) w" for fd n off w
    using assms by (intro wp_errno) (auto simp: reply_typed_def no_entries_def)
  show ?thesis
    unfolding op_read_def Let_def
  proof (rule wp_any_step, rule wp_any_step)
    fix p w and fd :: int
    show "wp (if fd < 0 then ret (rp\<lparr>rp_err_code := fd\<rparr>)
        else bnd (sync_filedata k (rq_filepath rq) (par_offset (rq_io rq)) (par_size (rq_io rq))) (\<lambda>_.
          bnd (sysc (k_pread k fd (int (par_size (rq_io rq))) (s64 (par_offset (rq_io rq))))) (\<lambda>((r, errno), bytes).
          ret (if r = - 1 then rp\<lparr>rp_err_code := - errno\<rparr>
               else rp\<lparr>rp_content := R_Data (fill (par_size (rq_io rq)) bytes), rp_err_code := i32 r\<rparr>))))
        (typed_result rq) w"
    proof (cases "fd < 0")
      case False
      show ?thesis unfolding if_not_P [OF False] by (rule wp_any_step, rule data) simp
    qed (use assms in \<open>simp add: reply_typed_def no_entries_def\<close>)
  qed auto
qed

text \<open>Every other operation keeps the lists, which are empty.\<close>

abbreviation (input) keeps_lists :: "op_reply \<Rightarrow> op_reply outcome \<Rightarrow> ('e, 'b) iop \<Rightarrow> bool" where
  "keeps_lists rp \<equiv> \<lambda>r s'. \<forall>rp'. r = Val rp' \<longrightarrow> rp_entry_names rp' = rp_entry_names rp \<and> rp_entries rp' = rp_entries rp"

lemma lists_fs: "wp (op_fs f rq rp) (keeps_lists rp) s"
  unfolding op_fs_def by (auto intro!: wp_any_step simp del: wp_bnd)

lemma lists_write: "wp (op_write k rq rp) (keeps_lists rp) s"
  unfolding op_write_def Let_def by (auto intro!: wp_any_step simp del: wp_bnd split: prod.splits)

lemma lists_setxattr: "wp (op_setxattr k rq rp) (keeps_lists rp) s"
  unfolding op_setxattr_def by (auto intro!: wp_any_step simp del: wp_bnd split: prod.splits)

lemmas lists_defs = op_rename_def op_utimens_def op_chmod_def op_truncate_def op_open_def op_release_def op_create_def
  op_fallocate_def op_unlink_def op_removexattr_def

lemma lists_rest:
  "wp (op_rename k rq rp) (keeps_lists rp) s" "wp (op_utimens k rq rp) (keeps_lists rp) s"
  "wp (op_chmod k rq rp) (keeps_lists rp) s" "wp (op_truncate k rq rp) (keeps_lists rp) s"
  "wp (op_open k rq rp) (keeps_lists rp) s" "wp (op_release k rq rp) (keeps_lists rp) s"
  "wp (op_create k rq rp) (keeps_lists rp) s" "wp (op_fallocate k rq rp) (keeps_lists rp) s"
  "wp (op_unlink k rq rp) (keeps_lists rp) s" "wp (op_removexattr k rq rp) (keeps_lists rp) s"
  unfolding lists_defs Let_def by (auto intro!: wp_any_step lists_fs simp del: wp_bnd split: prod.splits)

lemma lists_serve:
  assumes "t \<notin> {T_getattr, T_readdir, T_read, T_getxattr, T_listxattr}"
  shows "wp (serve k t rq rp) (keeps_lists rp) s"
  using assms lists_rest [of k rq rp s] lists_fs [of _ rq rp s] lists_write [of k rq rp s] lists_setxattr [of k rq rp s]
  by (cases t) simp_all

lemma typed_serve:
  assumes "errno_law k" "no_entries rp"
  shows "wp (serve k (rq_type rq) rq rp) (typed_result rq) s"
proof (cases "rq_type rq \<in> {T_getattr, T_readdir, T_read, T_getxattr, T_listxattr}")
  case True
  note r = typed_getattr typed_read typed_getxattr typed_listxattr typed_readdir
  from True consider "rq_type rq = T_getattr" | "rq_type rq = T_readdir" | "rq_type rq = T_read"
    | "rq_type rq = T_getxattr" | "rq_type rq = T_listxattr" by blast
  then show ?thesis by cases (simp_all add: r assms)
next
  case False
  then show ?thesis
    by (intro wp_mono [OF lists_serve [OF False]]) (use assms(2) in \<open>auto simp: reply_typed_def no_entries_def\<close>)
qed

lemma wp_replica_keeps:
  "replica_kind_of (rq_type rq) \<notin> {Init_Space, Sync_Data, Update_Index} \<Longrightarrow>
     wp (handle_replica_async k rq rp) (\<lambda>r s'. \<forall>rp'. r = Val rp' \<longrightarrow> rp' = rp) s"
  unfolding handle_replica_async_def queue_replica_def
  by (auto intro!: wp_any_step simp del: wp_bnd split: prod.splits replica_kind.splits)

text \<open>C14: The reply to a request of a client has what the client reads: a successful \<open>getattr\<close> carries the
  attributes, a successful read or extended attribute exactly as many bytes as the request had room for, and
  every reply as many attributes as names.\<close>

theorem proxy_replies_are_typed:
  assumes "errno_law kern" and "replica_kind_of (rq_type rq) \<notin> {Init_Space, Sync_Data, Update_Index}"
  shows "wp (do_op kern rq new_OpReply) (\<lambda>r s'. case r of Val rp \<Rightarrow> reply_typed rq rp | Crash c \<Rightarrow> True) s"
proof -
  let ?rp = "new_OpReply\<lparr>rp_id := rq_id rq, rp_err_code := 0\<rparr>"
  have "no_entries ?rp" by (simp add: no_entries_def new_OpReply_def)
  from typed_serve [OF assms(1) this, of rq s] show ?thesis
    unfolding do_op_def wp_bnd
    by (rule wp_mono) (auto intro!: wp_mono [OF wp_replica_keeps [OF assms(2)]] split: outcome.splits)
qed

lemma box_errno: "errno_law (box_kernel eof sd sh)"
  by (simp add: errno_law_def box_kernel_def split: option.split)

theorem proxy_replies_are_typed_witness:
  "wp (do_op (box_kernel 0 (\<lambda>_. 0) (\<lambda>_. 0)) (new_OpRequest\<lparr>rq_type := T_readdir, rq_filepath := ''s1''\<rparr>) new_OpReply)
     (\<lambda>r s'. case r of Val rp \<Rightarrow> length (rp_entry_names rp) = length (rp_entries rp) | Crash c \<Rightarrow> True) sample_iop"
  by (rule wp_mono [OF proxy_replies_are_typed [OF box_errno]])
    (simp_all add: new_OpRequest_def reply_typed_def split: outcome.splits)

section \<open>What goes wrong on the client\<close>

text \<open>Whatever error the proxy answers to \<open>getattr\<close>, the client remembers that the file does not exist, and says
  so without asking again.\<close>

theorem any_error_is_remembered_as_missing:
  assumes "at_proxy s path n rpath" and "max_stat_cache_ct s > 0" and "cache_lookup s rpath = NOT_FOUND"
    and "proxy_answer k s n (fuse_request T_getattr rpath) = (True, rp)" and "rp_err_code rp \<noteq> 0"
  shows "wp (bnd (gvdsfs_getattr k path) (\<lambda>r1. bnd (gvdsfs_getattr k path) (\<lambda>r2. ret (r1, r2))))
    (\<lambda>r s'. r = Val ((rp_err_code rp, None), (- ENOENT, None)) \<and>
      net_env s' = snd (net_submit k (channel_of s n) (fuse_request T_getattr rpath) (net_env s))) s"
proof -
  have level: "wp (isZoneSpacePath path) Q t = Q (Val (if length (splitWithStl path) = 3 then 2 else 3)) t"
    if "at_proxy t path n rpath" for Q t
    using level_at [OF that] by (simp add: wp_def)
  have first: "wp (gvdsfs_getattr k path) (\<lambda>r s'. r = Val (rp_err_code rp, None) \<and> at_proxy s' path n rpath \<and>
      rpath \<in> set (missing s') \<and> max_stat_cache_ct s' > 0 \<and>
      net_env s' = snd (net_submit k (channel_of s n) (fuse_request T_getattr rpath) (net_env s))) s"
    using assms by (simp add: gvdsfs_getattr_def level getattr_remote_def remember_def set_stat_def)
  have second: "wp (gvdsfs_getattr k path) (\<lambda>r t'. r = Val (- ENOENT, None) \<and> t' = t) t"
    if "at_proxy t path n rpath" "rpath \<in> set (missing t)" "max_stat_cache_ct t > 0" for t
    using that by (simp add: gvdsfs_getattr_def level cache_lookup_def)
  show ?thesis
    by (rule wp_step [OF first]) (auto intro!: wp_mono [OF second] split: outcome.splits)
qed

definition grumpy_net :: "unit net" where
  "grumpy_net = dead_net\<lparr>net_submit := \<lambda>a r e. ((True, new_OpReply\<lparr>rp_err_code := - EACCES\<rparr>), e)\<rparr>"

theorem any_error_is_remembered_as_missing_witness:
  "wp (bnd (gvdsfs_getattr grumpy_net ''/z1/s1/f'') (\<lambda>r1. bnd (gvdsfs_getattr grumpy_net ''/z1/s1/f'') (\<lambda>r2. ret (r1, r2))))
     (\<lambda>r s'. r = Val ((- EACCES, None), (- ENOENT, None))) (sample_client\<lparr>max_stat_cache_ct := 10\<rparr>)"
  by (rule wp_mono [OF any_error_is_remembered_as_missing [OF sample_client_at(4),
        where rp = "new_OpReply\<lparr>rp_err_code := - EACCES\<rparr>"]])
    (simp_all add: sample_client_def new_client_def cache_lookup_def proxy_answer_def grumpy_net_def)

text \<open>Renaming a directory forgets the attributes of its old and its new path only: a file that was in it is
  still answered with its attributes under its old path, whatever the proxy says.\<close>

theorem renamed_directory_leaves_its_files:
  assumes "at_proxy s path n rpath" and "at_proxy s newpath m npath" and "iop_uuid n = iop_uuid m" and "in_content path"
    and "at_proxy s child c cpath" and "cpath \<noteq> rpath" and "cpath \<noteq> npath"
    and "max_stat_cache_ct s > 0" and "cache_lookup s cpath = FOUND st"
  shows "wp (bnd (gvdsfs_rename k path newpath) (\<lambda>_. gvdsfs_getattr k child)) (\<lambda>r s'. r = Val (0, Some st)) s"
proof -
  have level: "wp (isZoneSpacePath child) Q t = Q (Val (if length (splitWithStl child) = 3 then 2 else 3)) t"
    if "at_proxy t child c cpath" for Q t
    using level_at [OF that] by (simp add: wp_def)
  have getattr: "wp (gvdsfs_getattr k child) (\<lambda>r t'. r = Val (0, Some st)) t"
    if "at_proxy t child c cpath" "max_stat_cache_ct t > 0" "cache_lookup t cpath = FOUND st" for t
    using that by (simp add: gvdsfs_getattr_def level)
  have keep: "cache_lookup (expired p t) cpath = cache_lookup t cpath" if "cpath \<noteq> p" for p t
    using that by (simp add: cache_lookup_def expired_def)
  have net: "cache_lookup (answered k t n rq) cpath = cache_lookup t cpath" for t rq
    by (simp add: cache_lookup_def)
  have map: "wp (get_mapping path) Q s = Q (Val (Some n, rpath)) s"
    "wp (get_mapping newpath) Q s = Q (Val (Some m, npath)) s" for Q
    using get_mapping_at [OF assms(1)] get_mapping_at [OF assms(2)] by (simp_all add: wp_def)
  show ?thesis
    using assms(3-9) by (simp add: gvdsfs_rename_def map getattr keep net)
qed

theorem renamed_directory_leaves_its_files_witness:
  "wp (bnd (gvdsfs_rename grumpy_net ''/z1/s1/f'' ''/z1/s1/g'') (\<lambda>_. gvdsfs_getattr grumpy_net ''/z1/s1/f/x''))
     (\<lambda>r s'. r = Val (0, Some zero_stat)) (sample_client\<lparr>max_stat_cache_ct := 10, cached := [(''/d1/f/x'', zero_stat)]\<rparr>)"
  by (rule renamed_directory_leaves_its_files [OF sample_client_at(1) sample_client_at(2) refl sample_in_content sample_client_at(3)])
    (simp_all add: sample_client_def new_client_def cache_lookup_def)

text \<open>Asking for the size of an extended attribute copies the value from an empty reply to a buffer of no
  bytes.\<close>

theorem size_of_an_xattr_overruns:
  assumes "at_proxy s path n rpath" and "in_content path" and "\<not> rfind_at_0 ''security.capability'' name"
    and "\<And>e. fst (fst (k_getxattr kern p (cstr name) 0 e)) = (int len, 0)" and "0 < len"
    and "p = cstr (path_join (data_dir (net_env s)) rpath)"
  shows "wp (gvdsfs_getxattr (proxy_net kern) path name 0) (\<lambda>r s'. r = Crash Out_Of_Range) s"
proof -
  let ?rq = "fuse_request T_getxattr rpath\<lparr>rq_param := Xattr_name name, rq_size := 0\<rparr>"
  have rq: "rq_type ?rq = T_getxattr" "rq_filepath ?rq = rpath" "rq_xattr_name ?rq = name" "rq_size ?rq = 0"
    by (simp_all add: fuse_request_def new_OpRequest_def rq_xattr_name_def)
  have "wp (do_op kern ?rq new_OpReply) (\<lambda>r e'. \<exists>rp. r = Val rp \<and> rp_err_code rp = int len) (net_env s)"
    using assms(4) [of "env (net_env s)"] assms(6) rq
    by (auto simp: do_op_def op_getxattr_def local_path_def handle_replica_async_def split: prod.splits)
  from answer_proxy [OF this] assms(1-3,5) show ?thesis
    by (simp add: gvdsfs_getxattr_def copy_value_def memcpy_to_def)
qed

theorem size_of_an_xattr_overruns_witness:
  "wp (gvdsfs_getxattr (proxy_net ((box_kernel 0 (\<lambda>_. 0) (\<lambda>_. 0))\<lparr>k_getxattr := \<lambda>p n m e. (((5, 0), []), e)\<rparr>))
     ''/z1/s1/f'' ''user.tag'' 0) (\<lambda>r s'. r = Crash Out_Of_Range) sample_mount"
  by (rule size_of_an_xattr_overruns [OF sample_mount_at sample_in_content _ _ _ refl, where len = 5])
    (simp_all add: rfind_at_0_def upt_rec)

text \<open>
  A read across the end of a sector, both of whose parts have been read ahead: the second part is copied over
  the first.
\<close>

theorem second_sector_overwrites_the_first:
  assumes "l = (offset div SECTOR + 1) * SECTOR - offset" and "l < n" and "n - l \<le> SECTOR"
    and "ra_status_of k rpath offset l s = (Val (IN_BUFFER, Some bs1), s1)"
    and "ra_status_of k rpath (offset + l) (n - l) s1 = (Val (IN_BUFFER, Some bs2), s2)"
  shows "wp (read_ahead k iop rpath offset False offset n 0 []) (\<lambda>r s'.
    r = Val (0, length bs1 + length bs2, bs2 @ drop (length bs2) bs1)) s"
proof -
  have st: "wp (ra_status_of k rpath offset l) Q s = Q (Val (IN_BUFFER, Some bs1)) s1"
    "wp (ra_status_of k rpath (offset + l) (n - l)) Q s1 = Q (Val (IN_BUFFER, Some bs2)) s2" for Q
    using assms(4,5) by (simp_all add: wp_def)
  have o: "offset < (offset div SECTOR + 1) * SECTOR"
    using div_mult_mod_eq [of offset SECTOR] mod_less_divisor [of SECTOR offset] by simp
  then have next_sector: "offset + l = (offset div SECTOR + 1) * SECTOR" using assms(1) by simp
  then have "((offset + l) div SECTOR + 1) * SECTOR - (offset + l) = SECTOR"
    by (simp only: next_sector) simp
  then have l2: "sector_rest (offset + l) (n - l) = n - l" using assms(3) by (simp add: sector_rest_def)
  have l1: "sector_rest offset n = l" using assms(1,2) by (simp add: sector_rest_def)
  have "wp (read_ahead k iop rpath offset False (offset + l) (n - l) (length bs1) bs1) (\<lambda>r s'.
      r = Val (0, length bs1 + length bs2, bs2 @ drop (length bs2) bs1)) s1"
    using assms(2) by (subst read_ahead.simps) (simp add: l2 st Let_def read_ahead.simps [where size_left = 0])
  then show ?thesis
    using assms(2) by (subst read_ahead.simps) (simp add: l1 st Let_def)
qed

end
