(* ===== verification/Ipc_Texts.thy ===== *)
theory Ipc_Texts
  imports Prelude
begin

text \<open>
  The Chinese texts that the command interface of the client answers with (\<open>client/ipc_mod.cc\<close>), as sequences
  of code points. Each is named after what it says.
\<close>

text \<open>UTF-8, the encoding of the source.\<close>

definition utf8_char :: "nat \<Rightarrow> string" where
  "utf8_char n =
     (if n < 128 then [char_of n]
      else if n < 2048 then [char_of (192 + n div 64), char_of (128 + n mod 64)]
      else [char_of (224 + n div 4096), char_of (128 + n div 64 mod 64), char_of (128 + n mod 64)])"

definition utf8 :: "nat list \<Rightarrow> string" where
  "utf8 ns = concat (map utf8_char ns)"

definition msg_unsupported :: string where
  "msg_unsupported = utf8
     [0x8B66, 0x544A, 0xFF1A, 0x51FA, 0x73B0, 0x4E0D, 0x652F, 0x6301, 0x7684, 0x547D, 0x4EE4, 0x7684,
      0x8BF7, 0x6C42, 0xFF01]"

definition msg_no_zone_info :: string where
  "msg_no_zone_info = utf8
     [0x672A, 0x83B7, 0x5F97, 0x5BF9, 0x5E94, 0x533A, 0x57DF, 0x4FE1, 0x606F, 0xFF0C, 0x8BF7, 0x786E,
      0x8BA4, 0x8D26, 0x6237, 0x4FE1, 0x606F, 0x6B63, 0x786E, 0xFF01]"

definition msg_no_permission :: string where
  "msg_no_permission = utf8
     [0x6743, 0x9650, 0x4E0D, 0x8DB3]"

definition msg_space_exists :: string where
  "msg_space_exists = utf8
     [0x5DF2, 0x5B58, 0x5728, 0x7684, 0x7A7A, 0x95F4, 0x540D]"

definition msg_no_such_space :: string where
  "msg_no_such_space = utf8
     [0x7A7A, 0x95F4, 0x540D, 0x4E0D, 0x5B58, 0x5728, 0xFF0C, 0x8BF7, 0x786E, 0x8BA4, 0x7A7A, 0x95F4,
      0x540D, 0x79F0, 0x6B63, 0x786E, 0xFF01]"

definition msg_no_such_zone :: string where
  "msg_no_such_zone = utf8
     [0x533A, 0x57DF, 0x540D, 0x4E0D, 0x5B58, 0x5728, 0xFF0C, 0x8BF7, 0x786E, 0x8BA4, 0x533A, 0x57DF,
      0x540D, 0x79F0, 0x6B63, 0x786E, 0xFF01]"

definition msg_rename_failed :: string where
  "msg_rename_failed = utf8
     [0x7A7A, 0x95F4, 0x4E0D, 0x5B58, 0x5728, 0x6216, 0x8BBF, 0x95EE, 0x6570, 0x636E, 0x5E93, 0x5931,
      0x8D25]"

definition msg_no_owner :: string where
  "msg_no_owner = utf8
     [0x672A, 0x83B7, 0x5F97, 0x5BF9, 0x5E94, 0x4E3B, 0x4EBA, 0x4FE1, 0x606F, 0xFF0C, 0x8BF7, 0x786E,
      0x8BA4, 0x4FE1, 0x606F, 0x6B63, 0x786E, 0xFF01]"

definition msg_space_name :: string where
  "msg_space_name = utf8
     [0x7A7A, 0x95F4, 0x540D]"

definition msg_is_missing :: string where
  "msg_is_missing = utf8
     [0x4E0D, 0x5B58, 0x5728, 0xFF0C, 0x8BF7, 0x786E, 0x8BA4, 0x7A7A, 0x95F4, 0x540D, 0x79F0, 0x6B63,
      0x786E, 0xFF01]"

definition msg_try_again :: string where
  "msg_try_again = utf8
     [0x6570, 0x636E, 0x5E93, 0x8FDE, 0x63A5, 0x5931, 0x8D25, 0xFF0C, 0x8BF7, 0x91CD, 0x8BD5]"

definition msg_incomplete :: string where
  "msg_incomplete = utf8
     [0x4FE1, 0x606F, 0x4E0D, 0x5168, 0xFF0C, 0x65E0, 0x6CD5, 0x521B, 0x5EFA, 0x6620, 0x5C04]"

definition msg_mapdeduct_db :: string where
  "msg_mapdeduct_db = utf8
     [0x6570, 0x636E, 0x5E93, 0x8FDE, 0x63A5, 0x5931, 0x8D25, 0x6216, 0x7A7A, 0x95F4, 0x6743, 0x9650,
      0x5220, 0x9664, 0x5931, 0x8D25, 0x8BF7, 0x91CD, 0x8BD5]"

definition msg_space_gone :: string where
  "msg_space_gone = utf8
     [0x7A7A, 0x95F4, 0x540D, 0x4E0D, 0x5B58, 0x5728]"

definition msg_mapdeduct_owner :: string where
  "msg_mapdeduct_owner = utf8
     [0x5E76, 0x975E, 0x533A, 0x57DF, 0x4E3B, 0x4EBA, 0x65E0, 0x6743, 0x5220, 0x9664, 0x7A7A, 0x95F4]"

definition msg_unknown_error :: string where
  "msg_unknown_error = utf8
     [0x672A, 0x77E5, 0x9519, 0x8BEF]"

definition msg_no_member :: string where
  "msg_no_member = utf8
     [0x672A, 0x83B7, 0x5F97, 0x5BF9, 0x5E94, 0x6210, 0x5458, 0x4FE1, 0x606F, 0xFF0C, 0x8BF7, 0x786E,
      0x8BA4, 0x4FE1, 0x606F, 0x6B63, 0x786E, 0xFF01]"

definition msg_zoneadd_path :: string where
  "msg_zoneadd_path = utf8
     [0x672A, 0x5728, 0x5B9E, 0x9645, 0x8DEF, 0x5F84, 0x4E2D, 0x627E, 0x5230, 0x76F8, 0x5E94, 0x7A7A,
      0x95F4, 0x6216, 0x6570, 0x636E, 0x5E93, 0x4E2D, 0x5B58, 0x5728, 0x591A, 0x4E2A, 0x540C, 0x547D,
      0x540D, 0x7684, 0x533A, 0x57DF]"

definition msg_zoneadd_db :: string where
  "msg_zoneadd_db = utf8
     [0x6570, 0x636E, 0x5E93, 0x8FDE, 0x63A5, 0x5931, 0x8D25, 0x6216, 0x6743, 0x9650, 0x6DFB, 0x52A0,
      0x5931, 0x8D25, 0x8BF7, 0x91CD, 0x8BD5, 0x6216, 0x8054, 0x7CFB, 0x7BA1, 0x7406, 0x5458]"

definition msg_zonecancel_db :: string where
  "msg_zonecancel_db = utf8
     [0x6570, 0x636E, 0x5E93, 0x8FDE, 0x63A5, 0x5931, 0x8D25, 0x6216, 0x6743, 0x9650, 0x5220, 0x9664,
      0x5931, 0x8D25, 0x8BF7, 0x91CD, 0x8BD5, 0x6216, 0x8054, 0x7CFB, 0x7BA1, 0x7406, 0x5458]"

definition msg_zonecancel_owner :: string where
  "msg_zonecancel_owner = utf8
     [0x4E0D, 0x662F, 0x7BA1, 0x7406, 0x5458, 0x6216, 0x533A, 0x57DF, 0x4E3B, 0x4EBA, 0xFF0C, 0x6CA1,
      0x6709, 0x6743, 0x9650, 0x5220, 0x9664, 0x533A, 0x57DF, 0x4FE1, 0x606F]"

definition msg_zone_gone :: string where
  "msg_zone_gone = utf8
     [0x672A, 0x627E, 0x5230, 0x5BF9, 0x5E94, 0x533A, 0x57DF, 0x4FE1, 0x606F]"

definition msg_owner_is_member :: string where
  "msg_owner_is_member = utf8
     [0x4E0D, 0x80FD, 0x89C1, 0x533A, 0x57DF, 0x4E3B, 0x4EBA, 0x4F5C, 0x4E3A, 0x6210, 0x5458, 0x6DFB,
      0x52A0]"

definition msg_rename_db :: string where
  "msg_rename_db = utf8
     [0x6570, 0x636E, 0x5E93, 0x8FDE, 0x63A5, 0x5931, 0x8D25, 0x8BF7, 0x91CD, 0x8BD5]"

definition msg_zone_exists :: string where
  "msg_zone_exists = utf8
     [0x5DF2, 0x5B58, 0x5728, 0x540C, 0x540D, 0x533A, 0x57DF]"

definition msg_rename_owner :: string where
  "msg_rename_owner = utf8
     [0x5E76, 0x975E, 0x533A, 0x57DF, 0x4E3B, 0x4EBA, 0x65E0, 0x6743, 0x91CD, 0x547D, 0x540D]"

definition msg_rename_owner_admin :: string where
  "msg_rename_owner_admin = utf8
     [0x5E76, 0x975E, 0x533A, 0x57DF, 0x4E3B, 0x4EBA, 0x6216, 0x7BA1, 0x7406, 0x5458, 0x65E0, 0x6743,
      0x91CD, 0x547D, 0x540D]"

definition msg_share_db :: string where
  "msg_share_db = utf8
     [0x6570, 0x636E, 0x5E93, 0x8FDE, 0x63A5, 0x5931, 0x8D25, 0x6216, 0x533A, 0x57DF, 0x6210, 0x5458,
      0x6743, 0x9650, 0x6DFB, 0x52A0, 0x5931, 0x8D25, 0x8BF7, 0x91CD, 0x8BD5, 0x6216, 0x8054, 0x7CFB,
      0x7BA1, 0x7406, 0x5458]"

definition msg_share_owner :: string where
  "msg_share_owner = utf8
     [0x975E, 0x533A, 0x57DF, 0x4E3B, 0x4EBA, 0x6216, 0x7BA1, 0x7406, 0x5458, 0xFF0C, 0x65E0, 0x6743,
      0x8FDB, 0x884C, 0x533A, 0x57DF, 0x5171, 0x4EAB]"

definition msg_unshare_db :: string where
  "msg_unshare_db = utf8
     [0x6570, 0x636E, 0x5E93, 0x8FDE, 0x63A5, 0x5931, 0x8D25, 0x6216, 0x533A, 0x57DF, 0x6210, 0x5458,
      0x6743, 0x9650, 0x5220, 0x9664, 0x5931, 0x8D25, 0x8BF7, 0x91CD, 0x8BD5, 0x6216, 0x8054, 0x7CFB,
      0x7BA1, 0x7406, 0x5458]"

definition msg_unshare_owner :: string where
  "msg_unshare_owner = utf8
     [0x975E, 0x533A, 0x57DF, 0x4E3B, 0x4EBA, 0x6216, 0x7BA1, 0x7406, 0x5458, 0xFF0C, 0x65E0, 0x6743,
      0x8FDB, 0x884C, 0x533A, 0x57DF, 0x5171, 0x4EAB, 0x53D6, 0x6D88]"

definition msg_not_a_member :: string where
  "msg_not_a_member = utf8
     [0x67D0, 0x4E2A, 0x8981, 0x5220, 0x9664, 0x7684, 0x6210, 0x5458, 0x5E76, 0x975E, 0x533A, 0x57DF,
      0x6210, 0x5458]"

definition msg_register_db :: string where
  "msg_register_db = utf8
     [0x6570, 0x636E, 0x5E93, 0x8FDE, 0x63A5, 0x5931, 0x8D25, 0x6216, 0x7A7A, 0x95F4, 0x76EE, 0x5F55,
      0x521B, 0x5EFA, 0x5931, 0x8D25, 0x6216, 0x6743, 0x9650, 0x6DFB, 0x52A0, 0x5931, 0x8D25, 0x8BF7,
      0x91CD, 0x8BD5]"

definition msg_register_invalid :: string where
  "msg_register_invalid = utf8
     [0x533A, 0x57DF, 0x540D, 0x5DF2, 0x5B58, 0x5728, 0x6216, 0x533A, 0x57DF, 0x540D, 0x3001, 0x7A7A,
      0x95F4, 0x540D, 0x3001, 0x7A7A, 0x95F4, 0x5BB9, 0x91CF, 0x4E3A, 0x7A7A]"

definition msg_no_capacity :: string where
  "msg_no_capacity = utf8
     [0x5206, 0x914D, 0x5BB9, 0x91CF, 0x5931, 0x8D25, 0xFF0C, 0x5B58, 0x50A8, 0x8D44, 0x6E90, 0x5BB9,
      0x91CF, 0x4E0D, 0x8DB3]"

definition msg_no_resource :: string where
  "msg_no_resource = utf8
     [0x5B58, 0x50A8, 0x8D44, 0x6E90, 0x9009, 0x62E9, 0x5931, 0x8D25, 0x2C, 0x672A, 0x627E, 0x5230, 0x76F8,
      0x5173, 0x5B58, 0x50A8, 0x8D44, 0x6E90]"

definition msg_no_account_map :: string where
  "msg_no_account_map = utf8
     [0x83B7, 0x53D6, 0x533A, 0x57DF, 0x8D26, 0x6237, 0x6620, 0x5C04, 0x4FE1, 0x606F, 0x5931, 0x8D25]"

definition msg_mapadd_db :: string where
  "msg_mapadd_db = utf8
     [0x6570, 0x636E, 0x5E93, 0x8FDE, 0x63A5, 0x5931, 0x8D25, 0x6216, 0x7A7A, 0x95F4, 0x76EE, 0x5F55,
      0x521B, 0x5EFA, 0x5931, 0x8D25, 0x6216, 0x6743, 0x9650, 0x540C, 0x6B65, 0x5931, 0x8D25, 0x8BF7,
      0x91CD, 0x8BD5]"

definition msg_mapadd_invalid :: string where
  "msg_mapadd_invalid = utf8
     [0x7A7A, 0x95F4, 0x5DF2, 0x5B58, 0x5728, 0x6216, 0x540C, 0x4E00, 0x533A, 0x57DF, 0x5728, 0x4E00,
      0x4E2A, 0x4E2D, 0x5FC3, 0x4E0D, 0x80FD, 0x6709, 0x4E24, 0x4E2A, 0x7A7A, 0x95F4, 0x6216, 0x7A7A,
      0x95F4, 0x540D, 0x3001, 0x7A7A, 0x95F4, 0x5BB9, 0x91CF, 0x4E3A, 0x7A7A]"

definition msg_db_failed :: string where
  "msg_db_failed = utf8
     [0x6570, 0x636E, 0x5E93, 0x8FDE, 0x63A5, 0x5931, 0x8D25]"

definition msg_shrink_too_much :: string where
  "msg_shrink_too_much = utf8
     [0x7A7A, 0x95F4, 0x5BB9, 0x91CF, 0x7F29, 0x5C0F, 0x8FC7, 0x591A]"

definition msg_no_account :: string where
  "msg_no_account = utf8
     [0x672A, 0x83B7, 0x5F97, 0x5BF9, 0x5E94, 0x8D26, 0x6237, 0x4FE1, 0x606F, 0xFF0C, 0x8BF7, 0x786E,
      0x8BA4, 0x4FE1, 0x606F, 0x6B63, 0x786E, 0xFF01]"


text \<open>What begins with a Chinese character is no ASCII text.\<close>

lemma utf8_first:
  assumes "2048 \<le> n" and "n < 65536"
  shows "\<exists>c cs. utf8 (n # ns) = c # cs \<and> 224 \<le> (of_char c :: nat)"
proof -
  have "n div 4096 < 16" using assms(2) by (simp add: div_less_iff_less_mult)
  then have "of_char (char_of (224 + n div 4096) :: char) = 224 + n div 4096" by (simp add: of_char_of)
  with assms(1) show ?thesis by (simp add: utf8_def utf8_char_def)
qed

lemma utf8_not_success: "2048 \<le> n \<Longrightarrow> n < 65536 \<Longrightarrow> utf8 (n # ns) \<noteq> ''success''"
  using utf8_first [of n ns] by auto

end
