(* ===== verification/Ipc_Commands.thy ===== *)
theory Ipc_Commands
  imports Client_Paths ZoneServer Ipc_Texts
begin

text \<open>
  The commands on spaces and zones of \<open>client/ipc_mod.cc\<close>. The command line programs send a request
  (\<open>client/ipc_struct.h\<close>); the client finds the identifiers that belong to the names in it, asks the manager,
  and answers with a text. An answer of the manager that is no number leaves the local variable as it was
  declared, without a value.
\<close>

section \<open>Steps that the commands share\<close>

text \<open>A request to the manager that \<open>get_manager\<close> chooses.\<close>

definition ask_manager :: "'c net \<Rightarrow> string \<Rightarrow> string \<Rightarrow> ('c, string) cprog" where
  "ask_manager k url data = bnd get_manager (\<lambda>endpoint. post_request k endpoint url data)"

text \<open>The commands of an account want somebody to be logged in; those of an administrator name the owner.\<close>

definition logged_in :: "(string \<Rightarrow> ('c, string) cprog) \<Rightarrow> ('c, string) cprog" where
  "logged_in f = bnd getAccountID (\<lambda>ownID. if ownID = [] then ret ''login first'' else f ownID)"

definition members_of :: "'c net \<Rightarrow> string list \<Rightarrow> string \<Rightarrow> (string list \<Rightarrow> ('c, string) cprog) \<Rightarrow> ('c, string) cprog" where
  "members_of k names failure f = bnd (client_getMemberID k names []) (\<lambda>(ok, ids). if ok then f ids else ret failure)"

definition named_owner :: "'c net \<Rightarrow> ipc_req \<Rightarrow> string \<Rightarrow> (string list \<Rightarrow> ('c, string) cprog) \<Rightarrow> ('c, string) cprog" where
  "named_owner k r failure f =
     (if ipc_ownName r = [] then ret failure else members_of k [ipc_ownName r] msg_no_owner f)"

text \<open>The zones of an account, by their names: of several zones of one name the last one is kept.\<close>

definition ipc_GetZoneInfo :: "'c net \<Rightarrow> string \<Rightarrow> ('c, bool) cprog" where
  "ipc_GetZoneInfo k clientID =
     bnd (ask_manager k ''/zone/info'' clientID) (\<lambda>inforesult.
     bnd (if inforesult = [] then ret [] else of_outcome (decode_zones k inforesult)) (\<lambda>zs.
     if zs = [] then ret False
     else bnd (update (\<lambda>s. s\<lparr>ipc_zonemap := foldl (\<lambda>m z. AList.update (z_zoneName z) z m) [] zs\<rparr>)) (\<lambda>_. ret True)))"

definition with_zone :: "'c net \<Rightarrow> string \<Rightarrow> string \<Rightarrow> (zone \<Rightarrow> ('c, string) cprog) \<Rightarrow> ('c, string) cprog" where
  "with_zone k ownID zonename f =
     bnd (ipc_GetZoneInfo k ownID) (\<lambda>ok.
     if \<not> ok then ret msg_no_zone_info
     else
       bnd (asks (\<lambda>s. map_of (ipc_zonemap s) zonename)) (\<lambda>mapping.
       case mapping of None \<Rightarrow> ret msg_no_such_zone | Some z \<Rightarrow> f z))"

text \<open>The first space of that name.\<close>

primrec first_named :: "string \<Rightarrow> space option list \<Rightarrow> ('w, space option) prog" where
  "first_named n [] = ret None"
| "first_named n (sp # sps) = bnd (deref sp) (\<lambda>x. if sp_spaceName x = n then ret (Some x) else first_named n sps)"

text \<open>The identifiers of the spaces named, or the text for the first that is not there.\<close>

primrec ids_of_names :: "space option list \<Rightarrow> string list \<Rightarrow> string list \<Rightarrow> ('w, string + string list) prog" where
  "ids_of_names sps [] ids = ret (Inr ids)"
| "ids_of_names sps (m # ms) ids =
     bnd (first_named m sps) (\<lambda>found.
     case found of
       None \<Rightarrow> ret (Inl (msg_space_name @ m @ msg_is_missing))
     | Some x \<Rightarrow> ids_of_names sps ms (ids @ [sp_spaceID x]))"

definition with_ids :: "zone \<Rightarrow> string list \<Rightarrow> (string list \<Rightarrow> ('c, string) cprog) \<Rightarrow> ('c, string) cprog" where
  "with_ids z names f =
     bnd (ids_of_names (z_spaceBicInfo z) names []) (\<lambda>r. case r of Inl msg \<Rightarrow> ret msg | Inr ids \<Rightarrow> f ids)"

text \<open>What the number that the manager answered with is called.\<close>

definition result_of :: "'c net \<Rightarrow> string \<Rightarrow> int" where
  "result_of k response = json_decode k dec_int response (ud_int k)"

definition answer_code :: "'c net \<Rightarrow> (int \<times> string) list \<Rightarrow> string \<Rightarrow> string \<Rightarrow> string" where
  "answer_code k texts other response =
     (let result = result_of k response in
      if result = 0 then ''success'' else case map_of texts result of Some t \<Rightarrow> t | None \<Rightarrow> other)"

section \<open>Spaces\<close>

definition rename_space :: "'c net \<Rightarrow> string \<Rightarrow> string \<Rightarrow> ipc_req \<Rightarrow> ('c, string) cprog" where
  "rename_space k ownID ownName r =
     with_zone k ownID (ipc_zonename r) (\<lambda>z.
       if z_ownerID z \<noteq> ownName then ret msg_no_permission
       else
         bnd (first_named (ipc_newspacename r) (z_spaceBicInfo z)) (\<lambda>taken.
         if taken \<noteq> None then ret msg_space_exists
         else
           bnd (first_named (ipc_spacename r) (z_spaceBicInfo z)) (\<lambda>found.
           let spaceuuid = (case found of Some x \<Rightarrow> sp_spaceID x | None \<Rightarrow> []) in
           if spaceuuid = [] then ret msg_no_such_space
           else
             bnd (ask_manager k ''/space/rename'' (serialize k ser_SpaceRequest
               ((new_SpaceRequest k)\<lparr>sr_spaceID := spaceuuid, sr_newSpaceName := ipc_newspacename r\<rparr>))) (\<lambda>response.
             ret (if response = ''success'' then response else response @ msg_rename_failed)))))"

definition dospacerename :: "'c net \<Rightarrow> ipc_req \<Rightarrow> ('c, string) cprog" where
  "dospacerename k r =
     logged_in (\<lambda>ownID. bnd getAccountName (\<lambda>ownName. rename_space k ownID ownName r))"

definition dospacerename_admin :: "'c net \<Rightarrow> ipc_req \<Rightarrow> ('c, string) cprog" where
  "dospacerename_admin k r =
     named_owner k r ''no ownername'' (\<lambda>ids. bnd (at_index ids 0) (\<lambda>ownID. rename_space k ownID (ipc_ownName r) r))"

definition space_usage :: "'c net \<Rightarrow> string \<Rightarrow> ipc_req \<Rightarrow> ('c, string) cprog" where
  "space_usage k ownID r =
     with_zone k ownID (ipc_zonename r) (\<lambda>z. with_ids z (ipc_spacenames r) (\<lambda>ids.
       bnd (ask_manager k ''/space/spaceusagecheck'' (serialize k ser_SpaceRequest
         ((new_SpaceRequest k)\<lparr>sr_spaceIDs := ids\<rparr>))) (\<lambda>response. ret (''1'' @ response))))"

definition dospaceusage :: "'c net \<Rightarrow> ipc_req \<Rightarrow> ('c, string) cprog" where
  "dospaceusage k r = logged_in (\<lambda>ownID. space_usage k ownID r)"

definition dospaceusage_admin :: "'c net \<Rightarrow> ipc_req \<Rightarrow> ('c, string) cprog" where
  "dospaceusage_admin k r =
     named_owner k r '' no ownername'' (\<lambda>ids. bnd (at_index ids 0) (\<lambda>ownID. space_usage k ownID r))"

text \<open>The new size passes through a variable of 32 bits.\<close>

definition dospacesizechange :: "'c net \<Rightarrow> ipc_req \<Rightarrow> ('c, string) cprog" where
  "dospacesizechange k r =
     logged_in (\<lambda>ownID.
       with_zone k ownID (ipc_zonename r) (\<lambda>z.
         bnd (first_named (ipc_spacename r) (z_spaceBicInfo z)) (\<lambda>found.
         let spaceuuid = (case found of Some x \<Rightarrow> sp_spaceID x | None \<Rightarrow> []) in
         if spaceuuid = [] then ret msg_no_such_space
         else
           bnd (ask_manager k ''/space/changesizeapply'' (serialize k ser_SpaceRequest
             ((new_SpaceRequest k)\<lparr>sr_spaceID := spaceuuid, sr_newSpaceSize := i32 (ipc_newspacesize r)\<rparr>))) (\<lambda>response.
           ret (answer_code k [] msg_try_again response)))))"

text \<open>A space without a centre goes to the nearest one; otherwise the name of its centre is looked up.\<close>

definition place_space :: "'c net \<Rightarrow> space \<Rightarrow> (space \<Rightarrow> ('c, string) cprog) \<Rightarrow> ('c, string) cprog" where
  "place_space k x f =
     (if sp_hostCenterName x = [] then
        bnd (getNode 1) (\<lambda>centers. bnd (at_index centers 0) (\<lambda>c.
        f (x\<lparr>sp_hostCenterName := cn_location c, sp_hostCenterID := cn_center_id c\<rparr>)))
      else
        bnd (asks (\<lambda>s. getmapIdName k s (sp_hostCenterName x))) (\<lambda>centerid.
        if centerid = ''fail'' then ret ''no such center'' else f (x\<lparr>sp_hostCenterID := centerid\<rparr>)))"

definition space_text :: "'c net \<Rightarrow> ipc_req \<Rightarrow> space" where
  "space_text k r = load k des_Space (ipc_spaceurl r) (new_Space k)"

definition domapadd :: "'c net \<Rightarrow> ipc_req \<Rightarrow> ('c, string) cprog" where
  "domapadd k r =
     logged_in (\<lambda>ownID.
       with_zone k ownID (ipc_zonename r) (\<lambda>z.
         bnd (first_named (ipc_spacename r) (z_spaceBicInfo z)) (\<lambda>taken.
         if taken \<noteq> None then ret msg_space_exists
         else if ipc_spacename r = [] \<or> ipc_spacesize r = 0 then ret msg_incomplete
         else
           place_space k (space_text k r) (\<lambda>x.
             bnd (ask_manager k ''/zone/mapaddapply'' (serialize k ser_ZoneRequest
               ((new_ZoneRequest k)\<lparr>zr_zoneID := z_zoneID z, zr_ownerID := ownID, zr_spaceName := ipc_spacename r,
                 zr_spaceSize := ipc_spacesize r, zr_spacePathInfo := serialize k ser_Space x\<rparr>))) (\<lambda>response.
             ret (answer_code k [] msg_try_again response))))))"

definition map_deduct :: "'c net \<Rightarrow> string \<Rightarrow> ipc_req \<Rightarrow> ('c, string) cprog" where
  "map_deduct k ownID r =
     with_zone k ownID (ipc_zonename r) (\<lambda>z. with_ids z (ipc_spacenames r) (\<lambda>ids.
       bnd (ask_manager k ''/zone/mapdeduct'' (serialize k ser_ZoneRequest
         ((new_ZoneRequest k)\<lparr>zr_zoneID := z_zoneID z, zr_ownerID := ownID, zr_spaceID := ids\<rparr>))) (\<lambda>response.
       ret (answer_code k [(11, msg_mapdeduct_db), (22, msg_space_gone), (13, msg_mapdeduct_owner)]
         msg_unknown_error response))))"

definition domapdeduct :: "'c net \<Rightarrow> ipc_req \<Rightarrow> ('c, string) cprog" where
  "domapdeduct k r = logged_in (\<lambda>ownID. map_deduct k ownID r)"

definition domapdeduct_admin :: "'c net \<Rightarrow> ipc_req \<Rightarrow> ('c, string) cprog" where
  "domapdeduct_admin k r =
     named_owner k r '' no ownername'' (\<lambda>ids. bnd (at_index ids 0) (\<lambda>ownID. map_deduct k ownID r))"

text \<open>\<open>replicated\<close> and \<open>single\<close> are the members of a map, in key order.\<close>

definition dospacereplica :: "'c net \<Rightarrow> ipc_req \<Rightarrow> ('c, string) cprog" where
  "dospacereplica k r =
     bnd (ask_manager k ''/space/replica'' (json_encode k (enc_map enc_str)
       [(''replicated'', ipc_spacename r), (''single'', ipc_newspacename r)])) (\<lambda>response.
     ret (answer_code k [(- E2BIG, ''ERROR: the number of replicated space exceeds maximun limit'')]
       ''ERROR: cannot create replica space for UNKNOWN ERROR'' response))"

section \<open>Zones\<close>

definition dozoneadd_admin :: "'c net \<Rightarrow> ipc_req \<Rightarrow> ('c, string) cprog" where
  "dozoneadd_admin k r =
     named_owner k r '' no ownername'' (\<lambda>ids.
     members_of k (ipc_memName r) msg_no_member (\<lambda>memID.
     bnd (at_index ids 0) (\<lambda>ownID.
       let x = space_text k r in
       if sp_hostCenterName x = [] then ret ''no center name''
       else if sp_storageSrcName x = [] then ret ''no storage name''
       else
         bnd (asks (\<lambda>s. getmapIdName k s (sp_hostCenterName x))) (\<lambda>centerid.
         if centerid = ''fail'' then ret ''no such center''
         else
           bnd (ask_manager k ''/zone/add'' (serialize k ser_ZoneRequest
             ((new_ZoneRequest k)\<lparr>zr_zoneName := ipc_zonename r, zr_ownerID := ownID, zr_memberID := memID,
               zr_spacePathInfo := ipc_spaceurl r\<rparr>))) (\<lambda>response.
           ret (answer_code k [(22, msg_zoneadd_path), (11, msg_zoneadd_db)] msg_unknown_error response))))))"

definition zone_cancel :: "'c net \<Rightarrow> string \<Rightarrow> ipc_req \<Rightarrow> ('c, string) cprog" where
  "zone_cancel k ownID r =
     with_zone k ownID (ipc_zonename r) (\<lambda>z.
       bnd (ask_manager k ''/zone/cancel'' (serialize k ser_ZoneRequest
         ((new_ZoneRequest k)\<lparr>zr_zoneID := z_zoneID z, zr_ownerID := ownID\<rparr>))) (\<lambda>response.
       ret (answer_code k [(11, msg_zonecancel_db), (13, msg_zonecancel_owner), (2, msg_zone_gone)]
         msg_unknown_error response)))"

definition dozonecancel :: "'c net \<Rightarrow> ipc_req \<Rightarrow> ('c, string) cprog" where
  "dozonecancel k r = logged_in (\<lambda>ownID. zone_cancel k ownID r)"

definition dozonecancel_admin :: "'c net \<Rightarrow> ipc_req \<Rightarrow> ('c, string) cprog" where
  "dozonecancel_admin k r =
     named_owner k r '' no ownername'' (\<lambda>ids. bnd (at_index ids 0) (\<lambda>ownID. zone_cancel k ownID r))"

definition dozoneregister :: "'c net \<Rightarrow> ipc_req \<Rightarrow> ('c, string) cprog" where
  "dozoneregister k r =
     logged_in (\<lambda>ownID.
     members_of k (ipc_memName r) msg_no_member (\<lambda>memID.
       if list_ex (\<lambda>m. m = ownID) memID then ret msg_owner_is_member
       else
         place_space k (space_text k r) (\<lambda>x.
           bnd (ask_manager k ''/zone/registerapply'' (serialize k ser_ZoneRequest
             ((new_ZoneRequest k)\<lparr>zr_zoneName := ipc_zonename r, zr_ownerID := ownID, zr_memberID := memID,
               zr_spaceName := ipc_spacename r, zr_spaceSize := ipc_spacesize r,
               zr_spacePathInfo := serialize k ser_Space x\<rparr>))) (\<lambda>response.
           ret (answer_code k [] msg_try_again response)))))"

definition zone_rename :: "'c net \<Rightarrow> string \<Rightarrow> string \<Rightarrow> ipc_req \<Rightarrow> ('c, string) cprog" where
  "zone_rename k refused ownID r =
     with_zone k ownID (ipc_zonename r) (\<lambda>z.
       bnd (ask_manager k ''/zone/rename'' (serialize k ser_ZoneRequest
         ((new_ZoneRequest k)\<lparr>zr_zoneID := z_zoneID z, zr_ownerID := ownID,
           zr_newZoneName := ipc_newzonename r\<rparr>))) (\<lambda>response.
       ret (answer_code k [(11, msg_rename_db), (22, msg_zone_exists), (13, refused)] msg_unknown_error response)))"

definition dozonerename :: "'c net \<Rightarrow> ipc_req \<Rightarrow> ('c, string) cprog" where
  "dozonerename k r = logged_in (\<lambda>ownID. zone_rename k msg_rename_owner ownID r)"

definition dozonerename_admin :: "'c net \<Rightarrow> ipc_req \<Rightarrow> ('c, string) cprog" where
  "dozonerename_admin k r =
     named_owner k r '' no ownername'' (\<lambda>ids. bnd (at_index ids 0) (\<lambda>ownID. zone_rename k msg_rename_owner_admin ownID r))"

definition zone_share :: "'c net \<Rightarrow> string \<Rightarrow> string list \<Rightarrow> ipc_req \<Rightarrow> ('c, string) cprog" where
  "zone_share k ownID memID r =
     with_zone k ownID (ipc_zonename r) (\<lambda>z.
       bnd (ask_manager k ''/zone/share'' (serialize k ser_ZoneRequest
         ((new_ZoneRequest k)\<lparr>zr_zoneID := z_zoneID z, zr_ownerID := ownID, zr_memberID := memID\<rparr>))) (\<lambda>response.
       ret (answer_code k [(11, msg_share_db), (13, msg_share_owner)] msg_unknown_error response)))"

definition dozoneshare :: "'c net \<Rightarrow> ipc_req \<Rightarrow> ('c, string) cprog" where
  "dozoneshare k r =
     logged_in (\<lambda>ownID. members_of k (ipc_memName r) msg_no_member (\<lambda>memID. zone_share k ownID memID r))"

definition dozoneshare_admin :: "'c net \<Rightarrow> ipc_req \<Rightarrow> ('c, string) cprog" where
  "dozoneshare_admin k r =
     named_owner k r '' no ownername'' (\<lambda>ids.
     members_of k (ipc_memName r) msg_no_member (\<lambda>memID.
     bnd (at_index ids 0) (\<lambda>ownID. zone_share k ownID memID r)))"

definition zone_sharecancel :: "'c net \<Rightarrow> string \<Rightarrow> string list \<Rightarrow> ipc_req \<Rightarrow> ('c, string) cprog" where
  "zone_sharecancel k ownID memID r =
     with_zone k ownID (ipc_zonename r) (\<lambda>z.
       bnd (ask_manager k ''/zone/sharecancel'' (serialize k ser_ZoneRequest
         ((new_ZoneRequest k)\<lparr>zr_zoneID := z_zoneID z, zr_ownerID := ownID, zr_memberID := memID\<rparr>))) (\<lambda>response.
       ret (answer_code k [(11, msg_unshare_db), (13, msg_unshare_owner), (22, msg_not_a_member)]
         msg_unknown_error response)))"

definition dozonesharecancel :: "'c net \<Rightarrow> ipc_req \<Rightarrow> ('c, string) cprog" where
  "dozonesharecancel k r =
     logged_in (\<lambda>ownID. members_of k (ipc_memName r) msg_no_member (\<lambda>memID. zone_sharecancel k ownID memID r))"

definition dozonesharecancel_admin :: "'c net \<Rightarrow> ipc_req \<Rightarrow> ('c, string) cprog" where
  "dozonesharecancel_admin k r =
     named_owner k r '' no ownername'' (\<lambda>ids.
     members_of k (ipc_memName r) msg_no_member (\<lambda>memID.
     bnd (at_index ids 0) (\<lambda>ownID. zone_sharecancel k ownID memID r)))"

definition dozonelist :: "'c net \<Rightarrow> ipc_req \<Rightarrow> ('c, string) cprog" where
  "dozonelist k r = logged_in (\<lambda>ownID. ask_manager k ''/zone/info'' ownID)"

definition dozonelist_admin :: "'c net \<Rightarrow> ipc_req \<Rightarrow> ('c, string) cprog" where
  "dozonelist_admin k r =
     named_owner k r '' no ownername'' (\<lambda>ids.
     bnd get_manager (\<lambda>endpoint. bnd (at_index ids 0) (\<lambda>ownID. post_request k endpoint ''/zone/info'' ownID)))"

end
