(* ===== verification/Ipc_Account.thy ===== *)
theory Ipc_Account
  imports Ipc_Commands UserModel
begin

text \<open>
  The commands on accounts, rights, centres and resources of \<open>client/ipc_mod.cc\<close>, those of administrators, and
  the choice of the command.
\<close>

section \<open>Logging in\<close>

text \<open>
  The continuation of the login runs when the manager has answered. The account is entered before the answer
  is cut: an answer shorter than two characters raises an exception there, after which nobody fulfils the
  promise that the command waits for. The same holds when there is no answer.
\<close>

definition login_done :: "'c net \<Rightarrow> string \<Rightarrow> string \<Rightarrow> string list \<Rightarrow> ('c, string) cprog" where
  "login_done k name body cookies =
     (if body = ''-1'' then ret ''-1''
      else
        bnd (setToken (if cookies = [] then [] else last cookies)) (\<lambda>_.
        bnd (setAccountName name) (\<lambda>_.
        if length body < 2 then crash Blocked_Forever
        else
          bnd (setAccountID (drop 2 body)) (\<lambda>_.
          bnd getAccountID (\<lambda>gvdsID.
          bnd (getAuthFromServer k gvdsID) (\<lambda>_.
          bnd (GetZoneInfo_client k gvdsID) (\<lambda>_. ret ''0'')))))))"

definition douserlogin :: "'c net \<Rightarrow> ipc_req \<Rightarrow> ('c, string) cprog" where
  "douserlogin k r =
     bnd get_manager (\<lambda>manager.
     let url = snprintf_n 256 (cstr manager @ ''/users/login'');
         mes = serialize k ser_AccountPass \<lparr>aps_accountName = ipc_accountName r, aps_Password = ipc_Password r\<rparr> in
     bnd (outside (net_login k url mes)) (\<lambda>(answer, cookies).
     case answer of
       Answered body \<Rightarrow> login_done k (ipc_accountName r) body cookies
     | Thrown \<Rightarrow> crash Uncaught_Exception
     | _ \<Rightarrow> crash Blocked_Forever))"

section \<open>Accounts\<close>

text \<open>While nobody has logged in, no name is refused.\<close>

definition for_account :: "ipc_req \<Rightarrow> string \<Rightarrow> ('c, string) cprog \<Rightarrow> ('c, string) cprog" where
  "for_account r refusal f =
     bnd getAccountName (\<lambda>name. if ipc_accountName r \<noteq> name \<and> name \<noteq> [] then ret refusal else f)"

definition get_manager_text :: "'c net \<Rightarrow> string \<Rightarrow> ('c, string) cprog" where
  "get_manager_text k url = bnd get_manager (\<lambda>endpoint. get_request k endpoint url)"

definition dousersearch :: "'c net \<Rightarrow> ipc_req \<Rightarrow> ('c, string) cprog" where
  "dousersearch k r = for_account r ''client_input_error''
     (bnd getAccountID (\<lambda>i. get_manager_text k (''/users/search/'' @ i)))"

definition account_of :: "ipc_req \<Rightarrow> string \<Rightarrow> account" where
  "account_of r i = \<lparr>acc_accountName = ipc_accountName r, acc_Password = ipc_Password r, acc_accountID = i,
     acc_accountEmail = ipc_email r, acc_accountPhone = ipc_phone r, acc_accountAddress = ipc_address r,
     acc_Department = ipc_department r\<rparr>"

definition dousersignup :: "'c net \<Rightarrow> ipc_req \<Rightarrow> ('c, string) cprog" where
  "dousersignup k r =
     ask_manager k ''/users/bufferuserregister'' (serialize k ser_Account (account_of r (ipc_gvdsID r)))"

definition doadminsignup :: "'c net \<Rightarrow> ipc_req \<Rightarrow> ('c, string) cprog" where
  "doadminsignup k r =
     ask_manager k ''/users/adminregistration'' (serialize k ser_Account (account_of r (ipc_gvdsID r)))"

definition dousermodify :: "'c net \<Rightarrow> ipc_req \<Rightarrow> ('c, string) cprog" where
  "dousermodify k r =
     bnd getAccountID (\<lambda>i. for_account r ''client_input_error''
       (ask_manager k ''/users/modify'' (serialize k ser_Account (account_of r i))))"

text \<open>After logging out the account has the name \<open>100\<close> and the identifier \<open>200\<close>.\<close>

definition douserexit :: "'c net \<Rightarrow> ipc_req \<Rightarrow> ('c, string) cprog" where
  "douserexit k r = for_account r ''client_input_error''
     (bnd getAccountID (\<lambda>i.
      bnd (get_manager_text k (''/users/exit/'' @ i)) (\<lambda>res.
      bnd (if res = ''0'' then bnd (setAccountName ''100'') (\<lambda>_. setAccountID ''200'') else ret ()) (\<lambda>_. ret res))))"

definition dousercancel :: "'c net \<Rightarrow> ipc_req \<Rightarrow> ('c, string) cprog" where
  "dousercancel k r = for_account r ''client_input_error''
     (bnd getAccountID (\<lambda>i. get_manager_text k (''/users/cancel/'' @ i)))"

section \<open>Rights\<close>

definition doauthsearch :: "'c net \<Rightarrow> ipc_req \<Rightarrow> ('c, string) cprog" where
  "doauthsearch k r = for_account r ''client_input_error''
     (bnd getAccountID (\<lambda>i. ask_manager k ''/auth/search'' i))"

definition auth_request :: "'c net \<Rightarrow> string \<Rightarrow> ipc_req \<Rightarrow> ('c, string) cprog" where
  "auth_request k i r =
     ask_manager k ''/auth/modify'' (serialize k ser_FEAuthModifygroupinfo
       \<lparr>fam_gvdsID = i, fam_zonename = ipc_zonename r, fam_modify_groupauth = ipc_changeauth r\<rparr>)"

definition auth_answer :: "string \<Rightarrow> string" where
  "auth_answer res = (if res = ''-1'' then ''modify auth fail''
     else if res = ''33'' then ''Verification failed, access denied'' else ''modify auth success'')"

definition doauthmodify :: "'c net \<Rightarrow> ipc_req \<Rightarrow> ('c, string) cprog" where
  "doauthmodify k r = for_account r ''-2''
     (bnd getAccountID (\<lambda>i.
      bnd (auth_request k i r) (\<lambda>res.
      bnd getAccountID (\<lambda>i. bnd (getAuthFromServer k i) (\<lambda>_. ret (auth_answer res))))))"

section \<open>Centres and resources\<close>

definition domodifycenter :: "'c net \<Rightarrow> ipc_req \<Rightarrow> ('c, string) cprog" where
  "domodifycenter k r =
     bnd (deref (net_cfg k ''manager_addr'')) (\<lambda>addr.
     post_request k (''http://'' @ addr) ''/mconf/addCenter'' (serialize k ser_FECenterInfo
       \<lparr>fe_centerID = ipc_centerID r, fe_centerIP = ipc_centerIP r, fe_centerPort = ipc_centerPort r,
         fe_centerName = ipc_centerName r\<rparr>))"

definition dosearchcenter :: "'c net \<Rightarrow> ipc_req \<Rightarrow> ('c, string) cprog" where
  "dosearchcenter k r = get_manager_text k ''/mconf/searchCenter''"

definition dodeletecenter :: "'c net \<Rightarrow> ipc_req \<Rightarrow> ('c, string) cprog" where
  "dodeletecenter k r = ask_manager k ''/mconf/deleteCenter'' (ipc_centerID r)"

text \<open>
  The centre of a resource: where both its name and its identifier are given they must belong together,
  otherwise the first centre that has one of them.
\<close>

definition given :: "string \<Rightarrow> bool" where
  "given t \<longleftrightarrow> (case cstr t of [] \<Rightarrow> True | c # _ \<Rightarrow> c \<noteq> CHR ''#'')"

fun centre_of :: "center_info \<Rightarrow> storage_resource \<Rightarrow> string list \<Rightarrow> storage_resource option" where
  "centre_of ci x [] = None"
| "centre_of ci x (i # is) =
     (let name = smap_at [] (ci_centerName ci) i in
      if given (st_host_center_name x) \<and> given (st_host_center_id x) then
        if name = st_host_center_name x \<and> i = st_host_center_id x then Some x else centre_of ci x is
      else if i = st_host_center_id x \<or> name = st_host_center_name x then
        Some (x\<lparr>st_host_center_id := i, st_host_center_name := name\<rparr>)
      else centre_of ci x is)"

definition resource_text :: "ipc_req \<Rightarrow> storage_resource" where
  "resource_text r = \<lparr>st_storage_src_id = ipc_storage_src_id r, st_storage_src_name = ipc_storage_src_name r,
     st_host_center_id = ipc_host_center_id r, st_host_center_name = ipc_host_center_name r,
     st_total_capacity = ipc_total_capacity r, st_assign_capacity = ipc_assign_capacity r,
     st_mgs_address = ipc_mgs_address r, st_state = ipc_state r\<rparr>"

definition doregisterupdate :: "'c net \<Rightarrow> string \<Rightarrow> ipc_req \<Rightarrow> ('c, string) cprog" where
  "doregisterupdate k url r =
     bnd (asks (\<lambda>s. centre_info k s)) (\<lambda>ci.
     case centre_of ci (resource_text r) (ci_centerID ci) of
       None \<Rightarrow> ret ''input center id or center name is wrong''
     | Some x \<Rightarrow> ask_manager k url (serialize k ser_StorageResource x))"

definition doresourceupdate :: "'c net \<Rightarrow> ipc_req \<Rightarrow> ('c, string) cprog" where
  "doresourceupdate k r = doregisterupdate k ''/resource/update'' r"

definition doresourceregister :: "'c net \<Rightarrow> ipc_req \<Rightarrow> ('c, string) cprog" where
  "doresourceregister k r = doregisterupdate k ''/resource/register'' r"

definition doresourcequery :: "'c net \<Rightarrow> ipc_req \<Rightarrow> ('c, string) cprog" where
  "doresourcequery k r = get_manager_text k (''/resource/query/'' @ ipc_storage_src_id r)"

definition doresourcedelete :: "'c net \<Rightarrow> ipc_req \<Rightarrow> ('c, string) cprog" where
  "doresourcedelete k r =
     bnd get_manager (\<lambda>endpoint. delete_request k endpoint (''/resource/delete/'' @ ipc_storage_src_id r))"

section \<open>Administrators\<close>

text \<open>The applications that wait for an administrator are kept until the next list.\<close>

primrec set_applies :: "'c net \<Rightarrow> string list \<Rightarrow> ('c, unit) cprog" where
  "set_applies k [] = ret ()"
| "set_applies k (con # cons) =
     (let a = load k des_apply_info con \<lparr>ai_id = [], ai_data = []\<rparr> in
      bnd (setApply (ai_id a) (ai_data a)) (\<lambda>_. set_applies k cons))"

definition dolistapply :: "'c net \<Rightarrow> ipc_req \<Rightarrow> ('c, string) cprog" where
  "dolistapply k r =
     bnd getAccountID (\<lambda>gvdsID.
     bnd (ask_manager k ''/users/listapply'' gvdsID) (\<lambda>res.
     if res = ''1'' \<or> res = ''33'' then ret res
     else
       bnd clearApply (\<lambda>_.
       bnd (set_applies k (json_decode k (dec_vec dec_str []) res [])) (\<lambda>_. ret res))))"

text \<open>
  An application is decided by its identifier, whose first five characters say what it is. It is taken from
  the list of the manager after the request was made, whatever came of that.
\<close>

definition approve :: "'c net \<Rightarrow> string \<Rightarrow> string \<Rightarrow> string \<Rightarrow> (string \<Rightarrow> string) \<Rightarrow> string \<Rightarrow> ('c, string) cprog" where
  "approve k endpoint route value answer i =
     bnd (post_request k endpoint route value) (\<lambda>response.
     bnd (post_request k endpoint ''/users/removeapply'' i) (\<lambda>_. ret (answer response)))"

definition zone_check_texts :: "(int \<times> string) list" where
  "zone_check_texts = [(11, msg_register_db), (22, msg_register_invalid), (28, msg_no_capacity), (2, msg_no_resource),
     (13, msg_no_account_map)]"

definition map_check_texts :: "(int \<times> string) list" where
  "map_check_texts = [(11, msg_mapadd_db), (22, msg_mapadd_invalid), (28, msg_no_capacity), (2, msg_no_resource),
     (13, msg_no_account_map)]"

definition size_check_texts :: "(int \<times> string) list" where
  "size_check_texts = [(11, msg_db_failed), (22, msg_shrink_too_much), (28, msg_no_capacity)]"

definition dosuggestion :: "'c net \<Rightarrow> ipc_req \<Rightarrow> ('c, string) cprog" where
  "dosuggestion k r =
     bnd get_manager (\<lambda>endpoint.
     let i = ipc_applyid r in
     if ipc_sug r = ''reject'' then
       bnd (post_request k endpoint ''/users/removeapply'' i) (\<lambda>res. ret (if res = ''0'' then ''success'' else ''fail''))
     else if ipc_sug r = ''agree'' then
       bnd (getApply i) (\<lambda>value.
       let kind = take 5 i in
       if kind = ''usign'' then approve k endpoint ''/users/registration'' value id i
       else if kind = ''zregi'' then
         approve k endpoint ''/zone/registercheck'' value (answer_code k zone_check_texts msg_unknown_error) i
       else if kind = ''spadd'' then
         approve k endpoint ''/zone/mapaddcheck'' value (answer_code k map_check_texts msg_unknown_error) i
       else if kind = ''spsiz'' then
         approve k endpoint ''/space/changesize'' value (answer_code k size_check_texts msg_unknown_error) i
       else ret [])
     else ret ''input error'')"

text \<open>The local accounts of a user, by name.\<close>

definition account_map_request :: "'c net \<Rightarrow> string \<Rightarrow> string \<Rightarrow> string \<Rightarrow> ipc_req \<Rightarrow> ('c, string) cprog" where
  "account_map_request k route failure centre r =
     members_of k [ipc_accountName r] failure (\<lambda>memID.
     bnd getAccountID (\<lambda>admin.
     bnd (at_index memID 0) (\<lambda>i.
     ask_manager k route (serialize k ser_AdminAccountMap
       \<lparr>aam_adgvdsID = admin, aam_gvdsID = i, aam_hostCenterName = centre\<rparr>))))"

definition doadcam :: "'c net \<Rightarrow> ipc_req \<Rightarrow> ('c, string) cprog" where
  "doadcam k r = account_map_request k ''/users/adcam'' msg_no_account (ipc_centerName r) r"

definition doaduam :: "'c net \<Rightarrow> ipc_req \<Rightarrow> ('c, string) cprog" where
  "doaduam k r = account_map_request k ''/users/aduam'' msg_no_account (ipc_centerName r) r"

definition doadsearcham :: "'c net \<Rightarrow> ipc_req \<Rightarrow> ('c, string) cprog" where
  "doadsearcham k r = account_map_request k ''/users/adsearcham'' ''-1'' [] r"

definition doadseepool :: "'c net \<Rightarrow> ipc_req \<Rightarrow> ('c, string) cprog" where
  "doadseepool k r = bnd getAccountID (\<lambda>i. ask_manager k ''/users/adsearchpool'' i)"

definition doadauthsearch :: "'c net \<Rightarrow> ipc_req \<Rightarrow> ('c, string) cprog" where
  "doadauthsearch k r =
     members_of k [ipc_accountName r] ''-1'' (\<lambda>memID. bnd (at_index memID 0) (\<lambda>i. ask_manager k ''/auth/search'' i))"

definition doadauthmodify :: "'c net \<Rightarrow> ipc_req \<Rightarrow> ('c, string) cprog" where
  "doadauthmodify k r =
     members_of k [ipc_accountName r] msg_no_account (\<lambda>memID.
     bnd (at_index memID 0) (\<lambda>i. bnd (auth_request k i r) (\<lambda>res. ret (auth_answer res))))"

section \<open>The choice of the command\<close>

definition ipc_commands :: "(string \<times> ('c net \<Rightarrow> ipc_req \<Rightarrow> ('c, string) cprog)) list" where
  "ipc_commands =
     [(''spacerename'', dospacerename), (''spacerename_admin'', dospacerename_admin),
      (''spacesizechange'', dospacesizechange), (''spaceusage'', dospaceusage),
      (''spaceusage_admin'', dospaceusage_admin), (''mapadd'', domapadd), (''mapdeduct'', domapdeduct),
      (''mapdeduct_admin'', domapdeduct_admin), (''zoneadd_admin'', dozoneadd_admin), (''zonecancel'', dozonecancel),
      (''zonecancel_admin'', dozonecancel_admin), (''zoneregister'', dozoneregister), (''zonerename'', dozonerename),
      (''zonerename_admin'', dozonerename_admin), (''zoneshare'', dozoneshare),
      (''zoneshare_admin'', dozoneshare_admin), (''zonesharecancel'', dozonesharecancel),
      (''zonesharecancel_admin'', dozonesharecancel_admin), (''zonelist'', dozonelist),
      (''zonelist_admin'', dozonelist_admin), (''userlogin'', douserlogin), (''usersearch'', dousersearch),
      (''usersignup'', dousersignup), (''usermodify'', dousermodify), (''userexit'', douserexit),
      (''usercancel'', dousercancel), (''authsearch'', doauthsearch), (''authmodify'', doauthmodify),
      (''modifycenter'', domodifycenter), (''searchcenter'', dosearchcenter), (''deletecenter'', dodeletecenter),
      (''adminsignup'', doadminsignup), (''listapply'', dolistapply), (''suggestion'', dosuggestion),
      (''adcam'', doadcam), (''aduam'', doaduam), (''adsearcham'', doadsearcham), (''adseepool'', doadseepool),
      (''adauthsearch'', doadauthsearch), (''adauthmodify'', doadauthmodify),
      (''resourceregister'', doresourceregister), (''resourcedelete'', doresourcedelete),
      (''resourcequery'', doresourcequery), (''resourceupdate'', doresourceupdate),
      (''spacereplica'', dospacereplica)]"

definition do_command :: "'c net \<Rightarrow> ipc_req \<Rightarrow> ('c, string) cprog" where
  "do_command k r = (case map_of ipc_commands (ipc_cmdname r) of Some f \<Rightarrow> f k r | None \<Rightarrow> ret msg_unsupported)"

text \<open>What the session of \<open>common/ipc\<close> calls for every message.\<close>

definition ipc_process :: "'c net \<Rightarrow> string \<Rightarrow> ('c, string) cprog" where
  "ipc_process k cmdlinereq = do_command k (load k des_IPCreq cmdlinereq (new_IPCreq k))"

end
