(* ===== verification/Ipc_Message.thy ===== *)
theory Ipc_Message
  imports Prelude
begin

text \<open>
  The messages between the client and its command line programs: \<open>common/ipc/IPCMessage.hpp\<close>, the session of
  \<open>common/ipc/IPCServer.cc\<close> and the reader of \<open>common/ipc/IPCClient.cc\<close>. A message is four characters with the
  length of the body in decimal, then the body.
\<close>

section \<open>Messages\<close>

abbreviation (input) header_length :: nat where "header_length \<equiv> 4"
abbreviation (input) max_body_length :: nat where "max_body_length \<equiv> 1048576"

text \<open>\<open>body_length(new_length)\<close>: a longer body is cut.\<close>

definition set_body_length :: "nat \<Rightarrow> nat" where
  "set_body_length n = min n max_body_length"

text \<open>\<open>%4d\<close> pads on the left and prints as many digits as there are.\<close>

definition sprintf_4d :: "nat \<Rightarrow> string" where
  "sprintf_4d n = (let ds = nat_dec n in replicate (4 - length ds) CHR '' '' @ ds)"

text \<open>The text is printed into an array of five characters, one of them the terminating NUL.\<close>

definition encode_header :: "nat \<Rightarrow> ('w, string) prog" where
  "encode_header n =
     (let header = sprintf_4d n in if length header > header_length then crash Out_Of_Range else ret header)"

definition make_message_by_charstring :: "string \<Rightarrow> ('w, string) prog" where
  "make_message_by_charstring str =
     (let body = take (set_body_length (length (cstr str))) (cstr str) in
      bnd (encode_header (length body)) (\<lambda>header. ret (header @ body)))"

text \<open>\<open>atoi\<close>: white space, a sign, digits; what follows is not looked at.\<close>

definition is_space :: "char \<Rightarrow> bool" where
  "is_space c \<longleftrightarrow> c = CHR '' '' \<or> (9 \<le> (of_char c :: nat) \<and> (of_char c :: nat) \<le> 13)"

definition digit_of :: "char \<Rightarrow> nat option" where
  "digit_of c = (let n = of_char c in if 48 \<le> n \<and> n \<le> 57 then Some (n - 48) else None)"

fun read_digits :: "nat \<Rightarrow> string \<Rightarrow> nat" where
  "read_digits n [] = n"
| "read_digits n (c # cs) = (case digit_of c of None \<Rightarrow> n | Some d \<Rightarrow> read_digits (10 * n + d) cs)"

definition atoi :: "string \<Rightarrow> int" where
  "atoi s =
     (case dropWhile is_space s of
        c # cs \<Rightarrow>
          if c = CHR ''-'' then - int (read_digits 0 cs)
          else if c = CHR ''+'' then int (read_digits 0 cs)
          else int (read_digits 0 (c # cs))
      | [] \<Rightarrow> 0)"

text \<open>
  A negative number becomes a huge one when it is assigned to \<open>size_t\<close>; four characters cannot hold a number
  above the maximum.
\<close>

definition decode_header :: "string \<Rightarrow> nat option" where
  "decode_header header =
     (let n = atoi (cstr (take header_length header)) in
      if n < 0 \<or> n > int max_body_length then None else Some (nat n))"

section \<open>Sessions\<close>

text \<open>
  A session reads messages until the peer is gone or a header is not accepted. Each message is processed
  before the next one is read, and its answer is queued for writing; the value is the list of messages written.
\<close>

function session_run :: "(string \<Rightarrow> ('w, string) prog) \<Rightarrow> string \<Rightarrow> ('w, string list) prog" where
  "session_run process stream =
     (if length stream < header_length then ret []
      else
        (case decode_header (take header_length stream) of
           None \<Rightarrow> ret []
         | Some n \<Rightarrow>
             let rest = drop header_length stream in
             if length rest < n then ret []
             else
               bnd (process (take n rest)) (\<lambda>answer.
               bnd (make_message_by_charstring answer) (\<lambda>m.
               bnd (session_run process (drop n rest)) (\<lambda>ms. ret (m # ms))))))"
  by pat_completeness auto
termination by (relation "measure (\<lambda>(p, stream). length stream)") auto

declare session_run.simps [simp del]

text \<open>The program on the other side hands each message it has read to its callback.\<close>

function read_messages :: "string \<Rightarrow> string list" where
  "read_messages stream =
     (if length stream < header_length then []
      else
        (case decode_header (take header_length stream) of
           None \<Rightarrow> []
         | Some n \<Rightarrow>
             let rest = drop header_length stream in
             if length rest < n then [] else take n rest # read_messages (drop n rest)))"
  by pat_completeness auto
termination by (relation "measure length") auto

declare read_messages.simps [simp del]

section \<open>Headers\<close>

lemma digit_of_char [simp]: "d < 10 \<Longrightarrow> digit_of (char_of (48 + d)) = Some d"
  by (simp add: digit_of_def Let_def of_char_of)

lemma nat_dec_are_digits: "set (nat_dec n) \<subseteq> (\<lambda>d. char_of (48 + d)) ` {d. d < (10::nat)}"
  by (induction n rule: nat_dec.induct) (subst nat_dec.simps, auto)

lemma read_nat_dec: "read_digits k (nat_dec n) = k * 10 ^ length (nat_dec n) + n"
proof (induction n arbitrary: k rule: nat_dec.induct)
  case (1 n)
  have app: "read_digits k (ds @ [char_of (48 + d)]) = 10 * read_digits k ds + d"
    if "set ds \<subseteq> (\<lambda>d. char_of (48 + d)) ` {d. d < (10::nat)}" "d < 10" for ds k d
    using that by (induction ds arbitrary: k) auto
  show ?case
  proof (cases "n < 10")
    case True
    then show ?thesis by (simp add: nat_dec.simps [of n])
  next
    case False
    have "nat_dec n = nat_dec (n div 10) @ [char_of (48 + n mod 10)]" using False by (subst nat_dec.simps) simp
    then show ?thesis using app [OF nat_dec_are_digits [of "n div 10"], of "n mod 10" k] 1 [OF False, of k] by simp
  qed
qed

lemma length_nat_dec: "length (nat_dec n) \<le> Suc d \<longleftrightarrow> n < 10 ^ Suc d"
proof (induction d arbitrary: n)
  case 0
  show ?case by (subst nat_dec.simps) (auto simp: nat_dec.simps [of "n div 10"])
next
  case (Suc d)
  show ?case
  proof (cases "n < 10")
    case True
    then have "n < 10 ^ Suc (Suc d)" by (simp add: less_le_trans [of n 10])
    then show ?thesis using True by (simp add: nat_dec.simps [of n])
  next
    case False
    have "length (nat_dec n) = Suc (length (nat_dec (n div 10)))" using False by (subst nat_dec.simps) simp
    then show ?thesis using Suc [of "n div 10"] by (auto simp: less_mult_imp_div_less div_less_iff_less_mult)
  qed
qed

lemma nat_dec_first:
  obtains d cs where "nat_dec n = char_of (48 + d) # cs" "d < (10::nat)"
proof -
  have "nat_dec n \<noteq> []" by (subst nat_dec.simps) simp
  then obtain c cs where eq: "nat_dec n = c # cs" by (cases "nat_dec n") auto
  with nat_dec_are_digits [of n] obtain d where "c = char_of (48 + d)" "d < (10::nat)" by auto
  with eq that show ?thesis by blast
qed

lemma of_char_digit: "d < (10::nat) \<Longrightarrow> of_char (char_of (48 + d) :: char) = 48 + d"
  by (simp add: of_char_of)

lemma not_space_digit [simp]:
  assumes "d < (10::nat)"
  shows "\<not> is_space (char_of (48 + d))" "char_of (48 + d) \<noteq> CHR ''-''"
    "char_of (48 + d) \<noteq> CHR ''+''" "char_of (48 + d) \<noteq> CHR 0x00"
proof -
  have ne: "char_of (48 + d) \<noteq> c" if "of_char c < (48::nat)" for c
    using of_char_digit [OF assms] that by (metis not_add_less1)
  show "\<not> is_space (char_of (48 + d))" using ne assms by (simp add: is_space_def)
  show "char_of (48 + d) \<noteq> CHR ''-''" "char_of (48 + d) \<noteq> CHR ''+''" "char_of (48 + d) \<noteq> CHR 0x00"
    by (rule ne, simp)+
qed

lemma drop_blanks: "dropWhile is_space (replicate k CHR '' '' @ ds) = dropWhile is_space ds"
  by (induction k) (simp_all add: is_space_def)

lemma atoi_sprintf_4d: "atoi (sprintf_4d n) = int n"
proof -
  obtain d cs where eq: "nat_dec n = char_of (48 + d) # cs" "d < (10::nat)" by (rule nat_dec_first)
  have "dropWhile is_space (sprintf_4d n) = nat_dec n"
    using eq by (simp add: sprintf_4d_def Let_def drop_blanks)
  then show ?thesis using eq read_nat_dec [of 0 n] by (simp add: atoi_def)
qed

lemma nul_free_sprintf_4d: "nul_free (sprintf_4d n)"
  using nat_dec_are_digits [of n] not_space_digit(4) by (fastforce simp: sprintf_4d_def nul_free_def Let_def)

text \<open>What the header can hold: lengths of at most four digits.\<close>

lemma length_sprintf_4d: "length (sprintf_4d n) \<le> 4 \<longleftrightarrow> n \<le> 9999"
  using length_nat_dec [of n 3] by (auto simp: sprintf_4d_def Let_def)

lemma length_sprintf_4d_eq: "n \<le> 9999 \<Longrightarrow> length (sprintf_4d n) = 4"
  using length_nat_dec [of n 3] by (auto simp: sprintf_4d_def Let_def)

lemma decode_encoded: "n \<le> 9999 \<Longrightarrow> decode_header (sprintf_4d n) = Some n"
  by (simp add: decode_header_def cstr_id nul_free_sprintf_4d length_sprintf_4d_eq atoi_sprintf_4d)

section \<open>Messages and answers\<close>

text \<open>A text that a message can carry.\<close>

definition fits :: "string \<Rightarrow> bool" where
  "fits t \<longleftrightarrow> nul_free t \<and> length t \<le> 9999"

definition message_of :: "string \<Rightarrow> string" where
  "message_of t = sprintf_4d (length t) @ t"

text \<open>One text after the other is processed.\<close>

primrec run_all :: "('a \<Rightarrow> ('w, 'b) prog) \<Rightarrow> 'a list \<Rightarrow> ('w, 'b list) prog" where
  "run_all f [] = ret []"
| "run_all f (r # rs) = bnd (f r) (\<lambda>a. bnd (run_all f rs) (\<lambda>as. ret (a # as)))"

lemma make_message_cstr:
  "length (cstr t) \<le> 9999 \<Longrightarrow> make_message_by_charstring t = ret (message_of (cstr t))"
  using length_sprintf_4d_eq [of "length (cstr t)"]
  by (simp add: make_message_by_charstring_def encode_header_def message_of_def set_body_length_def Let_def
      bnd_def ret_def fun_eq_iff)

lemma make_message_fits: "fits t \<Longrightarrow> make_message_by_charstring t = ret (message_of t)"
  by (simp add: make_message_cstr fits_def cstr_id)

lemma make_message_long:
  assumes "length (cstr t) > 9999"
  shows "make_message_by_charstring t = crash Out_Of_Range"
proof -
  have "\<not> length (sprintf_4d (min (length (cstr t)) max_body_length)) \<le> 4"
    using assms by (simp only: length_sprintf_4d)
  then show ?thesis
    by (simp add: make_message_by_charstring_def encode_header_def set_body_length_def Let_def
        bnd_def crash_def fun_eq_iff)
qed

lemma run_all_messages: "list_all fits ts \<Longrightarrow> run_all make_message_by_charstring ts = ret (map message_of ts)"
  by (induction ts) (simp_all add: make_message_fits bnd_def ret_def fun_eq_iff)

text \<open>The first message of a stream.\<close>

lemma session_first:
  assumes "fits t"
  shows "session_run f (message_of t @ stream) =
    bnd (f t) (\<lambda>answer. bnd (make_message_by_charstring answer) (\<lambda>m.
    bnd (session_run f stream) (\<lambda>ms. ret (m # ms))))"
  using assms
  by (subst session_run.simps)
    (simp add: message_of_def fits_def length_sprintf_4d_eq decode_encoded)

lemma read_first: "length t \<le> 9999 \<Longrightarrow> read_messages (message_of t @ stream) = t # read_messages stream"
  by (subst read_messages.simps) (simp add: message_of_def length_sprintf_4d_eq decode_encoded)

lemma read_none [simp]: "read_messages [] = []"
  by (subst read_messages.simps) simp

lemma session_none [simp]: "session_run f [] = ret []"
  by (subst session_run.simps) simp

lemma read_messages_of:
  "list_all (\<lambda>t. length t \<le> 9999) ts \<Longrightarrow> read_messages (concat (map message_of ts)) = ts"
  by (induction ts) (simp_all add: read_first)

lemma session_messages:
  assumes "list_all fits rs" and "run_all f rs w = (Val answers, w')"
    and "list_all (\<lambda>a. length (cstr a) \<le> 9999) answers"
  shows "session_run f (concat (map message_of rs)) w = (Val (map (\<lambda>a. message_of (cstr a)) answers), w')"
  using assms
proof (induction rs arbitrary: w answers)
  case Nil
  then show ?case by (simp add: ret_def)
next
  case (Cons r rs)
  then obtain a v as where f: "f r w = (Val a, v)" and rest: "run_all f rs v = (Val as, w')" and eq: "answers = a # as"
    by (auto simp: bnd_def ret_def split: prod.splits outcome.splits)
  with Cons show ?case by (simp add: session_first make_message_cstr bnd_def ret_def)
qed

text \<open>C17: requests that a command line program sends over one connection are answered in their order: what it reads
  back are the texts that processing the requests one after the other gives, up to their first NUL, and the
  service is left in the same state. Requests and answers are at most 9999 bytes.\<close>

theorem session_answers_in_order:
  assumes "list_all fits requests" and "run_all process requests w = (Val answers, w')"
    and "list_all (\<lambda>a. length (cstr a) \<le> 9999) answers"
  shows "\<exists>sent written. run_all make_message_by_charstring requests w = (Val sent, w) \<and>
    session_run process (concat sent) w = (Val written, w') \<and>
    read_messages (concat written) = map cstr answers"
proof -
  have "list_all (\<lambda>t. length t \<le> 9999) (map cstr answers)" using assms(3) by (simp add: list_all_iff)
  then have "read_messages (concat (map (\<lambda>a. message_of (cstr a)) answers)) = map cstr answers"
    using read_messages_of [of "map cstr answers"] by (simp add: comp_def)
  moreover have "run_all make_message_by_charstring requests w = (Val (map message_of requests), w)"
    by (simp add: run_all_messages [OF assms(1)] ret_def)
  ultimately show ?thesis using session_messages [OF assms] by blast
qed

definition sample_process :: "string \<Rightarrow> (nat, string) prog" where
  "sample_process t = (\<lambda>n. (Val (t @ nat_dec n), Suc n))"

lemma session_answers_in_order_witness:
  "\<exists>sent written. run_all make_message_by_charstring [''list'', []] (1::nat) = (Val sent, 1) \<and>
    session_run sample_process (concat sent) 1 = (Val written, 3) \<and> read_messages (concat written) = [''list1'', ''2'']"
proof -
  have "run_all sample_process [''list'', []] 1 = (Val [''list1'', ''2''], 3)"
    by (simp add: sample_process_def bnd_def ret_def nat_dec.simps char_of_def bit_Suc_0_iff)
  then show ?thesis
    using session_answers_in_order [of "[''list'', []]" sample_process 1 "[''list1'', ''2'']" 3]
    by (simp add: fits_def nul_free_def cstr_def)
qed

text \<open>An answer of ten thousand bytes or more overruns the array that its header is printed into, although bodies
  of a megabyte are allowed: listing many zones is enough to end the client.\<close>

theorem long_answer_overruns:
  assumes "fits request" and "process request w = (Val answer, w')" and "length (cstr answer) > 9999"
  shows "session_run process (message_of request @ stream) w = (Crash Out_Of_Range, w')"
  using assms by (simp add: session_first make_message_long bnd_def crash_def)

lemma long_answer_overruns_witness:
  "session_run (\<lambda>t. ret (replicate 10000 CHR ''z'')) (message_of ''zonelist'') () = (Crash Out_Of_Range, ())"
proof -
  have z: "cstr (replicate n CHR ''z'') = replicate n CHR ''z''" for n by (simp add: cstr_id nul_free_def)
  show ?thesis
    using long_answer_overruns [of "''zonelist''" "\<lambda>t. ret (replicate 10000 CHR ''z'')" "()" _ "()" "[]"]
    by (simp add: fits_def nul_free_def ret_def z del: replicate_Suc)
qed

end
