(* ===== verification/Ipc_Props.thy ===== *)
theory Ipc_Props
  imports Ipc_Account Ipc_Message Sample_World
begin

text \<open>
  What the commands of the client do: how they reach the client, who may give them, what is asked of the manager,
  and what is answered.
\<close>

section \<open>The manager of a client\<close>

text \<open>\<open>e\<close> is the manager that the client sends its requests to.\<close>

definition managed :: "string \<Rightarrow> 'c client \<Rightarrow> bool" where
  "managed e s \<longleftrightarrow> \<not> node_locked s \<and> buf_delay s \<noteq> [] \<and> node_url (hd (buf_delay s)) = e"

lemma get_manager_at: "managed e s \<Longrightarrow> get_manager s = (Val e, s)"
  by (cases "buf_delay s") (auto simp: managed_def get_manager_def getNode_def bnd_def asks_def ret_def)

lemma wp_get_manager: "managed e s \<Longrightarrow> wp get_manager Q s = Q (Val e) s"
  by (simp add: wp_def get_manager_at)

lemma managed_env [simp]: "managed e (s\<lparr>net_env := w\<rparr>) = managed e s"
  by (simp add: managed_def)

lemma managed_zones [simp]: "managed e (s\<lparr>ipc_zonemap := m\<rparr>) = managed e s"
  by (simp add: managed_def)

text \<open>What the manager answers to a request, and the outside afterwards.\<close>

definition posted :: "'c net \<Rightarrow> string \<Rightarrow> string \<Rightarrow> 'c client \<Rightarrow> http_result \<times> 'c" where
  "posted k url data s = net_post k url (mtoken s) data (net_env s)"

lemma wp_post:
  "wp (post_request k e url data) Q s =
    Q (Val (rest_answer (fst (posted k (e @ url) data s)))) (s\<lparr>net_env := snd (posted k (e @ url) data s)\<rparr>)"
  by (simp add: post_request_def getToken_def posted_def split: prod.splits)

lemma post_at:
  "post_request k e url data s =
    (Val (rest_answer (fst (posted k (e @ url) data s))), s\<lparr>net_env := snd (posted k (e @ url) data s)\<rparr>)"
  by (simp add: post_request_def getToken_def posted_def bnd_def asks_def outside_def ret_def split: prod.splits)

lemma wp_ask_manager:
  "managed e s \<Longrightarrow> wp (ask_manager k url data) Q s = wp (post_request k e url data) Q s"
  by (simp add: ask_manager_def wp_get_manager)

lemma wp_then: "wp (bnd m f) Q s = wp m (\<lambda>r s. case r of Val a \<Rightarrow> wp (f a) Q s | Crash c \<Rightarrow> Q (Crash c) s) s"
  by simp

section \<open>From the command line to the command\<close>

text \<open>A command line program that writes its request into a message gets back, in one message, what the command
  answers to exactly that request; the request and the answer must fit a message.\<close>

theorem command_line_reaches_command:
  assumes "json_law k" and "wf_IPCreq r" and "fits (serialize k ser_IPCreq r)"
    and "do_command k r s = (Val answer, s')" and "length (cstr answer) \<le> 9999"
  shows "\<exists>written. session_run (ipc_process k) (message_of (serialize k ser_IPCreq r)) s = (Val written, s') \<and>
    read_messages (concat written) = [cstr answer]"
proof -
  have "run_all (ipc_process k) [serialize k ser_IPCreq r] s = (Val [answer], s')"
    using assms(4) by (simp add: ipc_process_def IPCreq_json.load_roundtrip [OF assms(1,2)] bnd_def ret_def)
  from session_messages [OF _ this] assms(3,5) show ?thesis
    using read_first [OF assms(5), of "[]"] by simp
qed

text \<open>A network that is never answered, with the JSON library of Sample_World, and a request for the list of zones.\<close>

definition sample_net :: "'c net" where
  "sample_net = dead_net\<lparr>rj_write := mem_write, rj_parse := mem_parse\<rparr>"

lemma sample_net_sel [simp]:
  "rj_write sample_net = mem_write" "rj_parse sample_net = mem_parse" "ud_int sample_net = 0" "ud_i64 sample_net = 0"
  "net_post sample_net u t d e = (Rejected, e)"
  by (simp_all add: sample_net_def dead_net_def)

lemma sample_net_law: "json_law sample_net"
  by (simp add: json_law_def mem_parse_write)

definition list_request :: ipc_req where
  "list_request = (new_IPCreq (sample_net :: unit net))\<lparr>ipc_cmdname := ''zonelist''\<rparr>"

lemma wf_list_request: "wf_IPCreq list_request"
  by (simp add: list_request_def new_IPCreq_def wf_IPCreq_def nul_free_def in_i32_def in_i64_def)

lemma fits_list_request: "fits (serialize sample_net ser_IPCreq list_request)"
proof -
  have bits: "length (enc_bits 0) = 1" "length (enc_bits (Suc 0)) = 2"
    by (simp_all add: enc_bits.simps)
  show ?thesis
    by (simp add: fits_def serialize_def cstr_id nul_free_def mem_write_nul_free)
      (simp add: ser_IPCreq_def list_request_def new_IPCreq_def enc_str_def enc_int_def enc_vec_def
        mem_write.simps bits)
qed

lemma command_line_reaches_command_witness:
  "\<exists>written. session_run (ipc_process sample_net) (message_of (serialize (sample_net :: unit net) ser_IPCreq list_request))
     (new_client ()) = (Val written, new_client ()) \<and> read_messages (concat written) = [''login first'']"
proof -
  have "do_command sample_net list_request (new_client ()) = (Val ''login first'', new_client ())"
    by (simp add: do_command_def list_request_def ipc_commands_def dozonelist_def logged_in_def getAccountID_def
        new_client_def bnd_def asks_def ret_def)
  then show ?thesis
    using command_line_reaches_command [OF sample_net_law wf_list_request fits_list_request, of "new_client ()"]
    by (simp add: cstr_def)
qed

section \<open>Who may give a command\<close>

text \<open>The commands on one's own zones and spaces.\<close>

definition own_commands :: "('c net \<Rightarrow> ipc_req \<Rightarrow> ('c, string) cprog) list" where
  "own_commands = [dospacerename, dospacesizechange, dospaceusage, domapadd, domapdeduct, dozonecancel, dozoneregister,
     dozonerename, dozoneshare, dozonesharecancel, dozonelist]"

lemmas own_command_defs = dospacerename_def dospacesizechange_def dospaceusage_def domapadd_def domapdeduct_def
  dozonecancel_def dozoneregister_def dozonerename_def dozoneshare_def dozonesharecancel_def dozonelist_def

text \<open>Before anybody has logged in, the commands on one's own zones and spaces ask nothing of the manager and change
  nothing. Logging out does not bring that back: the client then acts for the account \<open>200\<close>, for which the next
  command asks.\<close>

theorem logging_out_leaves_an_account:
  "(\<forall>f \<in> set own_commands. accountID s = [] \<longrightarrow> f k r s = (Val ''login first'', s)) \<and>
   (managed e s \<and> ipc_accountName r = accountName s \<and>
      net_get k (e @ ''/users/exit/'' @ accountID s) (mtoken s) (net_env s) = (Answered ''0'', w) \<longrightarrow>
    wp (bnd (douserexit k r) (\<lambda>_. dozonelist k r')) (\<lambda>a s'.
      a = Val (rest_answer (fst (net_post k (e @ ''/zone/info'') (mtoken s) ''200'' w))) \<and>
      net_env s' = snd (net_post k (e @ ''/zone/info'') (mtoken s) ''200'' w) \<and> accountID s' = ''200'') s)"
proof (intro conjI impI)
  show "\<forall>f \<in> set own_commands. accountID s = [] \<longrightarrow> f k r s = (Val ''login first'', s)"
    by (simp add: own_commands_def own_command_defs logged_in_def getAccountID_def bnd_def asks_def ret_def)
next
  assume *: "managed e s \<and> ipc_accountName r = accountName s \<and>
    net_get k (e @ ''/users/exit/'' @ accountID s) (mtoken s) (net_env s) = (Answered ''0'', w)"
  then have m: "managed e s" "managed e (s\<lparr>net_env := w, accountName := ''100'', accountID := ''200''\<rparr>)"
    by (simp_all add: managed_def)
  show "wp (bnd (douserexit k r) (\<lambda>_. dozonelist k r')) (\<lambda>a s'.
      a = Val (rest_answer (fst (net_post k (e @ ''/zone/info'') (mtoken s) ''200'' w))) \<and>
      net_env s' = snd (net_post k (e @ ''/zone/info'') (mtoken s) ''200'' w) \<and> accountID s' = ''200'') s"
    using *
    by (simp add: douserexit_def for_account_def getAccountName_def getAccountID_def get_manager_text_def
        get_request_def getToken_def setAccountName_def setAccountID_def dozonelist_def logged_in_def
        wp_get_manager [OF m(1)] wp_ask_manager [OF m(2)] wp_post posted_def rest_answer_def)
qed

text \<open>An account that logs out on a network whose manager answers every request with \<open>0\<close> and counts them.\<close>

definition node_1 :: centre_node where
  "node_1 = \<lparr>cn_location = ''Beijing'', cn_ip_addr = ''h'', cn_port = ''1'', cn_center_id = ''1''\<rparr>"

definition counting_net :: "string \<Rightarrow> nat net" where
  "counting_net answer = sample_net\<lparr>net_get := \<lambda>u t n. (Answered answer, Suc n), net_post := \<lambda>u t d n. (Answered answer, Suc n)\<rparr>"

definition bob_client :: "'c \<Rightarrow> 'c client" where
  "bob_client w = (new_client w)\<lparr>accountName := ''bob'', accountID := ''u1'', buf_delay := [node_1]\<rparr>"

lemma managed_bob [simp]: "managed ''http://h:1'' (bob_client w)"
  by (simp add: managed_def bob_client_def new_client_def node_1_def node_url_def cstr_def snprintf_n_def)

lemma bob_client_sel [simp]:
  "accountName (bob_client w) = ''bob''" "accountID (bob_client w) = ''u1''" "mtoken (bob_client w) = ''1''"
  "net_env (bob_client w) = w" "apply_id_data (bob_client w) = []"
  by (simp_all add: bob_client_def new_client_def)

lemma logging_out_leaves_an_account_witness:
  "dozonelist (counting_net ''0'') list_request (new_client 0) = (Val ''login first'', new_client 0) \<and>
   wp (bnd (douserexit (counting_net ''0'') (list_request\<lparr>ipc_accountName := ''bob''\<rparr>))
      (\<lambda>_. dozonelist (counting_net ''0'') list_request))
     (\<lambda>a s'. a = Val ''0'' \<and> net_env s' = 2 \<and> accountID s' = ''200'') (bob_client 0)"
proof -
  have "\<forall>f \<in> set own_commands. accountID (new_client (0::nat)) = [] \<longrightarrow>
      f (counting_net ''0'') list_request (new_client 0) = (Val ''login first'', new_client 0)"
    by (rule conjunct1 [OF logging_out_leaves_an_account])
  then have "dozonelist (counting_net ''0'') list_request (new_client 0) = (Val ''login first'', new_client 0)"
    by (simp add: own_commands_def new_client_def)
  moreover from logging_out_leaves_an_account [where s = "bob_client 0" and k = "counting_net ''0''" and
      e = "''http://h:1''" and w = 1 and r = "list_request\<lparr>ipc_accountName := ''bob''\<rparr>" and r' = list_request]
  have "wp (bnd (douserexit (counting_net ''0'') (list_request\<lparr>ipc_accountName := ''bob''\<rparr>))
      (\<lambda>_. dozonelist (counting_net ''0'') list_request))
     (\<lambda>a s'. a = Val ''0'' \<and> net_env s' = 2 \<and> accountID s' = ''200'') (bob_client 0)"
    by (simp add: counting_net_def rest_answer_def numeral_2_eq_2 del: wp_bnd)
  ultimately show ?thesis by blast
qed

section \<open>Deciding applications\<close>

text \<open>Approving an application takes it from the manager's list whatever came of it: the last request that the
  manager gets is to remove it, and nothing that was answered before decides that. What is approved is the
  text that the client has kept for the identifier, the empty text when it has none.\<close>

theorem approval_removes_the_application:
  assumes "managed e s" and "ipc_sug r = ''agree''"
    and "(take 5 (ipc_applyid r), route) \<in> set [(''usign'', ''/users/registration''), (''zregi'', ''/zone/registercheck''),
      (''spadd'', ''/zone/mapaddcheck''), (''spsiz'', ''/space/changesize'')]"
  shows "wp (dosuggestion k r) (\<lambda>a s'. (\<exists>text. a = Val text) \<and>
    net_env s' = snd (net_post k (e @ ''/users/removeapply'') (mtoken s) (ipc_applyid r)
      (snd (net_post k (e @ route) (mtoken s) (smap_at [] (apply_id_data s) (ipc_applyid r)) (net_env s))))) s"
  using assms(2,3)
  by (auto simp: dosuggestion_def wp_get_manager [OF assms(1)] getApply_def approve_def wp_post posted_def Let_def)

lemma approval_removes_the_application_witness:
  "wp (dosuggestion (counting_net ''28'') (list_request\<lparr>ipc_sug := ''agree'', ipc_applyid := ''spsiz-7''\<rparr>))
    (\<lambda>a s'. net_env s' = 2) (bob_client 0)"
  by (rule wp_mono [OF approval_removes_the_application [where e = "''http://h:1''" and route = "''/space/changesize''"]])
    (simp_all add: counting_net_def)

section \<open>The zone of a command\<close>

text \<open>The manager answers \<open>zs\<close> when the client asks it for the zones of \<open>u\<close>; of several zones of one name the
  client means the last one.\<close>

definition zones_answered :: "'c net \<Rightarrow> string \<Rightarrow> string \<Rightarrow> 'c client \<Rightarrow> zone list \<Rightarrow> bool" where
  "zones_answered k e u s zs \<longleftrightarrow> zs \<noteq> [] \<and>
     (\<exists>text. fst (posted k (e @ ''/zone/info'') u s) = Answered text \<and> text \<noteq> [] \<and> decode_zones k text = Val zs)"

definition last_zone :: "zone list \<Rightarrow> string \<Rightarrow> zone option" where
  "last_zone zs n = find (\<lambda>z. z_zoneName z = n) (rev zs)"

definition zone_table :: "zone list \<Rightarrow> (string \<times> zone) list" where
  "zone_table zs = foldl (\<lambda>m z. AList.update (z_zoneName z) z m) [] zs"

lemma map_of_zone_table: "map_of (zone_table zs) n = last_zone zs n"
proof (induction zs rule: rev_induct)
  case (snoc z zs)
  then show ?case by (simp add: zone_table_def last_zone_def update_conv')
qed (simp add: zone_table_def last_zone_def)

definition after_zones :: "'c net \<Rightarrow> string \<Rightarrow> string \<Rightarrow> 'c client \<Rightarrow> zone list \<Rightarrow> 'c client" where
  "after_zones k e u s zs = s\<lparr>net_env := snd (posted k (e @ ''/zone/info'') u s), ipc_zonemap := zone_table zs\<rparr>"

lemma managed_after [simp]: "managed e (after_zones k e' u s zs) = managed e s"
  by (simp add: managed_def after_zones_def)

lemma wp_with_zone:
  assumes m: "managed e s" and zs: "zones_answered k e u s zs" and z: "last_zone zs n = Some z"
  shows "wp (with_zone k u n f) Q s = wp (f z) Q (after_zones k e u s zs)"
proof -
  obtain t where t: "fst (posted k (e @ ''/zone/info'') u s) = Answered t" "t \<noteq> []"
    "decode_zones k t = Val zs" and ne: "zs \<noteq> []"
    using zs by (auto simp: zones_answered_def)
  show ?thesis
    using t ne z
    by (simp add: with_zone_def ipc_GetZoneInfo_def wp_ask_manager [OF m] wp_post rest_answer_def
        zone_table_def [symmetric] map_of_zone_table after_zones_def)
qed

text \<open>What a command that is given for an account does after it has found the zone.\<close>

lemma wp_logged_in: "accountID s \<noteq> [] \<Longrightarrow> wp (logged_in f) Q s = wp (f (accountID s)) Q s"
  by (simp add: logged_in_def getAccountID_def)

lemma first_named_some: "first_named n (map Some xs) = ret (find (\<lambda>x. sp_spaceName x = n) xs)"
  by (induction xs) (simp_all add: bnd_def ret_def deref_def fun_eq_iff)

abbreviation space_of :: "space list \<Rightarrow> string \<Rightarrow> space option" where
  "space_of xs n \<equiv> find (\<lambda>x. sp_spaceName x = n) xs"

lemma ids_of_names_some:
  "ids_of_names (map Some xs) names ids = ret
    (case find (\<lambda>n. space_of xs n = None) names of
       Some n \<Rightarrow> Inl (msg_space_name @ n @ msg_is_missing)
     | None \<Rightarrow> Inr (ids @ map (\<lambda>n. sp_spaceID (the (space_of xs n))) names))"
  by (induction names arbitrary: ids) (auto simp: first_named_some bnd_def ret_def fun_eq_iff split: option.splits)

text \<open>C20: taking spaces out of a zone: when the zone has no space of one of the names, the answer says which name that
  is, the first one, and nothing more is asked of the manager; otherwise the manager is asked to take out
  exactly the spaces of these names, in their order, of the zone's spaces the first of each name.\<close>

theorem mapdeduct_takes_the_named_spaces:
  assumes "managed e s" and "accountID s \<noteq> []" and "zones_answered k e (accountID s) s zs"
    and "last_zone zs (ipc_zonename r) = Some z" and "z_spaceBicInfo z = map Some xs"
  shows "wp (domapdeduct k r) (\<lambda>a s'.
    case find (\<lambda>n. space_of xs n = None) (ipc_spacenames r) of
      Some n \<Rightarrow> a = Val (msg_space_name @ n @ msg_is_missing) \<and> s' = after_zones k e (accountID s) s zs
    | None \<Rightarrow> \<exists>ids. list_all2 (\<lambda>n i. \<exists>x. space_of xs n = Some x \<and> sp_spaceID x = i) (ipc_spacenames r) ids \<and>
        net_env s' = snd (posted k (e @ ''/zone/mapdeduct'') (serialize k ser_ZoneRequest
          ((new_ZoneRequest k)\<lparr>zr_zoneID := z_zoneID z, zr_ownerID := accountID s, zr_spaceID := ids\<rparr>))
          (after_zones k e (accountID s) s zs))) s"
proof (cases "find (\<lambda>n. space_of xs n = None) (ipc_spacenames r)")
  case None
  then have found: "\<exists>x. space_of xs n = Some x" if "n \<in> set (ipc_spacenames r)" for n
    using that None unfolding find_None_iff [of "\<lambda>n. space_of xs n = None"] by auto
  then have "list_all2 (\<lambda>n i. \<exists>x. space_of xs n = Some x \<and> sp_spaceID x = i) (ipc_spacenames r)
      (map (\<lambda>n. sp_spaceID (the (space_of xs n))) (ipc_spacenames r))"
    unfolding list_all2_map2 by (intro list.rel_refl_strong) (force dest: found)
  with None assms show ?thesis
    by (auto simp: domapdeduct_def wp_logged_in map_deduct_def wp_with_zone [OF assms(1,3,4)] with_ids_def
        ids_of_names_some wp_ask_manager [where e = e] wp_post)
next
  case (Some n)
  with assms show ?thesis
    by (simp add: domapdeduct_def wp_logged_in map_deduct_def wp_with_zone [OF assms(1,3,4)] with_ids_def
        ids_of_names_some)
qed

text \<open>What the client reads of the zones that the manager has written.\<close>

lemma zones_back:
  assumes law: "json_law k" and wf: "list_all wf_Zone zs"
  shows "decode_zones k (json_encode k (enc_vec enc_Zone) zs) = Val (map (\<lambda>z. carry_Zone z (new_Zone k)) zs)"
proof -
  have "plain (enc_vec enc_Zone zs)"
    using wf Zone_json.plain_ser by (auto simp: enc_vec_def enc_Zone_def list_all_iff)
  moreover have "dec_zones k (map enc_Zone zs) = Val (map (\<lambda>z. carry_Zone z (new_Zone k)) zs)"
    using wf by (induction zs) (simp_all add: enc_Zone_def Zone_json.value_roundtrip)
  ultimately show ?thesis
    by (simp add: decode_zones_def json_encode_def json_lawD [OF law] enc_vec_def)
qed

text \<open>A manager that lists one zone and answers every other request with the same text.\<close>

definition team_zone :: zone where
  "team_zone = sample_zone\<lparr>z_spaceBicInfo := [Some sample_space], z_contains_spaceinfo := True\<rparr>"

definition info_text :: string where
  "info_text = json_encode (sample_net :: unit net) (enc_vec enc_Zone) [team_zone]"

definition info_net :: "http_result \<Rightarrow> string list net" where
  "info_net answer = sample_net\<lparr>net_post := \<lambda>u t d ds.
     (if u = ''http://h:1/zone/info'' then Answered info_text else answer, ds @ [d])\<rparr>"

lemma info_net_sel [simp]:
  "rj_write (info_net a) = mem_write" "rj_parse (info_net a) = mem_parse"
  "ud_int (info_net a) = 0" "ud_i64 (info_net a) = 0"
  "net_post (info_net a) u t d ds =
    (if u = ''http://h:1/zone/info'' then Answered info_text else a, ds @ [d])"
  by (simp_all add: info_net_def)

lemma info_text_back: "decode_zones (info_net a) info_text = Val [team_zone]"
proof -
  have law: "json_law (info_net a)" by (simp add: json_law_def mem_parse_write)
  have "wf_Zone team_zone"
    using wf_samples(2) by (simp add: team_zone_def sample_zone_def wf_Zone_def nul_free_def in_i32_def)
  moreover have "info_text = json_encode (info_net a) (enc_vec enc_Zone) [team_zone]"
    by (simp add: info_text_def json_encode_def)
  moreover have "carry_Zone team_zone (new_Zone (info_net a)) = team_zone"
    by (simp add: carry_Zone_def new_Zone_def team_zone_def)
  ultimately show ?thesis using zones_back [OF law, of "[team_zone]"] by simp
qed

lemma bob_zones [simp]: "zones_answered (info_net a) ''http://h:1'' ''u1'' (bob_client ds) [team_zone]"
proof -
  have "info_text \<noteq> []"
    using mem_write_pos [of "enc_vec enc_Zone [team_zone]"] mem_write_nul_free [of "enc_vec enc_Zone [team_zone]"]
    by (simp add: info_text_def json_encode_def cstr_id nul_free_def)
  then show ?thesis by (simp add: zones_answered_def posted_def info_text_back)
qed

lemma team_zone_sel [simp]:
  "z_zoneID team_zone = ''z1''" "z_zoneName team_zone = ''lab''" "z_spaceBicInfo team_zone = map Some [sample_space]"
  by (simp_all add: team_zone_def)

lemma last_team [simp]: "last_zone [team_zone] ''lab'' = Some team_zone"
  by (simp add: last_zone_def)

lemma sample_space_sel2 [simp]: "sp_spaceName sample_space = ''home''" "sp_spaceID sample_space = ''p1''"
  by (simp_all add: sample_space_def)

lemma list_request_sel [simp]:
  "ipc_zonename (list_request\<lparr>ipc_zonename := n\<rparr>) = n" "ipc_spacenames list_request = []"
  by (simp_all add: list_request_def new_IPCreq_def)

lemma mapdeduct_takes_the_named_spaces_witness:
  "wp (domapdeduct (info_net (Answered ''n'')) (list_request\<lparr>ipc_zonename := ''lab'', ipc_spacenames := [''home'']\<rparr>))
    (\<lambda>a s'. net_env s' = [''u1'', serialize (info_net Rejected) ser_ZoneRequest
      ((new_ZoneRequest (info_net Rejected))\<lparr>zr_zoneID := ''z1'', zr_ownerID := ''u1'', zr_spaceID := [''p1'']\<rparr>)])
    (bob_client []) \<and>
   wp (domapdeduct (info_net (Answered ''n'')) (list_request\<lparr>ipc_zonename := ''lab'', ipc_spacenames := [''home'', ''x'']\<rparr>))
    (\<lambda>a s'. a = Val (msg_space_name @ ''x'' @ msg_is_missing)) (bob_client [])"
proof -
  let ?r = "list_request\<lparr>ipc_zonename := ''lab'', ipc_spacenames := [''home'']\<rparr>"
  let ?q = "list_request\<lparr>ipc_zonename := ''lab'', ipc_spacenames := [''home'', ''x'']\<rparr>"
  note claim = mapdeduct_takes_the_named_spaces [where e = "''http://h:1''" and s = "bob_client []"
      and k = "info_net (Answered ''n'')" and zs = "[team_zone]" and z = team_zone and xs = "[sample_space]"]
  have same: "new_ZoneRequest (info_net (Answered n)) = new_ZoneRequest (info_net Rejected)"
    "serialize (info_net (Answered n)) f x = serialize (info_net Rejected) f x" for n f and x :: zone_request
    by (simp_all add: new_ZoneRequest_def serialize_def)
  from claim [of ?r] have "wp (domapdeduct (info_net (Answered ''n'')) ?r)
    (\<lambda>a s'. net_env s' = [''u1'', serialize (info_net Rejected) ser_ZoneRequest
      ((new_ZoneRequest (info_net Rejected))\<lparr>zr_zoneID := ''z1'', zr_ownerID := ''u1'', zr_spaceID := [''p1'']\<rparr>)])
    (bob_client [])"
    by (simp add: list_all2_Cons1 posted_def after_zones_def same)
  moreover from claim [of ?q] have "wp (domapdeduct (info_net (Answered ''n'')) ?q)
    (\<lambda>a s'. a = Val (msg_space_name @ ''x'' @ msg_is_missing)) (bob_client [])"
    by (auto elim: wp_mono)
  ultimately show ?thesis by blast
qed

section \<open>Resizing\<close>

lemma in_i32_i32: "in_i32 (i32 x)"
  using signed_take_bit_int_greater_eq_minus_exp [of 31 x] signed_take_bit_int_less_exp [of 31 x]
  by (simp add: in_i32_def i32_def)

lemma i32_mod: "i32 x mod 2 ^ 32 = x mod 2 ^ 32"
  using take_bit_signed_take_bit [of 32 31 x] by (simp add: i32_def take_bit_eq_mod)

text \<open>The size of a space passes through 32 bits on its way to the manager: what is applied for is the size modulo
  two to the thirty-two, as a signed number, so a size is passed on exactly if it is below two to the
  thirty-one.\<close>

theorem sizechange_is_cut_to_32_bits:
  assumes "managed e s" and "accountID s \<noteq> []" and "zones_answered k e (accountID s) s zs"
    and "last_zone zs (ipc_zonename r) = Some z" and "z_spaceBicInfo z = map Some xs"
    and "space_of xs (ipc_spacename r) = Some x" and "sp_spaceID x \<noteq> []"
  shows "\<exists>applied. wp (dospacesizechange k r) (\<lambda>a s'. net_env s' =
      snd (posted k (e @ ''/space/changesizeapply'') (serialize k ser_SpaceRequest
        ((new_SpaceRequest k)\<lparr>sr_spaceID := sp_spaceID x, sr_newSpaceSize := applied\<rparr>))
        (after_zones k e (accountID s) s zs))) s \<and>
    applied mod 2 ^ 32 = ipc_newspacesize r mod 2 ^ 32 \<and> in_i32 applied \<and>
    (applied = ipc_newspacesize r \<longleftrightarrow> in_i32 (ipc_newspacesize r))"
proof (intro exI conjI)
  show "wp (dospacesizechange k r) (\<lambda>a s'. net_env s' =
      snd (posted k (e @ ''/space/changesizeapply'') (serialize k ser_SpaceRequest
        ((new_SpaceRequest k)\<lparr>sr_spaceID := sp_spaceID x, sr_newSpaceSize := i32 (ipc_newspacesize r)\<rparr>))
        (after_zones k e (accountID s) s zs))) s"
    using assms
    by (simp add: dospacesizechange_def wp_logged_in wp_with_zone [OF assms(1,3,4)] first_named_some
        wp_ask_manager [where e = e] wp_post)
  show "i32 (ipc_newspacesize r) = ipc_newspacesize r \<longleftrightarrow> in_i32 (ipc_newspacesize r)"
    using i32_id in_i32_i32 by metis
qed (simp_all only: i32_mod in_i32_i32)

lemma sizechange_is_cut_to_32_bits_witness:
  "wp (dospacesizechange (info_net Rejected)
      (list_request\<lparr>ipc_zonename := ''lab'', ipc_spacename := ''home'', ipc_newspacesize := 2 ^ 32 + 5\<rparr>))
    (\<lambda>a s'. net_env s' = [''u1'', serialize (info_net Rejected) ser_SpaceRequest
      ((new_SpaceRequest (info_net Rejected))\<lparr>sr_spaceID := ''p1'', sr_newSpaceSize := 5\<rparr>)]) (bob_client [])"
proof -
  have five: "applied = 5" if "applied mod 2 ^ 32 = 5" "in_i32 applied" for applied
  proof -
    have "i32 applied = i32 5"
      using that(1) by (simp only: i32_def signed_take_bit_eq_iff_take_bit_eq take_bit_eq_mod) simp
    then show ?thesis using i32_id [OF that(2)] by (simp add: i32_def)
  qed
  obtain applied where wp: "wp (dospacesizechange (info_net Rejected)
      (list_request\<lparr>ipc_zonename := ''lab'', ipc_spacename := ''home'', ipc_newspacesize := 2 ^ 32 + 5\<rparr>))
    (\<lambda>a s'. net_env s' = [''u1'', serialize (info_net Rejected) ser_SpaceRequest
      ((new_SpaceRequest (info_net Rejected))\<lparr>sr_spaceID := ''p1'', sr_newSpaceSize := applied\<rparr>)]) (bob_client [])"
    and *: "applied mod 2 ^ 32 = 5" "in_i32 applied"
    using sizechange_is_cut_to_32_bits [where e = "''http://h:1''" and s = "bob_client []" and k = "info_net Rejected"
      and zs = "[team_zone]" and z = team_zone and xs = "[sample_space]" and x = sample_space and
      r = "list_request\<lparr>ipc_zonename := ''lab'', ipc_spacename := ''home'', ipc_newspacesize := 2 ^ 32 + 5\<rparr>"]
    by (auto simp: posted_def after_zones_def)
  with five [OF *] show ?thesis by simp
qed

section \<open>Answers that do not come\<close>

text \<open>When the manager does not answer, or the request fails, the answer to the command is made from the number that
  the local variable happened to hold: the command reports success when that is 0, although the zone may
  still be there.\<close>

theorem unanswered_cancel_reports_the_stack:
  assumes "managed e s" and "accountID s \<noteq> []" and "zones_answered k e (accountID s) s zs"
    and "last_zone zs (ipc_zonename r) = Some z" and "rj_parse k [] = None"
    and "fst (posted k (e @ ''/zone/cancel'') (serialize k ser_ZoneRequest
      ((new_ZoneRequest k)\<lparr>zr_zoneID := z_zoneID z, zr_ownerID := accountID s\<rparr>))
      (after_zones k e (accountID s) s zs)) \<in> {Rejected, Timed_Out, Thrown}"
  shows "wp (dozonecancel k r) (\<lambda>a s'. \<exists>text. a = Val text \<and> (text = ''success'' \<longleftrightarrow> ud_int k = 0)) s"
proof -
  have "result_of k [] = ud_int k"
    using assms(5) by (simp add: result_of_def json_decode_def dec_int_def)
  moreover have "msg_zonecancel_db \<noteq> ''success''" "msg_zonecancel_owner \<noteq> ''success''" "msg_zone_gone \<noteq> ''success''"
    "msg_unknown_error \<noteq> ''success''"
    unfolding msg_zonecancel_db_def msg_zonecancel_owner_def msg_zone_gone_def msg_unknown_error_def
    by (rule utf8_not_success; simp)+
  moreover have "rest_answer (fst (posted k (e @ ''/zone/cancel'') (serialize k ser_ZoneRequest
      ((new_ZoneRequest k)\<lparr>zr_zoneID := z_zoneID z, zr_ownerID := accountID s\<rparr>))
      (after_zones k e (accountID s) s zs))) = []"
    using assms(6) by (auto simp: rest_answer_def)
  ultimately show ?thesis
    using assms(1,2)
    by (simp add: dozonecancel_def wp_logged_in zone_cancel_def wp_with_zone [OF assms(1,3,4)]
        wp_ask_manager [where e = e] wp_post answer_code_def Let_def)
qed

lemma unanswered_cancel_reports_the_stack_witness:
  "wp (dozonecancel (info_net Rejected) (list_request\<lparr>ipc_zonename := ''lab''\<rparr>)) (\<lambda>a s'. a = Val ''success'')
    (bob_client [])"
  by (rule wp_mono [OF unanswered_cancel_reports_the_stack [where e = "''http://h:1''" and zs = "[team_zone]" and z = team_zone]])
    (simp_all add: posted_def after_zones_def mem_parse_def)

end
