(* ===== verification/Ipc_Manager.thy ===== *)
theory Ipc_Manager
  imports Ipc_Props User_Props
begin

text \<open>
  The commands of the client composed with the servers of the manager: the outside of the client is the manager
  whose servers this development models, at one address.
\<close>

section \<open>A manager as the outside of a client\<close>

definition manager_routes :: "(string \<times> ('w sys \<Rightarrow> string \<Rightarrow> ('w, response) prog)) list" where
  "manager_routes = SpaceServer_router @ ZoneServer_router @ UserModelServer_router"

definition route_of :: "string \<Rightarrow> string \<Rightarrow> string option" where
  "route_of e u = (if take (length e) u = e then Some (drop (length e) u) else None)"

text \<open>
  \<open>nf\<close> is the text with which the HTTP library answers a path that has no route. A request that stops the
  process of the manager is not answered.
\<close>

definition manager_net :: "'w sys \<Rightarrow> string \<Rightarrow> string \<Rightarrow> 'w net" where
  "manager_net sys e nf = dead_net\<lparr>rj_write := rj_write sys, rj_parse := rj_parse sys,
     net_post := \<lambda>u t d w.
       (case route_of e u of
          None \<Rightarrow> (Rejected, w)
        | Some path \<Rightarrow>
            (case map_of manager_routes path of
               None \<Rightarrow> (Answered nf, w)
             | Some f \<Rightarrow> (case f sys d w of (Val (code, body), w') \<Rightarrow> (Answered body, w') | (_, w') \<Rightarrow> (Rejected, w')))),
     net_login := \<lambda>u d w.
       (if u = e @ ''/users/login'' then
          (case UserLoginRest sys d w of
             (Val ((code, body), cookies), w') \<Rightarrow> ((Answered body, map snd cookies), w')
           | (_, w') \<Rightarrow> ((Rejected, []), w'))
        else ((Rejected, []), w))\<rparr>"

lemma manager_net_json [simp]:
  "rj_write (manager_net sys e nf) = rj_write sys" "rj_parse (manager_net sys e nf) = rj_parse sys"
  "serialize (manager_net sys e nf) ser x = serialize sys ser x"
  by (simp_all add: manager_net_def serialize_def)

text \<open>A request to a route runs its handler.\<close>

lemma wp_post_manager:
  assumes route: "map_of manager_routes path = Some f"
    and run: "wp (f sys d) (\<lambda>res w'. \<exists>code body. res = Val (code, body) \<and> Q (Val body) (s\<lparr>net_env := w'\<rparr>)) (net_env s)"
  shows "wp (post_request (manager_net sys e nf) e path d) Q s"
proof -
  obtain res w' where r: "f sys d (net_env s) = (res, w')" by fastforce
  with run obtain code body where "res = Val (code, body)" "Q (Val body) (s\<lparr>net_env := w'\<rparr>)"
    by (auto simp: wp_def)
  with r route show ?thesis
    by (simp add: wp_post posted_def manager_net_def route_of_def rest_answer_def)
qed

lemma wp_post_unrouted:
  fixes sys :: "'w sys"
  assumes "map_of (manager_routes :: (string \<times> ('w sys \<Rightarrow> string \<Rightarrow> ('w, response) prog)) list) path = None"
  shows "wp (post_request (manager_net sys e nf) e path d) Q s = Q (Val nf) s"
  using assms by (simp add: wp_post posted_def manager_net_def route_of_def rest_answer_def)

lemma manager_routes_simps [simp]:
  "map_of manager_routes ''/users/registration'' = Some UserRegisterRest"
  "map_of manager_routes ''/users/removeapply'' = Some removeoneofApplyInfoRest"
  "map_of manager_routes ''/zone/info'' = Some GetZoneInfoRest"
  "map_of manager_routes ''/auth/search'' = None"
  by (simp_all add: manager_routes_def SpaceServer_router_def ZoneServer_router_def UserModelServer_router_def)

section \<open>Approving an account\<close>

text \<open>What the documents of a registered account need to stay as they are.\<close>

definition registered :: "'w sys \<Rightarrow> account \<Rightarrow> string \<Rightarrow> 'w \<Rightarrow> bool" where
  "registered sys person u w \<longleftrightarrow> new_id sys u \<and>
     name_entry sys (cb_docs sys w) (acc_accountName person) = Some (JStr u) \<and>
     cb_docs sys w (manager_bucket sys, user_prefix @ u) =
       Some (serialize sys ser_Account (person\<lparr>acc_accountID := u\<rparr>))"

lemma application_key: "take 5 i = ''usign'' \<Longrightarrow> i \<noteq> user_map_key \<and> i \<noteq> user_prefix @ u"
  by (auto simp: user_map_key_def user_prefix_def)

lemma wp_remove_application:
  assumes "couchbase_law sys" "couchbase_up sys" and i: "take 5 i = ''usign''" and reg: "registered sys person u w"
    and rest: "\<And>body w'. registered sys person u w' \<Longrightarrow> Q (Val (200, body)) w'"
  shows "wp (removeoneofApplyInfoRest sys i) Q w"
proof -
  have keep: "registered sys person u w'"
    if "cb_docs sys w' = cb_docs sys w \<or> cb_docs sys w' = (cb_docs sys w)((manager_bucket sys, i) := None)" for w'
    using that reg application_key [OF i, of u]
    by (auto simp: registered_def name_entry_def)
  show ?thesis
    unfolding removeoneofApplyInfoRest_def
    by (rule up_open [OF assms(1,2)]) (auto simp: rest keep intro!: wp_ds_remove [OF assms(1)])
qed

lemma wp_approve:
  assumes laws: "json_law sys" "couchbase_law sys" "couchbase_up sys" and wf: "wf_Account person"
    and name: "simple_path (acc_accountName person)" "name_entry sys (cb_docs sys (net_env s)) (acc_accountName person) = None"
    and map: "doc_members sys (cb_docs sys (net_env s) (manager_bucket sys, user_map_key)) \<noteq> None"
    and m: "managed e s" and r: "ipc_sug r = ''agree''" "take 5 (ipc_applyid r) = ''usign''"
    and kept: "smap_at [] (apply_id_data s) (ipc_applyid r) = serialize sys ser_Account person"
  shows "wp (dosuggestion (manager_net sys e nf) r) (\<lambda>a s'.
    a = Val (''Dear:'' @ acc_accountName person @ '', registration success'') \<and>
    (\<exists>u. registered sys person u (net_env s'))) s"
proof -
  let ?answer = "''Dear:'' @ acc_accountName person @ '', registration success''"
  let ?k = "manager_net sys e nf"
  have register: "wp (UserRegisterRest sys (serialize sys ser_Account person)) (\<lambda>res w'. res = Val (200, ?answer) \<and>
      (\<exists>u. registered sys person u w')) (net_env s)"
    unfolding UserRegisterRest_def Account_json.load_roundtrip [OF laws(1) wf] wp_bnd
    by (rule wp_mono [OF up_UserRegister [OF laws name map]]) (auto simp: entered_def registered_def)
  have remove: "wp (post_request ?k e ''/users/removeapply'' (ipc_applyid r)) (\<lambda>b s'. (\<exists>body. b = Val body) \<and>
      (\<exists>u. registered sys person u (net_env s'))) t" if "registered sys person u (net_env t)" for t u
    by (rule wp_post_manager, simp, rule wp_remove_application [OF laws(2,3) r(2) that]) auto
  have reg: "wp (post_request ?k e ''/users/registration'' (serialize sys ser_Account person)) (\<lambda>res t'.
      res = Val ?answer \<and> (\<exists>u. registered sys person u (net_env t'))) t" if "net_env t = net_env s" for t
    by (rule wp_post_manager [where f = UserRegisterRest], simp, rule wp_mono [OF register [folded that]]) auto
  have "wp (approve ?k e ''/users/registration'' (serialize sys ser_Account person) id (ipc_applyid r))
      (\<lambda>a s'. a = Val ?answer \<and> (\<exists>u. registered sys person u (net_env s'))) t" if "net_env t = net_env s" for t
    unfolding approve_def wp_bnd
    apply (rule wp_mono [OF reg [OF that]])
    apply (elim conjE exE)
    apply (simp only: outcome.case)
    apply (rule wp_mono [OF remove], assumption)
    apply auto
    done
  then show ?thesis
    using r kept
    by (simp add: dosuggestion_def wp_get_manager [OF m] getApply_def Let_def)
qed

section \<open>Logging in to an account\<close>

lemma wp_login_handler:
  assumes laws: "json_law sys" "couchbase_law sys" "couchbase_up sys" and wf: "wf_Account person"
    and name: "simple_path (acc_accountName person)" and reg: "registered sys person u w" and u: "nul_free u"
    and pass: "nul_free pass"
  shows "wp (UserLoginRest sys (serialize sys ser_AccountPass
      \<lparr>aps_accountName = acc_accountName person, aps_Password = pass\<rparr>)) (\<lambda>res w'.
    \<exists>identity. length identity = 1 \<and> res = Val
      (if pass = acc_Password person
       then ((200, identity @ ''_'' @ u), [(''token'', md5 (acc_accountName person @ pass))])
       else ((200, ''-1''), []))) w"
proof -
  have wfp: "wf_AccountPass \<lparr>aps_accountName = acc_accountName person, aps_Password = pass\<rparr>"
    using wf pass by (simp add: wf_AccountPass_def wf_Account_def)
  have wfu: "wf_Account (person\<lparr>acc_accountID := u\<rparr>)" using wf u by (simp add: wf_Account_def)
  have e: "name_entry sys (cb_docs sys w) (acc_accountName person) = Some (JStr u)"
    "cb_docs sys w (manager_bucket sys, user_prefix @ u) = Some (serialize sys ser_Account (person\<lparr>acc_accountID := u\<rparr>))"
    using reg by (simp_all add: registered_def)
  show ?thesis
    unfolding UserLoginRest_def AccountPass_json.load_roundtrip [OF laws(1) wfp] Let_def account_pass.simps wp_bnd
    apply (rule wp_mono [OF up_UserLogin [OF laws name e(1) u e(2) wfu, of pass]])
    apply (elim conjE)
    apply (cases "pass = acc_Password person")
     apply (simp del: wp_bnd)
     apply (intro conjI impI; rule up_init [OF laws(2,3)], rule up_set [OF laws(2,3)], simp add: length_Suc_conv)
    apply (simp add: exI [of _ "''0''"])
    done
qed

lemma wp_no_zones:
  assumes "couchbase_law sys" "couchbase_up sys"
    and "answers sys (zones_owned_query sys u) []" "answers sys (zones_member_query sys u) []"
  shows "wp (GetZoneInfoRest sys u) (\<lambda>res w'. res = Val (200, ''fail'')) w"
  unfolding GetZoneInfoRest_def GetZoneInfo_def
  apply (subst bnd_assoc)
  apply (rule up_open [OF assms(1,2)])
  apply (subst bnd_assoc)
  apply (rule up_open [OF assms(1,2)])
  apply (subst bnd_assoc)
  apply (rule up_n1ql [OF assms(1,3)])
  apply (simp only: run_simps bnd_assoc)
  apply (rule up_open [OF assms(1,2)])
  apply (rule up_n1ql [OF assms(1,4)])
  apply simp
  done

text \<open>What is left to do when the manager has accepted the password.\<close>

lemma wp_login_done:
  fixes sys :: "'a sys"
  assumes "couchbase_law sys" "couchbase_up sys" and m: "managed e t"
    and zones: "answers sys (zones_owned_query sys u) []" "answers sys (zones_member_query sys u) []"
    and json: "rj_parse sys ''fail'' = None" and identity: "length identity = 1"
  shows "wp (login_done (manager_net sys e nf) name (identity @ ''_'' @ u) [token]) (\<lambda>b t'.
    b = Val ''0'' \<and> accountID t' = u \<and> accountName t' = name \<and> mtoken t' = token) t"
proof -
  let ?t = "t\<lparr>mtoken := token, accountName := name, accountID := u\<rparr>"
  have unlocked: "\<not> node_locked t" using m by (simp add: managed_def)
  have m': "managed e ?t" "managed e (?t\<lparr>myauth := a\<rparr>)" for a
    using m by (simp_all add: managed_def)
  have zone_info: "wp (post_request (manager_net sys e nf) e ''/zone/info'' u) (\<lambda>b t''. b = Val ''fail'' \<and>
      accountID t'' = u \<and> accountName t'' = name \<and> mtoken t'' = token) t'"
    if "accountID t' = u" "accountName t' = name" "mtoken t' = token" for t'
    by (rule wp_post_manager, simp, rule wp_mono [OF wp_no_zones [OF assms(1,2) zones]]) (use that in auto)
  have read: "decode_zones (manager_net sys e nf) ''fail'' = Val []"
    using json by (simp add: decode_zones_def cstr_def)
  have zi: "wp (bnd (GetZoneInfo_client (manager_net sys e nf) u) (\<lambda>_. ret ''0'')) (\<lambda>b t''. b = Val ''0'' \<and>
      accountID t'' = u \<and> accountName t'' = name \<and> mtoken t'' = token) t'"
    if "managed e t'" "accountID t' = u" "accountName t' = name" "mtoken t' = token" for t'
    unfolding GetZoneInfo_client_def wp_bnd wp_get_manager [OF that(1)] outcome.case
    by (rule wp_mono [OF zone_info [OF that(2-4)]]) (auto simp: read)
  have auth: "wp (bnd (getAuthFromServer (manager_net sys e nf) u) f) Q ?t"
    if "\<And>a. wp (f ()) Q (?t\<lparr>myauth := a\<rparr>)" "wp (f ()) Q ?t" for f and Q :: "string outcome \<Rightarrow> 'a client \<Rightarrow> bool"
    using unlocked that
    by (simp add: getAuthFromServer_def wp_get_manager [OF m'(1)] wp_post_unrouted)
  obtain c where c: "identity = [c]" using identity by (cases identity) auto
  show ?thesis
    by (simp add: login_done_def c setToken_def setAccountName_def setAccountID_def getAccountID_def wp_steps
        del: wp_bnd) (intro auth zi m'; simp)
qed

lemma net_login_manager:
  "net_login (manager_net sys e nf) (e @ ''/users/login'') d w =
    (case UserLoginRest sys d w of
       (Val ((code, body), cookies), w') \<Rightarrow> ((Answered body, map snd cookies), w')
     | (_, w') \<Rightarrow> ((Rejected, []), w'))"
  by (simp add: manager_net_def)

lemma wp_douserlogin:
  assumes laws: "json_law sys" "couchbase_law sys" "couchbase_up sys" and wf: "wf_Account person"
    and name: "simple_path (acc_accountName person)" "ipc_accountName r = acc_accountName person"
    and reg: "registered sys person u (net_env t)" and u: "nul_free u" and pass: "nul_free (ipc_Password r)"
    and m: "managed e t" and e: "nul_free e" "length e < 244"
    and zones: "answers sys (zones_owned_query sys u) []" "answers sys (zones_member_query sys u) []"
    and json: "rj_parse sys ''fail'' = None"
  shows "wp (douserlogin (manager_net sys e nf) r) (\<lambda>b t'.
    if ipc_Password r = acc_Password person
    then b = Val ''0'' \<and> accountID t' = u \<and> accountName t' = acc_accountName person \<and>
      mtoken t' = md5 (acc_accountName person @ acc_Password person)
    else b = Val ''-1'' \<and> accountID t' = accountID t) t"
proof -
  let ?mes = "serialize sys ser_AccountPass
      \<lparr>aps_accountName = acc_accountName person, aps_Password = ipc_Password r\<rparr>"
  have url: "snprintf_n 256 (cstr e @ ''/users/login'') = e @ ''/users/login''"
    using e by (simp add: snprintf_n_def cstr_id)
  obtain res w' where run: "UserLoginRest sys ?mes (net_env t) = (res, w')" by fastforce
  from wp_login_handler [OF laws wf name(1) reg u pass] run obtain identity where
    one: "length identity = 1" and res: "res = Val
      (if ipc_Password r = acc_Password person
       then ((200, identity @ ''_'' @ u), [(''token'', md5 (acc_accountName person @ acc_Password person))])
       else ((200, ''-1''), []))"
    by (auto simp: wp_def)
  have m': "managed e (t\<lparr>net_env := w'\<rparr>)" using m by simp
  show ?thesis
  proof (cases "ipc_Password r = acc_Password person")
    case True
    with run res wp_login_done [OF laws(2,3) m' zones json one] name(2) show ?thesis
      by (simp add: douserlogin_def wp_get_manager [OF m] url net_login_manager Let_def)
  next
    case False
    with run res name(2) show ?thesis
      by (simp add: douserlogin_def wp_get_manager [OF m] url net_login_manager login_done_def Let_def)
  qed
qed

text \<open>From the application to the account: when an administrator approves an application for an account under a fresh
  name, the manager registers it, and from then on the user logs in from any client with that name and
  password: the client holds the new identifier and the token of the manager. Any other password is refused and
  leaves the client as it was. The manager does not fail, and a new identifier owns no zones.\<close>

theorem approved_account_logs_in:
  assumes laws: "json_law sys" "couchbase_law sys" "couchbase_up sys" and wf: "wf_Account person"
    and name: "simple_path (acc_accountName person)" "name_entry sys (cb_docs sys (net_env s)) (acc_accountName person) = None"
    and map: "doc_members sys (cb_docs sys (net_env s) (manager_bucket sys, user_map_key)) \<noteq> None"
    and ids: "\<And>u. new_id sys u \<Longrightarrow> nul_free u \<and> answers sys (zones_owned_query sys u) [] \<and>
      answers sys (zones_member_query sys u) []"
    and json: "rj_parse sys ''fail'' = None" and e: "nul_free e" "length e < 244"
    and admin: "managed e s" "ipc_sug r = ''agree''" "take 5 (ipc_applyid r) = ''usign''"
      "smap_at [] (apply_id_data s) (ipc_applyid r) = serialize sys ser_Account person"
    and user: "managed e t" "ipc_accountName q = acc_accountName person" "nul_free (ipc_Password q)"
  shows "wp (dosuggestion (manager_net sys e nf) r) (\<lambda>a s'.
    a = Val (''Dear:'' @ acc_accountName person @ '', registration success'') \<and>
    (\<exists>u. new_id sys u \<and> wp (douserlogin (manager_net sys e nf) q) (\<lambda>b t'.
      if ipc_Password q = acc_Password person
      then b = Val ''0'' \<and> accountID t' = u \<and> accountName t' = acc_accountName person \<and>
        mtoken t' = md5 (acc_accountName person @ acc_Password person)
      else b = Val ''-1'' \<and> accountID t' = accountID t) (t\<lparr>net_env := net_env s'\<rparr>))) s"
proof -
  have login: "wp (douserlogin (manager_net sys e nf) q) (\<lambda>b t'.
      if ipc_Password q = acc_Password person
      then b = Val ''0'' \<and> accountID t' = u \<and> accountName t' = acc_accountName person \<and>
        mtoken t' = md5 (acc_accountName person @ acc_Password person)
      else b = Val ''-1'' \<and> accountID t' = accountID t) (t\<lparr>net_env := w\<rparr>)"
    if reg: "registered sys person u w" for u w
  proof -
    have new: "new_id sys u" using reg by (simp add: registered_def)
    have m: "managed e (t\<lparr>net_env := w\<rparr>)" using user(1) by simp
    show ?thesis
      by (rule wp_mono [OF wp_douserlogin [OF laws wf name(1) user(2) _ _ user(3) m e _ _ json, of u]])
        (use ids [OF new] reg in auto)
  qed
  show ?thesis
    by (rule wp_mono [OF wp_approve [OF laws wf name map admin]])
      (use login in \<open>fastforce simp: registered_def\<close>)
qed

definition eve :: account where
  "eve = sample_account\<lparr>acc_accountName := ''eve''\<rparr>"

definition admin_client :: "mem client" where
  "admin_client = (bob_client user_mem)\<lparr>apply_id_data := [(''usign-1'', serialize mem_sys ser_Account eve)]\<rparr>"

lemma mem_answers_info:
  "answers (mem_sysq rows) (zones_owned_query (mem_sysq rows) u) []"
  "answers (mem_sysq rows) (zones_member_query (mem_sysq rows) u) []"
  by (simp_all add: answers_def zones_owned_query_def zones_member_query_def asks_storage_def snprintf_n_def
      select_query_def)

lemma approved_account_logs_in_witness:
  "wp (dosuggestion (manager_net mem_sys ''http://h:1'' []) (list_request\<lparr>ipc_sug := ''agree'', ipc_applyid := ''usign-1''\<rparr>))
    (\<lambda>a s'. wp (douserlogin (manager_net mem_sys ''http://h:1'' []) (list_request\<lparr>ipc_accountName := ''eve'', ipc_Password := ''pw''\<rparr>))
      (\<lambda>b t'. b = Val ''0'' \<and> accountName t' = ''eve'') ((bob_client user_mem)\<lparr>net_env := net_env s'\<rparr>)) admin_client"
proof -
  have wf: "wf_Account eve"
    using wf_sample_account by (simp add: eve_def wf_Account_def nul_free_def)
  have m: "managed ''http://h:1'' admin_client"
    using managed_bob [of user_mem] by (simp add: admin_client_def managed_def)
  have kept: "net_env admin_client = user_mem"
    "smap_at [] (apply_id_data admin_client) ''usign-1'' = serialize mem_sys ser_Account eve"
    by (simp_all add: admin_client_def smap_at_def)
  have name: "acc_accountName eve = ''eve''" "acc_Password eve = ''pw''" by (simp_all add: eve_def)
  have pw: "nul_free ''pw''" "nul_free ''http://h:1''" by (simp_all add: nul_free_def)
  show ?thesis
    by (rule wp_mono [OF approved_account_logs_in [OF mem_laws wf, where e = "''http://h:1''"
          and t = "bob_client user_mem" and q = "list_request\<lparr>ipc_accountName := ''eve'', ipc_Password := ''pw''\<rparr>"]])
      (auto simp: kept m mem_ids mem_answers_info name simple_path_def user_map_key_def pw mem_parse_def
        simp del: wp_bnd elim!: wp_mono)
qed

end
