(* ===== verification/Udt_Writer.thy ===== *)
theory Udt_Writer
  imports Prelude "HOL-Library.Sublist"
begin

text \<open>
  The writer of a UDT session, \<open>msg/udt_writer.cc\<close>: threads put messages into a queue of bounded length, and
  a thread of its own sends them. Every interleaving is a run of the relation below. The theorems say that the
  bytes on the wire are those of the messages in their order, and what a failed send leaves behind.
\<close>

section \<open>The state\<close>

text \<open>
  \<open>wr_batch\<close> is what \<open>do_write\<close> has taken out of the queue \<open>wr_new\<close> while it runs, \<open>wr_current\<close> what is left of the message that
  it sends; \<open>wr_closed\<close> is \<open>should_close\<close>, and \<open>wr_ended\<close> holds once the thread has left its loop. The bytes
  given to \<open>UDT::send\<close> are \<open>wr_wire\<close>, the messages that \<open>write\<close> took \<open>wr_accepted\<close>.
\<close>

record writer =
  wr_new :: "string list"
  wr_batch :: "string list option"
  wr_current :: "string option"
  wr_pending :: nat
  wr_closed :: bool
  wr_stop :: bool
  wr_ended :: bool
  wr_wire :: string
  wr_accepted :: "string list"

definition m_max_write :: nat where
  "m_max_write = 20"

definition start_writer :: writer where
  "start_writer = \<lparr>wr_new = [], wr_batch = None, wr_current = None, wr_pending = 0, wr_closed = False, wr_stop = False,
     wr_ended = False, wr_wire = [], wr_accepted = []\<rparr>"

section \<open>Its operations\<close>

text \<open>\<open>write\<close> waits while more messages than allowed are pending.\<close>

definition has_room :: "writer \<Rightarrow> bool" where
  "has_room w \<longleftrightarrow> wr_pending w \<le> m_max_write"

definition accept :: "string \<Rightarrow> writer \<Rightarrow> writer" where
  "accept d w = w\<lparr>wr_new := wr_new w @ [d], wr_pending := Suc (wr_pending w), wr_accepted := wr_accepted w @ [d]\<rparr>"

definition swap_queue :: "writer \<Rightarrow> writer" where
  "swap_queue w = w\<lparr>wr_batch := Some (wr_new w), wr_new := []\<rparr>"

text \<open>The next message of the batch; an empty one needs no call.\<close>

definition next_message :: "string \<Rightarrow> string list \<Rightarrow> writer \<Rightarrow> writer" where
  "next_message d ds w = w\<lparr>wr_batch := Some ds, wr_current := (if d = [] then None else Some d),
     wr_pending := wr_pending w - 1\<rparr>"

definition sent :: "nat \<Rightarrow> string \<Rightarrow> writer \<Rightarrow> writer" where
  "sent n r w = w\<lparr>wr_wire := wr_wire w @ take n r, wr_current := (if drop n r = [] then None else Some (drop n r))\<rparr>"

text \<open>After a failure the rest of the batch is destroyed with the local queue.\<close>

definition send_failed :: "writer \<Rightarrow> writer" where
  "send_failed w = w\<lparr>wr_closed := True, wr_current := None, wr_batch := None\<rparr>"

text \<open>
  The thread takes the queue when it is not empty, and a last time when it was told to stop; \<open>_write_unsafe\<close>
  sends the batch message by message, in as many calls as UDT wants, and does nothing once a call has failed.
\<close>

inductive writer_step :: "writer \<Rightarrow> writer \<Rightarrow> bool" where
  queued: "has_room w \<Longrightarrow> writer_step w (accept d w)"
| take_batch: "wr_batch w = None \<Longrightarrow> \<not> wr_stop w \<Longrightarrow> wr_new w \<noteq> [] \<Longrightarrow> writer_step w (swap_queue w)"
| take_last: "wr_batch w = None \<Longrightarrow> wr_stop w \<Longrightarrow> \<not> wr_ended w \<Longrightarrow> writer_step w ((swap_queue w)\<lparr>wr_ended := True\<rparr>)"
| skip: "wr_batch w = Some q \<Longrightarrow> wr_closed w \<Longrightarrow> writer_step w (w\<lparr>wr_batch := None\<rparr>)"
| front: "wr_batch w = Some (d # ds) \<Longrightarrow> \<not> wr_closed w \<Longrightarrow> wr_current w = None \<Longrightarrow> writer_step w (next_message d ds w)"
| send: "wr_current w = Some r \<Longrightarrow> 0 < n \<Longrightarrow> n \<le> length r \<Longrightarrow> writer_step w (sent n r w)"
| failure: "wr_current w = Some r \<Longrightarrow> writer_step w (send_failed w)"
| finished: "wr_batch w = Some [] \<Longrightarrow> wr_current w = None \<Longrightarrow> writer_step w (w\<lparr>wr_batch := None\<rparr>)"
| stopped: "writer_step w (w\<lparr>wr_stop := True\<rparr>)"

inductive reachable_writer :: "writer \<Rightarrow> bool" where
  start: "reachable_writer start_writer"
| step: "reachable_writer w \<Longrightarrow> writer_step w w' \<Longrightarrow> reachable_writer w'"

inductive_cases writer_stepE: "writer_step w w'"

section \<open>The invariant\<close>

definition in_batch :: "writer \<Rightarrow> string list" where
  "in_batch w = (case wr_batch w of None \<Rightarrow> [] | Some q \<Rightarrow> q)"

definition rest_of_message :: "writer \<Rightarrow> string" where
  "rest_of_message w = (case wr_current w of None \<Rightarrow> [] | Some r \<Rightarrow> r)"

definition writer_ok :: "writer \<Rightarrow> bool" where
  "writer_ok w \<longleftrightarrow>
     wr_pending w \<le> Suc m_max_write \<and> (wr_closed w \<longrightarrow> wr_current w = None) \<and> (wr_batch w = None \<longrightarrow> wr_current w = None) \<and>
     wr_current w \<noteq> Some [] \<and>
     (if wr_closed w then prefix (wr_wire w) (concat (wr_accepted w))
      else wr_pending w = length (in_batch w) + length (wr_new w) \<and>
        concat (wr_accepted w) = wr_wire w @ rest_of_message w @ concat (in_batch w) @ concat (wr_new w))"

lemmas writer_defs = has_room_def accept_def swap_queue_def next_message_def sent_def send_failed_def in_batch_def
  rest_of_message_def

lemma writer_ok_step:
  assumes "writer_ok w" and "writer_step w w'"
  shows "writer_ok w'"
  using assms(2,1)
  by (cases rule: writer_step.cases)
    (auto simp: writer_ok_def writer_defs prefix_def split: option.splits if_splits)

lemma reachable_writer_ok: "reachable_writer w \<Longrightarrow> writer_ok w"
proof (induction rule: reachable_writer.induct)
  case start
  show ?case by (simp add: writer_ok_def start_writer_def in_batch_def rest_of_message_def)
next
  case (step w w')
  then show ?case by (blast intro: writer_ok_step)
qed

text \<open>C35: At any moment the bytes on the wire are the beginning of the messages in the order in which they were
  taken, and at most 21 messages are pending. When nothing is pending and no call has failed, all have been sent.\<close>

theorem writer_keeps_the_order:
  assumes "reachable_writer w"
  shows "prefix (wr_wire w) (concat (wr_accepted w)) \<and> wr_pending w \<le> 21 \<and>
    (\<not> wr_closed w \<and> wr_pending w = 0 \<and> wr_current w = None \<longrightarrow> wr_wire w = concat (wr_accepted w))"
  using reachable_writer_ok [OF assms]
  by (auto simp: writer_ok_def m_max_write_def rest_of_message_def in_batch_def split: if_splits option.splits)

text \<open>Two messages, the first sent in two calls.\<close>

definition sample_writer :: writer where
  "sample_writer = start_writer\<lparr>wr_wire := ''abc'', wr_accepted := [''ab'', ''c'']\<rparr>"

lemma reachable_sample_writer: "reachable_writer sample_writer"
proof -
  note step = reachable_writer.step
  have "reachable_writer (accept ''ab'' start_writer)"
    by (rule step [OF reachable_writer.start queued]) (simp add: has_room_def start_writer_def)
  then have "reachable_writer (accept ''c'' (accept ''ab'' start_writer))"
    by (rule step [OF _ queued]) (simp add: writer_defs start_writer_def m_max_write_def)
  then have "reachable_writer (swap_queue (accept ''c'' (accept ''ab'' start_writer)))"
    by (rule step [OF _ take_batch]) (simp_all add: writer_defs start_writer_def)
  then have "reachable_writer (next_message ''ab'' [''c''] (swap_queue (accept ''c'' (accept ''ab'' start_writer))))"
    by (rule step [OF _ front]) (simp_all add: writer_defs start_writer_def)
  then have "reachable_writer (sent 1 ''ab'' (next_message ''ab'' [''c''] (swap_queue (accept ''c'' (accept ''ab'' start_writer)))))"
    by (rule step [OF _ send]) (simp_all add: writer_defs start_writer_def)
  then have "reachable_writer (sent 1 ''b'' (sent 1 ''ab'' (next_message ''ab'' [''c''] (swap_queue (accept ''c'' (accept ''ab'' start_writer))))))"
    by (rule step [OF _ send]) (simp_all add: writer_defs start_writer_def)
  then have "reachable_writer (next_message ''c'' [] (sent 1 ''b'' (sent 1 ''ab'' (next_message ''ab'' [''c''] (swap_queue (accept ''c'' (accept ''ab'' start_writer)))))))"
    by (rule step [OF _ front]) (simp_all add: writer_defs start_writer_def)
  then have "reachable_writer (sent 1 ''c'' (next_message ''c'' [] (sent 1 ''b'' (sent 1 ''ab'' (next_message ''ab'' [''c''] (swap_queue (accept ''c'' (accept ''ab'' start_writer))))))))"
    by (rule step [OF _ send]) (simp_all add: writer_defs start_writer_def)
  from step [OF this finished] show ?thesis
    by (simp add: writer_defs start_writer_def sample_writer_def)
qed

lemma writer_keeps_the_order_witness:
  "prefix (wr_wire sample_writer) (concat (wr_accepted sample_writer)) \<and> wr_pending sample_writer \<le> 21"
  using writer_keeps_the_order [OF reachable_sample_writer] by blast

section \<open>After a failure\<close>

lemma closed_step:
  assumes "writer_step w w'" and "writer_ok w" and "wr_closed w"
  shows "wr_closed w' \<and> wr_wire w' = wr_wire w \<and>
    wr_pending w' + length (wr_accepted w) = wr_pending w + length (wr_accepted w')"
  using assms by (cases rule: writer_step.cases) (auto simp: writer_ok_def writer_defs)

lemma closed_steps:
  assumes "writer_step\<^sup>*\<^sup>* w w'" and "writer_ok w" and "wr_closed w"
  shows "writer_ok w' \<and> wr_closed w' \<and> wr_wire w' = wr_wire w \<and> prefix (wr_accepted w) (wr_accepted w') \<and>
    wr_pending w' + length (wr_accepted w) = wr_pending w + length (wr_accepted w')"
  using assms(1)
proof induction
  case base
  show ?case using assms(2,3) by simp
next
  case (step y z)
  have "prefix (wr_accepted y) (wr_accepted z)"
    using step.hyps(2) by (cases rule: writer_step.cases) (auto simp: writer_defs)
  then show ?case
    using closed_step [OF step.hyps(2)] writer_ok_step [OF _ step.hyps(2)] step.IH by (auto intro: prefix_order.trans)
qed

text \<open>After one failed call nothing is sent any more and nothing that was pending ceases to be: whatever happens,
  all threads together can write at most as many messages as there was room for, 21 at most, and then each waits forever.\<close>

theorem failed_send_blocks_the_writers:
  assumes "reachable_writer w" and "wr_closed w" and "writer_step\<^sup>*\<^sup>* w w'"
  shows "wr_wire w' = wr_wire w \<and> length (wr_accepted w') + wr_pending w \<le> length (wr_accepted w) + 21 \<and>
    (wr_pending w' = 21 \<longrightarrow> (\<forall>w''. writer_step\<^sup>*\<^sup>* w' w'' \<longrightarrow> wr_accepted w'' = wr_accepted w'))"
proof -
  note w' = closed_steps [OF assms(3) reachable_writer_ok [OF assms(1)] assms(2)]
  have "wr_accepted w'' = wr_accepted w'" if "wr_pending w' = 21" and "writer_step\<^sup>*\<^sup>* w' w''" for w''
  proof -
    have "writer_ok w'" and "wr_closed w'" using w' by auto
    note w'' = closed_steps [OF that(2) this]
    from w'' have "prefix (wr_accepted w') (wr_accepted w'')" and "length (wr_accepted w'') \<le> length (wr_accepted w')"
      using that(1) by (simp_all add: writer_ok_def m_max_write_def)
    then show ?thesis by (auto simp: prefix_def)
  qed
  moreover have "length (wr_accepted w') + wr_pending w \<le> length (wr_accepted w) + 21"
    using w' by (simp add: writer_ok_def m_max_write_def)
  ultimately show ?thesis using w' by blast
qed

text \<open>A send that fails, and a message written after it.\<close>

definition failed_writer :: writer where
  "failed_writer = start_writer\<lparr>wr_closed := True, wr_accepted := [''ab'']\<rparr>"

lemma reachable_failed_writer: "reachable_writer failed_writer"
proof -
  note step = reachable_writer.step
  have "reachable_writer (accept ''ab'' start_writer)"
    by (rule step [OF reachable_writer.start queued]) (simp add: has_room_def start_writer_def)
  then have "reachable_writer (swap_queue (accept ''ab'' start_writer))"
    by (rule step [OF _ take_batch]) (simp_all add: writer_defs start_writer_def)
  then have "reachable_writer (next_message ''ab'' [] (swap_queue (accept ''ab'' start_writer)))"
    by (rule step [OF _ front]) (simp_all add: writer_defs start_writer_def)
  then have "reachable_writer (send_failed (next_message ''ab'' [] (swap_queue (accept ''ab'' start_writer))))"
    by (rule step [OF _ failure]) (simp add: writer_defs start_writer_def)
  then show ?thesis by (simp add: writer_defs start_writer_def failed_writer_def)
qed

lemma failed_send_blocks_the_writers_witness:
  "length (wr_accepted (accept ''c'' failed_writer)) + wr_pending failed_writer \<le> length (wr_accepted failed_writer) + 21"
proof -
  have "writer_step failed_writer (accept ''c'' failed_writer)"
    by (rule queued) (simp add: has_room_def failed_writer_def start_writer_def)
  from failed_send_blocks_the_writers [OF reachable_failed_writer _ r_into_rtranclp, OF _ this]
  show ?thesis by (simp add: failed_writer_def)
qed

end
