(* ===== verification/Udt_Session.thy ===== *)
theory Udt_Session
  imports Client_World
begin

text \<open>
  A session of the client with a proxy over UDT, \<open>msg/client_session.cc\<close>: requests are numbered, replies are
  matched with the promises of their requests by number, and some replies are handed to a handler instead.
  The writer below a session is that of Udt_Writer; here a message is given to it and may have been
  sent at any time after.
\<close>

section \<open>The state\<close>

text \<open>What a promise and its futures share.\<close>

datatype shared_state = Pending | Ready udt_buffer | Broken

text \<open>
  The numbers of \<open>futures\<close> and \<open>ready_promises\<close> are indices of \<open>shared_states\<close>. A handler is known by a
  number of its own; \<open>called\<close> are the handlers that ran, in order. \<open>write_error\<close> is what the writer says of
  itself, and \<open>written\<close> what it was given: the number of each request and its contents.
\<close>

record udt_session =
  seq_n :: nat
  write_error :: bool
  written :: "(nat \<times> udt_buffer) list"
  shared_states :: "shared_state list"
  futures :: "(int \<times> nat) list"
  ready_promises :: "(int \<times> nat) list"
  auto_handler :: "int list"
  handlers :: "(int \<times> nat) list"
  called :: "nat list"

definition new_session :: udt_session where
  "new_session = \<lparr>seq_n = 0, write_error = False, written = [], shared_states = [], futures = [], ready_promises = [],
     auto_handler = [], handlers = [], called = []\<rparr>"

text \<open>A promise that is destroyed before it has a value.\<close>

definition destroy_promise :: "nat \<Rightarrow> udt_session \<Rightarrow> udt_session" where
  "destroy_promise p s =
     s\<lparr>shared_states := (shared_states s)[p := (case shared_states s ! p of Pending \<Rightarrow> Broken | x \<Rightarrow> x)]\<rparr>"

section \<open>Operations\<close>

text \<open>
  The key of the maps and the result are \<open>int\<close>, the number is \<open>uint64_t\<close>. Assigning to an entry destroys
  the promise that was there.
\<close>

definition enter_promise :: "int \<Rightarrow> udt_session \<Rightarrow> udt_session" where
  "enter_promise i s =
     (let p = length (shared_states s);
          s = (case map_of (ready_promises s) i of None \<Rightarrow> s | Some old \<Rightarrow> destroy_promise old s)
      in s\<lparr>shared_states := shared_states s @ [Pending], futures := AList.update i p (futures s),
           ready_promises := AList.update i p (ready_promises s)\<rparr>)"

definition session_send :: "udt_buffer \<Rightarrow> (udt_session, int) prog" where
  "session_send b = (\<lambda>s.
     if write_error s then (Val (- ECONNRESET), s)
     else
       let i = seq_n s; key = i32 (int i); s = s\<lparr>seq_n := (i + 1) mod 2 ^ 64\<rparr>; s = enter_promise key s
       in (Val key, s\<lparr>written := written s @ [(i, b)]\<rparr>))"

definition registe_handler :: "int \<Rightarrow> nat \<Rightarrow> udt_session \<Rightarrow> udt_session" where
  "registe_handler i f s = s\<lparr>auto_handler := List.insert i (auto_handler s),
     handlers := (if map_of (handlers s) i = None then handlers s @ [(i, f)] else handlers s)\<rparr>"

definition auto_handle :: "int \<Rightarrow> udt_session \<Rightarrow> udt_session" where
  "auto_handle i s = s\<lparr>auto_handler := List.insert i (auto_handler s)\<rparr>"

text \<open>A reply in \<open>do_read\<close>. One whose number has no promise is dropped.\<close>

definition handle_reply :: "int \<Rightarrow> udt_session \<Rightarrow> udt_session" where
  "handle_reply i s =
     (let s = s\<lparr>futures := AList.delete i (futures s)\<rparr>
      in case map_of (handlers s) i of None \<Rightarrow> s | Some f \<Rightarrow> s\<lparr>called := called s @ [f]\<rparr>)"

definition receive_reply :: "nat \<times> udt_buffer \<Rightarrow> udt_session \<Rightarrow> udt_session" where
  "receive_reply = (\<lambda>(n, b) s.
     let i = i32 (int n) in
     case map_of (ready_promises s) i of
       None \<Rightarrow> s
     | Some p \<Rightarrow>
         let s = s\<lparr>ready_promises := AList.delete i (ready_promises s)\<rparr>
         in if i \<in> set (auto_handler s) then destroy_promise p (handle_reply i s)
            else s\<lparr>shared_states := (shared_states s)[p := Ready b]\<rparr>)"

text \<open>
  \<open>wait_op\<close> takes the future out of the table, waits ten seconds, in which the replies \<open>arriving\<close> are
  received, and looks at it. A promise that was destroyed makes \<open>get\<close> throw.
\<close>

definition future_value :: "nat \<Rightarrow> udt_session \<Rightarrow> udt_buffer option outcome" where
  "future_value p s =
     (case shared_states s ! p of Pending \<Rightarrow> Val None | Ready b \<Rightarrow> Val (Some b) | Broken \<Rightarrow> Crash Uncaught_Exception)"

definition wait_op :: "(nat \<times> udt_buffer) list \<Rightarrow> int \<Rightarrow> (udt_session, udt_buffer option) prog" where
  "wait_op arriving i = (\<lambda>s.
     case map_of (futures s) i of
       None \<Rightarrow> (Val None, s)
     | Some p \<Rightarrow>
         let s = fold receive_reply arriving (s\<lparr>futures := AList.delete i (futures s)\<rparr>) in (future_value p s, s))"

text \<open>\<open>block_on_op(-1)\<close> waits for the last request.\<close>

definition block_on_op :: "(nat \<times> udt_buffer) list \<Rightarrow> int \<Rightarrow> (udt_session, int) prog" where
  "block_on_op arriving i = (\<lambda>s.
     let i = (if i = - 1 then i32 (int (seq_n s) - 1) else i) in
     case map_of (futures s) i of
       None \<Rightarrow> (Val 0, s)
     | Some p \<Rightarrow>
         let s = fold receive_reply arriving s
         in (Val (if shared_states s ! p = Pending then - ETIMEDOUT else 0), s))"

section \<open>Sessions over time\<close>

text \<open>What happens to a session: the calls of any thread, and replies.\<close>

datatype session_event =
  Sent udt_buffer | Replied "nat \<times> udt_buffer" | Waited int | Automatic int | Registered int nat | Blocked int

fun happens_to :: "session_event \<Rightarrow> udt_session \<Rightarrow> udt_session" where
  "happens_to (Sent b) s = snd (session_send b s)"
| "happens_to (Replied r) s = receive_reply r s"
| "happens_to (Waited i) s = snd (wait_op [] i s)"
| "happens_to (Automatic i) s = auto_handle i s"
| "happens_to (Registered i f) s = registe_handler i f s"
| "happens_to (Blocked i) s = snd (block_on_op [] i s)"

definition after_events :: "session_event list \<Rightarrow> udt_session \<Rightarrow> udt_session" where
  "after_events = fold happens_to"

section \<open>The invariant\<close>

text \<open>Promises waiting for a reply are distinct and empty; their numbers and those of the futures have been given out.\<close>

definition session_ok :: "udt_session \<Rightarrow> bool" where
  "session_ok s \<longleftrightarrow>
     distinct (map fst (ready_promises s)) \<and> distinct (map snd (ready_promises s)) \<and> distinct (map fst (futures s)) \<and>
     (\<forall>(i, p) \<in> set (ready_promises s). p < length (shared_states s) \<and> shared_states s ! p = Pending \<and>
        0 \<le> i \<and> i < int (seq_n s)) \<and>
     (\<forall>(i, p) \<in> set (futures s). p < length (shared_states s) \<and> 0 \<le> i \<and> i < int (seq_n s))"

lemma update_fresh: "k \<notin> fst ` set al \<Longrightarrow> AList.update k v al = al @ [(k, v)]"
  by (induction al) auto

lemmas delete_filter = AList.delete_eq

text \<open>The number of requests in a list of events.\<close>

definition requests :: "session_event list \<Rightarrow> nat" where
  "requests es = length (filter (\<lambda>e. case e of Sent b \<Rightarrow> True | _ \<Rightarrow> False) es)"

lemma requests_simps [simp]:
  "requests [] = 0" "requests (Sent b # es) = Suc (requests es)" "requests (Replied r # es) = requests es"
  "requests (Waited i # es) = requests es" "requests (Automatic i # es) = requests es"
  "requests (Registered i f # es) = requests es" "requests (Blocked i # es) = requests es"
  by (simp_all add: requests_def)

text \<open>What the operations do to a session whose numbers have not run out.\<close>

lemma key_id: "n < 2 ^ 31 \<Longrightarrow> i32 (int n) = int n"
  by (rule i32_id) (simp add: in_i32_def)

lemma session_ok_fresh:
  assumes "session_ok s"
  shows "int (seq_n s) \<notin> fst ` set (ready_promises s)" and "int (seq_n s) \<notin> fst ` set (futures s)"
  using assms by (auto simp: session_ok_def)

lemma map_of_fresh: "k \<notin> fst ` set al \<Longrightarrow> map_of al k = None"
  by (simp add: map_of_eq_None_iff)

lemma send_ok:
  assumes "session_ok s" and "seq_n s < 2 ^ 31" and "\<not> write_error s"
  shows "session_send b s = (Val (int (seq_n s)), s\<lparr>seq_n := Suc (seq_n s), written := written s @ [(seq_n s, b)],
    shared_states := shared_states s @ [Pending], futures := futures s @ [(int (seq_n s), length (shared_states s))],
    ready_promises := ready_promises s @ [(int (seq_n s), length (shared_states s))]\<rparr>)"
  using assms(2,3) session_ok_fresh [OF assms(1)]
  by (simp add: session_send_def Let_def key_id enter_promise_def map_of_fresh update_fresh)

lemma send_error: "write_error s \<Longrightarrow> session_send b s = (Val (- ECONNRESET), s)"
  by (simp add: session_send_def)

lemma session_ok_send:
  assumes "session_ok s" and "seq_n s < 2 ^ 31"
  shows "session_ok (snd (session_send b s))"
proof (cases "write_error s")
  case False
  then show ?thesis
    using assms session_ok_fresh [OF assms(1)]
    by (auto simp: send_ok session_ok_def nth_append split: prod.splits)
qed (simp add: send_error assms)

lemma distinct_snd: "distinct (map snd al) \<Longrightarrow> (i, p) \<in> set al \<Longrightarrow> (j, p) \<in> set al \<Longrightarrow> i = j"
  by (induction al) (auto simp: image_iff)

lemma distinct_filter_fst: "distinct (map fst al) \<Longrightarrow> distinct (map fst (filter f al))"
  and distinct_filter_snd: "distinct (map snd al) \<Longrightarrow> distinct (map snd (filter f al))"
  by (induction al) (auto simp: image_iff)

lemma session_ok_receive:
  assumes "session_ok s"
  shows "session_ok (receive_reply r s)"
proof -
  obtain n b where r: "r = (n, b)" by (cases r)
  show ?thesis
  proof (cases "map_of (ready_promises s) (i32 (int n))")
    case (Some p)
    then have in_set: "(i32 (int n), p) \<in> set (ready_promises s)" by (rule map_of_SomeD)
    have other: "q \<noteq> p" if "(j, q) \<in> set (ready_promises s)" "j \<noteq> i32 (int n)" for j q
      using distinct_snd [OF _ in_set] that assms by (auto simp: session_ok_def)
    show ?thesis
      using assms other Some unfolding r receive_reply_def
      by (simp add: session_ok_def delete_filter handle_reply_def destroy_promise_def Let_def distinct_filter_fst
          distinct_filter_snd nth_list_update split: option.splits prod.splits)
        (auto split: option.splits)
  qed (simp add: r receive_reply_def assms)
qed

lemma session_ok_wait: "session_ok s \<Longrightarrow> session_ok (snd (wait_op [] i s))"
  by (auto simp: wait_op_def session_ok_def Let_def delete_filter distinct_filter_fst split: option.splits)

lemma session_ok_auto: "session_ok s \<Longrightarrow> session_ok (auto_handle i s)"
  and session_ok_register: "session_ok s \<Longrightarrow> session_ok (registe_handler i f s)"
  by (simp_all add: session_ok_def auto_handle_def registe_handler_def)

lemma session_ok_block: "snd (block_on_op [] i s) = s"
  by (simp add: block_on_op_def Let_def split: option.splits)

lemma seq_n_receive [simp]: "seq_n (receive_reply r s) = seq_n s"
  by (auto simp: receive_reply_def handle_reply_def destroy_promise_def Let_def split: prod.splits option.splits)

lemma seq_n_event: "session_ok s \<Longrightarrow> seq_n s < 2 ^ 31 \<Longrightarrow> seq_n (happens_to e s) \<le> seq_n s + requests [e]"
  by (cases e; cases "write_error s")
    (auto simp: send_ok send_error wait_op_def Let_def auto_handle_def registe_handler_def session_ok_block split: option.splits)

lemma seq_n_event_le:
  assumes "session_ok s" and "seq_n s + requests [e] \<le> 2 ^ 31"
  shows "seq_n (happens_to e s) \<le> seq_n s + requests [e]"
proof (cases "seq_n s < 2 ^ 31")
  case False
  then have "requests [e] = 0" using assms(2) by simp
  then show ?thesis
    by (cases e) (auto simp: wait_op_def Let_def auto_handle_def registe_handler_def session_ok_block split: option.splits)
qed (use seq_n_event [OF assms(1)] in simp)

lemma session_ok_event: "session_ok s \<Longrightarrow> seq_n s + requests [e] \<le> 2 ^ 31 \<Longrightarrow> session_ok (happens_to e s)"
  by (cases e) (simp_all add: session_ok_send session_ok_receive session_ok_wait session_ok_auto session_ok_register
    session_ok_block)

section \<open>Waiting for a reply\<close>

text \<open>
  A request \<open>i\<close> whose promise is \<open>p\<close>, that nobody waited for yet and no handler was registered for: without
  a reply so far, or with the reply \<open>b\<close>.
\<close>

definition tracks :: "int \<Rightarrow> nat \<Rightarrow> udt_buffer option \<Rightarrow> udt_session \<Rightarrow> bool" where
  "tracks i p r s \<longleftrightarrow>
     session_ok s \<and> i \<notin> set (auto_handler s) \<and> i < int (seq_n s) \<and> p < length (shared_states s) \<and>
     (case r of None \<Rightarrow> map_of (ready_promises s) i = Some p
      | Some b \<Rightarrow> shared_states s ! p = Ready b \<and> p \<notin> snd ` set (ready_promises s) \<and> map_of (ready_promises s) i = None)"

definition concerns :: "int \<Rightarrow> session_event \<Rightarrow> bool" where
  "concerns i e \<longleftrightarrow> (case e of Waited j \<Rightarrow> j = i | Automatic j \<Rightarrow> j = i | Registered j f \<Rightarrow> j = i | _ \<Rightarrow> False)"

text \<open>The first reply with that number.\<close>

definition first_reply :: "int \<Rightarrow> (nat \<times> udt_buffer) list \<Rightarrow> udt_buffer option" where
  "first_reply i rs = map_of (map (\<lambda>(n, b). (i32 (int n), b)) rs) i"

fun replies_in :: "session_event list \<Rightarrow> (nat \<times> udt_buffer) list" where
  "replies_in [] = []"
| "replies_in (Replied r # es) = r # replies_in es"
| "replies_in (_ # es) = replies_in es"

lemma map_of_filter_self: "map_of (filter (\<lambda>(k, _). i \<noteq> k) al) i = None"
  by (auto simp: map_of_eq_None_iff)

lemma map_of_filter_other: "j \<noteq> i \<Longrightarrow> map_of (filter (\<lambda>(k, _). j \<noteq> k) al) i = map_of al i"
  by (induction al) auto

lemma tracks_send:
  assumes "tracks i p r s" and "seq_n s < 2 ^ 31"
  shows "tracks i p r (snd (session_send b s))"
proof (cases "write_error s")
  case False
  have "session_ok (snd (session_send b s))" using assms by (simp add: tracks_def session_ok_send)
  then show ?thesis
    using assms False
    by (auto simp: tracks_def send_ok map_add_def nth_append split: option.splits)
qed (simp add: send_error assms)

lemma tracks_receive:
  assumes "tracks i p r s"
  shows "tracks i p (case r of None \<Rightarrow> first_reply i [m] | Some b \<Rightarrow> Some b) (receive_reply m s)"
proof -
  obtain n b where m: "m = (n, b)" by (cases m)
  show ?thesis
  proof (cases "map_of (ready_promises s) (i32 (int n))")
    case (Some q)
    have ok: "session_ok (receive_reply m s)" using assms by (simp add: tracks_def session_ok_receive)
    show ?thesis
    proof (cases "i32 (int n) = i")
      case True
      then have "p \<notin> snd ` set (filter (\<lambda>(k, _). i \<noteq> k) (ready_promises s))"
        using assms Some unfolding tracks_def session_ok_def
        by (auto split: option.splits dest!: map_of_SomeD dest: distinct_snd)
      then show ?thesis
        using assms Some ok True
        by (auto simp: tracks_def m receive_reply_def first_reply_def delete_filter map_of_filter_self split: option.splits)
    next
      case False
      have q: "(i32 (int n), q) \<in> set (ready_promises s)" using Some by (rule map_of_SomeD)
      have "q \<noteq> p"
      proof (cases r)
        case None
        then have "(i, p) \<in> set (ready_promises s)" and "distinct (map snd (ready_promises s))"
          using assms by (auto simp: tracks_def session_ok_def dest: map_of_SomeD)
        then show ?thesis using distinct_snd q False by metis
      next
        case Some
        then show ?thesis using assms q by (force simp: tracks_def)
      qed
      then show ?thesis
        using assms Some ok False
        by (auto simp: tracks_def m receive_reply_def first_reply_def handle_reply_def destroy_promise_def
            Let_def delete_filter map_of_filter_other split: option.splits)
    qed
  next
    case None
    then have "i32 (int n) = i \<longrightarrow> r \<noteq> None" using assms by (cases r) (auto simp: tracks_def)
    with None show ?thesis using assms by (auto simp: m receive_reply_def first_reply_def split: option.splits)
  qed
qed

lemma first_reply_append:
  "first_reply i (rs @ ms) = (case first_reply i rs of None \<Rightarrow> first_reply i ms | Some b \<Rightarrow> Some b)"
  by (simp add: first_reply_def map_add_def split: option.splits)

lemma first_reply_Nil [simp]: "first_reply i [] = None"
  by (simp add: first_reply_def)

lemma tracks_replies:
  "tracks i p r s \<Longrightarrow>
    tracks i p (case r of None \<Rightarrow> first_reply i ms | Some b \<Rightarrow> Some b) (fold receive_reply ms s)"
proof (induction ms arbitrary: r s)
  case (Cons m ms)
  from Cons.IH [OF tracks_receive [OF Cons.prems, of m]] show ?case
    using first_reply_append [of i "[m]" ms] by (cases r; cases "first_reply i [m]") simp_all
next
  case Nil
  then show ?case by (cases r) simp_all
qed

lemma tracks_event:
  assumes "tracks i p r s" and "\<not> concerns i e" and "seq_n s + requests [e] \<le> 2 ^ 31"
  shows "tracks i p (case r of None \<Rightarrow> first_reply i (replies_in [e]) | Some b \<Rightarrow> Some b) (happens_to e s)"
proof (cases e)
  case (Sent b)
  then show ?thesis using tracks_send [OF assms(1)] assms(3) by (cases r) simp_all
next
  case (Replied m)
  then show ?thesis using tracks_receive [OF assms(1), of m] by (cases r) simp_all
next
  case (Waited j)
  then show ?thesis using assms(1) session_ok_wait [of s j]
    by (cases r) (auto simp: tracks_def wait_op_def Let_def split: option.splits)
next
  case (Automatic j)
  then show ?thesis using assms(1,2) session_ok_auto [of s j]
    by (cases r) (auto simp: tracks_def auto_handle_def concerns_def split: option.splits)
next
  case (Registered j f)
  then show ?thesis using assms(1,2) session_ok_register [of s j f]
    by (cases r) (auto simp: tracks_def registe_handler_def concerns_def split: option.splits)
next
  case (Blocked j)
  then show ?thesis using assms(1) by (cases r) (simp_all add: session_ok_block)
qed

text \<open>The future stays in the table until somebody waits for it.\<close>

lemma future_receive:
  "i \<notin> set (auto_handler s) \<Longrightarrow> map_of (futures (receive_reply m s)) i = map_of (futures s) i"
  by (cases m) (auto simp: receive_reply_def handle_reply_def destroy_promise_def Let_def delete_filter
    split: option.splits intro!: map_of_filter_other)

lemma future_event:
  assumes "tracks i p r s" and "\<not> concerns i e" and "seq_n s + requests [e] \<le> 2 ^ 31"
  shows "map_of (futures (happens_to e s)) i = map_of (futures s) i"
proof (cases e)
  case (Sent b)
  then show ?thesis using assms(1,3)
    by (cases "write_error s") (auto simp: send_ok send_error tracks_def map_add_def split: option.splits)
next
  case (Waited j)
  then show ?thesis using assms(2)
    by (auto simp: wait_op_def concerns_def Let_def delete_filter map_of_filter_other split: option.splits)
qed (use assms in \<open>auto simp: future_receive tracks_def auto_handle_def registe_handler_def session_ok_block\<close>)

lemma tracks_events:
  assumes "tracks i p r s" and "map_of (futures s) i = Some p" and "\<forall>e \<in> set es. \<not> concerns i e"
    and "seq_n s + requests es \<le> 2 ^ 31"
  shows "tracks i p (case r of None \<Rightarrow> first_reply i (replies_in es) | Some b \<Rightarrow> Some b) (after_events es s) \<and>
    map_of (futures (after_events es s)) i = Some p"
  using assms
proof (induction es arbitrary: r s)
  case Nil
  then show ?case by (cases r) (simp_all add: after_events_def)
next
  case (Cons e es)
  have one: "requests (e # es) = requests [e] + requests es" and rep: "replies_in (e # es) = replies_in [e] @ replies_in es"
    by (cases e; simp)+
  have ok: "session_ok s" using Cons.prems(1) by (simp add: tracks_def)
  have small: "seq_n (happens_to e s) + requests es \<le> 2 ^ 31"
    using seq_n_event_le [OF ok, of e] Cons.prems(4) one by simp
  have step: "tracks i p (case r of None \<Rightarrow> first_reply i (replies_in [e]) | Some b \<Rightarrow> Some b) (happens_to e s)"
    and fut: "map_of (futures (happens_to e s)) i = Some p"
    using tracks_event [OF Cons.prems(1)] future_event [OF Cons.prems(1)] Cons.prems(2-4) one by simp_all
  from Cons.IH [OF step fut _ small] Cons.prems(3) show ?case
    unfolding rep first_reply_append
    by (cases r; cases "first_reply i (replies_in [e])") (simp_all add: after_events_def)
qed

text \<open>C8: A request gets the first reply with its number, in whatever order replies arrive and whatever other requests are
  sent and waited for meanwhile, or nothing when none has arrived after ten seconds.\<close>

theorem wait_op_gets_its_reply:
  assumes "session_ok s" and "\<not> write_error s" and "i = int (seq_n s)" and "i \<notin> set (auto_handler s)"
    and "\<forall>e \<in> set es. \<not> concerns i e" and "seq_n s + Suc (requests es) \<le> 2 ^ 31"
  shows "fst (session_send b s) = Val i \<and>
    fst (wait_op arriving i (after_events es (snd (session_send b s)))) = Val (first_reply i (replies_in es @ arriving))"
proof -
  have n: "seq_n s < 2 ^ 31" using assms(6) by simp
  let ?t = "snd (session_send b s)" and ?p = "length (shared_states s)"
  have t: "tracks i ?p None ?t" and fut: "map_of (futures ?t) i = Some ?p"
    using assms(1-4) session_ok_send [OF assms(1) n] session_ok_fresh [OF assms(1)]
    by (simp_all add: tracks_def send_ok [OF assms(1) n] map_add_def map_of_fresh)
  have "seq_n ?t + requests es \<le> 2 ^ 31" using assms(6) by (simp add: send_ok [OF assms(1) n assms(2)])
  from tracks_events [OF t fut assms(5) this]
  have u: "tracks i ?p (first_reply i (replies_in es)) (after_events es ?t)"
    and fu: "map_of (futures (after_events es ?t)) i = Some ?p" by simp_all
  let ?u = "after_events es ?t" let ?v = "?u\<lparr>futures := AList.delete i (futures ?u)\<rparr>"
  have "snd (wait_op [] i ?u) = ?v" using fu by (simp add: wait_op_def Let_def)
  then have "session_ok ?v" using u session_ok_wait [of ?u i] by (simp add: tracks_def)
  then have "tracks i ?p (first_reply i (replies_in es)) ?v"
    using u by (simp add: tracks_def split: option.splits)
  from tracks_replies [OF this, of arriving]
  have "tracks i ?p (first_reply i (replies_in es @ arriving)) (fold receive_reply arriving ?v)"
    by (simp add: first_reply_append)
  then have "future_value ?p (fold receive_reply arriving ?v) = Val (first_reply i (replies_in es @ arriving))"
    by (auto simp: tracks_def future_value_def session_ok_def split: option.splits dest!: map_of_SomeD)
  then show ?thesis
    using assms(3) fu by (simp add: send_ok [OF assms(1) n assms(2)] wait_op_def Let_def)
qed

text \<open>Two requests, answered in the other order.\<close>

definition sample_request :: "string \<Rightarrow> udt_buffer" where
  "sample_request d = \<lparr>ub_error = 0, ub_data = d, ub_offset = 0, ub_path = ''/team/data/a'', ub_is_read = True,
     ub_read_size = 4, ub_fid = 0, ub_flags = 0\<rparr>"

lemma session_ok_new: "session_ok new_session"
  by (simp add: session_ok_def new_session_def)

lemma wait_op_gets_its_reply_witness:
  "fst (wait_op [(0, sample_request ''ab'')] 0
     (after_events [Sent (sample_request []), Replied (1, sample_request ''cd'')] (snd (session_send (sample_request []) new_session))))
   = Val (Some (sample_request ''ab''))"
proof -
  have "i32 0 = 0" and "i32 1 = 1" by (simp_all add: i32_id in_i32_def)
  then show ?thesis
    using wait_op_gets_its_reply [OF session_ok_new, of 0 "[Sent (sample_request []), Replied (1, sample_request ''cd'')]"
        "sample_request []" "[(0, sample_request ''ab'')]"]
    by (simp add: new_session_def concerns_def first_reply_def)
qed

section \<open>Handlers\<close>

text \<open>A handler whose request has no promise any more is not called as long as the number is not given out again.\<close>

definition forgotten :: "int \<Rightarrow> nat \<Rightarrow> udt_session \<Rightarrow> bool" where
  "forgotten i f s \<longleftrightarrow> session_ok s \<and> 0 \<le> i \<and> i < int (seq_n s) \<and> map_of (ready_promises s) i = None \<and>
     (\<forall>j. map_of (handlers s) j = Some f \<longrightarrow> j = i) \<and> f \<notin> set (called s)"

lemma forgotten_event:
  assumes "forgotten i f s" and "\<forall>j. e = Registered j f \<longrightarrow> j = i" and "seq_n s + requests [e] \<le> 2 ^ 31"
  shows "forgotten i f (happens_to e s)"
proof -
  have ok: "session_ok (happens_to e s)" using assms(1,3) session_ok_event by (simp add: forgotten_def)
  show ?thesis
  proof (cases e)
    case (Sent b)
    then show ?thesis using assms(1,3) ok
      by (cases "write_error s") (auto simp: forgotten_def send_ok send_error map_add_def split: option.splits)
  next
    case (Replied m)
    obtain n b where m: "m = (n, b)" by (cases m)
    show ?thesis
    proof (cases "map_of (ready_promises s) (i32 (int n))")
      case (Some q)
      then have "i32 (int n) \<noteq> i" using assms(1) by (auto simp: forgotten_def)
      then show ?thesis using assms(1) ok Some Replied
        by (auto simp: forgotten_def m receive_reply_def handle_reply_def destroy_promise_def Let_def delete_filter
          map_of_filter_other split: option.splits)
    qed (use assms(1) in \<open>simp add: Replied m receive_reply_def\<close>)
  next
    case (Waited j)
    then show ?thesis using assms(1) ok by (auto simp: forgotten_def wait_op_def Let_def split: option.splits)
  next
    case (Automatic j)
    then show ?thesis using assms(1) ok by (auto simp: forgotten_def auto_handle_def)
  next
    case (Registered j g)
    then show ?thesis using assms(1,2) ok by (auto simp: forgotten_def registe_handler_def map_add_def split: option.splits if_splits)
  next
    case (Blocked j)
    then show ?thesis using assms(1) by (simp add: session_ok_block)
  qed
qed

lemma forgotten_events:
  "forgotten i f s \<Longrightarrow> \<forall>j. Registered j f \<in> set es \<longrightarrow> j = i \<Longrightarrow> seq_n s + requests es \<le> 2 ^ 31 \<Longrightarrow>
    forgotten i f (after_events es s)"
proof (induction es arbitrary: s)
  case (Cons e es)
  have one: "requests (e # es) = requests [e] + requests es" by (cases e) simp_all
  have ok: "session_ok s" using Cons.prems(1) by (simp add: forgotten_def)
  have "forgotten i f (happens_to e s)"
    using forgotten_event [OF Cons.prems(1)] Cons.prems(2,3) one by force
  moreover have "seq_n (happens_to e s) + requests es \<le> 2 ^ 31"
    using seq_n_event_le [OF ok, of e] Cons.prems(3) one by simp
  ultimately show ?case using Cons.IH Cons.prems(2) by (simp add: after_events_def)
qed (simp add: after_events_def)

text \<open>A handler that is registered before the reply to its request is called by the reply. One that is registered after it,
  which the workers of the queue of writes do not prevent, is never called, whatever arrives later.\<close>

theorem late_handler_is_never_called:
  assumes "session_ok s" and "\<not> write_error s" and "i = int (seq_n s)" and "map_of (handlers s) i = None"
    and "f \<notin> snd ` set (handlers s)" and "f \<notin> set (called s)" and "i \<notin> set (auto_handler s)"
    and "\<forall>j. Registered j f \<in> set es \<longrightarrow> j = i" and "seq_n s + Suc (requests es) \<le> 2 ^ 31"
  shows "f \<in> set (called (receive_reply (seq_n s, c) (registe_handler i f (snd (session_send b s))))) \<and>
    f \<notin> set (called (after_events es (registe_handler i f (receive_reply (seq_n s, c) (snd (session_send b s))))))"
proof
  have n: "seq_n s < 2 ^ 31" using assms(9) by simp
  note send = send_ok [OF assms(1) n assms(2)]
  note fresh = map_of_fresh [OF session_ok_fresh(1) [OF assms(1)]]
  show "f \<in> set (called (receive_reply (seq_n s, c) (registe_handler i f (snd (session_send b s)))))"
    using assms(3,4) n fresh
    by (simp add: send receive_reply_def registe_handler_def handle_reply_def destroy_promise_def key_id map_add_def Let_def)
  let ?t = "receive_reply (seq_n s, c) (snd (session_send b s))"
  have "session_ok ?t" by (intro session_ok_receive session_ok_send assms n)
  moreover have "map_of (ready_promises ?t) i = None" and "seq_n ?t = Suc (seq_n s)" and "handlers ?t = handlers s"
    and "called ?t = called s"
    using assms(3,7) n fresh by (simp_all add: send receive_reply_def key_id map_add_def delete_filter map_of_filter_self Let_def)
  ultimately have "forgotten i f (registe_handler i f ?t)"
    using assms(3-6) session_ok_register [of ?t i f]
    by (auto simp: forgotten_def registe_handler_def map_add_def split: option.splits dest: map_of_SomeD intro: rev_image_eqI)
  from forgotten_events [OF this assms(8)]
  show "f \<notin> set (called (after_events es (registe_handler i f ?t)))"
    using assms(9) by (simp add: forgotten_def registe_handler_def send)
qed

lemma late_handler_is_never_called_witness:
  "7 \<in> set (called (receive_reply (0, sample_request []) (registe_handler 0 7 (snd (session_send (sample_request []) new_session))))) \<and>
   7 \<notin> set (called (after_events [Replied (0, sample_request []), Registered 0 7] (registe_handler 0 7
      (receive_reply (0, sample_request []) (snd (session_send (sample_request []) new_session))))))"
  using late_handler_is_never_called [OF session_ok_new, of 0 7 "[Replied (0, sample_request []), Registered 0 7]"
      "sample_request []" "sample_request []"]
  by (simp add: new_session_def)

section \<open>Waiting for the writes before\<close>

text \<open>After two requests, waiting for the requests before it returns success when the second is answered, although the
  first has no answer.\<close>

theorem block_waits_for_the_last_only:
  assumes "session_ok s" and "\<not> write_error s" and "seq_n s + 2 \<le> 2 ^ 31" and "i = int (seq_n s)"
    and "i + 1 \<notin> set (auto_handler s)"
    and "s' = receive_reply (Suc (seq_n s), c) (snd (session_send b2 (snd (session_send b1 s))))"
  shows "fst (block_on_op [] (- 1) s') = Val 0 \<and> map_of (ready_promises s') i = Some (length (shared_states s))"
proof -
  have n: "seq_n s < 2 ^ 31" and m: "Suc (seq_n s) < 2 ^ 31" using assms(3) by simp_all
  note send = send_ok [OF assms(1) n assms(2)]
  have ok: "session_ok (snd (session_send b1 s))" by (rule session_ok_send [OF assms(1) n])
  have "seq_n (snd (session_send b1 s)) < 2 ^ 31" and "\<not> write_error (snd (session_send b1 s))"
    using m assms(2) by (simp_all add: send)
  note send2 = send_ok [OF ok this]
  have two: "snd (session_send b2 (snd (session_send b1 s))) = s\<lparr>seq_n := Suc (Suc (seq_n s)),
    written := written s @ [(seq_n s, b1), (Suc (seq_n s), b2)], shared_states := shared_states s @ [Pending, Pending],
    futures := futures s @ [(i, length (shared_states s)), (i + 1, Suc (length (shared_states s)))],
    ready_promises := ready_promises s @ [(i, length (shared_states s)), (i + 1, Suc (length (shared_states s)))]\<rparr>"
    by (subst send2) (simp add: send assms(4))
  have key: "i32 (1 + int (seq_n s)) = 1 + int (seq_n s)" using key_id [OF m] by simp
  have "map_of (ready_promises s) i = None" and "map_of (ready_promises s) (1 + i) = None" and "map_of (futures s) (1 + i) = None"
    using assms(1,4) by (auto simp: session_ok_def map_of_eq_None_iff)
  then show ?thesis
    using assms(4,5) key
    by (simp add: assms(6) two receive_reply_def block_on_op_def map_add_def delete_filter
      map_of_filter_other nth_append nth_list_update Let_def add.commute)
qed

lemma block_waits_for_the_last_only_witness:
  "fst (block_on_op [] (- 1) (receive_reply (1, sample_request []) (snd (session_send (sample_request [])
     (snd (session_send (sample_request ''ab'') new_session)))))) = Val 0"
  using block_waits_for_the_last_only [OF session_ok_new, of 0 _ "sample_request []" "sample_request []" "sample_request ''ab''"]
  by (simp add: new_session_def)

section \<open>Numbers\<close>

text \<open>After 2147483648 requests the number of the next one is negative, which the callers take for an error, although the
  request is given to the writer.\<close>

theorem numbers_run_out:
  assumes "\<not> write_error s" and "seq_n s = 2 ^ 31"
  shows "fst (session_send b s) = Val (- (2 ^ 31)) \<and> (2 ^ 31, b) \<in> set (written (snd (session_send b s)))"
  using assms by (simp add: session_send_def Let_def i32_def signed_take_bit_def enter_promise_def destroy_promise_def
    not_int_def mask_eq_exp_minus_1 split: option.splits)

lemma numbers_run_out_witness:
  "fst (session_send (sample_request []) (new_session\<lparr>seq_n := 2 ^ 31\<rparr>)) = Val (- (2 ^ 31))"
  using numbers_run_out [of "new_session\<lparr>seq_n := 2 ^ 31\<rparr>" "sample_request []"] by (simp add: new_session_def)

end
