(* ===== verification/Op_Queue.thy ===== *)
theory Op_Queue
  imports Prelude
begin

text \<open>
  The queue of operations of the I/O proxy and their dispatch to workers, \<open>io_proxy/io_proxy.cc\<close>. Threads
  queue operations, the thread of the proxy takes the whole queue and gives the operations one by one to idle
  workers. A run is the list of what happens; an event that is not possible is a thread that waits.
\<close>

section \<open>The queue\<close>

text \<open>
  \<open>op_waiting_line\<close>; \<open>taken\<close>, the queue \<open>t\<close> that \<open>_dispatch\<close> has swapped out and not given away yet; the
  list of idle workers; and \<open>handed\<close>, the events \<open>OpQueued\<close> with the workers they were queued for.
  \<open>lock_left\<close>: a thread has returned with \<open>m_queue_mutex\<close> locked.
\<close>

record 'o op_queue =
  op_waiting_line :: "'o list"
  taken :: "'o list"
  idle_workers :: "nat list"
  handed :: "(nat \<times> 'o) list"
  lock_left :: bool

definition m_max_op :: nat where
  "m_max_op = 1000"

definition new_op_queue :: "'o op_queue" where
  "new_op_queue = \<lparr>op_waiting_line = [], taken = [], idle_workers = [], handed = [], lock_left = False\<rparr>"

text \<open>Whether the operation was queued, or None while the caller waits. The refusal forgets to unlock.\<close>

definition queue_op :: "'o \<Rightarrow> bool \<Rightarrow> 'o op_queue \<Rightarrow> (bool \<times> 'o op_queue) option" where
  "queue_op oper block q =
     (if lock_left q then None
      else if length (op_waiting_line q) > m_max_op then
        if block then None else Some (False, q\<lparr>lock_left := True\<rparr>)
      else Some (True, q\<lparr>op_waiting_line := op_waiting_line q @ [oper]\<rparr>))"

text \<open>\<open>entry\<close> and \<open>_dispatch\<close>: the queue is taken when there is something in it and nothing left to give.\<close>

definition dispatch_ops :: "'o op_queue \<Rightarrow> 'o op_queue option" where
  "dispatch_ops q =
     (if lock_left q \<or> taken q \<noteq> [] \<or> op_waiting_line q = [] then None
      else Some (q\<lparr>taken := op_waiting_line q, op_waiting_line := []\<rparr>))"

text \<open>\<open>_dispatch_unsafe\<close> with \<open>_get_idle_worker\<close>, which spins until there is one.\<close>

definition give_op :: "'o op_queue \<Rightarrow> 'o op_queue option" where
  "give_op q =
     (case (taken q, idle_workers q) of
        (oper # ops, w # ws) \<Rightarrow> Some (q\<lparr>taken := ops, idle_workers := ws, handed := handed q @ [(w, oper)]\<rparr>)
      | _ \<Rightarrow> None)"

definition add_idle_worker :: "nat \<Rightarrow> 'o op_queue \<Rightarrow> 'o op_queue" where
  "add_idle_worker w q = q\<lparr>idle_workers := idle_workers q @ [w]\<rparr>"

section \<open>Runs\<close>

datatype 'o op_event = Op_Arrives 'o | Ops_Taken | Op_Given | Worker_Idle nat

fun op_step :: "'o op_event \<Rightarrow> 'o op_queue \<Rightarrow> 'o op_queue option" where
  "op_step (Op_Arrives oper) q = map_option snd (queue_op oper True q)"
| "op_step Ops_Taken q = dispatch_ops q"
| "op_step Op_Given q = give_op q"
| "op_step (Worker_Idle w) q = Some (add_idle_worker w q)"

primrec op_run :: "'o op_event list \<Rightarrow> 'o op_queue \<Rightarrow> 'o op_queue option" where
  "op_run [] q = Some q"
| "op_run (e # es) q = (case op_step e q of None \<Rightarrow> None | Some q' \<Rightarrow> op_run es q')"

fun arrived :: "'o op_event list \<Rightarrow> 'o list" where
  "arrived [] = []"
| "arrived (Op_Arrives oper # es) = oper # arrived es"
| "arrived (_ # es) = arrived es"

fun offered :: "'o op_event list \<Rightarrow> nat list" where
  "offered [] = []"
| "offered (Worker_Idle w # es) = w # offered es"
| "offered (_ # es) = offered es"

lemma arrived_append: "arrived (xs @ ys) = arrived xs @ arrived ys"
  by (induction xs rule: arrived.induct) simp_all

lemma op_run_append:
  "op_run (xs @ ys) q = (case op_run xs q of None \<Rightarrow> None | Some q' \<Rightarrow> op_run ys q')"
  by (induction xs arbitrary: q) (auto split: option.splits)

lemmas op_defs = queue_op_def dispatch_ops_def give_op_def add_idle_worker_def

lemma op_step_accounts:
  assumes "op_step e q = Some q'" and "length (op_waiting_line q) \<le> Suc m_max_op"
  shows "map snd (handed q') @ taken q' @ op_waiting_line q' = map snd (handed q) @ taken q @ op_waiting_line q @ arrived [e] \<and>
    map fst (handed q') @ idle_workers q' = map fst (handed q) @ idle_workers q @ offered [e] \<and>
    length (op_waiting_line q') \<le> Suc m_max_op"
  using assms by (cases e) (auto simp: op_defs split: if_splits list.splits)

lemma op_run_accounts:
  "op_run es q = Some q' \<Longrightarrow> length (op_waiting_line q) \<le> Suc m_max_op \<Longrightarrow>
    map snd (handed q') @ taken q' @ op_waiting_line q' = map snd (handed q) @ taken q @ op_waiting_line q @ arrived es \<and>
    map fst (handed q') @ idle_workers q' = map fst (handed q) @ idle_workers q @ offered es \<and>
    length (op_waiting_line q') \<le> Suc m_max_op"
proof (induction es arbitrary: q)
  case (Cons e es)
  then obtain q1 where q1: "op_step e q = Some q1" and run: "op_run es q1 = Some q'" by (auto split: option.splits)
  have "arrived (e # es) = arrived [e] @ arrived es" and "offered (e # es) = offered [e] @ offered es"
    by (cases e; simp)+
  note step = op_step_accounts [OF q1 Cons.prems(2)]
  have "map snd (handed q1) @ taken q1 @ op_waiting_line q1 @ arrived es =
      map snd (handed q) @ taken q @ op_waiting_line q @ arrived [e] @ arrived es"
    and "map fst (handed q1) @ idle_workers q1 @ offered es = map fst (handed q) @ idle_workers q @ offered [e] @ offered es"
    using step arg_cong [where f = "\<lambda>xs. xs @ arrived es"] arg_cong [where f = "\<lambda>xs. xs @ offered es"] by fastforce+
  with Cons.IH [OF run] step \<open>arrived (e # es) = _\<close> \<open>offered (e # es) = _\<close> show ?case by simp
qed simp

lemma queue_keeps_ops:
  assumes "op_run es new_op_queue = Some q"
  shows "arrived es = map snd (handed q) @ taken q @ op_waiting_line q \<and>
    offered es = map fst (handed q) @ idle_workers q \<and> length (op_waiting_line q) \<le> 1001"
  using op_run_accounts [OF assms] by (simp add: new_op_queue_def m_max_op_def)

text \<open>C19: No operation is lost, repeated or overtaken: those that were queued are the ones given to workers, followed by
  those the dispatcher has taken and those that wait; every worker was given one operation each time it was idle, in turn,
  and at most 1001 wait.\<close>

theorem queue_keeps_operations:
  assumes "op_run es new_op_queue = Some q"
  shows "arrived es = map snd (handed q) @ taken q @ op_waiting_line q \<and>
    offered es = map fst (handed q) @ idle_workers q \<and> length (op_waiting_line q) \<le> 1001"
  by (rule queue_keeps_ops [OF assms])

theorem queue_keeps_operations_witness:
  "arrived [Op_Arrives ''a'', Worker_Idle 3, Ops_Taken, Op_Arrives ''b'', Op_Given] = [''a''] @ [] @ [''b'']"
  using queue_keeps_operations [of "[Op_Arrives ''a'', Worker_Idle 3, Ops_Taken, Op_Arrives ''b'', Op_Given]"
      "\<lparr>op_waiting_line = [''b''], taken = [], idle_workers = [], handed = [(3, ''a'')], lock_left = False\<rparr>"]
  by (simp add: op_defs new_op_queue_def m_max_op_def)

section \<open>Progress\<close>

lemma give_all:
  assumes "length (taken q) \<le> length (idle_workers q)"
  shows "\<exists>q'. op_run (replicate (length (taken q)) Op_Given) q = Some q' \<and> taken q' = [] \<and>
    op_waiting_line q' = op_waiting_line q \<and> lock_left q' = lock_left q \<and>
    idle_workers q' = drop (length (taken q)) (idle_workers q)"
  using assms
proof (induction "taken q" arbitrary: q)
  case (Cons oper ops)
  then obtain w ws where "idle_workers q = w # ws" by (cases "idle_workers q") auto
  moreover have "taken q = oper # ops" using Cons.hyps(2) by simp
  ultimately show ?case
    using Cons.hyps(1) [of "q\<lparr>taken := ops, idle_workers := ws, handed := handed q @ [(w, oper)]\<rparr>"] Cons.prems
    by (simp add: give_op_def)
qed simp

text \<open>As long as there are idle workers for all operations, the dispatcher alone gives every one of them away, in
  as many steps as there are operations and one more to take the queue.\<close>

theorem idle_workers_empty_the_queue:
  assumes "\<not> lock_left q" and "length (taken q) + length (op_waiting_line q) \<le> length (idle_workers q)"
  shows "\<exists>es q'. op_run es q = Some q' \<and> set es \<subseteq> {Ops_Taken, Op_Given} \<and> taken q' = [] \<and> op_waiting_line q' = [] \<and>
    length es \<le> Suc (length (taken q) + length (op_waiting_line q))"
proof -
  from give_all [of q] assms(2) obtain q1 where q1: "op_run (replicate (length (taken q)) Op_Given) q = Some q1"
    "taken q1 = []" "op_waiting_line q1 = op_waiting_line q" "lock_left q1 = lock_left q"
    "idle_workers q1 = drop (length (taken q)) (idle_workers q)" by auto
  show ?thesis
  proof (cases "op_waiting_line q = []")
    case True
    then show ?thesis using q1 by (intro exI [of _ "replicate (length (taken q)) Op_Given"] exI [of _ q1]) auto
  next
    case False
    let ?q2 = "q1\<lparr>taken := op_waiting_line q, op_waiting_line := []\<rparr>"
    have "length (taken ?q2) \<le> length (idle_workers ?q2)" using assms(2) q1 by simp
    from give_all [OF this] obtain q3 where
      q3: "op_run (replicate (length (op_waiting_line q)) Op_Given) ?q2 = Some q3" "taken q3 = []" "op_waiting_line q3 = []"
      by auto
    have "op_step Ops_Taken q1 = Some ?q2" using q1 False assms(1) by (simp add: dispatch_ops_def)
    then have "op_run (replicate (length (taken q)) Op_Given @ Ops_Taken # replicate (length (op_waiting_line q)) Op_Given) q = Some q3"
      using q1(1) q3(1) by (simp add: op_run_append)
    then show ?thesis
      using q3 by (intro exI [of _ "replicate (length (taken q)) Op_Given @ Ops_Taken # replicate (length (op_waiting_line q)) Op_Given"]
        exI [of _ q3]) auto
  qed
qed

theorem idle_workers_empty_the_queue_witness:
  "\<exists>es q'. op_run es ((new_op_queue :: string op_queue)\<lparr>op_waiting_line := [''a''], idle_workers := [1, 2]\<rparr>) = Some q' \<and>
     set es \<subseteq> {Ops_Taken, Op_Given} \<and> taken q' = [] \<and> op_waiting_line q' = []"
  using idle_workers_empty_the_queue [of "(new_op_queue :: string op_queue)\<lparr>op_waiting_line := [''a''], idle_workers := [1, 2]\<rparr>"]
  by (fastforce simp: new_op_queue_def)

section \<open>Without idle workers\<close>

lemma nothing_given:
  assumes "op_run es q = Some q'" and "offered es = []" and "idle_workers q = []"
  shows "handed q' = handed q \<and> idle_workers q' = [] \<and> (taken q \<noteq> [] \<longrightarrow> taken q' = taken q) \<and>
    (length (taken q) \<le> Suc m_max_op \<longrightarrow> length (op_waiting_line q) \<le> Suc m_max_op \<longrightarrow> length (taken q') \<le> Suc m_max_op)"
  using assms
proof (induction es arbitrary: q)
  case (Cons e es)
  then obtain q1 where q1: "op_step e q = Some q1" and run: "op_run es q1 = Some q'" by (auto split: option.splits)
  have "handed q1 = handed q \<and> idle_workers q1 = [] \<and> (taken q \<noteq> [] \<longrightarrow> taken q1 = taken q) \<and>
    (length (taken q) \<le> Suc m_max_op \<longrightarrow> length (op_waiting_line q) \<le> Suc m_max_op \<longrightarrow> length (taken q1) \<le> Suc m_max_op)"
    and "offered es = []"
    using q1 Cons.prems(2,3) by (cases e; auto simp: op_defs split: if_splits list.splits)+
  moreover have "length (op_waiting_line q) \<le> Suc m_max_op \<longrightarrow> length (op_waiting_line q1) \<le> Suc m_max_op"
    using op_step_accounts [OF q1] by blast
  ultimately show ?case using Cons.IH [OF run] by auto
qed simp

text \<open>When no worker becomes idle, as it is since \<open>Waiting::Waiting\<close> no longer calls \<open>add_idle_worker\<close>, no operation is
  ever given to a worker, and at most 2002 can be queued before every caller of \<open>queue_op\<close> waits forever.\<close>

theorem without_idle_workers_nothing_runs:
  assumes "op_run es new_op_queue = Some q" and "offered es = []"
  shows "handed q = [] \<and> length (arrived es) \<le> 2002 \<and>
    (length (op_waiting_line q) = 1001 \<and> taken q \<noteq> [] \<longrightarrow>
      (\<forall>es' q' oper. op_run es' q = Some q' \<and> offered es' = [] \<longrightarrow> arrived es' = [] \<and> queue_op oper True q' = None))"
proof -
  have idle: "idle_workers q = []" and none: "handed q = []" and few: "length (taken q) \<le> 1001"
    using nothing_given [OF assms] by (simp_all add: new_op_queue_def m_max_op_def)
  have "arrived es' = [] \<and> queue_op oper True q' = None"
    if full: "length (op_waiting_line q) = 1001" "taken q \<noteq> []" and run: "op_run es' q = Some q'" "offered es' = []" for es' q' oper
  proof -
    note same = nothing_given [OF run idle]
    have "taken q' @ op_waiting_line q' = taken q @ op_waiting_line q @ arrived es'" and "length (op_waiting_line q') \<le> 1001"
      using op_run_accounts [OF run(1)] full(1) same none by (simp_all add: m_max_op_def)
    then have eq: "op_waiting_line q' = op_waiting_line q @ arrived es'" and le: "length (op_waiting_line q') \<le> 1001"
      using same full(2) by simp_all
    then have "arrived es' = []" and "length (op_waiting_line q') = 1001" using full(1) by simp_all
    then show ?thesis by (simp add: queue_op_def m_max_op_def)
  qed
  moreover have "length (arrived es) \<le> 2002"
    using queue_keeps_ops [OF assms(1)] few none by simp
  ultimately show ?thesis using none by blast
qed

theorem without_idle_workers_nothing_runs_witness:
  "handed ((new_op_queue :: string op_queue)\<lparr>taken := [''a''], op_waiting_line := [''b'']\<rparr>) = []"
  using without_idle_workers_nothing_runs [of "[Op_Arrives ''a'', Ops_Taken, Op_Arrives ''b'']"
      "(new_op_queue :: string op_queue)\<lparr>taken := [''a''], op_waiting_line := [''b'']\<rparr>"]
  by (simp add: op_defs new_op_queue_def m_max_op_def)

section \<open>Refusals\<close>

text \<open>A caller that does not want to wait is refused when the queue is full, and from then on no other thread gets the
  mutex: nothing is queued and nothing is taken any more.\<close>

theorem refusal_keeps_the_mutex:
  assumes "\<not> lock_left q" and "length (op_waiting_line q) > 1000"
  shows "\<exists>q'. queue_op oper False q = Some (False, q') \<and>
    (\<forall>es q''. op_run es q' = Some q'' \<longrightarrow> arrived es = [] \<and> op_waiting_line q'' = op_waiting_line q)"
proof -
  let ?q = "q\<lparr>lock_left := True\<rparr>"
  have "arrived es = [] \<and> op_waiting_line q'' = op_waiting_line p" if "lock_left p" "op_run es p = Some q''" for es q'' and p :: "'a op_queue"
    using that
  proof (induction es arbitrary: p)
    case (Cons e es)
    then obtain p1 where p1: "op_step e p = Some p1" and run: "op_run es p1 = Some q''" by (auto split: option.splits)
    from p1 Cons.prems(1) have "lock_left p1 \<and> op_waiting_line p1 = op_waiting_line p \<and> arrived (e # es) = arrived es"
      by (cases e) (auto simp: op_defs split: list.splits)
    then show ?case using Cons.IH [OF _ run] by simp
  qed simp
  from this [of ?q] show ?thesis using assms by (intro exI [of _ ?q]) (simp add: queue_op_def m_max_op_def)
qed

theorem refusal_keeps_the_mutex_witness:
  "\<exists>q'. queue_op ''c'' False ((new_op_queue :: string op_queue)\<lparr>op_waiting_line := replicate 1001 ''a''\<rparr>) = Some (False, q')"
  using refusal_keeps_the_mutex [of "(new_op_queue :: string op_queue)\<lparr>op_waiting_line := replicate 1001 ''a''\<rparr>" "''c''"]
  by (auto simp: new_op_queue_def)

end
