(* ===== verification/Udt_Proxy.thy ===== *)
theory Udt_Proxy
  imports Udt_Session Op_Queue Sync_Io Fd_Props
begin

text \<open>
  The proxy's end of a UDT session, \<open>msg/server_session.cc\<close>, and the whole way of a read or a write over UDT: the client's
  session (Udt_Session), the server's session, the queue of operations (Op_Queue), their execution (Sync_Io), and the
  replies.
\<close>

section \<open>The session of the server\<close>

text \<open>The operation that a message asks for. \<open>data_path\<close> is the directory of the proxy, to which the path is appended.\<close>

definition request_op :: "string \<Rightarrow> nat \<times> udt_buffer \<Rightarrow> data_op" where
  "request_op data_path = (\<lambda>(n, b).
     \<lparr>op_kind = IO_PROXY_DATA, op_id = n, open_flags = ub_flags b, error_code = - 1, should_prepare = ub_is_read b,
      do_operation = (if ub_is_read b then D_read else D_write), do_path = data_path @ ub_path b, do_newpath = [],
      obuf = None, ibuf = (if ub_is_read b then [] else ub_data b),
      do_size = (if ub_is_read b then ub_read_size b else length (ub_data b)), do_offset = s64 (ub_offset b),
      do_mode = 0, linkbuf = []\<rparr>)"

text \<open>
  The reply in the callback of an operation. The size passes through an \<open>int\<close> into the \<open>uint32_t\<close> of the
  buffer, and that many bytes are packed from the memory that was read into.
\<close>

definition packed_size :: "data_op \<Rightarrow> nat" where
  "packed_size x = nat (i32 (int (do_size x)) mod 2 ^ 32)"

definition reply_message :: "'z indet_scheme \<Rightarrow> data_op \<Rightarrow> (nat \<times> udt_buffer) outcome" where
  "reply_message d x =
     (if do_operation x = D_read then
        case obuf x of
          None \<Rightarrow> if packed_size x = 0 then Val (op_id x, \<lparr>ub_error = error_code x, ub_data = [], ub_offset = u64 (do_offset x), ub_path = [],
              ub_is_read = False, ub_read_size = u64 (ud_i64 d), ub_fid = ud_int d, ub_flags = ud_int d\<rparr>)
            else Crash Null_Deref
        | Some m \<Rightarrow>
            if packed_size x > length m then Crash Out_Of_Range
            else Val (op_id x, \<lparr>ub_error = error_code x, ub_data = take (packed_size x) m, ub_offset = u64 (do_offset x), ub_path = [],
              ub_is_read = False, ub_read_size = u64 (ud_i64 d), ub_fid = ud_int d, ub_flags = ud_int d\<rparr>)
      else Val (op_id x, \<lparr>ub_error = error_code x, ub_data = [], ub_offset = u64 (ud_i64 d), ub_path = [],
        ub_is_read = True, ub_read_size = u64 (ud_i64 d), ub_fid = ud_int d, ub_flags = ud_int d\<rparr>))"

text \<open>What a worker would do with the operation: prepare it, execute it, and call back.\<close>

definition execute_op :: "('e, 'b) kernel \<Rightarrow> string \<Rightarrow> 'z indet_scheme \<Rightarrow> data_op \<Rightarrow> ('e, 'b, nat \<times> udt_buffer) iprog" where
  "execute_op k garbage d x =
     bnd (ioproxy_do_data_op k (prepare_data garbage x)) (\<lambda>(_, x).
     case reply_message d x of Val m \<Rightarrow> ret m | Crash c \<Rightarrow> crash c)"

section \<open>Both ends\<close>

text \<open>
  The sessions of the clients and how many messages of each the server has read; the queue, the state of the proxy, the
  replies on their way with the session they are for, and what happens during each of the next waits.
\<close>

datatype udt_event =
  Message_Read nat | Queue_Taken | Queue_Given | Op_Executed nat | Reply_Arrives nat

record ('e, 'b) udt_world =
  uw_sessions :: "udt_session list"
  uw_read :: "nat list"
  uw_queue :: "(nat \<times> data_op) op_queue"
  uw_proxy :: "('e, 'b) iop"
  uw_replies :: "(nat \<times> nat \<times> udt_buffer) list"
  uw_waits :: "udt_event list list"

definition queue_moves :: "(nat \<times> data_op) op_event \<Rightarrow> ('e, 'b) udt_world \<Rightarrow> ('e, 'b) udt_world" where
  "queue_moves e w = (case op_step e (uw_queue w) of None \<Rightarrow> w | Some q \<Rightarrow> w\<lparr>uw_queue := q\<rparr>)"

text \<open>
  A step that is not possible leaves the world as it is: a session without a further message, a thread that waits for
  room. An operation given to a worker may be executed at any time after.
\<close>

fun udt_step :: "('e, 'b) kernel \<Rightarrow> string \<Rightarrow> 'z indet_scheme \<Rightarrow> udt_event \<Rightarrow> ('e, 'b) udt_world \<Rightarrow> ('e, 'b) udt_world" where
  "udt_step k garbage d (Message_Read c) w =
     (if c < length (uw_sessions w) \<and> c < length (uw_read w) \<and> uw_read w ! c < length (written (uw_sessions w ! c)) then
        case queue_op (c, request_op (data_dir (uw_proxy w)) (written (uw_sessions w ! c) ! (uw_read w ! c))) True (uw_queue w) of
          None \<Rightarrow> w
        | Some (_, q) \<Rightarrow> w\<lparr>uw_queue := q, uw_read := (uw_read w)[c := Suc (uw_read w ! c)]\<rparr>
      else w)"
| "udt_step k garbage d Queue_Taken w = queue_moves Ops_Taken w"
| "udt_step k garbage d Queue_Given w = queue_moves Op_Given w"
| "udt_step k garbage d (Op_Executed i) w =
     (if i < length (handed (uw_queue w)) then
        case snd (handed (uw_queue w) ! i) of (c, x) \<Rightarrow>
          (case execute_op k garbage d x (uw_proxy w) of
             (Val m, s) \<Rightarrow> w\<lparr>uw_proxy := s, uw_replies := uw_replies w @ [(c, m)]\<rparr>
           | (Crash _, s) \<Rightarrow> w\<lparr>uw_proxy := s\<rparr>)
      else w)"
| "udt_step k garbage d (Reply_Arrives i) w =
     (if i < length (uw_replies w) then
        case uw_replies w ! i of (c, m) \<Rightarrow>
          if c < length (uw_sessions w) then
            w\<lparr>uw_sessions := (uw_sessions w)[c := receive_reply m (uw_sessions w ! c)],
              uw_replies := take i (uw_replies w) @ drop (Suc i) (uw_replies w)\<rparr>
          else w
      else w)"

text \<open>
  The network of a client whose UDT sessions all lead to this proxy. While a client waits, the next list of events
  happens. A promise that was destroyed, for which nobody waits, counts as no answer.
\<close>

definition pass_time :: "('e, 'b) kernel \<Rightarrow> string \<Rightarrow> 'z indet_scheme \<Rightarrow> ('e, 'b) udt_world \<Rightarrow> ('e, 'b) udt_world" where
  "pass_time k garbage d w =
     (case uw_waits w of [] \<Rightarrow> w | es # ess \<Rightarrow> fold (udt_step k garbage d) es (w\<lparr>uw_waits := ess\<rparr>))"

definition on_session :: "nat \<Rightarrow> (udt_session \<Rightarrow> udt_session) \<Rightarrow> ('e, 'b) udt_world \<Rightarrow> ('e, 'b) udt_world" where
  "on_session c f w = w\<lparr>uw_sessions := (uw_sessions w)[c := f (uw_sessions w ! c)]\<rparr>"

definition udt_net :: "('e, 'b) kernel \<Rightarrow> string \<Rightarrow> 'z indet_scheme \<Rightarrow> ('e, 'b) udt_world net" where
  "udt_net k garbage d = dead_net\<lparr>
     udt_create := (\<lambda>ip port w. (Some (length (uw_sessions w)),
       w\<lparr>uw_sessions := uw_sessions w @ [new_session], uw_read := uw_read w @ [0]\<rparr>)),
     udt_write := (\<lambda>c b w.
       case session_send b (uw_sessions w ! c) of (Val i, s) \<Rightarrow> (i, on_session c (\<lambda>_. s) w) | (Crash _, s) \<Rightarrow> (- 1, w)),
     udt_wait := (\<lambda>c i w.
       case map_of (futures (uw_sessions w ! c)) i of
         None \<Rightarrow> (None, w)
       | Some p \<Rightarrow>
           let w = pass_time k garbage d (on_session c (\<lambda>s. s\<lparr>futures := AList.delete i (futures s)\<rparr>) w)
           in (case future_value p (uw_sessions w ! c) of Val r \<Rightarrow> (r, w) | Crash _ \<Rightarrow> (None, w))),
     udt_auto := (\<lambda>c i w. on_session c (auto_handle i) w)\<rparr>"

section \<open>Nothing is answered\<close>

text \<open>The proxy as it starts: no worker is idle, for none ever says so, and nothing has been given to one.\<close>

definition starved :: "('e, 'b) udt_world \<Rightarrow> bool" where
  "starved w \<longleftrightarrow> idle_workers (uw_queue w) = [] \<and> handed (uw_queue w) = [] \<and> uw_replies w = []"

lemma starved_step:
  assumes "starved w"
  shows "starved (udt_step k garbage d e w) \<and> uw_sessions (udt_step k garbage d e w) = uw_sessions w"
  using assms
  by (cases e) (auto simp: starved_def queue_moves_def op_defs split: option.splits list.splits if_splits)

lemma starved_steps:
  "starved w \<Longrightarrow> starved (fold (udt_step k garbage d) es w) \<and> uw_sessions (fold (udt_step k garbage d) es w) = uw_sessions w"
  by (induction es arbitrary: w) (auto simp: starved_step)

lemma starved_time:
  assumes "starved w"
  shows "starved (pass_time k garbage d w) \<and> uw_sessions (pass_time k garbage d w) = uw_sessions w"
proof -
  have "starved (w\<lparr>uw_waits := ess\<rparr>)" for ess using assms by (simp add: starved_def)
  from starved_steps [OF this, of k garbage d] show ?thesis using assms by (simp add: pass_time_def split: list.splits)
qed

text \<open>A client that has no session with the node yet, or one that works.\<close>

definition session_usable :: "udt_session \<Rightarrow> bool" where
  "session_usable s \<longleftrightarrow> session_ok s \<and> \<not> write_error s \<and> seq_n s < 2 ^ 31"

definition may_connect :: "ioproxy_node \<Rightarrow> ('e, 'b) udt_world client \<Rightarrow> bool" where
  "may_connect node s \<longleftrightarrow>
     (case map_of (udt_clients s) (iop_uuid node) of
        None \<Rightarrow> True
      | Some p \<Rightarrow> (\<exists>c. p = Some c \<and> c < length (uw_sessions (net_env s)) \<and> session_usable (uw_sessions (net_env s) ! c)))"

lemma udt_net_sel [simp]:
  "udt_create (udt_net k garbage d) ip port w = (Some (length (uw_sessions w)),
     w\<lparr>uw_sessions := uw_sessions w @ [new_session], uw_read := uw_read w @ [0]\<rparr>)"
  "udt_write (udt_net k garbage d) c b w =
     (case session_send b (uw_sessions w ! c) of (Val i, s) \<Rightarrow> (i, on_session c (\<lambda>_. s) w) | (Crash _, s) \<Rightarrow> (- 1, w))"
  by (simp_all add: udt_net_def)

lemma udt_wait_net:
  "map_of (futures (uw_sessions w ! c)) i = Some p \<Longrightarrow>
    udt_wait (udt_net k garbage d) c i w =
      (let w = pass_time k garbage d (on_session c (\<lambda>s. s\<lparr>futures := AList.delete i (futures s)\<rparr>) w)
       in case future_value p (uw_sessions w ! c) of Val r \<Rightarrow> (r, w) | Crash _ \<Rightarrow> (None, w))"
  by (simp add: udt_net_def)

lemma wp_udt_channel_starved:
  assumes "may_connect node s" and "starved (net_env s)"
  shows "wp (udt_channel (udt_net k garbage d) node False) (\<lambda>r t. \<exists>c. r = Val (Some c) \<and>
    c < length (uw_sessions (net_env t)) \<and> session_usable (uw_sessions (net_env t) ! c) \<and> starved (net_env t)) s"
proof (cases "map_of (udt_clients s) (iop_uuid node)")
  case None
  then show ?thesis
    using assms(2) session_ok_new by (simp add: udt_channel_def session_usable_def starved_def new_session_def)
next
  case (Some p)
  then show ?thesis using assms by (auto simp: udt_channel_def may_connect_def)
qed

text \<open>The answer of a wait right after the request.\<close>

lemma starved_exchange:
  assumes "starved w" and "c < length (uw_sessions w)" and "session_usable (uw_sessions w ! c)"
    and "udt_write (udt_net k garbage d) c b w = (i, w')"
  shows "0 \<le> i \<and> fst (udt_wait (udt_net k garbage d) c i w') = None"
proof -
  let ?s = "uw_sessions w ! c" let ?n = "int (seq_n ?s)"
  obtain s1 where send: "session_send b ?s = (Val ?n, s1)" and
    fut: "map_of (futures s1) ?n = Some (length (shared_states ?s))" and
    pend: "shared_states s1 ! length (shared_states ?s) = Pending"
    using assms(3) session_ok_fresh(2) [of ?s]
    by (auto simp: session_usable_def send_ok map_add_def map_of_fresh)
  have i: "i = ?n" and w': "w' = on_session c (\<lambda>_. s1) w"
    using assms(4) by (simp_all add: send)
  let ?w = "on_session c (\<lambda>s. s\<lparr>futures := AList.delete i (futures s)\<rparr>) w'"
  have "starved ?w" using assms(1) by (simp add: w' on_session_def starved_def)
  from starved_time [OF this, of k garbage d]
  have same: "uw_sessions (pass_time k garbage d ?w) = uw_sessions ?w" by blast
  have "uw_sessions ?w ! c = s1\<lparr>futures := AList.delete i (futures s1)\<rparr>"
    using assms(2) by (simp add: w' on_session_def)
  then have "future_value (length (shared_states ?s)) (uw_sessions (pass_time k garbage d ?w) ! c) = Val None"
    by (simp add: same future_value_def pend)
  moreover have "map_of (futures (uw_sessions w' ! c)) i = Some (length (shared_states ?s))"
    using fut assms(2) by (simp add: i w' on_session_def)
  ultimately show ?thesis by (simp add: i udt_wait_net Let_def)
qed

text \<open>C9: Over UDT nothing is ever answered: whatever the proxy does while a client waits, a read returns no buffer and a write
  the error of a timeout.\<close>

theorem udt_requests_are_never_answered:
  assumes "starved (net_env s)" and "may_connect node s"
  shows "wp (read_data (udt_net k garbage d) node b) (\<lambda>r s'. r = Val None) s \<and>
    wp (write_data (udt_net k garbage d) node b) (\<lambda>r s'. r = Val (- ETIMEDOUT)) s"
proof -
  have channel: "wp (bnd (udt_channel (udt_net k garbage d) node False) f) Q s"
    if "\<And>c t. c < length (uw_sessions (net_env t)) \<Longrightarrow> session_usable (uw_sessions (net_env t) ! c) \<Longrightarrow>
      starved (net_env t) \<Longrightarrow> wp (f (Some c)) Q t" for f and Q :: "'x outcome \<Rightarrow> _"
    unfolding wp_bnd by (rule wp_mono [OF wp_udt_channel_starved [OF assms(2,1)]]) (auto intro: that)
  have exchange: "0 \<le> fst (udt_write (udt_net k garbage d) c b (net_env t)) \<and>
      fst (udt_wait (udt_net k garbage d) c (fst (udt_write (udt_net k garbage d) c b (net_env t)))
        (snd (udt_write (udt_net k garbage d) c b (net_env t)))) = None"
    if "c < length (uw_sessions (net_env t))" "session_usable (uw_sessions (net_env t) ! c)" "starved (net_env t)" for c t
    using starved_exchange [OF that(3,1,2)] prod.collapse by metis
  show ?thesis
    unfolding read_data_def write_data_def
    by (intro conjI channel; use exchange in \<open>force simp: session_write_def split: prod.splits\<close>)
qed

text \<open>A client that has written nothing yet, and a proxy that takes what comes.\<close>

definition udt_sample :: "('e, 'b) iop \<Rightarrow> ('e, 'b) udt_world" where
  "udt_sample p = \<lparr>uw_sessions = [], uw_read = [], uw_queue = new_op_queue, uw_proxy = p, uw_replies = [],
     uw_waits = [[Message_Read 0, Queue_Taken, Queue_Given]]\<rparr>"

definition udt_sample_node :: ioproxy_node where
  "udt_sample_node = \<lparr>iop_rpc_port = 9092, iop_data_port = 9095, iop_ip = ''10.0.0.3'', iop_name = ''p1'', iop_status = 0,
     iop_uuid = ''u1'', iop_cid = ''1''\<rparr>"

theorem udt_requests_are_never_answered_witness:
  "wp (read_data (udt_net plain_kernel ''____'' (dead_net :: unit net)) udt_sample_node (sample_request []))
     (\<lambda>r s'. r = Val None) (new_client (udt_sample sample_iop))"
  using udt_requests_are_never_answered [of "new_client (udt_sample sample_iop)" udt_sample_node plain_kernel "''____''"
      "dead_net :: unit net" "sample_request []"]
  by (simp add: new_client_def udt_sample_def starved_def new_op_queue_def may_connect_def)

section \<open>What an executed read answers\<close>

lemma packed_failure: "do_size x = u64 (- 1) \<Longrightarrow> packed_size x = 2 ^ 32 - 1"
  by (simp add: packed_size_def u64_def i32_def)

lemma packed_id: "do_size x < 2 ^ 31 \<Longrightarrow> packed_size x = do_size x"
  by (simp add: packed_size_def i32_id in_i32_def)

text \<open>A read that a worker executes is answered, under the number of its request, with the bytes that were read. One that
  fails in the kernel is answered with the 4294967295 bytes from the start of the buffer, which end the proxy.\<close>

theorem udt_read_reply:
  assumes "ub_is_read b" and "ub_read_size b < 2 ^ 31" and "ub_read_size b \<le> length garbage"
    and "fdm_open k (cstr (dir @ ub_path b)) (ub_flags b OR O_RDWR) 429 s = (Val fd, t)"
    and "k_pread k fd (int (ub_read_size b)) (s64 (ub_offset b)) (env t) = (((r, errno), bytes), e)"
    and "length bytes \<le> ub_read_size b"
  shows "(r = int (length bytes) \<longrightarrow> (\<exists>m. execute_op k garbage d (request_op dir (n, b)) s = (Val (n, m), t\<lparr>env := e\<rparr>) \<and>
      ub_error m = 0 \<and> ub_data m = bytes)) \<and>
    (r = - 1 \<longrightarrow> execute_op k garbage d (request_op dir (n, b)) s = (Crash Out_Of_Range, t\<lparr>env := e\<rparr>))"
proof -
  let ?x = "prepare_data garbage (request_op dir (n, b))"
  have x: "?x = (request_op dir (n, b))\<lparr>obuf := Some (take (ub_read_size b) garbage)\<rparr>"
    using assms(1) by (simp add: prepare_data_def request_op_def)
  let ?y = "?x\<lparr>error_code := (if r = - 1 then - errno else 0), do_size := u64 r,
    obuf := Some (bytes @ drop (length bytes) (take (ub_read_size b) garbage))\<rparr>"
  have run: "ioproxy_do_data_op k ?x s = (Val (error_code ?y, ?y), t\<lparr>env := e\<rparr>)"
    using assms(1,4,5) unfolding x
    by (simp add: ioproxy_do_data_op_def data_step_def request_op_def sread_def sread_fd_def sysc_def bnd_def ret_def Let_def)
  then have exec: "execute_op k garbage d (request_op dir (n, b)) s =
      (case reply_message d ?y of Val m \<Rightarrow> (Val m, t\<lparr>env := e\<rparr>) | Crash c \<Rightarrow> (Crash c, t\<lparr>env := e\<rparr>))"
    by (simp add: execute_op_def bnd_def ret_def crash_def split: outcome.splits)
  have len: "length (bytes @ drop (length bytes) (take (ub_read_size b) garbage)) = ub_read_size b"
    using assms(3,6) by simp
  have read: "do_operation ?y = D_read" and number: "op_id ?y = n"
    using assms(1) unfolding x by (simp_all add: request_op_def)
  show ?thesis
  proof (intro conjI impI)
    assume r: "r = int (length bytes)"
    then have "do_size ?y = length bytes" using assms(2,6) by (simp add: u64_def)
    moreover from this have "packed_size ?y = length bytes" using packed_id [of ?y] assms(2,6) by simp
    ultimately show "\<exists>m. execute_op k garbage d (request_op dir (n, b)) s = (Val (n, m), t\<lparr>env := e\<rparr>) \<and> ub_error m = 0 \<and> ub_data m = bytes"
      using assms(6) r read number len unfolding exec reply_message_def by simp
  next
    assume r: "r = - 1"
    then have "packed_size ?y = 2 ^ 32 - 1" by (intro packed_failure) simp
    then show "execute_op k garbage d (request_op dir (n, b)) s = (Crash Out_Of_Range, t\<lparr>env := e\<rparr>)"
      using read len assms(2) unfolding exec reply_message_def by simp
  qed
qed

theorem udt_read_reply_witness:
  "\<exists>m s'. execute_op plain_kernel ''____'' (dead_net :: unit net) (request_op ''/data'' (7, sample_request [])) sample_iop
     = (Val (7, m), s') \<and> ub_error m = 0 \<and> ub_data m = ''xxxx''"
proof -
  let ?b = "sample_request []"
  have "wp (fdm_open plain_kernel (cstr (''/data'' @ ub_path ?b)) (ub_flags ?b OR O_RDWR) 429)
      (\<lambda>r s'. \<exists>fd. r = Val fd) sample_iop"
    by (rule wp_mono [OF wp_fdm_open [OF plain_law sample_fdm_ok]]) auto
  then obtain fd t where
    t: "fdm_open plain_kernel (cstr (''/data'' @ ub_path ?b)) (ub_flags ?b OR O_RDWR) 429 sample_iop = (Val fd, t)"
    by (auto simp: wp_def split: prod.splits)
  have "k_pread plain_kernel fd (int (ub_read_size ?b)) (s64 (ub_offset ?b)) (env t) = (((4, 0), ''xxxx''), env t)"
    by (simp add: plain_kernel_def box_kernel_def sample_request_def numeral_eq_Suc)
  from udt_read_reply [OF _ _ _ t this, of "''____''" "dead_net :: unit net" 7] show ?thesis
    by (auto simp: sample_request_def)
qed

end
