(* ===== verification/Proxy_Start.thy ===== *)
theory Proxy_Start
  imports Client_World Registries Sample_World Sample_Proxy
begin

text \<open>
  Starting an I/O proxy and registering it with its manager, \<open>start\<close> and \<open>fresh_stat\<close> of \<open>io_proxy/io_proxy.cc\<close>. The
  outside is a \<open>net\<close> over that of the proxy: the configuration, the HTTP client and the generator of identifiers.
  Starting the threads, the gRPC service and the UDT server is not part of the model but for their ports.
\<close>

section \<open>Registering\<close>

text \<open>What the proxy says of itself: \<open>uuid\<close>, the name and address of \<open>Node\<close>, the ports of its two services, its centre and
  the address of its manager.\<close>

record proxy_self =
  ps_uuid :: string
  ps_name :: string
  ps_addr :: string
  ps_rpc_port :: int
  ps_data_port :: int
  ps_cid :: string
  ps_manager :: string

definition own_node :: "proxy_self \<Rightarrow> ioproxy_node" where
  "own_node self = \<lparr>iop_rpc_port = ps_rpc_port self, iop_data_port = ps_data_port self, iop_ip = ps_addr self,
     iop_name = ps_name self, iop_status = 1, iop_uuid = ps_uuid self, iop_cid = ps_cid self\<rparr>"

definition manager_url :: "proxy_self \<Rightarrow> string" where
  "manager_url self = snprintf_n 256 (''http://'' @ cstr (ps_manager self) @ ''/ioproxy'')"

text \<open>The map of proxies in the answer; an entry that is no object fails an assertion of the parser.\<close>

primrec dec_nodes :: "'e net \<Rightarrow> members \<Rightarrow> (string \<times> ioproxy_node) list \<Rightarrow> ('e, 'b, (string \<times> ioproxy_node) list) iprog" where
  "dec_nodes k [] m = ret m"
| "dec_nodes k (nv # ms) m =
     bnd (case map_of m (cstr (fst nv)) of
            Some p \<Rightarrow> ret p
          | None \<Rightarrow> bnd (sysc (net_uuid k)) (\<lambda>u. ret (new_IOProxyNode k u))) (\<lambda>p.
     case deserialize_value (\<lambda>ms x. Val (des_IOProxyNode k ms x)) (snd nv) p of
       Crash c \<Rightarrow> crash c
     | Val p \<Rightarrow> dec_nodes k ms (smap_set (cstr (fst nv)) p m))"

definition decode_nodes :: "'e net \<Rightarrow> string \<Rightarrow> ('e, 'b, (string \<times> ioproxy_node) list) iprog" where
  "decode_nodes k text = (case rj_parse k (cstr text) of Some (JObj ms) \<Rightarrow> dec_nodes k ms [] | _ \<Rightarrow> ret [])"

text \<open>The key of a centre is its number as \<open>uint32_t\<close>.\<close>

definition centre_number :: "int \<Rightarrow> nat" where
  "centre_number v = nat (v mod 2 ^ 32)"

primrec enter_nodes :: "ioproxy_node list \<Rightarrow> ('e, 'b, unit) iprog" where
  "enter_nodes [] = ret ()"
| "enter_nodes (x # xs) =
     (case stoi (iop_cid x) of
        None \<Rightarrow> crash Uncaught_Exception
      | Some v \<Rightarrow> bnd (modify (\<lambda>s. s\<lparr>ioproxys := AList.update (centre_number v) x (ioproxys s)\<rparr>)) (\<lambda>_. enter_nodes xs))"

text \<open>An exception in the continuation of a request is dropped with the promise unfulfilled: whether the promise was
  fulfilled.\<close>

definition continuation :: "('e, 'b, unit) iprog \<Rightarrow> ('e, 'b, bool) iprog" where
  "continuation m = (\<lambda>s. case m s of
     (Val _, t) \<Rightarrow> (Val True, t)
   | (Crash c, t) \<Rightarrow> (if c = Uncaught_Exception then Val False else Crash c, t))"

definition fresh_stat :: "'e net \<Rightarrow> proxy_self \<Rightarrow> ('e, 'b, bool) iprog" where
  "fresh_stat k self =
     bnd (sysc (net_post k (manager_url self) [] (serialize k ser_IOProxyNode (own_node self)))) (\<lambda>response.
     case response of
       Answered _ \<Rightarrow>
         bnd (sysc (net_get k (manager_url self) [])) (\<lambda>nodelist.
         case nodelist of
           Answered body \<Rightarrow> continuation (bnd (decode_nodes k body) (\<lambda>m. enter_nodes (map snd m)))
         | _ \<Rightarrow> ret False)
     | _ \<Rightarrow> ret False)"

section \<open>Starting\<close>

text \<open>\<open>while (!fresh_stat() && max_loop-- > 0)\<close>.\<close>

primrec register_loop :: "'e net \<Rightarrow> proxy_self \<Rightarrow> nat \<Rightarrow> ('e, 'b, unit) iprog" where
  "register_loop k self 0 = bnd (fresh_stat k self) (\<lambda>_. ret ())"
| "register_loop k self (Suc n) = bnd (fresh_stat k self) (\<lambda>ok. if ok then ret () else register_loop k self n)"

definition cfg_or :: "'e net \<Rightarrow> string \<Rightarrow> string \<Rightarrow> string" where
  "cfg_or k key d = (case net_cfg k key of Some v \<Rightarrow> v | None \<Rightarrow> d)"

definition cfg_int_or :: "'e net \<Rightarrow> string \<Rightarrow> int \<Rightarrow> int" where
  "cfg_int_or k key d = (case net_cfg_int k key of Some v \<Rightarrow> v | None \<Rightarrow> d)"

text \<open>
  \<open>is_dir\<close> is the test of the file system, \<open>name\<close> the name of \<open>Node\<close>. The data port is that of
  \<open>UDTServer::start\<close>. A failed registration does not stop the proxy.
\<close>

definition ioproxy_start :: "'e net \<Rightarrow> (string \<Rightarrow> 'e \<Rightarrow> bool) \<Rightarrow> string \<Rightarrow> ('e, 'b, bool) iprog" where
  "ioproxy_start k is_dir name =
     bnd (modify (\<lambda>s. s\<lparr>data_dir := cfg_or k ''ioproxy.data_path'' ''/tmp/data'', center_id := cfg_or k ''ioproxy.cid'' ''unknown''\<rparr>)) (\<lambda>_.
     bnd (gets (\<lambda>s. is_dir (data_dir s) (env s))) (\<lambda>there.
     if \<not> there then ret False
     else
       case net_cfg k ''ioproxy.uuid'' of
         None \<Rightarrow> ret False
       | Some u \<Rightarrow>
           bnd replica_start (\<lambda>_.
           bnd (register_loop k \<lparr>ps_uuid = u, ps_name = name, ps_addr = cfg_or k ''ip'' ''0.0.0.0'',
             ps_rpc_port = cfg_int_or k ''ioproxy.rpc_port'' 9092, ps_data_port = cfg_int_or k ''ioproxy.data_port'' 9095,
             ps_cid = cfg_or k ''ioproxy.cid'' ''unknown'', ps_manager = cfg_or k ''manager_addr'' []\<rparr> 3) (\<lambda>_. ret True))))"

text \<open>The workers: as many for each scheduler as go into 1024.\<close>

definition workers_started :: "'e net \<Rightarrow> nat" where
  "workers_started k = (let n = nat (cfg_int_or k ''ioproxy.scher'' 8) in n * (1024 div n))"

section \<open>With the registry of the manager\<close>

text \<open>The network of a proxy whose manager is that of Registries: its documents and its list of live proxies.\<close>

definition registry_net :: "'w sys \<Rightarrow> string \<Rightarrow> ('w \<times> live_proxies) net" where
  "registry_net sys url = dead_net\<lparr>rj_write := rj_write sys, rj_parse := rj_parse sys,
     net_uuid := (\<lambda>(w, live). case uuid_gen sys w of (u, w') \<Rightarrow> (u, (w', live))),
     net_post := (\<lambda>u t d (w, live).
       if u \<noteq> url then (Rejected, (w, live))
       else (case proxy_add sys live d w of
               (Val (live', _, (_, body)), w') \<Rightarrow> (Answered body, (w', live'))
             | (Crash _, w') \<Rightarrow> (Rejected, (w', live)))),
     net_get := (\<lambda>u t (w, live).
       if u \<noteq> url then (Rejected, (w, live))
       else (case proxy_list sys live w of
               (Val (_, (_, body)), w') \<Rightarrow> (Answered body, (w', live))
             | (Crash _, w') \<Rightarrow> (Rejected, (w', live))))\<rparr>"

lemma registry_net_sel [simp]:
  "rj_write (registry_net sys url) = rj_write sys" "rj_parse (registry_net sys url) = rj_parse sys"
  "serialize (registry_net sys url) ser x = serialize sys ser x"
  "net_uuid (registry_net sys url) (w, live) = (case uuid_gen sys w of (u, w') \<Rightarrow> (u, (w', live)))"
  by (simp_all add: registry_net_def serialize_def)

text \<open>A registry: every proxy under its identifier, in order.\<close>

definition registry_ok :: "live_proxies \<Rightarrow> bool" where
  "registry_ok live \<longleftrightarrow> smap_ok live \<and> (\<forall>(u, x) \<in> set live. u = iop_uuid x \<and> wf_IOProxyNode x)"

lemma set_smap_set_subset: "set (smap_set k v m) \<subseteq> insert (k, v) (set m)"
  by (induction k v m rule: smap_set.induct) auto

lemma registry_ok_set: "registry_ok live \<Longrightarrow> wf_IOProxyNode x \<Longrightarrow> registry_ok (smap_set (iop_uuid x) x live)"
  using set_smap_set_subset [of "iop_uuid x" x live] by (fastforce simp: registry_ok_def)

text \<open>Reading the list back.\<close>

lemma dec_nodes_written:
  assumes "smap_ok (acc @ live)" and "\<forall>(u, x) \<in> set live. u = iop_uuid x \<and> wf_IOProxyNode x"
    and quiet: "\<And>w. cb_docs sys (snd (uuid_gen sys w)) = cb_docs sys w"
  shows "\<exists>w'. dec_nodes (registry_net sys url) (map (\<lambda>(u, x). (u, JObj (ser_IOProxyNode x))) live) acc s
      = (Val (acc @ live), s\<lparr>env := (w', snd (env s))\<rparr>) \<and> cb_docs sys w' = cb_docs sys (fst (env s))"
  using assms(1,2)
proof (induction live arbitrary: acc s)
  case Nil
  then show ?case by (intro exI [of _ "fst (env s)"]) (simp add: ret_def)
next
  case (Cons ux live)
  obtain u x where ux: "ux = (u, x)" by (cases ux)
  have u: "u = iop_uuid x" and wf: "wf_IOProxyNode x" using Cons.prems(2) ux by auto
  have key: "cstr u = u" using u wf by (simp add: wf_IOProxyNode_def cstr_id)
  have new: "map_of acc u = None" and less: "\<forall>k \<in> fst ` set acc. k < u"
    using Cons.prems(1) ux by (auto simp: smap_ok_def sorted_wrt_append map_of_eq_None_iff)
  obtain v w where v: "uuid_gen sys (fst (env s)) = (v, w)" by fastforce
  have readable: "deserialize_value (\<lambda>ms x. Val (des_IOProxyNode (registry_net sys url) ms x)) (JObj (ser_IOProxyNode x)) y = Val x" for y
    by (rule IOProxyNode_json.value_roundtrip [OF wf])
  let ?s = "s\<lparr>env := (w, snd (env s))\<rparr>"
  obtain w' where
    "dec_nodes (registry_net sys url) (map (\<lambda>(u, x). (u, JObj (ser_IOProxyNode x))) live) (acc @ [(u, x)]) ?s
      = (Val ((acc @ [(u, x)]) @ live), ?s\<lparr>env := (w', snd (env ?s))\<rparr>) \<and> cb_docs sys w' = cb_docs sys (fst (env ?s))"
    using Cons.IH [of "acc @ [(u, x)]" ?s] Cons.prems ux by auto
  moreover have "cb_docs sys w = cb_docs sys (fst (env s))" using quiet [of "fst (env s)"] v by simp
  moreover have "net_uuid (registry_net sys url) (env s) = (v, (w, snd (env s)))"
    using v by (cases "env s") simp
  ultimately show ?case
    using ux key new readable smap_set_append [OF less]
    by (auto simp: bnd_def sysc_def ret_def)
qed

text \<open>Entering proxies.\<close>

definition number_of :: "ioproxy_node \<Rightarrow> nat" where
  "number_of x = (case stoi (iop_cid x) of Some v \<Rightarrow> centre_number v | None \<Rightarrow> 0)"

lemma enter_nodes_good:
  "\<forall>x \<in> set xs. stoi (iop_cid x) \<noteq> None \<Longrightarrow>
    enter_nodes xs s = (Val (), s\<lparr>ioproxys := foldl (\<lambda>m x. AList.update (number_of x) x m) (ioproxys s) xs\<rparr>)"
  by (induction xs arbitrary: s) (auto simp: ret_def bnd_def modify_def number_of_def)

lemma enter_nodes_bad:
  "\<exists>x \<in> set xs. stoi (iop_cid x) = None \<Longrightarrow>
    \<exists>m. enter_nodes xs s = (Crash Uncaught_Exception, s\<lparr>ioproxys := m\<rparr>)"
proof (induction xs arbitrary: s)
  case (Cons x xs)
  show ?case
  proof (cases "stoi (iop_cid x)")
    case None
    then show ?thesis by (intro exI [of _ "ioproxys s"]) (simp add: crash_def)
  next
    case (Some v)
    then have "\<exists>x \<in> set xs. stoi (iop_cid x) = None" using Cons.prems by auto
    from Cons.IH [OF this, of "s\<lparr>ioproxys := AList.update (centre_number v) x (ioproxys s)\<rparr>"] Some show ?thesis
      by (auto simp: bnd_def modify_def)
  qed
qed simp

lemma map_of_entered:
  "inj_on number_of (set xs) \<Longrightarrow> x \<in> set xs \<Longrightarrow>
    map_of (foldl (\<lambda>m x. AList.update (number_of x) x m) m xs) (number_of x) = Some x"
proof (induction xs rule: rev_induct)
  case (snoc y xs)
  then show ?case
    by (cases "x = y") (auto simp: update_conv' inj_on_def)
qed simp

definition registered :: "proxy_self \<Rightarrow> live_proxies \<Rightarrow> live_proxies" where
  "registered self live = smap_set (ps_uuid self) ((own_node self)\<lparr>iop_status := 0\<rparr>) live"

definition registered_docs :: "'w sys \<Rightarrow> proxy_self \<Rightarrow> docs \<Rightarrow> docs" where
  "registered_docs sys self ds = ds((manager_bucket sys, ioproxy_prefix @ ps_uuid self)
     \<mapsto> serialize sys ser_IOProxyNode ((own_node self)\<lparr>iop_status := 0\<rparr>))"

lemma wp_proxy_add:
  assumes laws: "json_law sys" "couchbase_law sys" "couchbase_up sys" and "wf_IOProxyNode (own_node self)"
  shows "wp (proxy_add sys live (serialize sys ser_IOProxyNode (own_node self)))
    (\<lambda>r w'. r = Val (registered self live, True, http_accepted (ps_uuid self)) \<and>
      cb_docs sys w' = registered_docs sys self (cb_docs sys w)) w"
  unfolding proxy_add_def parse_proxy_def bnd_assoc
  apply (rule up_uuid [OF laws(2)])
  apply (simp add: IOProxyNode_json.load_roundtrip [OF laws(1) assms(4)] bnd_ret Let_def del: wp_bnd)
  apply (rule up_open [OF laws(2,3)])
  apply (rule up_set [OF laws(2,3)])
  apply (simp add: registered_def registered_docs_def own_node_def)
  done

lemma registry_answers:
  assumes laws: "json_law sys" "couchbase_law sys" "couchbase_up sys" and "wf_IOProxyNode (own_node self)" and "registry_ok live"
  shows "\<exists>w1. net_post (registry_net sys (manager_url self)) (manager_url self) [] (serialize sys ser_IOProxyNode (own_node self)) (w, live)
      = (Answered (ps_uuid self), (w1, registered self live)) \<and> cb_docs sys w1 = registered_docs sys self (cb_docs sys w)"
    and "\<exists>body. net_get (registry_net sys (manager_url self)) (manager_url self) [] (w, live) = (Answered body, (w, live)) \<and>
      rj_parse sys (cstr body) = Some (JObj (map (\<lambda>(u, x). (u, JObj (ser_IOProxyNode x))) live))"
proof -
  show "\<exists>w1. net_post (registry_net sys (manager_url self)) (manager_url self) [] (serialize sys ser_IOProxyNode (own_node self)) (w, live)
      = (Answered (ps_uuid self), (w1, registered self live)) \<and> cb_docs sys w1 = registered_docs sys self (cb_docs sys w)"
    using wp_proxy_add [OF assms(1-4), of live w] by (auto simp: registry_net_def wp_def split: prod.splits)
  let ?j = "enc_map (enc_ptr (\<lambda>n. JObj (ser_IOProxyNode n))) (map (\<lambda>(k, n). (k, Some n)) live)"
  have j: "?j = JObj (map (\<lambda>(u, x). (u, JObj (ser_IOProxyNode x))) live)"
    using assms(5) by (auto simp: enc_map_def enc_ptr_def registry_ok_def wf_IOProxyNode_def cstr_id)
  have "plain ?j"
    using assms(5) IOProxyNode_json.plain_members unfolding j by (fastforce simp: registry_ok_def list_all_iff)
  from json_lawD [OF laws(1) this] show "\<exists>body. net_get (registry_net sys (manager_url self)) (manager_url self) [] (w, live)
      = (Answered body, (w, live)) \<and> rj_parse sys (cstr body) = Some (JObj (map (\<lambda>(u, x). (u, JObj (ser_IOProxyNode x))) live))"
    by (simp add: registry_net_def proxy_list_def ret_def json_encode_def j)
qed

lemma fresh_stat_registry:
  assumes laws: "json_law sys" "couchbase_law sys" "couchbase_up sys" and "wf_IOProxyNode (own_node self)" and "registry_ok live"
    and "env s = (w, live)"
  shows "\<exists>w'. cb_docs sys w' = registered_docs sys self (cb_docs sys w) \<and>
    fresh_stat (registry_net sys (manager_url self)) self s =
      continuation (enter_nodes (map snd (registered self live))) (s\<lparr>env := (w', registered self live)\<rparr>)"
proof -
  have wf: "wf_IOProxyNode ((own_node self)\<lparr>iop_status := 0\<rparr>)"
    using assms(4) by (simp add: wf_IOProxyNode_def in_i32_def)
  have ok: "registry_ok (registered self live)"
    using registry_ok_set [OF assms(5) wf] by (simp add: registered_def own_node_def)
  from registry_answers(1) [OF assms(1-5), of w] obtain w1 where
    post: "net_post (registry_net sys (manager_url self)) (manager_url self) [] (serialize sys ser_IOProxyNode (own_node self)) (w, live)
      = (Answered (ps_uuid self), (w1, registered self live))" and docs: "cb_docs sys w1 = registered_docs sys self (cb_docs sys w)"
    by blast
  from registry_answers(2) [OF assms(1-4) ok, of w1] obtain body where
    get: "net_get (registry_net sys (manager_url self)) (manager_url self) [] (w1, registered self live)
      = (Answered body, (w1, registered self live))"
    and body: "rj_parse sys (cstr body) = Some (JObj (map (\<lambda>(u, x). (u, JObj (ser_IOProxyNode x))) (registered self live)))"
    by blast
  let ?s = "s\<lparr>env := (w1, registered self live)\<rparr>"
  have "cb_docs sys (snd (uuid_gen sys v)) = cb_docs sys v" for v using quiet(3) [OF laws(2)] by simp
  from dec_nodes_written [of "[]" "registered self live" sys, OF _ _ this, of "manager_url self" ?s] ok
  obtain w2 where dec: "dec_nodes (registry_net sys (manager_url self))
      (map (\<lambda>(u, x). (u, JObj (ser_IOProxyNode x))) (registered self live)) [] ?s
      = (Val (registered self live), ?s\<lparr>env := (w2, registered self live)\<rparr>)" and "cb_docs sys w2 = cb_docs sys w1"
    by (auto simp: registry_ok_def)
  moreover have "continuation (bnd (decode_nodes (registry_net sys (manager_url self)) body) (\<lambda>m. enter_nodes (map snd m))) ?s
      = continuation (enter_nodes (map snd (registered self live))) (?s\<lparr>env := (w2, registered self live)\<rparr>)"
    by (simp add: continuation_def decode_nodes_def body dec bnd_def)
  ultimately show ?thesis
    using docs assms(6) post get by (intro exI [of _ w2]) (simp add: fresh_stat_def bnd_def sysc_def)
qed

text \<open>C36: A proxy that registers is in the manager's list and its document is stored, and it knows every proxy of the list under
  the number of its centre, itself included; the numbers of the centres must be numbers, one proxy each.\<close>

theorem registered_proxy_knows_the_others:
  assumes "json_law sys" "couchbase_law sys" "couchbase_up sys" and "wf_IOProxyNode (own_node self)" and "registry_ok live"
    and "env s = (w, live)" and "\<forall>x \<in> snd ` set (registered self live). stoi (iop_cid x) \<noteq> None"
    and "inj_on number_of (snd ` set (registered self live))"
  shows "wp (fresh_stat (registry_net sys (manager_url self)) self) (\<lambda>r s'. r = Val True \<and>
    snd (env s') = registered self live \<and> cb_docs sys (fst (env s')) = registered_docs sys self (cb_docs sys w) \<and>
    (\<forall>x \<in> snd ` set (registered self live). map_of (ioproxys s') (number_of x) = Some x)) s"
proof -
  let ?xs = "map snd (registered self live)"
  obtain w' where docs: "cb_docs sys w' = registered_docs sys self (cb_docs sys w)"
    and run: "fresh_stat (registry_net sys (manager_url self)) self s = continuation (enter_nodes ?xs) (s\<lparr>env := (w', registered self live)\<rparr>)"
    using fresh_stat_registry [OF assms(1-6)] by blast
  note enter = enter_nodes_good [of ?xs "s\<lparr>env := (w', registered self live)\<rparr>"]
  have "map_of (foldl (\<lambda>m x. AList.update (number_of x) x m) (ioproxys s) ?xs) (number_of x) = Some x"
    if "x \<in> set ?xs" for x
    by (rule map_of_entered [OF _ that]) (use assms(8) in simp)
  then show ?thesis using assms(7) docs enter by (simp add: wp_def run continuation_def)
qed

text \<open>One proxy whose centre is no number, as that of a proxy without a configured centre, keeps every proxy from
  registering successfully: each is entered at the manager, and then told by its own reading of the list that it failed.\<close>

theorem one_bad_centre_stops_registration:
  assumes "json_law sys" "couchbase_law sys" "couchbase_up sys" and "wf_IOProxyNode (own_node self)" and "registry_ok live"
    and "env s = (w, live)" and "\<exists>x \<in> snd ` set (registered self live). stoi (iop_cid x) = None"
  shows "wp (fresh_stat (registry_net sys (manager_url self)) self) (\<lambda>r s'. r = Val False \<and>
    snd (env s') = registered self live) s"
proof -
  let ?xs = "map snd (registered self live)"
  obtain w' where
    run: "fresh_stat (registry_net sys (manager_url self)) self s = continuation (enter_nodes ?xs) (s\<lparr>env := (w', registered self live)\<rparr>)"
    using fresh_stat_registry [OF assms(1-6)] by blast
  from assms(7) have "\<exists>x \<in> set ?xs. stoi (iop_cid x) = None" by auto
  from enter_nodes_bad [OF this, of "s\<lparr>env := (w', registered self live)\<rparr>"]
  show ?thesis by (auto simp: wp_def run continuation_def)
qed

text \<open>A proxy of centre 2 registers with a manager that knows one of centre 1, and one without a number.\<close>

definition sample_self :: proxy_self where
  "sample_self = \<lparr>ps_uuid = ''u2'', ps_name = ''p2'', ps_addr = ''10.0.0.2'', ps_rpc_port = 9092, ps_data_port = 9095,
     ps_cid = ''2'', ps_manager = ''10.0.0.1:9090''\<rparr>"

definition known_proxy :: "string \<Rightarrow> ioproxy_node" where
  "known_proxy c = \<lparr>iop_rpc_port = 9092, iop_data_port = 9095, iop_ip = ''10.0.0.3'', iop_name = ''p1'', iop_status = 0,
     iop_uuid = ''u1'', iop_cid = c\<rparr>"

definition starting_iop :: "string \<Rightarrow> (mem \<times> live_proxies, nat list) iop" where
  "starting_iop c = \<lparr>env = (sample_mem, [(''u1'', known_proxy c)]), fds = new_lru 0, file_handlers = [], max_fd_num = 500,
     data_dir = ''/data'', center_id = ''2'', mcid = 2, replicate_data_path = ''/data'', ioproxys = [], operators = [],
     m_new = [], in_flight = [], m_max_new = 1048576\<rparr>"

lemma sample_self_wf: "wf_IOProxyNode (own_node sample_self)"
  by (simp add: wf_IOProxyNode_def own_node_def sample_self_def nul_free_def in_i32_def)

lemma known_registry: "nul_free c \<Longrightarrow> registry_ok [(''u1'', known_proxy c)]"
  by (simp add: registry_ok_def smap_ok_def known_proxy_def wf_IOProxyNode_def nul_free_def in_i32_def)

lemma sample_registered:
  "registered sample_self [(''u1'', known_proxy c)] = [(''u1'', known_proxy c), (''u2'', (own_node sample_self)\<lparr>iop_status := 0\<rparr>)]"
  by (simp add: registered_def sample_self_def)

lemma sample_numbers: "stoi ''1'' = Some 1" "stoi ''2'' = Some 2" "stoi ''unknown'' = None"
  by (simp_all add: stoi_def is_blank_def Replica_Mgr.is_digit_def digits_val_def in_i32_def Let_def)

lemma sample_cids [simp]: "iop_cid (known_proxy c) = c" "iop_cid ((own_node sample_self)\<lparr>iop_status := 0\<rparr>) = ''2''"
  by (simp_all add: known_proxy_def own_node_def sample_self_def)

lemma sample_number_of:
  "number_of (known_proxy ''1'') = 1" "number_of ((own_node sample_self)\<lparr>iop_status := 0\<rparr>) = 2"
  by (simp_all add: number_of_def sample_numbers centre_number_def)

theorem registered_proxy_knows_the_others_witness:
  "wp (fresh_stat (registry_net mem_sys (manager_url sample_self)) sample_self) (\<lambda>r s'. r = Val True \<and>
     map_of (ioproxys s') 1 = Some (known_proxy ''1'')) (starting_iop ''1'')"
proof -
  have env: "env (starting_iop ''1'') = (sample_mem, [(''u1'', known_proxy ''1'')])" by (simp add: starting_iop_def)
  have c: "nul_free ''1''" by (simp add: nul_free_def)
  have numbers: "\<forall>x \<in> snd ` set (registered sample_self [(''u1'', known_proxy ''1'')]). stoi (iop_cid x) \<noteq> None"
    "inj_on number_of (snd ` set (registered sample_self [(''u1'', known_proxy ''1'')]))"
    by (auto simp: sample_registered sample_numbers sample_number_of)
  from registered_proxy_knows_the_others [OF mem_laws sample_self_wf known_registry [OF c] env numbers]
  show ?thesis by (rule wp_mono) (simp add: sample_registered sample_number_of)
qed

theorem one_bad_centre_stops_registration_witness:
  "wp (fresh_stat (registry_net mem_sys (manager_url sample_self)) sample_self) (\<lambda>r s'. r = Val False) (starting_iop ''unknown'')"
proof -
  have env: "env (starting_iop ''unknown'') = (sample_mem, [(''u1'', known_proxy ''unknown'')])" by (simp add: starting_iop_def)
  have c: "nul_free ''unknown''" by (simp add: nul_free_def)
  have number: "\<exists>x \<in> snd ` set (registered sample_self [(''u1'', known_proxy ''unknown'')]). stoi (iop_cid x) = None"
    by (simp add: sample_registered sample_numbers)
  from one_bad_centre_stops_registration [OF mem_laws sample_self_wf known_registry [OF c] env number]
  show ?thesis by (rule wp_mono) simp
qed

end
