(* ===== verification/Cmdline_Texts.thy ===== *)
theory Cmdline_Texts
  imports Ipc_Texts
begin

text \<open>
  The texts that the command line programs print (\<open>cmdline/\<close>), as sequences of code points in UTF-8. Each is named
  after what it says; the labels of tables begin with \<open>cmd_l\<close>.
\<close>

definition cmd_need_args :: string where
  "cmd_need_args = utf8
     [0x8BF7, 0x8F93, 0x5165, 0x547D, 0x4EE4, 0x53C2, 0x6570, 0xFF01]"

definition cmd_illegal_chars :: string where
  "cmd_illegal_chars = utf8
     [0x5305, 0x542B, 0x975E, 0x6CD5, 0x5B57, 0x7B26]"

definition cmd_running :: string where
  "cmd_running = utf8
     [0x6B63, 0x5728, 0x6267, 0x884C, 0x547D, 0x4EE4, 0x2E, 0x2E, 0x2E]"

definition cmd_timeout_20s :: string where
  "cmd_timeout_20s = utf8
     [0x547D, 0x4EE4, 0x884C, 0x6267, 0x884C, 0x32, 0x30, 0x73, 0xFF0C, 0x8D85, 0x65F6, 0xFF1B, 0x8BF7,
      0x786E, 0x8BA4, 0x5F53, 0x524D, 0x66, 0x75, 0x73, 0x65, 0x20, 0x63, 0x6C, 0x69, 0x65, 0x6E, 0x74,
      0x8FDB, 0x7A0B, 0x6B63, 0x5728, 0x8FD0, 0x884C, 0xFF01]"

definition cmd_cmdline_prefix :: string where
  "cmd_cmdline_prefix = utf8
     [0x547D, 0x4EE4, 0x884C, 0x6D88, 0x606F, 0x3A, 0x20]"

definition cmd_bad_option :: string where
  "cmd_bad_option = utf8
     [0x53C2, 0x6570, 0x4E2D, 0x51FA, 0x73B0, 0x4E0D, 0x652F, 0x6301, 0x9879, 0x76EE, 0xFF01, 0x8BF7,
      0x4ED4, 0x7EC6, 0x9605, 0x8BFB, 0x4F7F, 0x7528, 0x8BF4, 0x660E, 0xFF01]"

definition cmd_version_prefix :: string where
  "cmd_version_prefix = utf8
     [0x4E3B, 0x7A0B, 0x5E8F, 0x7248, 0x672C, 0x3A, 0x20]"

definition cmd_illegal_input :: string where
  "cmd_illegal_input = utf8
     [0x8F93, 0x5165, 0x975E, 0x6CD5, 0x5B57, 0x7B26]"

definition cmd_request_timeout :: string where
  "cmd_request_timeout = utf8
     [0x64CD, 0x4F5C, 0x5931, 0x8D25, 0xFF0C, 0x8BF7, 0x6C42, 0x8D85, 0x65F6, 0xFF01]"

definition cmd_incomplete_args :: string where
  "cmd_incomplete_args = utf8
     [0x8BF7, 0x5B8C, 0x6574, 0x7684, 0x547D, 0x4EE4, 0x53C2, 0x6570, 0xFF01]"

definition cmd_args_wrong :: string where
  "cmd_args_wrong = utf8
     [0x53C2, 0x6570, 0x9519, 0x8BEF]"

definition cmd_command_args_wrong :: string where
  "cmd_command_args_wrong = utf8
     [0x547D, 0x4EE4, 0x53C2, 0x6570, 0x9519, 0x8BEF, 0xFF01]"

definition cmd_correct_args :: string where
  "cmd_correct_args = utf8
     [0x8BF7, 0x8F93, 0x5165, 0x6B63, 0x786E, 0x53C2, 0x6570, 0xFF01]"

definition cmd_update_need_args :: string where
  "cmd_update_need_args = utf8
     [0x547D, 0x4EE4, 0x884C, 0x6D88, 0x606F, 0x3A, 0x20, 0x8BF7, 0x8F93, 0x5165, 0x547D, 0x4EE4, 0x53C2,
      0x6570, 0xFF01]"

definition cmd_update_few_args :: string where
  "cmd_update_few_args = utf8
     [0x547D, 0x4EE4, 0x884C, 0x6D88, 0x606F, 0x3A, 0x20, 0x8BF7, 0x8F93, 0x5165, 0x8DB3, 0x591F, 0x7684,
      0x53C2, 0x6570, 0xFF0C, 0x81F3, 0x5C11, 0x5305, 0x542B, 0x4E00, 0x4E2A, 0x79CD, 0x64CD, 0x4F5C,
      0xFF01]"

definition cmd_update_need_names :: string where
  "cmd_update_need_names = utf8
     [0x547D, 0x4EE4, 0x884C, 0x6D88, 0x606F, 0x3A, 0x20, 0x8BF7, 0x8F93, 0x5165, 0x5B58, 0x50A8, 0x8D44,
      0x6E90, 0x540D, 0x79F0, 0x6216, 0x5176, 0x55, 0x55, 0x49, 0x44, 0x20, 0x548C, 0x20, 0x8D85, 0x7B97,
      0x4E2D, 0x5FC3, 0x7684, 0x540D, 0x79F0, 0x6216, 0x55, 0x55, 0x49, 0x44]"

definition cmd_usage_failed :: string where
  "cmd_usage_failed = utf8
     [0x7A7A, 0x95F4, 0x5BB9, 0x91CF, 0x67E5, 0x8BE2, 0x5931, 0x8D25, 0x2C, 0x8BF7, 0x8054, 0x7CFB, 0x7BA1,
      0x7406, 0x5458, 0x6216, 0x7A0D, 0x540E, 0x91CD, 0x8BD5]"

definition cmd_usage_name :: string where
  "cmd_usage_name = utf8
     [0x7A7A, 0x95F4, 0x540D, 0x79F0, 0xFF1A]"

definition cmd_usage_used :: string where
  "cmd_usage_used = utf8
     [0x7A7A, 0x95F4, 0x5DF2, 0x7528, 0x5BB9, 0x91CF, 0xFF1A]"

definition cmd_no_zones :: string where
  "cmd_no_zones = utf8
     [0x6CA1, 0x6709, 0x5BF9, 0x5E94, 0x533A, 0x57DF]"

definition cmd_l_zone_name :: string where
  "cmd_l_zone_name = utf8
     [0x533A, 0x57DF, 0x540D, 0x79F0, 0x3A]"

definition cmd_l_zone_owner :: string where
  "cmd_l_zone_owner = utf8
     [0x533A, 0x57DF, 0x4E3B, 0x4EBA, 0x3A]"

definition cmd_l_zone_member :: string where
  "cmd_l_zone_member = utf8
     [0x533A, 0x57DF, 0x6210, 0x5458, 0x3A]"

definition cmd_l_space_name :: string where
  "cmd_l_space_name = utf8
     [0x7A7A, 0x95F4, 0x540D, 0x79F0, 0x3A]"

definition cmd_l_space_id :: string where
  "cmd_l_space_id = utf8
     [0x7A7A, 0x95F4, 0x49, 0x44, 0x3A, 0x20]"

definition cmd_l_space_size :: string where
  "cmd_l_space_size = utf8
     [0x7A7A, 0x95F4, 0x5BB9, 0x91CF, 0x3A]"

definition cmd_l_space_centre :: string where
  "cmd_l_space_centre = utf8
     [0x7A7A, 0x95F4, 0x6240, 0x5728, 0x5730, 0x3A]"

definition cmd_l_res_id :: string where
  "cmd_l_res_id = utf8
     [0x5B58, 0x50A8, 0x8D44, 0x6E90, 0x49, 0x44, 0x3A]"

definition cmd_l_res_name :: string where
  "cmd_l_res_name = utf8
     [0x5B58, 0x50A8, 0x8D44, 0x6E90, 0x540D, 0x79F0, 0x3A]"

definition cmd_l_res_centre_id :: string where
  "cmd_l_res_centre_id = utf8
     [0x5B58, 0x50A8, 0x8D44, 0x6E90, 0x6240, 0x5728, 0x8D85, 0x7B97, 0x4E2D, 0x5FC3, 0x55, 0x55, 0x49,
      0x44, 0x3A]"

definition cmd_l_res_centre_name :: string where
  "cmd_l_res_centre_name = utf8
     [0x5B58, 0x50A8, 0x8D44, 0x6E90, 0x6240, 0x5728, 0x8D85, 0x7B97, 0x4E2D, 0x5FC3, 0x540D, 0x79F0, 0x3A]"

definition cmd_l_res_total :: string where
  "cmd_l_res_total = utf8
     [0x5B58, 0x50A8, 0x8D44, 0x6E90, 0x7A7A, 0x95F4, 0x5BB9, 0x91CF, 0x5927, 0x5C0F, 0x28, 0x4D, 0x42,
      0x29, 0x3A]"

definition cmd_l_res_assigned :: string where
  "cmd_l_res_assigned = utf8
     [0x5B58, 0x50A8, 0x8D44, 0x6E90, 0x5DF2, 0x5206, 0x914D, 0x7A7A, 0x95F4, 0x5BB9, 0x91CF, 0x5927,
      0x5C0F, 0x28, 0x4D, 0x42, 0x29, 0x3A]"

definition cmd_l_res_mgs :: string where
  "cmd_l_res_mgs = utf8
     [0x5B58, 0x50A8, 0x8D44, 0x6E90, 0x4D, 0x47, 0x53, 0x5730, 0x5740, 0x3A]"

definition cmd_l_res_state :: string where
  "cmd_l_res_state = utf8
     [0x5B58, 0x50A8, 0x8D44, 0x6E90, 0x72B6, 0x6001, 0x3A]"

definition cmd_map_done :: string where
  "cmd_map_done = utf8
     [0x5EFA, 0x7ACB, 0x8D26, 0x6237, 0x6620, 0x5C04, 0x6210, 0x529F]"

definition cmd_map_failed :: string where
  "cmd_map_failed = utf8
     [0x5EFA, 0x7ACB, 0x8D26, 0x6237, 0x6620, 0x5C04, 0x5931, 0x8D25]"

definition cmd_map_denied :: string where
  "cmd_map_denied = utf8
     [0x6743, 0x9650, 0x4E0D, 0x8DB3, 0xFF1A, 0x65E0, 0x6CD5, 0x5EFA, 0x7ACB, 0x8D26, 0x6237, 0x6620,
      0x5C04]"

definition cmd_unmap_done :: string where
  "cmd_unmap_done = utf8
     [0x5220, 0x9664, 0x8D26, 0x6237, 0x6620, 0x5C04, 0x6210, 0x529F]"

definition cmd_unmap_failed :: string where
  "cmd_unmap_failed = utf8
     [0x5220, 0x9664, 0x8D26, 0x6237, 0x6620, 0x5C04, 0x5931, 0x8D25]"

definition cmd_unmap_denied :: string where
  "cmd_unmap_denied = utf8
     [0x6743, 0x9650, 0x4E0D, 0x8DB3, 0xFF1A, 0x65E0, 0x6CD5, 0x5220, 0x9664, 0x8D26, 0x6237, 0x6620,
      0x5C04]"

definition cmd_maps_failed :: string where
  "cmd_maps_failed = utf8
     [0x67E5, 0x8BE2, 0x8D26, 0x6237, 0x6620, 0x5C04, 0x5931, 0x8D25]"

definition cmd_maps_denied :: string where
  "cmd_maps_denied = utf8
     [0x6743, 0x9650, 0x4E0D, 0x8DB3, 0xFF1A, 0x65E0, 0x6CD5, 0x67E5, 0x8BE2, 0x8D26, 0x6237, 0x6620,
      0x5C04]"

definition cmd_maps_user :: string where
  "cmd_maps_user = utf8
     [0x865A, 0x62DF, 0x6570, 0x636E, 0x7A7A, 0x95F4, 0x8D26, 0x6237, 0x540D, 0xFF1A, 0x20]"

definition cmd_maps_account :: string where
  "cmd_maps_account = utf8
     [0x6620, 0x5C04, 0x7684, 0x8D26, 0x6237, 0x540D, 0x3A, 0x20]"

definition cmd_maps_place :: string where
  "cmd_maps_place = utf8
     [0x6620, 0x5C04, 0x4F4D, 0x7F6E, 0xFF1A, 0x20]"

definition cmd_pool_failed :: string where
  "cmd_pool_failed = utf8
     [0x8D26, 0x6237, 0x6C60, 0x4FE1, 0x606F, 0x67E5, 0x8BE2, 0x5931, 0x8D25]"

definition cmd_pool_denied :: string where
  "cmd_pool_denied = utf8
     [0x6743, 0x9650, 0x4E0D, 0x8DB3, 0xFF1A, 0x65E0, 0x6CD5, 0x67E5, 0x8BE2, 0x8D26, 0x6237, 0x6C60,
      0x4FE1, 0x606F]"

definition cmd_name_wrong :: string where
  "cmd_name_wrong = utf8
     [0x8D26, 0x6237, 0x540D, 0x8F93, 0x5165, 0x9519, 0x8BEF]"

definition cmd_input_wrong :: string where
  "cmd_input_wrong = utf8
     [0x8F93, 0x5165, 0x9519, 0x8BEF]"

definition cmd_l_name :: string where
  "cmd_l_name = utf8
     [0x8D26, 0x6237, 0x540D, 0xFF1A, 0x20]"

definition cmd_l_password :: string where
  "cmd_l_password = utf8
     [0x8D26, 0x6237, 0x5BC6, 0x7801, 0xFF1A, 0x20]"

definition cmd_l_email :: string where
  "cmd_l_email = utf8
     [0x90AE, 0x7BB1, 0xFF1A, 0x20]"

definition cmd_l_phone :: string where
  "cmd_l_phone = utf8
     [0x7535, 0x8BDD, 0xFF1A, 0x20]"

definition cmd_l_address :: string where
  "cmd_l_address = utf8
     [0x5730, 0x5740, 0xFF1A, 0x20]"

definition cmd_l_department :: string where
  "cmd_l_department = utf8
     [0x5355, 0x4F4D, 0xFF1A, 0x20]"

definition cmd_signup_done :: string where
  "cmd_signup_done = utf8
     [0x8BF7, 0x6C42, 0x6210, 0x529F]"

definition cmd_signup_failed :: string where
  "cmd_signup_failed = utf8
     [0x8BF7, 0x6C42, 0x5931, 0x8D25, 0xFF0C, 0x8BF7, 0x518D, 0x5C1D, 0x8BD5]"

end
