(* ===== verification/Cmdline.thy ===== *)
theory Cmdline
  imports Client_Paths Ipc_Message Cmdline_Texts
begin

text \<open>
  What the command line programs share: reading the options (\<open>cmdline/CmdLineProxy.cc\<close>), and the exchange of one request
  and its answer with the client (\<open>IPCClient\<close> of \<open>common/ipc\<close> and the \<open>try\<close> block that every \<open>main\<close> has).
\<close>

section \<open>The outside of a program\<close>

text \<open>
  \<open>boost::program_options\<close> is a parameter: an option is declared by its names and the type of its value, and parsing gives
  the text of an exception, or what was given, in which a value has the type of its option.
\<close>

datatype po_kind = PO_flag | PO_text | PO_texts | PO_int

type_synonym po_option = "string \<times> po_kind"

record variables_map =
  vm_flags :: "string list"
  vm_text :: "string \<Rightarrow> string option"
  vm_texts :: "string \<Rightarrow> string list option"
  vm_int :: "string \<Rightarrow> int option"

text \<open>
  \<open>ipc_wire\<close>: what comes back over a connection to a port of this machine while a program waits, for the bytes that it
  wrote; nothing when nobody listens there.
\<close>

record 'e cli = indet +
  po_parse :: "po_option list \<Rightarrow> string list \<Rightarrow> string + variables_map"
  po_usage :: "po_option list \<Rightarrow> string"
  environment :: "string \<Rightarrow> string option"
  ipc_wire :: "int \<Rightarrow> string \<Rightarrow> 'e \<Rightarrow> string \<times> 'e"

text \<open>What a program prints, line by line, and the state of the outside. The result of a program is its exit status.\<close>

record 'e shell =
  sh_out :: "string list"
  sh_err :: "string list"
  sh_env :: 'e

definition print_out :: "string \<Rightarrow> ('e shell, unit) prog" where
  "print_out t = (\<lambda>s. (Val (), s\<lparr>sh_out := sh_out s @ [t]\<rparr>))"

definition print_err :: "string \<Rightarrow> ('e shell, unit) prog" where
  "print_err t = (\<lambda>s. (Val (), s\<lparr>sh_err := sh_err s @ [t]\<rparr>))"

primrec print_lines :: "string list \<Rightarrow> ('e shell, unit) prog" where
  "print_lines [] = ret ()"
| "print_lines (t # ts) = bnd (print_out t) (\<lambda>_. print_lines ts)"

section \<open>\<open>CmdLineProxy\<close>\<close>

definition global_options :: "po_option list" where
  "global_options = [(''version,v'', PO_flag), (''help,h'', PO_flag), (''input-file,I'', PO_texts), (''output-file,O'', PO_texts)]"

definition invalid_chars :: "char list" where
  "invalid_chars = [CHR ''!'', CHR 0x23, CHR 0x40, CHR 0x24, CHR 0x25, CHR 0x5E, CHR 0x26, CHR 0x2A, CHR 0x7E, CHR 0x60,
     CHR 0x2F, CHR 0x7C]"

definition is_validate :: "string \<Rightarrow> bool" where
  "is_validate dest = list_all (\<lambda>c. c \<notin> set invalid_chars) dest"

text \<open>\<open>print_options\<close>, of the program's options \<open>opts\<close>.\<close>

definition print_usage :: "'e cli \<Rightarrow> po_option list \<Rightarrow> ('e shell, unit) prog" where
  "print_usage k opts = print_out (po_usage k (global_options @ opts))"

text \<open>\<open>start\<close>; \<open>rest\<close> is the part of the program after it, to which it gives what the handler of the program reads.\<close>

definition cmdline_start ::
  "'e cli \<Rightarrow> po_option list \<Rightarrow> string list \<Rightarrow> (variables_map \<Rightarrow> ('e shell, int) prog) \<Rightarrow> ('e shell, int) prog" where
  "cmdline_start k opts argv rest =
     (case po_parse k (global_options @ opts) (tl argv) of
        Inl what \<Rightarrow>
          bnd (print_err (cmd_cmdline_prefix @ what)) (\<lambda>_.
          bnd (print_err (cmd_cmdline_prefix @ cmd_bad_option)) (\<lambda>_.
          bnd (print_usage k opts) (\<lambda>_. ret (- 1))))
      | Inr vm \<Rightarrow>
          if ''help'' \<in> set (vm_flags vm) then bnd (print_usage k opts) (\<lambda>_. ret 0)
          else if ''version'' \<in> set (vm_flags vm) then bnd (print_out (cmd_version_prefix @ ''0.0.1'')) (\<lambda>_. ret 0)
          else rest vm)"

text \<open>An option that was not given leaves its variable as it was.\<close>

definition text_or :: "string \<Rightarrow> variables_map \<Rightarrow> string \<Rightarrow> string" where
  "text_or d vm n = (case vm_text vm n of Some v \<Rightarrow> v | None \<Rightarrow> d)"

definition text_of :: "variables_map \<Rightarrow> string \<Rightarrow> string" where
  "text_of = text_or []"

definition texts_of :: "variables_map \<Rightarrow> string \<Rightarrow> string list" where
  "texts_of vm n = (case vm_texts vm n of Some v \<Rightarrow> v | None \<Rightarrow> [])"

definition int_or :: "int \<Rightarrow> variables_map \<Rightarrow> string \<Rightarrow> int" where
  "int_or d vm n = (case vm_int vm n of Some v \<Rightarrow> v | None \<Rightarrow> d)"

text \<open>The refusals before a request is made.\<close>

definition usage_error :: "'e cli \<Rightarrow> po_option list \<Rightarrow> string \<Rightarrow> ('e shell, int) prog" where
  "usage_error k opts m = bnd (print_err m) (\<lambda>_. bnd (print_usage k opts) (\<lambda>_. ret (- 1)))"

section \<open>One request\<close>

text \<open>An absent variable makes the construction of a string throw, as a number that cannot be read does.\<close>

definition GVDS_CLIENT_LISTENING_PORT :: "'e cli \<Rightarrow> int" where
  "GVDS_CLIENT_LISTENING_PORT k =
     (case environment k ''GVDS_CLIENT_LISTEN_PORT'' of
        None \<Rightarrow> 6666
      | Some v \<Rightarrow> (case stoi (cstr v) of Some p \<Rightarrow> p | None \<Rightarrow> 6666))"

text \<open>
  Programs wait twenty seconds and fail, wait three seconds and go on, or wait without a limit for the first message
  that comes back, which their callback prints.
\<close>

datatype waiting = Wait_20s | Wait_3s | Wait_forever

definition no_answer :: "waiting \<Rightarrow> ('e shell, int) prog" where
  "no_answer w =
     (case w of
        Wait_20s \<Rightarrow> bnd (print_out cmd_timeout_20s) (\<lambda>_. ret (- 1))
      | Wait_3s \<Rightarrow> bnd (print_err cmd_request_timeout) (\<lambda>_. ret 0)
      | Wait_forever \<Rightarrow> crash Blocked_Forever)"

definition wire_out :: "'e cli \<Rightarrow> string \<Rightarrow> ('e shell, string) prog" where
  "wire_out k bytes = (\<lambda>s. case ipc_wire k (GVDS_CLIENT_LISTENING_PORT k) bytes (sh_env s) of (b, e) \<Rightarrow> (Val b, s\<lparr>sh_env := e\<rparr>))"

definition exchange ::
  "'e cli \<Rightarrow> waiting \<Rightarrow> (string \<Rightarrow> ('e shell, unit) prog) \<Rightarrow> ipc_req \<Rightarrow> ('e shell, int) prog" where
  "exchange k w callback r =
     bnd (make_message_by_charstring (serialize k ser_IPCreq r)) (\<lambda>msg.
     bnd (wire_out k msg) (\<lambda>bytes.
     case read_messages bytes of
       [] \<Rightarrow> no_answer w
     | m # ms \<Rightarrow> bnd (callback m) (\<lambda>_. ret 0)))"

definition run_command ::
  "'e cli \<Rightarrow> waiting \<Rightarrow> (string \<Rightarrow> ('e shell, unit) prog) \<Rightarrow> ipc_req \<Rightarrow> ('e shell, int) prog" where
  "run_command k w callback r = bnd (print_out cmd_running) (\<lambda>_. exchange k w callback r)"

text \<open>The callback of most programs of spaces and zones.\<close>

definition print_answer :: "string \<Rightarrow> ('e shell, unit) prog" where
  "print_answer ipcresult = print_out ipcresult"

section \<open>Rules\<close>

lemma wp_print [simp]:
  "wp (print_out t) Q s = Q (Val ()) (s\<lparr>sh_out := sh_out s @ [t]\<rparr>)"
  "wp (print_err t) Q s = Q (Val ()) (s\<lparr>sh_err := sh_err s @ [t]\<rparr>)"
  by (simp_all add: wp_def print_out_def print_err_def)

lemma wp_print_lines [simp]: "wp (print_lines ts) Q s = Q (Val ()) (s\<lparr>sh_out := sh_out s @ ts\<rparr>)"
  by (induction ts arbitrary: s) simp_all

lemma wp_print_usage [simp]:
  "wp (print_usage k opts) Q s = Q (Val ()) (s\<lparr>sh_out := sh_out s @ [po_usage k (global_options @ opts)]\<rparr>)"
  by (simp add: print_usage_def)

lemma wp_start:
  assumes "po_parse k (global_options @ opts) (tl argv) = Inr vm" and "vm_flags vm = []"
  shows "wp (cmdline_start k opts argv rest) Q s = wp (rest vm) Q s"
  using assms by (simp add: cmdline_start_def)

lemma wp_usage_error [simp]:
  "wp (usage_error k opts m) Q s = Q (Val (- 1)) (s\<lparr>sh_err := sh_err s @ [m], sh_out := sh_out s @ [po_usage k (global_options @ opts)]\<rparr>)"
  by (simp add: usage_error_def)

lemma wp_wire_out:
  "wp (wire_out k bytes) Q s =
    (case ipc_wire k (GVDS_CLIENT_LISTENING_PORT k) bytes (sh_env s) of (b, e) \<Rightarrow> Q (Val b) (s\<lparr>sh_env := e\<rparr>))"
  by (simp add: wire_out_def wp_def split: prod.splits)

text \<open>The exchange, for a request that fits a message.\<close>

definition wire_reply :: "'e cli \<Rightarrow> ipc_req \<Rightarrow> 'e \<Rightarrow> string \<times> 'e" where
  "wire_reply k r = ipc_wire k (GVDS_CLIENT_LISTENING_PORT k) (message_of (serialize k ser_IPCreq r))"

lemma nul_free_serialize: "nul_free (serialize k ser r)"
  by (simp add: serialize_def)

lemma wp_exchange:
  assumes "length (serialize k ser_IPCreq r) \<le> 9999"
  shows "wp (exchange k w callback r) Q s =
    (case wire_reply k r (sh_env s) of (bytes, e) \<Rightarrow>
       wp (case read_messages bytes of [] \<Rightarrow> no_answer w | m # ms \<Rightarrow> bnd (callback m) (\<lambda>_. ret 0)) Q (s\<lparr>sh_env := e\<rparr>))"
proof -
  have "fits (serialize k ser_IPCreq r)" using assms nul_free_serialize by (simp add: fits_def)
  then show ?thesis by (simp add: exchange_def make_message_fits wp_wire_out wire_reply_def)
qed

lemma exchange_too_long:
  "length (serialize k ser_IPCreq r) > 9999 \<Longrightarrow> wp (exchange k w callback r) Q s = Q (Crash Out_Of_Range) s"
  using nul_free_serialize [of k ser_IPCreq r]
  by (simp add: exchange_def make_message_long cstr_id)

section \<open>What a program asks\<close>

text \<open>A callback that only prints, and a program that asks for nothing but one request of the command \<open>c\<close>.\<close>

definition prints_only :: "('e shell, 'a) prog \<Rightarrow> bool" where
  "prints_only m \<longleftrightarrow> (\<forall>s. wp m (\<lambda>r s'. sh_env s' = sh_env s) s)"

definition asked :: "'e cli \<Rightarrow> string \<Rightarrow> 'e \<Rightarrow> 'e \<Rightarrow> bool" where
  "asked k c e e' \<longleftrightarrow> e' = e \<or> (\<exists>q. ipc_cmdname q = c \<and> e' = snd (wire_reply k q e))"

definition only_asks :: "'e cli \<Rightarrow> string \<Rightarrow> ('e shell, int) prog \<Rightarrow> bool" where
  "only_asks k c m \<longleftrightarrow> (\<forall>s. wp m (\<lambda>r s'. asked k c (sh_env s) (sh_env s')) s)"

lemma prints_only_simps [intro, simp]:
  "prints_only (print_out t)" "prints_only (print_err t)" "prints_only (print_lines ts)" "prints_only (print_usage k opts)"
  "prints_only (ret a)" "prints_only (crash c)" "prints_only (of_outcome x)"
  by (simp_all add: prints_only_def)

lemma prints_only_bnd [intro!]:
  fixes m :: "('e shell, 'a) prog" and f :: "'a \<Rightarrow> ('e shell, 'b) prog"
  assumes "prints_only m" and "\<And>a. prints_only (f a)"
  shows "prints_only (bnd m f)"
proof -
  have "wp (bnd m f) (\<lambda>r s'. sh_env s' = sh_env s) s" for s :: "'e shell"
    unfolding wp_bnd
  proof (rule wp_mono)
    show "wp m (\<lambda>r s'. sh_env s' = sh_env s) s" using assms(1) by (simp add: prints_only_def)
    fix r and s' :: "'e shell"
    assume *: "sh_env s' = sh_env s"
    show "case r of Val a \<Rightarrow> wp (f a) (\<lambda>r s'. sh_env s' = sh_env s) s' | Crash c \<Rightarrow> sh_env s' = sh_env s"
    proof (cases r)
      case (Val a)
      have "wp (f a) (\<lambda>r s''. sh_env s'' = sh_env s') s'" using assms(2) by (simp add: prints_only_def)
      then show ?thesis using * Val by simp
    qed (simp add: *)
  qed
  then show ?thesis by (simp add: prints_only_def)
qed

lemma prints_only_wp: "prints_only m \<Longrightarrow> wp m (\<lambda>r s'. sh_env s' = sh_env s) s"
  by (simp add: prints_only_def)

lemma only_asks_nothing: "prints_only m \<Longrightarrow> only_asks k c m"
  by (auto simp: only_asks_def asked_def elim!: wp_mono dest: prints_only_wp)

lemma prints_only_usage [simp]: "prints_only (usage_error k opts m)"
  by (auto simp: usage_error_def)

lemma prints_only_no_answer [simp]: "prints_only (no_answer w)"
  by (cases w) (auto simp: no_answer_def)

lemma only_asks_then:
  fixes k :: "'e cli" and m :: "('e shell, 'a) prog"
  assumes "prints_only m" and "\<And>a. only_asks k c (f a)"
  shows "only_asks k c (bnd m f)"
  unfolding only_asks_def wp_bnd
proof
  fix s :: "'e shell"
  show "wp m (\<lambda>r s'. case r of Val a \<Rightarrow> wp (f a) (\<lambda>r s'. asked k c (sh_env s) (sh_env s')) s'
      | Crash x \<Rightarrow> asked k c (sh_env s) (sh_env s')) s"
  proof (rule wp_mono [OF prints_only_wp [OF assms(1)]])
    fix r and s' :: "'e shell"
    assume same: "sh_env s' = sh_env s"
    have "wp (f a) (\<lambda>r t. asked k c (sh_env s') (sh_env t)) s'" for a using assms(2) by (simp add: only_asks_def)
    then show "case r of Val a \<Rightarrow> wp (f a) (\<lambda>r s'. asked k c (sh_env s) (sh_env s')) s'
      | Crash x \<Rightarrow> asked k c (sh_env s) (sh_env s')"
      by (cases r) (simp_all add: same asked_def)
  qed
qed

lemma only_asks_exchange:
  assumes "ipc_cmdname q = c" and "\<And>m. prints_only (callback m)"
  shows "only_asks k c (exchange k w callback q)"
proof (cases "length (serialize k ser_IPCreq q) \<le> 9999")
  case True
  have "prints_only (case read_messages bytes of [] \<Rightarrow> no_answer w | m # ms \<Rightarrow> bnd (callback m) (\<lambda>_. ret 0))" for bytes
    using assms(2) by (auto split: list.split)
  note after = wp_mono [OF prints_only_wp [OF this]]
  show ?thesis
    unfolding only_asks_def wp_exchange [OF True] using assms(1)
    by (auto simp: asked_def split: prod.split intro!: after)
next
  case False
  then show ?thesis by (simp add: only_asks_def asked_def exchange_too_long)
qed

lemma only_asks_run:
  "ipc_cmdname q = c \<Longrightarrow> (\<And>m. prints_only (callback m)) \<Longrightarrow> only_asks k c (run_command k w callback q)"
  unfolding run_command_def by (intro only_asks_then only_asks_exchange) auto

lemma only_asks_start:
  "(\<And>vm. only_asks k c (rest vm)) \<Longrightarrow> only_asks k c (cmdline_start k opts argv rest)"
  unfolding cmdline_start_def
  by (auto split: sum.split intro!: only_asks_nothing)

lemma only_asks_if: "(b \<Longrightarrow> only_asks k c m) \<Longrightarrow> (\<not> b \<Longrightarrow> only_asks k c n) \<Longrightarrow> only_asks k c (if b then m else n)"
  by simp

lemma only_asks_usage: "only_asks k c (usage_error k opts m)"
  by (rule only_asks_nothing) simp

lemmas only_asks_rules = only_asks_start only_asks_run only_asks_exchange only_asks_if only_asks_usage

end
