(* ===== verification/Cmdline_Space.thy ===== *)
theory Cmdline_Space
  imports Cmdline
begin

text \<open>
  The programs on spaces and zones, \<open>cmdline/spacecmdline\<close> and \<open>cmdline/zonecmdline\<close>, each as its \<open>main\<close>.
\<close>

section \<open>Printing\<close>

definition print_result :: "string \<Rightarrow> ('e shell, unit) prog" where
  "print_result ipcresult = (if ipcresult \<noteq> ''success'' then print_err ipcresult else print_out ipcresult)"

text \<open>One line for each name, with the number at its place; the vector is indexed without a check.\<close>

fun print_usage_lines :: "string list \<Rightarrow> int list \<Rightarrow> ('e shell, unit) prog" where
  "print_usage_lines [] vs = ret ()"
| "print_usage_lines (n # ns) [] = crash Out_Of_Range"
| "print_usage_lines (n # ns) (v # vs) =
     bnd (print_out (cmd_usage_name @ n @ cmd_usage_used @ int_dec v @ ''K'')) (\<lambda>_. print_usage_lines ns vs)"

definition print_usages :: "'e cli \<Rightarrow> string list \<Rightarrow> string \<Rightarrow> ('e shell, unit) prog" where
  "print_usages k spacenames ipcresult =
     (if take 1 ipcresult \<noteq> ''1'' then print_err ipcresult
      else
        let ipcres = drop 1 ipcresult in
        if ipcres = ''fail'' then print_out cmd_usage_failed
        else print_usage_lines spacenames (json_decode k (dec_vec dec_i64 0) ipcres []))"

text \<open>The zones; only one of the two programs prints the identifiers of the spaces.\<close>

primrec print_spaces :: "bool \<Rightarrow> space option list \<Rightarrow> ('e shell, unit) prog" where
  "print_spaces with_id [] = ret ()"
| "print_spaces with_id (sp # sps) =
     bnd (deref sp) (\<lambda>s.
     bnd (print_lines ([cmd_l_space_name @ sp_spaceName s] @ (if with_id then [cmd_l_space_id @ sp_spaceID s] else []) @
       [cmd_l_space_size @ int_dec (sp_spaceSize s), cmd_l_space_centre @ sp_hostCenterName s])) (\<lambda>_.
     print_spaces with_id sps))"

primrec print_zone_list :: "bool \<Rightarrow> zone list \<Rightarrow> ('e shell, unit) prog" where
  "print_zone_list with_id [] = ret ()"
| "print_zone_list with_id (z # zs) =
     bnd (print_lines ([cmd_l_zone_name @ z_zoneName z, cmd_l_zone_owner @ z_ownerID z] @
       map (\<lambda>m. cmd_l_zone_member @ m) (z_memberID z))) (\<lambda>_.
     bnd (print_spaces with_id (z_spaceBicInfo z)) (\<lambda>_.
     bnd (print_out (replicate 29 CHR ''='')) (\<lambda>_. print_zone_list with_id zs)))"

definition print_zones :: "'e cli \<Rightarrow> bool \<Rightarrow> string \<Rightarrow> ('e shell, unit) prog" where
  "print_zones k with_id ipcresult =
     (if ipcresult = ''fail'' then print_out cmd_no_zones
      else bnd (of_outcome (decode_zones k ipcresult)) (print_zone_list with_id))"

section \<open>Spaces\<close>

text \<open>
  The size has no initial value: without the option it is what the stack holds. The replica program checks its options
  in the handler, before the number of arguments.
\<close>

definition spacerename_main :: "'e cli \<Rightarrow> string list \<Rightarrow> ('e shell, int) prog" where
  "spacerename_main k argv =
     (let opts = [(''zonename,z'', PO_text), (''oldname,o'', PO_text), (''newname,n'', PO_text)] in
      cmdline_start k opts argv (\<lambda>vm.
      if length argv \<le> 1 then usage_error k opts cmd_need_args
      else if \<not> is_validate (text_of vm ''newname'') then usage_error k opts cmd_illegal_chars
      else run_command k Wait_20s print_result ((new_IPCreq k)\<lparr>ipc_cmdname := ''spacerename'',
         ipc_zonename := text_of vm ''zonename'', ipc_spacename := text_of vm ''oldname'',
         ipc_newspacename := text_of vm ''newname''\<rparr>)))"

definition spacerename_admin_main :: "'e cli \<Rightarrow> string list \<Rightarrow> ('e shell, int) prog" where
  "spacerename_admin_main k argv =
     (let opts = [(''ownername,w'', PO_text), (''zonename,z'', PO_text), (''oldname,o'', PO_text),
        (''newname,n'', PO_text)] in
      cmdline_start k opts argv (\<lambda>vm.
      if length argv \<le> 1 then usage_error k opts cmd_need_args
      else if \<not> is_validate (text_of vm ''newname'') then usage_error k opts cmd_illegal_chars
      else run_command k Wait_20s print_result ((new_IPCreq k)\<lparr>ipc_cmdname := ''spacerename_admin'',
         ipc_ownName := text_of vm ''ownername'', ipc_zonename := text_of vm ''zonename'',
         ipc_spacename := text_of vm ''oldname'', ipc_newspacename := text_of vm ''newname''\<rparr>)))"

definition spacesizechange_main :: "'e cli \<Rightarrow> string list \<Rightarrow> ('e shell, int) prog" where
  "spacesizechange_main k argv =
     (let opts = [(''zonename,z'', PO_text), (''spacename,s'', PO_text), (''newsize,n'', PO_int)] in
      cmdline_start k opts argv (\<lambda>vm.
      if length argv \<le> 1 then usage_error k opts cmd_need_args
      else run_command k Wait_20s print_answer ((new_IPCreq k)\<lparr>ipc_cmdname := ''spacesizechange'',
         ipc_zonename := text_of vm ''zonename'', ipc_spacename := text_of vm ''spacename'',
         ipc_newspacesize := int_or (ud_i64 k) vm ''newsize''\<rparr>)))"

definition spaceusage_main :: "'e cli \<Rightarrow> string list \<Rightarrow> ('e shell, int) prog" where
  "spaceusage_main k argv =
     (let opts = [(''zonename,z'', PO_text), (''spacename,s'', PO_texts)] in
      cmdline_start k opts argv (\<lambda>vm.
      if length argv \<le> 1 then usage_error k opts cmd_need_args
      else run_command k Wait_20s (print_usages k (texts_of vm ''spacename'')) ((new_IPCreq k)\<lparr>
         ipc_cmdname := ''spaceusage'', ipc_zonename := text_of vm ''zonename'',
         ipc_spacenames := texts_of vm ''spacename''\<rparr>)))"

definition spaceusage_admin_main :: "'e cli \<Rightarrow> string list \<Rightarrow> ('e shell, int) prog" where
  "spaceusage_admin_main k argv =
     (let opts = [(''ownername,w'', PO_text), (''zonename,z'', PO_text), (''spacename,s'', PO_texts)] in
      cmdline_start k opts argv (\<lambda>vm.
      if length argv \<le> 1 then usage_error k opts cmd_need_args
      else run_command k Wait_20s (print_usages k (texts_of vm ''spacename'')) ((new_IPCreq k)\<lparr>
         ipc_cmdname := ''spaceusage_admin'', ipc_ownName := text_of vm ''ownername'',
         ipc_zonename := text_of vm ''zonename'', ipc_spacenames := texts_of vm ''spacename''\<rparr>)))"

definition spacereplica_main :: "'e cli \<Rightarrow> string list \<Rightarrow> ('e shell, int) prog" where
  "spacereplica_main k argv =
     (let opts = [(''replicated,r'', PO_text), (''single,s'', PO_text)] in
      cmdline_start k opts argv (\<lambda>vm.
      if vm_text vm ''replicated'' = None then usage_error k opts ''ERROR: Need replicated space ID!''
      else if vm_text vm ''single'' = None then usage_error k opts ''ERROR: Need single space ID!''
      else if length argv \<le> 1 then usage_error k opts (''Please input parameters'' @ utf8 [0xFF01])
      else run_command k Wait_20s print_result ((new_IPCreq k)\<lparr>ipc_cmdname := ''spacereplica'',
         ipc_spacename := text_of vm ''replicated'', ipc_newspacename := text_of vm ''single''\<rparr>)))"

section \<open>Zones\<close>

definition mapadd_main :: "'e cli \<Rightarrow> string list \<Rightarrow> ('e shell, int) prog" where
  "mapadd_main k argv =
     (let opts = [(''zonename,z'', PO_text), (''spacename,s'', PO_text), (''size'', PO_int),
        (''center,c'', PO_text)] in
      cmdline_start k opts argv (\<lambda>vm.
      if length argv \<le> 1 then usage_error k opts cmd_need_args
      else if \<not> is_validate (text_of vm ''spacename'') then usage_error k opts cmd_illegal_chars
      else run_command k Wait_20s print_answer ((new_IPCreq k)\<lparr>ipc_cmdname := ''mapadd'',
         ipc_zonename := text_of vm ''zonename'', ipc_spacename := text_of vm ''spacename'',
         ipc_spacesize := int_or (ud_i64 k) vm ''size'',
         ipc_spaceurl := serialize k ser_Space ((new_Space k)\<lparr>sp_hostCenterName := text_of vm ''center''\<rparr>)\<rparr>)))"

definition mapdeduct_main :: "'e cli \<Rightarrow> string list \<Rightarrow> ('e shell, int) prog" where
  "mapdeduct_main k argv =
     (let opts = [(''zonename,z'', PO_text), (''spacename,s'', PO_texts)] in
      cmdline_start k opts argv (\<lambda>vm.
      if length argv \<le> 1 then usage_error k opts cmd_need_args
      else run_command k Wait_20s print_answer ((new_IPCreq k)\<lparr>ipc_cmdname := ''mapdeduct'',
         ipc_zonename := text_of vm ''zonename'', ipc_spacenames := texts_of vm ''spacename''\<rparr>)))"

definition mapdeduct_admin_main :: "'e cli \<Rightarrow> string list \<Rightarrow> ('e shell, int) prog" where
  "mapdeduct_admin_main k argv =
     (let opts = [(''ownername,w'', PO_text), (''zonename,z'', PO_text), (''spacename,s'', PO_texts)] in
      cmdline_start k opts argv (\<lambda>vm.
      if length argv \<le> 1 then usage_error k opts cmd_need_args
      else run_command k Wait_20s print_answer ((new_IPCreq k)\<lparr>ipc_cmdname := ''mapdeduct_admin'',
         ipc_ownName := text_of vm ''ownername'', ipc_zonename := text_of vm ''zonename'',
         ipc_spacenames := texts_of vm ''spacename''\<rparr>)))"

definition zoneadd_admin_main :: "'e cli \<Rightarrow> string list \<Rightarrow> ('e shell, int) prog" where
  "zoneadd_admin_main k argv =
     (let opts = [(''zonename,z'', PO_text), (''ownername,w'', PO_text), (''member,m'', PO_texts),
        (''center,c'', PO_text), (''storage,s'', PO_text), (''path,p'', PO_text)] in
      cmdline_start k opts argv (\<lambda>vm.
      if length argv \<le> 1 then usage_error k opts cmd_need_args
      else if \<not> is_validate (text_of vm ''zonename'') then usage_error k opts cmd_illegal_chars
      else run_command k Wait_20s print_answer ((new_IPCreq k)\<lparr>ipc_cmdname := ''zoneadd_admin'',
         ipc_zonename := text_of vm ''zonename'', ipc_ownName := text_of vm ''ownername'',
         ipc_memName := texts_of vm ''member'',
         ipc_spaceurl := serialize k ser_Space ((new_Space k)\<lparr>sp_hostCenterName := text_of vm ''center'',
           sp_storageSrcName := text_of vm ''storage'', sp_spacePath := text_of vm ''path''\<rparr>)\<rparr>)))"

definition zonecancel_main :: "'e cli \<Rightarrow> string list \<Rightarrow> ('e shell, int) prog" where
  "zonecancel_main k argv =
     (let opts = [(''zonename,z'', PO_text)] in
      cmdline_start k opts argv (\<lambda>vm.
      if length argv \<le> 1 then usage_error k opts cmd_need_args
      else run_command k Wait_20s print_answer ((new_IPCreq k)\<lparr>ipc_cmdname := ''zonecancel'',
         ipc_zonename := text_of vm ''zonename''\<rparr>)))"

definition zonecancel_admin_main :: "'e cli \<Rightarrow> string list \<Rightarrow> ('e shell, int) prog" where
  "zonecancel_admin_main k argv =
     (let opts = [(''ownername,w'', PO_text), (''zonename,z'', PO_text)] in
      cmdline_start k opts argv (\<lambda>vm.
      if length argv \<le> 1 then usage_error k opts cmd_need_args
      else run_command k Wait_20s print_answer ((new_IPCreq k)\<lparr>ipc_cmdname := ''zonecancel_admin'',
         ipc_ownName := text_of vm ''ownername'', ipc_zonename := text_of vm ''zonename''\<rparr>)))"

definition zonelist_main :: "'e cli \<Rightarrow> string list \<Rightarrow> ('e shell, int) prog" where
  "zonelist_main k argv =
     (let opts = [] in
      cmdline_start k opts argv (\<lambda>vm.
      run_command k Wait_20s (print_zones k True) ((new_IPCreq k)\<lparr>ipc_cmdname := ''zonelist''\<rparr>)))"

definition zonelist_admin_main :: "'e cli \<Rightarrow> string list \<Rightarrow> ('e shell, int) prog" where
  "zonelist_admin_main k argv =
     (let opts = [(''ownername,w'', PO_text)] in
      cmdline_start k opts argv (\<lambda>vm.
      run_command k Wait_20s (print_zones k False) ((new_IPCreq k)\<lparr>ipc_cmdname := ''zonelist_admin'',
         ipc_ownName := text_of vm ''ownername''\<rparr>)))"

definition zoneregister_main :: "'e cli \<Rightarrow> string list \<Rightarrow> ('e shell, int) prog" where
  "zoneregister_main k argv =
     (let opts = [(''zonename,z'', PO_text), (''member,m'', PO_texts), (''spacename,s'', PO_text),
        (''size'', PO_int), (''center,c'', PO_text)] in
      cmdline_start k opts argv (\<lambda>vm.
      if length argv \<le> 1 then usage_error k opts cmd_need_args
      else if \<not> is_validate (text_of vm ''zonename'') \<or> \<not> is_validate (text_of vm ''spacename'') then usage_error k opts cmd_illegal_chars
      else run_command k Wait_20s print_answer ((new_IPCreq k)\<lparr>ipc_cmdname := ''zoneregister'',
         ipc_zonename := text_of vm ''zonename'', ipc_memName := texts_of vm ''member'',
         ipc_spacename := text_of vm ''spacename'', ipc_spacesize := int_or (ud_i64 k) vm ''size'',
         ipc_spaceurl := serialize k ser_Space ((new_Space k)\<lparr>sp_hostCenterName := text_of vm ''center''\<rparr>)\<rparr>)))"

definition zonerename_main :: "'e cli \<Rightarrow> string list \<Rightarrow> ('e shell, int) prog" where
  "zonerename_main k argv =
     (let opts = [(''zonename,z'', PO_text), (''newname,n'', PO_text)] in
      cmdline_start k opts argv (\<lambda>vm.
      if length argv \<le> 1 then usage_error k opts cmd_need_args
      else if \<not> is_validate (text_of vm ''newname'') then usage_error k opts cmd_illegal_chars
      else run_command k Wait_20s print_answer ((new_IPCreq k)\<lparr>ipc_cmdname := ''zonerename'',
         ipc_zonename := text_of vm ''zonename'', ipc_newzonename := text_of vm ''newname''\<rparr>)))"

definition zonerename_admin_main :: "'e cli \<Rightarrow> string list \<Rightarrow> ('e shell, int) prog" where
  "zonerename_admin_main k argv =
     (let opts = [(''ownername,w'', PO_text), (''zonename,z'', PO_text), (''newname,n'', PO_text)] in
      cmdline_start k opts argv (\<lambda>vm.
      if length argv \<le> 1 then usage_error k opts cmd_need_args
      else if \<not> is_validate (text_of vm ''newname'') then usage_error k opts cmd_illegal_chars
      else run_command k Wait_20s print_answer ((new_IPCreq k)\<lparr>ipc_cmdname := ''zonerename_admin'',
         ipc_ownName := text_of vm ''ownername'', ipc_zonename := text_of vm ''zonename'',
         ipc_newzonename := text_of vm ''newname''\<rparr>)))"

definition zoneshare_main :: "'e cli \<Rightarrow> string list \<Rightarrow> ('e shell, int) prog" where
  "zoneshare_main k argv =
     (let opts = [(''zonename,z'', PO_text), (''member,m'', PO_texts)] in
      cmdline_start k opts argv (\<lambda>vm.
      if length argv \<le> 1 then usage_error k opts cmd_need_args
      else run_command k Wait_20s print_answer ((new_IPCreq k)\<lparr>ipc_cmdname := ''zoneshare'',
         ipc_zonename := text_of vm ''zonename'', ipc_memName := texts_of vm ''member''\<rparr>)))"

definition zoneshare_admin_main :: "'e cli \<Rightarrow> string list \<Rightarrow> ('e shell, int) prog" where
  "zoneshare_admin_main k argv =
     (let opts = [(''ownername,w'', PO_text), (''zonename,z'', PO_text), (''member,m'', PO_texts)] in
      cmdline_start k opts argv (\<lambda>vm.
      if length argv \<le> 1 then usage_error k opts cmd_need_args
      else run_command k Wait_20s print_answer ((new_IPCreq k)\<lparr>ipc_cmdname := ''zoneshare_admin'',
         ipc_ownName := text_of vm ''ownername'', ipc_zonename := text_of vm ''zonename'',
         ipc_memName := texts_of vm ''member''\<rparr>)))"

definition zonesharecancel_main :: "'e cli \<Rightarrow> string list \<Rightarrow> ('e shell, int) prog" where
  "zonesharecancel_main k argv =
     (let opts = [(''zonename,z'', PO_text), (''member,m'', PO_texts)] in
      cmdline_start k opts argv (\<lambda>vm.
      if length argv \<le> 1 then usage_error k opts cmd_need_args
      else run_command k Wait_20s print_answer ((new_IPCreq k)\<lparr>ipc_cmdname := ''zonesharecancel'',
         ipc_zonename := text_of vm ''zonename'', ipc_memName := texts_of vm ''member''\<rparr>)))"

definition zonesharecancel_admin_main :: "'e cli \<Rightarrow> string list \<Rightarrow> ('e shell, int) prog" where
  "zonesharecancel_admin_main k argv =
     (let opts = [(''ownername,w'', PO_text), (''zonename,z'', PO_text), (''member,m'', PO_texts)] in
      cmdline_start k opts argv (\<lambda>vm.
      if length argv \<le> 1 then usage_error k opts cmd_need_args
      else run_command k Wait_20s print_answer ((new_IPCreq k)\<lparr>ipc_cmdname := ''zonesharecancel_admin'',
         ipc_ownName := text_of vm ''ownername'', ipc_zonename := text_of vm ''zonename'',
         ipc_memName := texts_of vm ''member''\<rparr>)))"

section \<open>What they ask\<close>

lemma prints_only_deref [intro]: "prints_only (deref x)"
  by (cases x) (auto simp: prints_only_def)

lemma prints_only_result [simp]: "prints_only (print_result m)" and prints_only_answer [simp]: "prints_only (print_answer m)"
  by (simp_all add: print_result_def print_answer_def)

lemma prints_only_usage_lines [simp]: "prints_only (print_usage_lines ns vs)"
  by (induction ns vs rule: print_usage_lines.induct) auto

lemma prints_only_usages [simp]: "prints_only (print_usages k ns m)"
  by (simp add: print_usages_def Let_def)

lemma prints_only_spaces [simp]: "prints_only (print_spaces b sps)"
  by (induction sps) auto

lemma prints_only_zone_list [simp]: "prints_only (print_zone_list b zs)"
  by (induction zs) auto

lemma prints_only_zones [simp]: "prints_only (print_zones k b m)"
  by (auto simp: print_zones_def)

definition space_programs :: "(string \<times> ('e cli \<Rightarrow> string list \<Rightarrow> ('e shell, int) prog)) list" where
  "space_programs =
     [(''spacerename'', spacerename_main), (''spacerename_admin'', spacerename_admin_main),
      (''spacesizechange'', spacesizechange_main), (''spaceusage'', spaceusage_main),
      (''spaceusage_admin'', spaceusage_admin_main), (''spacereplica'', spacereplica_main), (''mapadd'', mapadd_main),
      (''mapdeduct'', mapdeduct_main), (''mapdeduct_admin'', mapdeduct_admin_main), (''zoneadd_admin'', zoneadd_admin_main),
      (''zonecancel'', zonecancel_main), (''zonecancel_admin'', zonecancel_admin_main), (''zonelist'', zonelist_main),
      (''zonelist_admin'', zonelist_admin_main), (''zoneregister'', zoneregister_main), (''zonerename'', zonerename_main),
      (''zonerename_admin'', zonerename_admin_main), (''zoneshare'', zoneshare_main),
      (''zoneshare_admin'', zoneshare_admin_main), (''zonesharecancel'', zonesharecancel_main),
      (''zonesharecancel_admin'', zonesharecancel_admin_main)]"

lemmas space_main_defs = spacerename_main_def spacerename_admin_main_def spacesizechange_main_def spaceusage_main_def
  spaceusage_admin_main_def spacereplica_main_def mapadd_main_def mapdeduct_main_def mapdeduct_admin_main_def
  zoneadd_admin_main_def zonecancel_main_def zonecancel_admin_main_def zonelist_main_def zonelist_admin_main_def
  zoneregister_main_def zonerename_main_def zonerename_admin_main_def zoneshare_main_def zoneshare_admin_main_def
  zonesharecancel_main_def zonesharecancel_admin_main_def

lemma space_programs_ask: "(c, f) \<in> set space_programs \<Longrightarrow> only_asks k c (f k argv)"
  unfolding space_programs_def
  by (auto simp: space_main_defs Let_def intro!: only_asks_rules)

end
