(* ===== verification/Cmdline_User.thy ===== *)
theory Cmdline_User
  imports Cmdline UserModel
begin

text \<open>
  The programs on accounts, centres and storage resources: \<open>cmdline/usercmdline\<close>, \<open>cmdline/mconfcmdline\<close> and
  \<open>cmdline/aggregationcmdline\<close>, each as its \<open>main\<close>.
\<close>

section \<open>Printing\<close>

definition print_map_result :: "string \<Rightarrow> string \<Rightarrow> string \<Rightarrow> string \<Rightarrow> ('e shell, unit) prog" where
  "print_map_result success failed denied ipcresult = print_out
     (if ipcresult = ''0'' then success else if ipcresult = ''1'' then failed
      else if ipcresult = ''33'' then denied else ipcresult)"

text \<open>Looking up a centre without an account enters an empty one.\<close>

definition print_account_maps :: "'e cli \<Rightarrow> string \<Rightarrow> string \<Rightarrow> ('e shell, unit) prog" where
  "print_account_maps k username ipcresult =
     (if ipcresult = ''1'' then print_out cmd_maps_failed
      else if ipcresult = ''33'' then print_out cmd_maps_denied
      else if ipcresult = ''-1'' then print_out msg_no_account
      else
        let person = load k des_SCAccount ipcresult \<lparr>sc_accountID = [], sc_centerName = [], sc_localaccount = [], sc_localpassword = []\<rparr>;
            line = replicate 28 CHR ''='' in
        print_lines ([line, cmd_maps_user @ username, line] @
          concat (map (\<lambda>c. [cmd_maps_account @ smap_at [] (sc_localaccount person) c, cmd_maps_place @ c, line]) (sc_centerName person))))"

definition print_pools :: "string \<Rightarrow> ('e shell, unit) prog" where
  "print_pools ipcresult = print_out
     (if ipcresult = ''1'' then cmd_pool_failed else if ipcresult = ''33'' then cmd_pool_denied else ipcresult)"

definition print_applications :: "'e cli \<Rightarrow> string \<Rightarrow> ('e shell, unit) prog" where
  "print_applications k ipcresult =
     (if ipcresult = ''1'' then print_out ''fail''
      else if ipcresult = ''33'' then print_out ''is not admin''
      else
        print_lines (''========'' #
          concat (map (\<lambda>con. let a = load k des_apply_info con \<lparr>ai_id = [], ai_data = []\<rparr> in
            [''id: '' @ ai_id a, ''apply: '' @ ai_data a, ''========'']) (json_decode k (dec_vec dec_str []) ipcresult []))))"

definition print_cancelled :: "string \<Rightarrow> ('e shell, unit) prog" where
  "print_cancelled ipcresult = print_out
     (if ipcresult = ''-1'' then ''User cancellation fail''
      else if ipcresult = ''-2'' then ''User cancellation fail, your Zone is not cancal success''
      else if ipcresult = ''33'' then ''Verification failed, access denied''
      else if ipcresult = ''client_input_error'' then cmd_name_wrong
      else ipcresult)"

definition print_exit :: "string \<Rightarrow> ('e shell, unit) prog" where
  "print_exit ipcresult = print_out
     (if ipcresult = ''-1'' then ''Exit fail''
      else if ipcresult = ''33'' then ''Verification failed, access denied''
      else if ipcresult = ''client_input_error'' then cmd_name_wrong
      else ''Exit success'')"

definition print_login :: "string \<Rightarrow> ('e shell, unit) prog" where
  "print_login ipcresult = print_out (if ipcresult = ''-1'' then ''login fail'' else ''login success'')"

definition print_modified :: "string \<Rightarrow> ('e shell, unit) prog" where
  "print_modified ipcresult = print_out
     (if ipcresult = ''33'' then ''Verification failed, access denied''
      else if ipcresult = ''client_input_error'' then cmd_name_wrong
      else ipcresult)"

definition print_account :: "'e cli \<Rightarrow> string \<Rightarrow> ('e shell, unit) prog" where
  "print_account k ipcresult =
     (if ipcresult = ''-1'' then print_err ''search fail''
      else if ipcresult = ''33'' then print_out ''Verification failed, access denied''
      else if ipcresult = ''client_input_error'' then print_out cmd_input_wrong
      else
        let person = load k des_Account ipcresult new_Account in
        print_lines [cmd_l_name @ acc_accountName person, cmd_l_password @ acc_Password person,
          cmd_l_email @ acc_accountEmail person, cmd_l_phone @ acc_accountPhone person,
          cmd_l_address @ acc_accountAddress person, cmd_l_department @ acc_Department person])"

text \<open>Programs on centres and resources print one text for an answer and another for the rest.\<close>

definition print_outcome :: "string \<Rightarrow> string \<Rightarrow> string \<Rightarrow> ('e shell, unit) prog" where
  "print_outcome failure success ipcresult = print_out (if ipcresult = ''fail'' then failure else success)"

definition print_or :: "string \<Rightarrow> string \<Rightarrow> ('e shell, unit) prog" where
  "print_or failure ipcresult = print_out (if ipcresult = [] then failure else ipcresult)"

section \<open>Accounts\<close>

definition adcreateaccountmap_main :: "'e cli \<Rightarrow> string list \<Rightarrow> ('e shell, int) prog" where
  "adcreateaccountmap_main k argv =
     (let opts = [(''user,u'', PO_text), (''location,l'', PO_text)] in
      cmdline_start k opts argv (\<lambda>vm.
      if length argv \<le> 1 then usage_error k opts cmd_need_args
      else run_command k Wait_forever (print_map_result cmd_map_done cmd_map_failed cmd_map_denied) ((new_IPCreq k)\<lparr>
         ipc_cmdname := ''adcam'', ipc_accountName := text_of vm ''user'', ipc_centerName := text_of vm ''location''\<rparr>)))"

definition aduaccountmap_main :: "'e cli \<Rightarrow> string list \<Rightarrow> ('e shell, int) prog" where
  "aduaccountmap_main k argv =
     (let opts = [(''user,u'', PO_text), (''location,l'', PO_text)] in
      cmdline_start k opts argv (\<lambda>vm.
      if length argv \<le> 1 then usage_error k opts cmd_need_args
      else run_command k Wait_forever (print_map_result cmd_unmap_done cmd_unmap_failed cmd_unmap_denied) ((new_IPCreq k)\<lparr>
         ipc_cmdname := ''aduam'', ipc_accountName := text_of vm ''user'', ipc_centerName := text_of vm ''location''\<rparr>)))"

definition adsearchaccountmap_main :: "'e cli \<Rightarrow> string list \<Rightarrow> ('e shell, int) prog" where
  "adsearchaccountmap_main k argv =
     (let opts = [(''user,u'', PO_text)] in
      cmdline_start k opts argv (\<lambda>vm.
      if length argv \<le> 1 then usage_error k opts cmd_need_args
      else run_command k Wait_forever (print_account_maps k (text_of vm ''user'')) ((new_IPCreq k)\<lparr>
         ipc_cmdname := ''adsearcham'', ipc_accountName := text_of vm ''user''\<rparr>)))"

definition adseepool_main :: "'e cli \<Rightarrow> string list \<Rightarrow> ('e shell, int) prog" where
  "adseepool_main k argv =
     (let opts = [] in
      cmdline_start k opts argv (\<lambda>vm.
      run_command k Wait_forever print_pools ((new_IPCreq k)\<lparr>ipc_cmdname := ''adseepool''\<rparr>)))"

definition adminsignup_main :: "'e cli \<Rightarrow> string list \<Rightarrow> ('e shell, int) prog" where
  "adminsignup_main k argv =
     (let opts = [(''user,u'', PO_text), (''pass'', PO_text), (''email,e'', PO_text), (''phone'', PO_text),
        (''ad'', PO_text), (''de'', PO_text)] in
      cmdline_start k opts argv (\<lambda>vm.
      if length argv \<le> 1 then usage_error k opts cmd_need_args
      else run_command k Wait_forever print_answer ((new_IPCreq k)\<lparr>ipc_cmdname := ''adminsignup'',
         ipc_accountName := text_of vm ''user'', ipc_gvdsID := ''1'', ipc_Password := text_of vm ''pass'',
         ipc_email := text_of vm ''email'', ipc_phone := text_of vm ''phone'', ipc_address := text_of vm ''ad'',
         ipc_department := text_of vm ''de''\<rparr>)))"

definition listapply_main :: "'e cli \<Rightarrow> string list \<Rightarrow> ('e shell, int) prog" where
  "listapply_main k argv =
     (let opts = [] in
      cmdline_start k opts argv (\<lambda>vm.
      run_command k Wait_forever (print_applications k) ((new_IPCreq k)\<lparr>ipc_cmdname := ''listapply''\<rparr>)))"

definition usercancel_main :: "'e cli \<Rightarrow> string list \<Rightarrow> ('e shell, int) prog" where
  "usercancel_main k argv =
     (let opts = [(''user,u'', PO_text)] in
      cmdline_start k opts argv (\<lambda>vm.
      if length argv \<le> 1 then usage_error k opts cmd_need_args
      else run_command k Wait_forever print_cancelled ((new_IPCreq k)\<lparr>ipc_cmdname := ''usercancel'',
         ipc_accountName := text_of vm ''user''\<rparr>)))"

definition userexit_main :: "'e cli \<Rightarrow> string list \<Rightarrow> ('e shell, int) prog" where
  "userexit_main k argv =
     (let opts = [(''user,u'', PO_text)] in
      cmdline_start k opts argv (\<lambda>vm.
      if length argv \<le> 1 then usage_error k opts cmd_need_args
      else run_command k Wait_forever print_exit ((new_IPCreq k)\<lparr>ipc_cmdname := ''userexit'',
         ipc_accountName := text_of vm ''user''\<rparr>)))"

definition userlogin_main :: "'e cli \<Rightarrow> string list \<Rightarrow> ('e shell, int) prog" where
  "userlogin_main k argv =
     (let opts = [(''user,u'', PO_text), (''pass,p'', PO_text)] in
      cmdline_start k opts argv (\<lambda>vm.
      if length argv \<le> 1 then usage_error k opts cmd_need_args
      else run_command k Wait_forever print_login ((new_IPCreq k)\<lparr>ipc_cmdname := ''userlogin'',
         ipc_accountName := text_of vm ''user'', ipc_Password := text_of vm ''pass''\<rparr>)))"

definition usermodify_main :: "'e cli \<Rightarrow> string list \<Rightarrow> ('e shell, int) prog" where
  "usermodify_main k argv =
     (let opts = [(''user,u'', PO_text), (''pass'', PO_text), (''email,e'', PO_text), (''phone'', PO_text),
        (''ad'', PO_text), (''de'', PO_text)] in
      cmdline_start k opts argv (\<lambda>vm.
      if length argv \<le> 1 then usage_error k opts cmd_need_args
      else run_command k Wait_forever print_modified ((new_IPCreq k)\<lparr>ipc_cmdname := ''usermodify'',
         ipc_accountName := text_of vm ''user'', ipc_Password := text_of vm ''pass'',
         ipc_email := text_of vm ''email'', ipc_phone := text_of vm ''phone'', ipc_address := text_of vm ''ad'',
         ipc_department := text_of vm ''de''\<rparr>)))"

definition usersearch_main :: "'e cli \<Rightarrow> string list \<Rightarrow> ('e shell, int) prog" where
  "usersearch_main k argv =
     (let opts = [(''user,u'', PO_text)] in
      cmdline_start k opts argv (\<lambda>vm.
      if length argv \<le> 1 then usage_error k opts cmd_need_args
      else run_command k Wait_forever (print_account k) ((new_IPCreq k)\<lparr>ipc_cmdname := ''usersearch'',
         ipc_accountName := text_of vm ''user''\<rparr>)))"

definition usersignup_main :: "'e cli \<Rightarrow> string list \<Rightarrow> ('e shell, int) prog" where
  "usersignup_main k argv =
     (let opts = [(''user,u'', PO_text), (''pass,p'', PO_text), (''email,e'', PO_text), (''phone'', PO_text),
        (''ad'', PO_text), (''de'', PO_text)] in
      cmdline_start k opts argv (\<lambda>vm.
      if length argv \<le> 1 then usage_error k opts cmd_need_args
      else if text_of vm ''user'' \<in> {''--pass'', ''-p'', []} then usage_error k opts cmd_correct_args
      else run_command k Wait_forever (\<lambda>ipcresult. print_out (if ipcresult = ''0'' then cmd_signup_done else cmd_signup_failed))
         ((new_IPCreq k)\<lparr>ipc_cmdname := ''usersignup'', ipc_accountName := text_of vm ''user'', ipc_gvdsID := ''1'',
         ipc_Password := text_of vm ''pass'', ipc_email := text_of vm ''email'', ipc_phone := text_of vm ''phone'',
         ipc_address := text_of vm ''ad'', ipc_department := text_of vm ''de''\<rparr>)))"

text \<open>Exactly four arguments besides the name of the program.\<close>

definition suggestion_main :: "'e cli \<Rightarrow> string list \<Rightarrow> ('e shell, int) prog" where
  "suggestion_main k argv =
     (let opts = [(''sug,s'', PO_text), (''id,i'', PO_text)] in
      cmdline_start k opts argv (\<lambda>vm.
      if length argv \<noteq> 5 then usage_error k opts cmd_command_args_wrong
      else run_command k Wait_forever print_answer ((new_IPCreq k)\<lparr>ipc_cmdname := ''suggestion'',
         ipc_sug := text_of vm ''sug'', ipc_applyid := text_of vm ''id''\<rparr>)))"

section \<open>Centres\<close>

definition modifycenter_main :: "'e cli \<Rightarrow> string list \<Rightarrow> ('e shell, int) prog" where
  "modifycenter_main k argv =
     (let opts = [(''centerID,i'', PO_text), (''centerIP,a'', PO_text), (''centerPort,p'', PO_text),
        (''centerName,n'', PO_text)] in
      cmdline_start k opts argv (\<lambda>vm.
      if length argv \<le> 1 then usage_error k opts cmd_need_args
      else run_command k Wait_forever (print_outcome ''modify fail'' ''modify success'') ((new_IPCreq k)\<lparr>
         ipc_cmdname := ''modifycenter'', ipc_centerID := text_of vm ''centerID'',
         ipc_centerIP := text_of vm ''centerIP'', ipc_centerPort := text_of vm ''centerPort'',
         ipc_centerName := text_of vm ''centerName''\<rparr>)))"

definition deletecenter_main :: "'e cli \<Rightarrow> string list \<Rightarrow> ('e shell, int) prog" where
  "deletecenter_main k argv =
     (let opts = [(''centerID'', PO_text)] in
      cmdline_start k opts argv (\<lambda>vm.
      if length argv \<le> 1 then usage_error k opts cmd_need_args
      else
        bnd (print_lines [cmd_running, ''centerID: '' @ text_of vm ''centerID'']) (\<lambda>_.
        exchange k Wait_forever (print_outcome ''delete fail'' ''delete success'') ((new_IPCreq k)\<lparr>
          ipc_cmdname := ''deletecenter'', ipc_centerID := text_of vm ''centerID''\<rparr>))))"

definition searchcenter_main :: "'e cli \<Rightarrow> string list \<Rightarrow> ('e shell, int) prog" where
  "searchcenter_main k argv =
     cmdline_start k [] argv (\<lambda>vm.
     if length argv > 1 then usage_error k [] cmd_args_wrong
     else run_command k Wait_forever (\<lambda>ipcresult. print_out (if ipcresult = ''fail'' then ''search fail'' else ipcresult))
       ((new_IPCreq k)\<lparr>ipc_cmdname := ''searchcenter''\<rparr>))"

section \<open>Storage resources\<close>

text \<open>These look at every argument before the options are read; the refusal is not an error but in one of them.\<close>

definition checked_args :: "int \<Rightarrow> string list \<Rightarrow> ('e shell, int) prog \<Rightarrow> ('e shell, int) prog" where
  "checked_args status argv rest =
     (if list_all is_validate (tl argv) then rest else bnd (print_err cmd_illegal_input) (\<lambda>_. ret status))"

definition resourcedelete_main :: "'e cli \<Rightarrow> string list \<Rightarrow> ('e shell, int) prog" where
  "resourcedelete_main k argv = checked_args 0 argv
     (let opts = [(''ri'', PO_text)] in
      cmdline_start k opts argv (\<lambda>vm.
      if length argv \<le> 1 then usage_error k opts cmd_need_args
      else run_command k Wait_3s (print_or ''delete fail'') ((new_IPCreq k)\<lparr>ipc_cmdname := ''resourcedelete'',
         ipc_storage_src_id := text_of vm ''ri''\<rparr>)))"

definition state_name :: "int \<Rightarrow> string" where
  "state_name n = (case map_of [(0, ''Initializing''), (1, ''Normal''), (2, ''OverLoad''), (3, ''Logouting''), (4, ''Quited'')] n of
     Some t \<Rightarrow> t | None \<Rightarrow> [])"

fun dec_storages :: "'z indet_scheme \<Rightarrow> json list \<Rightarrow> storage_resource list outcome" where
  "dec_storages d [] = Val []"
| "dec_storages d (v # vs) =
     (case deserialize_value (\<lambda>ms x. Val (des_StorageResource d ms x)) v (new_StorageResource d) of
        Crash c \<Rightarrow> Crash c
      | Val z \<Rightarrow> (case dec_storages d vs of Crash c \<Rightarrow> Crash c | Val r \<Rightarrow> Val (z # r)))"

text \<open>\<open>substr\<close> beyond the end of an identifier that is shorter than its prefix throws.\<close>

primrec print_storages :: "storage_resource list \<Rightarrow> ('e shell, unit) prog" where
  "print_storages [] = ret ()"
| "print_storages (q # qs) =
     (if length (st_storage_src_id q) < length storage_prefix then crash Uncaught_Exception
      else
        bnd (print_lines
          [cmd_l_res_id @ drop (length storage_prefix) (st_storage_src_id q), cmd_l_res_name @ st_storage_src_name q,
           cmd_l_res_centre_id @ st_host_center_id q, cmd_l_res_centre_name @ st_host_center_name q,
           cmd_l_res_total @ int_dec (st_total_capacity q), cmd_l_res_assigned @ int_dec (st_assign_capacity q),
           cmd_l_res_mgs @ st_mgs_address q, cmd_l_res_state @ state_name (st_state q), []]) (\<lambda>_.
        print_storages qs))"

definition print_resources :: "'e cli \<Rightarrow> string \<Rightarrow> ('e shell, unit) prog" where
  "print_resources k ipcresult =
     (if ipcresult = [] then print_out ''no match resource''
      else
        bnd (of_outcome (case rj_parse k (cstr ipcresult) of Some (JArr vs) \<Rightarrow> dec_storages k vs | _ \<Rightarrow> Val [])) print_storages)"

definition resourcequery_main :: "'e cli \<Rightarrow> string list \<Rightarrow> ('e shell, int) prog" where
  "resourcequery_main k argv = checked_args 0 argv
     (let opts = [(''ri'', PO_text)] in
      cmdline_start k opts argv (\<lambda>vm.
      if length argv \<le> 1 then usage_error k opts cmd_need_args
      else run_command k Wait_3s (print_resources k) ((new_IPCreq k)\<lparr>ipc_cmdname := ''resourcequery'',
         ipc_storage_src_id := text_of vm ''ri''\<rparr>)))"

definition resource_options :: "po_option list" where
  "resource_options = [(''ri'', PO_text), (''rn'', PO_text), (''ci'', PO_text), (''cn'', PO_text), (''tc'', PO_int), (''ac'', PO_int),
     (''mgs'', PO_text), (''st'', PO_int)]"

definition resource_req :: "'e cli \<Rightarrow> string \<Rightarrow> variables_map \<Rightarrow> ipc_req" where
  "resource_req k c vm = (new_IPCreq k)\<lparr>ipc_cmdname := c,
     ipc_storage_src_id := text_or ''#default'' vm ''ri'', ipc_storage_src_name := text_or ''#default'' vm ''rn'',
     ipc_host_center_id := text_or ''#default'' vm ''ci'', ipc_host_center_name := text_or ''#default'' vm ''cn'',
     ipc_total_capacity := int_or (- 1) vm ''tc'', ipc_assign_capacity := int_or (- 1) vm ''ac'',
     ipc_mgs_address := text_or ''#default'' vm ''mgs'', ipc_state := int_or (- 1) vm ''st''\<rparr>"

text \<open>The first byte of a text; an empty one has its terminating NUL.\<close>

definition hashed :: "string \<Rightarrow> bool" where
  "hashed t \<longleftrightarrow> (case t of c # _ \<Rightarrow> c = CHR 0x23 | [] \<Rightarrow> False)"

definition resource_complete :: "ipc_req \<Rightarrow> bool" where
  "resource_complete r \<longleftrightarrow>
     \<not> hashed (ipc_storage_src_id r) \<and> \<not> hashed (ipc_storage_src_name r) \<and>
     (\<not> hashed (ipc_host_center_id r) \<or> \<not> hashed (ipc_host_center_name r)) \<and>
     ipc_total_capacity r \<noteq> - 1 \<and> ipc_assign_capacity r \<noteq> - 1 \<and> \<not> hashed (ipc_mgs_address r) \<and> ipc_state r \<noteq> - 1"

definition resourceregister_main :: "'e cli \<Rightarrow> string list \<Rightarrow> ('e shell, int) prog" where
  "resourceregister_main k argv = checked_args 0 argv
     (cmdline_start k resource_options argv (\<lambda>vm.
      if length argv \<le> 1 then usage_error k resource_options cmd_need_args
      else
        bnd (print_out cmd_running) (\<lambda>_.
        let r = resource_req k ''resourceregister'' vm in
        if \<not> resource_complete r then usage_error k resource_options cmd_incomplete_args
        else exchange k Wait_3s (print_or ''resource register fail'') r)))"

definition resourceupdate_main :: "'e cli \<Rightarrow> string list \<Rightarrow> ('e shell, int) prog" where
  "resourceupdate_main k argv = checked_args (- 1) argv
     (cmdline_start k resource_options argv (\<lambda>vm.
      let r = resource_req k ''resourceupdate'' vm in
      if length argv \<le> 1 then usage_error k resource_options cmd_update_need_args
      else if length argv < 7 then usage_error k resource_options cmd_update_few_args
      else if hashed (ipc_storage_src_id r) \<and> hashed (ipc_storage_src_name r) \<or>
          hashed (ipc_host_center_id r) \<and> hashed (ipc_host_center_name r) then
        bnd (print_err cmd_update_need_names) (\<lambda>_. ret (- 1))
      else run_command k Wait_3s (print_or ''resource register fail'') r))"

section \<open>What they ask\<close>

lemma prints_only_user [simp]:
  "prints_only (print_map_result a b c m)" "prints_only (print_account_maps k u m)" "prints_only (print_pools m)"
  "prints_only (print_applications k m)" "prints_only (print_cancelled m)" "prints_only (print_exit m)"
  "prints_only (print_login m)" "prints_only (print_modified m)" "prints_only (print_account k m)"
  "prints_only (print_outcome a b m)" "prints_only (print_or a m)" "prints_only (print_answer m)"
  by (simp_all add: print_map_result_def print_account_maps_def print_pools_def print_applications_def print_cancelled_def
      print_exit_def print_login_def print_modified_def print_account_def print_outcome_def print_or_def print_answer_def
      Let_def del: print_lines.simps)

lemma prints_only_storages [simp]: "prints_only (print_storages qs)"
  by (induction qs) (auto simp del: print_lines.simps)

lemma prints_only_resources [simp]: "prints_only (print_resources k m)"
  by (auto simp: print_resources_def)

lemma only_asks_checked: "only_asks k c m \<Longrightarrow> only_asks k c (checked_args n argv m)"
  by (auto simp: checked_args_def intro!: only_asks_nothing)

definition user_programs :: "(string \<times> ('e cli \<Rightarrow> string list \<Rightarrow> ('e shell, int) prog)) list" where
  "user_programs =
     [(''adcam'', adcreateaccountmap_main), (''aduam'', aduaccountmap_main), (''adsearcham'', adsearchaccountmap_main),
      (''adseepool'', adseepool_main), (''adminsignup'', adminsignup_main), (''listapply'', listapply_main),
      (''suggestion'', suggestion_main), (''usercancel'', usercancel_main), (''userexit'', userexit_main),
      (''userlogin'', userlogin_main), (''usermodify'', usermodify_main), (''usersearch'', usersearch_main),
      (''usersignup'', usersignup_main), (''modifycenter'', modifycenter_main), (''deletecenter'', deletecenter_main),
      (''searchcenter'', searchcenter_main), (''resourcedelete'', resourcedelete_main),
      (''resourcequery'', resourcequery_main), (''resourceregister'', resourceregister_main),
      (''resourceupdate'', resourceupdate_main)]"

lemmas user_main_defs = adcreateaccountmap_main_def aduaccountmap_main_def adsearchaccountmap_main_def adseepool_main_def
  adminsignup_main_def listapply_main_def suggestion_main_def usercancel_main_def userexit_main_def userlogin_main_def
  usermodify_main_def usersearch_main_def usersignup_main_def modifycenter_main_def deletecenter_main_def
  searchcenter_main_def resourcedelete_main_def resourcequery_main_def resourceregister_main_def resourceupdate_main_def

lemma resource_req_name [simp]: "ipc_cmdname (resource_req k c vm) = c"
  by (simp add: resource_req_def)

lemma user_programs_ask: "(c, f) \<in> set user_programs \<Longrightarrow> only_asks k c (f k argv)"
  unfolding user_programs_def
  by (auto simp: user_main_defs Let_def simp del: print_lines.simps
      intro!: only_asks_checked only_asks_rules only_asks_then [OF prints_only_simps(1)] only_asks_then [OF prints_only_simps(3)]
        only_asks_then [OF prints_only_simps(2)] only_asks_nothing [OF prints_only_simps(5)])

end
