(* ===== verification/Cmdline_Props.thy ===== *)
theory Cmdline_Props
  imports Cmdline_Space Cmdline_User Ipc_Manager
begin

text \<open>
  The command line programs with the client at the other end: which commands they ask for, what they print, and what
  their users are told when nobody answers.
\<close>

section \<open>Every program has its command\<close>

text \<open>The names of the commands.\<close>

lemma command_names:
  "map fst ipc_commands =
    [''spacerename'', ''spacerename_admin'', ''spacesizechange'', ''spaceusage'', ''spaceusage_admin'',
     ''mapadd'', ''mapdeduct'', ''mapdeduct_admin'', ''zoneadd_admin'', ''zonecancel'', ''zonecancel_admin'',
     ''zoneregister'', ''zonerename'', ''zonerename_admin'', ''zoneshare'', ''zoneshare_admin'',
     ''zonesharecancel'', ''zonesharecancel_admin'', ''zonelist'', ''zonelist_admin'', ''userlogin'',
     ''usersearch'', ''usersignup'', ''usermodify'', ''userexit'', ''usercancel'', ''authsearch'', ''authmodify'',
     ''modifycenter'', ''searchcenter'', ''deletecenter'', ''adminsignup'', ''listapply'', ''suggestion'',
     ''adcam'', ''aduam'', ''adsearcham'', ''adseepool'', ''adauthsearch'', ''adauthmodify'',
     ''resourceregister'', ''resourcedelete'', ''resourcequery'', ''resourceupdate'', ''spacereplica'']"
  by (simp add: ipc_commands_def)

lemma programs_have_commands:
  "list_all (\<lambda>c. c \<in> set (map fst ipc_commands)) (map fst space_programs @ map fst user_programs)"
  unfolding command_names space_programs_def user_programs_def list.map fst_conv
  by code_simp

text \<open>C18: A program asks for nothing but one request of its own command, whatever its arguments are and whatever is answered,
  and the client has that command.\<close>

theorem programs_ask_for_their_commands:
  fixes f :: "'e cli \<Rightarrow> string list \<Rightarrow> ('e shell, int) prog"
  assumes "(c, f) \<in> set space_programs \<or> (c, f) \<in> set user_programs"
  shows "wp (f k argv) (\<lambda>r s'. sh_env s' = sh_env s \<or>
      (\<exists>q. ipc_cmdname q = c \<and> sh_env s' = snd (ipc_wire k (GVDS_CLIENT_LISTENING_PORT k) (message_of (serialize k ser_IPCreq q)) (sh_env s)))) s \<and>
    map_of ipc_commands c \<noteq> None"
proof
  have "only_asks k c (f k argv)" using assms space_programs_ask user_programs_ask by blast
  then show "wp (f k argv) (\<lambda>r s'. sh_env s' = sh_env s \<or>
      (\<exists>q. ipc_cmdname q = c \<and> sh_env s' = snd (ipc_wire k (GVDS_CLIENT_LISTENING_PORT k) (message_of (serialize k ser_IPCreq q)) (sh_env s)))) s"
    by (simp add: only_asks_def asked_def wire_reply_def)
  let ?sp = "space_programs :: (string \<times> ('e cli \<Rightarrow> string list \<Rightarrow> ('e shell, int) prog)) list"
  let ?up = "user_programs :: (string \<times> ('e cli \<Rightarrow> string list \<Rightarrow> ('e shell, int) prog)) list"
  have "c \<in> set (map fst ?sp @ map fst ?up)" using assms by force
  then have "c \<in> set (map fst ipc_commands)" using programs_have_commands unfolding list_all_iff by blast
  then show "map_of ipc_commands c \<noteq> None" by (simp add: map_of_eq_None_iff)
qed

section \<open>The client at the other end\<close>

text \<open>
  A client listens on the port of its configuration and answers what its session writes; a session that ends the process
  answers nothing. The programs are linked with the same JSON library.
\<close>

definition client_port :: "'c net \<Rightarrow> int" where
  "client_port n = (case net_cfg_int n ''client.listen_port'' of Some p \<Rightarrow> p | None \<Rightarrow> 6666)"

definition client_cli :: "'c client cli \<Rightarrow> 'c net \<Rightarrow> 'c client cli" where
  "client_cli k n = k\<lparr>rj_write := rj_write n, rj_parse := rj_parse n, ipc_wire := \<lambda>port bytes s.
     if port \<noteq> client_port n then ([], s)
     else (case session_run (ipc_process n) bytes s of (Val written, s') \<Rightarrow> (concat written, s') | (Crash c, s') \<Rightarrow> ([], s'))\<rparr>"

lemma client_cli_sel [simp]:
  "serialize (client_cli k n) ser x = serialize n ser x" "new_IPCreq (client_cli k n) = new_IPCreq k"
  "po_parse (client_cli k n) = po_parse k" "po_usage (client_cli k n) = po_usage k"
  "GVDS_CLIENT_LISTENING_PORT (client_cli k n) = GVDS_CLIENT_LISTENING_PORT k"
  by (simp_all add: client_cli_def serialize_def new_IPCreq_def GVDS_CLIENT_LISTENING_PORT_def)

lemma client_cli_json [simp]:
  "rj_parse (client_cli k n) = rj_parse n" "rj_write (client_cli k n) = rj_write n" "ud_i64 (client_cli k n) = ud_i64 k"
  by (simp_all add: client_cli_def)

definition reaches :: "'c client cli \<Rightarrow> 'c net \<Rightarrow> ipc_req \<Rightarrow> bool" where
  "reaches k n r \<longleftrightarrow> json_law n \<and> wf_IPCreq r \<and> length (serialize n ser_IPCreq r) \<le> 9999 \<and> GVDS_CLIENT_LISTENING_PORT k = client_port n"

text \<open>What the command answers is what the callback prints.\<close>

lemma wp_exchange_client:
  assumes "reaches k n r"
    and "wp (do_command n r) (\<lambda>a t. \<exists>answer. a = Val answer \<and> length (cstr answer) \<le> 9999 \<and>
      wp (callback (cstr answer)) (\<lambda>x s'. case x of Val _ \<Rightarrow> Q (Val 0) s' | Crash c \<Rightarrow> Q (Crash c) s') (s\<lparr>sh_env := t\<rparr>)) (sh_env s)"
  shows "wp (exchange (client_cli k n) w callback r) Q s"
proof -
  have r: "json_law n" "wf_IPCreq r" "fits (serialize n ser_IPCreq r)"
    using assms(1) nul_free_serialize by (simp_all add: reaches_def fits_def)
  obtain res t where res: "do_command n r (sh_env s) = (res, t)" by fastforce
  from wp_D [OF assms(2) res] obtain answer where "res = Val answer" and len: "length (cstr answer) \<le> 9999"
    and cb: "wp (callback (cstr answer)) (\<lambda>x s'. case x of Val _ \<Rightarrow> Q (Val 0) s' | Crash c \<Rightarrow> Q (Crash c) s') (s\<lparr>sh_env := t\<rparr>)"
    by blast
  with res have run: "do_command n r (sh_env s) = (Val answer, t)" by simp
  from command_line_reaches_command [OF r run len] obtain written where
    "session_run (ipc_process n) (message_of (serialize n ser_IPCreq r)) (sh_env s) = (Val written, t)"
    and answer: "read_messages (concat written) = [cstr answer]" by blast
  then have "wire_reply (client_cli k n) r (sh_env s) = (concat written, t)"
    using assms(1) by (simp add: wire_reply_def client_cli_def GVDS_CLIENT_LISTENING_PORT_def serialize_def reaches_def)
  then show ?thesis
    using answer assms(1)
    by (auto simp: wp_exchange reaches_def intro!: wp_mono [OF cb] split: outcome.splits)
qed

lemma wp_run_client:
  assumes "reaches k n r"
    and "wp (do_command n r) (\<lambda>a t. \<exists>answer. a = Val answer \<and> length (cstr answer) \<le> 9999 \<and>
      wp (callback (cstr answer)) (\<lambda>x s'. case x of Val _ \<Rightarrow> Q (Val 0) s' | Crash c \<Rightarrow> Q (Crash c) s')
        (s\<lparr>sh_out := sh_out s @ [cmd_running], sh_env := t\<rparr>)) (sh_env s)"
  shows "wp (run_command (client_cli k n) w callback r) Q s"
  using assms by (auto simp: run_command_def intro!: wp_exchange_client)

section \<open>From an application to a login\<close>

definition given_options :: "'e cli \<Rightarrow> po_option list \<Rightarrow> string list \<Rightarrow> variables_map \<Rightarrow> bool" where
  "given_options k opts argv vm \<longleftrightarrow> po_parse k (global_options @ opts) (tl argv) = Inr vm \<and> vm_flags vm = []"

lemma wp_given: "given_options k opts argv vm \<Longrightarrow> wp (cmdline_start k opts argv rest) Q s = wp (rest vm) Q s"
  by (simp add: given_options_def wp_start)

lemma given_client [simp]: "given_options (client_cli k n) opts argv vm = given_options k opts argv vm"
  by (simp add: given_options_def)

lemma do_command_user:
  "ipc_cmdname r = ''suggestion'' \<Longrightarrow> do_command n r = dosuggestion n r"
  "ipc_cmdname r = ''userlogin'' \<Longrightarrow> do_command n r = douserlogin n r"
  "ipc_cmdname r = ''userexit'' \<Longrightarrow> do_command n r = douserexit n r"
  "ipc_cmdname r = ''deletecenter'' \<Longrightarrow> do_command n r = dodeletecenter n r"
  "ipc_cmdname r = ''spaceusage'' \<Longrightarrow> do_command n r = dospaceusage n r"
  "ipc_cmdname r = ''zonelist'' \<Longrightarrow> do_command n r = dozonelist n r"
  by (simp_all add: do_command_def ipc_commands_def)

definition suggestion_req :: "'e cli \<Rightarrow> string \<Rightarrow> string \<Rightarrow> ipc_req" where
  "suggestion_req k sug i = (new_IPCreq k)\<lparr>ipc_cmdname := ''suggestion'', ipc_sug := sug, ipc_applyid := i\<rparr>"

definition login_req :: "'e cli \<Rightarrow> string \<Rightarrow> string \<Rightarrow> ipc_req" where
  "login_req k name pass = (new_IPCreq k)\<lparr>ipc_cmdname := ''userlogin'', ipc_accountName := name, ipc_Password := pass\<rparr>"

lemma request_sel [simp]:
  "ipc_cmdname (suggestion_req k a i) = ''suggestion''" "ipc_sug (suggestion_req k a i) = a" "ipc_applyid (suggestion_req k a i) = i"
  "ipc_cmdname (login_req k m p) = ''userlogin''" "ipc_accountName (login_req k m p) = m" "ipc_Password (login_req k m p) = p"
  by (simp_all add: suggestion_req_def login_req_def)

lemma wp_suggestion_main:
  assumes "given_options k [(''sug,s'', PO_text), (''id,i'', PO_text)] argv vm" and "length argv = 5"
    and "reaches k n (suggestion_req k (text_of vm ''sug'') (text_of vm ''id''))"
    and "wp (dosuggestion n (suggestion_req k (text_of vm ''sug'') (text_of vm ''id''))) (\<lambda>a t. \<exists>answer. a = Val answer \<and>
      length (cstr answer) \<le> 9999 \<and> Q (Val 0) (s\<lparr>sh_env := t, sh_out := sh_out s @ [cmd_running, cstr answer]\<rparr>)) (sh_env s)"
  shows "wp (suggestion_main (client_cli k n) argv) Q s"
proof -
  have r: "(new_IPCreq k)\<lparr>ipc_cmdname := ''suggestion'', ipc_sug := text_of vm ''sug'', ipc_applyid := text_of vm ''id''\<rparr>
      = suggestion_req k (text_of vm ''sug'') (text_of vm ''id'')" by (simp add: suggestion_req_def)
  have "wp (run_command (client_cli k n) Wait_forever print_answer (suggestion_req k (text_of vm ''sug'') (text_of vm ''id''))) Q s"
    by (rule wp_run_client [OF assms(3)]) (use assms(4) in \<open>simp add: do_command_user print_answer_def\<close>)
  then show ?thesis
    using assms(1,2) by (simp add: suggestion_main_def Let_def wp_given r)
qed

lemma wp_userlogin_main:
  assumes "given_options k [(''user,u'', PO_text), (''pass,p'', PO_text)] argv vm" and "1 < length argv"
    and "reaches k n (login_req k (text_of vm ''user'') (text_of vm ''pass''))"
    and "wp (douserlogin n (login_req k (text_of vm ''user'') (text_of vm ''pass''))) (\<lambda>a t. \<exists>answer. a = Val answer \<and>
      length (cstr answer) \<le> 9999 \<and> Q (Val 0) (s\<lparr>sh_env := t, sh_out := sh_out s @
        [cmd_running, if cstr answer = ''-1'' then ''login fail'' else ''login success'']\<rparr>)) (sh_env s)"
  shows "wp (userlogin_main (client_cli k n) argv) Q s"
proof -
  have r: "(new_IPCreq k)\<lparr>ipc_cmdname := ''userlogin'', ipc_accountName := text_of vm ''user'', ipc_Password := text_of vm ''pass''\<rparr>
      = login_req k (text_of vm ''user'') (text_of vm ''pass'')" by (simp add: login_req_def)
  have "wp (run_command (client_cli k n) Wait_forever print_login (login_req k (text_of vm ''user'') (text_of vm ''pass''))) Q s"
    by (rule wp_run_client [OF assms(3)]) (rule wp_mono [OF assms(4) [folded do_command_user(2) [OF request_sel(4)]]], force simp: print_login_def)
  then show ?thesis
    using assms(1,2) by (simp add: userlogin_main_def Let_def wp_given r)
qed

text \<open>C16: An administrator who agrees to an application for an account reads that it is registered, and from then on the
  program of the user prints a successful login exactly for that password; through the options, the message, the client and the
  manager of each.\<close>

theorem approval_and_login_by_programs:
  assumes laws: "json_law sys" "couchbase_law sys" "couchbase_up sys" and wf: "wf_Account person" "length (acc_accountName person) \<le> 9000"
    and name: "simple_path (acc_accountName person)"
      "name_entry sys (cb_docs sys (net_env (sh_env s))) (acc_accountName person) = None"
    and map: "doc_members sys (cb_docs sys (net_env (sh_env s)) (manager_bucket sys, user_map_key)) \<noteq> None"
    and ids: "\<And>u. new_id sys u \<Longrightarrow> nul_free u \<and> answers sys (zones_owned_query sys u) [] \<and>
      answers sys (zones_member_query sys u) []"
    and json: "rj_parse sys ''fail'' = None" and e: "nul_free e" "length e < 244" and n: "n = manager_net sys e nf"
    and admin: "managed e (sh_env s)" "given_options ka [(''sug,s'', PO_text), (''id,i'', PO_text)] argv va" "length argv = 5"
      "text_of va ''sug'' = ''agree''" "take 5 (text_of va ''id'') = ''usign''"
      "smap_at [] (apply_id_data (sh_env s)) (text_of va ''id'') = serialize sys ser_Account person"
      "reaches ka n (suggestion_req ka ''agree'' (text_of va ''id''))"
    and user: "managed e (sh_env t)" "given_options ku [(''user,u'', PO_text), (''pass,p'', PO_text)] argw vu" "1 < length argw"
      "text_of vu ''user'' = acc_accountName person" "nul_free (text_of vu ''pass'')"
      "reaches ku n (login_req ku (acc_accountName person) (text_of vu ''pass''))"
  shows "wp (suggestion_main (client_cli ka n) argv) (\<lambda>x s'. x = Val 0 \<and>
    sh_out s' = sh_out s @ [cmd_running, ''Dear:'' @ acc_accountName person @ '', registration success''] \<and>
    wp (userlogin_main (client_cli ku n) argw) (\<lambda>y t'. y = Val 0 \<and>
      sh_out t' = sh_out t @ [cmd_running, if text_of vu ''pass'' = acc_Password person then ''login success'' else ''login fail''])
      (t\<lparr>sh_env := (sh_env t)\<lparr>net_env := net_env (sh_env s')\<rparr>\<rparr>)) s"
proof -
  have login: "wp (userlogin_main (client_cli ku n) argw) (\<lambda>y t'. y = Val 0 \<and>
      sh_out t' = sh_out t @ [cmd_running, if text_of vu ''pass'' = acc_Password person then ''login success'' else ''login fail''])
      (t\<lparr>sh_env := (sh_env t)\<lparr>net_env := w\<rparr>\<rparr>)" if reg: "registered sys person u w" for u w
  proof -
    have new: "new_id sys u" using reg by (simp add: registered_def)
    have m: "managed e ((sh_env t)\<lparr>net_env := w\<rparr>)" using user(1) by (simp add: managed_def)
    let ?r = "login_req ku (acc_accountName person) (text_of vu ''pass'')"
    from wp_douserlogin [OF laws wf(1) name(1), of ?r u "(sh_env t)\<lparr>net_env := w\<rparr>" e nf] ids [OF new] reg m e json user(5)
    have run: "wp (douserlogin n ?r) (\<lambda>a t'. a = Val (if text_of vu ''pass'' = acc_Password person then ''0'' else ''-1''))
        ((sh_env t)\<lparr>net_env := w\<rparr>)"
      unfolding n by (auto elim: wp_mono)
    show ?thesis
    proof (rule wp_userlogin_main [OF user(2,3)], unfold user(4))
      show "reaches ku n ?r" by (rule user(6))
    qed (rule wp_mono, use run in simp, intro exI conjI, assumption, simp_all add: cstr_def)
  qed
  let ?dear = "''Dear:'' @ acc_accountName person @ '', registration success''"
  have "nul_free ?dear" using wf(1) by (simp add: wf_Account_def nul_free_def)
  then have dear: "cstr ?dear = ?dear" "length ?dear \<le> 9999" using wf(2) by (simp_all add: cstr_id)
  let ?r = "suggestion_req ka ''agree'' (text_of va ''id'')"
  have run: "wp (dosuggestion n ?r) (\<lambda>a s'. a = Val ?dear \<and> (\<exists>u. registered sys person u (net_env s'))) (sh_env s)"
    unfolding n by (rule wp_approve [OF laws wf(1) name map admin(1)]) (simp_all add: admin)
  show ?thesis
  proof (rule wp_suggestion_main [OF admin(2,3)], unfold admin(4))
    show "reaches ka n ?r" by (rule admin(7))
  qed (rule wp_mono [OF run], elim conjE exE, rule exI [of _ ?dear],
      simp add: dear login del: append_Cons append.simps length_append split del: if_split)
qed

text \<open>A parser that knows long options with a value, and nobody listening.\<close>

fun long_options :: "string list \<Rightarrow> (string \<times> string) list" where
  "long_options (a # v # xs) = (drop 2 a, v) # long_options xs"
| "long_options xs = []"

definition sample_cli :: "'e cli" where
  "sample_cli = \<lparr>rj_write = mem_write, rj_parse = mem_parse, ud_int = 0, ud_i64 = 0, ud_bool = False,
     po_parse = \<lambda>opts args. Inr \<lparr>vm_flags = [], vm_text = map_of (long_options args), vm_texts = \<lambda>n. map_option (\<lambda>v. [v]) (map_of (long_options args) n),
       vm_int = \<lambda>n. None\<rparr>,
     po_usage = \<lambda>opts. ''usage'', environment = \<lambda>v. None, ipc_wire = \<lambda>p b e. ([], e)\<rparr>"

definition options_of :: "string list \<Rightarrow> variables_map" where
  "options_of argv = \<lparr>vm_flags = [], vm_text = map_of (long_options (tl argv)), 
     vm_texts = \<lambda>n. map_option (\<lambda>v. [v]) (map_of (long_options (tl argv)) n), vm_int = \<lambda>n. None\<rparr>"

lemma given_sample: "given_options sample_cli opts argv (options_of argv)"
  by (simp add: given_options_def sample_cli_def options_of_def)

lemma sample_cli_sel [simp]: "new_IPCreq sample_cli = new_IPCreq (sample_net :: unit net)" "GVDS_CLIENT_LISTENING_PORT sample_cli = 6666"
  "rj_write sample_cli = mem_write" "rj_parse sample_cli = mem_parse" "ud_i64 sample_cli = 0" "ud_int sample_cli = 0"
  by (simp_all add: sample_cli_def new_IPCreq_def GVDS_CLIENT_LISTENING_PORT_def)

lemma mem_bits: "length (enc_bits 0) = 1" "length (enc_bits (Suc 0)) = 2"
  by (simp_all add: enc_bits.simps)

lemma sample_reaches:
  assumes "wf_IPCreq r" and "rj_write n = mem_write" and "rj_parse n = mem_parse" and "net_cfg_int n ''client.listen_port'' = None"
    and "length (mem_write (JObj (ser_IPCreq r))) \<le> 9999"
  shows "reaches sample_cli n r"
  using assms mem_parse_write
  by (simp add: reaches_def client_port_def json_law_def serialize_def cstr_id mem_write_nul_free nul_free_def)

lemmas sample_request_defs = new_IPCreq_def wf_IPCreq_def nul_free_def in_i32_def in_i64_def ser_IPCreq_def enc_str_def enc_int_def
  enc_vec_def mem_write.simps mem_bits

lemma manager_net_cfg [simp]: "net_cfg_int (manager_net sys e nf) p = None"
  by (simp add: manager_net_def dead_net_def)

definition sample_shell :: "'e \<Rightarrow> 'e shell" where
  "sample_shell e = \<lparr>sh_out = [], sh_err = [], sh_env = e\<rparr>"

lemma approval_and_login_by_programs_witness:
  "wp (suggestion_main (client_cli sample_cli (manager_net mem_sys ''http://h:1'' [])) [''suggestion'', ''--sug'', ''agree'', ''--id'', ''usign-1''])
    (\<lambda>x s'. x = Val 0 \<and> wp (userlogin_main (client_cli sample_cli (manager_net mem_sys ''http://h:1'' []))
        [''userlogin'', ''--user'', ''eve'', ''--pass'', ''pw''])
      (\<lambda>y t'. y = Val 0 \<and> sh_out t' = [cmd_running, ''login success''])
      (sample_shell ((bob_client user_mem)\<lparr>net_env := net_env (sh_env s')\<rparr>))) (sample_shell admin_client)"
proof -
  let ?va = "options_of [''suggestion'', ''--sug'', ''agree'', ''--id'', ''usign-1'']"
  let ?vu = "options_of [''userlogin'', ''--user'', ''eve'', ''--pass'', ''pw'']"
  have texts: "text_of ?va ''sug'' = ''agree''" "text_of ?va ''id'' = ''usign-1''"
    "text_of ?vu ''user'' = ''eve''" "text_of ?vu ''pass'' = ''pw''"
    by (simp_all add: text_of_def text_or_def options_of_def)
  have wf: "wf_Account eve" using wf_sample_account by (simp add: eve_def wf_Account_def nul_free_def)
  have m: "managed ''http://h:1'' admin_client" using managed_bob [of user_mem] by (simp add: admin_client_def managed_def)
  have kept: "net_env admin_client = user_mem" "smap_at [] (apply_id_data admin_client) ''usign-1'' = serialize mem_sys ser_Account eve"
    by (simp_all add: admin_client_def smap_at_def)
  have name: "acc_accountName eve = ''eve''" "acc_Password eve = ''pw''" by (simp_all add: eve_def)
  have pw: "nul_free ''pw''" "nul_free ''http://h:1''" by (simp_all add: nul_free_def)
  have "reaches sample_cli (manager_net mem_sys ''http://h:1'' []) (suggestion_req sample_cli ''agree'' ''usign-1'')"
    "reaches sample_cli (manager_net mem_sys ''http://h:1'' []) (login_req sample_cli ''eve'' ''pw'')"
    by (intro sample_reaches; simp add: suggestion_req_def login_req_def sample_request_defs)+
  then show ?thesis
    by (intro wp_mono [OF approval_and_login_by_programs [OF mem_laws wf, where e = "''http://h:1''" and s = "sample_shell admin_client"
          and va = ?va and vu = ?vu and t = "sample_shell (bob_client user_mem)" and nf = "[]", OF _ _ _ _ _ _ _ _ refl]])
      (auto simp: kept m mem_ids mem_answers_info name simple_path_def user_map_key_def pw mem_parse_def given_sample texts sample_shell_def
        simp del: wp_bnd elim!: wp_mono)
qed

section \<open>The sizes of spaces\<close>

definition usage_req :: "'e cli \<Rightarrow> string \<Rightarrow> string list \<Rightarrow> ipc_req" where
  "usage_req k zone names = (new_IPCreq k)\<lparr>ipc_cmdname := ''spaceusage'', ipc_zonename := zone, ipc_spacenames := names\<rparr>"

lemma usage_req_sel [simp]:
  "ipc_cmdname (usage_req k z ns) = ''spaceusage''" "ipc_zonename (usage_req k z ns) = z" "ipc_spacenames (usage_req k z ns) = ns"
  by (simp_all add: usage_req_def)

definition usage_line :: "string \<Rightarrow> int \<Rightarrow> string" where
  "usage_line n v = cmd_usage_name @ n @ cmd_usage_used @ int_dec v @ ''K''"

lemma wp_usage_lines:
  "length ns \<le> length vs \<Longrightarrow> wp (print_usage_lines ns vs) Q s = Q (Val ()) (s\<lparr>sh_out := sh_out s @ map2 usage_line ns vs\<rparr>)"
  by (induction ns vs arbitrary: s rule: print_usage_lines.induct) (simp_all add: usage_line_def)

lemma usage_lines_short: "length vs < length ns \<Longrightarrow> wp (print_usage_lines ns vs) (\<lambda>r s'. r = Crash Out_Of_Range) s"
  by (induction ns vs arbitrary: s rule: print_usage_lines.induct) simp_all

text \<open>The request for the sizes, after the zone has been read.\<close>

definition usage_answer :: "'c net \<Rightarrow> string \<Rightarrow> 'c client \<Rightarrow> zone list \<Rightarrow> space list \<Rightarrow> string list \<Rightarrow> http_result \<times> 'c" where
  "usage_answer n e c zs xs names = posted n (e @ ''/space/spaceusagecheck'') (serialize n ser_SpaceRequest
     ((new_SpaceRequest n)\<lparr>sr_spaceIDs := map (\<lambda>m. sp_spaceID (the (space_of xs m))) names\<rparr>)) (after_zones n e (accountID c) c zs)"

lemma wp_dospaceusage:
  assumes "managed e c" and "accountID c \<noteq> []" and "zones_answered n e (accountID c) c zs"
    and "last_zone zs (ipc_zonename r) = Some z" and "z_spaceBicInfo z = map Some xs"
    and "\<forall>m \<in> set (ipc_spacenames r). space_of xs m \<noteq> None"
  shows "wp (dospaceusage n r) (\<lambda>a c'. a = Val (''1'' @ rest_answer (fst (usage_answer n e c zs xs (ipc_spacenames r))))) c"
proof -
  have "find (\<lambda>m. space_of xs m = None) (ipc_spacenames r) = None" using assms(6) unfolding find_None_iff by blast
  then show ?thesis
    using assms by (simp add: dospaceusage_def wp_logged_in space_usage_def wp_with_zone [OF assms(1,3,4)] with_ids_def
        ids_of_names_some wp_ask_manager [where e = e] wp_post usage_answer_def)
qed

lemma cstr_one: "nul_free t \<Longrightarrow> cstr (''1'' @ t) = ''1'' @ t"
  by (simp add: cstr_id nul_free_def)

lemma usages_back:
  assumes "json_law n" and "list_all in_i64 vs" and "rj_parse n ''fail'' = None"
  shows "json_decode n (dec_vec dec_i64 0) (json_encode n (enc_vec enc_int) vs) [] = vs"
    and "json_encode n (enc_vec enc_int) vs \<noteq> ''fail''" and "nul_free (json_encode n (enc_vec enc_int) vs)"
proof -
  have "plain (enc_vec enc_int vs)" using assms(2) by (auto simp: enc_vec_def enc_int_def list_all_iff in_i64_def)
  from json_lawD [OF assms(1) this] have p: "rj_parse n (json_encode n (enc_vec enc_int) vs) = Some (enc_vec enc_int vs)"
    by (simp add: json_encode_def)
  moreover have "dec_vec dec_i64 0 (enc_vec enc_int vs) [] = vs"
    using assms(2) by (intro dec_enc_vec) (simp add: list_all_iff)
  ultimately show "json_decode n (dec_vec dec_i64 0) (json_encode n (enc_vec enc_int) vs) [] = vs"
    by (simp add: json_decode_def json_encode_def)
  show "json_encode n (enc_vec enc_int) vs \<noteq> ''fail''" using p assms(3) by force
  show "nul_free (json_encode n (enc_vec enc_int) vs)" by (simp add: json_encode_def)
qed

text \<open>C38: Asking for the sizes of spaces prints for every name, in the order of the options, the number that the manager
  answered at its place. When the manager does not answer, the program reads an element of an empty vector.\<close>

theorem spaceusage_prints_each_space:
  assumes options: "given_options k [(''zonename,z'', PO_text), (''spacename,s'', PO_texts)] argv vm" "1 < length argv"
      "reaches k n (usage_req k (text_of vm ''zonename'') names)" "texts_of vm ''spacename'' = names"
    and client: "managed e (sh_env s)" "accountID (sh_env s) \<noteq> []" "zones_answered n e (accountID (sh_env s)) (sh_env s) zs"
      "last_zone zs (text_of vm ''zonename'') = Some z" "z_spaceBicInfo z = map Some xs" "\<forall>m \<in> set names. space_of xs m \<noteq> None"
    and json: "rj_parse n ''fail'' = None" "rj_parse n [] = None"
  shows "(fst (usage_answer n e (sh_env s) zs xs names) = Answered (json_encode n (enc_vec enc_int) vs) \<and> list_all in_i64 vs \<and>
      length (json_encode n (enc_vec enc_int) vs) < 9999 \<and> length vs = length names \<longrightarrow>
      wp (spaceusage_main (client_cli k n) argv) (\<lambda>x s'. x = Val 0 \<and>
        sh_out s' = sh_out s @ [cmd_running] @ map2 usage_line names vs) s) \<and>
    ((\<forall>body. fst (usage_answer n e (sh_env s) zs xs names) \<noteq> Answered body) \<and> names \<noteq> [] \<longrightarrow>
      wp (spaceusage_main (client_cli k n) argv) (\<lambda>x s'. x = Crash Out_Of_Range) s)"
proof -
  let ?r = "usage_req k (text_of vm ''zonename'') names"
  let ?t = "rest_answer (fst (usage_answer n e (sh_env s) zs xs names))"
  have r: "(new_IPCreq k)\<lparr>ipc_cmdname := ''spaceusage'', ipc_zonename := text_of vm ''zonename'', ipc_spacenames := names\<rparr> = ?r"
    by (simp add: usage_req_def)
  have run: "wp (do_command n ?r) (\<lambda>a c'. a = Val (''1'' @ ?t)) (sh_env s)"
    using wp_dospaceusage [OF client(1-3), of ?r z xs] client(4-6) by (simp add: do_command_user)
  have main: "wp (spaceusage_main (client_cli k n) argv) Q s"
    if "nul_free ?t" "length ?t < 9999" "\<And>c'. wp (print_usages (client_cli k n) names (''1'' @ ?t))
      (\<lambda>x s'. case x of Val _ \<Rightarrow> Q (Val 0) s' | Crash c \<Rightarrow> Q (Crash c) s') (s\<lparr>sh_out := sh_out s @ [cmd_running], sh_env := c'\<rparr>)" for Q
  proof -
    have "wp (run_command (client_cli k n) Wait_20s (print_usages (client_cli k n) names) ?r) Q s"
      by (rule wp_run_client [OF options(3)], rule wp_mono [OF run], rule exI [of _ "''1'' @ ?t"])
        (use that in \<open>simp add: cstr_one del: append_Cons append.simps\<close>)
    then show ?thesis
      using options(1,2) by (simp add: spaceusage_main_def Let_def wp_given options(4) r)
  qed
  show ?thesis
  proof (intro conjI impI)
    assume *: "fst (usage_answer n e (sh_env s) zs xs names) = Answered (json_encode n (enc_vec enc_int) vs) \<and> list_all in_i64 vs \<and>
      length (json_encode n (enc_vec enc_int) vs) < 9999 \<and> length vs = length names"
    have law: "json_law n" using options(3) by (simp add: reaches_def)
    note round = usages_back [OF law _ json(1), of vs]
    have "json_decode (client_cli k n) f t old = json_decode n f t old" for f t and old :: "int list"
      by (simp add: json_decode_def)
    then show "wp (spaceusage_main (client_cli k n) argv) (\<lambda>x s'. x = Val 0 \<and>
        sh_out s' = sh_out s @ [cmd_running] @ map2 usage_line names vs) s"
      using * round by (intro main) (simp_all add: rest_answer_def print_usages_def Let_def wp_usage_lines)
  next
    assume *: "(\<forall>body. fst (usage_answer n e (sh_env s) zs xs names) \<noteq> Answered body) \<and> names \<noteq> []"
    then have t: "?t = []" by (simp add: rest_answer_def split: http_result.split)
    have "json_decode (client_cli k n) (dec_vec dec_i64 0) [] [] = []"
      using json(2) by (simp add: json_decode_def dec_vec_def)
    then have crash: "wp (print_usages (client_cli k n) names (''1'' @ ?t)) (\<lambda>x s'. x = Crash Out_Of_Range) s'" for s'
      using * t by (simp add: print_usages_def Let_def usage_lines_short)
    show "wp (spaceusage_main (client_cli k n) argv) (\<lambda>x s'. x = Crash Out_Of_Range) s"
    proof (rule main)
      show "nul_free ?t" "length ?t < 9999" by (simp_all add: t nul_free_def)
    qed (rule wp_mono [OF crash], simp)
  qed
qed

text \<open>The space \<open>home\<close> of the zone \<open>lab\<close>, of which five kilobytes are used.\<close>

lemma info_net_cfg [simp]: "net_cfg_int (info_net a) p = None"
  by (simp add: info_net_def sample_net_def dead_net_def)

abbreviation five_net :: "string list net" where
  "five_net \<equiv> info_net (Answered (json_encode (sample_net :: unit net) (enc_vec enc_int) [5]))"

lemma spaceusage_prints_each_space_witness:
  "wp (spaceusage_main (client_cli sample_cli five_net) [''spaceusage'', ''--zonename'', ''lab'', ''--spacename'', ''home''])
    (\<lambda>x s'. x = Val 0 \<and> sh_out s' = [cmd_running, usage_line ''home'' 5]) (sample_shell (bob_client []))"
proof -
  let ?argv = "[''spaceusage'', ''--zonename'', ''lab'', ''--spacename'', ''home'']"
  have texts: "text_of (options_of ?argv) ''zonename'' = ''lab''" "texts_of (options_of ?argv) ''spacename'' = [''home'']"
    by (simp_all add: text_of_def text_or_def texts_of_def options_of_def)
  have reach: "reaches sample_cli five_net (usage_req sample_cli (text_of (options_of ?argv) ''zonename'') [''home''])"
    unfolding texts by (intro sample_reaches; simp add: usage_req_def sample_request_defs)
  have answer: "fst (usage_answer five_net ''http://h:1'' (bob_client []) [team_zone] [sample_space] [''home''])
      = Answered (json_encode five_net (enc_vec enc_int) [5])"
    by (simp add: usage_answer_def posted_def json_encode_def)
  have short: "length (json_encode five_net (enc_vec enc_int) [5]) < 9999"
    by (simp add: json_encode_def cstr_id mem_write_nul_free nul_free_def)
      (simp add: enc_vec_def enc_int_def mem_write.simps enc_bits.simps [of 5] enc_bits.simps [of 2] mem_bits)
  let ?s = "sample_shell (bob_client ([] :: string list))"
  have s: "sh_env ?s = bob_client []" "sh_out ?s = []" by (simp_all add: sample_shell_def)
  have zone: "last_zone [team_zone] (text_of (options_of ?argv) ''zonename'') = Some team_zone"
    and found: "\<forall>m \<in> set [''home'']. space_of [sample_space] m \<noteq> None" by (simp_all add: texts)
  have json: "rj_parse five_net ''fail'' = None" "rj_parse five_net [] = None" by (simp_all add: mem_parse_def)
  have argc: "1 < length ?argv" and bob: "accountID (sh_env ?s) \<noteq> []" by (simp_all add: s)
  have m: "managed ''http://h:1'' (sh_env ?s)" and z: "zones_answered five_net ''http://h:1'' (accountID (sh_env ?s)) (sh_env ?s) [team_zone]"
    by (simp_all add: s)
  note claim = spaceusage_prints_each_space [OF given_sample argc reach texts(2) m bob z zone team_zone_sel(3) found json, of "[5]"]
  show ?thesis using claim answer short by (simp add: s in_i64_def)
qed

section \<open>The list of zones\<close>

definition space_lines :: "space option \<Rightarrow> string list" where
  "space_lines p = (case p of None \<Rightarrow> [] | Some x \<Rightarrow>
     [cmd_l_space_name @ sp_spaceName x, cmd_l_space_id @ sp_spaceID x, cmd_l_space_size @ int_dec (sp_spaceSize x),
      cmd_l_space_centre @ sp_hostCenterName x])"

definition zone_lines :: "zone \<Rightarrow> string list" where
  "zone_lines z = [cmd_l_zone_name @ z_zoneName z, cmd_l_zone_owner @ z_ownerID z] @ map (\<lambda>m. cmd_l_zone_member @ m) (z_memberID z) @
     concat (map space_lines (z_spaceBicInfo z)) @ [replicate 29 CHR ''='']"

lemma wp_print_spaces:
  "None \<notin> set sps \<Longrightarrow> wp (print_spaces True sps) Q s = Q (Val ()) (s\<lparr>sh_out := sh_out s @ concat (map space_lines sps)\<rparr>)"
proof (induction sps arbitrary: s)
  case (Cons p sps)
  then obtain x where "p = Some x" by (cases p) auto
  with Cons show ?case by (simp add: space_lines_def)
qed simp

lemma wp_print_zone_list:
  "\<forall>z \<in> set zs. None \<notin> set (z_spaceBicInfo z) \<Longrightarrow>
    wp (print_zone_list True zs) Q s = Q (Val ()) (s\<lparr>sh_out := sh_out s @ concat (map zone_lines zs)\<rparr>)"
  by (induction zs arbitrary: s) (simp_all add: wp_print_spaces zone_lines_def)

definition zonelist_req :: "'e cli \<Rightarrow> ipc_req" where
  "zonelist_req k = (new_IPCreq k)\<lparr>ipc_cmdname := ''zonelist''\<rparr>"

lemma zonelist_req_sel [simp]: "ipc_cmdname (zonelist_req k) = ''zonelist''"
  by (simp add: zonelist_req_def)

text \<open>The list of zones: every zone that the manager answers is printed in its order with its owner, its members and its
  spaces, and nothing else.\<close>

theorem zonelist_prints_the_zones:
  assumes options: "given_options k [] argv vm" "reaches k n (zonelist_req k)"
    and client: "managed e (sh_env s)" "accountID (sh_env s) \<noteq> []"
      "fst (posted n (e @ ''/zone/info'') (accountID (sh_env s)) (sh_env s)) = Answered (json_encode n (enc_vec enc_Zone) zs)"
    and zones: "list_all (\<lambda>z. wf_Zone z \<and> z_contains_spaceinfo z) zs" "length (json_encode n (enc_vec enc_Zone) zs) \<le> 9999"
    and json: "rj_parse n ''fail'' = None"
  shows "wp (zonelist_main (client_cli k n) argv) (\<lambda>x s'. x = Val 0 \<and>
    sh_out s' = sh_out s @ [cmd_running] @ concat (map zone_lines zs)) s"
proof -
  let ?t = "json_encode n (enc_vec enc_Zone) zs"
  have law: "json_law n" using options(2) by (simp add: reaches_def)
  then have law': "json_law (client_cli k n)" by (simp add: json_law_def)
  have wf: "list_all wf_Zone zs" using zones(1) by (simp add: list_all_iff)
  have same: "map (\<lambda>z. carry_Zone z (new_Zone d)) zs = zs" for d :: "'a client cli"
    using zones(1) by (intro map_idI) (simp add: list_all_iff carry_Zone_def new_Zone_def)
  have "decode_zones (client_cli k n) (json_encode (client_cli k n) (enc_vec enc_Zone) zs) = Val zs"
    using zones_back [OF law' wf] same by simp
  then have decoded: "decode_zones (client_cli k n) ?t = Val zs" by (simp add: json_encode_def)
  have "plain (enc_vec enc_Zone zs)"
    using wf Zone_json.plain_ser by (auto simp: enc_vec_def enc_Zone_def list_all_iff)
  from json_lawD [OF law this] have "rj_parse n ?t \<noteq> None" by (simp add: json_encode_def)
  then have plain_text: "?t \<noteq> ''fail''" "cstr ?t = ?t" using json by (auto simp: json_encode_def)
  have there: "\<forall>z \<in> set zs. None \<notin> set (z_spaceBicInfo z)"
    using zones(1) by (force simp: list_all_iff wf_Zone_def)
  have run: "wp (do_command n (zonelist_req k)) (\<lambda>a c. a = Val ?t) (sh_env s)"
    using client by (simp add: do_command_user dozonelist_def wp_logged_in wp_ask_manager wp_post rest_answer_def)
  have "wp (run_command (client_cli k n) Wait_20s (print_zones (client_cli k n) True) (zonelist_req k)) (\<lambda>x s'. x = Val 0 \<and>
      sh_out s' = sh_out s @ [cmd_running] @ concat (map zone_lines zs)) s"
    by (rule wp_run_client [OF options(2)], rule wp_mono [OF run])
      (simp add: plain_text zones(2) print_zones_def decoded wp_print_zone_list [OF there])
  then show ?thesis
    using options(1) by (simp add: zonelist_main_def Let_def wp_given zonelist_req_def)
qed

lemma zonelist_prints_the_zones_witness:
  "wp (zonelist_main (client_cli sample_cli (info_net Rejected)) [''zonelist''])
    (\<lambda>x s'. x = Val 0 \<and> sh_out s' = cmd_running # zone_lines team_zone) (sample_shell (bob_client []))"
proof -
  let ?s = "sample_shell (bob_client ([] :: string list))" and ?n = "info_net Rejected"
  have s: "sh_env ?s = bob_client []" "sh_out ?s = []" by (simp_all add: sample_shell_def)
  have reach: "reaches sample_cli ?n (zonelist_req sample_cli)"
    by (intro sample_reaches; simp add: zonelist_req_def sample_request_defs)
  have same: "json_encode ?n (enc_vec enc_Zone) [team_zone] = info_text" by (simp add: info_text_def json_encode_def)
  have answer: "fst (posted ?n (''http://h:1'' @ ''/zone/info'') (accountID (sh_env ?s)) (sh_env ?s)) = Answered (json_encode ?n (enc_vec enc_Zone) [team_zone])"
    by (simp add: same posted_def)
  have zone: "list_all (\<lambda>z. wf_Zone z \<and> z_contains_spaceinfo z) [team_zone]"
    by (simp add: team_zone_def sample_zone_def sample_space_def wf_Zone_def wf_Space_def nul_free_def in_i32_def in_i64_def new_Zone_def)
  have short: "length (json_encode ?n (enc_vec enc_Zone) [team_zone]) \<le> 9999"
    by (simp add: json_encode_def cstr_id mem_write_nul_free nul_free_def)
      (simp add: team_zone_def sample_zone_def sample_space_def enc_Zone_def ser_Zone_def ser_Space_def enc_vec_def enc_str_def enc_int_def enc_bool_def enc_ptr_def mem_write.simps mem_bits enc_bits.simps [of 10] enc_bits.simps [of 7] enc_bits.simps [of 5] enc_bits.simps [of 3]
        enc_bits.simps [of 2])
  have m: "managed ''http://h:1'' (sh_env ?s)" "accountID (sh_env ?s) \<noteq> []" by (simp_all add: s)
  have json: "rj_parse ?n ''fail'' = None" by (simp add: mem_parse_def)
  show ?thesis
    using zonelist_prints_the_zones [OF given_sample reach m answer zone short json, of "[''zonelist'']"] by (simp add: s)
qed

section \<open>What nobody answered\<close>

definition exit_req :: "'e cli \<Rightarrow> string \<Rightarrow> ipc_req" where
  "exit_req k name = (new_IPCreq k)\<lparr>ipc_cmdname := ''userexit'', ipc_accountName := name\<rparr>"

definition delete_req :: "'e cli \<Rightarrow> string \<Rightarrow> ipc_req" where
  "delete_req k c = (new_IPCreq k)\<lparr>ipc_cmdname := ''deletecenter'', ipc_centerID := c\<rparr>"

lemma silent_req_sel [simp]:
  "ipc_cmdname (exit_req k n) = ''userexit''" "ipc_accountName (exit_req k n) = n"
  "ipc_cmdname (delete_req k c) = ''deletecenter''" "ipc_centerID (delete_req k c) = c"
  by (simp_all add: exit_req_def delete_req_def)

text \<open>C40: When the manager does not answer, the program that logs out prints a success although the user stays logged in, and
  the one that deletes a centre prints a success too.\<close>

theorem silence_is_success:
  assumes "given_options k [(''user,u'', PO_text)] argv vm" and "given_options k [(''centerID'', PO_text)] argw vc"
    and "1 < length argv" and "1 < length argw"
    and "reaches k n (exit_req k (text_of vm ''user''))" and "reaches k n (delete_req k (text_of vc ''centerID''))"
    and "managed e (sh_env s)" and "text_of vm ''user'' = accountName (sh_env s)"
    and "\<And>u t c. fst (net_get n u t c) = Rejected" and "\<And>u t d c. fst (net_post n u t d c) = Rejected"
  shows "wp (userexit_main (client_cli k n) argv) (\<lambda>x s'. x = Val 0 \<and> sh_out s' = sh_out s @ [cmd_running, ''Exit success''] \<and>
      accountID (sh_env s') = accountID (sh_env s)) s \<and>
    wp (deletecenter_main (client_cli k n) argw) (\<lambda>x s'. x = Val 0 \<and>
      sh_out s' = sh_out s @ [cmd_running, ''centerID: '' @ text_of vc ''centerID'', ''delete success'']) s"
proof
  have run: "wp (do_command n (exit_req k (text_of vm ''user''))) (\<lambda>a c. a = Val [] \<and> accountID c = accountID (sh_env s)) (sh_env s)"
    using assms(7-9)
    by (auto simp: do_command_user douserexit_def for_account_def getAccountName_def getAccountID_def get_manager_text_def
        wp_get_manager get_request_def getToken_def rest_answer_def case_prod_beta)
  have "wp (run_command (client_cli k n) Wait_forever print_exit (exit_req k (text_of vm ''user''))) (\<lambda>x s'. x = Val 0 \<and>
      sh_out s' = sh_out s @ [cmd_running, ''Exit success''] \<and> accountID (sh_env s') = accountID (sh_env s)) s"
    by (rule wp_run_client [OF assms(5)], rule wp_mono [OF run]) (simp add: print_exit_def)
  then show "wp (userexit_main (client_cli k n) argv) (\<lambda>x s'. x = Val 0 \<and> sh_out s' = sh_out s @ [cmd_running, ''Exit success''] \<and>
      accountID (sh_env s') = accountID (sh_env s)) s"
    using assms(1,3) by (simp add: userexit_main_def Let_def wp_given exit_req_def)
next
  let ?s = "s\<lparr>sh_out := sh_out s @ [cmd_running, ''centerID: '' @ text_of vc ''centerID'']\<rparr>"
  have run: "wp (do_command n (delete_req k (text_of vc ''centerID''))) (\<lambda>a c. a = Val []) (sh_env ?s)"
    using assms(7,10) by (simp add: do_command_user dodeletecenter_def wp_ask_manager wp_post posted_def rest_answer_def)
  have "wp (exchange (client_cli k n) Wait_forever (print_outcome ''delete fail'' ''delete success'')
      (delete_req k (text_of vc ''centerID''))) (\<lambda>x s'. x = Val 0 \<and>
      sh_out s' = sh_out s @ [cmd_running, ''centerID: '' @ text_of vc ''centerID'', ''delete success'']) ?s"
    by (rule wp_exchange_client [OF assms(6)], rule wp_mono [OF run]) (simp add: print_outcome_def)
  then show "wp (deletecenter_main (client_cli k n) argw) (\<lambda>x s'. x = Val 0 \<and>
      sh_out s' = sh_out s @ [cmd_running, ''centerID: '' @ text_of vc ''centerID'', ''delete success'']) s"
    using assms(2,4) by (simp add: deletecenter_main_def Let_def wp_given delete_req_def del: print_lines.simps)
qed

lemma sample_net_silent [simp]: "net_cfg_int sample_net p = None" "fst (net_get sample_net u t c) = Rejected"
  by (simp_all add: sample_net_def dead_net_def)

lemma silence_is_success_witness:
  "wp (userexit_main (client_cli sample_cli sample_net) [''userexit'', ''--user'', ''bob'']) (\<lambda>x s'. x = Val 0 \<and>
     sh_out s' = [cmd_running, ''Exit success''] \<and> accountID (sh_env s') = ''u1'') (sample_shell (bob_client ())) \<and>
   wp (deletecenter_main (client_cli sample_cli sample_net) [''deletecenter'', ''--centerID'', ''2'']) (\<lambda>x s'. x = Val 0 \<and>
     sh_out s' = [cmd_running, ''centerID: 2'', ''delete success'']) (sample_shell (bob_client ()))"
proof -
  let ?argv = "[''userexit'', ''--user'', ''bob'']" and ?argw = "[''deletecenter'', ''--centerID'', ''2'']"
  let ?s = "sample_shell (bob_client ())"
  have s: "sh_env ?s = bob_client ()" "sh_out ?s = []" by (simp_all add: sample_shell_def)
  have texts: "text_of (options_of ?argv) ''user'' = ''bob''" "text_of (options_of ?argw) ''centerID'' = ''2''"
    by (simp_all add: text_of_def text_or_def options_of_def)
  have reach: "reaches sample_cli sample_net (exit_req sample_cli (text_of (options_of ?argv) ''user''))"
    "reaches sample_cli sample_net (delete_req sample_cli (text_of (options_of ?argw) ''centerID''))"
    unfolding texts by (intro sample_reaches; simp add: exit_req_def delete_req_def sample_request_defs)+
  have rest: "1 < length ?argv" "1 < length ?argw" "managed ''http://h:1'' (sh_env ?s)"
    "text_of (options_of ?argv) ''user'' = accountName (sh_env ?s)"
    by (simp_all add: s texts)
  have "fst (net_post sample_net u t d (c :: unit)) = Rejected" for u t d c by simp
  from silence_is_success [OF given_sample given_sample rest(1,2) reach rest(3,4) sample_net_silent(2) this]
  show ?thesis by (simp add: s texts)
qed

section \<open>A size that was not given\<close>

definition resize_req :: "'e cli \<Rightarrow> string \<Rightarrow> string \<Rightarrow> int \<Rightarrow> ipc_req" where
  "resize_req k z n v = (new_IPCreq k)\<lparr>ipc_cmdname := ''spacesizechange'', ipc_zonename := z, ipc_spacename := n, ipc_newspacesize := v\<rparr>"

text \<open>Without the option for the new size of a space the program applies for the number that happens to be on its stack.\<close>

theorem size_not_given_is_the_stack:
  assumes "given_options k [(''zonename,z'', PO_text), (''spacename,s'', PO_text), (''newsize,n'', PO_int)] argv vm"
    and "1 < length argv" and "vm_int vm ''newsize'' = None"
    and "q = resize_req k (text_of vm ''zonename'') (text_of vm ''spacename'') (ud_i64 k)" and "length (serialize k ser_IPCreq q) \<le> 9999"
  shows "wp (spacesizechange_main k argv) (\<lambda>x s'. sh_env s' = snd (wire_reply k q (sh_env s))) s"
proof -
  have q: "(new_IPCreq k)\<lparr>ipc_cmdname := ''spacesizechange'', ipc_zonename := text_of vm ''zonename'',
      ipc_spacename := text_of vm ''spacename'', ipc_newspacesize := int_or (ud_i64 k) vm ''newsize''\<rparr> = q"
    using assms(3,4) by (simp add: resize_req_def int_or_def)
  have "prints_only (case read_messages bytes of [] \<Rightarrow> no_answer Wait_20s | m # ms \<Rightarrow> bnd (print_answer m) (\<lambda>_. ret 0))"
    for bytes :: string by (auto split: list.split)
  note after = wp_mono [OF prints_only_wp [OF this]]
  show ?thesis
    using assms(1,2,5)
    by (auto simp: spacesizechange_main_def Let_def wp_given run_command_def wp_exchange q case_prod_beta intro!: after)
qed

lemma size_not_given_is_the_stack_witness:
  "wp (spacesizechange_main (sample_cli\<lparr>ipc_wire := \<lambda>p b e. ([], b # e)\<rparr>) [''resize'', ''--zonename'', ''lab'', ''--spacename'', ''home''])
    (\<lambda>x s'. length (sh_env s') = 1) (sample_shell [])"
proof -
  let ?k = "sample_cli\<lparr>ipc_wire := \<lambda>p b e. ([], b # e)\<rparr>" and ?argv = "[''resize'', ''--zonename'', ''lab'', ''--spacename'', ''home'']"
  have given: "given_options ?k opts ?argv (options_of ?argv)" for opts
    by (simp add: given_options_def sample_cli_def options_of_def)
  have texts: "text_of (options_of ?argv) ''zonename'' = ''lab''" "text_of (options_of ?argv) ''spacename'' = ''home''"
    "vm_int (options_of ?argv) ''newsize'' = None"
    by (simp_all add: text_of_def text_or_def options_of_def)
  let ?q = "resize_req ?k (text_of (options_of ?argv) ''zonename'') (text_of (options_of ?argv) ''spacename'') (ud_i64 ?k)"
  have "length (serialize ?k ser_IPCreq ?q) \<le> 9999"
    by (simp add: texts serialize_def cstr_id mem_write_nul_free nul_free_def)
      (simp add: resize_req_def sample_cli_def sample_request_defs)
  from size_not_given_is_the_stack [OF given _ texts(3) refl this, of "sample_shell []"]
  show ?thesis by (auto simp: wire_reply_def sample_shell_def elim!: wp_mono)
qed

lemma programs_ask_for_their_commands_witness:
  "map_of (ipc_commands :: (string \<times> (unit net \<Rightarrow> ipc_req \<Rightarrow> (unit, string) cprog)) list) ''userlogin'' \<noteq> None \<and>
   wp (userlogin_main (sample_cli\<lparr>ipc_wire := \<lambda>p b e. ([], b # e)\<rparr>) [''userlogin'', ''--user'', ''eve''])
     (\<lambda>r s'. length (sh_env s') \<le> 1) (sample_shell [])"
proof -
  let ?k = "sample_cli\<lparr>ipc_wire := \<lambda>p b e. ([], b # e)\<rparr>"
  have "(''userlogin'', userlogin_main) \<in> set space_programs \<or> (''userlogin'', userlogin_main) \<in> set user_programs"
    by (simp add: user_programs_def)
  from programs_ask_for_their_commands [OF this, of ?k "[''userlogin'', ''--user'', ''eve'']" "sample_shell []"]
  show ?thesis by (auto simp: sample_shell_def elim!: wp_mono)
qed

end
