(* ===== verification/Config.thy ===== *)
theory Config
  imports Prelude "HOL-Library.Sublist"
begin

text \<open>
  \<open>config/ConfigureSettings.h\<close>, \<open>config/ConfigureSettings.cc\<close>, \<open>config/default_config.hpp\<close>: the options
  that every program reads. The tree of settings belongs to the library libconfig, a parameter; \<open>conf_law\<close>
  states what its documentation promises. The defaults only fill what the file leaves open.
\<close>

section \<open>The library\<close>

text \<open>A setting; a floating point number is kept as it is written.\<close>

datatype conf_node =
    C_Group
  | C_List "conf_node list"
  | C_Array "conf_node list"
  | C_Int int
  | C_Int64 int
  | C_Float string
  | C_Bool bool
  | C_String string

text \<open>
  A reference to a setting is the list of the names that lead to it from the root. \<open>lc_file\<close> reads and parses a file
  (None is any of the exceptions that the constructor catches), \<open>lc_add\<close> adds a setting with its value and gives
  None when it throws. \<open>lc_at\<close> reads a setting off a tree; no definition of the program uses it.
\<close>

record 's libconfig =
  fs_exists :: "string \<Rightarrow> bool"
  lc_file :: "string \<Rightarrow> 's option"
  lc_empty :: 's
  lc_exists :: "string list \<Rightarrow> string \<Rightarrow> 's \<Rightarrow> bool"
  lc_is_group :: "string list \<Rightarrow> 's \<Rightarrow> bool"
  lc_list :: "string list \<Rightarrow> 's \<Rightarrow> conf_node list option"
  lc_int :: "string list \<Rightarrow> string \<Rightarrow> 's \<Rightarrow> int option"
  lc_bool :: "string list \<Rightarrow> string \<Rightarrow> 's \<Rightarrow> bool option"
  lc_string :: "string list \<Rightarrow> string \<Rightarrow> 's \<Rightarrow> string option"
  lc_add :: "string list \<Rightarrow> string \<Rightarrow> conf_node \<Rightarrow> 's \<Rightarrow> 's option"
  lc_at :: "'s \<Rightarrow> string list \<Rightarrow> conf_node option"

text \<open>The names that libconfig accepts: a letter or an asterisk, then letters, digits, hyphens, underscores, asterisks.\<close>

definition name_ok :: "string \<Rightarrow> bool" where
  "name_ok n = (case n of [] \<Rightarrow> False
     | c # cs \<Rightarrow> (let letter = (\<lambda>c. c \<in> set ''abcdefghijklmnopqrstuvwxyzABCDEFGHIJKLMNOPQRSTUVWXYZ*'') in
         letter c \<and> list_all (\<lambda>c. letter c \<or> c \<in> set ''0123456789-_'') cs))"

text \<open>
  The settings form a tree whose inner nodes are the groups; a lookup of a string or a bool succeeds on settings of that
  type alone, one of an integer on integers (what it makes of other numbers is not said); adding a name that is free
  changes nothing else.
\<close>

definition conf_law :: "'s libconfig \<Rightarrow> bool" where
  "conf_law k \<longleftrightarrow>
     (\<forall>s. lc_at k s [] = Some C_Group) \<and>
     (\<forall>s p n. lc_at k s p \<noteq> Some C_Group \<longrightarrow> lc_at k s (p @ [n]) = None) \<and>
     (\<forall>s p n. lc_exists k p n s \<longleftrightarrow> lc_at k s (p @ [n]) \<noteq> None) \<and>
     (\<forall>s p. lc_is_group k p s \<longleftrightarrow> lc_at k s p = Some C_Group) \<and>
     (\<forall>s p. lc_list k p s = (case lc_at k s p of Some (C_List xs) \<Rightarrow> Some xs | _ \<Rightarrow> None)) \<and>
     (\<forall>s p n. lc_string k p n s = (case lc_at k s (p @ [n]) of Some (C_String t) \<Rightarrow> Some t | _ \<Rightarrow> None)) \<and>
     (\<forall>s p n. lc_bool k p n s = (case lc_at k s (p @ [n]) of Some (C_Bool b) \<Rightarrow> Some b | _ \<Rightarrow> None)) \<and>
     (\<forall>s p n. (lc_at k s (p @ [n]) = None \<longrightarrow> lc_int k p n s = None) \<and>
        (\<forall>i. lc_at k s (p @ [n]) = Some (C_Int i) \<longrightarrow> lc_int k p n s = Some i)) \<and>
     (\<forall>s p n d. lc_at k s p = Some C_Group \<and> name_ok n \<and> lc_at k s (p @ [n]) = None \<longrightarrow>
        (\<exists>s'. lc_add k p n d s = Some s' \<and> lc_at k s' = (lc_at k s)(p @ [n] \<mapsto> d)))"

section \<open>\<open>ConfigureSettings\<close>\<close>

record 's config =
  baseCfg :: 's
  cf_vaild :: bool

definition new_ConfigureSettings :: "'s libconfig \<Rightarrow> string \<Rightarrow> 's config" where
  "new_ConfigureSettings k configfile =
     (case lc_file k configfile of
        Some s \<Rightarrow> \<lparr>baseCfg = s, cf_vaild = True\<rparr> | None \<Rightarrow> \<lparr>baseCfg = lc_empty k, cf_vaild = False\<rparr>)"

text \<open>A path is split at its dots: the groups on the way, and the name at its end.\<close>

fun dotted :: "string \<Rightarrow> string \<Rightarrow> string list \<times> string" where
  "dotted acc [] = ([], acc)"
| "dotted acc (c # cs) =
     (if c = CHR ''.'' then (let (ts, l) = dotted [] cs in (acc # ts, l)) else dotted (acc @ [c]) cs)"

text \<open>\<open>_push_forward\<close>: the group that a path leads to, null when there is none.\<close>

primrec push_forward :: "'s libconfig \<Rightarrow> 's \<Rightarrow> string list \<Rightarrow> string list \<Rightarrow> string list option" where
  "push_forward k s cur [] = Some cur"
| "push_forward k s cur (t # ts) =
     (if \<not> lc_exists k cur t s then None
      else if \<not> lc_is_group k (cur @ [t]) s then None
      else push_forward k s (cur @ [t]) ts)"

text \<open>\<open>get\<close>, for the lookup of the type that is asked for.\<close>

definition config_get :: "'s libconfig \<Rightarrow> (string list \<Rightarrow> string \<Rightarrow> 's \<Rightarrow> 'a option) \<Rightarrow> 's config \<Rightarrow> string \<Rightarrow> 'a option" where
  "config_get k lookup c path =
     (if \<not> cf_vaild c then None
      else let (ts, l) = dotted [] path in
        case push_forward k (baseCfg c) [] ts of None \<Rightarrow> None | Some cur \<Rightarrow> lookup cur l (baseCfg c))"

text \<open>\<open>get_list\<close>: the elements of the type that is asked for, those of other types left out.\<close>

definition config_get_list :: "'s libconfig \<Rightarrow> (conf_node \<Rightarrow> 'a option) \<Rightarrow> 's config \<Rightarrow> string \<Rightarrow> 'a list option" where
  "config_get_list k of_type c path =
     (if \<not> cf_vaild c then None
      else let (ts, l) = dotted [] path in
        case push_forward k (baseCfg c) [] ts of
          None \<Rightarrow> None
        | Some cur \<Rightarrow>
            if \<not> lc_exists k cur l (baseCfg c) then None
            else (case lc_list k (cur @ [l]) (baseCfg c) of None \<Rightarrow> None | Some xs \<Rightarrow> Some (List.map_filter of_type xs)))"

definition conf_add :: "'s libconfig \<Rightarrow> string list \<Rightarrow> string \<Rightarrow> conf_node \<Rightarrow> ('s config, unit) prog" where
  "conf_add k cur n d = (\<lambda>c. case lc_add k cur n d (baseCfg c) of
     None \<Rightarrow> (Crash Uncaught_Exception, c) | Some s \<Rightarrow> (Val (), c\<lparr>baseCfg := s\<rparr>))"

definition conf_asks :: "('s config \<Rightarrow> 'a) \<Rightarrow> ('s config, 'a) prog" where
  "conf_asks f = (\<lambda>c. (Val (f c), c))"

text \<open>\<open>_build_group\<close>: missing groups are made; a setting in the way that is none stops the program.\<close>

primrec build_group :: "'s libconfig \<Rightarrow> string list \<Rightarrow> string list \<Rightarrow> ('s config, string list) prog" where
  "build_group k cur [] = ret cur"
| "build_group k cur (t # ts) =
     bnd (conf_asks (\<lambda>c. lc_exists k cur t (baseCfg c))) (\<lambda>there.
     bnd (if \<not> there then conf_add k cur t C_Group
          else bnd (conf_asks (\<lambda>c. lc_is_group k (cur @ [t]) (baseCfg c))) (\<lambda>group.
            if \<not> group then crash Assert_Failed else ret ())) (\<lambda>_.
     build_group k (cur @ [t]) ts))"

text \<open>\<open>_add\<close>, which splits what is left of the path once more.\<close>

definition add_at :: "'s libconfig \<Rightarrow> string list \<Rightarrow> string \<Rightarrow> conf_node \<Rightarrow> ('s config, bool) prog" where
  "add_at k setting path d =
     (let (ts, l) = dotted [] path in
      bnd (build_group k setting ts) (\<lambda>cur.
      bnd (conf_asks (\<lambda>c. lc_exists k cur l (baseCfg c))) (\<lambda>there.
      if there then ret False else bnd (conf_add k cur l d) (\<lambda>_. ret True))))"

definition config_add :: "'s libconfig \<Rightarrow> string \<Rightarrow> conf_node \<Rightarrow> ('s config, bool) prog" where
  "config_add k path d =
     bnd (conf_asks cf_vaild) (\<lambda>vaild.
     if \<not> vaild then ret False
     else let (ts, l) = dotted [] path in bnd (build_group k [] ts) (\<lambda>cur. add_at k cur l d))"

section \<open>The defaults\<close>

definition defaults :: "(string \<times> conf_node) list" where
  "defaults =
     [(''user.age'', C_Int 1), (''user.hello.world'', C_Bool False), (''user.world'', C_String ''any string''),
      (''float'', C_Float ''3.14''), (''list'', C_List [C_Int 1, C_Int 2, C_Int 3]),
      (''ip'', C_String ''127.0.0.1''), (''manager_addr'', C_String ''127.0.0.1:9090''), (''ioproxy.cid'', C_String ''1''),
      (''log.path'', C_String ''/var/log/gvds.log''), (''log.level'', C_Int 10), (''ioproxy.rpc_port'', C_Int 9092),
      (''ioproxy.rpc_workers'', C_Int 6), (''ioproxy.rpc_timeout'', C_Int 3000), (''ioproxy.rpc_retry'', C_Int 3),
      (''manager.couchbase_addr'', C_String ''127.0.0.1''), (''manager.couchbase_user'', C_String ''dev''),
      (''manager.couchbase_passwd'', C_String ''buaaica''),
      (''client.mountpoint'', C_String ''/mnt/gvds''), (''client.foreground'', C_Bool True), (''client.debug'', C_Bool False),
      (''client.multithread'', C_Bool True), (''client.auto_unmount'', C_Bool True), (''client.use_udt'', C_Bool False),
      (''ioproxy.scher'', C_Int 6), (''ioproxy.data_port'', C_Int 9095), (''ioproxy.data_buffer'', C_Int 10240000),
      (''ioproxy.data_conn'', C_Int 50),
      (''client.data_port_begin'', C_Int 9096), (''client.data_port_end'', C_Int 9150), (''client.data_buffer'', C_Int 10240000),
      (''manager.port'', C_Int 9090), (''manager.thread_num'', C_Int 6), (''manager.id'', C_String ''1'')]"

primrec add_all :: "'s libconfig \<Rightarrow> (string \<times> conf_node) list \<Rightarrow> ('s config, unit) prog" where
  "add_all k [] = ret ()"
| "add_all k (x # xs) = bnd (config_add k (fst x) (snd x)) (\<lambda>_. add_all k xs)"

definition default_config :: "'s libconfig \<Rightarrow> ('s config, unit) prog" where
  "default_config k = add_all k defaults"

text \<open>
  \<open>init_config\<close>: the first file that exists is taken, and no other is tried when it cannot be read. A null pointer
  is None.
\<close>

definition default_config_paths :: "string list" where
  "default_config_paths = [''./gvds.conf'', ''/etc/gvds/gvds.conf'', ''/opt/gvds/gvds.conf'']"

definition init_config :: "'s libconfig \<Rightarrow> string \<Rightarrow> 's config option outcome" where
  "init_config k config_path =
     (let paths = (if config_path = [] then default_config_paths else config_path # default_config_paths) in
      case find (fs_exists k) paths of
        None \<Rightarrow> Val None
      | Some path \<Rightarrow>
          (let c = new_ConfigureSettings k path in
           if \<not> cf_vaild c then Val None
           else (case default_config k c of (Val _, c') \<Rightarrow> Val (Some c') | (Crash x, _) \<Rightarrow> Crash x)))"

end
