(* ===== verification/Config_Props.thy ===== *)
theory Config_Props
  imports Config
begin

text \<open>
  What an option is worth: what the file says, else the default. The tree of settings is observed as a map from paths,
  on which adding and starting have a one line specification.
\<close>

section \<open>The laws\<close>

lemma conf_lawD:
  assumes "conf_law k"
  shows "lc_at k s [] = Some C_Group" "lc_at k s p \<noteq> Some C_Group \<Longrightarrow> lc_at k s (p @ [n]) = None"
    "lc_exists k p n s \<longleftrightarrow> lc_at k s (p @ [n]) \<noteq> None" "lc_is_group k p s \<longleftrightarrow> lc_at k s p = Some C_Group"
    "lc_string k p n s = (case lc_at k s (p @ [n]) of Some (C_String t) \<Rightarrow> Some t | _ \<Rightarrow> None)"
    "lc_at k s (p @ [n]) = None \<Longrightarrow> lc_int k p n s = None"
    "lc_at k s (p @ [n]) = Some (C_Int i) \<Longrightarrow> lc_int k p n s = Some i"
    "lc_at k s p = Some C_Group \<Longrightarrow> name_ok n \<Longrightarrow> lc_at k s (p @ [n]) = None \<Longrightarrow>
       \<exists>s'. lc_add k p n d s = Some s' \<and> lc_at k s' = (lc_at k s)(p @ [n] \<mapsto> d)"
  using assms by (simp_all add: conf_law_def)

lemma below_nothing:
  assumes "conf_law k" and "lc_at k s p \<noteq> Some C_Group" and "r \<noteq> []"
  shows "lc_at k s (p @ r) = None"
  using assms(3)
proof (induction r rule: rev_induct)
  case (snoc n r)
  show ?case
  proof (cases "r = []")
    case True
    then show ?thesis using conf_lawD(2) [OF assms(1,2)] by simp
  next
    case False
    with snoc.IH have "lc_at k s (p @ r) \<noteq> Some C_Group" by simp
    from conf_lawD(2) [OF assms(1) this] show ?thesis by simp
  qed
qed simp

lemma wp_conf_asks [simp]: "wp (conf_asks f) Q c = Q (Val (f c)) c"
  by (simp add: wp_def conf_asks_def)

lemma wp_conf_add:
  assumes "conf_law k" and "lc_at k (baseCfg c) p = Some C_Group" "name_ok n" "lc_at k (baseCfg c) (p @ [n]) = None"
    and "\<And>c'. cf_vaild c' = cf_vaild c \<Longrightarrow> lc_at k (baseCfg c') = (lc_at k (baseCfg c))(p @ [n] \<mapsto> d) \<Longrightarrow> Q (Val ()) c'"
  shows "wp (conf_add k p n d) Q c"
  using conf_lawD(8) [OF assms(1-4), of d] assms(5) by (auto simp: wp_def conf_add_def)

section \<open>Paths\<close>

definition config_path :: "string \<Rightarrow> string list" where
  "config_path path = (let (ts, l) = dotted [] path in ts @ [l])"

definition groups_of :: "string list \<Rightarrow> string list set" where
  "groups_of p = {q. q \<noteq> [] \<and> strict_prefix q p}"

lemma dotted_last: "CHR ''.'' \<notin> set (snd (dotted acc p)) \<or> CHR ''.'' \<in> set acc"
  by (induction acc p rule: dotted.induct) (auto split: prod.splits)

lemma dotted_plain: "CHR ''.'' \<notin> set p \<Longrightarrow> dotted acc p = ([], acc @ p)"
  by (induction acc p rule: dotted.induct) auto

lemma dotted_again: "dotted [] path = (ts, l) \<Longrightarrow> dotted [] l = ([], l)"
  using dotted_last [of "[]" path] by (simp add: dotted_plain)

section \<open>Reading\<close>

lemma push_forward_at:
  assumes "conf_law k" and "lc_at k s cur = Some C_Group"
  shows "push_forward k s cur ts = (if lc_at k s (cur @ ts) = Some C_Group then Some (cur @ ts) else None)"
  using assms(2)
proof (induction ts arbitrary: cur)
  case (Cons t ts)
  show ?case
  proof (cases "lc_at k s (cur @ [t]) = Some C_Group")
    case True
    then show ?thesis using Cons.IH [of "cur @ [t]"] by (simp add: conf_lawD(3,4) [OF assms(1)])
  next
    case False
    have "lc_at k s (cur @ t # ts) \<noteq> Some C_Group"
      using below_nothing [OF assms(1) False, of ts] False by (cases ts) auto
    with False show ?thesis by (simp add: conf_lawD(3,4) [OF assms(1)])
  qed
qed simp

text \<open>Reading a text gives the setting at the path when it is a text.\<close>

lemma config_get_string:
  assumes "conf_law k" and "cf_vaild c"
  shows "config_get k (lc_string k) c path =
    (case lc_at k (baseCfg c) (config_path path) of Some (C_String t) \<Rightarrow> Some t | _ \<Rightarrow> None)"
proof -
  obtain ts l where d: "dotted [] path = (ts, l)" by fastforce
  have "lc_at k (baseCfg c) ts \<noteq> Some C_Group \<Longrightarrow> lc_at k (baseCfg c) (ts @ [l]) = None"
    by (rule conf_lawD(2) [OF assms(1)])
  then show ?thesis
    using d assms(2) push_forward_at [OF assms(1) conf_lawD(1) [OF assms(1)], of "baseCfg c" ts]
    by (simp add: config_get_def config_path_def conf_lawD(5) [OF assms(1)])
qed

lemma config_get_int:
  assumes "conf_law k" and "cf_vaild c"
  shows "lc_at k (baseCfg c) (config_path path) = None \<Longrightarrow> config_get k (lc_int k) c path = None"
    "lc_at k (baseCfg c) (config_path path) = Some (C_Int i) \<Longrightarrow> config_get k (lc_int k) c path = Some i"
proof -
  obtain ts l where d: "dotted [] path = (ts, l)" by fastforce
  note out = conf_lawD(2) [OF assms(1), of "baseCfg c" ts l]
  note go = push_forward_at [OF assms(1) conf_lawD(1) [OF assms(1)], of "baseCfg c" ts]
  show "lc_at k (baseCfg c) (config_path path) = None \<Longrightarrow> config_get k (lc_int k) c path = None"
    using d assms(2) out go conf_lawD(6) [OF assms(1)] by (simp add: config_get_def config_path_def)
  show "lc_at k (baseCfg c) (config_path path) = Some (C_Int i) \<Longrightarrow> config_get k (lc_int k) c path = Some i"
    using d assms(2) out go conf_lawD(7) [OF assms(1)] by (cases "lc_at k (baseCfg c) ts = Some C_Group")
      (auto simp: config_get_def config_path_def)
qed

section \<open>Adding\<close>

text \<open>The specification: what is there stays, the setting and the groups on its path are entered where nothing is.\<close>

definition entered :: "string list \<Rightarrow> conf_node \<Rightarrow> string list \<Rightarrow> conf_node option" where
  "entered p d q = (if q = p then Some d else if q \<noteq> [] \<and> strict_prefix q p then Some C_Group else None)"

definition filled :: "string list \<Rightarrow> conf_node \<Rightarrow> (string list \<Rightarrow> conf_node option) \<Rightarrow> string list \<Rightarrow> conf_node option" where
  "filled p d m = entered p d ++ m"

definition in_the_way :: "(string list \<Rightarrow> conf_node option) \<Rightarrow> string list \<Rightarrow> bool" where
  "in_the_way m p \<longleftrightarrow> (\<exists>q. q \<noteq> [] \<and> strict_prefix q p \<and> m q \<noteq> None \<and> m q \<noteq> Some C_Group)"

text \<open>The groups of a path are made where they are missing.\<close>

definition with_groups :: "string list \<Rightarrow> string list \<Rightarrow> (string list \<Rightarrow> conf_node option) \<Rightarrow> string list \<Rightarrow> conf_node option" where
  "with_groups cur ts m q = (if m q = None \<and> strict_prefix cur q \<and> prefix q (cur @ ts) then Some C_Group else m q)"

lemma with_groups_Cons:
  "m (cur @ [t]) = Some C_Group \<Longrightarrow> with_groups (cur @ [t]) ts m = with_groups cur (t # ts) m"
  "m (cur @ [t]) = None \<Longrightarrow> with_groups (cur @ [t]) ts (m(cur @ [t] \<mapsto> C_Group)) = with_groups cur (t # ts) m"
  by (auto simp: with_groups_def fun_eq_iff prefix_def strict_prefix_def append_eq_append_conv2 Cons_eq_append_conv)

lemma wp_build_group:
  assumes "conf_law k" and "lc_at k (baseCfg c) cur = Some C_Group" and "\<forall>t \<in> set ts. name_ok t"
    and "\<And>a b. ts = a @ b \<Longrightarrow> a \<noteq> [] \<Longrightarrow> lc_at k (baseCfg c) (cur @ a) \<in> {None, Some C_Group}"
    and "\<And>c'. cf_vaild c' = cf_vaild c \<Longrightarrow> lc_at k (baseCfg c') = with_groups cur ts (lc_at k (baseCfg c)) \<Longrightarrow>
      Q (Val (cur @ ts)) c'"
  shows "wp (build_group k cur ts) Q c"
  using assms(2-)
proof (induction ts arbitrary: cur c)
  case Nil
  have "with_groups cur [] m = m" for m by (auto simp: with_groups_def fun_eq_iff strict_prefix_def)
  with Nil.prems(4) [of c] show ?case by simp
next
  case (Cons t ts)
  note way = Cons.prems(3) [of "[t]" ts, simplified]
  have rest: "wp (build_group k (cur @ [t]) ts) Q c'"
    if c': "cf_vaild c' = cf_vaild c" "lc_at k (baseCfg c') (cur @ [t]) = Some C_Group"
      "with_groups (cur @ [t]) ts (lc_at k (baseCfg c')) = with_groups cur (t # ts) (lc_at k (baseCfg c))"
      "\<And>q. q \<noteq> cur @ [t] \<Longrightarrow> lc_at k (baseCfg c') q = lc_at k (baseCfg c) q" for c'
  proof (rule Cons.IH)
    show "lc_at k (baseCfg c') (cur @ [t]) = Some C_Group" by (rule c'(2))
    show "lc_at k (baseCfg c') ((cur @ [t]) @ a) \<in> {None, Some C_Group}" if "ts = a @ b" "a \<noteq> []" for a b
      using Cons.prems(3) [of "t # a" b] c'(4) [of "cur @ t # a"] that by simp
    show "Q (Val ((cur @ [t]) @ ts)) c''"
      if "cf_vaild c'' = cf_vaild c'" "lc_at k (baseCfg c'') = with_groups (cur @ [t]) ts (lc_at k (baseCfg c'))" for c''
      using Cons.prems(4) [of c''] that c'(1,3) by simp
  qed (use Cons.prems(2) in simp)
  show ?case
  proof (cases "lc_at k (baseCfg c) (cur @ [t])")
    case None
    have "wp (conf_add k cur t C_Group) (\<lambda>r c'. r = Val () \<and> wp (build_group k (cur @ [t]) ts) Q c') c"
      using None Cons.prems(2) with_groups_Cons(2) [where m = "lc_at k (baseCfg c)", OF None]
      by (intro wp_conf_add [OF assms(1) Cons.prems(1)]) (auto intro!: rest)
    then show ?thesis using None by (auto simp: conf_lawD(3) [OF assms(1)] elim!: wp_mono)
  next
    case (Some d)
    with way have "lc_at k (baseCfg c) (cur @ [t]) = Some C_Group" by simp
    then show ?thesis
      using with_groups_Cons(1) [where m = "lc_at k (baseCfg c)"]
      by (simp add: conf_lawD(3,4) [OF assms(1)] rest)
  qed
qed


text \<open>A setting in the way stops the program before anything else is added.\<close>

lemma build_group_stops:
  assumes "conf_law k" and "lc_at k (baseCfg c) cur = Some C_Group" and "ts = a @ b" "a \<noteq> []"
    and "lc_at k (baseCfg c) (cur @ a) \<noteq> None" "lc_at k (baseCfg c) (cur @ a) \<noteq> Some C_Group"
  shows "build_group k cur ts c = (Crash Assert_Failed, c)"
  using assms(2-)
proof (induction ts arbitrary: cur a)
  case (Cons t ts)
  then obtain a' where a: "a = t # a'" "ts = a' @ b" by (cases a) auto
  have there: "lc_at k (baseCfg c) (cur @ [t]) \<noteq> None"
    using Cons.prems(4) below_nothing [OF assms(1), of "baseCfg c" "cur @ [t]" a'] a
    by (cases "a' = []"; cases "lc_at k (baseCfg c) (cur @ [t]) = Some C_Group") auto
  show ?case
  proof (cases "lc_at k (baseCfg c) (cur @ [t]) = Some C_Group")
    case True
    with Cons.prems(5) a have "a' \<noteq> []" by auto
    with True Cons.IH [of "cur @ [t]" a'] Cons.prems(4,5) a show ?thesis
      by (simp add: bnd_def ret_def conf_asks_def conf_lawD(3,4) [OF assms(1)])
  next
    case False
    with there show ?thesis
      by (auto simp: bnd_def crash_def conf_asks_def conf_lawD(3,4) [OF assms(1)])
  qed
qed simp

lemma strict_prefix_snoc: "strict_prefix q (ts @ [l]) \<longleftrightarrow> prefix q ts"
  by (auto simp: strict_prefix_def)

lemma with_groups_filled:
  assumes "m [] = Some C_Group" and "m (ts @ [l]) = None"
  shows "(with_groups [] ts m)(ts @ [l] \<mapsto> d) = filled (ts @ [l]) d m"
  using assms by (auto simp: filled_def entered_def with_groups_def map_add_def fun_eq_iff strict_prefix_snoc
      strict_prefix_def split: option.splits)

lemma filled_there:
  assumes "conf_law k" and "lc_at k s (ts @ [l]) \<noteq> None"
  shows "with_groups [] ts (lc_at k s) = filled (ts @ [l]) d (lc_at k s)"
proof -
  have "lc_at k s q = Some C_Group" if "prefix q ts" for q
  proof (rule ccontr)
    assume "lc_at k s q \<noteq> Some C_Group"
    moreover from that obtain r where "ts = q @ r" by (rule prefixE)
    ultimately show False using below_nothing [OF assms(1), of s q "r @ [l]"] assms(2) by simp
  qed
  then show ?thesis using assms(2)
    by (auto simp: filled_def entered_def with_groups_def map_add_def fun_eq_iff strict_prefix_snoc split: option.splits)
qed

lemma wp_config_add:
  assumes "conf_law k" and "cf_vaild c" and names: "\<forall>n \<in> set (config_path path). name_ok n"
    and way: "\<not> in_the_way (lc_at k (baseCfg c)) (config_path path)"
    and rest: "\<And>r c'. cf_vaild c' \<Longrightarrow> lc_at k (baseCfg c') = filled (config_path path) d (lc_at k (baseCfg c)) \<Longrightarrow> Q (Val r) c'"
  shows "wp (config_add k path d) Q c"
proof -
  let ?m = "lc_at k (baseCfg c)"
  obtain ts l where tl: "dotted [] path = (ts, l)" by fastforce
  then have p: "config_path path = ts @ [l]" by (simp add: config_path_def)
  have free: "?m a \<in> {None, Some C_Group}" if "ts = a @ b" "a \<noteq> []" for a b
    using way that unfolding p in_the_way_def strict_prefix_snoc by (auto simp: prefix_def)
  have top: "with_groups [] ts ?m ts = Some C_Group"
  proof (cases "ts = []")
    case False
    with free [of ts "[]"] show ?thesis by (auto simp: with_groups_def strict_prefix_def)
  qed (simp add: with_groups_def conf_lawD(1) [OF assms(1)])
  have leaf: "with_groups [] ts ?m (ts @ [l]) = ?m (ts @ [l])" by (auto simp: with_groups_def)
  have "wp (add_at k ts l d) Q c'" if c': "cf_vaild c'" "lc_at k (baseCfg c') = with_groups [] ts ?m" for c'
  proof (cases "?m (ts @ [l]) = None")
    case True
    then show ?thesis
      using names top leaf c' rest with_groups_filled [of ?m ts l, OF conf_lawD(1) [OF assms(1)] True] p
      by (auto simp: add_at_def dotted_again [OF tl] conf_lawD(3) [OF assms(1)] intro!: wp_conf_add [OF assms(1)])
  next
    case False
    then show ?thesis
      using leaf c' rest filled_there [OF assms(1) False, of d] p
      by (simp add: add_at_def dotted_again [OF tl] conf_lawD(3) [OF assms(1)])
  qed
  then have "wp (build_group k [] ts) (\<lambda>r c'. r = Val ts \<and> wp (add_at k ts l d) Q c') c"
    using names p free assms(2) by (intro wp_build_group [OF assms(1) conf_lawD(1) [OF assms(1)]]) auto
  then show ?thesis
    using assms(2) by (auto simp: config_add_def tl elim!: wp_mono)
qed

lemma config_add_stops:
  assumes "conf_law k" and "cf_vaild c" and "in_the_way (lc_at k (baseCfg c)) (config_path path)"
  shows "config_add k path d c = (Crash Assert_Failed, c)"
proof -
  obtain ts l where tl: "dotted [] path = (ts, l)" by fastforce
  then have "config_path path = ts @ [l]" by (simp add: config_path_def)
  with assms(3) obtain a b where a: "ts = a @ b" "a \<noteq> []" "lc_at k (baseCfg c) a \<noteq> None"
    "lc_at k (baseCfg c) a \<noteq> Some C_Group"
    by (auto simp: in_the_way_def strict_prefix_snoc prefix_def)
  from build_group_stops [OF assms(1) conf_lawD(1) [OF assms(1)] a(1,2)] a(3,4)
  show ?thesis using assms(2) tl by (simp add: config_add_def bnd_def conf_asks_def)
qed

section \<open>The defaults\<close>

definition fill_all :: "(string \<times> conf_node) list \<Rightarrow> (string list \<Rightarrow> conf_node option) \<Rightarrow> string list \<Rightarrow> conf_node option" where
  "fill_all ds = fold (\<lambda>(p, d). filled (config_path p) d) ds"

definition default_tree :: "string list \<Rightarrow> conf_node option" where
  "default_tree = fill_all defaults Map.empty"

lemma fill_all_apart: "fill_all ds m = fill_all ds Map.empty ++ m"
proof (induction ds arbitrary: m)
  case (Cons x ds)
  obtain p d where x: "x = (p, d)" by (cases x)
  from Cons [of "entered (config_path p) d ++ m"] Cons [of "entered (config_path p) d"]
  show ?case by (simp add: fill_all_def filled_def x)
qed (simp add: fill_all_def)

text \<open>No default has its path through another, and every name is one that the library takes.\<close>

definition apart :: "(string \<times> conf_node) list \<Rightarrow> bool" where
  "apart ds \<longleftrightarrow> (\<forall>x \<in> set ds. (\<forall>n \<in> set (config_path (fst x)). name_ok n) \<and>
     (\<forall>y \<in> set ds. \<not> strict_prefix (config_path (fst x)) (config_path (fst y))))"

lemma in_the_way_filled:
  assumes "\<not> strict_prefix p q"
  shows "in_the_way (filled p d m) q \<longleftrightarrow> in_the_way m q"
proof
  assume "in_the_way (filled p d m) q"
  then obtain r where r: "r \<noteq> []" "strict_prefix r q" "filled p d m r \<noteq> None" "filled p d m r \<noteq> Some C_Group"
    by (auto simp: in_the_way_def)
  moreover have "r \<noteq> p" using r(2) assms by auto
  ultimately have "m r \<noteq> None" "m r \<noteq> Some C_Group"
    by (auto simp: filled_def entered_def map_add_def split: option.splits if_splits)
  then show "in_the_way m q" using r(1,2) by (auto simp: in_the_way_def)
next
  assume "in_the_way m q"
  then show "in_the_way (filled p d m) q"
    by (auto simp: in_the_way_def filled_def map_add_def split: option.splits)
qed

lemma wp_add_all:
  assumes "conf_law k" and "apart ds" and "cf_vaild c"
  shows "if \<exists>x \<in> set ds. in_the_way (lc_at k (baseCfg c)) (config_path (fst x))
    then wp (add_all k ds) (\<lambda>r c'. r = Crash Assert_Failed) c
    else wp (add_all k ds) (\<lambda>r c'. r = Val () \<and> cf_vaild c' \<and> lc_at k (baseCfg c') = fill_all ds (lc_at k (baseCfg c))) c"
  using assms(2-)
proof (induction ds arbitrary: c)
  case (Cons x ds)
  let ?p = "config_path (fst x)" and ?m = "lc_at k (baseCfg c)"
  have ap: "apart ds" "\<forall>n \<in> set ?p. name_ok n" "\<And>y. y \<in> set ds \<Longrightarrow> \<not> strict_prefix ?p (config_path (fst y))"
    using Cons.prems(1) by (auto simp: apart_def)
  show ?case
  proof (cases "in_the_way ?m ?p")
    case True
    then show ?thesis using config_add_stops [OF assms(1) Cons.prems(2) True, of "snd x"] by (auto simp: wp_def bnd_def)
  next
    case False
    have step: "wp (add_all k (x # ds)) Q c" if "\<And>c'. cf_vaild c' \<Longrightarrow> lc_at k (baseCfg c') = filled ?p (snd x) ?m \<Longrightarrow> wp (add_all k ds) Q c'" for Q
      using that by (auto intro!: wp_config_add [OF assms(1) Cons.prems(2) ap(2) False])
    have way: "(\<exists>y \<in> set ds. in_the_way (filled ?p (snd x) ?m) (config_path (fst y))) \<longleftrightarrow>
        (\<exists>y \<in> set (x # ds). in_the_way ?m (config_path (fst y)))"
      using False in_the_way_filled [OF ap(3)] by auto
    have all: "fill_all (x # ds) ?m = fill_all ds (filled ?p (snd x) ?m)" by (simp add: fill_all_def split: prod.splits)
    have done_rest: "if \<exists>y \<in> set (x # ds). in_the_way ?m (config_path (fst y))
        then wp (add_all k ds) (\<lambda>r c'. r = Crash Assert_Failed) c'
        else wp (add_all k ds) (\<lambda>r c''. r = Val () \<and> cf_vaild c'' \<and> lc_at k (baseCfg c'') = fill_all (x # ds) ?m) c'"
      if "cf_vaild c'" "lc_at k (baseCfg c') = filled ?p (snd x) ?m" for c'
      using Cons.IH [OF ap(1) that(1)] unfolding that(2) way all .
    show ?thesis
    proof (cases "\<exists>y \<in> set (x # ds). in_the_way ?m (config_path (fst y))")
      case True
      show ?thesis unfolding if_P [OF True] by (rule step, use done_rest [unfolded if_P [OF True]] in blast)
    next
      case False
      show ?thesis unfolding if_not_P [OF False] by (rule step, use done_rest [unfolded if_not_P [OF False]] in blast)
    qed
  qed
qed (simp add: fill_all_def)

lemma apart_defaults: "apart defaults"
  unfolding apart_def by code_simp


section \<open>What an option is worth\<close>

text \<open>The file at the start of the programs.\<close>

abbreviation config_file :: "'s libconfig \<Rightarrow> string \<Rightarrow> string option" where
  "config_file k cp \<equiv> find (fs_exists k) (if cp = [] then default_config_paths else cp # default_config_paths)"

abbreviation clash :: "(string list \<Rightarrow> conf_node option) \<Rightarrow> bool" where
  "clash m \<equiv> \<exists>x \<in> set defaults. in_the_way m (config_path (fst x))"

lemma init_config_tree:
  assumes "conf_law k" and "config_file k cp = Some p" and "lc_file k p = Some s"
  shows "case init_config k cp of
      Val (Some c) \<Rightarrow> \<not> clash (lc_at k s) \<and> cf_vaild c \<and> lc_at k (baseCfg c) = default_tree ++ lc_at k s
    | Val None \<Rightarrow> False
    | Crash x \<Rightarrow> clash (lc_at k s) \<and> x = Assert_Failed"
proof -
  have new: "new_ConfigureSettings k p = \<lparr>baseCfg = s, cf_vaild = True\<rparr>"
    using assms(3) by (simp add: new_ConfigureSettings_def)
  have tree: "fill_all defaults m = default_tree ++ m" for m
    unfolding default_tree_def by (rule fill_all_apart)
  obtain r c' where r: "add_all k defaults \<lparr>baseCfg = s, cf_vaild = True\<rparr> = (r, c')" by fastforce
  then have run: "init_config k cp = (case (r, c') of (Val _, c') \<Rightarrow> Val (Some c') | (Crash x, _) \<Rightarrow> Crash x)"
    unfolding init_config_def Let_def assms(2) by (simp add: new default_config_def)
  show ?thesis
    using wp_add_all [OF assms(1) apart_defaults, of "\<lparr>baseCfg = s, cf_vaild = True\<rparr>"] r
    unfolding run by (cases "clash (lc_at k s)") (simp_all add: wp_def tree)
qed

text \<open>C30: When a file is there and can be read, every option has the value of the file, and the default where the file has
  nothing at its path. The only way to fail is a value of the file where the path of a default needs a group,
  and then the program stops at its start.\<close>

theorem options_are_file_over_defaults:
  assumes "conf_law k" and "config_file k cp = Some p" and "lc_file k p = Some s"
  shows "case init_config k cp of
      Val (Some c) \<Rightarrow> \<not> clash (lc_at k s) \<and>
        (\<forall>path. config_get k (lc_string k) c path =
          (case (default_tree ++ lc_at k s) (config_path path) of Some (C_String t) \<Rightarrow> Some t | _ \<Rightarrow> None)) \<and>
        (\<forall>path i. (default_tree ++ lc_at k s) (config_path path) = Some (C_Int i) \<longrightarrow>
          config_get k (lc_int k) c path = Some i)
    | Val None \<Rightarrow> False
    | Crash x \<Rightarrow> clash (lc_at k s) \<and> x = Assert_Failed"
  using init_config_tree [OF assms] config_get_string [OF assms(1)] config_get_int(2) [OF assms(1)]
  by (auto split: outcome.splits option.splits)

section \<open>A library of settings\<close>

text \<open>The settings as a map from reversed paths; what lies below a setting that is no group is not there.\<close>

type_synonym conf_map = "string list \<Rightarrow> conf_node option"

primrec tree_at :: "conf_map \<Rightarrow> string list \<Rightarrow> conf_node option" where
  "tree_at s [] = Some C_Group"
| "tree_at s (n # r) = (if tree_at s r = Some C_Group then s (n # r) else None)"

definition tree_add :: "string list \<Rightarrow> string \<Rightarrow> conf_node \<Rightarrow> conf_map \<Rightarrow> conf_map option" where
  "tree_add p n d s =
     (if tree_at s (rev p) = Some C_Group \<and> name_ok n \<and> tree_at s (n # rev p) = None
      then Some (\<lambda>q. if q = n # rev p then Some d else if suffix (n # rev p) q then None else s q)
      else None)"

definition tree_lib :: "(string \<Rightarrow> conf_map option) \<Rightarrow> conf_map libconfig" where
  "tree_lib files = \<lparr>fs_exists = (\<lambda>f. files f \<noteq> None), lc_file = files, lc_empty = (\<lambda>q. None),
     lc_exists = (\<lambda>p n s. tree_at s (n # rev p) \<noteq> None), lc_is_group = (\<lambda>p s. tree_at s (rev p) = Some C_Group),
     lc_list = (\<lambda>p s. case tree_at s (rev p) of Some (C_List xs) \<Rightarrow> Some xs | _ \<Rightarrow> None),
     lc_int = (\<lambda>p n s. case tree_at s (n # rev p) of Some (C_Int i) \<Rightarrow> Some i | _ \<Rightarrow> None),
     lc_bool = (\<lambda>p n s. case tree_at s (n # rev p) of Some (C_Bool b) \<Rightarrow> Some b | _ \<Rightarrow> None),
     lc_string = (\<lambda>p n s. case tree_at s (n # rev p) of Some (C_String t) \<Rightarrow> Some t | _ \<Rightarrow> None),
     lc_add = tree_add, lc_at = (\<lambda>s p. tree_at s (rev p))\<rparr>"

lemma tree_at_below: "tree_at s q \<noteq> Some C_Group \<Longrightarrow> r \<noteq> [] \<Longrightarrow> tree_at s (r @ q) = None"
proof (induction r)
  case (Cons n r)
  then show ?case by (cases "r = []") auto
qed simp

lemma tree_at_added:
  assumes "tree_at s q = Some C_Group" and "tree_at s (n # q) = None"
  shows "tree_at (\<lambda>r. if r = n # q then Some d else if suffix (n # q) r then None else s r) r =
    (if r = n # q then Some d else tree_at s r)"
proof (induction r)
  case (Cons m r)
  let ?s = "\<lambda>r. if r = n # q then Some d else if suffix (n # q) r then None else s r"
  have here: "tree_at ?s q = tree_at s q" if "r = q" using Cons that by simp
  consider "m # r = n # q" | "m # r \<noteq> n # q" "suffix (n # q) (m # r)" | "\<not> suffix (n # q) (m # r)" by auto
  then show ?case
  proof cases
    case 1
    with here assms show ?thesis by simp
  next
    case 2
    from 2(2) obtain xs where "m # r = xs @ n # q" by (rule suffixE)
    with tree_at_below [of s "n # q" xs] assms(2) 2(1) have "tree_at s (m # r) = None" by (cases "xs = []") auto
    moreover have "tree_at ?s (m # r) = None" unfolding tree_at.simps if_not_P [OF 2(1)] using 2(2) by simp
    ultimately show ?thesis using 2(1) by (simp del: tree_at.simps)
  next
    case 3
    then have ne: "m # r \<noteq> n # q" "r \<noteq> n # q" by (auto simp: suffix_def)
    show ?thesis unfolding tree_at.simps if_not_P [OF ne(1)] using 3 ne(2) Cons by simp
  qed
qed simp

lemma tree_add_spec:
  assumes "tree_at s (rev p) = Some C_Group" "name_ok n" "tree_at s (rev (p @ [n])) = None"
  shows "\<exists>s'. tree_add p n d s = Some s' \<and> (\<lambda>p. tree_at s' (rev p)) = (\<lambda>p. tree_at s (rev p))(p @ [n] \<mapsto> d)"
proof (intro exI conjI)
  let ?s = "\<lambda>q. if q = n # rev p then Some d else if suffix (n # rev p) q then None else s q"
  have none: "tree_at s (n # rev p) = None" using assms(3) by (simp del: tree_at.simps)
  show "tree_add p n d s = Some ?s" using assms none by (simp add: tree_add_def del: tree_at.simps)
  have "rev x = n # rev p \<longleftrightarrow> x = p @ [n]" for x by (auto simp: rev_swap)
  then show "(\<lambda>p. tree_at ?s (rev p)) = (\<lambda>p. tree_at s (rev p))(p @ [n] \<mapsto> d)"
    unfolding tree_at_added [OF assms(1) none] by (simp add: fun_eq_iff)
qed

lemma tree_law: "conf_law (tree_lib files)"
  unfolding conf_law_def
  by (intro conjI allI impI)
    (auto simp: tree_lib_def simp del: tree_at.simps(2) intro: tree_add_spec split: option.splits conf_node.splits,
     auto)

lemma in_the_way_code [code]:
  "in_the_way m p \<longleftrightarrow> list_ex (\<lambda>i. m (take i p) \<noteq> None \<and> m (take i p) \<noteq> Some C_Group) [1..<length p]"
proof -
  have way: "(q \<noteq> [] \<and> strict_prefix q p) \<longleftrightarrow> (\<exists>i \<in> set [1..<length p]. q = take i p)" for q
  proof
    assume "q \<noteq> [] \<and> strict_prefix q p"
    then obtain r where "p = q @ r" "r \<noteq> []" "0 < length q" by (auto simp: strict_prefix_def prefix_def)
    then show "\<exists>i \<in> set [1..<length p]. q = take i p" by (auto intro!: bexI [of _ "length q"] simp: Suc_le_eq)
  next
    assume "\<exists>i \<in> set [1..<length p]. q = take i p"
    then obtain i where i: "1 \<le> i" "i < length p" "q = take i p" by auto
    then have "length q = i" by simp
    with i have "q \<noteq> []" "q \<noteq> p" by auto
    then show "q \<noteq> [] \<and> strict_prefix q p" using i(3) by (simp add: strict_prefix_def take_is_prefix)
  qed
  have "in_the_way m p \<longleftrightarrow> (\<exists>q. (q \<noteq> [] \<and> strict_prefix q p) \<and> m q \<noteq> None \<and> m q \<noteq> Some C_Group)"
    by (simp add: in_the_way_def)
  then show ?thesis unfolding way list_ex_iff by auto
qed

text \<open>A file that names the manager and its centre and moves its port.\<close>

definition sample_settings :: conf_map where
  "sample_settings = [[''manager''] \<mapsto> C_Group, [''uid'', ''manager''] \<mapsto> C_String ''m1'', [''cid'', ''manager''] \<mapsto> C_String ''2'',
     [''port'', ''manager''] \<mapsto> C_Int 8080]"

definition sample_conf :: "conf_map libconfig" where
  "sample_conf = tree_lib [''/etc/gvds/gvds.conf'' \<mapsto> sample_settings]"


lemma sample_tree: "lc_at sample_conf sample_settings = (\<lambda>p. tree_at sample_settings (rev p))"
  by (simp add: sample_conf_def tree_lib_def)

lemma sample_no_clash: "\<not> clash (\<lambda>p. tree_at sample_settings (rev p))"
  by code_simp

lemma options_are_file_over_defaults_witness:
  "\<exists>c. init_config sample_conf [] = Val (Some c) \<and> config_get sample_conf (lc_string sample_conf) c ''manager.uid'' = Some ''m1'' \<and>
     config_get sample_conf (lc_string sample_conf) c ''ip'' = Some ''127.0.0.1'' \<and>
     config_get sample_conf (lc_int sample_conf) c ''manager.port'' = Some 8080"
proof -
  let ?m = "default_tree ++ (\<lambda>p. tree_at sample_settings (rev p))"
  have "config_file sample_conf [] = Some ''/etc/gvds/gvds.conf''"
    by (simp add: sample_conf_def tree_lib_def default_config_paths_def)
  moreover have "lc_file sample_conf ''/etc/gvds/gvds.conf'' = Some sample_settings"
    by (simp add: sample_conf_def tree_lib_def)
  moreover have "conf_law sample_conf" unfolding sample_conf_def by (rule tree_law)
  moreover have "?m (config_path ''manager.uid'') = Some (C_String ''m1'')" "?m (config_path ''ip'') = Some (C_String ''127.0.0.1'')"
    "?m (config_path ''manager.port'') = Some (C_Int 8080)"
    by code_simp+
  ultimately show ?thesis
    using options_are_file_over_defaults [of sample_conf "[]" "''/etc/gvds/gvds.conf''" sample_settings] sample_no_clash
    by (auto simp: sample_tree split: outcome.splits option.splits)
qed

end
