(* ===== verification/Manager_Start.thy ===== *)
theory Manager_Start
  imports Registry_Props Config_Props SpaceServer ZoneServer UserModel
begin

text \<open>
  \<open>manager/manager.cc\<close>, \<open>manager/manager.h\<close>, \<open>manager/main.cc\<close> and \<open>common/context.cc\<close>: how the manager is put together
  from its modules and started with the options of Config, and what it knows when it serves.
\<close>

section \<open>The modules\<close>

datatype manager_module = M_Rpc | M_Proxies | M_Resources | M_Zone | M_Space | M_User | M_Mconf

fun mod_name :: "manager_module \<Rightarrow> string" where
  "mod_name M_Rpc = ''rpc''"
| "mod_name M_Proxies = ''ioproxy manager''"
| "mod_name M_Resources = ''resaggregation manager''"
| "mod_name M_Zone = ''zone''"
| "mod_name M_Space = ''space''"
| "mod_name M_User = ''user''"
| "mod_name M_Mconf = ''mconf''"

text \<open>What a module registers, as method and path.\<close>

definition posts :: "(string \<times> 'a) list \<Rightarrow> (string \<times> string) list" where
  "posts rs = map (\<lambda>(p, _). (''POST'', p)) rs"

definition methods :: "(string \<times> string \<times> 'a) list \<Rightarrow> (string \<times> string) list" where
  "methods rs = map (\<lambda>(m, p, _). (m, p)) rs"

definition user_routes :: "(string \<times> string) list" where
  "user_routes =
     [(''POST'', ''/users/modify''), (''GET'', ''/users/search/:name''), (''POST'', ''/users/registration''),
      (''POST'', ''/users/login''), (''GET'', ''/users/exit/:id''), (''GET'', ''/users/cancel/:id''),
      (''POST'', ''/users/memberID''), (''POST'', ''/users/adminregistration''), (''POST'', ''/users/bufferuserregister''),
      (''POST'', ''/users/listapply''), (''POST'', ''/users/removeapply''), (''POST'', ''/users/adcam''),
      (''POST'', ''/users/aduam''), (''POST'', ''/users/adsearcham''), (''POST'', ''/users/adsearchpool'')]"

text \<open>The registry of proxies also answers with the statistics that the monitor of a proxy would have sent.\<close>

fun module_routes :: "manager_module \<Rightarrow> (string \<times> string) list" where
  "module_routes M_Rpc = []"
| "module_routes M_Proxies =
     (''GET'', ''/ioproxy/detail'') #
     methods (IOProxy_router :: (string \<times> string \<times> (unit sys \<Rightarrow> live_proxies \<Rightarrow> string \<Rightarrow> (unit, live_proxies \<times> bool \<times> response) prog)) list)"
| "module_routes M_Resources =
     methods (ResAggregation_router :: (string \<times> string \<times> (unit sys \<Rightarrow> string \<Rightarrow> (unit, bool \<times> response) prog)) list)"
| "module_routes M_Zone = posts (ZoneServer_router :: (string \<times> (unit sys \<Rightarrow> string \<Rightarrow> (unit, response) prog)) list)"
| "module_routes M_Space = posts (SpaceServer_router :: (string \<times> (unit sys \<Rightarrow> string \<Rightarrow> (unit, response) prog)) list)"
| "module_routes M_User = user_routes"
| "module_routes M_Mconf = methods (Mconf_router :: (string \<times> string \<times> (unit sys \<Rightarrow> string \<Rightarrow> (unit, response) prog)) list)"

section \<open>The manager\<close>

text \<open>
  \<open>mg_rest\<close>: the numbers that the HTTP server was made with, the port and the threads. The class \<open>Port\<close> of the
  HTTP library keeps the low 16 bits of the port.
\<close>

record manager =
  mg_uuid :: string
  mg_center_id :: string
  mg_modules :: "(string \<times> manager_module) list"
  mg_live :: live_proxies
  mg_rest :: "(int \<times> int) option"
  mg_routes :: "(string \<times> string) list"
  mg_stop :: bool

definition new_Manager :: manager where
  "new_Manager = \<lparr>mg_uuid = [], mg_center_id = [], mg_modules = [], mg_live = [], mg_rest = None, mg_routes = [],
     mg_stop = False\<rparr>"

definition registe_module :: "manager_module \<Rightarrow> manager \<Rightarrow> manager" where
  "registe_module x m = m\<lparr>mg_modules := smap_set (mod_name x) x (mg_modules m)\<rparr>"

definition get_module :: "manager \<Rightarrow> string \<Rightarrow> manager_module option" where
  "get_module m name = map_of (mg_modules m) name"

definition manager_route :: "manager \<Rightarrow> manager" where
  "manager_route m = m\<lparr>mg_routes := mg_routes m @ [(''GET'', ''/manager'')]\<rparr>"

text \<open>Only the registry of proxies has something to do at the start.\<close>

fun module_start :: "'w sys \<Rightarrow> manager_module \<Rightarrow> live_proxies \<Rightarrow> ('w, live_proxies) prog" where
  "module_start sys M_Proxies live = proxy_start sys live"
| "module_start sys _ live = ret live"

primrec start_modules :: "'w sys \<Rightarrow> (string \<times> manager_module) list \<Rightarrow> manager \<Rightarrow> ('w, manager) prog" where
  "start_modules sys [] m = ret m"
| "start_modules sys (x # xs) m =
     bnd (module_start sys (snd x) (mg_live m)) (\<lambda>live.
     start_modules sys xs (m\<lparr>mg_live := live, mg_routes := mg_routes m @ module_routes (snd x)\<rparr>))"

text \<open>
  \<open>Manager::start\<close>: a missing port or number of threads is reported, and its empty option is read all the same.
\<close>

definition manager_start :: "'w sys \<Rightarrow> (string \<Rightarrow> int option) \<Rightarrow> manager \<Rightarrow> ('w, bool \<times> manager) prog" where
  "manager_start sys ints m =
     (let rest_port = ints ''manager.port''; rest_thread = ints ''manager.thread_num'' in
      case cfg sys ''manager.uid'' of
        None \<Rightarrow> ret (False, m)
      | Some uid \<Rightarrow>
          let m = m\<lparr>mg_uuid := uid\<rparr> in
          (case cfg sys ''manager.cid'' of
             None \<Rightarrow> ret (False, m)
           | Some cid \<Rightarrow>
               let m = m\<lparr>mg_center_id := cid\<rparr> in
               bnd (deref rest_port) (\<lambda>port.
               bnd (deref rest_thread) (\<lambda>threads.
               let m = manager_route (m\<lparr>mg_rest := Some (port, threads)\<rparr>) in
               bnd (start_modules sys (mg_modules m) m) (\<lambda>m. ret (True, m\<lparr>mg_stop := False\<rparr>))))))"

text \<open>\<open>Manager::stop\<close>, on which the modules have nothing to tell the outside.\<close>

definition manager_stop :: "manager \<Rightarrow> manager" where
  "manager_stop m = m\<lparr>mg_rest := None, mg_stop := True\<rparr>"

text \<open>
  \<open>manager_info\<close>; \<open>port\<close> is what the HTTP server says of itself. The address that the configured text is parsed into is
  thrown away, so it is always that of an address nobody set; the name of the node is never set either.
\<close>

definition ser_manager :: "int \<Rightarrow> manager \<Rightarrow> members" where
  "ser_manager port m = [(''ip'', enc_str ''0.0.0.0''), (''rest_port'', enc_int port), (''name'', enc_str []),
     (''modules'', enc_vec enc_str (map (\<lambda>x. mod_name (snd x)) (mg_modules m)))]"

definition manager_info :: "'w sys \<Rightarrow> int \<Rightarrow> manager \<Rightarrow> response" where
  "manager_info sys port m = (200, serialize sys (ser_manager port) m)"

definition with_modules :: "manager \<Rightarrow> manager" where
  "with_modules m = fold registe_module [M_Rpc, M_Proxies, M_Resources, M_Zone, M_Space, M_User, M_Mconf] m"

text \<open>
  \<open>init_manager\<close>, which gives a null pointer when the start failed. \<open>ip_ok\<close>: the texts that boost reads as an address;
  it throws on others.
\<close>

definition init_manager :: "'w sys \<Rightarrow> (string \<Rightarrow> int option) \<Rightarrow> (string \<Rightarrow> bool) \<Rightarrow> ('w, manager option) prog" where
  "init_manager sys ints ip_ok =
     (let ip = (case cfg sys ''ip'' of Some ip \<Rightarrow> ip | None \<Rightarrow> ''0.0.0.0'') in
      if \<not> ip_ok ip then crash Uncaught_Exception
      else
        bnd (manager_start sys ints (with_modules new_Manager)) (\<lambda>(ok, m).
        ret (if ok then Some m else None)))"

section \<open>The program\<close>

text \<open>What the servers see of the options.\<close>

definition with_config :: "'s libconfig \<Rightarrow> 's config \<Rightarrow> 'w sys \<Rightarrow> 'w sys" where
  "with_config k c sys = sys\<lparr>cfg := config_get k (lc_string k) c\<rparr>"

text \<open>
  \<open>init_context\<close>: without options or without a log (\<open>log_ok\<close>) the program exits; the status of \<open>exit(-1)\<close> is 255.
  \<open>main\<close> (\<open>file\<close> is the option of the command line) prints the identifier of the manager that it got,
  null pointer or not; it goes on until a signal comes.
\<close>

definition init_context :: "'s libconfig \<Rightarrow> ('s config \<Rightarrow> bool) \<Rightarrow> string \<Rightarrow> ('w, int + 's config) prog" where
  "init_context k log_ok file =
     (case init_config k file of
        Crash x \<Rightarrow> crash x
      | Val None \<Rightarrow> ret (Inl 255)
      | Val (Some c) \<Rightarrow> if \<not> log_ok c then ret (Inl 255) else ret (Inr c))"

definition manager_main ::
  "'s libconfig \<Rightarrow> ('s config \<Rightarrow> bool) \<Rightarrow> (string \<Rightarrow> bool) \<Rightarrow> 'w sys \<Rightarrow> string \<Rightarrow> ('w, int + manager) prog" where
  "manager_main k log_ok ip_ok sys file =
     bnd (init_context k log_ok file) (\<lambda>context.
     case context of
       Inl status \<Rightarrow> ret (Inl status)
     | Inr c \<Rightarrow>
         bnd (init_manager (with_config k c sys) (config_get k (lc_int k) c) ip_ok) (\<lambda>mgr.
         bnd (deref mgr) (\<lambda>m. ret (Inr m))))"

end
