(* ===== verification/Manager_Props.thy ===== *)
theory Manager_Props
  imports Manager_Start
begin

text \<open>
  From the file of options to a manager that serves: which options it needs, what it knows, and how it ends without them.
\<close>

section \<open>The options that the servers see\<close>

definition settings :: "'s libconfig \<Rightarrow> 's \<Rightarrow> string \<Rightarrow> conf_node option" where
  "settings k s path = (default_tree ++ lc_at k s) (config_path path)"

definition text_setting :: "'s libconfig \<Rightarrow> 's \<Rightarrow> string \<Rightarrow> string option" where
  "text_setting k s path = (case settings k s path of Some (C_String t) \<Rightarrow> Some t | _ \<Rightarrow> None)"

abbreviation configured :: "'s libconfig \<Rightarrow> 's \<Rightarrow> 'w sys \<Rightarrow> 'w sys" where
  "configured k s sys \<equiv> sys\<lparr>cfg := text_setting k s\<rparr>"

lemma context_configured:
  assumes "conf_law k" and "config_file k f = Some p" and "lc_file k p = Some s" and "\<not> clash (lc_at k s)"
  obtains c where "init_config k f = Val (Some c)" "with_config k c sys = configured k s sys"
    "\<And>path i. settings k s path = Some (C_Int i) \<Longrightarrow> config_get k (lc_int k) c path = Some i"
proof -
  from init_config_tree [OF assms(1-3)] assms(4)
  obtain c where c: "init_config k f = Val (Some c)" "cf_vaild c" "lc_at k (baseCfg c) = default_tree ++ lc_at k s"
    by (auto split: outcome.splits option.splits)
  show thesis
  proof (rule that [OF c(1)])
    show "with_config k c sys = configured k s sys"
      using config_get_string [OF assms(1) c(2)] c(3)
      by (simp add: with_config_def text_setting_def settings_def fun_eq_iff)
    show "config_get k (lc_int k) c path = Some i" if "settings k s path = Some (C_Int i)" for path i
      using config_get_int(2) [OF assms(1) c(2)] c(3) that by (simp add: settings_def)
  qed
qed

section \<open>The modules\<close>

lemma started_modules:
  "mg_modules (with_modules new_Manager) =
     [(''ioproxy manager'', M_Proxies), (''mconf'', M_Mconf), (''resaggregation manager'', M_Resources), (''rpc'', M_Rpc),
      (''space'', M_Space), (''user'', M_User), (''zone'', M_Zone)]"
  unfolding with_modules_def by code_simp

lemma started_fields:
  "mg_uuid (with_modules new_Manager) = []" "mg_live (with_modules new_Manager) = []"
  "mg_routes (with_modules new_Manager) = []" "mg_stop (with_modules new_Manager) = False"
  by (simp_all add: with_modules_def registe_module_def new_Manager_def)

definition all_routes :: "(string \<times> string) list" where
  "all_routes = (''GET'', ''/manager'') # concat (map (\<lambda>x. module_routes (snd x)) (mg_modules (with_modules new_Manager)))"

text \<open>No two handlers are registered for the same method and path.\<close>

theorem routes_are_distinct: "distinct all_routes \<and> length all_routes = 50"
  unfolding all_routes_def started_modules by code_simp

lemma wp_start_modules:
  assumes "\<forall>x \<in> set xs. snd x \<noteq> M_Proxies"
  shows "wp (start_modules sys xs m) Q w =
    Q (Val (m\<lparr>mg_routes := mg_routes m @ concat (map (\<lambda>x. module_routes (snd x)) xs)\<rparr>)) w"
  using assms
proof (induction xs arbitrary: m)
  case (Cons x xs)
  then have "module_start sys (snd x) live = ret live" for live by (cases "snd x") auto
  with Cons show ?case by simp
qed simp


section \<open>Starting\<close>

text \<open>The manager that serves: its identity, its HTTP server, its modules and the proxies that the documents hold.\<close>

lemma wp_manager_start:
  assumes laws: "json_law sys" "couchbase_law sys" "couchbase_up sys"
    and rows: "answers sys (proxy_query sys) (map (proxy_row sys) ns)"
    and nodes: "\<And>n. n \<in> set ns \<Longrightarrow> wf_IOProxyNode n" "distinct (map iop_uuid ns)"
    and ident: "cfg sys ''manager.uid'' = Some u" "cfg sys ''manager.cid'' = Some cid"
    and ints: "ints ''manager.port'' = Some port" "ints ''manager.thread_num'' = Some threads"
  shows "wp (manager_start sys ints (with_modules new_Manager)) (\<lambda>r w'. cb_docs sys w' = cb_docs sys w \<and>
    (\<exists>m. r = Val (True, m) \<and> mg_uuid m = u \<and> mg_center_id m = cid \<and> mg_rest m = Some (port, threads) \<and> \<not> mg_stop m \<and>
      mg_modules m = mg_modules (with_modules new_Manager) \<and> mg_routes m = all_routes \<and>
      (\<forall>n \<in> set ns. map_of (mg_live m) (iop_uuid n) = Some (n\<lparr>iop_status := ud_int sys\<rparr>)))) w"
proof -
  let ?m = "manager_route (with_modules new_Manager\<lparr>mg_uuid := u, mg_center_id := cid, mg_rest := Some (port, threads)\<rparr>)"
  have mods: "mg_modules ?m = mg_modules (with_modules new_Manager)" by (simp add: manager_route_def)
  have all: "(''GET'', ''/manager'') # module_routes M_Proxies @ module_routes M_Mconf @ module_routes M_Resources @
      module_routes M_Rpc @ module_routes M_Space @ module_routes M_User @ module_routes M_Zone = all_routes"
    unfolding all_routes_def started_modules by (simp del: module_routes.simps)
  have "wp (start_modules sys (mg_modules ?m) ?m) (\<lambda>r w'. cb_docs sys w' = cb_docs sys w \<and>
    (\<exists>m live. r = Val m \<and> m = ?m\<lparr>mg_live := live, mg_routes := all_routes\<rparr> \<and>
      (\<forall>n \<in> set ns. map_of live (iop_uuid n) = Some (n\<lparr>iop_status := ud_int sys\<rparr>)))) w"
    unfolding mods started_modules start_modules.simps(2) snd_conv module_start.simps(1) proxy_start_def
    by (simp only: wp_bnd, rule wp_mono [OF wp_registry [OF laws rows nodes]])
      (auto simp: wp_start_modules manager_route_def started_fields all [symmetric] simp del: module_routes.simps start_modules.simps)
  then show ?thesis
    unfolding manager_start_def Let_def using ident ints
    by (auto simp: manager_route_def simp del: start_modules.simps elim!: wp_mono)
qed


lemma manager_main_configured:
  assumes "conf_law k" and "config_file k f = Some p" and "lc_file k p = Some s" and "\<not> clash (lc_at k s)"
    and "\<And>c. log_ok c" and "ip_ok (case text_setting k s ''ip'' of Some ip \<Rightarrow> ip | None \<Rightarrow> ''0.0.0.0'')"
  obtains ints where "\<And>path i. settings k s path = Some (C_Int i) \<Longrightarrow> ints path = Some i"
    and "manager_main k log_ok ip_ok sys f =
      bnd (manager_start (configured k s sys) ints (with_modules new_Manager)) (\<lambda>(ok, m).
      bnd (deref (if ok then Some m else None)) (\<lambda>m. ret (Inr m)))"
proof -
  obtain c where c: "init_config k f = Val (Some c)" "with_config k c sys = configured k s sys"
    "\<And>path i. settings k s path = Some (C_Int i) \<Longrightarrow> config_get k (lc_int k) c path = Some i"
    using context_configured [OF assms(1-4), of sys] by metis
  have main: "manager_main k log_ok ip_ok sys f =
      bnd (manager_start (configured k s sys) (config_get k (lc_int k) c) (with_modules new_Manager)) (\<lambda>(ok, m).
      bnd (deref (if ok then Some m else None)) (\<lambda>m. ret (Inr m)))"
    using c(1) assms(5,6)
    by (auto simp: manager_main_def init_context_def init_manager_def c(2) bnd_assoc case_prod_unfold
        split: option.splits)
  show thesis
  proof (rule that)
    show "config_get k (lc_int k) c path = Some i" if "settings k s path = Some (C_Int i)" for path i
      using that by (rule c(3))
  qed (rule main)
qed

text \<open>C37: With a file that gives the manager its identity and a store that does not fail, the program serves: with the
  identity, port and threads of its options, every module, every route, and every proxy that the documents hold, whose
  states are not what was stored.\<close>

theorem manager_serves_its_options:
  assumes conf: "conf_law k" "config_file k f = Some p" "lc_file k p = Some s" "\<not> clash (lc_at k s)"
    and out: "\<And>c. log_ok c" "ip_ok (case text_setting k s ''ip'' of Some ip \<Rightarrow> ip | None \<Rightarrow> ''0.0.0.0'')"
    and laws: "json_law (configured k s sys)" "couchbase_law (configured k s sys)" "couchbase_up (configured k s sys)"
    and rows: "answers (configured k s sys) (proxy_query (configured k s sys)) (map (proxy_row (configured k s sys)) ns)"
    and nodes: "\<And>n. n \<in> set ns \<Longrightarrow> wf_IOProxyNode n" "distinct (map iop_uuid ns)"
    and ident: "text_setting k s ''manager.uid'' = Some u" "text_setting k s ''manager.cid'' = Some cid"
    and ints: "settings k s ''manager.port'' = Some (C_Int port)" "settings k s ''manager.thread_num'' = Some (C_Int threads)"
  shows "wp (manager_main k log_ok ip_ok sys f) (\<lambda>r w'. cb_docs sys w' = cb_docs sys w \<and>
    (\<exists>m. r = Val (Inr m) \<and> mg_uuid m = u \<and> mg_center_id m = cid \<and> mg_rest m = Some (port, threads) \<and> \<not> mg_stop m \<and>
      map fst (mg_modules m) =
        [''ioproxy manager'', ''mconf'', ''resaggregation manager'', ''rpc'', ''space'', ''user'', ''zone''] \<and>
      mg_routes m = all_routes \<and>
      (\<forall>n \<in> set ns. map_of (mg_live m) (iop_uuid n) = Some (n\<lparr>iop_status := ud_int sys\<rparr>)))) w"
proof -
  obtain opts where opts: "\<And>path i. settings k s path = Some (C_Int i) \<Longrightarrow> opts path = Some i"
    and main: "manager_main k log_ok ip_ok sys f =
      bnd (manager_start (configured k s sys) opts (with_modules new_Manager)) (\<lambda>(ok, m).
      bnd (deref (if ok then Some m else None)) (\<lambda>m. ret (Inr m)))"
    by (rule manager_main_configured [where log_ok = log_ok and ip_ok = ip_ok and sys = sys, OF conf out]) (rule that)
  show ?thesis
    unfolding main wp_bnd
    by (rule wp_mono [OF wp_manager_start [OF laws rows nodes _ _ opts [OF ints(1)] opts [OF ints(2)]]])
      (use ident started_modules in auto)
qed

lemma laws_cfg:
  assumes "json_law sys" "couchbase_law sys" "couchbase_up sys"
    and "g ''manager.couchbase_addr'' \<noteq> None" "g ''manager.couchbase_user'' \<noteq> None" "g ''manager.couchbase_passwd'' \<noteq> None"
  shows "json_law (sys\<lparr>cfg := g\<rparr>)" "couchbase_law (sys\<lparr>cfg := g\<rparr>)" "couchbase_up (sys\<lparr>cfg := g\<rparr>)"
proof -
  let ?s = "sys\<lparr>cfg := g\<rparr>"
  have d: "doc_at ?s = doc_at sys" "doc_members ?s = doc_members sys"
    by (auto simp: fun_eq_iff doc_at_def doc_members_def split: option.splits)
  show "json_law ?s" using assms(1) by (simp add: json_law_def)
  have "get_law ?s = get_law sys" "upsert_law ?s = upsert_law sys" "insert_law ?s = insert_law sys"
    "remove_law ?s = remove_law sys" "get_sub_law ?s = get_sub_law sys" "upsert_sub_law ?s = upsert_sub_law sys"
    "arr_insert_law ?s = arr_insert_law sys" "quiet_law ?s = quiet_law sys"
    by (simp_all add: get_law_def upsert_law_def insert_law_def remove_law_def get_sub_law_def
        upsert_sub_law_def arr_insert_law_def quiet_law_def d)
  then show "couchbase_law ?s" using assms(2) by (simp add: couchbase_law_def)
  show "couchbase_up ?s" using assms(3-) unfolding couchbase_up_def d by simp
qed

lemma sample_options:
  "text_setting sample_conf sample_settings ''manager.uid'' = Some ''m1''"
  "text_setting sample_conf sample_settings ''manager.cid'' = Some ''2''"
  "text_setting sample_conf sample_settings ''manager.couchbase_addr'' = Some ''127.0.0.1''"
  "text_setting sample_conf sample_settings ''manager.couchbase_user'' = Some ''dev''"
  "text_setting sample_conf sample_settings ''manager.couchbase_passwd'' = Some ''buaaica''"
  "settings sample_conf sample_settings ''manager.port'' = Some (C_Int 8080)"
  "settings sample_conf sample_settings ''manager.thread_num'' = Some (C_Int 6)"
  unfolding text_setting_def settings_def sample_tree by code_simp+

lemma manager_serves_its_options_witness:
  "wp (manager_main sample_conf (\<lambda>c. True) (\<lambda>ip. True) (row_sys [proxy_row mem_sys sample_proxy]) []) (\<lambda>r w'.
     \<exists>m. r = Val (Inr m) \<and> mg_uuid m = ''m1'' \<and> mg_rest m = Some (8080, 6) \<and>
       map_of (mg_live m) ''q1'' = Some (sample_proxy\<lparr>iop_status := 7\<rparr>)) sample_mem"
proof -
  let ?sys = "row_sys [proxy_row mem_sys sample_proxy]"
  let ?s = "configured sample_conf sample_settings ?sys"
  have "proxy_row ?s n = proxy_row mem_sys n" for n by (simp add: proxy_row_def row_sys_def)
  then have rows: "answers ?s (proxy_query ?s) (map (proxy_row ?s) [sample_proxy])"
    by (simp add: answers_def) (simp add: row_sys_def select_query_def proxy_query_def snprintf_n_def)
  have ud: "ud_int ?sys = 7" by (simp add: row_sys_def)
  have read: "config_file sample_conf [] = Some ''/etc/gvds/gvds.conf''" "lc_file sample_conf ''/etc/gvds/gvds.conf'' = Some sample_settings"
    by (simp_all add: sample_conf_def tree_lib_def default_config_paths_def)
  have law: "conf_law sample_conf" unfolding sample_conf_def by (rule tree_law)
  have free: "\<not> clash (lc_at sample_conf sample_settings)" unfolding sample_tree by (rule sample_no_clash)
  have laws: "json_law ?s" "couchbase_law ?s" "couchbase_up ?s"
    by (rule laws_cfg [OF row_sys_laws]; simp add: sample_options)+
  have node: "\<And>n. n \<in> set [sample_proxy] \<Longrightarrow> wf_IOProxyNode n"
    by (simp add: sample_proxy_def wf_IOProxyNode_def nul_free_def in_i32_def)
  have one: "distinct (map iop_uuid [sample_proxy])" by simp
  have key: "iop_uuid sample_proxy = ''q1''" by (simp add: sample_proxy_def)
  show ?thesis
    by (rule wp_mono [OF manager_serves_its_options [OF law read free TrueI TrueI laws rows node one sample_options(1,2,6,7)]])
      (auto simp: key ud)
qed

text \<open>A file that leaves the identifier of the manager or of its centre open starts no manager: the program is
  told so, and then reads the identifier of a manager that is not there. The defaults have neither.\<close>

theorem no_manager_without_identity:
  assumes "conf_law k" and "config_file k f = Some p" and "lc_file k p = Some s" and "\<not> clash (lc_at k s)"
    and "\<And>c. log_ok c" and "ip_ok (case text_setting k s ''ip'' of Some ip \<Rightarrow> ip | None \<Rightarrow> ''0.0.0.0'')"
    and "lc_at k s [''manager'', ''uid''] = None \<or> lc_at k s [''manager'', ''cid''] = None"
  shows "wp (manager_main k log_ok ip_ok sys f) (\<lambda>r w'. r = Crash Null_Deref \<and> w' = w) w"
proof -
  have tree: "default_tree (config_path ''manager.uid'') = None" "default_tree (config_path ''manager.cid'') = None"
    "config_path ''manager.uid'' = [''manager'', ''uid'']" "config_path ''manager.cid'' = [''manager'', ''cid'']"
    by code_simp+
  then have none: "text_setting k s ''manager.uid'' = None \<or> text_setting k s ''manager.cid'' = None"
    using assms(7) by (auto simp: text_setting_def settings_def map_add_def)
  obtain opts where main: "manager_main k log_ok ip_ok sys f =
      bnd (manager_start (configured k s sys) opts (with_modules new_Manager)) (\<lambda>(ok, m).
      bnd (deref (if ok then Some m else None)) (\<lambda>m. ret (Inr m)))"
    by (rule manager_main_configured [where log_ok = log_ok and ip_ok = ip_ok and sys = sys, OF assms(1-6)])
  show ?thesis
    unfolding main using none by (auto simp: manager_start_def split: option.splits)
qed

lemma no_manager_without_identity_witness:
  "wp (manager_main (tree_lib [''/opt/gvds/gvds.conf'' \<mapsto> Map.empty]) (\<lambda>c. True) (\<lambda>ip. True) mem_sys [])
     (\<lambda>r w'. r = Crash Null_Deref \<and> w' = sample_mem) sample_mem"
proof -
  let ?k = "tree_lib [''/opt/gvds/gvds.conf'' \<mapsto> Map.empty]"
  have at: "lc_at ?k s q = tree_at s (rev q)" for s q by (simp add: tree_lib_def)
  have below: "tree_at Map.empty q = None" if "q \<noteq> []" for q using that by (cases q) auto
  have "\<not> clash (lc_at ?k Map.empty)" by (auto simp: in_the_way_def at below)
  moreover have "config_file ?k [] = Some ''/opt/gvds/gvds.conf''" "lc_file ?k ''/opt/gvds/gvds.conf'' = Some Map.empty"
    by (simp_all add: tree_lib_def default_config_paths_def)
  moreover have "lc_at ?k Map.empty [''manager'', ''uid''] = None" unfolding at by (rule below) simp
  ultimately show ?thesis by (intro no_manager_without_identity [OF tree_law]) (blast | simp)+
qed

end
