(* ===== verification/Icmp_Ping.thy ===== *)
theory Icmp_Ping
  imports Prelude "HOL-Library.Word" "HOL-Library.Signed_Division"
begin

text \<open>
  \<open>client/OPTNode/myping.cc\<close> and \<open>client/OPTNode/myping.h\<close>: the checksum of ICMP, packing and unpacking echo packets, and
  sending and receiving them. Bytes are \<open>8 word\<close>; a struct lies in memory as on a little-endian machine of 64 bits.
\<close>

type_synonym bytes = "8 word list"

section \<open>The checksum\<close>

definition le16 :: "8 word \<Rightarrow> 8 word \<Rightarrow> int" where
  "le16 a b = uint a + 256 * uint b"

text \<open>The sum of the 16 bit units, in an \<open>int\<close>; the last byte of an odd number is a unit of its own.\<close>

fun sum_units :: "int \<Rightarrow> bytes \<Rightarrow> int" where
  "sum_units s [] = s"
| "sum_units s [a] = i32 (s + uint a)"
| "sum_units s (a # b # bs) = sum_units (i32 (s + le16 a b)) bs"

definition getChksum :: "bytes \<Rightarrow> int" where
  "getChksum bs =
     (let sum = sum_units 0 bs;
          sum = i32 (sum div 2 ^ 16 + sum mod 2 ^ 16);
          sum = i32 (sum + sum div 2 ^ 16) in
      (- sum - 1) mod 2 ^ 16)"

section \<open>Packets\<close>

definition put_le :: "nat \<Rightarrow> int \<Rightarrow> bytes" where
  "put_le n x = map (\<lambda>i. word_of_int (x div 2 ^ (8 * i))) [0..<n]"

definition get_le :: "bytes \<Rightarrow> int" where
  "get_le bs = foldr (\<lambda>b x. uint b + 256 * x) bs 0"

definition overwrite :: "nat \<Rightarrow> bytes \<Rightarrow> bytes \<Rightarrow> bytes" where
  "overwrite p bs mem = take p mem @ bs @ drop (p + length bs) mem"

text \<open>The object: the memory to send from, the counters, the process.\<close>

record ping =
  pg_sendpacket :: bytes
  pg_maxPacketSize :: nat
  pg_datalen :: nat
  pg_nsend :: nat
  pg_nreceived :: nat
  pg_icmp_seq :: int
  pg_pid :: int

text \<open>The bytes that the memory happens to hold are \<open>junk\<close>.\<close>

definition new_Ping :: "bytes \<Rightarrow> ping" where
  "new_Ping junk = \<lparr>pg_sendpacket = junk, pg_maxPacketSize = 4, pg_datalen = 56, pg_nsend = 0, pg_nreceived = 0,
     pg_icmp_seq = 0, pg_pid = 0\<rparr>"

text \<open>Type, code, checksum, identifier, sequence number and the time of sending; the rest of the data is left as it was.\<close>

definition echo_header :: "int \<Rightarrow> int \<Rightarrow> int \<Rightarrow> int \<times> int \<Rightarrow> bytes" where
  "echo_header cksum ident seq t =
     [8, 0] @ put_le 2 cksum @ put_le 2 ident @ put_le 2 seq @ put_le 8 (fst t) @ put_le 8 (snd t)"

definition packIcmp :: "int \<Rightarrow> int \<times> int \<Rightarrow> ping \<Rightarrow> nat \<times> ping" where
  "packIcmp pack_no now p =
     (let packsize = 8 + pg_datalen p;
          mem = overwrite 0 (echo_header 0 (pg_pid p) pack_no now) (pg_sendpacket p);
          mem = overwrite 2 (put_le 2 (getChksum (take packsize mem))) mem in
      (packsize, p\<lparr>pg_sendpacket := mem\<rparr>))"

record echo_reply =
  er_icmpSeq :: int
  er_icmpLen :: int
  er_ipTtl :: int
  er_rtt :: int
  er_fromAddr :: string
  er_isReply :: bool

text \<open>Comparing with less than zero what a comparison gave is false, so nothing is borrowed, and the microseconds are never
  subtracted.\<close>

definition tvSub :: "int \<times> int \<Rightarrow> int \<times> int \<Rightarrow> int \<times> int" where
  "tvSub t1 t2 =
     (let result = (if of_bool (snd t1 < snd t2) < (0 :: int) then (fst t1 - 1, snd t1 + 1000000) else t1) in
      (fst result - fst t2, snd result))"

text \<open>The memory the packet was received into is at least as long as the fields that are read.\<close>

definition unpackIcmp :: "bytes \<Rightarrow> int \<Rightarrow> int \<times> int \<Rightarrow> ping \<Rightarrow> echo_reply \<Rightarrow> bool \<times> echo_reply" where
  "unpackIcmp buf len now p r =
     (let iphdrlen = nat (4 * (uint (buf ! 0) mod 16));
          icmp = drop iphdrlen buf;
          len = len - int iphdrlen in
      if len < 8 then (False, r)
      else if icmp ! 0 = 0 \<and> get_le (take 2 (drop 4 icmp)) = pg_pid p then
        let tvsend = (get_le (take 8 (drop 8 icmp)), get_le (take 8 (drop 16 icmp)));
            tvresult = tvSub now tvsend;
            rtt = fst tvresult * 1000 + snd tvresult sdiv 1000 in
        (True, r\<lparr>er_rtt := rtt, er_icmpSeq := get_le (take 2 (drop 6 icmp)), er_ipTtl := uint (buf ! 8), er_icmpLen := len\<rparr>)
      else (False, r))"

section \<open>Sending and receiving\<close>

text \<open>
  The outside: the clock, the process, the address of a host, sending, and what arrives at the socket with the time at which it
  is read. Once nothing more arrives, waiting times out.
\<close>

datatype arrival = Select_Error | Select_Timeout | Receive_Error | Packet string bytes "int \<times> int"

record 'c icmp =
  ic_now :: "'c \<Rightarrow> (int \<times> int) \<times> 'c"
  ic_pid :: "'c \<Rightarrow> int"
  ic_host :: "string \<Rightarrow> string option"
  ic_send :: "string \<Rightarrow> bytes \<Rightarrow> 'c \<Rightarrow> bool \<times> 'c"
  ic_arrivals :: "'c \<Rightarrow> arrival list \<times> 'c"

text \<open>A packet that could not be sent is counted all the same.\<close>

primrec send_packets :: "'c icmp \<Rightarrow> string \<Rightarrow> nat \<Rightarrow> ping \<Rightarrow> 'c \<Rightarrow> ping \<times> 'c" where
  "send_packets k addr 0 p w = (p, w)"
| "send_packets k addr (Suc n) p w =
     (let p = p\<lparr>pg_nsend := pg_nsend p + 1, pg_icmp_seq := pg_icmp_seq p + 1\<rparr>;
          (now, w) = ic_now k w;
          (packetsize, p) = packIcmp (pg_icmp_seq p) now p;
          (sent, w) = ic_send k addr (take packetsize (pg_sendpacket p)) w in
      send_packets k addr n p w)"

definition sendPacket :: "'c icmp \<Rightarrow> string \<Rightarrow> ping \<Rightarrow> 'c \<Rightarrow> ping \<times> 'c" where
  "sendPacket k addr p w = send_packets k addr (pg_maxPacketSize p - pg_nsend p) p w"

text \<open>
  A packet of another host is not counted, so waiting goes on. Whether a packet was unpacked is compared with -1, which a
  truth value never is: every packet of the host is a reply. One record is filled in again and again.
\<close>

fun recv_packets :: "ping \<Rightarrow> string \<Rightarrow> nat \<Rightarrow> arrival list \<Rightarrow> echo_reply \<Rightarrow> echo_reply list \<Rightarrow> ping \<times> echo_reply list" where
  "recv_packets p ip 0 es r rs = (p, rs)"
| "recv_packets p ip (Suc n) [] r rs =
     (let r = r\<lparr>er_isReply := False\<rparr> in recv_packets p ip n [] r (rs @ [r]))"
| "recv_packets p ip (Suc n) (Select_Error # es) r rs = recv_packets p ip n es r rs"
| "recv_packets p ip (Suc n) (Select_Timeout # es) r rs =
     (let r = r\<lparr>er_isReply := False\<rparr> in recv_packets p ip n es r (rs @ [r]))"
| "recv_packets p ip (Suc n) (Receive_Error # es) r rs = recv_packets p ip n es r rs"
| "recv_packets p ip (Suc n) (Packet addr buf now # es) r rs =
     (let r = r\<lparr>er_fromAddr := addr\<rparr> in
      if addr \<noteq> ip then recv_packets p ip (Suc n) es r rs
      else
        let (ok, r) = unpackIcmp buf (int (length buf)) now p r in
        if of_bool ok = (- 1 :: int) then recv_packets p ip (Suc n) es r rs
        else
          let r = r\<lparr>er_isReply := True\<rparr> in
          recv_packets (p\<lparr>pg_nreceived := pg_nreceived p + 1\<rparr>) ip n es r (rs @ [r]))"

record ping_result =
  pr_dataLen :: nat
  pr_nsend :: nat
  pr_nreceived :: nat
  pr_ip :: string
  pr_error :: string
  pr_replies :: "echo_reply list"

text \<open>\<open>ping\<close>; the record of a reply begins with whatever its memory holds (\<open>junk\<close>).\<close>

definition do_ping :: "'c icmp \<Rightarrow> echo_reply \<Rightarrow> string \<Rightarrow> nat \<Rightarrow> ping_result \<Rightarrow> ping \<Rightarrow> 'c \<Rightarrow> (bool \<times> ping_result \<times> ping) \<times> 'c" where
  "do_ping k junk host count res p w =
     (let p = p\<lparr>pg_nsend := 0, pg_nreceived := 0, pg_maxPacketSize := count, pg_pid := ic_pid k w\<rparr>;
          res = res\<lparr>pr_replies := [], pr_dataLen := pg_datalen p\<rparr> in
      case ic_host k host of
        None \<Rightarrow> ((False, res\<lparr>pr_error := ''unknow host '' @ host\<rparr>, p), w)
      | Some ip \<Rightarrow>
          let (p, w) = sendPacket k ip p w;
              (es, w) = ic_arrivals k w;
              (p, rs) = recv_packets p ip (pg_maxPacketSize p) es junk [] in
          ((True, res\<lparr>pr_ip := ip, pr_replies := rs, pr_nsend := pg_nsend p, pr_nreceived := pg_nreceived p\<rparr>, p), w))"

section \<open>What the checksum is good for\<close>

text \<open>The sum of the units without wrapping.\<close>

fun unit_sum :: "bytes \<Rightarrow> int" where
  "unit_sum [] = 0"
| "unit_sum [a] = uint a"
| "unit_sum (a # b # bs) = le16 a b + unit_sum bs"

lemma uint8: "0 \<le> uint (a :: 8 word)" "uint (a :: 8 word) \<le> 255"
  using uint_lt2p [of a] by auto

lemma le16_range: "0 \<le> le16 a b" "le16 a b \<le> 65535"
  using uint8 [of a] uint8 [of b] by (auto simp: le16_def)

lemma unit_sum_range: "0 \<le> unit_sum bs \<and> unit_sum bs \<le> 65535 * ((int (length bs) + 1) div 2)"
proof (induction bs rule: unit_sum.induct)
  case (3 a b bs)
  have "(int (length (a # b # bs)) + 1) div 2 = (int (length bs) + 1) div 2 + 1" by simp
  with 3 le16_range [of a b] show ?case by (simp add: algebra_simps)
qed (use uint8 in \<open>auto simp: order_trans [OF uint8(2)]\<close>)

lemma sum_units_exact:
  assumes "0 \<le> s" and "s + unit_sum bs < 2 ^ 31"
  shows "sum_units s bs = s + unit_sum bs"
  using assms
proof (induction s bs rule: sum_units.induct)
  case (2 s a)
  then have "in_i32 (s + uint a)" using uint8 [of a] unfolding in_i32_def unit_sum.simps by linarith
  then show ?case by (simp add: i32_id)
next
  case (3 s a b bs)
  have "0 \<le> s + le16 a b" "s + le16 a b < 2 ^ 31"
    using 3 le16_range [of a b] unit_sum_range [of bs] by auto
  with 3 show ?case by (simp add: i32_id in_i32_def)
qed simp

text \<open>Folding a sum twice gives its residue in the arithmetic of one's complement: 0 only for 0.\<close>

definition folded :: "int \<Rightarrow> int" where
  "folded s = (if s = 0 then 0 else (s - 1) mod 65535 + 1)"

lemma fold_twice:
  assumes "0 \<le> s" and "s < 2 ^ 31"
  defines "t \<equiv> s div 2 ^ 16 + s mod 2 ^ 16"
  shows "(t + t div 2 ^ 16) mod 2 ^ 16 = folded s" "0 \<le> t" "t + t div 2 ^ 16 < 2 ^ 31"
proof -
  have s: "s = 65536 * (s div 65536) + s mod 65536" by simp
  have r: "0 \<le> s mod 65536" "s mod 65536 \<le> 65535" "0 \<le> s div 65536" "s div 65536 < 32768"
    using assms(1,2) by auto
  then have t: "0 \<le> t" "t < 98304" "s = t + 65535 * (s div 65536)" unfolding t_def using s by auto
  show "0 \<le> t" "t + t div 2 ^ 16 < 2 ^ 31" using t by auto
  have "folded s = folded t"
  proof (cases "t = 0")
    case True
    then have "s div 65536 = 0" "s mod 65536 = 0" using r unfolding t_def by auto
    with s True show ?thesis by simp
  next
    case False
    moreover have "s - 1 = (t - 1) + (s div 65536) * 65535" using t(3) by simp
    then have "(s - 1) mod 65535 = (t - 1) mod 65535" by (metis mod_mult_self1)
    moreover have "s \<noteq> 0" using False r(3) t(1,3) by auto
    ultimately show ?thesis by (simp add: folded_def)
  qed
  also have "\<dots> = (t + t div 2 ^ 16) mod 2 ^ 16"
  proof (cases "t < 65536")
    case True
    then have "(t - 1) mod 65535 = t - 1" if "t \<noteq> 0" using that t(1) by (simp add: mod_pos_pos_trivial)
    then show ?thesis using True t(1) by (auto simp: folded_def)
  next
    case False
    then have "t div 65536 = 1" "(t - 1) mod 65535 = t - 65536"
      using t(2) by (auto simp: div_pos_geq mod_pos_geq)
    then show ?thesis using False t(2) by (simp add: folded_def mod_pos_geq)
  qed
  finally show "(t + t div 2 ^ 16) mod 2 ^ 16 = folded s" ..
qed

lemma folded_range: "0 \<le> folded s" "folded s \<le> 65535"
proof -
  have "0 \<le> (s - 1) mod 65535" "(s - 1) mod 65535 < 65535" by simp_all
  then show "0 \<le> folded s" "folded s \<le> 65535" by (auto simp: folded_def)
qed

lemma not16: "(- x - 1) mod 2 ^ 16 = 65535 - x mod (2 ^ 16 :: int)"
proof -
  have two: "(2 :: int) ^ 16 = 65536" by simp
  have r: "0 \<le> 65535 - x mod 65536" "65535 - x mod 65536 < 65536" by simp_all
  have "- x - 1 = (65535 - x mod 65536) + (- (x div 65536) - 1) * 65536"
    using mult_div_mod_eq [of 65536 x] by (simp add: algebra_simps)
  then have "(- x - 1) mod 65536 = (65535 - x mod 65536) mod 65536" by (metis mod_mult_self1)
  then show ?thesis unfolding two using r by (simp only: mod_pos_pos_trivial)
qed

text \<open>The checksum is the complement of the folded sum.\<close>

lemma getChksum_folded:
  assumes "length bs \<le> 65534"
  shows "getChksum bs = 65535 - folded (unit_sum bs)"
proof -
  have "65535 * ((int (length bs) + 1) div 2) \<le> 65535 * 32767" using assms by simp
  then have small: "0 \<le> unit_sum bs" "unit_sum bs < 2 ^ 31" using unit_sum_range [of bs] by auto
  note f = fold_twice [OF small]
  let ?t = "unit_sum bs div 2 ^ 16 + unit_sum bs mod 2 ^ 16"
  let ?x = "?t + ?t div 2 ^ 16"
  have pos: "0 \<le> ?t div 2 ^ 16" using f(2) by (simp add: pos_imp_zdiv_nonneg_iff del: power_numeral)
  have in32: "in_i32 ?t" "in_i32 ?x" unfolding in_i32_def using pos f(2,3) by linarith+
  have "sum_units 0 bs = unit_sum bs" using sum_units_exact [of 0 bs] small(2) by simp
  then have "getChksum bs = (- ?x - 1) mod 2 ^ 16" by (simp only: getChksum_def Let_def i32_id [OF in32(1)] i32_id [OF in32(2)])
  also have "\<dots> = 65535 - ?x mod 2 ^ 16" by (rule not16)
  also have "?x mod 2 ^ 16 = folded (unit_sum bs)" by (rule f(1))
  finally show ?thesis .
qed


lemma folded_complement: "0 \<le> s \<Longrightarrow> folded (s + (65535 - folded s)) = 65535"
proof -
  assume "0 \<le> s"
  show ?thesis
  proof (cases "s = 0")
    case False
    let ?m = "(s - 1) mod 65535"
    have "folded s = ?m + 1" using False by (simp add: folded_def)
    then have "s + (65535 - folded s) - 1 = 65534 + ((s - 1) div 65535) * 65535"
      using mult_div_mod_eq [of 65535 "s - 1"] by linarith
    then have "(s + (65535 - folded s) - 1) mod 65535 = 65534 mod 65535" by (metis mod_mult_self1)
    moreover have "s + (65535 - folded s) \<noteq> 0" using \<open>0 \<le> s\<close> False folded_range [of s] by auto
    ultimately show ?thesis by (simp add: folded_def)
  qed (simp add: folded_def)
qed

section \<open>Packing\<close>

lemma length_put_le [simp]: "length (put_le n x) = n"
  by (simp add: put_le_def)

lemma put_le_2: "0 \<le> x \<Longrightarrow> x < 65536 \<Longrightarrow> \<exists>a b. put_le 2 x = [a, b] \<and> le16 a b = x"
proof -
  assume x: "0 \<le> x" "x < 65536"
  have "put_le 2 x = [word_of_int x, word_of_int (x div 256)]" by (simp add: put_le_def numeral_2_eq_2)
  moreover have "x div 256 mod 256 = x div 256" using x by (intro mod_pos_pos_trivial) auto
  then have "le16 (word_of_int x) (word_of_int (x div 256)) = x"
    unfolding le16_def uint_word_of_int using mult_div_mod_eq [of 256 x] by simp
  ultimately show ?thesis by blast
qed

lemma unit_sum_append: "even (length as) \<Longrightarrow> unit_sum (as @ bs) = unit_sum as + unit_sum bs"
  by (induction as rule: unit_sum.induct) auto

lemma packed_bytes:
  assumes "8 + pg_datalen p \<le> length (pg_sendpacket p)" and "16 \<le> pg_datalen p"
  defines "rest \<equiv> take (pg_datalen p - 16) (drop 24 (pg_sendpacket p))"
  shows "fst (packIcmp seq now p) = 8 + pg_datalen p"
    "take (8 + pg_datalen p) (pg_sendpacket (snd (packIcmp seq now p))) =
      echo_header (getChksum (echo_header 0 (pg_pid p) seq now @ rest)) (pg_pid p) seq now @ rest"
    "pg_pid (snd (packIcmp seq now p)) = pg_pid p"
proof -
  have len: "length (echo_header c i n t) = 24" for c i n t by (simp add: echo_header_def)
  have first: "take (8 + pg_datalen p) (overwrite 0 (echo_header c i n t) (pg_sendpacket p)) = echo_header c i n t @ rest"
    for c i n t using assms(1,2) by (simp add: overwrite_def len rest_def)
  have second: "overwrite 2 (put_le 2 c) (echo_header 0 i n t @ r) = echo_header c i n t @ r" for c i n t r
    by (simp add: overwrite_def echo_header_def numeral_eq_Suc)
  have "take (8 + pg_datalen p) (overwrite 2 (put_le 2 c) (overwrite 0 (echo_header 0 i n t) (pg_sendpacket p))) =
      echo_header c i n t @ rest" for c i n t
    using first [of c i n t] by (simp add: overwrite_def [of 0] second len)
  then show "take (8 + pg_datalen p) (pg_sendpacket (snd (packIcmp seq now p))) =
      echo_header (getChksum (echo_header 0 (pg_pid p) seq now @ rest)) (pg_pid p) seq now @ rest"
    by (simp add: packIcmp_def Let_def first)
  show "fst (packIcmp seq now p) = 8 + pg_datalen p" "pg_pid (snd (packIcmp seq now p)) = pg_pid p"
    by (simp_all add: packIcmp_def Let_def)
qed

text \<open>Every packet that is sent passes the check of its receiver: the checksum of all its bytes is 0.\<close>

theorem packets_pass_their_check:
  assumes "8 + pg_datalen p \<le> length (pg_sendpacket p)" and "16 \<le> pg_datalen p" "pg_datalen p \<le> 65526"
  shows "getChksum (take (fst (packIcmp seq now p)) (pg_sendpacket (snd (packIcmp seq now p)))) = 0"
proof -
  let ?r = "take (pg_datalen p - 16) (drop 24 (pg_sendpacket p))"
  let ?h = "\<lambda>c. echo_header c (pg_pid p) seq now"
  let ?s = "unit_sum (?h 0 @ ?r)"
  let ?t = "put_le 2 (pg_pid p) @ put_le 2 seq @ put_le 8 (fst now) @ put_le 8 (snd now) @ ?r"
  have len: "length (?h c @ ?r) \<le> 65534" for c using assms by (simp add: echo_header_def)
  have ck: "getChksum (?h 0 @ ?r) = 65535 - folded ?s" by (rule getChksum_folded [OF len])
  have sum: "unit_sum (?h c @ ?r) = le16 8 0 + c + unit_sum ?t" if "0 \<le> c" "c < 65536" for c
  proof -
    obtain a b where "put_le 2 c = [a, b]" "le16 a b = c" using put_le_2 [OF \<open>0 \<le> c\<close> \<open>c < 65536\<close>] by auto
    then show ?thesis by (simp add: echo_header_def)
  qed
  have "unit_sum (?h (65535 - folded ?s) @ ?r) = ?s + (65535 - folded ?s)"
    using sum [of 0] sum [of "65535 - folded ?s"] folded_range [of ?s] by simp
  then have "folded (unit_sum (?h (65535 - folded ?s) @ ?r)) = 65535"
    using folded_complement [of ?s] unit_sum_range by simp
  then show ?thesis
    using getChksum_folded [OF len [of "65535 - folded ?s"]] by (simp add: packed_bytes [OF assms(1,2)] ck)
qed


lemma packets_pass_their_check_witness:
  "getChksum (take 64 (pg_sendpacket (snd (packIcmp 7 (1577836800, 250000) (new_Ping (replicate 4096 (0xA5 :: 8 word))))))) = 0"
  using packets_pass_their_check [of "new_Ping (replicate 4096 0xA5)" 7 "(1577836800, 250000)"]
    packed_bytes(1) [of "new_Ping (replicate 4096 0xA5)" 7 "(1577836800, 250000)"]
  by (simp add: new_Ping_def)

section \<open>Timing\<close>

lemma put_le_step: "put_le (Suc n) x = word_of_int x # put_le n (x div 256)"
proof -
  have "x div 2 ^ (8 * Suc i) = x div 256 div 2 ^ (8 * i)" for i
    by (simp add: zdiv_zmult2_eq power_add)
  then show ?thesis unfolding put_le_def by (simp add: upt_conv_Cons map_Suc_upt [symmetric] del: upt_Suc)
qed

lemma get_put_le: "0 \<le> x \<Longrightarrow> x < 256 ^ n \<Longrightarrow> get_le (put_le n x) = x"
proof (induction n arbitrary: x)
  case 0
  then show ?case by (simp add: get_le_def put_le_def)
next
  case (Suc n)
  have "x div 256 < 256 ^ n" using Suc.prems(2) by (simp add: div_less_iff_less_mult mult.commute)
  with Suc have "get_le (put_le n (x div 256)) = x div 256" by simp
  then have "foldr (\<lambda>b x. uint b + 256 * x) (put_le n (x div 256)) 0 = x div 256" by (simp add: get_le_def)
  moreover have "uint (word_of_int x :: 8 word) = x mod 256" by (simp add: uint_word_of_int)
  ultimately show ?case using mult_div_mod_eq [of 256 x] by (simp add: get_le_def put_le_step)
qed

text \<open>The answer to a packet of this process, as it comes back behind the header \<open>ip\<close> of the internet protocol.\<close>

definition echo_of :: "bytes \<Rightarrow> bytes \<Rightarrow> bytes" where
  "echo_of ip packet = ip @ 0 # tl packet"

text \<open>What is measured from an answer is the difference of the whole seconds plus the milliseconds at which it arrived,
  whenever within its second the packet was sent: not the time that the answer took.\<close>

theorem echo_is_timed_by_its_arrival:
  assumes mem: "8 + pg_datalen p \<le> length (pg_sendpacket p)" "16 \<le> pg_datalen p"
    and ip: "length ip = 20" "uint (ip ! 0) mod 16 = 5"
    and ident: "0 \<le> pg_pid p" "pg_pid p < 65536" "0 \<le> seq" "seq < 65536"
    and sent: "0 \<le> s0" "s0 < 2 ^ 63" "0 \<le> u0" "u0 < 1000000"
    and packed: "packIcmp seq (s0, u0) p = (n, p')"
  shows "unpackIcmp (echo_of ip (take n (pg_sendpacket p'))) (20 + int n) (s1, u1) p' r =
    (True, r\<lparr>er_rtt := (s1 - s0) * 1000 + u1 sdiv 1000, er_icmpSeq := seq, er_ipTtl := uint (ip ! 8), er_icmpLen := int n\<rparr>)"
proof -
  let ?rest = "take (pg_datalen p - 16) (drop 24 (pg_sendpacket p))"
  let ?c = "getChksum (echo_header 0 (pg_pid p) seq (s0, u0) @ ?rest)"
  have n: "n = 8 + pg_datalen p" "pg_pid p' = pg_pid p" "take n (pg_sendpacket p') = echo_header ?c (pg_pid p) seq (s0, u0) @ ?rest"
    using packed_bytes [OF mem, of seq "(s0, u0)"] by (simp_all add: packed)
  have id2: "get_le (put_le 2 (pg_pid p)) = pg_pid p" "get_le (put_le 2 seq) = seq"
    "get_le (put_le 8 s0) = s0" "get_le (put_le 8 u0) = u0"
    using ident sent by (auto intro!: get_put_le)
  have fields: "take 2 (drop 4 (0 # tl (take n (pg_sendpacket p')))) = put_le 2 (pg_pid p)"
    "take 2 (drop 6 (0 # tl (take n (pg_sendpacket p')))) = put_le 2 seq"
    "take 8 (drop 8 (0 # tl (take n (pg_sendpacket p')))) = put_le 8 s0"
    "take 8 (drop 16 (0 # tl (take n (pg_sendpacket p')))) = put_le 8 u0"
    unfolding n(3) by (simp_all add: echo_header_def numeral_eq_Suc)
  have icmp: "drop 20 (echo_of ip (take n (pg_sendpacket p'))) = 0 # tl (take n (pg_sendpacket p'))"
    "echo_of ip (take n (pg_sendpacket p')) ! 0 = ip ! 0" "echo_of ip (take n (pg_sendpacket p')) ! 8 = ip ! 8"
    using ip(1) by (simp_all add: echo_of_def nth_append)
  obtain I where I: "drop 20 (echo_of ip (take n (pg_sendpacket p'))) = I" "I ! 0 = 0"
    "get_le (take 2 (drop 4 I)) = pg_pid p" "get_le (take 2 (drop 6 I)) = seq"
    "get_le (take 8 (drop 8 I)) = s0" "get_le (take 8 (drop 16 I)) = u0"
    using icmp(1) fields id2 nth_Cons_0 by metis
  have n8: "8 \<le> n" using n(1) by simp
  have sub: "tvSub (s1, u1) (s0, u0) = (s1 - s0, u1)" by (simp add: tvSub_def)
  show ?thesis
    unfolding unpackIcmp_def Let_def icmp ip(2) using n8
    by (simp add: I n(2) sub del: drop_drop)
qed


text \<open>An answer after 200 milliseconds is measured as 1100.\<close>

definition sample_ping :: ping where
  "sample_ping = (new_Ping (replicate 4096 0))\<lparr>pg_pid := 4711\<rparr>"

definition blank_reply :: echo_reply where
  "blank_reply = \<lparr>er_icmpSeq = 0, er_icmpLen = 0, er_ipTtl = 0, er_rtt = 0, er_fromAddr = [], er_isReply = False\<rparr>"

lemma echo_is_timed_by_its_arrival_witness:
  "\<exists>r. unpackIcmp (echo_of (0x45 # replicate 19 0) (take 64 (pg_sendpacket (snd (packIcmp 1 (10, 900000) sample_ping))))) 84
     (11, 100000) (snd (packIcmp 1 (10, 900000) sample_ping)) blank_reply = (True, r) \<and> er_rtt r = 1100"
proof -
  obtain n p' where p: "packIcmp 1 (10, 900000) sample_ping = (n, p')" by fastforce
  have mem: "8 + pg_datalen sample_ping \<le> length (pg_sendpacket sample_ping)" "16 \<le> pg_datalen sample_ping"
    by (simp_all add: sample_ping_def new_Ping_def)
  have "n = 64" using packed_bytes(1) [OF mem, of 1 "(10, 900000)"] p by (simp add: sample_ping_def new_Ping_def)
  then show ?thesis
    using echo_is_timed_by_its_arrival [OF mem, of "0x45 # replicate 19 0" 1 10 900000 n p' 11 100000 blank_reply] p
    by (simp add: sample_ping_def new_Ping_def)
qed

text \<open>A packet of the host that is no answer to this process is a reply all the same, timed as the one before it.\<close>

theorem strange_packets_are_replies:
  assumes "fst (unpackIcmp buf (int (length buf)) now p r) = False"
  shows "recv_packets p ip 1 [Packet ip buf now] r [] =
    (p\<lparr>pg_nreceived := pg_nreceived p + 1\<rparr>, [r\<lparr>er_fromAddr := ip, er_isReply := True\<rparr>])"
proof -
  obtain b r' where u: "unpackIcmp buf (int (length buf)) now p (r\<lparr>er_fromAddr := ip\<rparr>) = (b, r')" by fastforce
  with assms have "\<not> b" "r' = r\<lparr>er_fromAddr := ip\<rparr>"
    by (auto simp: unpackIcmp_def Let_def split: if_splits)
  with u show ?thesis by (simp add: numeral_eq_Suc)
qed

lemma strange_packets_are_replies_witness:
  "recv_packets sample_ping ''10.0.0.1'' 1 [Packet ''10.0.0.1'' (0x45 # replicate 19 0) (11, 0)] blank_reply [] =
    (sample_ping\<lparr>pg_nreceived := 1\<rparr>, [blank_reply\<lparr>er_fromAddr := ''10.0.0.1'', er_isReply := True\<rparr>])"
  using strange_packets_are_replies [of "0x45 # replicate 19 0" "(11, 0)" sample_ping blank_reply "''10.0.0.1''"]
  by (simp add: unpackIcmp_def sample_ping_def new_Ping_def)

end
