(* ===== verification/Node_Choice.thy ===== *)
theory Node_Choice
  imports Complex_Main Client_Path_Props Icmp_Ping Ipc_Message Sample_World "HOL-Library.Multiset"
begin

text \<open>
  The thread of \<open>client/OPTNode/opt_node.cc\<close>: measuring how far the managers are, and the order in which they are asked.
\<close>

section \<open>Measuring\<close>

text \<open>
  The steady clock in nanoseconds, the ping of Icmp_Ping with the memory it begins with, and \<open>std::sort\<close> by the measured
  values, which does not say in what order equal ones come.
\<close>

record 'c meter =
  mt_clock :: "'c \<Rightarrow> int \<times> 'c"
  mt_icmp :: "'c icmp"
  mt_memory :: bytes
  mt_reply :: echo_reply
  mt_sort :: "(string \<times> rat) list \<Rightarrow> (string \<times> rat) list"

definition sort_law :: "'c meter \<Rightarrow> bool" where
  "sort_law mt \<longleftrightarrow> (\<forall>xs. mset (mt_sort mt xs) = mset xs \<and> sorted (map snd (mt_sort mt xs)))"

text \<open>\<open>subgetRTT_rest\<close>: the time that a request takes, in microseconds, whatever came of it.\<close>

definition subgetRTT_rest :: "'c net \<Rightarrow> 'c meter \<Rightarrow> string \<Rightarrow> int \<Rightarrow> ('c, rat) cprog" where
  "subgetRTT_rest k mt host port =
     (let url = snprintf_n 64 (''http://'' @ cstr host @ '':'' @ int_dec port) in
      bnd (outside (mt_clock mt)) (\<lambda>t0.
      bnd (get_request k url ''/manager'') (\<lambda>_.
      bnd (outside (mt_clock mt)) (\<lambda>t1.
      ret (of_int ((t1 - t0) sdiv 1000))))))"

text \<open>\<open>subgetRTT_ping\<close>: the mean of four pings, in milliseconds; reading a reply that is not there throws.\<close>

fun ping_rounds :: "'c meter \<Rightarrow> string \<Rightarrow> nat \<Rightarrow> ping_result \<Rightarrow> ping \<Rightarrow> int \<Rightarrow> ('c, int option) cprog" where
  "ping_rounds mt host 0 res p rtt = ret (Some rtt)"
| "ping_rounds mt host (Suc n) res p rtt =
     bnd (outside (do_ping (mt_icmp mt) (mt_reply mt) host 1 res p)) (\<lambda>(ok, res, p).
     if \<not> ok then ret None
     else (case pr_replies res of
        [] \<Rightarrow> crash Uncaught_Exception
      | r # _ \<Rightarrow> ping_rounds mt host n res p (rtt + er_rtt r)))"

definition subgetRTT_ping :: "'c meter \<Rightarrow> string \<Rightarrow> ('c, rat) cprog" where
  "subgetRTT_ping mt host =
     bnd (ping_rounds mt host 4 \<lparr>pr_dataLen = 0, pr_nsend = 0, pr_nreceived = 0, pr_ip = [], pr_error = [], pr_replies = []\<rparr>
       (new_Ping (mt_memory mt)) 0) (\<lambda>total.
     ret (case total of Some rtt \<Rightarrow> of_int rtt / 4 | None \<Rightarrow> 10000))"

definition subgetRTT :: "'c net \<Rightarrow> 'c meter \<Rightarrow> string \<Rightarrow> int \<Rightarrow> int \<Rightarrow> ('c, rat) cprog" where
  "subgetRTT k mt host type port =
     (if type = 1 then subgetRTT_ping mt host
      else if type = 2 then subgetRTT_rest k mt host port
      else crash Missing_Return)"

text \<open>\<open>getRTT\<close>: the centres by name; -1 is None.\<close>

primrec measure_all :: "'c net \<Rightarrow> 'c meter \<Rightarrow> center_info \<Rightarrow> string list \<Rightarrow> (string \<times> rat) list \<Rightarrow> ('c, (string \<times> rat) list) cprog" where
  "measure_all k mt ci [] mymap = ret mymap"
| "measure_all k mt ci (i # is) mymap =
     bnd (subgetRTT k mt (smap_at [] (ci_centerIP ci) i) 2 (atoi (cstr (smap_at [] (ci_centerPort ci) i)))) (\<lambda>location_rtt.
     measure_all k mt ci is (smap_set (smap_at [] (ci_centerName ci) i) location_rtt mymap))"

definition getRTT :: "'c net \<Rightarrow> 'c meter \<Rightarrow> ('c, (string \<times> rat) list option) cprog" where
  "getRTT k mt =
     bnd (asks (\<lambda>s. (center_Information s, centre_info k s))) (\<lambda>(info, ci).
     if info = [] then ret None
     else bnd (measure_all k mt ci (ci_centerID ci) []) (\<lambda>m. ret (Some m)))"

text \<open>One round of \<open>entry\<close>: measuring, writing, and after a sleep, in which the other threads run (\<open>others\<close>), asking for
  the centres again.\<close>

definition measure_round :: "'c net \<Rightarrow> 'c meter \<Rightarrow> ('c, unit) cprog" where
  "measure_round k mt =
     bnd (getRTT k mt) (\<lambda>rankrtt.
     case rankrtt of None \<Rightarrow> ret () | Some m \<Rightarrow> write_rtt k (mt_sort mt m))"

definition node_round :: "'c net \<Rightarrow> 'c meter \<Rightarrow> ('c, unit) cprog \<Rightarrow> ('c, unit) cprog" where
  "node_round k mt others =
     bnd (measure_round k mt) (\<lambda>_. bnd others (\<lambda>_. getCenterInformation k))"


section \<open>The nearest manager\<close>

text \<open>A request to \<open>u\<close> takes \<open>lat u\<close> microseconds. Nothing is said of what it is answered, or whether it is.\<close>

definition takes :: "'c net \<Rightarrow> 'c meter \<Rightarrow> (string \<Rightarrow> int) \<Rightarrow> bool" where
  "takes k mt lat \<longleftrightarrow> (\<forall>u token e.
     let (t0, e1) = mt_clock mt e; (_, e2) = net_get k u token e1; (t1, _) = mt_clock mt e2 in
     (t1 - t0) sdiv 1000 = lat u)"

definition measured_url :: "center_info \<Rightarrow> string \<Rightarrow> string" where
  "measured_url ci i = snprintf_n 64 (''http://'' @ cstr (smap_at [] (ci_centerIP ci) i) @ '':'' @
     int_dec (atoi (cstr (smap_at [] (ci_centerPort ci) i)))) @ ''/manager''"

abbreviation centre_name :: "center_info \<Rightarrow> string \<Rightarrow> string" where
  "centre_name ci i \<equiv> smap_at [] (ci_centerName ci) i"

definition distances :: "(string \<Rightarrow> int) \<Rightarrow> center_info \<Rightarrow> string list \<Rightarrow> (string \<times> rat) list \<Rightarrow> (string \<times> rat) list" where
  "distances lat ci is m = fold (\<lambda>i m. smap_set (centre_name ci i) (of_int (lat (measured_url ci i))) m) is m"

lemma wp_subgetRTT_rest:
  assumes "takes k mt lat" and "\<And>e. Q (Val (of_int (lat (snprintf_n 64 (''http://'' @ cstr host @ '':'' @ int_dec port) @ ''/manager''))))
    (s\<lparr>net_env := e\<rparr>)"
  shows "wp (subgetRTT_rest k mt host port) Q s"
  using assms(2) assms(1) [unfolded takes_def, rule_format,
      of "net_env s" "snprintf_n 64 (''http://'' @ cstr host @ '':'' @ int_dec port) @ ''/manager''" "mtoken s"]
  by (auto simp: subgetRTT_rest_def get_request_def getToken_def Let_def split: prod.splits)

lemma wp_measure_all:
  assumes "takes k mt lat" and "\<And>e. Q (Val (distances lat ci is m)) (s\<lparr>net_env := e\<rparr>)"
  shows "wp (measure_all k mt ci is m) Q s"
  using assms(2)
proof (induction "is" arbitrary: m s)
  case Nil
  from Nil [of "net_env s"] show ?case by (simp add: distances_def)
next
  case (Cons i "is")
  have step: "wp (measure_all k mt ci is (smap_set (centre_name ci i) (of_int (lat (measured_url ci i))) m)) Q (s\<lparr>net_env := e\<rparr>)" for e
    using Cons.prems by (intro Cons.IH) (simp add: distances_def)
  show ?case
    unfolding measure_all.simps subgetRTT_def wp_bnd
    using wp_subgetRTT_rest [OF assms(1)] step by (simp add: measured_url_def)
qed

lemma distances_keys: "fst ` set (distances lat ci is m) = centre_name ci ` set is \<union> fst ` set m"
  by (induction "is" arbitrary: m) (auto simp: distances_def)

lemma distances_ok: "smap_ok m \<Longrightarrow> smap_ok (distances lat ci is m)"
  by (induction "is" arbitrary: m) (auto simp: distances_def)

lemma distances_values:
  assumes "inj_on (centre_name ci) (set is \<union> J)"
    and "\<And>j. j \<in> J \<Longrightarrow> map_of m (centre_name ci j) = Some (of_int (lat (measured_url ci j)))"
    and "j \<in> set is \<union> J"
  shows "map_of (distances lat ci is m) (centre_name ci j) = Some (of_int (lat (measured_url ci j)))"
  using assms
proof (induction "is" arbitrary: m J)
  case Nil
  then show ?case by (simp add: distances_def)
next
  case (Cons i "is")
  let ?m = "smap_set (centre_name ci i) (of_int (lat (measured_url ci i))) m"
  have "map_of ?m (centre_name ci h) = Some (of_int (lat (measured_url ci h)))" if "h \<in> insert i J" for h
  proof (cases "centre_name ci h = centre_name ci i")
    case True
    then have "h = i" using Cons.prems(1) that by (auto simp: inj_on_def)
    then show ?thesis by simp
  qed (use that Cons.prems(2) in auto)
  moreover have "set (i # is) \<union> J = set is \<union> insert i J" by auto
  ultimately have "map_of (distances lat ci is ?m) (centre_name ci j) = Some (of_int (lat (measured_url ci j)))"
    using Cons.prems(1,3) by (intro Cons.IH [of "insert i J"]) auto
  then show ?case by (simp add: distances_def)
qed

lemma distances_set:
  assumes "inj_on (centre_name ci) (set is)"
  shows "set (distances lat ci is []) = (\<lambda>j. (centre_name ci j, of_int (lat (measured_url ci j)))) ` set is" (is "set ?M = ?f ` _")
proof -
  have val: "map_of ?M (centre_name ci j) = Some (of_int (lat (measured_url ci j)))" if "j \<in> set is" for j
    by (rule distances_values [where J = "{}"]) (use assms that in auto)
  have d: "distinct (map fst ?M)"
    using distances_ok [of "[]" lat ci "is"] by (simp add: smap_ok_def strict_sorted_iff)
  show ?thesis
  proof (intro set_eqI iffI)
    fix x
    assume x: "x \<in> set ?M"
    then obtain j where j: "j \<in> set is" "fst x = centre_name ci j" using distances_keys [of lat ci "is" "[]"] by force
    have "map_of ?M (fst x) = Some (snd x)" using x d by simp
    with val [OF j(1)] j show "x \<in> ?f ` set is" by (auto simp: image_iff intro!: bexI [of _ j] prod_eqI)
  next
    fix x
    assume "x \<in> ?f ` set is"
    then show "x \<in> set ?M" using val by (auto dest: map_of_SomeD)
  qed
qed

lemma sorted_first:
  assumes "sort_law mt" and "xs \<noteq> []"
  obtains n r ys where "mt_sort mt xs = (n, r) # ys" "(n, r) \<in> set xs" "\<And>n' r'. (n', r') \<in> set xs \<Longrightarrow> r \<le> r'"
proof -
  have perm: "mset (mt_sort mt xs) = mset xs" and sorted: "sorted (map snd (mt_sort mt xs))"
    using assms(1) by (simp_all add: sort_law_def)
  from perm assms(2) obtain x ys where x: "mt_sort mt xs = x # ys" by (cases "mt_sort mt xs") auto
  have same: "set (mt_sort mt xs) = set xs" by (rule mset_eq_setD [OF perm])
  show thesis
  proof (rule that)
    show "mt_sort mt xs = (fst x, snd x) # ys" "(fst x, snd x) \<in> set xs" using x same by auto
    show "snd x \<le> r'" if "(n', r') \<in> set xs" for n' r'
      using that sorted unfolding same [symmetric] x by auto
  qed
qed

text \<open>C31: After a round the client asks the manager that was measured as the nearest, for everything: also when that manager only
  rejects its requests, because what is measured is how soon a request is over.\<close>

theorem nearest_manager_is_asked:
  assumes sort: "sort_law mt" and lat: "takes k mt lat"
    and s: "\<not> node_locked s" "center_Information s \<noteq> []"
    and ids: "ci_centerID (centre_info k s) \<noteq> []" "inj_on (centre_name (centre_info k s)) (set (ci_centerID (centre_info k s)))"
  shows "wp (bnd (measure_round k mt) (\<lambda>_. get_manager)) (\<lambda>r s'.
    \<exists>i \<in> set (ci_centerID (centre_info k s)). r = Val (node_url (centre_entry (centre_info k s) i)) \<and>
      (\<forall>j \<in> set (ci_centerID (centre_info k s)).
        lat (measured_url (centre_info k s) i) \<le> lat (measured_url (centre_info k s) j))) s"
    (is "wp _ ?Q s")
proof -
  let ?ci = "centre_info k s"
  let ?M = "distances lat ?ci (ci_centerID ?ci) []"
  have M: "set ?M = (\<lambda>j. (centre_name ?ci j, of_int (lat (measured_url ?ci j)))) ` set (ci_centerID ?ci)"
    by (rule distances_set [OF ids(2)])
  then have "?M \<noteq> []" using ids(1) by (cases ?M) auto
  from sorted_first [OF sort this] obtain n r ys where
    ys: "mt_sort mt ?M = (n, r) # ys" "(n, r) \<in> set ?M" "\<And>n' r'. (n', r') \<in> set ?M \<Longrightarrow> r \<le> r'" by blast
  from ys(2) M obtain i where i: "i \<in> set (ci_centerID ?ci)" "n = centre_name ?ci i" "r = of_int (lat (measured_url ?ci i))" by auto
  have near: "lat (measured_url ?ci i) \<le> lat (measured_url ?ci j)" if "j \<in> set (ci_centerID ?ci)" for j
    using ys(3) [of "centre_name ?ci j" "of_int (lat (measured_url ?ci j))"] M that i(3) by auto
  have found: "find (\<lambda>j. centre_name ?ci j = n) (ci_centerID ?ci) = Some i"
    using find_Some_iff [of "\<lambda>j. centre_name ?ci j = n" "ci_centerID ?ci"] find_None_iff [of "\<lambda>j. centre_name ?ci j = n" "ci_centerID ?ci"]
      ids(2) i by (cases "find (\<lambda>j. centre_name ?ci j = n) (ci_centerID ?ci)") (auto simp: inj_on_def)
  have ci: "centre_info k (s\<lparr>net_env := e\<rparr>) = ?ci" for e by (simp add: centre_info_def)
  have run: "wp (bnd (write_rtt k (mt_sort mt ?M)) (\<lambda>_. get_manager)) (\<lambda>r s'. r = Val (node_url (centre_entry ?ci i))) (s\<lparr>net_env := e\<rparr>)" for e
    using s by (simp add: write_rtt_def get_manager_def getNode_def ys(1) ci getmapIdName_def Let_def found node_url_def)
  have good: "?Q (Val (node_url (centre_entry ?ci i))) s'" for s' using near i(1) by blast
  have "wp (bnd (write_rtt k (mt_sort mt ?M)) (\<lambda>_. get_manager)) ?Q (s\<lparr>net_env := e\<rparr>)" for e
    by (rule wp_mono [OF run]) (use good in \<open>simp only:\<close>)
  then have all: "wp (measure_all k mt ?ci (ci_centerID ?ci) []) (\<lambda>r s'. case r of
      Val m \<Rightarrow> wp (bnd (write_rtt k (mt_sort mt m)) (\<lambda>_. get_manager)) ?Q s' | Crash c \<Rightarrow> ?Q (Crash c) s') s"
    by (intro wp_measure_all [OF lat]) simp
  show ?thesis
    using s(2) by (simp add: measure_round_def getRTT_def) (rule wp_mono [OF all], simp split: outcome.splits)
qed


section \<open>A manager that is down is near\<close>

text \<open>The time is the state. The manager of the first centre answers after half a millisecond; that of the second is down and
  rejects after a microsecond.\<close>

definition sample_first :: string where
  "sample_first = measured_url sample_centers ''1''"

definition half_down :: "int net" where
  "half_down = dead_net\<lparr>rj_write := mem_write, rj_parse := mem_parse,
     net_get := (\<lambda>u token e. if u = sample_first then (Answered ''up'', e + 500000) else (Rejected, e + 1000))\<rparr>"

definition sample_meter :: "int meter" where
  "sample_meter = \<lparr>mt_clock = (\<lambda>e. (e, e)),
     mt_icmp = \<lparr>ic_now = (\<lambda>e. ((0, 0), e)), ic_pid = (\<lambda>e. 1), ic_host = (\<lambda>h. None), ic_send = (\<lambda>a b e. (False, e)),
       ic_arrivals = (\<lambda>e. ([], e))\<rparr>,
     mt_memory = replicate 4096 0, mt_reply = blank_reply, mt_sort = sort_key snd\<rparr>"

definition sample_chooser :: "int client" where
  "sample_chooser = (new_client 0)\<lparr>center_Information := serialize mem_sys ser_CenterInfo sample_centers\<rparr>"

lemma nearest_manager_is_asked_witness:
  "wp (bnd (measure_round half_down sample_meter) (\<lambda>_. get_manager))
     (\<lambda>r s'. r = Val (node_url (centre_entry sample_centers ''2''))) sample_chooser"
proof -
  have sort: "sort_law sample_meter" by (simp add: sort_law_def sample_meter_def)
  have lat: "takes half_down sample_meter (\<lambda>u. if u = sample_first then 500 else 1)"
    by (simp add: takes_def half_down_def sample_meter_def Let_def dead_net_def)
  have rj: "rj_write half_down = mem_write" "rj_parse half_down = mem_parse" by (simp_all add: half_down_def)
  have "json_law half_down" using mem_laws(1) by (simp add: json_law_def rj)
  then have ci: "centre_info half_down sample_chooser = sample_centers"
    using CenterInfo_json.load_roundtrip [OF _ wf_samples(4), of half_down]
    by (simp add: centre_info_def sample_chooser_def serialize_def rj)
  have info: "center_Information sample_chooser \<noteq> []"
  proof
    assume "center_Information sample_chooser = []"
    then have "centre_info half_down sample_chooser = load half_down des_CenterInfo [] new_CenterInfo"
      by (simp add: centre_info_def)
    moreover have "mem_parse [] = None" by (simp add: mem_parse_def)
    ultimately show False using ci by (simp add: sample_centers_def new_CenterInfo_def) (simp add: load_def deserialize_def rj new_CenterInfo_def cstr_def)
  qed
  have ids: "ci_centerID sample_centers = [''1'', ''2'']" "inj_on (centre_name sample_centers) {''1'', ''2''}"
    by (simp_all add: sample_centers_def smap_at_def)
  have far: "measured_url sample_centers ''2'' \<noteq> sample_first" 
    by (simp add: sample_first_def measured_url_def sample_centers_def smap_at_def snprintf_n_def cstr_def)
  have free: "\<not> node_locked sample_chooser" by (simp add: sample_chooser_def new_client_def)
  have here: "ci_centerID (centre_info half_down sample_chooser) \<noteq> []"
    "inj_on (centre_name (centre_info half_down sample_chooser)) (set (ci_centerID (centre_info half_down sample_chooser)))"
    unfolding ci using ids by simp_all
  show ?thesis
    by (rule wp_mono [OF nearest_manager_is_asked [OF sort lat free info here]])
      (use far in \<open>auto simp: ci ids(1) sample_first_def\<close>)
qed

end
