(* ===== verification/Spec2Isabelle.thy ===== *)
theory Spec2Isabelle
  imports Space_Lifecycle Zone_Lifecycle User_Lifecycle Registry_Props Extents Replica_Props Sync_Io Io_Worker
    Readahead_Props Write_Queue_Props Fuse_Props Ipc_Manager Udt_Writer Udt_Proxy Proxy_Start
    Cmdline_Props Manager_Props Node_Choice
begin

text \<open>
  GVDS, a virtual data space over several supercomputing centres.

  The manager is a set of servers that share one document store (Couchbase) per centre. A \<^bold>\<open>storage
  resource\<close> has a capacity; a \<^bold>\<open>space\<close> is a directory on a resource, its size counted in the
  resource's document; a \<^bold>\<open>zone\<close> groups spaces under an owner and members; an \<^bold>\<open>account\<close> is a
  user, some of whom are listed as administrators. Clients send REST requests whose bodies are JSON
  texts; a request for a space of another centre is sent on to that centre's manager.

  \<^bold>\<open>How the program is modelled.\<close> A member function is a program of type \<open>('w, 'a) prog\<close> (theory
  Prelude): from a world \<open>'w\<close> it ends with a value or in one of the states the C++ standard or the
  process gives no value for (a null dereference, a missing return, a failed assertion, an access out
  of range, a promise nobody fulfils), and with a new world. The outside is the record \<open>sys\<close> of theory
  Datastore: the Couchbase client, the operating system, the generator of identifiers, the HTTP client,
  the configuration, and the JSON library. Nothing is assumed of it in a definition; the theorems name
  what they rely on:
    \<^item> \<open>json_law\<close>: the JSON parser reads back what the writer wrote;
    \<^item> \<open>couchbase_law\<close>: a successful call did what it is documented to do, a failed write happened or
      did not, and nothing else changes a document (failures of any kind included);
    \<^item> \<open>couchbase_up\<close>: in addition no call fails but for want of the document.
  The theory Sample_World has a concrete outside that keeps all of them; the witnesses run on it.
  Variables that C++ leaves uninitialised are the fields \<open>ud_int\<close>, \<open>ud_i64\<close>, \<open>ud_bool\<close> of the outside.
  Logging is not modelled. Numbers of 64 and 32 bits are integers with the wrap-around written out.

  \<^bold>\<open>The theories.\<close>
    \<^item> Prelude: programs and their weakest preconditions, error numbers, machine integers, C strings,
      \<open>std::map\<close>.
    \<^item> Json: \<open>common/JsonSerializer.h\<close>, \<open>common/JsonSerializer.cc\<close>, \<open>common/json.h\<close>; the locale
      \<open>json_struct\<close> is the contract between the two halves of a serialised struct.
    \<^item> Structs: every struct of \<open>include/gvds_struct.h\<close>, \<open>include/aggregation_struct.h\<close>,
      \<open>common/centerinfo.h\<close> and \<open>manager/usermodel/Account.h\<close>, each an interpretation of the locale.
    \<^item> Datastore: \<open>datastore/datastore.cc\<close> and \<open>datastore/couchbase_helper.cc\<close>; Datastore_Rules: the
      rules for its calls, and the locale \<open>document_store\<close> of read-modify-write handlers, interpreted
      on it.
    \<^item> SpaceServer: \<open>manager/space/SpaceServer.cc\<close>. Space_Props: the ledger of a resource (additions,
      deductions, the invariant \<open>0 \<le> assigned \<le> total\<close> along any sequence of calls with sound amounts,
      and how it is broken by an overflow and by a negative amount). Space_Ops: resizing a space and reading the output of \<open>du\<close>.
      Space_Lifecycle: renaming, deleting, choosing a resource, creating with every
      branch.
    \<^item> MD5: \<open>manager/usermodel/MD5.cc\<close>, generic in the width of its words.
    \<^item> UserModel: \<open>manager/usermodel/UserModelServer.cc\<close>. User_Props: administrators, registration,
      login. User_Lifecycle: changing and cancelling accounts, logging out, waiting requests.
    \<^item> ZoneServer: \<open>manager/zone/ZoneServer.cc\<close>. Zone_Props: the subset test, who may change a zone
      (a safety property of any sequence of requests), sharing and unsharing. Zone_Lifecycle: locating,
      renaming, registering and cancelling zones, mapping spaces in and out.

    \<^item> Registries: \<open>manager/mconf/mconf.cc\<close>, \<open>manager/resaggregation_mgr.cc\<close>, \<open>manager/ioproxy_mgr.cc\<close>.
      Registry_Props: the invariant of the table of centres, adding and deleting, what a failed read
      loses, resources, and the proxies after a restart.
    \<^item> Config: \<open>config/ConfigureSettings.h\<close>, \<open>config/ConfigureSettings.cc\<close> and \<open>config/default_config.hpp\<close>; the tree
      of settings of libconfig is a parameter with the laws \<open>conf_law\<close>. Config_Props: adding an option
      specified on the tree as a map from paths, what every option is worth after the start, a concrete library.
    \<^item> Manager_Start: \<open>manager/manager.cc\<close>, \<open>manager/main.cc\<close> and \<open>common/context.cc\<close>, on the options of Config and
      the registries of Registries. Manager_Props: what a manager serves with, and how it ends without an identity.

  \<^bold>\<open>The I/O proxy.\<close> A proxy serves the files of the spaces of its centre and replicates changes to the
  proxies of other centres. Its world is the record \<open>iop\<close> of theory Proxy_World, in which each component
  has its fields, and the outside is the record \<open>kernel\<close>: the system calls, the roaring bitmaps, protobuf
  and gRPC. Each theorem names the laws it relies on (\<open>descriptor_law\<close>, \<open>file_layout\<close>, \<open>grpc_law\<close>);
  Sample_Proxy has a concrete outside.
    \<^item> Lru: \<open>common/LRU.h\<close>, and its refinement of a plain list by recency; the locale \<open>handle_cache\<close> is
      what the descriptor manager relies on.
    \<^item> Proxy_World: the messages of \<open>common/pb/op.proto\<close>, the outside and the state.
    \<^item> Fd_Manager: \<open>io_proxy/fd_mgr.cc\<close>. Fd_Props: which descriptors are open. Extents: the searches for
      holes and for data, what they find, and when the second never ends.
    \<^item> Replica_Mgr: \<open>io_proxy/replica_mgr.cc\<close>; Proxy_Op: \<open>ProxyOP::do_op\<close> of \<open>io_proxy/proxy_op.cc\<close>.
      Replica_Props: what replication delivers, which pages a write fetches, centres past 127, and writes
      that claim more than they carry.
    \<^item> Sync_Io: \<open>io_proxy/sync_io.cc\<close>, \<open>msg/op.h\<close> and the dispatchers of the older interface.
    \<^item> Op_Queue: the queue of operations of \<open>io_proxy/io_proxy.cc\<close> and their dispatch to idle workers, what it
      keeps, when it is emptied, and that without idle workers nothing runs.
    \<^item> Udt_Writer: \<open>msg/udt_writer.cc\<close> as a step relation over all interleavings. Udt_Session: the numbers and
      promises of \<open>msg/client_session.cc\<close>. Udt_Proxy: \<open>msg/server_session.cc\<close>, and \<open>udt_net\<close>, the outside in which
      this proxy is at the other end of a client's sessions, its queue and its operations included.
    \<^item> Proxy_Start: \<open>start\<close> and \<open>fresh_stat\<close> of \<open>io_proxy/io_proxy.cc\<close>; \<open>registry_net\<close> is the outside in
      which the manager's registry of Registries answers, so that its theorems are about both programs.
    \<^item> Io_Worker: the state machine of \<open>io_proxy/io_worker.cc\<close> under the poller of
      \<open>io_proxy/grpc_impl.cc\<close>, as a step relation over all interleavings.

  \<^bold>\<open>The client.\<close> A client mounts the tree of zones, spaces and files with FUSE. Its world is the record
  \<open>client\<close> of theory Client_World; its outside is the record \<open>net\<close>: the HTTP library, gRPC, the UDT
  sockets, the clock, the configuration and the random numbers. A call of a proxy goes through \<open>net_call\<close>;
  \<open>proxy_net\<close> of Fuse_Props is the outside in which a proxy of this development answers it, so that the
  theorems there are about both programs at once. They name the laws they rely on (\<open>errno_law\<close>,
  \<open>honest\<close>, and the laws of the proxy).
    \<^item> Client_World: the state and the outside of the client, requests and sessions (\<open>client/client.cc\<close>,
      \<open>client/msg_mod.cc\<close>).
    \<^item> Client_Cache: \<open>client/cache_mod.cc\<close> and what it answers of a path.
    \<^item> Client_Paths: \<open>client/clientuser/ClientUser.cc\<close>, \<open>client/OPTNode/opt_node.cc\<close>,
      \<open>client/zone_mod.cc\<close>, \<open>client/graph_mod.cc\<close>. Client_Path_Props: which proxy a path goes to, the lock
      that is not released, and what a refresh leaves.
    \<^item> Icmp_Ping: \<open>client/OPTNode/myping.cc\<close>, with its checksum, its packets and what it makes of answers. Node_Choice:
      the thread of \<open>client/OPTNode/opt_node.cc\<close> that measures the managers, and which of them is asked; the clock and
      \<open>std::sort\<close> are parameters (\<open>takes\<close>, \<open>sort_law\<close>).
    \<^item> Readahead: \<open>client/readahead.cc\<close>. The callback of a call is taken apart into steps (under the lock of its area, twice, and
      without), each an event like those of readers, writers and the threads of the proxies. Readahead_Props: an
      invariant of the areas and of the callbacks under way, by rule induction over every order of events in which no area
      gets another task under a callback, so that reads return the bytes of the file; and a run in which one
      does, and they do not.
    \<^item> Write_Queue: \<open>client/queue.cc\<close>, \<open>common/buffer.h\<close> and the workers of \<open>client/client_worker.cc\<close>;
      writers, dispatcher and workers interleave as lists of events. Write_Queue_Props: what is counted,
      what merging preserves, the order of writes, and the queue that never drains.
    \<^item> Fuse_Impl: \<open>client/gvds_fuse_impl.cc\<close>. Fuse_Props: the file operations of the client composed with
      those of the proxy.
    \<^item> Client_Structs: the structs of \<open>client/clientuser/ClientAuth_struct.h\<close> and \<open>client/ipc_struct.h\<close> that
      the commands use, interpretations of \<open>json_struct\<close> like those of Structs.

  \<^bold>\<open>The command line.\<close> The programs of the command line send the client a request over a socket, the
  client turns names into identifiers, asks the manager and answers with a text. \<open>manager_net\<close> of
  Ipc_Manager is the outside in which the servers of the manager of this development answer the client.
    \<^item> Ipc_Texts: the texts of the answers, in UTF-8. Ipc_Message: the framing of \<open>common/ipc\<close>; a session
      and its peer over whole streams of bytes, what they agree on and when an answer is too long.
    \<^item> Ipc_Commands, Ipc_Account: \<open>client/ipc_mod.cc\<close>, the commands on spaces and zones, and those on
      accounts, rights, centres, resources and applications, with the choice among them.
    \<^item> Ipc_Props: what the commands ask of the manager and what they answer, their errors included.
      Ipc_Manager: applying for an account, its approval and the login, across client and manager.
    \<^item> Cmdline: \<open>cmdline/CmdLineProxy.cc\<close> and the exchange of one request for one answer that every program
      makes; the options are read by a parameter \<open>po_parse\<close>, for boost::program_options. Cmdline_Space and
      Cmdline_User: the \<open>main\<close> of each program of \<open>cmdline/spacecmdline\<close>, \<open>cmdline/zonecmdline\<close>,
      \<open>cmdline/usercmdline\<close> and their neighbours, what it asks and what it prints; Cmdline_Texts: the texts
      it prints. Cmdline_Props: a program asks at most for its own command, its request reaches the client, what
      is printed, and what a user is told when nobody answers; \<open>client_cli\<close> is the outside in which the client
      of this development is at the other end of the socket.

  \<^bold>\<open>Loops.\<close> Every loop of the servers runs over a vector or a map, so the definitions are structurally
  recursive and total. In the proxy the two searches of a file are \<open>partial_function\<close>s, whose value
  None is a search that never ends; \<open>checkAndExpire\<close> terminates because every round shortens the table;
  and two loops that the outside drives (walking a directory tree, retrying a write) take the fuel
  \<open>loop_fuel\<close> of the outside, a bound on the directories there are and on the descriptors that are stale.

  In the client reading ahead terminates because every round leaves fewer bytes; waiting for room in the
  queue runs the events that the outside gives and blocks forever when they do not make room.

  A session reads a stream of bytes until it ends or a header is no length; \<open>session_run\<close> and
  \<open>read_messages\<close> terminate because every message takes at least the four bytes of its header.

  The threads of the proxy's queue and of the UDT writer run forever; each of their rounds is one step, and a
  thread that waits is a step that is not possible.

  \<^bold>\<open>Not modelled.\<close> The sockets of UDT and boost::asio and the splitting of a stream into messages by
  msgpack, the rpclib layer and its bindings (no longer registered) with \<open>queue_and_wait\<close>, the monitor of
  the proxy (not started), starting threads and the log. Reading the options of a
  command line is boost's and the file of options libconfig's, both parameters. The vendored headers of libcouchbase are the outside.
\<close>

end
